(* ===== verification/TcPrelude.thy ===== *)
theory TcPrelude
  imports Main "HOL-Library.Word" "HOL-Library.List_Lexorder" "HOL-Library.Char_ord"
begin

text \<open>
  Shared vocabulary of the development: the machine integers of the C++ sources, the
  ordered map that stands for \<^verbatim>\<open>std::map\<close> (with its contract as the locale
  \<open>ordered_map\<close>), and the collections of rewrite rules that the component theories fill.
\<close>

section \<open>Machine integers\<close>

type_synonym u8 = "8 word"
type_synonym u32 = "32 word"
type_synonym u64 = "64 word"
type_synonym i32 = int

abbreviation (input) UINT32_MAX :: u32 where
  "UINT32_MAX \<equiv> 4294967295"

named_theorems rwlock_defs
named_theorems lock_defs
named_theorems ipc_defs
named_theorems msg_defs

lemma u32_max_eq: "UINT32_MAX = - 1"
  by simp

lemma mod_shift_neq: "0 < k \<Longrightarrow> k < m \<Longrightarrow> (a + k) mod m \<noteq> a mod (m :: nat)"
  by (metis add_diff_cancel_left' le_add1 mod_eq_dvd_iff_nat nat_dvd_not_less)

lemma unat_u32_le: "unat (x :: u32) \<le> 4294967295"
proof -
  have "unat x < 2 ^ LENGTH(32)"
    by (rule unsigned_less)
  then show ?thesis by simp
qed

lemma u32_succ_nonzero: "x \<noteq> UINT32_MAX \<Longrightarrow> x + 1 \<noteq> (0 :: u32)"
  by (metis add_eq_0_iff2 u32_max_eq)

lemma unat_u32_succ:
  assumes "x \<noteq> UINT32_MAX"
  shows "unat (x + 1 :: u32) = Suc (unat x)"
  using u32_succ_nonzero [OF assms] by (simp add: unatSuc add.commute)

lemma unat_u32_pred:
  assumes "x \<noteq> (0 :: u32)"
  shows "unat (x - 1) = unat x - 1"
  using assms by (simp add: unat_gt_0 unat_minus_one)

lemma unat_u32_neq_max: "unat (x :: u32) < 4294967295 \<Longrightarrow> x \<noteq> UINT32_MAX"
  by auto


section \<open>Ordered maps\<close>

text \<open>
  A \<^verbatim>\<open>std::map\<close> is an association list whose keys are strictly increasing: iteration
  order is key order, which the sources rely on whenever they scan a map for the first
  entry with a property. \<open>sm_put\<close> is \<^verbatim>\<open>m[k] = v\<close>, \<open>sm_erase\<close> is
  \<^verbatim>\<open>m.erase(k)\<close>, \<open>map_of\<close> is \<^verbatim>\<open>m.find(k)\<close>.
\<close>

type_synonym ('k, 'v) stdmap = "('k \<times> 'v) list"

definition sm_ok :: "('k::linorder, 'v) stdmap \<Rightarrow> bool" where
  "sm_ok m \<longleftrightarrow> sorted_wrt (<) (map fst m)"

fun sm_put :: "'k::linorder \<Rightarrow> 'v \<Rightarrow> ('k, 'v) stdmap \<Rightarrow> ('k, 'v) stdmap" where
  "sm_put k v [] = [(k, v)]"
| "sm_put k v (e # m) =
     (if fst e < k then e # sm_put k v m
      else if fst e = k then (k, v) # m
      else (k, v) # e # m)"

definition sm_erase :: "'k \<Rightarrow> ('k, 'v) stdmap \<Rightarrow> ('k, 'v) stdmap" where
  "sm_erase k m = filter (\<lambda>e. fst e \<noteq> k) m"

text \<open>The first entry, in key order, whose value satisfies a predicate.\<close>

fun sm_first :: "('v \<Rightarrow> bool) \<Rightarrow> ('k, 'v) stdmap \<Rightarrow> 'k option" where
  "sm_first P [] = None"
| "sm_first P (e # m) = (if P (snd e) then Some (fst e) else sm_first P m)"

lemma sm_ok_Nil [simp]: "sm_ok []"
  by (simp add: sm_ok_def)

lemma sm_ok_Cons [simp]:
  "sm_ok (e # m) \<longleftrightarrow> (\<forall>k \<in> fst ` set m. fst e < k) \<and> sm_ok m"
  by (simp add: sm_ok_def)

lemma fst_set_sm_put: "fst ` set (sm_put k v m) = insert k (fst ` set m)"
  by (induction m) auto

lemma sm_ok_put [simp]: "sm_ok m \<Longrightarrow> sm_ok (sm_put k v m)"
  by (induction m) (auto simp: fst_set_sm_put)

lemma sm_ok_erase [simp]: "sm_ok m \<Longrightarrow> sm_ok (sm_erase k m)"
  by (induction m) (auto simp: sm_erase_def)

lemma map_of_sm_put [simp]: "map_of (sm_put k v m) k' = (if k' = k then Some v else map_of m k')"
  by (induction m) auto

lemma map_of_sm_erase [simp]: "map_of (sm_erase k m) k' = (if k' = k then None else map_of m k')"
  by (induction m) (auto simp: sm_erase_def)

lemma sm_ok_distinct: "sm_ok m \<Longrightarrow> distinct (map fst m)"
  unfolding sm_ok_def by (simp add: strict_sorted_iff)

lemma sm_in_set_map_of: "sm_ok m \<Longrightarrow> map_of m k = Some v \<longleftrightarrow> (k, v) \<in> set m"
  by (simp add: sm_ok_distinct)

lemma sm_put_nonempty [simp]: "sm_put k v m \<noteq> []"
  by (cases m) auto

lemma sm_put_singleton: "sm_put k v [] = [(k, v)]"
  by simp

lemma dom_map_of_sm_put [simp]: "dom (map_of (sm_put k v m)) = insert k (dom (map_of m))"
  by (auto simp: dom_def)

lemma sm_put_neq: "k \<notin> fst ` set m \<Longrightarrow> length (sm_put k v m) = Suc (length m)"
  by (induction m) auto

lemma sm_put_put: "sm_put k w (sm_put k v m) = sm_put k w m"
  by (induction m) auto

lemma sm_erase_put_new: "map_of m k = None \<Longrightarrow> sm_ok m \<Longrightarrow> sm_erase k (sm_put k v m) = m"
  by (induction m) (auto simp: sm_erase_def map_of_eq_None_iff filter_id_conv image_iff)

lemma sm_first_None: "sm_first P m = None \<longleftrightarrow> (\<forall>v \<in> snd ` set m. \<not> P v)"
  by (induction m) auto

lemma sm_first_SomeD:
  assumes "sm_first P m = Some k" and "sm_ok m"
  shows "\<exists>v. map_of m k = Some v \<and> P v"
proof -
  from assms(1) have "\<exists>v. (k, v) \<in> set m \<and> P v"
    by (induction m) (auto split: if_splits)
  then show ?thesis
    using assms(2) by (auto simp: sm_in_set_map_of)
qed

lemma sm_first_least:
  assumes "sm_first P m = Some k" and "sm_ok m" and "map_of m k' = Some v'" and "P v'"
  shows "k \<le> k'"
proof -
  from assms(2,3) have "(k', v') \<in> set m"
    by (simp add: sm_in_set_map_of)
  with assms(1,2,4) show ?thesis
    by (induction m) (force split: if_splits)+
qed

lemma sm_first_Some_exI:
  assumes "map_of m k = Some v" and "P v"
  shows "\<exists>k'. sm_first P m = Some k'"
  using assms map_of_SomeD [OF assms(1)] by (cases "sm_first P m") (force simp: sm_first_None)+


section \<open>The contract of an ordered map\<close>

text \<open>
  What a client of \<^verbatim>\<open>std::map\<close> may rely on: point-wise lookup after an assignment
  and after an erasure, and a scan that yields the least matching key.
\<close>

locale ordered_map =
  fixes ok :: "'m \<Rightarrow> bool"
    and lookup :: "'m \<Rightarrow> 'k::linorder \<Rightarrow> 'v option"
    and put :: "'k \<Rightarrow> 'v \<Rightarrow> 'm \<Rightarrow> 'm"
    and erase :: "'k \<Rightarrow> 'm \<Rightarrow> 'm"
    and first :: "('v \<Rightarrow> bool) \<Rightarrow> 'm \<Rightarrow> 'k option"
  assumes ok_put: "ok m \<Longrightarrow> ok (put k v m)"
    and ok_erase: "ok m \<Longrightarrow> ok (erase k m)"
    and lookup_put: "ok m \<Longrightarrow> lookup (put k v m) k' = (if k' = k then Some v else lookup m k')"
    and lookup_erase: "ok m \<Longrightarrow> lookup (erase k m) k' = (if k' = k then None else lookup m k')"
    and first_Some: "ok m \<Longrightarrow> first P m = Some k \<Longrightarrow> \<exists>v. lookup m k = Some v \<and> P v"
    and first_least: "ok m \<Longrightarrow> first P m = Some k \<Longrightarrow> lookup m k' = Some v' \<Longrightarrow> P v' \<Longrightarrow> k \<le> k'"
    and first_complete: "ok m \<Longrightarrow> lookup m k = Some v \<Longrightarrow> P v \<Longrightarrow> first P m \<noteq> None"
begin

lemma erase_put: "ok m \<Longrightarrow> lookup (erase k (put k v m)) k' = (if k' = k then None else lookup m k')"
  by (simp add: lookup_erase lookup_put ok_put)

lemma put_all:
  assumes "ok m" and "\<And>k' v'. lookup m k' = Some v' \<Longrightarrow> Q k' v'" and "Q k v"
    and "lookup (put k v m) k' = Some v'"
  shows "Q k' v'"
  using assms by (auto simp: lookup_put split: if_splits)

lemma erase_all:
  assumes "ok m" and "\<And>k' v'. lookup m k' = Some v' \<Longrightarrow> Q k' v'"
    and "lookup (erase k m) k' = Some v'"
  shows "Q k' v'"
  using assms by (auto simp: lookup_erase split: if_splits)

lemma first_unique:
  assumes "ok m" and "lookup m k = Some v" and "P v"
    and "\<And>k' v'. lookup m k' = Some v' \<Longrightarrow> P v' \<Longrightarrow> k' = k"
  shows "first P m = Some k"
  using assms first_complete first_Some by (metis not_None_eq)

lemma first_eq_iff:
  assumes "ok m"
  shows "first P m = Some k \<longleftrightarrow>
    (\<exists>v. lookup m k = Some v \<and> P v \<and> (\<forall>k' v'. lookup m k' = Some v' \<longrightarrow> P v' \<longrightarrow> k \<le> k'))"
proof
  assume "first P m = Some k"
  with assms show "\<exists>v. lookup m k = Some v \<and> P v \<and>
      (\<forall>k' v'. lookup m k' = Some v' \<longrightarrow> P v' \<longrightarrow> k \<le> k')"
    using first_Some first_least by blast
next
  assume "\<exists>v. lookup m k = Some v \<and> P v \<and>
      (\<forall>k' v'. lookup m k' = Some v' \<longrightarrow> P v' \<longrightarrow> k \<le> k')"
  then obtain v where v: "lookup m k = Some v" "P v"
    and least: "\<And>k' v'. lookup m k' = Some v' \<Longrightarrow> P v' \<Longrightarrow> k \<le> k'"
    by blast
  from assms v obtain j where j: "first P m = Some j"
    using first_complete by blast
  with assms v least show "first P m = Some k"
    using first_Some first_least by (metis order_antisym)
qed

end

interpretation sm: ordered_map sm_ok map_of sm_put sm_erase sm_first
proof unfold_locales
  fix m :: "('k::linorder, 'v) stdmap" and P k v
  assume "sm_ok m" and "map_of m k = Some v" and "P v"
  then show "sm_first P m \<noteq> None"
    using sm_first_Some_exI [of m k v P] by auto
qed (auto dest: sm_first_SomeD sm_first_least)

end
