(* ===== verification/TcTypes.thy ===== *)
theory TcTypes
  imports TcPrelude
begin

text \<open>
  The enumerations of the transaction coordinator: its externally visible services and
  status codes (\<^verbatim>\<open>unc/tc/external/tc_services.h\<close>), the lock vocabulary
  (\<^verbatim>\<open>tc_module_data.hh\<close>, \<^verbatim>\<open>tc_lock.hh\<close>), the message vocabulary shared
  with the daemons (\<^verbatim>\<open>uncxx/tclib/tclib_defs.hh\<close>) and the result codes of the
  message layer (\<^verbatim>\<open>tcmsg.hh\<close>). An enumeration that the code obtains by casting an
  integer read from a request has one more constructor for the values outside the list.
\<close>

section \<open>Services and status codes\<close>

datatype TcServiceType =
    TC_OP_CONFIG_ACQUIRE | TC_OP_CONFIG_RELEASE | TC_OP_CONFIG_ACQUIRE_TIMED
  | TC_OP_CONFIG_ACQUIRE_PARTIAL | TC_OP_CONFIG_ACQUIRE_FORCE
  | TC_OP_CANDIDATE_COMMIT | TC_OP_CANDIDATE_COMMIT_TIMED
  | TC_OP_CANDIDATE_ABORT | TC_OP_CANDIDATE_ABORT_TIMED
  | TC_OP_RUNNING_SAVE | TC_OP_CLEAR_STARTUP
  | TC_OP_READ_ACQUIRE | TC_OP_READ_RELEASE
  | TC_OP_READ_RUNNING_STATUS | TC_OP_READ_STARTUP_STATUS
  | TC_OP_AUTOSAVE_GET | TC_OP_AUTOSAVE_ENABLE | TC_OP_AUTOSAVE_DISABLE
  | TC_OP_USER_AUDIT | TC_OP_DRIVER_AUDIT | TC_OP_INVALID
  | TC_OP_OTHER u32

definition service_list :: "TcServiceType list" where
  "service_list =
    [TC_OP_CONFIG_ACQUIRE, TC_OP_CONFIG_RELEASE, TC_OP_CONFIG_ACQUIRE_TIMED,
     TC_OP_CONFIG_ACQUIRE_PARTIAL, TC_OP_CONFIG_ACQUIRE_FORCE,
     TC_OP_CANDIDATE_COMMIT, TC_OP_CANDIDATE_COMMIT_TIMED,
     TC_OP_CANDIDATE_ABORT, TC_OP_CANDIDATE_ABORT_TIMED,
     TC_OP_RUNNING_SAVE, TC_OP_CLEAR_STARTUP,
     TC_OP_READ_ACQUIRE, TC_OP_READ_RELEASE,
     TC_OP_READ_RUNNING_STATUS, TC_OP_READ_STARTUP_STATUS,
     TC_OP_AUTOSAVE_GET, TC_OP_AUTOSAVE_ENABLE, TC_OP_AUTOSAVE_DISABLE,
     TC_OP_USER_AUDIT, TC_OP_DRIVER_AUDIT, TC_OP_INVALID]"

text \<open>The cast \<^verbatim>\<open>(TcServiceType)n\<close> and the value of a service as an integer.\<close>

definition to_service :: "u32 \<Rightarrow> TcServiceType" where
  "to_service n =
     (if unat n < length service_list then service_list ! unat n else TC_OP_OTHER n)"

fun service_num :: "TcServiceType \<Rightarrow> u32" where
  "service_num TC_OP_CONFIG_ACQUIRE = 0"
| "service_num TC_OP_CONFIG_RELEASE = 1"
| "service_num TC_OP_CONFIG_ACQUIRE_TIMED = 2"
| "service_num TC_OP_CONFIG_ACQUIRE_PARTIAL = 3"
| "service_num TC_OP_CONFIG_ACQUIRE_FORCE = 4"
| "service_num TC_OP_CANDIDATE_COMMIT = 5"
| "service_num TC_OP_CANDIDATE_COMMIT_TIMED = 6"
| "service_num TC_OP_CANDIDATE_ABORT = 7"
| "service_num TC_OP_CANDIDATE_ABORT_TIMED = 8"
| "service_num TC_OP_RUNNING_SAVE = 9"
| "service_num TC_OP_CLEAR_STARTUP = 10"
| "service_num TC_OP_READ_ACQUIRE = 11"
| "service_num TC_OP_READ_RELEASE = 12"
| "service_num TC_OP_READ_RUNNING_STATUS = 13"
| "service_num TC_OP_READ_STARTUP_STATUS = 14"
| "service_num TC_OP_AUTOSAVE_GET = 15"
| "service_num TC_OP_AUTOSAVE_ENABLE = 16"
| "service_num TC_OP_AUTOSAVE_DISABLE = 17"
| "service_num TC_OP_USER_AUDIT = 18"
| "service_num TC_OP_DRIVER_AUDIT = 19"
| "service_num TC_OP_INVALID = 20"
| "service_num (TC_OP_OTHER n) = n"

datatype TcOperStatus =
    TC_OPER_FAILURE | TC_OPER_INVALID_INPUT | TC_OPER_SUCCESS
  | TC_CONFIG_NOT_PRESENT | TC_CONFIG_PRESENT | TC_STATE_CHANGED
  | TC_INVALID_CONFIG_ID | TC_INVALID_OPERATION_TYPE | TC_INVALID_SESSION_ID
  | TC_INVALID_STATE | TC_OPER_ABORT | TC_SESSION_ALREADY_ACTIVE
  | TC_SESSION_NOT_ACTIVE | TC_SYSTEM_BUSY | TC_SYSTEM_FAILURE
  | TC_OPER_FORBIDDEN | TC_OPER_AUDIT_CANCELLED | TC_OPER_SIMPLIFIED_AUDIT
  | TC_OPER_DRIVER_NOT_PRESENT

text \<open>The value written into a response by \<^verbatim>\<open>set_uint32\<close> (negative codes wrap).\<close>

fun status_num :: "TcOperStatus \<Rightarrow> u32" where
  "status_num TC_OPER_FAILURE = - 11"
| "status_num TC_OPER_INVALID_INPUT = - 10"
| "status_num TC_OPER_SUCCESS = 0"
| "status_num TC_CONFIG_NOT_PRESENT = 100"
| "status_num TC_CONFIG_PRESENT = 101"
| "status_num TC_STATE_CHANGED = 102"
| "status_num TC_INVALID_CONFIG_ID = 103"
| "status_num TC_INVALID_OPERATION_TYPE = 104"
| "status_num TC_INVALID_SESSION_ID = 105"
| "status_num TC_INVALID_STATE = 106"
| "status_num TC_OPER_ABORT = 107"
| "status_num TC_SESSION_ALREADY_ACTIVE = 108"
| "status_num TC_SESSION_NOT_ACTIVE = 109"
| "status_num TC_SYSTEM_BUSY = 110"
| "status_num TC_SYSTEM_FAILURE = 111"
| "status_num TC_OPER_FORBIDDEN = 112"
| "status_num TC_OPER_AUDIT_CANCELLED = 113"
| "status_num TC_OPER_SIMPLIFIED_AUDIT = 114"
| "status_num TC_OPER_DRIVER_NOT_PRESENT = 200"

datatype TcConfigMode =
    TC_CONFIG_INVALID | TC_CONFIG_GLOBAL | TC_CONFIG_REAL | TC_CONFIG_VIRTUAL
  | TC_CONFIG_VTN | TC_CONFIG_OTHER u32

definition to_config_mode :: "u32 \<Rightarrow> TcConfigMode" where
  "to_config_mode n =
     (if n = 0 then TC_CONFIG_INVALID else if n = 1 then TC_CONFIG_GLOBAL
      else if n = 2 then TC_CONFIG_REAL else if n = 3 then TC_CONFIG_VIRTUAL
      else if n = 4 then TC_CONFIG_VTN else TC_CONFIG_OTHER n)"

fun config_mode_num :: "TcConfigMode \<Rightarrow> u32" where
  "config_mode_num TC_CONFIG_INVALID = 0"
| "config_mode_num TC_CONFIG_GLOBAL = 1"
| "config_mode_num TC_CONFIG_REAL = 2"
| "config_mode_num TC_CONFIG_VIRTUAL = 3"
| "config_mode_num TC_CONFIG_VTN = 4"
| "config_mode_num (TC_CONFIG_OTHER n) = n"


section \<open>The vocabulary of the lock\<close>

datatype TcState = TC_INIT | TC_ACT | TC_SBY | TC_STOP | TC_ACT_FAIL

datatype TcOperation =
    TC_OPERATION_NONE | TC_ACQUIRE_CONFIG_SESSION | TC_RELEASE_CONFIG_SESSION
  | TC_FORCE_ACQUIRE_CONFIG_SESSION | TC_ACQUIRE_READ_SESSION
  | TC_RELEASE_READ_SESSION | TC_ACQUIRE_WRITE_SESSION | TC_RELEASE_WRITE_SESSION
  | TC_AUTO_SAVE_ENABLE | TC_AUTO_SAVE_DISABLE | TC_AUTO_SAVE_GET
  | TC_ACQUIRE_READ_LOCK_FOR_STATE_TRANSITION
  | TC_RELEASE_READ_LOCK_FOR_STATE_TRANSITION

datatype TcWriteOperation =
    TC_WRITE_NONE | TC_AUDIT_USER | TC_AUDIT_DRIVER | TC_COMMIT
  | TC_ABORT_CANDIDATE_CONFIG | TC_CLEAR_STARTUP_CONFIG | TC_SAVE_STARTUP_CONFIG

datatype TcNotifyOperation = TC_NOTIFY_NONE | TC_NOTIFY_ACQUIRE | TC_NOTIFY_RELEASE

datatype TcSessionOperationProgress =
    TC_NO_OPERATION_PROGRESS | TC_CONFIG_COMMIT_PROGRESS
  | TC_WRITE_AUDIT_USER_PROGRESS | TC_WRITE_AUDIT_DRIVER_PROGRESS
  | TC_CONFIG_NOTIFY_ACQUIRE_PROGRESS | TC_CONFIG_NOTIFY_RELEASE_PROGRESS
  | TC_CONFIG_NO_NOTIFY_PROGRESS | TC_READ_PROGRESS
  | TC_WRITE_ABORT_CANDIDATE_CONFIG_PROGRESS
  | TC_WRITE_SAVE_STARTUP_CONFIG_PROGRESS
  | TC_WRITE_CLEAR_STARTUP_CONFIG_PROGRESS | TC_INVALID_OPERATION_PROGRESS

datatype TcLockRet =
    TC_LOCK_SUCCESS | TC_LOCK_NO_CONFIG_SESSION_EXIST | TC_LOCK_NOT_ACQUIRED
  | TC_LOCK_INVALID_CONFIG_ID | TC_LOCK_INVALID_OPERATION
  | TC_LOCK_INVALID_SESSION_ID | TC_LOCK_INVALID_UNC_STATE
  | TC_LOCK_ALREADY_ACQUIRED | TC_LOCK_BUSY | TC_LOCK_OPERATION_NOT_ALLOWED
  | TC_LOCK_INVALID_PARAMS | TC_LOCK_FAILURE

text \<open>The integer value of a lock result (the enumeration starts at 1).\<close>

fun lock_ret_num :: "TcLockRet \<Rightarrow> u32" where
  "lock_ret_num TC_LOCK_SUCCESS = 1"
| "lock_ret_num TC_LOCK_NO_CONFIG_SESSION_EXIST = 2"
| "lock_ret_num TC_LOCK_NOT_ACQUIRED = 3"
| "lock_ret_num TC_LOCK_INVALID_CONFIG_ID = 4"
| "lock_ret_num TC_LOCK_INVALID_OPERATION = 5"
| "lock_ret_num TC_LOCK_INVALID_SESSION_ID = 6"
| "lock_ret_num TC_LOCK_INVALID_UNC_STATE = 7"
| "lock_ret_num TC_LOCK_ALREADY_ACQUIRED = 8"
| "lock_ret_num TC_LOCK_BUSY = 9"
| "lock_ret_num TC_LOCK_OPERATION_NOT_ALLOWED = 10"
| "lock_ret_num TC_LOCK_INVALID_PARAMS = 11"
| "lock_ret_num TC_LOCK_FAILURE = 12"


section \<open>The vocabulary of the messages\<close>

datatype TcDaemonName =
    TC_NONE | TC_UPLL | TC_UPPL | TC_DRV_OPENFLOW | TC_DRV_OVERLAY
  | TC_DRV_POLC | TC_DRV_VAN | TC_DRV_ODC

datatype TcMsgOperType =
    MSG_NONE | MSG_NOTIFY_CONFIGID | MSG_SETUP | MSG_SETUP_COMPLETE
  | MSG_COMMIT_TRANS_START | MSG_COMMIT_VOTE | MSG_COMMIT_DRIVER_VOTE
  | MSG_COMMIT_VOTE_DRIVER_RESULT | MSG_COMMIT_GLOBAL | MSG_COMMIT_DRIVER_GLOBAL
  | MSG_COMMIT_GLOBAL_DRIVER_RESULT | MSG_COMMIT_TRANS_END
  | MSG_AUDIT_START | MSG_AUDIT_TRANS_START | MSG_AUDIT_VOTE
  | MSG_AUDIT_DRIVER_VOTE | MSG_AUDIT_VOTE_DRIVER_RESULT | MSG_AUDIT_GLOBAL
  | MSG_AUDIT_DRIVER_GLOBAL | MSG_AUDIT_GLOBAL_DRIVER_RESULT
  | MSG_AUDIT_TRANS_END | MSG_AUDIT_END | MSG_AUDIT_CANCEL
  | MSG_SAVE_CONFIG | MSG_CLEAR_CONFIG | MSG_ABORT_CANDIDATE | MSG_AUDITDB
  | MSG_COMMIT_ABORT | MSG_AUDIT_ABORT | MSG_GET_DRIVERID
  | MSG_CONTROLLER_TYPE | MSG_AUTOSAVE_ENABLE | MSG_AUTOSAVE_DISABLE | MSG_MAX

fun msg_num :: "TcMsgOperType \<Rightarrow> u8" where
  "msg_num MSG_NONE = 0" | "msg_num MSG_NOTIFY_CONFIGID = 1"
| "msg_num MSG_SETUP = 2" | "msg_num MSG_SETUP_COMPLETE = 3"
| "msg_num MSG_COMMIT_TRANS_START = 4" | "msg_num MSG_COMMIT_VOTE = 5"
| "msg_num MSG_COMMIT_DRIVER_VOTE = 6" | "msg_num MSG_COMMIT_VOTE_DRIVER_RESULT = 7"
| "msg_num MSG_COMMIT_GLOBAL = 8" | "msg_num MSG_COMMIT_DRIVER_GLOBAL = 9"
| "msg_num MSG_COMMIT_GLOBAL_DRIVER_RESULT = 10" | "msg_num MSG_COMMIT_TRANS_END = 11"
| "msg_num MSG_AUDIT_START = 12" | "msg_num MSG_AUDIT_TRANS_START = 13"
| "msg_num MSG_AUDIT_VOTE = 14" | "msg_num MSG_AUDIT_DRIVER_VOTE = 15"
| "msg_num MSG_AUDIT_VOTE_DRIVER_RESULT = 16" | "msg_num MSG_AUDIT_GLOBAL = 17"
| "msg_num MSG_AUDIT_DRIVER_GLOBAL = 18" | "msg_num MSG_AUDIT_GLOBAL_DRIVER_RESULT = 19"
| "msg_num MSG_AUDIT_TRANS_END = 20" | "msg_num MSG_AUDIT_END = 21"
| "msg_num MSG_AUDIT_CANCEL = 22" | "msg_num MSG_SAVE_CONFIG = 23"
| "msg_num MSG_CLEAR_CONFIG = 24" | "msg_num MSG_ABORT_CANDIDATE = 25"
| "msg_num MSG_AUDITDB = 26" | "msg_num MSG_COMMIT_ABORT = 27"
| "msg_num MSG_AUDIT_ABORT = 28" | "msg_num MSG_GET_DRIVERID = 29"
| "msg_num MSG_CONTROLLER_TYPE = 30" | "msg_num MSG_AUTOSAVE_ENABLE = 31"
| "msg_num MSG_AUTOSAVE_DISABLE = 32" | "msg_num MSG_MAX = 33"

text \<open>
  Service identifiers of the daemons' \<^verbatim>\<open>tclib\<close> endpoint, in the order of the source.
\<close>

datatype TcLibServiceId =
    TCLIB_NOTIFY_SESSION_CONFIG | TCLIB_COMMIT_TRANSACTION
  | TCLIB_COMMIT_DRV_VOTE_GLOBAL | TCLIB_COMMIT_DRV_RESULT
  | TCLIB_COMMIT_GLOBAL_ABORT | TCLIB_AUDIT_TRANSACTION
  | TCLIB_AUDIT_DRV_VOTE_GLOBAL | TCLIB_AUDIT_DRV_RESULT
  | TCLIB_AUDIT_GLOBAL_ABORT | TCLIB_AUDIT_CANCEL | TCLIB_SAVE_CONFIG
  | TCLIB_CLEAR_STARTUP | TCLIB_USER_ABORT | TCLIB_SETUP | TCLIB_SETUP_COMPLETE
  | TCLIB_GET_DRIVERID | TCLIB_AUDIT_CONFIG | TCLIB_CONTROLLER_TYPE
  | TCLIB_AUTOSAVE_ENABLE | TCLIB_AUTOSAVE_DISABLE

fun tclib_num :: "TcLibServiceId \<Rightarrow> u32" where
  "tclib_num TCLIB_NOTIFY_SESSION_CONFIG = 0"
| "tclib_num TCLIB_COMMIT_TRANSACTION = 1"
| "tclib_num TCLIB_COMMIT_DRV_VOTE_GLOBAL = 2"
| "tclib_num TCLIB_COMMIT_DRV_RESULT = 3"
| "tclib_num TCLIB_COMMIT_GLOBAL_ABORT = 4"
| "tclib_num TCLIB_AUDIT_TRANSACTION = 5"
| "tclib_num TCLIB_AUDIT_DRV_VOTE_GLOBAL = 6"
| "tclib_num TCLIB_AUDIT_DRV_RESULT = 7"
| "tclib_num TCLIB_AUDIT_GLOBAL_ABORT = 8"
| "tclib_num TCLIB_AUDIT_CANCEL = 9"
| "tclib_num TCLIB_SAVE_CONFIG = 10"
| "tclib_num TCLIB_CLEAR_STARTUP = 11"
| "tclib_num TCLIB_USER_ABORT = 12"
| "tclib_num TCLIB_SETUP = 13"
| "tclib_num TCLIB_SETUP_COMPLETE = 14"
| "tclib_num TCLIB_GET_DRIVERID = 15"
| "tclib_num TCLIB_AUDIT_CONFIG = 16"
| "tclib_num TCLIB_CONTROLLER_TYPE = 17"
| "tclib_num TCLIB_AUTOSAVE_ENABLE = 18"
| "tclib_num TCLIB_AUTOSAVE_DISABLE = 19"

datatype TcAuditResult =
    TC_AUDIT_FAILURE | TC_AUDIT_SUCCESS | TC_AUDIT_CANCELLED | TC_SIMPLIFIED_AUDIT_SUCCESS

fun audit_result_num :: "TcAuditResult \<Rightarrow> u8" where
  "audit_result_num TC_AUDIT_FAILURE = 0"
| "audit_result_num TC_AUDIT_SUCCESS = 1"
| "audit_result_num TC_AUDIT_CANCELLED = 2"
| "audit_result_num TC_SIMPLIFIED_AUDIT_SUCCESS = 3"

datatype unc_keytype_datatype_t =
    UNC_DT_INVALID | UNC_DT_STATE | UNC_DT_CANDIDATE | UNC_DT_RUNNING | UNC_DT_STARTUP
  | UNC_DT_IMPORT | UNC_DT_AUDIT | UNC_DT_OTHER u32

fun datatype_num :: "unc_keytype_datatype_t \<Rightarrow> u32" where
  "datatype_num UNC_DT_INVALID = 0" | "datatype_num UNC_DT_STATE = 1"
| "datatype_num UNC_DT_CANDIDATE = 2" | "datatype_num UNC_DT_RUNNING = 3"
| "datatype_num UNC_DT_STARTUP = 4" | "datatype_num UNC_DT_IMPORT = 5"
| "datatype_num UNC_DT_AUDIT = 6" | "datatype_num (UNC_DT_OTHER n) = n"

definition to_datatype :: "u32 \<Rightarrow> unc_keytype_datatype_t" where
  "to_datatype n =
     (if n = 0 then UNC_DT_INVALID else if n = 1 then UNC_DT_STATE
      else if n = 2 then UNC_DT_CANDIDATE else if n = 3 then UNC_DT_RUNNING
      else if n = 4 then UNC_DT_STARTUP else if n = 5 then UNC_DT_IMPORT
      else if n = 6 then UNC_DT_AUDIT else UNC_DT_OTHER n)"

text \<open>Controller types are kept as the integers the daemons send (keys of ordered maps).\<close>

type_synonym unc_keytype_ctrtype_t = u32

abbreviation (input) UNC_CT_UNKNOWN :: unc_keytype_ctrtype_t where "UNC_CT_UNKNOWN \<equiv> 0"
abbreviation (input) UNC_CT_PFC :: unc_keytype_ctrtype_t where "UNC_CT_PFC \<equiv> 1"
abbreviation (input) UNC_CT_VNP :: unc_keytype_ctrtype_t where "UNC_CT_VNP \<equiv> 2"
abbreviation (input) UNC_CT_POLC :: unc_keytype_ctrtype_t where "UNC_CT_POLC \<equiv> 3"
abbreviation (input) UNC_CT_VAN :: unc_keytype_ctrtype_t where "UNC_CT_VAN \<equiv> 4"
abbreviation (input) UNC_CT_ODC :: unc_keytype_ctrtype_t where "UNC_CT_ODC \<equiv> 5"

text \<open>Responses of the daemons: \<^verbatim>\<open>TcCommonRet\<close> as it travels in a \<^verbatim>\<open>pfc_ipcresp_t\<close>.\<close>

abbreviation (input) TC_SUCCESS :: u32 where "TC_SUCCESS \<equiv> 0"
abbreviation (input) TC_FAILURE :: u32 where "TC_FAILURE \<equiv> 1"
abbreviation (input) TC_SIMPLIFIED_AUDIT :: u32 where "TC_SIMPLIFIED_AUDIT \<equiv> 2"
abbreviation (input) TC_CANCELLED_AUDIT :: u32 where "TC_CANCELLED_AUDIT \<equiv> 3"
abbreviation (input) TC_LAST_DB_OPER_FAILURE :: u32 where "TC_LAST_DB_OPER_FAILURE \<equiv> 4"

datatype TcTransEndResult = TRANS_END_FAILURE | TRANS_END_SUCCESS

fun trans_end_num :: "TcTransEndResult \<Rightarrow> u8" where
  "trans_end_num TRANS_END_FAILURE = 0"
| "trans_end_num TRANS_END_SUCCESS = 1"

datatype TcCommitOpAbortPhase = COMMIT_TRANSACTION_START | COMMIT_VOTE_REQUEST

fun abort_phase_num :: "TcCommitOpAbortPhase \<Rightarrow> u8" where
  "abort_phase_num COMMIT_TRANSACTION_START = 0"
| "abort_phase_num COMMIT_VOTE_REQUEST = 1"

datatype TcCommitPhaseType =
    TC_COMMIT_VOTE_PHASE | TC_COMMIT_GLOBAL_COMMIT_PHASE
  | TC_AUDIT_VOTE_PHASE | TC_AUDIT_GLOBAL_COMMIT_PHASE

fun commit_phase_num :: "TcCommitPhaseType \<Rightarrow> u8" where
  "commit_phase_num TC_COMMIT_VOTE_PHASE = 0"
| "commit_phase_num TC_COMMIT_GLOBAL_COMMIT_PHASE = 1"
| "commit_phase_num TC_AUDIT_VOTE_PHASE = 2"
| "commit_phase_num TC_AUDIT_GLOBAL_COMMIT_PHASE = 3"

datatype TcUtilRet = TCUTIL_RET_SUCCESS | TCUTIL_RET_FAILURE | TCUTIL_RET_FATAL

datatype TcOperRet =
    TCOPER_RET_SUCCESS | TCOPER_RET_FAILURE | TCOPER_RET_FATAL | TCOPER_RET_ABORT
  | TCOPER_RET_NO_DRIVER | TCOPER_RET_UNKNOWN | TCOPER_RET_SIMPLIFIED_AUDIT
  | TCOPER_RET_AUDIT_CANCELLED | TCOPER_RET_LAST_DB_OP_FAILED

type_synonym TcChannelNameMap = "TcDaemonName \<Rightarrow> string option"


section \<open>Casts and values agree\<close>

text \<open>
  Casting the value of a service back yields the service, and the value of a cast is the
  integer that was cast, so no request code is confused with another one.
\<close>

lemma service_nums: "map service_num service_list = map word_of_nat [0..<21]"
  by (simp add: service_list_def upt_rec)

lemma length_service_list: "length service_list = 21"
  by (simp add: service_list_def)

lemma service_num_nth: "i < 21 \<Longrightarrow> service_num (service_list ! i) = word_of_nat i"
  using arg_cong [OF service_nums, of "\<lambda>xs. xs ! i"] by (simp add: length_service_list)

lemma service_num_to_service: "service_num (to_service n) = n"
  by (simp add: to_service_def length_service_list service_num_nth)

lemma to_service_service_num: "s \<in> set service_list \<Longrightarrow> to_service (service_num s) = s"
  by (auto simp: to_service_def service_list_def)

lemma config_mode_num_to_config_mode: "config_mode_num (to_config_mode n) = n"
  by (simp add: to_config_mode_def)

end
