(* ===== verification/TcRwLock.thy ===== *)
theory TcRwLock
  imports TcTypes
begin

text \<open>
  The readers/writer lock \<^verbatim>\<open>TcReadWriteLock\<close> of \<^verbatim>\<open>tc_module_data.hh\<close>: one
  32-bit owner word counts the readers and is \<^verbatim>\<open>RW_OWNER_WRLOCKED\<close> while a writer
  holds the lock. The condition variable \<^verbatim>\<open>rw_cond\<close> is represented by the number of
  broadcasts sent on it. \<^verbatim>\<open>PFC_ASSERT\<close> is compiled out of production builds, so the
  operations here run on every state and the asserted conditions are hypotheses of the
  lemmas. The abstract lock is the datatype \<open>rw_view\<close>; the operations refine it, and the
  locale \<open>rw_contract\<close> is the interface the lock manager relies on.
\<close>

section \<open>State and operations\<close>

record TcReadWriteLock =
  rw_owner :: u32
  r_waiter :: u32
  w_session_id :: u32
  w_waiter :: u32
  w_operation :: TcWriteOperation
  last_write_op :: TcWriteOperation
  rw_broadcasts :: nat

abbreviation (input) RW_OWNER_WRLOCKED :: u32 where
  "RW_OWNER_WRLOCKED \<equiv> UINT32_MAX"

definition R_READERS_MAX :: u32 where
  "R_READERS_MAX = UINT32_MAX - 1"

definition rw_init :: TcReadWriteLock where
  "rw_init = \<lparr>rw_owner = 0, r_waiter = 0, w_session_id = 0, w_waiter = 0,
     w_operation = TC_WRITE_NONE, last_write_op = TC_WRITE_NONE, rw_broadcasts = 0\<rparr>"

definition isWaiting :: "TcReadWriteLock \<Rightarrow> bool" where
  "isWaiting l \<longleftrightarrow> r_waiter l \<noteq> 0 \<or> w_waiter l \<noteq> 0"

definition wakeUp :: "TcReadWriteLock \<Rightarrow> TcReadWriteLock" where
  "wakeUp l = (if isWaiting l then l\<lparr>rw_broadcasts := Suc (rw_broadcasts l)\<rparr> else l)"

text \<open>
  The two halves of a wait: what happens before the thread sleeps on the condition variable
  and what happens when it runs again.
\<close>

definition waitForRead_sleep :: "TcReadWriteLock \<Rightarrow> TcReadWriteLock" where
  "waitForRead_sleep l = l\<lparr>r_waiter := r_waiter l + 1\<rparr>"

definition waitForRead_wake :: "TcReadWriteLock \<Rightarrow> TcReadWriteLock" where
  "waitForRead_wake l = l\<lparr>r_waiter := r_waiter l - 1\<rparr>"

definition waitForWrite_sleep :: "TcReadWriteLock \<Rightarrow> TcReadWriteLock" where
  "waitForWrite_sleep l = l\<lparr>w_waiter := w_waiter l + 1\<rparr>"

definition waitForWrite_wake :: "TcReadWriteLock \<Rightarrow> TcReadWriteLock" where
  "waitForWrite_wake l = l\<lparr>w_waiter := w_waiter l - 1\<rparr>"

definition canReadLock :: "TcReadWriteLock \<Rightarrow> bool" where
  "canReadLock l \<longleftrightarrow> rw_owner l \<noteq> RW_OWNER_WRLOCKED \<and> w_waiter l = 0"

definition setReader :: "TcReadWriteLock \<Rightarrow> TcReadWriteLock" where
  "setReader l = l\<lparr>rw_owner := rw_owner l + 1\<rparr>"

definition canWriteLock :: "TcReadWriteLock \<Rightarrow> bool" where
  "canWriteLock l \<longleftrightarrow> rw_owner l = 0"

definition clearWriter :: "TcReadWriteLock \<Rightarrow> TcReadWriteLock" where
  "clearWriter l = l\<lparr>w_session_id := 0, w_operation := TC_WRITE_NONE\<rparr>"

definition setWriter :: "u32 \<Rightarrow> TcWriteOperation \<Rightarrow> TcReadWriteLock \<Rightarrow> TcReadWriteLock" where
  "setWriter sid op l =
     l\<lparr>rw_owner := RW_OWNER_WRLOCKED, w_session_id := sid, w_operation := op\<rparr>"

definition isWriteHeld :: "TcReadWriteLock \<Rightarrow> bool" where
  "isWriteHeld l \<longleftrightarrow> rw_owner l = RW_OWNER_WRLOCKED"

definition isWriteHeld_by :: "u32 \<Rightarrow> TcReadWriteLock \<Rightarrow> bool" where
  "isWriteHeld_by sid l \<longleftrightarrow> isWriteHeld l \<and> w_session_id l = sid"

definition tryLock_read :: "TcReadWriteLock \<Rightarrow> bool \<times> TcReadWriteLock" where
  "tryLock_read l = (if canReadLock l then (True, setReader l) else (False, l))"

definition tryLock_write ::
  "u32 \<Rightarrow> TcWriteOperation \<Rightarrow> TcReadWriteLock \<Rightarrow> bool \<times> TcReadWriteLock" where
  "tryLock_write sid op l =
     (if canWriteLock l then (True, setWriter sid op l) else (False, l))"

definition unlock_read :: "TcReadWriteLock \<Rightarrow> TcReadWriteLock" where
  "unlock_read l =
     (let l' = l\<lparr>rw_owner := rw_owner l - 1\<rparr>
      in if rw_owner l' = 0 then wakeUp l' else l')"

definition unlock_write ::
  "u32 \<Rightarrow> TcWriteOperation \<Rightarrow> TcReadWriteLock \<Rightarrow> bool \<times> TcReadWriteLock" where
  "unlock_write sid op l =
     (if \<not> isWriteHeld_by sid l \<or> w_operation l \<noteq> op then (False, l)
      else (True, wakeUp ((clearWriter (l\<lparr>last_write_op := w_operation l\<rparr>))\<lparr>rw_owner := 0\<rparr>)))"

lemmas rw_op_defs [rwlock_defs] =
  isWaiting_def wakeUp_def waitForRead_sleep_def waitForRead_wake_def
  waitForWrite_sleep_def waitForWrite_wake_def canReadLock_def setReader_def
  canWriteLock_def clearWriter_def setWriter_def isWriteHeld_def isWriteHeld_by_def
  tryLock_read_def tryLock_write_def unlock_read_def unlock_write_def Let_def


section \<open>The abstract lock\<close>

datatype rw_view = Unlocked | ReadLocked nat | WriteLocked u32 TcWriteOperation

definition view_of :: "TcReadWriteLock \<Rightarrow> rw_view" where
  "view_of l =
     (if rw_owner l = 0 then Unlocked
      else if rw_owner l = RW_OWNER_WRLOCKED then WriteLocked (w_session_id l) (w_operation l)
      else ReadLocked (unat (rw_owner l)))"

fun view_readers :: "rw_view \<Rightarrow> nat" where
  "view_readers Unlocked = 0"
| "view_readers (ReadLocked n) = n"
| "view_readers (WriteLocked _ _) = 0"

fun abs_try_read :: "bool \<Rightarrow> rw_view \<Rightarrow> bool \<times> rw_view" where
  "abs_try_read w (WriteLocked s op) = (False, WriteLocked s op)"
| "abs_try_read w v = (if w then (False, v) else (True, ReadLocked (Suc (view_readers v))))"

fun abs_try_write :: "u32 \<Rightarrow> TcWriteOperation \<Rightarrow> rw_view \<Rightarrow> bool \<times> rw_view" where
  "abs_try_write s op Unlocked = (True, WriteLocked s op)"
| "abs_try_write s op v = (False, v)"

fun abs_unlock_read :: "rw_view \<Rightarrow> rw_view" where
  "abs_unlock_read (ReadLocked n) = (if n = 1 then Unlocked else ReadLocked (n - 1))"
| "abs_unlock_read v = v"

fun abs_unlock_write :: "u32 \<Rightarrow> TcWriteOperation \<Rightarrow> rw_view \<Rightarrow> bool \<times> rw_view" where
  "abs_unlock_write s op (WriteLocked s' op') =
     (if s = s' \<and> op = op' then (True, Unlocked) else (False, WriteLocked s' op'))"
| "abs_unlock_write s op v = (False, v)"

text \<open>The number of readers leaves room for one more (the bound the code asserts).\<close>

definition reader_room :: "TcReadWriteLock \<Rightarrow> bool" where
  "reader_room l \<longleftrightarrow> rw_owner l \<noteq> R_READERS_MAX"

text \<open>Writer data is cleared whenever no writer holds the lock.\<close>

definition rw_ok :: "TcReadWriteLock \<Rightarrow> bool" where
  "rw_ok l \<longleftrightarrow> (rw_owner l \<noteq> RW_OWNER_WRLOCKED \<longrightarrow>
                 w_session_id l = 0 \<and> w_operation l = TC_WRITE_NONE)"

lemma rw_broadcasts_view [simp]: "view_of (l\<lparr>rw_broadcasts := n\<rparr>) = view_of l"
  by (simp add: view_of_def)

lemma wakeUp_simps [simp]:
  "rw_owner (wakeUp l) = rw_owner l" "w_session_id (wakeUp l) = w_session_id l"
  "w_operation (wakeUp l) = w_operation l" "r_waiter (wakeUp l) = r_waiter l"
  "w_waiter (wakeUp l) = w_waiter l" "last_write_op (wakeUp l) = last_write_op l"
  by (simp_all add: wakeUp_def)

lemma view_wakeUp [simp]: "view_of (wakeUp l) = view_of l"
  by (simp add: wakeUp_def)

lemma unat_owner_pos: "rw_owner l \<noteq> 0 \<Longrightarrow> 0 < unat (rw_owner l)"
  by (simp add: unat_gt_0)

lemma tryLock_read_refines:
  assumes "reader_room l"
  shows "map_prod id view_of (tryLock_read l) = abs_try_read (w_waiter l \<noteq> 0) (view_of l)"
proof (cases "rw_owner l = RW_OWNER_WRLOCKED")
  case True
  then show ?thesis by (simp add: tryLock_read_def canReadLock_def view_of_def)
next
  case False
  from False have nz: "rw_owner l + 1 \<noteq> 0"
    by (rule u32_succ_nonzero)
  from assms have nm: "rw_owner l + 1 \<noteq> RW_OWNER_WRLOCKED"
    by (metis R_READERS_MAX_def add_diff_cancel_right' reader_room_def)
  have "unat (rw_owner l + 1) = Suc (unat (rw_owner l))"
    using False by (rule unat_u32_succ)
  with False nz nm show ?thesis
    by (simp add: tryLock_read_def canReadLock_def view_of_def setReader_def)
qed

lemma tryLock_write_refines:
  "map_prod id view_of (tryLock_write s op l) = abs_try_write s op (view_of l)"
  by (simp add: tryLock_write_def canWriteLock_def view_of_def setWriter_def)

lemma unlock_read_refines:
  assumes "rw_owner l \<noteq> 0" and "rw_owner l \<noteq> RW_OWNER_WRLOCKED"
  shows "view_of (unlock_read l) = abs_unlock_read (view_of l)"
proof -
  let ?o = "rw_owner l"
  have pred: "unat (?o - 1) = unat ?o - 1"
    using assms(1) by (rule unat_u32_pred)
  have one: "?o - 1 = 0 \<longleftrightarrow> unat ?o = 1"
    by (metis diff_add_cancel diff_self unsigned_1 unsigned_word_eqI)
  have "?o - 1 \<noteq> RW_OWNER_WRLOCKED"
    using assms(1) by (metis diff_add_cancel u32_max_eq add.right_inverse add.commute)
  with assms pred one show ?thesis
    by (auto simp: unlock_read_def view_of_def Let_def)
qed

lemma unlock_write_refines:
  "map_prod id view_of (unlock_write s op l) = abs_unlock_write s op (view_of l)"
  by (auto simp: unlock_write_def isWriteHeld_by_def isWriteHeld_def view_of_def clearWriter_def)

lemma view_ReadLockedD:
  "view_of l = ReadLocked n \<Longrightarrow> rw_owner l \<noteq> 0 \<and> rw_owner l \<noteq> RW_OWNER_WRLOCKED \<and> n = unat (rw_owner l)"
  by (auto simp: view_of_def split: if_splits)

lemma rw_ok_init [simp]: "rw_ok rw_init"
  by (simp add: rw_ok_def rw_init_def)

lemma rw_ok_ops:
  assumes "rw_ok l"
  shows rw_ok_wakeUp: "rw_ok (wakeUp l)"
    and rw_ok_tryLock_read: "rw_ok (snd (tryLock_read l))"
    and rw_ok_tryLock_write: "rw_ok (snd (tryLock_write s op l))"
    and rw_ok_unlock_write: "rw_ok (snd (unlock_write s op l))"
    and rw_ok_unlock_read: "rw_owner l \<noteq> RW_OWNER_WRLOCKED \<Longrightarrow> rw_ok (unlock_read l)"
  using assms by (auto simp: rw_ok_def rwlock_defs)


section \<open>The contract of a readers/writer lock\<close>

text \<open>
  What the lock manager relies on: the four operations act on the abstract view as the
  abstract lock does, for the states the implementation admits. The exclusion laws follow
  once and for all.
\<close>

locale rw_contract =
  fixes room :: "'l \<Rightarrow> bool"
    and waiting :: "'l \<Rightarrow> bool"
    and view :: "'l \<Rightarrow> rw_view"
    and try_read :: "'l \<Rightarrow> bool \<times> 'l"
    and try_write :: "u32 \<Rightarrow> TcWriteOperation \<Rightarrow> 'l \<Rightarrow> bool \<times> 'l"
    and release_read :: "'l \<Rightarrow> 'l"
    and release_write :: "u32 \<Rightarrow> TcWriteOperation \<Rightarrow> 'l \<Rightarrow> bool \<times> 'l"
  assumes try_read_view:
      "room l \<Longrightarrow> map_prod id view (try_read l) = abs_try_read (waiting l) (view l)"
    and try_write_view:
      "map_prod id view (try_write s op l) = abs_try_write s op (view l)"
    and release_read_view:
      "view l = ReadLocked n \<Longrightarrow> view (release_read l) = abs_unlock_read (view l)"
    and release_write_view:
      "map_prod id view (release_write s op l) = abs_unlock_write s op (view l)"
begin

lemma try_write_ok_iff: "fst (try_write s op l) \<longleftrightarrow> view l = Unlocked"
  using try_write_view [of s op l] by (cases "view l"; cases "try_write s op l") auto

lemma try_write_view_ok: "fst (try_write s op l) \<Longrightarrow> view (snd (try_write s op l)) = WriteLocked s op"
  using try_write_view [of s op l] by (cases "view l"; cases "try_write s op l") auto

lemma try_read_ok_iff:
  "room l \<Longrightarrow> fst (try_read l) \<longleftrightarrow> \<not> waiting l \<and> (\<forall>s op. view l \<noteq> WriteLocked s op)"
  using try_read_view [of l] by (cases "view l"; cases "try_read l") (auto split: if_splits)

lemma writer_excludes_readers:
  assumes "fst (try_write s op l)" and "room (snd (try_write s op l))"
  shows "\<not> fst (try_read (snd (try_write s op l)))"
  using try_read_ok_iff [OF assms(2)] try_write_view_ok [OF assms(1)] by simp

lemma writer_excludes_writers:
  assumes "fst (try_write s op l)"
  shows "\<not> fst (try_write s' op' (snd (try_write s op l)))"
  by (simp add: try_write_ok_iff try_write_view_ok [OF assms])

lemma readers_exclude_writers:
  assumes "room l" and "fst (try_read l)"
  shows "\<not> fst (try_write s op (snd (try_read l)))"
  using try_read_view [OF assms(1)] assms(2)
  by (cases "view l"; cases "try_read l") (auto simp: try_write_ok_iff split: if_splits)

lemma release_write_ok_iff: "fst (release_write s op l) \<longleftrightarrow> view l = WriteLocked s op"
  using release_write_view [of s op l]
  by (cases "view l"; cases "release_write s op l") (auto split: if_splits)

lemma write_release_reopens:
  assumes "fst (try_write s op l)"
  shows "fst (release_write s op (snd (try_write s op l)))"
    and "view (snd (release_write s op (snd (try_write s op l)))) = Unlocked"
  using try_write_view_ok [OF assms] release_write_view [of s op "snd (try_write s op l)"]
  by (auto simp: release_write_ok_iff prod_eq_iff)

end

interpretation rw: rw_contract reader_room "\<lambda>l. w_waiter l \<noteq> 0" view_of
    tryLock_read tryLock_write unlock_read unlock_write
proof unfold_locales
  fix l n
  assume "view_of l = ReadLocked n"
  then show "view_of (unlock_read l) = abs_unlock_read (view_of l)"
    by (blast dest: view_ReadLockedD intro: unlock_read_refines)
qed (simp_all add: tryLock_read_refines tryLock_write_refines unlock_write_refines)

end
