(* ===== verification/TcLockMgr.thy ===== *)
theory TcLockMgr
  imports TcRwLock
begin

text \<open>
  The lock manager \<^verbatim>\<open>TcLock\<close> of \<^verbatim>\<open>tc_lock.cc\<close>: configuration sessions (the ordered
  map from configuration names to \<^verbatim>\<open>TcConfigLock\<close>), read sessions, the write lock, the
  autosave flag and the state of the coordinator. Every public method runs under one global
  mutex, so each is one function on the state. A method that waits on the condition variable
  or polls for the end of the setup gives the outcome \<open>Blocked\<close> or \<open>Polling\<close>; the
  continuation after a wake-up is a function of its own.
\<close>

section \<open>State\<close>

record TcConfigLock =
  cl_config_id :: u32
  cl_session_id :: u32
  cl_marked_session_id :: u32
  cl_is_taken :: bool
  cl_is_notify_pending :: bool
  cl_notify_operation :: TcNotifyOperation

definition TcConfigLock_init :: TcConfigLock where
  "TcConfigLock_init = \<lparr>cl_config_id = 0, cl_session_id = 0, cl_marked_session_id = 0,
     cl_is_taken = False, cl_is_notify_pending = False, cl_notify_operation = TC_NOTIFY_NONE\<rparr>"

type_synonym TcConfigNameMap = "(string, TcConfigLock) stdmap"

record TcLock =
  prev_config_id :: u32
  config_name_map :: TcConfigNameMap
  read_sessions :: "u32 set"
  rwlock :: TcReadWriteLock
  auto_save_enable :: bool
  current_state :: TcState
  state_transition_in_progress :: bool
  setup_complete_done :: bool

definition TcLock_init :: TcLock where
  "TcLock_init = \<lparr>prev_config_id = 0, config_name_map = [], read_sessions = {},
     rwlock = rw_init, auto_save_enable = False, current_state = TC_INIT,
     state_transition_in_progress = False, setup_complete_done = False\<rparr>"

text \<open>How a locking method ends; \<open>Aborted\<close> is a failed \<^verbatim>\<open>PFC_VERIFY\<close>.\<close>

datatype lock_outcome = Returned TcLockRet | Blocked | Polling | Aborted


section \<open>Operations\<close>

subsection \<open>Reset and inspection\<close>

definition ResetTcGlobalDataOnStateTransition :: "TcLock \<Rightarrow> TcLock" where
  "ResetTcGlobalDataOnStateTransition s =
     s\<lparr>config_name_map := [],
       read_sessions := {},
       rwlock := (clearWriter ((rwlock s)\<lparr>rw_owner := 1\<rparr>))\<lparr>last_write_op := TC_WRITE_NONE\<rparr>,
       auto_save_enable := False,
       setup_complete_done := False\<rparr>"

definition GetUncCurrentState :: "TcLock \<Rightarrow> TcState" where
  "GetUncCurrentState s = current_state s"

definition IsStateTransitionInProgress :: "TcLock \<Rightarrow> bool" where
  "IsStateTransitionInProgress s = state_transition_in_progress s"

definition FindConfigName :: "u32 \<Rightarrow> TcLock \<Rightarrow> string option" where
  "FindConfigName sid s = sm_first (\<lambda>c. cl_session_id c = sid) (config_name_map s)"

definition GetConfigMap :: "TcLock \<Rightarrow> TcConfigNameMap" where
  "GetConfigMap s = config_name_map s"

fun GetConfigName :: "TcConfigMode \<Rightarrow> string \<Rightarrow> string" where
  "GetConfigName TC_CONFIG_GLOBAL vtn = ''global-mode''"
| "GetConfigName TC_CONFIG_REAL vtn = ''real-mode''"
| "GetConfigName TC_CONFIG_VIRTUAL vtn = ''virtual-mode''"
| "GetConfigName TC_CONFIG_VTN vtn = vtn"
| "GetConfigName _ vtn = ''''"

text \<open>\<^verbatim>\<open>map[name]\<close>: the entry, or a default-constructed one.\<close>

definition config_entry :: "string \<Rightarrow> TcLock \<Rightarrow> TcConfigLock" where
  "config_entry nm s =
     (case map_of (config_name_map s) nm of None \<Rightarrow> TcConfigLock_init | Some c \<Rightarrow> c)"

definition set_config_entry :: "string \<Rightarrow> TcConfigLock \<Rightarrow> TcLock \<Rightarrow> TcLock" where
  "set_config_entry nm c s = s\<lparr>config_name_map := sm_put nm c (config_name_map s)\<rparr>"

subsection \<open>Configuration sessions\<close>

definition GetConfigId :: "TcLock \<Rightarrow> u32 \<times> TcLock" where
  "GetConfigId s =
     (let i = (if prev_config_id s = UINT32_MAX then 1 else prev_config_id s + 1)
      in (i, s\<lparr>prev_config_id := i\<rparr>))"

definition UpdateConfigData :: "u32 \<Rightarrow> string \<Rightarrow> TcLock \<Rightarrow> TcLock" where
  "UpdateConfigData sid nm s =
     (let (i, s') = GetConfigId s
      in set_config_entry nm
           ((config_entry nm s)\<lparr>cl_session_id := sid, cl_config_id := i, cl_is_taken := True,
              cl_is_notify_pending := True, cl_notify_operation := TC_NOTIFY_ACQUIRE\<rparr>) s')"

definition entry_busy :: "string \<Rightarrow> TcLock \<Rightarrow> bool" where
  "entry_busy nm s \<longleftrightarrow>
     map_of (config_name_map s) nm \<noteq> None \<and>
     (cl_is_taken (config_entry nm s) \<or> cl_is_notify_pending (config_entry nm s))"

definition AcquireConfigLock ::
  "u32 \<Rightarrow> TcConfigMode \<Rightarrow> string \<Rightarrow> TcLock \<Rightarrow> TcLockRet \<times> TcLock" where
  "AcquireConfigLock sid mode vtn s =
     (if state_transition_in_progress s then (TC_LOCK_OPERATION_NOT_ALLOWED, s)
      else let nm = GetConfigName mode vtn
      in if nm = '''' then (TC_LOCK_INVALID_OPERATION, s)
         else if mode = TC_CONFIG_GLOBAL
         then (if config_name_map s = [] then (TC_LOCK_SUCCESS, UpdateConfigData sid nm s)
               else (TC_LOCK_BUSY, s))
         else if entry_busy ''global-mode'' s then (TC_LOCK_BUSY, s)
         else if entry_busy nm s then (TC_LOCK_BUSY, s)
         else (TC_LOCK_SUCCESS, UpdateConfigData sid nm s))"

definition ReleaseConfigLock :: "u32 \<Rightarrow> u32 \<Rightarrow> TcLock \<Rightarrow> TcLockRet \<times> TcLock" where
  "ReleaseConfigLock sid cid s =
     (case FindConfigName sid s of
        None \<Rightarrow> (TC_LOCK_NO_CONFIG_SESSION_EXIST, s)
      | Some nm \<Rightarrow>
          (let c = config_entry nm s; l = rwlock s
           in if cl_is_taken c
              then (if cid \<noteq> cl_config_id c then (TC_LOCK_INVALID_CONFIG_ID, s)
                    else if \<not> cl_is_notify_pending c \<and>
                            \<not> ((w_operation l = TC_COMMIT \<or>
                                w_operation l = TC_ABORT_CANDIDATE_CONFIG) \<and>
                               isWriteHeld_by sid l)
                    then (TC_LOCK_SUCCESS,
                          set_config_entry nm
                            (c\<lparr>cl_is_notify_pending := True, cl_is_taken := False,
                               cl_notify_operation := TC_NOTIFY_RELEASE\<rparr>) s)
                    else (TC_LOCK_BUSY, s))
              else (TC_LOCK_NOT_ACQUIRED, s)))"

definition force_refused :: "TcReadWriteLock \<Rightarrow> TcConfigLock \<Rightarrow> bool" where
  "force_refused l c \<longleftrightarrow>
     cl_is_notify_pending c \<or>
     (cl_is_taken c \<and> isWriteHeld l \<and>
      (w_operation l = TC_COMMIT \<or> w_operation l = TC_ABORT_CANDIDATE_CONFIG))"

definition ForceAcquireConfigLock :: "u32 \<Rightarrow> TcLock \<Rightarrow> TcLockRet \<times> TcLock" where
  "ForceAcquireConfigLock sid s =
     (if state_transition_in_progress s then (TC_LOCK_OPERATION_NOT_ALLOWED, s)
      else if list_ex (\<lambda>e. force_refused (rwlock s) (snd e)) (config_name_map s)
      then (TC_LOCK_BUSY, s)
      else (TC_LOCK_SUCCESS, UpdateConfigData sid ''global-mode'' (s\<lparr>config_name_map := []\<rparr>)))"

subsection \<open>Read sessions\<close>

definition AcquireReadLock :: "u32 \<Rightarrow> TcLock \<Rightarrow> TcLockRet \<times> TcLock" where
  "AcquireReadLock sid s =
     (case tryLock_read (rwlock s) of
        (False, _) \<Rightarrow> (TC_LOCK_BUSY, s)
      | (True, l) \<Rightarrow>
          if sid \<in> read_sessions s
          then (TC_LOCK_ALREADY_ACQUIRED, s\<lparr>rwlock := unlock_read l\<rparr>)
          else (TC_LOCK_SUCCESS, s\<lparr>rwlock := l, read_sessions := insert sid (read_sessions s)\<rparr>))"

text \<open>The head of the waiting loop: either the caller sleeps or it takes the lock.\<close>

definition StateTransitionLoop :: "TcLock \<Rightarrow> lock_outcome \<times> TcLock" where
  "StateTransitionLoop s =
     (if \<not> canReadLock (rwlock s) \<or> state_transition_in_progress s
      then (Blocked, s\<lparr>rwlock := waitForRead_sleep (rwlock s)\<rparr>)
      else (Returned TC_LOCK_SUCCESS,
            s\<lparr>state_transition_in_progress := True, rwlock := setReader (rwlock s)\<rparr>))"

definition TcAcquireReadLockForStateTransition :: "TcLock \<Rightarrow> lock_outcome \<times> TcLock" where
  "TcAcquireReadLockForStateTransition s =
     (if current_state s = TC_STOP then (Aborted, s) else StateTransitionLoop s)"

text \<open>The waiting thread runs again: it rechecks the state, then the loop condition.\<close>

definition StateTransitionWake :: "TcLock \<Rightarrow> lock_outcome \<times> TcLock" where
  "StateTransitionWake s =
     (let s' = s\<lparr>rwlock := waitForRead_wake (rwlock s)\<rparr>
      in if current_state s' = TC_STOP then (Returned TC_LOCK_INVALID_UNC_STATE, s')
         else StateTransitionLoop s')"

definition TcReleaseReadLockForStateTransition :: "TcLock \<Rightarrow> TcLockRet \<times> TcLock" where
  "TcReleaseReadLockForStateTransition s =
     (if state_transition_in_progress s
      then (TC_LOCK_SUCCESS,
            s\<lparr>state_transition_in_progress := False, rwlock := unlock_read (rwlock s)\<rparr>)
      else (TC_LOCK_NOT_ACQUIRED, s))"

definition ReleaseReadLock :: "u32 \<Rightarrow> TcLock \<Rightarrow> TcLockRet \<times> TcLock" where
  "ReleaseReadLock sid s =
     (if sid \<notin> read_sessions s then (TC_LOCK_NOT_ACQUIRED, s)
      else (TC_LOCK_SUCCESS,
            s\<lparr>read_sessions := read_sessions s - {sid}, rwlock := unlock_read (rwlock s)\<rparr>))"

subsection \<open>The write lock\<close>

text \<open>\<^verbatim>\<open>tryLock\<close> on the lock's own state: the code common to the acquire methods.\<close>

definition write_try :: "u32 \<Rightarrow> TcWriteOperation \<Rightarrow> TcLock \<Rightarrow> TcLockRet \<times> TcLock" where
  "write_try sid op s =
     (case tryLock_write sid op (rwlock s) of
        (True, l) \<Rightarrow> (TC_LOCK_SUCCESS, s\<lparr>rwlock := l\<rparr>)
      | (False, _) \<Rightarrow> (TC_LOCK_BUSY, s))"

definition AcquireWriteLockForAuditDriver :: "u32 \<Rightarrow> TcLock \<Rightarrow> lock_outcome \<times> TcLock" where
  "AcquireWriteLockForAuditDriver sid s =
     (if \<not> setup_complete_done s then (Polling, s)
      else map_prod Returned id (write_try sid TC_AUDIT_DRIVER s))"

definition AcquireWriteLockForCommit :: "u32 \<Rightarrow> TcLock \<Rightarrow> TcLockRet \<times> TcLock" where
  "AcquireWriteLockForCommit sid s =
     (case FindConfigName sid s of
        None \<Rightarrow> (TC_LOCK_INVALID_SESSION_ID, s)
      | Some nm \<Rightarrow>
          if \<not> cl_is_taken (config_entry nm s) \<or> cl_is_notify_pending (config_entry nm s)
          then (TC_LOCK_BUSY, s)
          else write_try sid TC_COMMIT s)"

definition AcquireWriteLockForAbortCandidateConfig :: "u32 \<Rightarrow> TcLock \<Rightarrow> TcLockRet \<times> TcLock" where
  "AcquireWriteLockForAbortCandidateConfig sid s =
     (case FindConfigName sid s of
        None \<Rightarrow> (TC_LOCK_INVALID_SESSION_ID, s)
      | Some nm \<Rightarrow>
          if \<not> cl_is_taken (config_entry nm s) \<or> cl_is_notify_pending (config_entry nm s)
          then (TC_LOCK_BUSY, s)
          else write_try sid TC_ABORT_CANDIDATE_CONFIG s)"

definition AcquireWriteLockForAuditUser :: "u32 \<Rightarrow> TcLock \<Rightarrow> TcLockRet \<times> TcLock" where
  "AcquireWriteLockForAuditUser sid s = write_try sid TC_AUDIT_USER s"

definition AcquireWriteLockForSaveStartupConfig :: "u32 \<Rightarrow> TcLock \<Rightarrow> TcLockRet \<times> TcLock" where
  "AcquireWriteLockForSaveStartupConfig sid s = write_try sid TC_SAVE_STARTUP_CONFIG s"

definition AcquireWriteLockForClearStartupConfig :: "u32 \<Rightarrow> TcLock \<Rightarrow> TcLockRet \<times> TcLock" where
  "AcquireWriteLockForClearStartupConfig sid s = write_try sid TC_CLEAR_STARTUP_CONFIG s"

fun AcquireWriteLock :: "u32 \<Rightarrow> TcWriteOperation \<Rightarrow> TcLock \<Rightarrow> lock_outcome \<times> TcLock" where
  "AcquireWriteLock sid TC_AUDIT_DRIVER s = AcquireWriteLockForAuditDriver sid s"
| "AcquireWriteLock sid TC_COMMIT s = map_prod Returned id (AcquireWriteLockForCommit sid s)"
| "AcquireWriteLock sid TC_ABORT_CANDIDATE_CONFIG s =
     map_prod Returned id (AcquireWriteLockForAbortCandidateConfig sid s)"
| "AcquireWriteLock sid TC_AUDIT_USER s =
     map_prod Returned id (AcquireWriteLockForAuditUser sid s)"
| "AcquireWriteLock sid TC_CLEAR_STARTUP_CONFIG s =
     map_prod Returned id (AcquireWriteLockForClearStartupConfig sid s)"
| "AcquireWriteLock sid TC_SAVE_STARTUP_CONFIG s =
     map_prod Returned id (AcquireWriteLockForSaveStartupConfig sid s)"
| "AcquireWriteLock sid TC_WRITE_NONE s = (Returned TC_LOCK_INVALID_OPERATION, s)"

definition ReleaseWriteLock :: "u32 \<Rightarrow> TcWriteOperation \<Rightarrow> TcLock \<Rightarrow> TcLockRet \<times> TcLock" where
  "ReleaseWriteLock sid op s =
     (case unlock_write sid op (rwlock s) of
        (True, l) \<Rightarrow> (TC_LOCK_SUCCESS, s\<lparr>rwlock := l\<rparr>)
      | (False, _) \<Rightarrow> (TC_LOCK_NOT_ACQUIRED, s))"

subsection \<open>Autosave, state and marks\<close>

definition AutoSaveEnable :: "TcLock \<Rightarrow> TcLockRet \<times> TcLock" where
  "AutoSaveEnable s =
     (if auto_save_enable s then (TC_LOCK_BUSY, s)
      else (TC_LOCK_SUCCESS, s\<lparr>auto_save_enable := True\<rparr>))"

definition AutoSaveDisable :: "TcLock \<Rightarrow> TcLockRet \<times> TcLock" where
  "AutoSaveDisable s =
     (if auto_save_enable s then (TC_LOCK_SUCCESS, s\<lparr>auto_save_enable := False\<rparr>)
      else (TC_LOCK_FAILURE, s))"

definition TcUpdateUncState :: "TcState \<Rightarrow> TcLock \<Rightarrow> TcLock" where
  "TcUpdateUncState st s =
     (if current_state s \<noteq> st \<and> current_state s \<noteq> TC_STOP
      then s\<lparr>current_state := st, rwlock := wakeUp (rwlock s)\<rparr> else s)"

definition TcOperationIsAllowed :: "u32 \<Rightarrow> TcOperation \<Rightarrow> TcLock \<Rightarrow> TcLockRet" where
  "TcOperationIsAllowed sid op s =
     (case current_state s of
        TC_ACT \<Rightarrow>
          (case FindConfigName sid s of
             None \<Rightarrow> TC_LOCK_SUCCESS
           | Some nm \<Rightarrow>
               (let marked = cl_marked_session_id (config_entry nm s)
                in if marked \<noteq> 0 \<and> marked = sid then TC_LOCK_OPERATION_NOT_ALLOWED
                   else TC_LOCK_SUCCESS))
      | TC_SBY \<Rightarrow>
          (if op \<noteq> TC_ACQUIRE_READ_SESSION \<and> op \<noteq> TC_ACQUIRE_READ_LOCK_FOR_STATE_TRANSITION
           then TC_LOCK_INVALID_UNC_STATE else TC_LOCK_SUCCESS)
      | TC_ACT_FAIL \<Rightarrow>
          (if op \<noteq> TC_ACQUIRE_READ_SESSION \<and> op \<noteq> TC_ACQUIRE_READ_LOCK_FOR_STATE_TRANSITION
           then TC_LOCK_INVALID_UNC_STATE else TC_LOCK_SUCCESS)
      | TC_INIT \<Rightarrow>
          (if op \<noteq> TC_ACQUIRE_READ_LOCK_FOR_STATE_TRANSITION
           then TC_LOCK_INVALID_UNC_STATE else TC_LOCK_SUCCESS)
      | TC_STOP \<Rightarrow> TC_LOCK_INVALID_UNC_STATE)"

definition TcMarkSessionId :: "u32 \<Rightarrow> TcLock \<Rightarrow> TcLockRet \<times> TcLock" where
  "TcMarkSessionId sid s =
     (case FindConfigName sid s of
        None \<Rightarrow> (TC_LOCK_INVALID_SESSION_ID, s)
      | Some nm \<Rightarrow>
          (let c = config_entry nm s
           in if cl_is_taken c \<and> cl_marked_session_id c = 0 \<and> sid = cl_session_id c
              then (TC_LOCK_SUCCESS, set_config_entry nm (c\<lparr>cl_marked_session_id := sid\<rparr>) s)
              else (TC_LOCK_FAILURE, s)))"

text \<open>The result is a \<^verbatim>\<open>uint32_t\<close>: the error code and a session id share one type.\<close>

definition GetMarkedSessionId :: "u32 \<Rightarrow> TcLock \<Rightarrow> u32" where
  "GetMarkedSessionId sid s =
     (case FindConfigName sid s of
        None \<Rightarrow> lock_ret_num TC_LOCK_INVALID_SESSION_ID
      | Some nm \<Rightarrow> cl_marked_session_id (config_entry nm s))"

subsection \<open>The interface of the operations\<close>

text \<open>Autosave and the startup write lock are taken together or not at all.\<close>

definition autosave_then_write :: "u32 \<Rightarrow> TcWriteOperation \<Rightarrow> TcLock \<Rightarrow> lock_outcome \<times> TcLock" where
  "autosave_then_write sid op s =
     (case AutoSaveEnable s of
        (TC_LOCK_SUCCESS, s1) \<Rightarrow>
          (case AcquireWriteLock sid op s1 of
             (Returned TC_LOCK_SUCCESS, s2) \<Rightarrow> (Returned TC_LOCK_SUCCESS, s2)
           | (r, s2) \<Rightarrow> (r, snd (AutoSaveDisable s2)))
      | (r, s1) \<Rightarrow> (Returned r, s1))"

definition GetLock ::
  "u32 \<Rightarrow> TcOperation \<Rightarrow> TcWriteOperation \<Rightarrow> TcConfigMode \<Rightarrow> string \<Rightarrow> TcLock
     \<Rightarrow> lock_outcome \<times> TcLock" where
  "GetLock sid op wop mode vtn s =
     (let ret = TcOperationIsAllowed sid op s
      in if ret \<noteq> TC_LOCK_SUCCESS then (Returned ret, s)
         else (case op of
             TC_ACQUIRE_CONFIG_SESSION \<Rightarrow> map_prod Returned id (AcquireConfigLock sid mode vtn s)
           | TC_ACQUIRE_READ_SESSION \<Rightarrow> map_prod Returned id (AcquireReadLock sid s)
           | TC_ACQUIRE_WRITE_SESSION \<Rightarrow> AcquireWriteLock sid wop s
           | TC_FORCE_ACQUIRE_CONFIG_SESSION \<Rightarrow>
               map_prod Returned id (ForceAcquireConfigLock sid s)
           | TC_AUTO_SAVE_ENABLE \<Rightarrow> autosave_then_write sid TC_CLEAR_STARTUP_CONFIG s
           | TC_AUTO_SAVE_DISABLE \<Rightarrow> autosave_then_write sid TC_SAVE_STARTUP_CONFIG s
           | TC_AUTO_SAVE_GET \<Rightarrow> map_prod Returned id (AutoSaveEnable s)
           | TC_ACQUIRE_READ_LOCK_FOR_STATE_TRANSITION \<Rightarrow> TcAcquireReadLockForStateTransition s
           | _ \<Rightarrow> (Returned TC_LOCK_INVALID_OPERATION, s)))"

definition NotifyConfigIdSessionIdDone ::
  "u32 \<Rightarrow> u32 \<Rightarrow> TcNotifyOperation \<Rightarrow> TcLock \<Rightarrow> TcLockRet \<times> TcLock" where
  "NotifyConfigIdSessionIdDone cid sid nop s =
     (case FindConfigName sid s of
        None \<Rightarrow> (TC_LOCK_INVALID_SESSION_ID, s)
      | Some nm \<Rightarrow>
          (let c = config_entry nm s
           in if cl_notify_operation c \<noteq> nop then (TC_LOCK_INVALID_OPERATION, s)
              else if cl_config_id c \<noteq> cid then (TC_LOCK_INVALID_CONFIG_ID, s)
              else let s' = set_config_entry nm
                     (c\<lparr>cl_notify_operation := TC_NOTIFY_NONE, cl_is_notify_pending := False\<rparr>) s
              in (TC_LOCK_SUCCESS,
                  if nop = TC_NOTIFY_RELEASE
                  then s'\<lparr>config_name_map := sm_erase nm (config_name_map s')\<rparr> else s')))"

definition autosave_then_unlock :: "u32 \<Rightarrow> TcWriteOperation \<Rightarrow> TcLock \<Rightarrow> TcLockRet \<times> TcLock" where
  "autosave_then_unlock sid op s =
     (case AutoSaveDisable s of
        (TC_LOCK_SUCCESS, s1) \<Rightarrow>
          (case ReleaseWriteLock sid op s1 of
             (TC_LOCK_SUCCESS, s2) \<Rightarrow> (TC_LOCK_SUCCESS, s2)
           | (r, s2) \<Rightarrow> (r, snd (AutoSaveEnable s2)))
      | (r, s1) \<Rightarrow> (r, s1))"

definition ReleaseLock ::
  "u32 \<Rightarrow> u32 \<Rightarrow> TcOperation \<Rightarrow> TcWriteOperation \<Rightarrow> TcLock \<Rightarrow> TcLockRet \<times> TcLock" where
  "ReleaseLock sid cid op wop s =
     (case op of
        TC_RELEASE_CONFIG_SESSION \<Rightarrow> ReleaseConfigLock sid cid s
      | TC_RELEASE_READ_SESSION \<Rightarrow> ReleaseReadLock sid s
      | TC_RELEASE_WRITE_SESSION \<Rightarrow> ReleaseWriteLock sid wop s
      | TC_AUTO_SAVE_ENABLE \<Rightarrow> autosave_then_unlock sid TC_CLEAR_STARTUP_CONFIG s
      | TC_AUTO_SAVE_DISABLE \<Rightarrow> autosave_then_unlock sid TC_SAVE_STARTUP_CONFIG s
      | TC_AUTO_SAVE_GET \<Rightarrow> AutoSaveDisable s
      | TC_RELEASE_READ_LOCK_FOR_STATE_TRANSITION \<Rightarrow> TcReleaseReadLockForStateTransition s
      | _ \<Rightarrow> (TC_LOCK_INVALID_OPERATION, s))"

text \<open>
  \<^verbatim>\<open>GetConfigData\<close>: the result code with the three output arguments. \<open>None\<close> stands for
  an output that the call leaves untouched.
\<close>

record config_data =
  cd_config_id :: "u32 option"
  cd_mode :: "TcConfigMode option"
  cd_vtn_name :: string

definition mode_of_name :: "string \<Rightarrow> TcConfigMode" where
  "mode_of_name nm =
     (if nm = ''global-mode'' then TC_CONFIG_GLOBAL
      else if nm = ''real-mode'' then TC_CONFIG_REAL
      else if nm = ''virtual-mode'' then TC_CONFIG_VIRTUAL
      else TC_CONFIG_VTN)"

definition GetConfigData :: "u32 \<Rightarrow> TcLock \<Rightarrow> TcLockRet \<times> config_data" where
  "GetConfigData sid s =
     (let none = \<lparr>cd_config_id = None, cd_mode = None, cd_vtn_name = ''''\<rparr>
      in if current_state s \<noteq> TC_ACT then (TC_LOCK_INVALID_UNC_STATE, none)
         else (case FindConfigName sid s of
             None \<Rightarrow> (TC_LOCK_INVALID_SESSION_ID, none)
           | Some nm \<Rightarrow>
               (let c = config_entry nm s
                in if cl_is_taken c
                   then (TC_LOCK_SUCCESS,
                         \<lparr>cd_config_id = Some (cl_config_id c), cd_mode = Some (mode_of_name nm),
                          cd_vtn_name = (if mode_of_name nm = TC_CONFIG_VTN then nm else '''')\<rparr>)
                   else (TC_LOCK_NO_CONFIG_SESSION_EXIST,
                         \<lparr>cd_config_id = Some 0, cd_mode = None, cd_vtn_name = ''''\<rparr>))))"

definition GetSessionOperation :: "u32 \<Rightarrow> TcLock \<Rightarrow> TcSessionOperationProgress" where
  "GetSessionOperation sid s =
     (let l = rwlock s; wop = w_operation l; held = isWriteHeld_by sid l;
          ent = map_option (\<lambda>nm. config_entry nm s) (FindConfigName sid s);
          taken = (case ent of None \<Rightarrow> False | Some c \<Rightarrow> cl_is_taken c)
      in if held \<and> wop = TC_COMMIT \<and> taken then TC_CONFIG_COMMIT_PROGRESS
         else if held \<and> wop = TC_AUDIT_USER then TC_WRITE_AUDIT_USER_PROGRESS
         else if held \<and> wop = TC_AUDIT_DRIVER then TC_WRITE_AUDIT_DRIVER_PROGRESS
         else if held \<and> wop = TC_ABORT_CANDIDATE_CONFIG \<and> taken
         then TC_WRITE_ABORT_CANDIDATE_CONFIG_PROGRESS
         else if held \<and> wop = TC_SAVE_STARTUP_CONFIG then TC_WRITE_SAVE_STARTUP_CONFIG_PROGRESS
         else if held \<and> wop = TC_CLEAR_STARTUP_CONFIG then TC_WRITE_CLEAR_STARTUP_CONFIG_PROGRESS
         else let fallback = (if sid \<in> read_sessions s then TC_READ_PROGRESS
                              else TC_NO_OPERATION_PROGRESS)
         in case ent of
              None \<Rightarrow> fallback
            | Some c \<Rightarrow>
                if cl_is_taken c \<or> cl_is_notify_pending c
                then (case cl_notify_operation c of
                        TC_NOTIFY_NONE \<Rightarrow> TC_CONFIG_NO_NOTIFY_PROGRESS
                      | TC_NOTIFY_ACQUIRE \<Rightarrow> TC_CONFIG_NOTIFY_ACQUIRE_PROGRESS
                      | TC_NOTIFY_RELEASE \<Rightarrow> TC_CONFIG_NOTIFY_RELEASE_PROGRESS)
                else fallback)"

definition TcSetSetupComplete :: "bool \<Rightarrow> TcLock \<Rightarrow> TcLock" where
  "TcSetSetupComplete b s = s\<lparr>setup_complete_done := b\<rparr>"

definition TcIsSetupCompleteDone :: "TcLock \<Rightarrow> bool" where
  "TcIsSetupCompleteDone s = setup_complete_done s"

definition IsLastOperationCandidate :: "TcLock \<Rightarrow> bool" where
  "IsLastOperationCandidate s \<longleftrightarrow>
     last_write_op (rwlock s) = TC_COMMIT \<or> last_write_op (rwlock s) = TC_ABORT_CANDIDATE_CONFIG"

definition TcGetCurrentWriteOperation :: "TcLock \<Rightarrow> TcWriteOperation" where
  "TcGetCurrentWriteOperation s = w_operation (rwlock s)"

definition CanWriteLock :: "TcLock \<Rightarrow> bool" where
  "CanWriteLock s = canWriteLock (rwlock s)"

end
