(* ===== verification/TcLockInv.thy ===== *)
theory TcLockInv
  imports TcLockMgr
begin

text \<open>
  The invariant of the lock manager and its preservation by every operation; then the step
  relation of the manager under an arbitrary interleaving of calls, its reachable states and
  the safety properties they satisfy.
\<close>

section \<open>The invariant\<close>

text \<open>
  An entry of the configuration map is being acquired, held or being released; its
  configuration id was handed out by \<open>GetConfigId\<close> and its mark names its own session.
\<close>

definition entry_ok :: "TcConfigLock \<Rightarrow> bool" where
  "entry_ok c \<longleftrightarrow>
     (case cl_notify_operation c of
        TC_NOTIFY_ACQUIRE \<Rightarrow> cl_is_taken c \<and> cl_is_notify_pending c
      | TC_NOTIFY_NONE \<Rightarrow> cl_is_taken c \<and> \<not> cl_is_notify_pending c
      | TC_NOTIFY_RELEASE \<Rightarrow> \<not> cl_is_taken c \<and> cl_is_notify_pending c) \<and>
     cl_config_id c \<noteq> 0 \<and>
     (cl_marked_session_id c \<noteq> 0 \<longrightarrow> cl_marked_session_id c = cl_session_id c)"

definition cfg_inv :: "TcConfigNameMap \<Rightarrow> bool" where
  "cfg_inv m \<longleftrightarrow>
     sm_ok m \<and>
     (\<forall>nm c. map_of m nm = Some c \<longrightarrow> entry_ok c) \<and>
     (\<forall>c nm d. map_of m ''global-mode'' = Some c \<longrightarrow> map_of m nm = Some d \<longrightarrow> nm = ''global-mode'')"

text \<open>The owner word counts the read sessions and the state transition.\<close>

definition own_inv :: "TcLock \<Rightarrow> bool" where
  "own_inv s \<longleftrightarrow>
     rw_ok (rwlock s) \<and> finite (read_sessions s) \<and>
     (if isWriteHeld (rwlock s)
      then read_sessions s = {} \<and> \<not> state_transition_in_progress s
      else unat (rw_owner (rwlock s)) =
             card (read_sessions s) + (if state_transition_in_progress s then 1 else 0))"

definition candidate_op :: "TcWriteOperation \<Rightarrow> bool" where
  "candidate_op op \<longleftrightarrow> op = TC_COMMIT \<or> op = TC_ABORT_CANDIDATE_CONFIG"

definition holds_config :: "u32 \<Rightarrow> TcConfigNameMap \<Rightarrow> bool" where
  "holds_config sid m \<longleftrightarrow>
     (\<exists>nm c. map_of m nm = Some c \<and> cl_session_id c = sid \<and>
             cl_is_taken c \<and> \<not> cl_is_notify_pending c)"

text \<open>A candidate operation runs only in a session that holds a configuration.\<close>

definition cand_inv :: "TcLock \<Rightarrow> bool" where
  "cand_inv s \<longleftrightarrow>
     (isWriteHeld (rwlock s) \<longrightarrow> candidate_op (w_operation (rwlock s)) \<longrightarrow>
      holds_config (w_session_id (rwlock s)) (config_name_map s))"

definition lock_inv :: "TcLock \<Rightarrow> bool" where
  "lock_inv s \<longleftrightarrow>
     cfg_inv (config_name_map s) \<and>
     (current_state s \<noteq> TC_STOP \<longrightarrow> own_inv s \<and> cand_inv s)"

lemma cfg_inv_Nil [simp]: "cfg_inv []"
  by (simp add: cfg_inv_def)

lemma lock_inv_init: "lock_inv TcLock_init"
  by (simp add: lock_inv_def TcLock_init_def own_inv_def cand_inv_def isWriteHeld_def rw_init_def
      rw_ok_def)


section \<open>Configuration entries\<close>

lemma cfg_inv_entryD: "cfg_inv m \<Longrightarrow> map_of m nm = Some c \<Longrightarrow> entry_ok c"
  by (simp add: cfg_inv_def)

lemma entry_ok_active: "entry_ok c \<Longrightarrow> cl_is_taken c \<or> cl_is_notify_pending c"
  by (auto simp: entry_ok_def split: TcNotifyOperation.splits)

lemma entry_busy_iff:
  assumes "cfg_inv (config_name_map s)"
  shows "entry_busy nm s \<longleftrightarrow> map_of (config_name_map s) nm \<noteq> None"
proof (cases "map_of (config_name_map s) nm")
  case (Some c)
  with assms have "cl_is_taken c \<or> cl_is_notify_pending c"
    by (intro entry_ok_active cfg_inv_entryD)
  with Some show ?thesis
    by (simp add: entry_busy_def config_entry_def)
qed (simp add: entry_busy_def)

lemma FindConfigName_SomeD:
  assumes "FindConfigName sid s = Some nm" and "cfg_inv (config_name_map s)"
  shows "map_of (config_name_map s) nm = Some (config_entry nm s) \<and>
         cl_session_id (config_entry nm s) = sid \<and> entry_ok (config_entry nm s)"
proof -
  from assms obtain c where "map_of (config_name_map s) nm = Some c" and "cl_session_id c = sid"
    unfolding FindConfigName_def cfg_inv_def using sm.first_Some by blast
  with assms(2) show ?thesis
    by (auto simp: config_entry_def dest: cfg_inv_entryD)
qed

lemma FindConfigName_None:
  assumes "cfg_inv (config_name_map s)"
  shows "FindConfigName sid s = None \<longleftrightarrow>
     (\<forall>nm c. map_of (config_name_map s) nm = Some c \<longrightarrow> cl_session_id c \<noteq> sid)"
proof -
  have "snd ` set (config_name_map s) = ran (map_of (config_name_map s))"
    using assms by (simp add: cfg_inv_def sm_ok_distinct ran_distinct)
  then show ?thesis
    by (auto simp: FindConfigName_def sm_first_None ran_def)
qed

lemma cfg_inv_put:
  assumes "cfg_inv m" and "entry_ok c"
    and "nm = ''global-mode'' \<Longrightarrow> dom (map_of m) \<subseteq> {''global-mode''}"
    and "map_of m ''global-mode'' \<noteq> None \<Longrightarrow> nm = ''global-mode''"
  shows "cfg_inv (sm_put nm c m)"
  using assms unfolding cfg_inv_def by (auto split: if_splits)

lemma cfg_inv_globalD:
  "cfg_inv m \<Longrightarrow> map_of m ''global-mode'' = Some c \<Longrightarrow> map_of m nm = Some d \<Longrightarrow>
   nm = ''global-mode''"
  unfolding cfg_inv_def by blast

lemma cfg_inv_replace:
  assumes "cfg_inv m" and "map_of m nm = Some d" and "entry_ok c"
  shows "cfg_inv (sm_put nm c m)"
proof (rule cfg_inv_put [OF assms(1,3)])
  show "dom (map_of m) \<subseteq> {''global-mode''}" if "nm = ''global-mode''"
  proof
    fix x
    assume "x \<in> dom (map_of m)"
    then obtain e where "map_of m x = Some e" by blast
    then show "x \<in> {''global-mode''}"
      using cfg_inv_globalD [OF assms(1)] assms(2) that by blast
  qed
  show "nm = ''global-mode''" if "map_of m ''global-mode'' \<noteq> None"
    using cfg_inv_globalD [OF assms(1) _ assms(2)] that by blast
qed

lemma cfg_inv_erase: "cfg_inv m \<Longrightarrow> cfg_inv (sm_erase nm m)"
  unfolding cfg_inv_def by (auto split: if_splits)

lemma GetConfigId_nonzero: "fst (GetConfigId s) \<noteq> 0"
  by (auto simp: GetConfigId_def Let_def dest: u32_succ_nonzero)

lemma UpdateConfigData_fields [simp]:
  "read_sessions (UpdateConfigData sid nm s) = read_sessions s"
  "rwlock (UpdateConfigData sid nm s) = rwlock s"
  "auto_save_enable (UpdateConfigData sid nm s) = auto_save_enable s"
  "current_state (UpdateConfigData sid nm s) = current_state s"
  "state_transition_in_progress (UpdateConfigData sid nm s) = state_transition_in_progress s"
  "setup_complete_done (UpdateConfigData sid nm s) = setup_complete_done s"
  by (simp_all add: UpdateConfigData_def GetConfigId_def set_config_entry_def Let_def)

text \<open>What \<open>UpdateConfigData\<close> stores for a name that has no entry yet.\<close>

definition fresh_entry :: "u32 \<Rightarrow> u32 \<Rightarrow> TcConfigLock" where
  "fresh_entry sid cid = \<lparr>cl_config_id = cid, cl_session_id = sid, cl_marked_session_id = 0,
     cl_is_taken = True, cl_is_notify_pending = True, cl_notify_operation = TC_NOTIFY_ACQUIRE\<rparr>"

lemma UpdateConfigData_map:
  assumes "map_of (config_name_map s) nm = None"
  shows "config_name_map (UpdateConfigData sid nm s) =
           sm_put nm (fresh_entry sid (fst (GetConfigId s))) (config_name_map s)"
  using assms
  by (simp add: UpdateConfigData_def GetConfigId_def set_config_entry_def config_entry_def
      fresh_entry_def TcConfigLock_init_def Let_def)

lemma entry_ok_fresh: "cid \<noteq> 0 \<Longrightarrow> entry_ok (fresh_entry sid cid)"
  by (simp add: entry_ok_def fresh_entry_def)

lemma set_config_entry_fields [simp]:
  "read_sessions (set_config_entry nm c s) = read_sessions s"
  "rwlock (set_config_entry nm c s) = rwlock s"
  "auto_save_enable (set_config_entry nm c s) = auto_save_enable s"
  "current_state (set_config_entry nm c s) = current_state s"
  "state_transition_in_progress (set_config_entry nm c s) = state_transition_in_progress s"
  "setup_complete_done (set_config_entry nm c s) = setup_complete_done s"
  "config_name_map (set_config_entry nm c s) = sm_put nm c (config_name_map s)"
  by (simp_all add: set_config_entry_def)


section \<open>Preservation by the operations on configuration sessions\<close>

text \<open>Operations that leave ownership alone: only the map matters for the invariant.\<close>

lemma own_inv_cong:
  "rwlock t = rwlock s \<Longrightarrow> read_sessions t = read_sessions s \<Longrightarrow>
   state_transition_in_progress t = state_transition_in_progress s \<Longrightarrow> own_inv t = own_inv s"
  by (simp add: own_inv_def)

lemma lock_inv_map_changed:
  assumes "lock_inv s" and "rwlock t = rwlock s" and "read_sessions t = read_sessions s"
    and "state_transition_in_progress t = state_transition_in_progress s"
    and "current_state t = current_state s" and "cfg_inv (config_name_map t)"
    and "\<And>sid. isWriteHeld (rwlock s) \<Longrightarrow> candidate_op (w_operation (rwlock s)) \<Longrightarrow>
           sid = w_session_id (rwlock s) \<Longrightarrow> holds_config sid (config_name_map s) \<Longrightarrow>
           holds_config sid (config_name_map t)"
  shows "lock_inv t"
  using assms own_inv_cong [of t s] by (auto simp: lock_inv_def cand_inv_def)

lemma holds_config_put_new:
  "map_of m nm = None \<Longrightarrow> holds_config sid m \<Longrightarrow> holds_config sid (sm_put nm c m)"
proof -
  assume "map_of m nm = None" and "holds_config sid m"
  then obtain nm' c' where h: "map_of m nm' = Some c'" "cl_session_id c' = sid"
      "cl_is_taken c'" "\<not> cl_is_notify_pending c'"
    by (auto simp: holds_config_def)
  with \<open>map_of m nm = None\<close> have "nm' \<noteq> nm" by auto
  with h show ?thesis
    unfolding holds_config_def by (intro exI [of _ nm'] exI [of _ c']) simp
qed

lemma holds_config_erase:
  assumes "holds_config sid m" and "map_of m nm = Some c" and "\<not> cl_is_taken c"
  shows "holds_config sid (sm_erase nm (sm_put nm d m))"
proof -
  from assms(1) obtain nm' c' where h: "map_of m nm' = Some c'" "cl_session_id c' = sid"
      "cl_is_taken c'" "\<not> cl_is_notify_pending c'"
    by (auto simp: holds_config_def)
  with assms(2,3) have "nm' \<noteq> nm"
    by auto
  with h show ?thesis
    unfolding holds_config_def by (intro exI [of _ nm'] exI [of _ c']) simp
qed

lemma UpdateConfigData_inv:
  assumes "lock_inv s" and "map_of (config_name_map s) nm = None"
    and "nm = ''global-mode'' \<Longrightarrow> config_name_map s = []"
    and "map_of (config_name_map s) ''global-mode'' = None"
  shows "lock_inv (UpdateConfigData sid nm s)"
proof (rule lock_inv_map_changed [OF assms(1)])
  let ?c = "fresh_entry sid (fst (GetConfigId s))"
  have map: "config_name_map (UpdateConfigData sid nm s) = sm_put nm ?c (config_name_map s)"
    using assms(2) by (rule UpdateConfigData_map)
  show "cfg_inv (config_name_map (UpdateConfigData sid nm s))"
    unfolding map
    by (rule cfg_inv_put) (use assms in \<open>auto simp: lock_inv_def entry_ok_fresh GetConfigId_nonzero\<close>)
  show "holds_config x (config_name_map s) \<Longrightarrow>
      holds_config x (config_name_map (UpdateConfigData sid nm s))" for x
    unfolding map using assms(2) by (rule holds_config_put_new)
qed simp_all

lemma AcquireConfigLock_inv:
  assumes "lock_inv s" and "mode = TC_CONFIG_VTN \<Longrightarrow> vtn \<noteq> ''global-mode''"
  shows "lock_inv (snd (AcquireConfigLock sid mode vtn s))"
proof -
  have cfg: "cfg_inv (config_name_map s)"
    using assms(1) by (simp add: lock_inv_def)
  let ?nm = "GetConfigName mode vtn"
  have named: "?nm = ''global-mode'' \<Longrightarrow> mode = TC_CONFIG_GLOBAL"
    using assms(2) by (cases mode) auto
  have "lock_inv (UpdateConfigData sid ?nm s)"
    if "mode \<noteq> TC_CONFIG_GLOBAL" "\<not> entry_busy ''global-mode'' s" "\<not> entry_busy ?nm s"
    using that named assms(1) by (intro UpdateConfigData_inv) (auto simp: entry_busy_iff [OF cfg])
  moreover have "lock_inv (UpdateConfigData sid ?nm s)" if "config_name_map s = []"
    using that assms(1) by (intro UpdateConfigData_inv) auto
  ultimately show ?thesis
    using assms(1) by (auto simp: AcquireConfigLock_def Let_def)
qed

lemma holds_config_replace:
  assumes "holds_config sid m" and "map_of m nm = Some c"
    and "cl_session_id c = sid \<Longrightarrow> cl_is_taken c \<Longrightarrow> \<not> cl_is_notify_pending c \<Longrightarrow>
         cl_session_id d = sid \<and> cl_is_taken d \<and> \<not> cl_is_notify_pending d"
  shows "holds_config sid (sm_put nm d m)"
  using assms unfolding holds_config_def by (metis (mono_tags, lifting) map_of_sm_put option.inject)

lemma entry_update_inv:
  assumes "lock_inv s" and "map_of (config_name_map s) nm = Some c" and "entry_ok d"
    and "isWriteHeld (rwlock s) \<Longrightarrow> candidate_op (w_operation (rwlock s)) \<Longrightarrow>
         cl_session_id c = w_session_id (rwlock s) \<Longrightarrow> cl_is_taken c \<Longrightarrow>
         \<not> cl_is_notify_pending c \<Longrightarrow>
         cl_session_id d = cl_session_id c \<and> cl_is_taken d \<and> \<not> cl_is_notify_pending d"
  shows "lock_inv (set_config_entry nm d s)"
proof (rule lock_inv_map_changed [OF assms(1)])
  show "cfg_inv (config_name_map (set_config_entry nm d s))"
    using assms cfg_inv_replace by (auto simp: lock_inv_def)
  show "holds_config x (config_name_map (set_config_entry nm d s))"
    if "isWriteHeld (rwlock s)" "candidate_op (w_operation (rwlock s))"
      "x = w_session_id (rwlock s)" "holds_config x (config_name_map s)" for x
    using that assms(2,4) by (auto intro: holds_config_replace)
qed simp_all

lemma ReleaseConfigLock_inv:
  assumes "lock_inv s"
  shows "lock_inv (snd (ReleaseConfigLock sid cid s))"
proof (cases "FindConfigName sid s")
  case None
  with assms show ?thesis by (simp add: ReleaseConfigLock_def)
next
  case (Some nm)
  let ?c = "config_entry nm s"
  let ?d = "?c\<lparr>cl_is_notify_pending := True, cl_is_taken := False,
               cl_notify_operation := TC_NOTIFY_RELEASE\<rparr>"
  have c: "map_of (config_name_map s) nm = Some ?c" "cl_session_id ?c = sid" "entry_ok ?c"
    using FindConfigName_SomeD [OF Some] assms by (auto simp: lock_inv_def)
  have d: "entry_ok ?d"
    using c(3) by (simp add: entry_ok_def)
  have "lock_inv (set_config_entry nm ?d s)"
    if "\<not> ((w_operation (rwlock s) = TC_COMMIT \<or> w_operation (rwlock s) = TC_ABORT_CANDIDATE_CONFIG) \<and>
           isWriteHeld_by sid (rwlock s))"
    using that c(2)
    by (intro entry_update_inv [OF assms c(1) d]) (auto simp: candidate_op_def isWriteHeld_by_def)
  with Some assms show ?thesis
    by (simp add: ReleaseConfigLock_def Let_def)
qed

lemma ForceAcquireConfigLock_inv:
  assumes "lock_inv s"
  shows "lock_inv (snd (ForceAcquireConfigLock sid s))"
proof -
  have "lock_inv (UpdateConfigData sid ''global-mode'' (s\<lparr>config_name_map := []\<rparr>))"
    if none: "\<not> list_ex (\<lambda>e. force_refused (rwlock s) (snd e)) (config_name_map s)"
  proof (rule UpdateConfigData_inv)
    have "\<not> (isWriteHeld (rwlock s) \<and> candidate_op (w_operation (rwlock s)))"
      if "current_state s \<noteq> TC_STOP"
    proof
      assume w: "isWriteHeld (rwlock s) \<and> candidate_op (w_operation (rwlock s))"
      with assms that obtain nm c where "map_of (config_name_map s) nm = Some c" "cl_is_taken c"
        by (auto simp: lock_inv_def cand_inv_def holds_config_def)
      with w none show False
        by (auto simp: list_ex_iff force_refused_def candidate_op_def dest!: map_of_SomeD)
    qed
    then show "lock_inv (s\<lparr>config_name_map := []\<rparr>)"
      using assms by (auto simp: lock_inv_def own_inv_def cand_inv_def)
  qed simp_all
  with assms show ?thesis
    by (simp add: ForceAcquireConfigLock_def)
qed

lemma NotifyDone_inv:
  assumes "lock_inv s" and "nop \<noteq> TC_NOTIFY_NONE"
  shows "lock_inv (snd (NotifyConfigIdSessionIdDone cid sid nop s))"
proof (cases "FindConfigName sid s")
  case None
  with assms show ?thesis by (simp add: NotifyConfigIdSessionIdDone_def)
next
  case (Some nm)
  let ?c = "config_entry nm s"
  let ?d = "?c\<lparr>cl_notify_operation := TC_NOTIFY_NONE, cl_is_notify_pending := False\<rparr>"
  have c: "map_of (config_name_map s) nm = Some ?c" "entry_ok ?c"
    using FindConfigName_SomeD [OF Some] assms by (auto simp: lock_inv_def)
  have acq: "lock_inv (set_config_entry nm ?d s)" if "cl_notify_operation ?c = TC_NOTIFY_ACQUIRE"
  proof (rule entry_update_inv [OF assms(1) c(1)])
    show "entry_ok ?d"
      using c(2) that by (simp add: entry_ok_def)
  qed simp
  have rel: "lock_inv (set_config_entry nm ?d s
      \<lparr>config_name_map := sm_erase nm (sm_put nm ?d (config_name_map s))\<rparr>)" (is "lock_inv ?t")
    if "cl_notify_operation ?c = TC_NOTIFY_RELEASE"
  proof (rule lock_inv_map_changed [OF assms(1)])
    show "cfg_inv (config_name_map ?t)"
      using assms(1) unfolding lock_inv_def cfg_inv_def by (auto split: if_splits)
    have "\<not> cl_is_taken ?c"
      using c(2) that by (simp add: entry_ok_def)
    then show "holds_config x (config_name_map ?t)" if "holds_config x (config_name_map s)" for x
      using holds_config_erase [OF that c(1)] by simp
  qed simp_all
  show ?thesis
    using assms Some acq rel by (cases nop) (auto simp: NotifyConfigIdSessionIdDone_def Let_def)
qed

lemma TcMarkSessionId_inv:
  assumes "lock_inv s"
  shows "lock_inv (snd (TcMarkSessionId sid s))"
proof (cases "FindConfigName sid s")
  case None
  with assms show ?thesis by (simp add: TcMarkSessionId_def)
next
  case (Some nm)
  let ?c = "config_entry nm s"
  have c: "map_of (config_name_map s) nm = Some ?c" "entry_ok ?c" "cl_session_id ?c = sid"
    using FindConfigName_SomeD [OF Some] assms by (auto simp: lock_inv_def)
  have "lock_inv (set_config_entry nm (?c\<lparr>cl_marked_session_id := sid\<rparr>) s)"
    by (rule entry_update_inv [OF assms c(1)])
      (use c in \<open>auto simp: entry_ok_def split: TcNotifyOperation.splits\<close>)
  with assms Some show ?thesis
    by (auto simp: TcMarkSessionId_def Let_def)
qed

end
