(* ===== verification/TcLockSys.thy ===== *)
theory TcLockSys
  imports TcLockInv
begin

text \<open>
  Preservation of the lock invariant by the read, write and state operations; the step
  relation of the lock manager under arbitrary interleavings of its callers; the safety
  properties of every reachable state.
\<close>

section \<open>Preservation by the operations on the readers/writer lock\<close>

lemma lock_inv_unheld:
  assumes "cfg_inv (config_name_map t)" and "rw_ok (rwlock t)" and "finite (read_sessions t)"
    and "\<not> isWriteHeld (rwlock t)"
    and "unat (rw_owner (rwlock t)) =
           card (read_sessions t) + (if state_transition_in_progress t then 1 else 0)"
  shows "lock_inv t"
  using assms by (simp add: lock_inv_def own_inv_def cand_inv_def)

lemma lock_inv_stopped: "current_state t = TC_STOP \<Longrightarrow> cfg_inv (config_name_map t) \<Longrightarrow> lock_inv t"
  by (simp add: lock_inv_def)

lemma lock_inv_unheldD:
  assumes "lock_inv s" and "current_state s \<noteq> TC_STOP" and "\<not> isWriteHeld (rwlock s)"
  shows "unat (rw_owner (rwlock s)) =
           card (read_sessions s) + (if state_transition_in_progress s then 1 else 0)"
    and "finite (read_sessions s)" and "rw_ok (rwlock s)" and "cfg_inv (config_name_map s)"
  using assms by (auto simp: lock_inv_def own_inv_def)

lemma setReader_facts:
  assumes "canReadLock l" and "reader_room l" and "rw_ok l"
  shows "\<not> isWriteHeld (setReader l)" and "rw_ok (setReader l)"
    and "unat (rw_owner (setReader l)) = Suc (unat (rw_owner l))"
proof -
  have o: "rw_owner l \<noteq> RW_OWNER_WRLOCKED"
    using assms(1) by (simp add: canReadLock_def)
  have "rw_owner l + 1 \<noteq> RW_OWNER_WRLOCKED"
    using assms(2) by (metis R_READERS_MAX_def add_diff_cancel_right' reader_room_def)
  then show "\<not> isWriteHeld (setReader l)"
    by (simp add: setReader_def isWriteHeld_def)
  show "rw_ok (setReader l)"
    using assms(3) o by (simp add: rw_ok_def setReader_def)
  show "unat (rw_owner (setReader l)) = Suc (unat (rw_owner l))"
    using unat_u32_succ [OF o] by (simp add: setReader_def)
qed

lemma unlock_read_facts:
  assumes "unat (rw_owner l) = Suc n" and "\<not> isWriteHeld l" and "rw_ok l"
  shows "\<not> isWriteHeld (unlock_read l)" and "rw_ok (unlock_read l)"
    and "unat (rw_owner (unlock_read l)) = n"
proof -
  have nz: "rw_owner l \<noteq> 0"
    using assms(1) by auto
  then have ow: "unat (rw_owner l - 1) = n"
    using unat_u32_pred assms(1) by simp
  moreover have "n < 4294967295"
    using assms(1) unat_u32_le [of "rw_owner l"] by simp
  ultimately have "rw_owner l - 1 \<noteq> RW_OWNER_WRLOCKED"
    using unat_u32_neq_max by metis
  then show "\<not> isWriteHeld (unlock_read l)"
    by (simp add: unlock_read_def isWriteHeld_def Let_def)
  show "rw_ok (unlock_read l)"
    using assms(2,3) by (auto simp: rw_ok_def unlock_read_def isWriteHeld_def Let_def)
  show "unat (rw_owner (unlock_read l)) = n"
    using ow by (auto simp: unlock_read_def Let_def)
qed

lemma canReadLock_unheld: "canReadLock l \<Longrightarrow> \<not> isWriteHeld l"
  by (simp add: canReadLock_def isWriteHeld_def)

lemma AcquireReadLock_inv:
  assumes "lock_inv s" and "reader_room (rwlock s)"
  shows "lock_inv (snd (AcquireReadLock sid s))"
proof (cases "canReadLock (rwlock s) \<and> current_state s \<noteq> TC_STOP")
  case True
  note can = conjunct1 [OF True]
  note un = lock_inv_unheldD [OF assms(1) conjunct2 [OF True] canReadLock_unheld [OF can]]
  note set = setReader_facts [OF can assms(2) un(3)]
  note rel = unlock_read_facts [OF set(3,1,2)]
  have "lock_inv (s\<lparr>rwlock := unlock_read (setReader (rwlock s))\<rparr>)"
    by (rule lock_inv_unheld) (use un rel in auto)
  moreover have "lock_inv (s\<lparr>rwlock := setReader (rwlock s),
      read_sessions := insert sid (read_sessions s)\<rparr>)" if "sid \<notin> read_sessions s"
    by (rule lock_inv_unheld) (use un set that in auto)
  ultimately show ?thesis
    using can by (auto simp: AcquireReadLock_def tryLock_read_def)
next
  case False
  with assms(1) show ?thesis
    by (auto simp: AcquireReadLock_def tryLock_read_def lock_inv_def)
qed

lemma read_session_unheld:
  assumes "lock_inv s" and "current_state s \<noteq> TC_STOP" and "sid \<in> read_sessions s"
  shows "\<not> isWriteHeld (rwlock s)"
  using assms by (auto simp: lock_inv_def own_inv_def split: if_splits)

lemma ReleaseReadLock_inv:
  assumes "lock_inv s"
  shows "lock_inv (snd (ReleaseReadLock sid s))"
proof (cases "sid \<in> read_sessions s \<and> current_state s \<noteq> TC_STOP")
  case True
  note un = lock_inv_unheldD [OF assms conjunct2 [OF True]
      read_session_unheld [OF assms conjunct2 [OF True] conjunct1 [OF True]]]
  let ?n = "card (read_sessions s - {sid}) + (if state_transition_in_progress s then 1 else 0)"
  have "card (read_sessions s) = Suc (card (read_sessions s - {sid}))"
    by (rule card.remove) (use un(2) True in auto)
  with un(1) have "unat (rw_owner (rwlock s)) = Suc ?n"
    by simp
  note rel = unlock_read_facts [OF this read_session_unheld un(3)]
  have "lock_inv (s\<lparr>read_sessions := read_sessions s - {sid}, rwlock := unlock_read (rwlock s)\<rparr>)"
    by (rule lock_inv_unheld) (use un rel assms True in auto)
  with assms show ?thesis
    by (simp add: ReleaseReadLock_def)
next
  case False
  with assms show ?thesis
    by (auto simp: ReleaseReadLock_def lock_inv_def)
qed

lemma sleep_inv: "lock_inv s \<Longrightarrow> lock_inv (s\<lparr>rwlock := waitForRead_sleep (rwlock s)\<rparr>)"
  by (simp add: lock_inv_def own_inv_def cand_inv_def waitForRead_sleep_def isWriteHeld_def rw_ok_def)

lemma wake_inv: "lock_inv s \<Longrightarrow> lock_inv (s\<lparr>rwlock := waitForRead_wake (rwlock s)\<rparr>)"
  by (simp add: lock_inv_def own_inv_def cand_inv_def waitForRead_wake_def isWriteHeld_def rw_ok_def)

lemma StateTransitionLoop_inv:
  assumes "lock_inv s" and "reader_room (rwlock s)"
  shows "lock_inv (snd (StateTransitionLoop s))"
proof (cases "canReadLock (rwlock s) \<and> \<not> state_transition_in_progress s \<and> current_state s \<noteq> TC_STOP")
  case True
  then have can: "canReadLock (rwlock s)" and nt: "\<not> state_transition_in_progress s"
    and ns: "current_state s \<noteq> TC_STOP" by auto
  note un = lock_inv_unheldD [OF assms(1) ns canReadLock_unheld [OF can]]
  note set = setReader_facts [OF can assms(2) un(3)]
  have "lock_inv (s\<lparr>state_transition_in_progress := True, rwlock := setReader (rwlock s)\<rparr>)"
    by (rule lock_inv_unheld) (use un set nt in auto)
  with can nt show ?thesis
    by (simp add: StateTransitionLoop_def)
next
  case False
  with assms sleep_inv [OF assms(1)] show ?thesis
    by (auto simp: StateTransitionLoop_def lock_inv_def)
qed

lemma StateTransitionWake_inv:
  assumes "lock_inv s" and "reader_room (rwlock s)"
  shows "lock_inv (snd (StateTransitionWake s))"
proof -
  have "reader_room (rwlock (s\<lparr>rwlock := waitForRead_wake (rwlock s)\<rparr>))"
    using assms(2) by (simp add: reader_room_def waitForRead_wake_def)
  then show ?thesis
    using wake_inv [OF assms(1)] StateTransitionLoop_inv
    by (simp add: StateTransitionWake_def Let_def)
qed

lemma TcReleaseReadLockForStateTransition_inv:
  assumes "lock_inv s"
  shows "lock_inv (snd (TcReleaseReadLockForStateTransition s))"
proof (cases "state_transition_in_progress s \<and> current_state s \<noteq> TC_STOP")
  case True
  then have h: "\<not> isWriteHeld (rwlock s)"
    using assms by (auto simp: lock_inv_def own_inv_def split: if_splits)
  note un = lock_inv_unheldD [OF assms conjunct2 [OF True] h]
  have "unat (rw_owner (rwlock s)) = Suc (card (read_sessions s))"
    using un(1) True by simp
  note rel = unlock_read_facts [OF this h un(3)]
  have "lock_inv (s\<lparr>state_transition_in_progress := False, rwlock := unlock_read (rwlock s)\<rparr>)"
    by (rule lock_inv_unheld) (use un rel in auto)
  with assms show ?thesis
    by (simp add: TcReleaseReadLockForStateTransition_def)
next
  case False
  with assms show ?thesis
    by (auto simp: TcReleaseReadLockForStateTransition_def lock_inv_def)
qed

lemma write_try_inv:
  assumes "lock_inv s"
    and "candidate_op op \<Longrightarrow> holds_config sid (config_name_map s)"
  shows "lock_inv (snd (write_try sid op s))"
proof (cases "canWriteLock (rwlock s) \<and> current_state s \<noteq> TC_STOP")
  case True
  then have o: "rw_owner (rwlock s) = 0" and ns: "current_state s \<noteq> TC_STOP"
    by (auto simp: canWriteLock_def)
  have "\<not> isWriteHeld (rwlock s)"
    using o by (simp add: isWriteHeld_def)
  note un = lock_inv_unheldD [OF assms(1) ns this]
  have "read_sessions s = {}" and "\<not> state_transition_in_progress s"
    using un(1,2) o by (auto split: if_splits)
  then have "lock_inv (s\<lparr>rwlock := setWriter sid op (rwlock s)\<rparr>)"
    using assms(2) un(4)
    by (simp add: lock_inv_def own_inv_def cand_inv_def setWriter_def isWriteHeld_def rw_ok_def)
  with True show ?thesis
    by (simp add: write_try_def tryLock_write_def)
next
  case False
  with assms(1) show ?thesis
    by (auto simp: write_try_def tryLock_write_def lock_inv_def)
qed

lemma found_holds_config:
  assumes "lock_inv s" and "FindConfigName sid s = Some nm"
    and "cl_is_taken (config_entry nm s)" and "\<not> cl_is_notify_pending (config_entry nm s)"
  shows "holds_config sid (config_name_map s)"
  using FindConfigName_SomeD [OF assms(2)] assms by (auto simp: holds_config_def lock_inv_def)

lemma AcquireWriteLock_inv:
  assumes "lock_inv s"
  shows "lock_inv (snd (AcquireWriteLock sid op s))"
proof -
  have cand: "lock_inv (snd (AcquireWriteLockForCommit sid s))"
      "lock_inv (snd (AcquireWriteLockForAbortCandidateConfig sid s))"
    using assms write_try_inv [OF assms] found_holds_config [OF assms]
    by (auto simp: AcquireWriteLockForCommit_def AcquireWriteLockForAbortCandidateConfig_def
        split: option.splits)
  have other: "lock_inv (snd (write_try sid w s))" if "\<not> candidate_op w" for w
    using write_try_inv [OF assms] that by blast
  show ?thesis
    using assms cand other
    by (cases op)
      (auto simp: AcquireWriteLockForAuditDriver_def AcquireWriteLockForAuditUser_def
        AcquireWriteLockForSaveStartupConfig_def AcquireWriteLockForClearStartupConfig_def
        candidate_op_def)
qed

lemma ReleaseWriteLock_inv:
  assumes "lock_inv s"
  shows "lock_inv (snd (ReleaseWriteLock sid op s))"
proof (cases "isWriteHeld_by sid (rwlock s) \<and> w_operation (rwlock s) = op \<and> current_state s \<noteq> TC_STOP")
  case True
  then have "isWriteHeld (rwlock s)" and ns: "current_state s \<noteq> TC_STOP"
    by (auto simp: isWriteHeld_by_def)
  then have rs: "read_sessions s = {}" "\<not> state_transition_in_progress s"
    using assms by (auto simp: lock_inv_def own_inv_def)
  have cfg: "cfg_inv (config_name_map s)"
    using assms by (simp add: lock_inv_def)
  have "lock_inv (s\<lparr>rwlock := snd (unlock_write sid op (rwlock s))\<rparr>)"
    by (rule lock_inv_unheld)
      (use True rs cfg in \<open>auto simp: unlock_write_def clearWriter_def isWriteHeld_def rw_ok_def\<close>)
  with True show ?thesis
    by (auto simp: ReleaseWriteLock_def unlock_write_def)
next
  case False
  with assms show ?thesis
    by (auto simp: ReleaseWriteLock_def unlock_write_def lock_inv_def)
qed

lemma autosave_flag_inv [simp]: "lock_inv (s\<lparr>auto_save_enable := b\<rparr>) = lock_inv s"
  by (simp add: lock_inv_def own_inv_def cand_inv_def)

lemma AutoSave_inv:
  assumes "lock_inv s"
  shows "lock_inv (snd (AutoSaveEnable s))" and "lock_inv (snd (AutoSaveDisable s))"
  using assms by (auto simp: AutoSaveEnable_def AutoSaveDisable_def)

lemma autosave_then_write_inv:
  assumes "lock_inv s"
  shows "lock_inv (snd (autosave_then_write sid op s))"
proof -
  have "lock_inv (snd (AutoSaveEnable s))"
    by (rule AutoSave_inv [OF assms])
  note w = AcquireWriteLock_inv [OF this, of sid op]
  with AutoSave_inv [OF assms] AutoSave_inv [OF w] show ?thesis
    by (auto simp: autosave_then_write_def split: prod.splits TcLockRet.splits lock_outcome.splits)
qed

lemma autosave_then_unlock_inv:
  assumes "lock_inv s"
  shows "lock_inv (snd (autosave_then_unlock sid op s))"
proof -
  have "lock_inv (snd (AutoSaveDisable s))"
    by (rule AutoSave_inv [OF assms])
  note w = ReleaseWriteLock_inv [OF this, of sid op]
  with AutoSave_inv [OF assms] AutoSave_inv [OF w] show ?thesis
    by (auto simp: autosave_then_unlock_def split: prod.splits TcLockRet.splits)
qed

lemma GetLock_inv:
  assumes "lock_inv s" and "reader_room (rwlock s)"
    and "mode = TC_CONFIG_VTN \<Longrightarrow> vtn \<noteq> ''global-mode''"
  shows "lock_inv (snd (GetLock sid op wop mode vtn s))"
  using assms AcquireConfigLock_inv [OF assms(1,3)] AcquireReadLock_inv [OF assms(1,2)]
    AcquireWriteLock_inv [OF assms(1)] ForceAcquireConfigLock_inv [OF assms(1)]
    autosave_then_write_inv [OF assms(1)] AutoSave_inv [OF assms(1)]
    StateTransitionLoop_inv [OF assms(1,2)]
  by (cases op) (auto simp: GetLock_def Let_def TcAcquireReadLockForStateTransition_def)

lemma ReleaseLock_inv:
  assumes "lock_inv s"
  shows "lock_inv (snd (ReleaseLock sid cid op wop s))"
  using assms ReleaseConfigLock_inv [OF assms] ReleaseReadLock_inv [OF assms]
    ReleaseWriteLock_inv [OF assms] autosave_then_unlock_inv [OF assms] AutoSave_inv [OF assms]
    TcReleaseReadLockForStateTransition_inv [OF assms]
  by (cases op) (auto simp: ReleaseLock_def)

lemma TcUpdateUncState_inv: "lock_inv s \<Longrightarrow> lock_inv (TcUpdateUncState st s)"
  by (auto simp: lock_inv_def own_inv_def cand_inv_def TcUpdateUncState_def isWriteHeld_def rw_ok_def)

lemma TcSetSetupComplete_inv: "lock_inv s \<Longrightarrow> lock_inv (TcSetSetupComplete b s)"
  by (simp add: lock_inv_def own_inv_def cand_inv_def TcSetSetupComplete_def)

text \<open>
  The reset is called by a thread that owns the state transition (\<^verbatim>\<open>HandleAct\<close>) or after
  the coordinator was stopped (\<^verbatim>\<open>HandleStop\<close>).
\<close>

lemma Reset_inv:
  assumes "state_transition_in_progress s \<or> current_state s = TC_STOP"
  shows "lock_inv (ResetTcGlobalDataOnStateTransition s)"
proof (cases "current_state s = TC_STOP")
  case True
  then show ?thesis
    by (simp add: lock_inv_def ResetTcGlobalDataOnStateTransition_def)
next
  case False
  with assms show ?thesis
    by (intro lock_inv_unheld)
      (auto simp: ResetTcGlobalDataOnStateTransition_def clearWriter_def rw_ok_def isWriteHeld_def)
qed


section \<open>Steps and reachable states\<close>

text \<open>
  One rule per call that changes the state. The premises are what the callers guarantee: no
  virtual tenant network is called \<^verbatim>\<open>global-mode\<close>, the number of readers stays within
  the bound the code asserts, a notification is an acquisition or a release, and the reset
  happens inside a state transition or after a stop. Calls of different threads interleave
  arbitrarily; a thread that sleeps resumes by \<open>wake\<close> at any later time.
\<close>

inductive lock_step :: "TcLock \<Rightarrow> TcLock \<Rightarrow> bool" where
  get: "reader_room (rwlock s) \<Longrightarrow> (mode = TC_CONFIG_VTN \<Longrightarrow> vtn \<noteq> ''global-mode'') \<Longrightarrow>
        lock_step s (snd (GetLock sid op wop mode vtn s))"
| wake: "reader_room (rwlock s) \<Longrightarrow> lock_step s (snd (StateTransitionWake s))"
| release: "lock_step s (snd (ReleaseLock sid cid op wop s))"
| notified: "nop \<noteq> TC_NOTIFY_NONE \<Longrightarrow>
             lock_step s (snd (NotifyConfigIdSessionIdDone cid sid nop s))"
| mark: "lock_step s (snd (TcMarkSessionId sid s))"
| update_state: "lock_step s (TcUpdateUncState st s)"
| setup_done: "lock_step s (TcSetSetupComplete b s)"
| reset: "state_transition_in_progress s \<or> current_state s = TC_STOP \<Longrightarrow>
          lock_step s (ResetTcGlobalDataOnStateTransition s)"

inductive lock_reachable :: "TcLock \<Rightarrow> bool" where
  start: "lock_reachable TcLock_init"
| step: "lock_reachable s \<Longrightarrow> lock_step s t \<Longrightarrow> lock_reachable t"

lemma lock_step_inv: "lock_step s t \<Longrightarrow> lock_inv s \<Longrightarrow> lock_inv t"
  by (induction rule: lock_step.induct)
    (auto intro: GetLock_inv StateTransitionWake_inv ReleaseLock_inv NotifyDone_inv
      TcMarkSessionId_inv TcUpdateUncState_inv TcSetSetupComplete_inv Reset_inv)

lemma reachable_lock_inv: "lock_reachable s \<Longrightarrow> lock_inv s"
  by (induction rule: lock_reachable.induct) (auto intro: lock_inv_init lock_step_inv)

inductive_cases lock_stepE: "lock_step s t"


section \<open>Helper lemmas for the safety properties\<close>

lemmas lock_inv_parts = lock_inv_def own_inv_def cand_inv_def

lemma reachable_cfg_inv: "lock_reachable s \<Longrightarrow> cfg_inv (config_name_map s)"
  using reachable_lock_inv by (simp add: lock_inv_def)

text \<open>A state of the manager after a sequence of calls is reachable.\<close>

lemma reachable_GetLock:
  "lock_reachable s \<Longrightarrow> reader_room (rwlock s) \<Longrightarrow> (mode = TC_CONFIG_VTN \<Longrightarrow> vtn \<noteq> ''global-mode'') \<Longrightarrow>
   lock_reachable (snd (GetLock sid op wop mode vtn s))"
  by (blast intro: lock_reachable.step lock_step.get)

lemma reachable_active: "lock_reachable (TcUpdateUncState TC_ACT TcLock_init)"
  by (blast intro: lock_reachable.intros lock_step.update_state)

lemma GetLock_stopped:
  "current_state s = TC_STOP \<Longrightarrow> GetLock sid op wop mode vtn s = (Returned TC_LOCK_INVALID_UNC_STATE, s)"
  by (simp add: GetLock_def TcOperationIsAllowed_def)

lemma state_release_parts [simp]:
  "current_state (snd (ReleaseConfigLock sid cid s)) = current_state s"
  "current_state (snd (ReleaseReadLock sid s)) = current_state s"
  "current_state (snd (ReleaseWriteLock sid wop s)) = current_state s"
  "current_state (snd (AutoSaveDisable s)) = current_state s"
  "current_state (snd (AutoSaveEnable s)) = current_state s"
  "current_state (snd (TcReleaseReadLockForStateTransition s)) = current_state s"
  by (simp_all add: ReleaseConfigLock_def ReleaseReadLock_def ReleaseWriteLock_def Let_def
      AutoSaveDisable_def AutoSaveEnable_def TcReleaseReadLockForStateTransition_def
      split: option.split prod.split bool.split)

lemma state_autosave_then_unlock [simp]:
  "current_state (snd (autosave_then_unlock sid op s)) = current_state s"
proof -
  obtain r s1 where 1: "AutoSaveDisable s = (r, s1)" by (cases "AutoSaveDisable s")
  obtain q s2 where 2: "ReleaseWriteLock sid op s1 = (q, s2)" by (cases "ReleaseWriteLock sid op s1")
  have "current_state s1 = current_state s" "current_state s2 = current_state s1"
    using state_release_parts(4) [of s] state_release_parts(3) [of sid op s1] 1 2 by simp_all
  with 1 2 show ?thesis
    by (simp add: autosave_then_unlock_def split: TcLockRet.split)
qed

lemma state_ReleaseLock [simp]: "current_state (snd (ReleaseLock sid cid op wop s)) = current_state s"
  by (cases op) (simp_all add: ReleaseLock_def)

lemma state_NotifyDone [simp]:
  "current_state (snd (NotifyConfigIdSessionIdDone cid sid nop s)) = current_state s"
  by (auto simp: NotifyConfigIdSessionIdDone_def Let_def split: option.split)

lemma state_TcMarkSessionId [simp]: "current_state (snd (TcMarkSessionId sid s)) = current_state s"
  by (auto simp: TcMarkSessionId_def Let_def split: option.split)

lemma state_StateTransitionWake [simp]:
  "current_state (snd (StateTransitionWake s)) = current_state s"
  by (simp add: StateTransitionWake_def StateTransitionLoop_def Let_def)

lemma stopped_step:
  assumes "lock_step s t" and "current_state s = TC_STOP"
  shows "current_state t = TC_STOP"
  using assms
  by (cases rule: lock_step.cases)
    (auto simp: GetLock_stopped TcUpdateUncState_def TcSetSetupComplete_def
      ResetTcGlobalDataOnStateTransition_def)

end
