(* ===== verification/TcLockProps.thy ===== *)
theory TcLockProps
  imports TcLockSys
begin

text \<open>
  The properties of the lock manager: mutual exclusion in every reachable state, the
  exclusiveness of the global configuration session, the protection of a running commit, the
  finality of the stop state, the configuration ids and the life cycle of a configuration
  session.
\<close>

section \<open>Configuration ids\<close>

text \<open>
  The ids run through 1 to 4294967295 and start again at 1: the arithmetic of the generator.
\<close>

abbreviation (input) id_period :: nat where "id_period \<equiv> 4294967295"

definition next_id :: "TcLock \<Rightarrow> TcLock" where
  "next_id s = snd (GetConfigId s)"

lemma unat_u32_less_max: "x \<noteq> UINT32_MAX \<Longrightarrow> unat (x :: u32) < id_period"
  using unat_u32_le [of x] unat_u32_succ [of x] unat_u32_le [of "x + 1"] by simp

lemma unat_GetConfigId: "unat (fst (GetConfigId s)) = unat (prev_config_id s) mod id_period + 1"
proof (cases "prev_config_id s = UINT32_MAX")
  case False
  with unat_u32_succ [OF False] unat_u32_less_max [OF False] show ?thesis
    by (simp add: GetConfigId_def Let_def)
qed (simp add: GetConfigId_def)

lemma prev_next_id: "prev_config_id (next_id s) = fst (GetConfigId s)"
  by (simp add: next_id_def GetConfigId_def Let_def)

lemma unat_next_ids:
  "unat (fst (GetConfigId ((next_id ^^ k) s))) = (unat (prev_config_id s) + k) mod id_period + 1"
proof (induction k)
  case (Suc k)
  then show ?case
    by (simp add: unat_GetConfigId prev_next_id mod_Suc_eq)
qed (simp add: unat_GetConfigId)

text \<open>
  C6. Configuration ids never repeat within a period: two requests with fewer than
  4294967295 requests between them obtain different ids, none of which is 0 (the value that
  means ``no configuration''), although the 32-bit counter wraps.
\<close>

theorem config_ids_distinct:
  assumes "0 < k" and "k < 4294967295"
  shows "fst (GetConfigId ((next_id ^^ k) s)) \<noteq> fst (GetConfigId s) \<and> fst (GetConfigId s) \<noteq> 0"
  using mod_shift_neq [OF assms, of "unat (prev_config_id s)"] unat_next_ids [of k s]
    unat_GetConfigId [of s] GetConfigId_nonzero [of s] by auto

theorem config_ids_distinct_witness:
  "fst (GetConfigId ((next_id ^^ 2) (TcLock_init\<lparr>prev_config_id := 4294967294\<rparr>))) \<noteq>
   fst (GetConfigId (TcLock_init\<lparr>prev_config_id := 4294967294\<rparr>))"
  using config_ids_distinct [of 2 "TcLock_init\<lparr>prev_config_id := 4294967294\<rparr>"] by simp


section \<open>Mutual exclusion\<close>

text \<open>
  C1. In every state the coordinator can reach before it is stopped, the write lock excludes
  every read session and the state transition; otherwise the 32-bit owner word is exactly the
  number of read sessions plus one for a running state transition. (A reader is never counted
  twice and a released lock is never left counted.)
\<close>

theorem owner_word_exact:
  assumes "lock_reachable s" and "current_state s \<noteq> TC_STOP"
  shows "if isWriteHeld (rwlock s)
         then read_sessions s = {} \<and> \<not> state_transition_in_progress s
         else unat (rw_owner (rwlock s)) =
                card (read_sessions s) + (if state_transition_in_progress s then 1 else 0)"
  using reachable_lock_inv [OF assms(1)] assms(2) by (simp add: lock_inv_parts)

theorem owner_word_exact_witness:
  "let s = snd (GetLock 7 TC_ACQUIRE_READ_SESSION TC_WRITE_NONE TC_CONFIG_GLOBAL ''''
                 (TcUpdateUncState TC_ACT TcLock_init))
   in unat (rw_owner (rwlock s)) = card (read_sessions s) \<and> read_sessions s = {7}"
proof -
  let ?i = "TcUpdateUncState TC_ACT TcLock_init"
  let ?s = "snd (GetLock 7 TC_ACQUIRE_READ_SESSION TC_WRITE_NONE TC_CONFIG_GLOBAL '''' ?i)"
  have "lock_reachable ?s"
    by (rule reachable_GetLock [OF reachable_active])
      (simp_all add: TcUpdateUncState_def TcLock_init_def rw_init_def reader_room_def
        R_READERS_MAX_def wakeUp_def isWaiting_def)
  moreover have "current_state ?s = TC_ACT" "\<not> isWriteHeld (rwlock ?s)" "read_sessions ?s = {7}"
      "\<not> state_transition_in_progress ?s"
    by (simp_all add: GetLock_def TcOperationIsAllowed_def FindConfigName_def TcUpdateUncState_def
        TcLock_init_def rw_init_def wakeUp_def isWaiting_def AcquireReadLock_def tryLock_read_def
        canReadLock_def setReader_def isWriteHeld_def)
  ultimately show ?thesis
    using owner_word_exact [of ?s] by (simp add: Let_def)
qed

section \<open>Configuration sessions\<close>

text \<open>
  Sample states for the concrete instances below: session 5 acquires the global
  configuration, the acquisition is notified to the daemons, and the session starts a commit.
\<close>

definition sample_active :: TcLock where
  "sample_active = TcUpdateUncState TC_ACT TcLock_init"

definition sample_config :: TcLock where
  "sample_config =
     snd (NotifyConfigIdSessionIdDone 1 5 TC_NOTIFY_ACQUIRE
       (snd (GetLock 5 TC_ACQUIRE_CONFIG_SESSION TC_WRITE_NONE TC_CONFIG_GLOBAL '''' sample_active)))"

definition sample_commit :: TcLock where
  "sample_commit =
     snd (GetLock 5 TC_ACQUIRE_WRITE_SESSION TC_COMMIT TC_CONFIG_INVALID '''' sample_config)"

lemma sample_room:
  "reader_room (rwlock sample_active)" "reader_room (rwlock sample_config)"
  by code_simp+

lemma sample_commit_eq:
  "sample_commit =
     \<lparr>prev_config_id = 1,
      config_name_map =
        [(''global-mode'', \<lparr>cl_config_id = 1, cl_session_id = 5, cl_marked_session_id = 0,
            cl_is_taken = True, cl_is_notify_pending = False,
            cl_notify_operation = TC_NOTIFY_NONE\<rparr>)],
      read_sessions = {},
      rwlock = \<lparr>rw_owner = 4294967295, r_waiter = 0, w_session_id = 5, w_waiter = 0,
        w_operation = TC_COMMIT, last_write_op = TC_WRITE_NONE, rw_broadcasts = 0\<rparr>,
      auto_save_enable = False, current_state = TC_ACT,
      state_transition_in_progress = False, setup_complete_done = False\<rparr>"
  by code_simp

lemma sample_reachable:
  shows sample_active_reachable: "lock_reachable sample_active"
    and sample_config_reachable: "lock_reachable sample_config"
    and sample_commit_reachable: "lock_reachable sample_commit"
proof -
  show a: "lock_reachable sample_active"
    unfolding sample_active_def by (rule reachable_active)
  show c: "lock_reachable sample_config"
    unfolding sample_config_def
    by (rule lock_reachable.step [OF reachable_GetLock [OF a sample_room(1)] lock_step.notified])
      simp_all
  show "lock_reachable sample_commit"
    unfolding sample_commit_def by (rule reachable_GetLock [OF c sample_room(2)]) simp
qed



text \<open>
  C2. A running commit or candidate abort keeps its configuration session: while the write
  lock is held for it, the owning session holds a taken configuration whose notification is
  complete, a release by that session is refused and changes nothing whatever configuration id
  it names, and a forced acquisition by any session is refused as busy.
\<close>

theorem running_commit_keeps_config:
  assumes "lock_reachable s" and "current_state s \<noteq> TC_STOP" and "isWriteHeld (rwlock s)"
    and "w_operation (rwlock s) \<in> {TC_COMMIT, TC_ABORT_CANDIDATE_CONFIG}"
  shows "holds_config (w_session_id (rwlock s)) (config_name_map s) \<and>
         fst (ReleaseConfigLock (w_session_id (rwlock s)) cid s) \<noteq> TC_LOCK_SUCCESS \<and>
         snd (ReleaseConfigLock (w_session_id (rwlock s)) cid s) = s \<and>
         ForceAcquireConfigLock sid s = (TC_LOCK_BUSY, s)"
proof -
  note inv = reachable_lock_inv [OF assms(1)]
  have op: "w_operation (rwlock s) = TC_COMMIT \<or> w_operation (rwlock s) = TC_ABORT_CANDIDATE_CONFIG"
    using assms(4) by simp
  have holds: "holds_config (w_session_id (rwlock s)) (config_name_map s)"
    using inv assms(2,3) op by (simp add: lock_inv_def cand_inv_def candidate_op_def)
  then have "list_ex (\<lambda>e. force_refused (rwlock s) (snd e)) (config_name_map s)"
    using assms(3) op by (force simp: holds_config_def list_ex_iff force_refused_def dest: map_of_SomeD)
  moreover have "\<not> state_transition_in_progress s"
    using inv assms(2,3) by (simp add: lock_inv_def own_inv_def)
  ultimately have "ForceAcquireConfigLock sid s = (TC_LOCK_BUSY, s)"
    by (simp add: ForceAcquireConfigLock_def)
  with holds op assms(3) show ?thesis
    by (auto simp: ReleaseConfigLock_def Let_def isWriteHeld_by_def split: option.split)
qed

theorem running_commit_keeps_config_witness:
  "ForceAcquireConfigLock 9 sample_commit = (TC_LOCK_BUSY, sample_commit)"
proof -
  have "current_state sample_commit \<noteq> TC_STOP" "isWriteHeld (rwlock sample_commit)"
    "w_operation (rwlock sample_commit) \<in> {TC_COMMIT, TC_ABORT_CANDIDATE_CONFIG}"
    by (simp_all add: sample_commit_eq isWriteHeld_def)
  from running_commit_keeps_config [OF sample_commit_reachable this] show ?thesis by blast
qed

section \<open>States of the coordinator\<close>

text \<open>
  C5. The stop state is final: once the coordinator is stopped, every further call of the
  manager leaves it stopped, and every request for a lock is answered with
  \<^verbatim>\<open>TC_LOCK_INVALID_UNC_STATE\<close> without touching the manager.
\<close>

theorem stop_is_final:
  assumes "lock_step\<^sup>*\<^sup>* s t" and "current_state s = TC_STOP"
  shows "current_state t = TC_STOP \<and>
         GetLock sid op wop mode vtn t = (Returned TC_LOCK_INVALID_UNC_STATE, t)"
proof -
  have "current_state t = TC_STOP"
    using assms by (induction rule: rtranclp_induct) (blast intro: stopped_step)+
  then show ?thesis
    by (simp add: GetLock_stopped)
qed

theorem stop_is_final_witness:
  "let s = TcUpdateUncState TC_STOP TcLock_init; t = TcUpdateUncState TC_ACT s
   in GetLock 3 TC_ACQUIRE_READ_SESSION TC_WRITE_NONE TC_CONFIG_GLOBAL '''' t =
        (Returned TC_LOCK_INVALID_UNC_STATE, t)"
proof -
  let ?s = "TcUpdateUncState TC_STOP TcLock_init"
  have "current_state ?s = TC_STOP" by code_simp
  moreover have "lock_step\<^sup>*\<^sup>* ?s (TcUpdateUncState TC_ACT ?s)"
    by (rule r_into_rtranclp) (rule lock_step.update_state)
  ultimately show ?thesis
    using stop_is_final unfolding Let_def by blast
qed

text \<open>
  Which operations a state admits, for a session that holds no configuration: everything
  in the active state; a read session or a state transition in the standby and the failed
  state; only a state transition before initialisation ends; nothing after a stop. A session
  whose configuration is marked for forced release is denied everything.
\<close>

fun admitted :: "TcState \<Rightarrow> TcOperation \<Rightarrow> bool" where
  "admitted TC_ACT op = True"
| "admitted TC_INIT op = (op = TC_ACQUIRE_READ_LOCK_FOR_STATE_TRANSITION)"
| "admitted TC_STOP op = False"
| "admitted _ op =
     (op = TC_ACQUIRE_READ_SESSION \<or> op = TC_ACQUIRE_READ_LOCK_FOR_STATE_TRANSITION)"

definition session_marked :: "u32 \<Rightarrow> TcLock \<Rightarrow> bool" where
  "session_marked sid s \<longleftrightarrow>
     (\<exists>nm. FindConfigName sid s = Some nm \<and> cl_marked_session_id (config_entry nm s) \<noteq> 0)"

theorem operation_admission:
  assumes "lock_reachable s"
  shows "TcOperationIsAllowed sid op s =
     (if \<not> admitted (current_state s) op then TC_LOCK_INVALID_UNC_STATE
      else if current_state s = TC_ACT \<and> session_marked sid s
      then TC_LOCK_OPERATION_NOT_ALLOWED else TC_LOCK_SUCCESS)"
proof (cases "current_state s = TC_ACT")
  case True
  have "cl_marked_session_id (config_entry nm s) = 0 \<or>
        cl_marked_session_id (config_entry nm s) = sid" if "FindConfigName sid s = Some nm" for nm
    using FindConfigName_SomeD [OF that reachable_cfg_inv [OF assms]] by (auto simp: entry_ok_def)
  with True show ?thesis
    by (auto simp: TcOperationIsAllowed_def session_marked_def Let_def split: option.split)
qed (cases "current_state s"; simp add: TcOperationIsAllowed_def)

theorem operation_admission_witness:
  "TcOperationIsAllowed 5 TC_ACQUIRE_WRITE_SESSION sample_config = TC_LOCK_SUCCESS"
proof -
  have "FindConfigName 5 sample_config = Some ''global-mode''"
    "cl_marked_session_id (config_entry ''global-mode'' sample_config) = 0"
    "current_state sample_config = TC_ACT"
    by code_simp+
  then show ?thesis
    using operation_admission [OF sample_config_reachable, of 5 TC_ACQUIRE_WRITE_SESSION]
    by (simp add: session_marked_def)
qed

section \<open>The life cycle of a configuration session\<close>

lemma AcquireConfigLock_free:
  assumes "\<not> state_transition_in_progress s" and "GetConfigName mode vtn \<noteq> ''''"
    and "if mode = TC_CONFIG_GLOBAL then config_name_map s = []
         else map_of (config_name_map s) ''global-mode'' = None \<and>
              map_of (config_name_map s) (GetConfigName mode vtn) = None"
  shows "AcquireConfigLock sid mode vtn s =
           (TC_LOCK_SUCCESS, UpdateConfigData sid (GetConfigName mode vtn) s)"
  using assms by (auto simp: AcquireConfigLock_def Let_def entry_busy_def split: if_splits)

text \<open>The only entry of a session is the one its calls act on.\<close>

lemma session_entry:
  assumes "config_name_map t = sm_put nm c m" and "sm_ok m" and "cl_session_id c = sid"
    and "\<forall>nm' d. map_of m nm' = Some d \<longrightarrow> cl_session_id d \<noteq> sid"
  shows "FindConfigName sid t = Some nm" and "config_entry nm t = c"
proof -
  show "FindConfigName sid t = Some nm"
    unfolding FindConfigName_def
    by (rule sm.first_unique [where v = c]) (use assms in \<open>auto split: if_splits\<close>)
  show "config_entry nm t = c"
    using assms(1) by (simp add: config_entry_def)
qed

text \<open>
  C4. The life cycle of a configuration session, from a reachable active state in which the
  requested mode is free and the session holds nothing: the acquisition succeeds with the next
  configuration id; once it was notified, the lock reports exactly that id, mode and tenant
  name; the release with that id succeeds; once that was notified, the configuration map is the
  one before the acquisition.
\<close>

theorem config_session_round_trip:
  fixes s :: TcLock and mode :: TcConfigMode and vtn :: string and sid :: u32
  defines "nm \<equiv> GetConfigName mode vtn" and "cid \<equiv> fst (GetConfigId s)"
  defines "s1 \<equiv> snd (AcquireConfigLock sid mode vtn s)"
  defines "s2 \<equiv> snd (NotifyConfigIdSessionIdDone cid sid TC_NOTIFY_ACQUIRE s1)"
  defines "s3 \<equiv> snd (ReleaseConfigLock sid cid s2)"
  defines "s4 \<equiv> snd (NotifyConfigIdSessionIdDone cid sid TC_NOTIFY_RELEASE s3)"
  assumes "lock_reachable s" and "current_state s = TC_ACT" and "\<not> state_transition_in_progress s"
    and "FindConfigName sid s = None" and "nm \<noteq> ''''" and "mode_of_name nm = mode"
    and "if mode = TC_CONFIG_GLOBAL then config_name_map s = []
         else map_of (config_name_map s) ''global-mode'' = None \<and> map_of (config_name_map s) nm = None"
  shows "fst (AcquireConfigLock sid mode vtn s) = TC_LOCK_SUCCESS \<and>
         fst (NotifyConfigIdSessionIdDone cid sid TC_NOTIFY_ACQUIRE s1) = TC_LOCK_SUCCESS \<and>
         GetConfigData sid s2 =
           (TC_LOCK_SUCCESS, \<lparr>cd_config_id = Some cid, cd_mode = Some mode,
              cd_vtn_name = (if mode = TC_CONFIG_VTN then vtn else '''')\<rparr>) \<and>
         fst (ReleaseConfigLock sid cid s2) = TC_LOCK_SUCCESS \<and>
         fst (NotifyConfigIdSessionIdDone cid sid TC_NOTIFY_RELEASE s3) = TC_LOCK_SUCCESS \<and>
         config_name_map s4 = config_name_map s"
proof -
  let ?m = "config_name_map s" and ?e = "fresh_entry sid cid"
  let ?held = "?e\<lparr>cl_notify_operation := TC_NOTIFY_NONE, cl_is_notify_pending := False\<rparr>"
  let ?rel = "?held\<lparr>cl_is_notify_pending := True, cl_is_taken := False,
                 cl_notify_operation := TC_NOTIFY_RELEASE\<rparr>"
  note inv = reachable_lock_inv [OF assms(7)]
  have cfg: "cfg_inv ?m" and ok: "sm_ok ?m"
    using inv by (simp_all add: lock_inv_def cfg_inv_def)
  have none: "map_of ?m nm = None"
    using assms(13) by (auto split: if_splits)
  have others: "\<forall>nm' d. map_of ?m nm' = Some d \<longrightarrow> cl_session_id d \<noteq> sid"
    using assms(10) FindConfigName_None [OF cfg] by blast
  then have nohold: "\<not> (isWriteHeld_by sid (rwlock s) \<and> candidate_op (w_operation (rwlock s)))"
    using inv assms(8) by (auto simp: lock_inv_def cand_inv_def holds_config_def isWriteHeld_by_def)
  note entry = session_entry [OF _ ok _ others]
  have a: "AcquireConfigLock sid mode vtn s = (TC_LOCK_SUCCESS, s1)"
    "s1 = UpdateConfigData sid nm s"
    using AcquireConfigLock_free [OF assms(9) assms(11) [unfolded nm_def] assms(13) [unfolded nm_def]]
    by (simp_all add: s1_def nm_def)

  then have m1: "config_name_map s1 = sm_put nm ?e ?m"
    by (simp add: UpdateConfigData_map none cid_def)
  have 2: "NotifyConfigIdSessionIdDone cid sid TC_NOTIFY_ACQUIRE s1 =
             (TC_LOCK_SUCCESS, set_config_entry nm ?held s1)"
    using entry [OF m1] by (simp add: NotifyConfigIdSessionIdDone_def fresh_entry_def)
  then have m2: "config_name_map s2 = sm_put nm ?held ?m" "rwlock s2 = rwlock s"
      "current_state s2 = TC_ACT"
    using m1 a(2) assms(8) by (simp_all add: s2_def sm_put_put)
  have d2: "GetConfigData sid s2 = (TC_LOCK_SUCCESS, \<lparr>cd_config_id = Some cid, cd_mode = Some mode,
              cd_vtn_name = (if mode = TC_CONFIG_VTN then vtn else '''')\<rparr>)"
    using entry [OF m2(1)] m2(3) assms(12)
    by (auto simp: GetConfigData_def fresh_entry_def nm_def)
  have 3: "ReleaseConfigLock sid cid s2 = (TC_LOCK_SUCCESS, set_config_entry nm ?rel s2)"
    using entry [OF m2(1)] m2(2) nohold
    by (auto simp: ReleaseConfigLock_def fresh_entry_def candidate_op_def)
  then have m3: "config_name_map s3 = sm_put nm ?rel ?m"
    using m2(1) by (simp add: s3_def sm_put_put)
  have "NotifyConfigIdSessionIdDone cid sid TC_NOTIFY_RELEASE s3 = (TC_LOCK_SUCCESS, s4) \<and>
        config_name_map s4 = ?m"
    using entry [OF m3] m3 none
    by (simp add: s4_def NotifyConfigIdSessionIdDone_def fresh_entry_def sm_put_put
        sm_erase_put_new [OF none ok])
  with a 2 3 d2 show ?thesis by simp
qed

theorem config_session_round_trip_witness:
  "let s1 = snd (AcquireConfigLock 4 TC_CONFIG_VTN ''vtn1'' sample_active);
       s2 = snd (NotifyConfigIdSessionIdDone 1 4 TC_NOTIFY_ACQUIRE s1)
   in GetConfigData 4 s2 = (TC_LOCK_SUCCESS, \<lparr>cd_config_id = Some 1,
        cd_mode = Some TC_CONFIG_VTN, cd_vtn_name = ''vtn1''\<rparr>)"
proof -
  have "current_state sample_active = TC_ACT" "\<not> state_transition_in_progress sample_active"
      "FindConfigName 4 sample_active = None" "GetConfigName TC_CONFIG_VTN ''vtn1'' \<noteq> ''''"
      "mode_of_name (GetConfigName TC_CONFIG_VTN ''vtn1'') = TC_CONFIG_VTN"
      "config_name_map sample_active = []" "fst (GetConfigId sample_active) = 1"
    by code_simp+
  then show ?thesis
    using config_session_round_trip [of sample_active 4 TC_CONFIG_VTN "''vtn1''"]
      sample_active_reachable by (simp add: Let_def)
qed

section \<open>The readers/writer lock\<close>

text \<open>
  C7. The readers/writer lock implements the abstract lock (unlocked, read-locked by a number
  of readers, write-locked by a session for an operation): each of its four operations has the
  abstract result on the abstract view, for the reader counts the code asserts.
\<close>

theorem rw_lock_refines:
  "(reader_room l \<longrightarrow>
      map_prod id view_of (tryLock_read l) = abs_try_read (w_waiter l \<noteq> 0) (view_of l)) \<and>
   map_prod id view_of (tryLock_write sid op l) = abs_try_write sid op (view_of l) \<and>
   (\<forall>n. view_of l = ReadLocked n \<longrightarrow> view_of (unlock_read l) = abs_unlock_read (view_of l)) \<and>
   map_prod id view_of (unlock_write sid op l) = abs_unlock_write sid op (view_of l)"
  using rw.try_read_view rw.try_write_view rw.release_read_view rw.release_write_view by blast

theorem rw_lock_refines_witness:
  "view_of (snd (tryLock_read rw_init)) = ReadLocked 1 \<and>
   view_of (unlock_read (snd (tryLock_read rw_init))) = Unlocked"
proof -
  have "reader_room rw_init" and w: "w_waiter rw_init = 0" and v: "view_of rw_init = Unlocked"
    by code_simp+
  then have 1: "map_prod id view_of (tryLock_read rw_init) = (True, ReadLocked 1)"
    using rw_lock_refines [of rw_init] by simp
  then have 2: "view_of (snd (tryLock_read rw_init)) = ReadLocked 1"
    by (cases "tryLock_read rw_init") simp
  then show ?thesis
    using rw_lock_refines [of "snd (tryLock_read rw_init)"] by simp
qed

text \<open>
  Exclusion at the level of the lock: after a successful write lock neither another write
  lock nor a read lock is granted, until the owner's release, which succeeds, clears the owner
  and leaves the lock free for both.
\<close>

theorem write_lock_exclusive_until_release:
  assumes "tryLock_write sid op l = (True, l')"
  shows "\<not> fst (tryLock_read l') \<and> \<not> fst (tryLock_write sid2 op2 l') \<and>
         (fst (unlock_write sid2 op2 l') \<longleftrightarrow> sid2 = sid \<and> op2 = op) \<and>
         view_of (snd (unlock_write sid op l')) = Unlocked \<and>
         last_write_op (snd (unlock_write sid op l')) = op"
proof -
  have l': "l' = snd (tryLock_write sid op l)" "fst (tryLock_write sid op l)"
    using assms by simp_all
  have "rw_owner l' = RW_OWNER_WRLOCKED" "w_session_id l' = sid" "w_operation l' = op"
    using assms by (auto simp: tryLock_write_def setWriter_def split: if_splits)
  moreover from this have "\<not> fst (tryLock_read l')"
    by (simp add: tryLock_read_def canReadLock_def)
  moreover have "last_write_op (snd (unlock_write sid op l')) = op"
    using calculation by (simp add: unlock_write_def isWriteHeld_by_def isWriteHeld_def clearWriter_def)
  ultimately show ?thesis
    using rw.writer_excludes_writers [OF l'(2)] rw.write_release_reopens [OF l'(2)]
      rw.release_write_ok_iff [of sid2 op2 l'] rw.try_write_view_ok [OF l'(2)]
    unfolding l'(1) by auto
qed

theorem write_lock_exclusive_until_release_witness:
  "\<not> fst (tryLock_write 8 TC_AUDIT_USER (setWriter 3 TC_COMMIT rw_init))"
  using write_lock_exclusive_until_release [of 3 TC_COMMIT rw_init "setWriter 3 TC_COMMIT rw_init"]
  by (simp add: tryLock_write_def canWriteLock_def rw_init_def)

end
