(* ===== verification/TcIpc.thy ===== *)
theory TcIpc
  imports TcTypes
begin

text \<open>
  The IPC helpers of \<^verbatim>\<open>libs/libtc_common\<close>: client sessions
  (\<^verbatim>\<open>libtc_client_sess_utils.cc\<close>) and server sessions
  (\<^verbatim>\<open>libtc_server_sess_utils.cc\<close>). The peers, the sockets and the error numbers they
  cause are outside the program: an environment answers every call of the transport as a
  function of the whole history of calls and answers. The state keeps that history, the
  client session objects by address, the table \<^verbatim>\<open>sess_map_\<close> of open connections, the
  flag \<^verbatim>\<open>sys_stop_\<close> and the server session of the request being served.
\<close>

section \<open>Values, calls and the environment\<close>

text \<open>The PDUs of a session; \<open>IpcOther\<close> is a PDU of a type the coordinator never reads.\<close>

datatype ipc_value =
    IpcU8 u8 | IpcU32 u32 | IpcU64 u64 | IpcI32 i32 | IpcStr string
  | IpcStruct "u8 list" | IpcOther u8

text \<open>
  The calls that leave the process. A session of the transport is named by its address;
  \<open>Invoke\<close> also shows the channel, the service and the data it sends; \<open>NewSession\<close> is the
  construction of a client session by a caller that examines its error. \<open>Sql\<close> is a call of
  the database interface, with the text of the statement; the last three are the timer, the task
  queue and the alarm service.
\<close>

datatype sql_call =
    SqlAllocEnv | SqlSetEnvAttr | SqlAllocDbc | SqlDriverConnect string
  | SqlDisconnect | SqlFreeDbc | SqlFreeEnv
  | SqlAllocStmt | SqlBindCol nat | SqlExecDirect string | SqlRowCount | SqlFetch | SqlFreeStmt

datatype sql_value = SqlNull | SqlInt int | SqlText string

datatype ipc_call =
    AltOpen string
  | SetTimeout nat
  | AddOutput nat ipc_value
  | Invoke nat string u32 "ipc_value list"
  | AltClose u32
  | Cancel nat
  | NewSession nat string string u32
  | Forward nat nat
  | SrvTimeout
  | SrvOutput ipc_value
  | SrvForward nat nat nat
  | Sql sql_call
  | TimerPost u32 u32
  | TaskDispatch string u32
  | AlarmSend string string
  | AlarmClear

text \<open>
  The answer of a call: the error number or return code, the connection, the response code or
  row count, the results of an invocation, and the columns of a fetched row.
\<close>

record ipc_reply =
  rp_err :: u32
  rp_conn :: u32
  rp_resp :: u32
  rp_vals :: "ipc_value list"
  rp_cols :: "sql_value list"

type_synonym ipc_history = "(ipc_call \<times> ipc_reply) list"
type_synonym ipc_env = "ipc_history \<Rightarrow> ipc_call \<Rightarrow> ipc_reply"

record csess =
  cs_conn :: u32
  cs_channel :: string
  cs_service :: string
  cs_service_id :: u32
  cs_out :: "ipc_value list"
  cs_resp :: "ipc_value list"

record ipc_state =
  ipc_log :: ipc_history
  ipc_heap :: "(nat, csess) stdmap"
  ipc_next :: nat
  sess_map :: "(u32, nat) stdmap"
  sys_stop :: bool
  srv_args :: "ipc_value list"
  srv_out :: "ipc_value list"

definition ipc_init :: ipc_state where
  "ipc_init = \<lparr>ipc_log = [], ipc_heap = [], ipc_next = 0, sess_map = [],
     sys_stop = False, srv_args = [], srv_out = []\<rparr>"

text \<open>One call of the transport: the answer is recorded in the history.\<close>

definition ask :: "ipc_env \<Rightarrow> ipc_call \<Rightarrow> ipc_state \<Rightarrow> ipc_reply \<times> ipc_state" where
  "ask E c s = (let r = E (ipc_log s) c in (r, s\<lparr>ipc_log := ipc_log s @ [(c, r)]\<rparr>))"

text \<open>An error number stored in a \<^verbatim>\<open>uint8_t\<close>.\<close>

definition err8 :: "ipc_reply \<Rightarrow> u8" where
  "err8 r = ucast (rp_err r)"

abbreviation (input) ESHUTDOWN :: u32 where "ESHUTDOWN \<equiv> 108"
abbreviation (input) ECANCELED :: u32 where "ECANCELED \<equiv> 125"
abbreviation (input) ECONNABORTED :: u32 where "ECONNABORTED \<equiv> 103"
abbreviation (input) ECONNRESET :: u32 where "ECONNRESET \<equiv> 104"


section \<open>Client sessions\<close>

definition UPLL_GLOBAL_CONFIG_SVC_ID :: u32 where "UPLL_GLOBAL_CONFIG_SVC_ID = 3"
definition UPPL_SVC_GLOBAL_CONFIG :: u32 where "UPPL_SVC_GLOBAL_CONFIG = 2"

definition sess_delete :: "nat \<Rightarrow> ipc_state \<Rightarrow> ipc_state" where
  "sess_delete p s = s\<lparr>ipc_heap := sm_erase p (ipc_heap s)\<rparr>"

text \<open>
  The result is the address and the connection of the new session, or \<open>None\<close> for
  \<^verbatim>\<open>NULL\<close>. The error that the session constructor reports is not examined by the code.
\<close>

definition create_tc_client_session ::
  "ipc_env \<Rightarrow> string \<Rightarrow> u32 \<Rightarrow> bool \<Rightarrow> bool \<Rightarrow> ipc_state \<Rightarrow> (nat \<times> u32) option \<times> ipc_state" where
  "create_tc_client_session E channel service_id infinite_timeout to_tclib s =
     (let (r, s1) = ask E (AltOpen channel) s; conn = rp_conn r
      in if rp_err r \<noteq> 0 \<or> conn = 0 then (None, s1)
         else
           let service_name =
                 (if \<not> to_tclib \<and> service_id = UPLL_GLOBAL_CONFIG_SVC_ID then ''upll''
                  else if \<not> to_tclib \<and> service_id = UPPL_SVC_GLOBAL_CONFIG then ''uppl''
                  else ''tclib'');
               p = ipc_next s1;
               s2 = s1\<lparr>ipc_heap := sm_put p
                          \<lparr>cs_conn = conn, cs_channel = channel, cs_service = service_name,
                           cs_service_id = service_id, cs_out = [], cs_resp = []\<rparr> (ipc_heap s1),
                       ipc_next := Suc p\<rparr>
           in if infinite_timeout
              then (let (t, s3) = ask E (SetTimeout p) s2
                    in if rp_err t \<noteq> 0
                       then (None, snd (ask E (AltClose conn) (sess_delete p s3)))
                       else (Some (p, conn), s3\<lparr>sess_map := sm_put conn p (sess_map s3)\<rparr>))
              else (Some (p, conn), s2\<lparr>sess_map := sm_put conn p (sess_map s2)\<rparr>))"

definition get_sys_stop :: "ipc_state \<Rightarrow> bool" where
  "get_sys_stop s = sys_stop s"

definition set_sys_stop :: "bool \<Rightarrow> ipc_state \<Rightarrow> TcUtilRet \<times> ipc_state" where
  "set_sys_stop b s = (TCUTIL_RET_SUCCESS, s\<lparr>sys_stop := b\<rparr>)"

text \<open>
  The second component is the response code; it is meaningful only after a successful call.
  An invocation replaces the results kept in the session.
\<close>

definition tc_session_invoke ::
  "ipc_env \<Rightarrow> nat option \<Rightarrow> ipc_state \<Rightarrow> TcUtilRet \<times> u32 \<times> ipc_state" where
  "tc_session_invoke E csess s =
     (case csess of
        None \<Rightarrow> (TCUTIL_RET_FAILURE, 0, s)
      | Some p \<Rightarrow>
          if get_sys_stop s then (TCUTIL_RET_FATAL, 0, s)
          else (case map_of (ipc_heap s) p of
              None \<Rightarrow> (TCUTIL_RET_FATAL, 0, s)
            | Some c \<Rightarrow>
                (let (r, s1) = ask E (Invoke p (cs_channel c) (cs_service_id c) (cs_out c)) s
                 in if err8 r \<noteq> 0 then (TCUTIL_RET_FATAL, rp_resp r, s1)
                    else (TCUTIL_RET_SUCCESS, rp_resp r,
                          s1\<lparr>ipc_heap := sm_put p (c\<lparr>cs_resp := rp_vals r\<rparr>) (ipc_heap s1)\<rparr>))))"

text \<open>The caller's session pointer is \<^verbatim>\<open>NULL\<close> afterwards.\<close>

definition tc_session_close ::
  "ipc_env \<Rightarrow> nat option \<Rightarrow> u32 \<Rightarrow> ipc_state \<Rightarrow> TcUtilRet \<times> ipc_state" where
  "tc_session_close E csess conn s =
     (let s1 = (case csess of None \<Rightarrow> s | Some p \<Rightarrow> sess_delete p s);
          (r, s2) = ask E (AltClose conn) s1
      in if rp_err r \<noteq> 0 then (TCUTIL_RET_FAILURE, s2)
         else (TCUTIL_RET_SUCCESS, s2\<lparr>sess_map := sm_erase conn (sess_map s2)\<rparr>))"

fun cancel_each :: "ipc_env \<Rightarrow> (u32, nat) stdmap \<Rightarrow> ipc_state \<Rightarrow> ipc_state" where
  "cancel_each E [] s = s"
| "cancel_each E ((conn, p) # m) s = cancel_each E m (snd (ask E (Cancel p) s))"

definition tc_session_cancel_all_sessions :: "ipc_env \<Rightarrow> ipc_state \<Rightarrow> TcUtilRet \<times> ipc_state" where
  "tc_session_cancel_all_sessions E s =
     (let (_, s1) = set_sys_stop True s; s2 = cancel_each E (sess_map s1) s1
      in (TCUTIL_RET_SUCCESS, s2\<lparr>sess_map := []\<rparr>))"

subsection \<open>Results of an invocation\<close>

text \<open>
  The checks shared by the getters of the integer types: the index is compared with the
  number of results, then the type of the result is read, which fails for an index that has
  no result. \<open>pick\<close> yields the value of a PDU of the wanted type.
\<close>

definition get_response ::
  "(ipc_value \<Rightarrow> 'a option) \<Rightarrow> nat option \<Rightarrow> u32 \<Rightarrow> ipc_state \<Rightarrow> TcUtilRet + 'a" where
  "get_response pick csess index s =
     (case csess of
        None \<Rightarrow> Inl TCUTIL_RET_FAILURE
      | Some p \<Rightarrow>
          (let vs = (case map_of (ipc_heap s) p of None \<Rightarrow> [] | Some c \<Rightarrow> cs_resp c)
           in if unat index > length vs then Inl TCUTIL_RET_FAILURE
              else if unat index = length vs then Inl TCUTIL_RET_FATAL
              else (case pick (vs ! unat index) of
                      None \<Rightarrow> Inl TCUTIL_RET_FAILURE
                    | Some x \<Rightarrow> Inr x)))"

fun pick_u8 :: "ipc_value \<Rightarrow> u8 option" where
  "pick_u8 (IpcU8 x) = Some x" | "pick_u8 _ = None"

fun pick_u32 :: "ipc_value \<Rightarrow> u32 option" where
  "pick_u32 (IpcU32 x) = Some x" | "pick_u32 _ = None"

fun pick_u64 :: "ipc_value \<Rightarrow> u64 option" where
  "pick_u64 (IpcU64 x) = Some x" | "pick_u64 _ = None"

fun pick_i32 :: "ipc_value \<Rightarrow> i32 option" where
  "pick_i32 (IpcI32 x) = Some x" | "pick_i32 _ = None"

fun pick_str :: "ipc_value \<Rightarrow> string option" where
  "pick_str (IpcStr x) = Some x" | "pick_str _ = None"

fun pick_struct :: "ipc_value \<Rightarrow> u8 list option" where
  "pick_struct (IpcStruct x) = Some x" | "pick_struct _ = None"

definition get_uint64 :: "nat option \<Rightarrow> u32 \<Rightarrow> ipc_state \<Rightarrow> TcUtilRet + u64" where
  "get_uint64 = get_response pick_u64"

definition get_uint32 :: "nat option \<Rightarrow> u32 \<Rightarrow> ipc_state \<Rightarrow> TcUtilRet + u32" where
  "get_uint32 = get_response pick_u32"

definition get_uint8 :: "nat option \<Rightarrow> u32 \<Rightarrow> ipc_state \<Rightarrow> TcUtilRet + u8" where
  "get_uint8 = get_response pick_u8"

text \<open>The getter of strings reports a missing result as a failure, not as fatal.\<close>

definition get_string :: "nat option \<Rightarrow> u32 \<Rightarrow> ipc_state \<Rightarrow> TcUtilRet + string" where
  "get_string csess index s =
     (case get_response pick_str csess index s of
        Inl _ \<Rightarrow> Inl TCUTIL_RET_FAILURE | Inr x \<Rightarrow> Inr x)"

subsection \<open>Data of a request\<close>

definition append_out :: "nat \<Rightarrow> ipc_value list \<Rightarrow> (nat, csess) stdmap \<Rightarrow> (nat, csess) stdmap" where
  "append_out p vs h =
     (case map_of h p of None \<Rightarrow> h | Some c \<Rightarrow> sm_put p (c\<lparr>cs_out := cs_out c @ vs\<rparr>) h)"

definition add_output :: "ipc_env \<Rightarrow> nat option \<Rightarrow> ipc_value \<Rightarrow> ipc_state \<Rightarrow> TcUtilRet \<times> ipc_state" where
  "add_output E csess v s =
     (case csess of
        None \<Rightarrow> (TCUTIL_RET_FAILURE, s)
      | Some p \<Rightarrow>
          (let (r, s1) = ask E (AddOutput p v) s
           in if err8 r \<noteq> 0 then (TCUTIL_RET_FATAL, s1)
              else (TCUTIL_RET_SUCCESS,
                    s1\<lparr>ipc_heap := append_out p [v] (ipc_heap s1)\<rparr>)))"

definition set_uint64 :: "ipc_env \<Rightarrow> nat option \<Rightarrow> u64 \<Rightarrow> ipc_state \<Rightarrow> TcUtilRet \<times> ipc_state" where
  "set_uint64 E csess x = add_output E csess (IpcU64 x)"

definition set_uint32 :: "ipc_env \<Rightarrow> nat option \<Rightarrow> u32 \<Rightarrow> ipc_state \<Rightarrow> TcUtilRet \<times> ipc_state" where
  "set_uint32 E csess x = add_output E csess (IpcU32 x)"

definition set_uint8 :: "ipc_env \<Rightarrow> nat option \<Rightarrow> u8 \<Rightarrow> ipc_state \<Rightarrow> TcUtilRet \<times> ipc_state" where
  "set_uint8 E csess x = add_output E csess (IpcU8 x)"

definition set_string :: "ipc_env \<Rightarrow> nat option \<Rightarrow> string \<Rightarrow> ipc_state \<Rightarrow> TcUtilRet \<times> ipc_state" where
  "set_string E csess x = add_output E csess (IpcStr x)"


section \<open>Server sessions\<close>

definition set_srv_timeout :: "ipc_env \<Rightarrow> ipc_state \<Rightarrow> TcUtilRet \<times> ipc_state" where
  "set_srv_timeout E s =
     (let (r, s1) = ask E SrvTimeout s
      in if rp_err r \<noteq> 0 then (TCUTIL_RET_FAILURE, s1) else (TCUTIL_RET_SUCCESS, s1))"

definition srv_get :: "(ipc_value \<Rightarrow> 'a option) \<Rightarrow> u32 \<Rightarrow> ipc_state \<Rightarrow> TcUtilRet + 'a" where
  "srv_get pick index s =
     (let vs = srv_args s
      in if unat index > length vs then Inl TCUTIL_RET_FAILURE
         else if unat index = length vs then Inl TCUTIL_RET_FATAL
         else (case pick (vs ! unat index) of
                 None \<Rightarrow> Inl TCUTIL_RET_FAILURE | Some x \<Rightarrow> Inr x))"

definition srv_get_int32 :: "u32 \<Rightarrow> ipc_state \<Rightarrow> TcUtilRet + i32" where
  "srv_get_int32 = srv_get pick_i32"

definition srv_get_uint64 :: "u32 \<Rightarrow> ipc_state \<Rightarrow> TcUtilRet + u64" where
  "srv_get_uint64 = srv_get pick_u64"

definition srv_get_uint32 :: "u32 \<Rightarrow> ipc_state \<Rightarrow> TcUtilRet + u32" where
  "srv_get_uint32 = srv_get pick_u32"

definition srv_get_uint8 :: "u32 \<Rightarrow> ipc_state \<Rightarrow> TcUtilRet + u8" where
  "srv_get_uint8 = srv_get pick_u8"

definition srv_get_string :: "u32 \<Rightarrow> ipc_state \<Rightarrow> TcUtilRet + string" where
  "srv_get_string = srv_get pick_str"

definition srv_get_struct :: "u32 \<Rightarrow> ipc_state \<Rightarrow> TcUtilRet + u8 list" where
  "srv_get_struct = srv_get pick_struct"

definition srv_add_output :: "ipc_env \<Rightarrow> ipc_value \<Rightarrow> ipc_state \<Rightarrow> TcUtilRet \<times> ipc_state" where
  "srv_add_output E v s =
     (let (r, s1) = ask E (SrvOutput v) s
      in if err8 r \<noteq> 0 then (TCUTIL_RET_FATAL, s1)
         else (TCUTIL_RET_SUCCESS, s1\<lparr>srv_out := srv_out s1 @ [v]\<rparr>))"

definition srv_set_uint64 :: "ipc_env \<Rightarrow> u64 \<Rightarrow> ipc_state \<Rightarrow> TcUtilRet \<times> ipc_state" where
  "srv_set_uint64 E x = srv_add_output E (IpcU64 x)"

definition srv_set_uint32 :: "ipc_env \<Rightarrow> u32 \<Rightarrow> ipc_state \<Rightarrow> TcUtilRet \<times> ipc_state" where
  "srv_set_uint32 E x = srv_add_output E (IpcU32 x)"

definition srv_set_uint8 :: "ipc_env \<Rightarrow> u8 \<Rightarrow> ipc_state \<Rightarrow> TcUtilRet \<times> ipc_state" where
  "srv_set_uint8 E x = srv_add_output E (IpcU8 x)"

definition srv_set_string :: "ipc_env \<Rightarrow> string \<Rightarrow> ipc_state \<Rightarrow> TcUtilRet \<times> ipc_state" where
  "srv_set_string E x = srv_add_output E (IpcStr x)"

definition srv_set_struct :: "ipc_env \<Rightarrow> u8 list \<Rightarrow> ipc_state \<Rightarrow> TcUtilRet \<times> ipc_state" where
  "srv_set_struct E x = srv_add_output E (IpcStruct x)"

end
