(* ===== verification/TcMsg.thy ===== *)
theory TcMsg
  imports TcIpc
begin

text \<open>
  The messages of the coordinator to the daemons (\<^verbatim>\<open>tcmsg.cc\<close>). A message object is a
  record; the subclasses extend it. Sessions the object still owns are closed by its
  destructor. The repeated pattern of the sources --- open a session, append data with a check
  after each item, invoke --- is the function \<open>request\<close>; the loop over the recipients is
  \<open>notify_daemons\<close>.
\<close>

section \<open>The base class\<close>

record TcMsg =
  session_id :: u32
  opertype :: TcMsgOperType
  channel_names :: TcChannelNameMap
  sess :: "nat option"
  upll_sess :: "nat option"
  uppl_sess :: "nat option"
  conn :: u32
  upll_conn :: u32
  uppl_conn :: u32
  audit_result :: TcAuditResult
  trans_result :: TcTransEndResult
  notifyorder :: "TcDaemonName list"
  abort_on_fail :: "TcDaemonName list"

definition TcMsg_new :: "u32 \<Rightarrow> TcMsgOperType \<Rightarrow> TcChannelNameMap \<Rightarrow> TcMsg" where
  "TcMsg_new sess_id oper daemon_names =
     \<lparr>session_id = sess_id, opertype = oper, channel_names = daemon_names,
      sess = None, upll_sess = None, uppl_sess = None, conn = 0, upll_conn = 0, uppl_conn = 0,
      audit_result = TC_AUDIT_SUCCESS, trans_result = TRANS_END_SUCCESS,
      notifyorder = [], abort_on_fail = []\<rparr>"

definition close_owned :: "ipc_env \<Rightarrow> nat option \<Rightarrow> u32 \<Rightarrow> ipc_state \<Rightarrow> ipc_state" where
  "close_owned E p c s = (if p = None then s else snd (tc_session_close E p c s))"

definition TcMsg_delete :: "ipc_env \<Rightarrow> 'a TcMsg_scheme \<Rightarrow> ipc_state \<Rightarrow> ipc_state" where
  "TcMsg_delete E m s =
     close_owned E (uppl_sess m) (uppl_conn m)
       (close_owned E (upll_sess m) (upll_conn m) (close_owned E (sess m) (conn m) s))"

definition GetChannelName :: "'a TcMsg_scheme \<Rightarrow> TcDaemonName \<Rightarrow> string" where
  "GetChannelName m d = (case channel_names m d of None \<Rightarrow> '''' | Some c \<Rightarrow> c)"

definition daemon_order :: "TcDaemonName list" where
  "daemon_order = [TC_NONE, TC_UPLL, TC_UPPL, TC_DRV_OPENFLOW, TC_DRV_OVERLAY, TC_DRV_POLC,
     TC_DRV_VAN, TC_DRV_ODC]"

definition GetDaemonName :: "'a TcMsg_scheme \<Rightarrow> string \<Rightarrow> TcDaemonName" where
  "GetDaemonName m name =
     (case List.find (\<lambda>d. channel_names m d = Some name) daemon_order of
        None \<Rightarrow> TC_NONE | Some d \<Rightarrow> d)"

definition MapTcDriverId :: "unc_keytype_ctrtype_t \<Rightarrow> TcDaemonName" where
  "MapTcDriverId driver_id =
     (if driver_id = UNC_CT_PFC then TC_DRV_OPENFLOW
      else if driver_id = UNC_CT_VNP then TC_DRV_OVERLAY
      else if driver_id = UNC_CT_POLC then TC_DRV_POLC
      else if driver_id = UNC_CT_VAN then TC_DRV_VAN
      else if driver_id = UNC_CT_ODC then TC_DRV_ODC
      else TC_NONE)"

definition GetAuditResult :: "'a TcMsg_scheme \<Rightarrow> TcAuditResult" where
  "GetAuditResult m = audit_result m"

definition SetAuditResult :: "TcAuditResult \<Rightarrow> 'a TcMsg_scheme \<Rightarrow> TcOperRet \<times> 'a TcMsg_scheme" where
  "SetAuditResult r m =
     (if r \<in> {TC_AUDIT_SUCCESS, TC_AUDIT_FAILURE, TC_AUDIT_CANCELLED}
      then (TCOPER_RET_SUCCESS, m\<lparr>audit_result := r\<rparr>) else (TCOPER_RET_FAILURE, m))"

definition GetTransResult :: "'a TcMsg_scheme \<Rightarrow> TcTransEndResult" where
  "GetTransResult m = trans_result m"

definition SetTransResult :: "TcTransEndResult \<Rightarrow> 'a TcMsg_scheme \<Rightarrow> TcOperRet \<times> 'a TcMsg_scheme" where
  "SetTransResult r m = (TCOPER_RET_SUCCESS, m\<lparr>trans_result := r\<rparr>)"

definition RespondToTc :: "u32 \<Rightarrow> TcOperRet" where
  "RespondToTc resp =
     (if resp = TC_SUCCESS then TCOPER_RET_SUCCESS
      else if resp = TC_FAILURE then TCOPER_RET_FAILURE
      else if resp = TC_LAST_DB_OPER_FAILURE then TCOPER_RET_LAST_DB_OP_FAILED
      else TCOPER_RET_UNKNOWN)"

fun ReturnUtilResp :: "TcUtilRet \<Rightarrow> TcOperRet" where
  "ReturnUtilResp TCUTIL_RET_SUCCESS = TCOPER_RET_SUCCESS"
| "ReturnUtilResp TCUTIL_RET_FAILURE = TCOPER_RET_FAILURE"
| "ReturnUtilResp TCUTIL_RET_FATAL = TCOPER_RET_FATAL"

text \<open>\<open>None\<close> is a failed \<^verbatim>\<open>PFC_VERIFY\<close>, which aborts the process.\<close>

definition ValidateAuditDBAttributes ::
  "unc_keytype_datatype_t \<Rightarrow> TcServiceType \<Rightarrow> TcOperRet option" where
  "ValidateAuditDBAttributes db operation =
     (let verify = (\<lambda>want. if db = want then Some TCOPER_RET_SUCCESS else None)
      in case operation of
           TC_OP_CANDIDATE_COMMIT \<Rightarrow> verify UNC_DT_RUNNING
         | TC_OP_CANDIDATE_COMMIT_TIMED \<Rightarrow> verify UNC_DT_RUNNING
         | TC_OP_USER_AUDIT \<Rightarrow> verify UNC_DT_RUNNING
         | TC_OP_DRIVER_AUDIT \<Rightarrow> verify UNC_DT_RUNNING
         | TC_OP_CANDIDATE_ABORT \<Rightarrow> verify UNC_DT_CANDIDATE
         | TC_OP_CANDIDATE_ABORT_TIMED \<Rightarrow> verify UNC_DT_CANDIDATE
         | TC_OP_RUNNING_SAVE \<Rightarrow> verify UNC_DT_STARTUP
         | TC_OP_CLEAR_STARTUP \<Rightarrow> verify UNC_DT_STARTUP
         | TC_OP_INVALID \<Rightarrow> verify UNC_DT_INVALID
         | _ \<Rightarrow> Some TCOPER_RET_FAILURE)"

subsection \<open>Forwarding results to the requester\<close>

definition ForwardResponseInternal :: "ipc_env \<Rightarrow> nat \<Rightarrow> bool \<Rightarrow> ipc_state \<Rightarrow> TcOperRet \<times> ipc_state" where
  "ForwardResponseInternal E p decr_resp s =
     (let vs = (case map_of (ipc_heap s) p of None \<Rightarrow> [] | Some c \<Rightarrow> cs_resp c); n = length vs
      in if n = 0 then (TCOPER_RET_SUCCESS, s)
         else let to_index = (if decr_resp then n - 1 else n);
                  (r, s1) = ask E (SrvForward p 0 to_index) s
         in if rp_err r \<noteq> 0 then (TCOPER_RET_FATAL, s1)
            else (TCOPER_RET_SUCCESS, s1\<lparr>srv_out := srv_out s1 @ take to_index vs\<rparr>))"

definition forward_opt :: "ipc_env \<Rightarrow> nat option \<Rightarrow> bool \<Rightarrow> ipc_state \<Rightarrow> TcOperRet \<times> ipc_state" where
  "forward_opt E p decr s =
     (case p of None \<Rightarrow> (TCOPER_RET_SUCCESS, s)
      | Some q \<Rightarrow>
          (case ForwardResponseInternal E q decr s of
             (TCOPER_RET_SUCCESS, s1) \<Rightarrow> (TCOPER_RET_SUCCESS, s1)
           | (_, s1) \<Rightarrow> (TCOPER_RET_FATAL, s1)))"

definition ForwardResponseToVTN ::
  "ipc_env \<Rightarrow> 'a TcMsg_scheme \<Rightarrow> ipc_state \<Rightarrow> TcOperRet \<times> ipc_state" where
  "ForwardResponseToVTN E m s =
     (case forward_opt E (sess m) False s of
        (TCOPER_RET_SUCCESS, s1) \<Rightarrow>
          (case forward_opt E (upll_sess m) (opertype m = MSG_AUDIT_GLOBAL) s1 of
             (TCOPER_RET_SUCCESS, s2) \<Rightarrow>
               forward_opt E (uppl_sess m) (opertype m = MSG_AUDIT_GLOBAL) s2
           | r \<Rightarrow> r)
      | r \<Rightarrow> r)"


section \<open>Requests\<close>

text \<open>
  The data of a request: values to append, and the checks on the session and configuration
  ids that the sources make between them.
\<close>

datatype item = Put ipc_value | Require bool

fun set_value :: "ipc_env \<Rightarrow> nat option \<Rightarrow> ipc_value \<Rightarrow> ipc_state \<Rightarrow> TcUtilRet \<times> ipc_state" where
  "set_value E p (IpcU8 x) s = set_uint8 E p x s"
| "set_value E p (IpcU32 x) s = set_uint32 E p x s"
| "set_value E p (IpcU64 x) s = set_uint64 E p x s"
| "set_value E p (IpcStr x) s = set_string E p x s"
| "set_value E p _ s = (TCUTIL_RET_FAILURE, s)"

datatype append_result = Appended | CheckFailed | PutFailed TcUtilRet

fun append_data :: "ipc_env \<Rightarrow> nat \<Rightarrow> item list \<Rightarrow> ipc_state \<Rightarrow> append_result \<times> ipc_state" where
  "append_data E p [] s = (Appended, s)"
| "append_data E p (Require b # is) s = (if b then append_data E p is s else (CheckFailed, s))"
| "append_data E p (Put v # is) s =
     (case set_value E (Some p) v s of
        (TCUTIL_RET_SUCCESS, s1) \<Rightarrow> append_data E p is s1
      | (r, s1) \<Rightarrow> (PutFailed r, s1))"

text \<open>How a request ends; the address and the connection of the session are reported.\<close>

datatype request_result =
    NoSession | Refused nat u32 | Failed nat u32 TcOperRet | Answered nat u32 u32

definition request ::
  "ipc_env \<Rightarrow> string \<Rightarrow> TcLibServiceId \<Rightarrow> bool \<Rightarrow> item list \<Rightarrow> ipc_state
     \<Rightarrow> request_result \<times> ipc_state" where
  "request E channel svc inf_timeout is s =
     (case create_tc_client_session E channel (tclib_num svc) inf_timeout True s of
        (None, s1) \<Rightarrow> (NoSession, s1)
      | (Some (p, c), s1) \<Rightarrow>
          (case append_data E p is s1 of
             (CheckFailed, s2) \<Rightarrow> (Refused p c, s2)
           | (PutFailed r, s2) \<Rightarrow> (Failed p c (ReturnUtilResp r), s2)
           | (Appended, s2) \<Rightarrow>
               (case tc_session_invoke E (Some p) s2 of
                  (TCUTIL_RET_SUCCESS, resp, s3) \<Rightarrow> (Answered p c resp, s3)
                | (r, _, s3) \<Rightarrow> (Failed p c (ReturnUtilResp r), s3))))"

text \<open>
  The loop over the recipients. A session that failed stays in the object and is closed by the
  destructor; an answered session is closed at once. \<open>stop\<close> says which answers end the loop;
  the result is that of the last answer.
\<close>

fun notify_daemons ::
  "ipc_env \<Rightarrow> TcLibServiceId \<Rightarrow> bool \<Rightarrow> item list \<Rightarrow> (u32 \<Rightarrow> bool) \<Rightarrow> TcDaemonName list \<Rightarrow> u32
     \<Rightarrow> 'a TcMsg_scheme \<Rightarrow> ipc_state \<Rightarrow> TcOperRet \<times> 'a TcMsg_scheme \<times> ipc_state" where
  "notify_daemons E svc inf_timeout is stop [] resp m s = (RespondToTc resp, m\<lparr>notifyorder := []\<rparr>, s)"
| "notify_daemons E svc inf_timeout is stop (d # ds) resp m s =
     (if GetChannelName m d = '''' then (TCOPER_RET_FAILURE, m, s)
      else case request E (GetChannelName m d) svc inf_timeout is s of
          (NoSession, s1) \<Rightarrow> (TCOPER_RET_FATAL, m\<lparr>sess := None\<rparr>, s1)
        | (Refused p c, s1) \<Rightarrow> (TCOPER_RET_FAILURE, m\<lparr>sess := Some p, conn := c\<rparr>, s1)
        | (Failed p c r, s1) \<Rightarrow> (r, m\<lparr>sess := Some p, conn := c\<rparr>, s1)
        | (Answered p c resp', s1) \<Rightarrow>
            (let (_, s2) = tc_session_close E (Some p) c s1; m1 = m\<lparr>sess := None, conn := c\<rparr>
             in if stop resp' then (RespondToTc resp', m1\<lparr>notifyorder := []\<rparr>, s2)
                else notify_daemons E svc inf_timeout is stop ds resp' m1 s2))"

text \<open>
  The controller type is the response code of the daemon (\<open>None\<close>: the output argument is
  left as it was).
\<close>

definition GetControllerType ::
  "ipc_env \<Rightarrow> string \<Rightarrow> ipc_state \<Rightarrow> TcOperRet \<times> unc_keytype_ctrtype_t option \<times> ipc_state" where
  "GetControllerType E channel s =
     (case request E channel TCLIB_CONTROLLER_TYPE False [] s of
        (NoSession, s1) \<Rightarrow> (TCOPER_RET_FATAL, None, s1)
      | (Answered p c resp, s1) \<Rightarrow>
          (TCOPER_RET_SUCCESS, Some resp, snd (tc_session_close E (Some p) c s1))
      | (Refused p c, s1) \<Rightarrow> (TCOPER_RET_FATAL, None, snd (tc_session_close E (Some p) c s1))
      | (Failed p c r, s1) \<Rightarrow> (TCOPER_RET_FATAL, None, snd (tc_session_close E (Some p) c s1)))"


section \<open>The notification messages\<close>

subsection \<open>Autosave\<close>

record TcMsgAutoSave = TcMsg +
  save_version :: u64

definition TcMsgAutoSave_new :: "u32 \<Rightarrow> TcMsgOperType \<Rightarrow> TcChannelNameMap \<Rightarrow> TcMsgAutoSave" where
  "TcMsgAutoSave_new sess_id oper daemon_names =
     TcMsg.TcMsg.extend (TcMsg_new sess_id oper daemon_names) (TcMsgAutoSave.fields 0)"

definition TcMsgAutoSave_SetData :: "u64 \<Rightarrow> TcMsgAutoSave \<Rightarrow> TcMsgAutoSave" where
  "TcMsgAutoSave_SetData v m = m\<lparr>save_version := v\<rparr>"

text \<open>
  This class keeps the connection in a local variable, so a session that the loop leaves in
  the object has the connection 0 in the object.
\<close>

fun autosave_loop ::
  "ipc_env \<Rightarrow> TcLibServiceId \<Rightarrow> TcDaemonName list \<Rightarrow> u32 \<Rightarrow> TcMsgAutoSave \<Rightarrow> ipc_state
     \<Rightarrow> TcOperRet \<times> TcMsgAutoSave \<times> ipc_state" where
  "autosave_loop E svc [] resp m s = (RespondToTc resp, m\<lparr>notifyorder := []\<rparr>, s)"
| "autosave_loop E svc (d # ds) resp m s =
     (if GetChannelName m d = '''' then (TCOPER_RET_FAILURE, m, s)
      else case create_tc_client_session E (GetChannelName m d) (tclib_num svc) True True s of
          (None, s1) \<Rightarrow> (TCOPER_RET_FATAL, m\<lparr>sess := None\<rparr>, s1)
        | (Some (p, c), s1) \<Rightarrow>
            (let (_, s2) = ask E (SetTimeout p) s1
             in case append_data E p [Put (IpcU32 (session_id m)), Put (IpcU64 (save_version m))] s2 of
                 (PutFailed r, s3) \<Rightarrow> (ReturnUtilResp r, m\<lparr>sess := Some p\<rparr>, s3)
               | (CheckFailed, s3) \<Rightarrow> (TCOPER_RET_FAILURE, m\<lparr>sess := Some p\<rparr>, s3)
               | (Appended, s3) \<Rightarrow>
                   (case tc_session_invoke E (Some p) s3 of
                      (TCUTIL_RET_SUCCESS, resp', s4) \<Rightarrow>
                        (let (_, s5) = tc_session_close E (Some p) c s4; m1 = m\<lparr>sess := None\<rparr>
                         in if resp' \<noteq> TC_SUCCESS
                            then (RespondToTc resp', m1\<lparr>notifyorder := []\<rparr>, s5)
                            else autosave_loop E svc ds resp' m1 s5)
                    | (r, _, s4) \<Rightarrow>
                        (ReturnUtilResp r, m\<lparr>sess := None\<rparr>,
                         snd (tc_session_close E (Some p) c s4)))))"

definition TcMsgAutoSave_Execute ::
  "ipc_env \<Rightarrow> TcMsgAutoSave \<Rightarrow> ipc_state \<Rightarrow> TcOperRet \<times> TcMsgAutoSave \<times> ipc_state" where
  "TcMsgAutoSave_Execute E m s =
     (let order = notifyorder m @ [TC_UPLL, TC_UPPL]; m1 = m\<lparr>notifyorder := order\<rparr>
      in if opertype m = MSG_AUTOSAVE_ENABLE then autosave_loop E TCLIB_AUTOSAVE_ENABLE order 0 m1 s
         else if opertype m = MSG_AUTOSAVE_DISABLE
         then autosave_loop E TCLIB_AUTOSAVE_DISABLE order 0 m1 s
         else (TCOPER_RET_FAILURE, m1, s))"

subsection \<open>Setup\<close>

text \<open>
  The constructor leaves \<open>autosave_enabled\<close> without a value; the value found there is an
  argument. The same holds for the mode of \<^verbatim>\<open>TcMsgNotifyConfigId\<close>.
\<close>

record TcMsgSetUp = TcMsg +
  autosave_enabled :: bool

definition TcMsgSetUp_new :: "bool \<Rightarrow> u32 \<Rightarrow> TcMsgOperType \<Rightarrow> TcChannelNameMap \<Rightarrow> TcMsgSetUp" where
  "TcMsgSetUp_new unset sess_id oper daemon_names =
     TcMsg.TcMsg.extend (TcMsg_new sess_id oper daemon_names) (TcMsgSetUp.fields unset)"

definition TcMsgSetUp_SetData :: "bool \<Rightarrow> TcMsgSetUp \<Rightarrow> TcMsgSetUp" where
  "TcMsgSetUp_SetData b m = m\<lparr>autosave_enabled := b\<rparr>"

definition TcMsgSetUp_Execute ::
  "ipc_env \<Rightarrow> TcMsgSetUp \<Rightarrow> ipc_state \<Rightarrow> TcOperRet \<times> TcMsgSetUp \<times> ipc_state" where
  "TcMsgSetUp_Execute E m s =
     (let order = notifyorder m @ [TC_UPLL, TC_UPPL]; m1 = m\<lparr>notifyorder := order\<rparr>;
          go = (\<lambda>svc. notify_daemons E svc True [Put (IpcU8 (if autosave_enabled m then 1 else 0))]
                  (\<lambda>resp. resp \<noteq> TC_SUCCESS) order 0 m1 s)
      in case opertype m of
           MSG_SETUP \<Rightarrow> go TCLIB_SETUP
         | MSG_SETUP_COMPLETE \<Rightarrow> go TCLIB_SETUP_COMPLETE
         | _ \<Rightarrow> (TCOPER_RET_FAILURE, m, s))"

subsection \<open>Configuration ids\<close>

record TcMsgNotifyConfigId = TcMsg +
  nc_config_id :: u32
  nc_config_mode :: TcConfigMode
  nc_vtn_name :: string

definition TcMsgNotifyConfigId_new ::
  "TcConfigMode \<Rightarrow> u32 \<Rightarrow> TcMsgOperType \<Rightarrow> TcChannelNameMap \<Rightarrow> TcMsgNotifyConfigId" where
  "TcMsgNotifyConfigId_new unset sess_id oper daemon_names =
     TcMsg.TcMsg.extend (TcMsg_new sess_id oper daemon_names)
       (TcMsgNotifyConfigId.fields 0 unset '''')"

definition TcMsgNotifyConfigId_SetData ::
  "u32 \<Rightarrow> TcConfigMode \<Rightarrow> string \<Rightarrow> TcMsgNotifyConfigId \<Rightarrow> TcMsgNotifyConfigId" where
  "TcMsgNotifyConfigId_SetData cid mode vtn m =
     m\<lparr>nc_config_id := cid, nc_config_mode := mode,
       nc_vtn_name := (if mode = TC_CONFIG_VTN then vtn else '''')\<rparr>"

definition TcMsgNotifyConfigId_Execute ::
  "ipc_env \<Rightarrow> TcMsgNotifyConfigId \<Rightarrow> ipc_state \<Rightarrow> TcOperRet \<times> TcMsgNotifyConfigId \<times> ipc_state" where
  "TcMsgNotifyConfigId_Execute E m s =
     (let order = notifyorder m @ [TC_UPLL, TC_UPPL]
      in notify_daemons E TCLIB_NOTIFY_SESSION_CONFIG False
           [Put (IpcU32 (session_id m)), Put (IpcU32 (nc_config_id m)),
            Put (IpcU8 (ucast (config_mode_num (nc_config_mode m)))), Put (IpcStr (nc_vtn_name m))]
           (\<lambda>resp. resp \<noteq> TC_SUCCESS) order 0 (m\<lparr>notifyorder := order\<rparr>) s)"

subsection \<open>The startup database\<close>

record TcMsgToStartupDB = TcMsg +
  st_save_version :: u64

definition TcMsgToStartupDB_new :: "u32 \<Rightarrow> TcMsgOperType \<Rightarrow> TcChannelNameMap \<Rightarrow> TcMsgToStartupDB" where
  "TcMsgToStartupDB_new sess_id oper daemon_names =
     TcMsg.TcMsg.extend (TcMsg_new sess_id oper daemon_names) (TcMsgToStartupDB.fields 0)"

definition TcMsgToStartupDB_SetData :: "u64 \<Rightarrow> TcMsgToStartupDB \<Rightarrow> TcMsgToStartupDB" where
  "TcMsgToStartupDB_SetData v m = m\<lparr>st_save_version := v\<rparr>"

definition TcMsgToStartupDB_Execute ::
  "ipc_env \<Rightarrow> TcMsgToStartupDB \<Rightarrow> ipc_state \<Rightarrow> TcOperRet \<times> TcMsgToStartupDB \<times> ipc_state" where
  "TcMsgToStartupDB_Execute E m s =
     (let order = [TC_UPLL, TC_UPPL]; m1 = m\<lparr>notifyorder := order\<rparr>;
          go = (\<lambda>svc version. notify_daemons E svc True
                  ([Require (session_id m > 0), Put (IpcU32 (session_id m))] @ version)
                  (\<lambda>resp. resp \<noteq> TC_SUCCESS) order 0 m1 s)
      in if opertype m = MSG_SAVE_CONFIG then go TCLIB_SAVE_CONFIG [Put (IpcU64 (st_save_version m))]
         else if opertype m = MSG_CLEAR_CONFIG then go TCLIB_CLEAR_STARTUP []
         else (TCOPER_RET_FAILURE, m1, s))"

subsection \<open>Audit of the databases\<close>

record TcMsgAuditDB = TcMsg +
  target_db :: unc_keytype_datatype_t
  fail_oper :: TcServiceType
  ad_version :: u64
  ad_config_mode :: TcConfigMode
  ad_vtn_name :: string

definition TcMsgAuditDB_new :: "u32 \<Rightarrow> TcMsgOperType \<Rightarrow> TcChannelNameMap \<Rightarrow> TcMsgAuditDB" where
  "TcMsgAuditDB_new sess_id oper daemon_names =
     TcMsg.TcMsg.extend (TcMsg_new sess_id oper daemon_names) (TcMsgAuditDB.fields UNC_DT_INVALID TC_OP_INVALID 0 TC_CONFIG_INVALID '''')"

definition TcMsgAuditDB_SetData ::
  "unc_keytype_datatype_t \<Rightarrow> TcServiceType \<Rightarrow> u64 \<Rightarrow> TcMsgAuditDB \<Rightarrow> TcMsgAuditDB" where
  "TcMsgAuditDB_SetData db op v m = m\<lparr>target_db := db, fail_oper := op, ad_version := v\<rparr>"

definition TcMsgAuditDB_SetMode :: "TcConfigMode \<Rightarrow> string \<Rightarrow> TcMsgAuditDB \<Rightarrow> TcMsgAuditDB" where
  "TcMsgAuditDB_SetMode mode vtn m = m\<lparr>ad_config_mode := mode, ad_vtn_name := vtn\<rparr>"

definition audit_order :: "TcServiceType \<Rightarrow> TcDaemonName list" where
  "audit_order op =
     (if op \<in> {TC_OP_RUNNING_SAVE, TC_OP_CANDIDATE_ABORT, TC_OP_CANDIDATE_ABORT_TIMED}
      then [TC_UPLL, TC_UPPL] else [TC_UPPL, TC_UPLL])"

definition TcMsgAuditDB_Execute ::
  "ipc_env \<Rightarrow> TcMsgAuditDB \<Rightarrow> ipc_state \<Rightarrow> (TcOperRet \<times> TcMsgAuditDB \<times> ipc_state) option" where
  "TcMsgAuditDB_Execute E m s =
     (case ValidateAuditDBAttributes (target_db m) (fail_oper m) of
        None \<Rightarrow> None
      | Some TCOPER_RET_SUCCESS \<Rightarrow>
          (let order = notifyorder m @ audit_order (fail_oper m)
           in Some (notify_daemons E TCLIB_AUDIT_CONFIG True
                [Put (IpcU8 (ucast (datatype_num (target_db m)))),
                 Put (IpcU8 (ucast (service_num (fail_oper m)))),
                 Put (IpcU8 (ucast (config_mode_num (ad_config_mode m)))),
                 Put (IpcStr (ad_vtn_name m)), Put (IpcU64 (ad_version m))]
                (\<lambda>resp. resp = TC_FAILURE \<or> resp = TC_LAST_DB_OPER_FAILURE) order 0
                (m\<lparr>notifyorder := order\<rparr>) s))
      | Some _ \<Rightarrow> Some (TCOPER_RET_FAILURE, m, s))"


section \<open>Process-wide flags\<close>

record TcMsgGlobals =
  audit_cancel_flag :: bool
  notify_driver_id :: unc_keytype_ctrtype_t
  notify_controller_id :: string

definition TcMsgGlobals_init :: TcMsgGlobals where
  "TcMsgGlobals_init = \<lparr>audit_cancel_flag = False, notify_driver_id = UNC_CT_UNKNOWN,
     notify_controller_id = ''''\<rparr>"

definition SetAuditCancelFlag :: "bool \<Rightarrow> TcMsgGlobals \<Rightarrow> TcMsgGlobals" where
  "SetAuditCancelFlag b g = g\<lparr>audit_cancel_flag := b\<rparr>"

definition GetAuditCancelFlag :: "TcMsgGlobals \<Rightarrow> bool" where
  "GetAuditCancelFlag g = audit_cancel_flag g"

definition SetNotifyDriverId :: "unc_keytype_ctrtype_t \<Rightarrow> TcMsgGlobals \<Rightarrow> TcMsgGlobals" where
  "SetNotifyDriverId i g = g\<lparr>notify_driver_id := i\<rparr>"

definition GetNotifyDriverId :: "TcMsgGlobals \<Rightarrow> unc_keytype_ctrtype_t" where
  "GetNotifyDriverId g = notify_driver_id g"

definition SetNotifyControllerId :: "string \<Rightarrow> TcMsgGlobals \<Rightarrow> TcMsgGlobals" where
  "SetNotifyControllerId i g = g\<lparr>notify_controller_id := i\<rparr>"

definition GetNotifyControllerId :: "TcMsgGlobals \<Rightarrow> string" where
  "GetNotifyControllerId g = notify_controller_id g"

end
