(* ===== verification/TcMsgCommit.thy ===== *)
theory TcMsgCommit
  imports TcMsg
begin

text \<open>
  The messages of a commit (\<^verbatim>\<open>tcmsg_commit.cc\<close>): the candidate abort, the start and the
  end of a transaction, and the two phases (vote and global commit) with the controllers and
  drivers the upper layers name. An answer other than \<^verbatim>\<open>TC_SUCCESS\<close> and
  \<^verbatim>\<open>TC_FAILURE\<close> is treated by the sources as a success, and so it is here.
\<close>

section \<open>The common part\<close>

record TcMsgCommit = TcMsg +
  config_id :: u32

definition TcMsgCommit_new :: "u32 \<Rightarrow> TcMsgOperType \<Rightarrow> TcChannelNameMap \<Rightarrow> TcMsgCommit" where
  "TcMsgCommit_new sess_id oper daemon_names =
     TcMsg.TcMsg.extend (TcMsg_new sess_id oper daemon_names) (TcMsgCommit.TcMsgCommit.fields 0)"

definition TcMsgCommit_SetData :: "u32 \<Rightarrow> 'a TcMsgCommit_scheme \<Rightarrow> 'a TcMsgCommit_scheme" where
  "TcMsgCommit_SetData cid m = m\<lparr>config_id := cid\<rparr>"

definition ids_valid :: "'a TcMsgCommit_scheme \<Rightarrow> bool" where
  "ids_valid m \<longleftrightarrow> session_id m > 0 \<and> config_id m > 0"

definition abort_items :: "'a TcMsgCommit_scheme \<Rightarrow> item list" where
  "abort_items m =
     [Put (IpcU8 (msg_num MSG_COMMIT_ABORT)), Require (ids_valid m),
      Put (IpcU32 (session_id m)), Put (IpcU32 (config_id m)),
      Put (IpcU8 (abort_phase_num COMMIT_VOTE_REQUEST))]"

text \<open>
  The abort is sent in the order in which the daemons voted. When the ids are invalid the
  session that was opened is not closed.
\<close>

fun abort_loop ::
  "ipc_env \<Rightarrow> 'a TcMsgCommit_scheme \<Rightarrow> TcDaemonName list \<Rightarrow> u32 \<Rightarrow> ipc_state
     \<Rightarrow> TcOperRet \<times> ipc_state" where
  "abort_loop E m [] resp s = (RespondToTc resp, s)"
| "abort_loop E m (d # ds) resp s =
     (case request E (GetChannelName m d) TCLIB_COMMIT_GLOBAL_ABORT True (abort_items m) s of
        (NoSession, s1) \<Rightarrow> (TCOPER_RET_FATAL, s1)
      | (Refused p c, s1) \<Rightarrow> (TCOPER_RET_FAILURE, s1)
      | (Failed p c r, s1) \<Rightarrow> (r, snd (tc_session_close E (Some p) c s1))
      | (Answered p c resp', s1) \<Rightarrow>
          (let (_, s2) = tc_session_close E (Some p) c s1
           in if resp' = TC_FAILURE then (RespondToTc resp', s2) else abort_loop E m ds resp' s2))"

definition SendAbortRequest ::
  "ipc_env \<Rightarrow> 'a TcMsgCommit_scheme \<Rightarrow> TcDaemonName list \<Rightarrow> ipc_state \<Rightarrow> TcOperRet \<times> ipc_state" where
  "SendAbortRequest E m ds s =
     (if opertype m = MSG_COMMIT_VOTE then abort_loop E m ds 0 s else (TCOPER_RET_FAILURE, s))"

definition trans_end_items :: "'a TcMsgCommit_scheme \<Rightarrow> item list" where
  "trans_end_items m =
     [Put (IpcU8 (msg_num MSG_COMMIT_TRANS_END)), Require (ids_valid m),
      Put (IpcU32 (session_id m)), Put (IpcU32 (config_id m)),
      Put (IpcU8 (trans_end_num TRANS_END_FAILURE))]"

fun trans_end_loop ::
  "ipc_env \<Rightarrow> 'a TcMsgCommit_scheme \<Rightarrow> TcDaemonName list \<Rightarrow> u32 \<Rightarrow> ipc_state
     \<Rightarrow> TcOperRet \<times> ipc_state" where
  "trans_end_loop E m [] resp s = (RespondToTc resp, s)"
| "trans_end_loop E m (d # ds) resp s =
     (if GetChannelName m d = '''' then (TCOPER_RET_FAILURE, s)
      else case request E (GetChannelName m d) TCLIB_COMMIT_TRANSACTION True (trans_end_items m) s of
          (NoSession, s1) \<Rightarrow> (TCOPER_RET_FATAL, s1)
        | (Refused p c, s1) \<Rightarrow> (TCOPER_RET_FAILURE, snd (tc_session_close E (Some p) c s1))
        | (Failed p c r, s1) \<Rightarrow> (r, snd (tc_session_close E (Some p) c s1))
        | (Answered p c resp', s1) \<Rightarrow>
            (let (_, s2) = tc_session_close E (Some p) c s1
             in if resp' = TC_FAILURE then (RespondToTc resp', s2)
                else trans_end_loop E m ds resp' s2))"

text \<open>The end of the transaction is sent in the reverse order of its start.\<close>

definition SendTransEndRequest ::
  "ipc_env \<Rightarrow> 'a TcMsgCommit_scheme \<Rightarrow> TcDaemonName list \<Rightarrow> ipc_state \<Rightarrow> TcOperRet \<times> ipc_state" where
  "SendTransEndRequest E m ds s = trans_end_loop E m (rev ds) 0 s"


section \<open>Abort of the candidate configuration\<close>

record AbortCandidateDB = TcMsgCommit +
  abort_version :: u64

definition AbortCandidateDB_new :: "u32 \<Rightarrow> TcMsgOperType \<Rightarrow> TcChannelNameMap \<Rightarrow> AbortCandidateDB" where
  "AbortCandidateDB_new sess_id oper daemon_names =
     TcMsgCommit.TcMsgCommit.extend (TcMsgCommit_new sess_id oper daemon_names)
       (AbortCandidateDB.fields 0)"

definition AbortCandidateDB_SetData :: "u64 \<Rightarrow> AbortCandidateDB \<Rightarrow> AbortCandidateDB" where
  "AbortCandidateDB_SetData v m = m\<lparr>abort_version := v\<rparr>"

definition AbortCandidateDB_Execute ::
  "ipc_env \<Rightarrow> AbortCandidateDB \<Rightarrow> ipc_state \<Rightarrow> TcOperRet \<times> AbortCandidateDB \<times> ipc_state" where
  "AbortCandidateDB_Execute E m s =
     (let order = notifyorder m @ [TC_UPLL, TC_UPPL]
      in notify_daemons E TCLIB_USER_ABORT True
           [Require (ids_valid m), Put (IpcU32 (session_id m)), Put (IpcU32 (config_id m)),
            Put (IpcU64 (abort_version m))]
           (\<lambda>resp. resp = TC_FAILURE) order 0 (m\<lparr>notifyorder := order\<rparr>) s)"


section \<open>Start and end of a transaction\<close>

definition commit_items :: "'a TcMsgCommit_scheme \<Rightarrow> item list" where
  "commit_items m =
     [Put (IpcU8 (msg_num (opertype m))), Put (IpcU32 (session_id m)), Put (IpcU32 (config_id m))]"

definition transaction_items :: "'a TcMsgCommit_scheme \<Rightarrow> item list" where
  "transaction_items m =
     commit_items m @
     (if opertype m = MSG_COMMIT_TRANS_END then [Put (IpcU8 (trans_end_num (trans_result m)))] else [])"

text \<open>What a failed transaction start undoes.\<close>

definition undo_start ::
  "ipc_env \<Rightarrow> TcMsgCommit \<Rightarrow> ipc_state \<Rightarrow> TcOperRet \<times> ipc_state" where
  "undo_start E m s =
     (if abort_on_fail m = [] then (TCOPER_RET_ABORT, s)
      else let (r, s1) = SendTransEndRequest E m (abort_on_fail m) s
           in (if r = TCOPER_RET_SUCCESS then TCOPER_RET_ABORT else TCOPER_RET_FATAL, s1))"

definition CommitTransaction_SendRequest ::
  "ipc_env \<Rightarrow> string \<Rightarrow> TcMsgCommit \<Rightarrow> ipc_state \<Rightarrow> TcOperRet \<times> TcMsgCommit \<times> ipc_state" where
  "CommitTransaction_SendRequest E channel m s =
     (case request E channel TCLIB_COMMIT_TRANSACTION True (transaction_items m) s of
        (NoSession, s1) \<Rightarrow> (TCOPER_RET_FATAL, m\<lparr>sess := None\<rparr>, s1)
      | (Refused p c, s1) \<Rightarrow> (TCOPER_RET_FAILURE, m\<lparr>sess := Some p, conn := c\<rparr>, s1)
      | (Failed p c r, s1) \<Rightarrow> (r, m\<lparr>sess := Some p, conn := c\<rparr>, s1)
      | (Answered p c resp, s1) \<Rightarrow>
          (let m1 = m\<lparr>sess := Some p, conn := c\<rparr>
           in if resp = TC_FAILURE \<and> opertype m = MSG_COMMIT_TRANS_START
              then (let m2 = m1\<lparr>trans_result := TRANS_END_FAILURE\<rparr>; (r, s2) = undo_start E m2 s1
                    in (r, m2, s2))
              else if resp = TC_FAILURE \<and> opertype m = MSG_COMMIT_TRANS_END
              then (TCOPER_RET_FATAL, m1, s1)
              else (TCOPER_RET_SUCCESS, m1\<lparr>sess := None\<rparr>, snd (tc_session_close E (Some p) c s1))))"

fun transaction_loop ::
  "ipc_env \<Rightarrow> TcDaemonName list \<Rightarrow> TcMsgCommit \<Rightarrow> ipc_state \<Rightarrow> TcOperRet \<times> TcMsgCommit \<times> ipc_state" where
  "transaction_loop E [] m s =
     (TCOPER_RET_SUCCESS, m\<lparr>abort_on_fail := [], notifyorder := []\<rparr>, s)"
| "transaction_loop E (d # ds) m s =
     (if GetChannelName m d = '''' then transaction_loop E ds m s
      else case CommitTransaction_SendRequest E (GetChannelName m d) m s of
          (r, m1, s1) \<Rightarrow>
            if r \<noteq> TCOPER_RET_SUCCESS then (r, m1, s1)
            else transaction_loop E ds (m1\<lparr>abort_on_fail := abort_on_fail m1 @ [d]\<rparr>) s1)"

definition start_order :: "TcDaemonName list" where
  "start_order = [TC_DRV_OPENFLOW, TC_DRV_OVERLAY, TC_DRV_POLC, TC_DRV_VAN, TC_DRV_ODC,
     TC_UPLL, TC_UPPL]"

definition end_order :: "TcDaemonName list" where
  "end_order = [TC_UPPL, TC_UPLL, TC_DRV_ODC, TC_DRV_VAN, TC_DRV_POLC, TC_DRV_OVERLAY,
     TC_DRV_OPENFLOW]"

definition CommitTransaction_Execute ::
  "ipc_env \<Rightarrow> TcMsgCommit \<Rightarrow> ipc_state \<Rightarrow> TcOperRet \<times> TcMsgCommit \<times> ipc_state" where
  "CommitTransaction_Execute E m s =
     (if session_id m = 0 \<or> config_id m = 0 then (TCOPER_RET_FAILURE, m, s)
      else let go = (\<lambda>ds. transaction_loop E (notifyorder m @ ds)
                        (m\<lparr>notifyorder := notifyorder m @ ds\<rparr>) s)
      in case opertype m of
           MSG_COMMIT_TRANS_START \<Rightarrow> go start_order
         | MSG_COMMIT_TRANS_END \<Rightarrow> go end_order
         | _ \<Rightarrow> (TCOPER_RET_FAILURE, m, s))"


section \<open>The two phases\<close>

type_synonym DriverSet = "unc_keytype_ctrtype_t set"
type_synonym TcDriverInfoMap = "(unc_keytype_ctrtype_t, string list) stdmap"

record TwoPhaseCommit = TcMsgCommit +
  driverinfo_map :: TcDriverInfoMap
  driver_set :: DriverSet
  driverset_map :: "TcDaemonName \<Rightarrow> DriverSet option"

definition TwoPhaseCommit_new :: "u32 \<Rightarrow> TcMsgOperType \<Rightarrow> TcChannelNameMap \<Rightarrow> TwoPhaseCommit" where
  "TwoPhaseCommit_new sess_id oper daemon_names =
     TcMsgCommit.TcMsgCommit.extend (TcMsgCommit_new sess_id oper daemon_names)
       (TwoPhaseCommit.fields [] {} Map.empty)"

lemmas msg_new_defs = TcMsg_new_def TcMsgCommit_new_def TwoPhaseCommit_new_def AbortCandidateDB_new_def
  TcMsg.TcMsg.extend_def TcMsgCommit.TcMsgCommit.extend_def TcMsgCommit.TcMsgCommit.fields_def
  TwoPhaseCommit.fields_def AbortCandidateDB.fields_def

subsection \<open>Driver results\<close>

definition driver_result_items :: "TwoPhaseCommit \<Rightarrow> item list option" where
  "driver_result_items m =
     (let mk = (\<lambda>oper phase.
            [Put (IpcU8 (msg_num oper)), Require (ids_valid m), Put (IpcU32 (session_id m)),
             Put (IpcU32 (config_id m)), Put (IpcU8 (commit_phase_num phase))])
      in case opertype m of
           MSG_COMMIT_VOTE \<Rightarrow> Some (mk MSG_COMMIT_VOTE_DRIVER_RESULT TC_COMMIT_VOTE_PHASE)
         | MSG_COMMIT_GLOBAL \<Rightarrow>
             Some (mk MSG_COMMIT_GLOBAL_DRIVER_RESULT TC_COMMIT_GLOBAL_COMMIT_PHASE)
         | _ \<Rightarrow> None)"

definition SetSessionToForwardDriverResult ::
  "ipc_env \<Rightarrow> nat \<Rightarrow> TwoPhaseCommit \<Rightarrow> ipc_state \<Rightarrow> TcOperRet \<times> ipc_state" where
  "SetSessionToForwardDriverResult E p m s =
     (case driver_result_items m of
        None \<Rightarrow> (TCOPER_RET_FAILURE, s)
      | Some items \<Rightarrow>
          (case append_data E p items s of
             (Appended, s1) \<Rightarrow> (TCOPER_RET_SUCCESS, s1)
           | (CheckFailed, s1) \<Rightarrow> (TCOPER_RET_FAILURE, s1)
           | (PutFailed r, s1) \<Rightarrow> (ReturnUtilResp r, s1)))"

text \<open>One of the two sessions: the result code, its address and connection.\<close>

definition open_driver_result ::
  "ipc_env \<Rightarrow> TcDaemonName \<Rightarrow> TwoPhaseCommit \<Rightarrow> ipc_state
     \<Rightarrow> TcOperRet \<times> (nat \<times> u32) option \<times> ipc_state" where
  "open_driver_result E d m s =
     (case create_tc_client_session E (GetChannelName m d)
             (tclib_num TCLIB_COMMIT_DRV_RESULT) True True s of
        (None, s1) \<Rightarrow> (TCOPER_RET_FATAL, None, s1)
      | (Some (p, c), s1) \<Rightarrow>
          (let (r, s2) = SetSessionToForwardDriverResult E p m s1
           in (if r \<noteq> TCOPER_RET_SUCCESS then TCOPER_RET_FAILURE else TCOPER_RET_SUCCESS,
               Some (p, c), s2)))"

definition keep_upll :: "(nat \<times> u32) option \<Rightarrow> TwoPhaseCommit \<Rightarrow> TwoPhaseCommit" where
  "keep_upll h m =
     (case h of None \<Rightarrow> m\<lparr>upll_sess := None\<rparr> | Some (p, c) \<Rightarrow> m\<lparr>upll_sess := Some p, upll_conn := c\<rparr>)"

definition keep_uppl :: "(nat \<times> u32) option \<Rightarrow> TwoPhaseCommit \<Rightarrow> TwoPhaseCommit" where
  "keep_uppl h m =
     (case h of None \<Rightarrow> m\<lparr>uppl_sess := None\<rparr> | Some (p, c) \<Rightarrow> m\<lparr>uppl_sess := Some p, uppl_conn := c\<rparr>)"

definition CreateSessionsToForwardDriverResult ::
  "ipc_env \<Rightarrow> TwoPhaseCommit \<Rightarrow> ipc_state \<Rightarrow> TcOperRet \<times> TwoPhaseCommit \<times> ipc_state" where
  "CreateSessionsToForwardDriverResult E m s =
     (case open_driver_result E TC_UPLL m s of
        (r, h, s1) \<Rightarrow>
          (let m1 = keep_upll h m
           in if r \<noteq> TCOPER_RET_SUCCESS then (r, m1, s1)
              else (case open_driver_result E TC_UPPL m1 s1 of
                      (r2, h2, s2) \<Rightarrow> (r2, keep_uppl h2 m1, s2))))"

definition HandleDriverResultResponse ::
  "ipc_env \<Rightarrow> nat option \<Rightarrow> TwoPhaseCommit \<Rightarrow> ipc_state \<Rightarrow> TcOperRet \<times> TwoPhaseCommit \<times> ipc_state" where
  "HandleDriverResultResponse E p m s =
     (case tc_session_invoke E p s of
        (TCUTIL_RET_SUCCESS, resp, s1) \<Rightarrow>
          if resp = TC_FAILURE \<and> opertype m = MSG_COMMIT_VOTE
          then (let m1 = m\<lparr>trans_result := TRANS_END_FAILURE\<rparr>;
                    (r, s2) = SendAbortRequest E m1 (abort_on_fail m1) s1
                in (if r = TCOPER_RET_SUCCESS then TCOPER_RET_ABORT else TCOPER_RET_FATAL, m1, s2))
          else if resp = TC_FAILURE \<and> opertype m = MSG_COMMIT_GLOBAL
          then (TCOPER_RET_FATAL, m, s1)
          else (TCOPER_RET_SUCCESS, m, s1)
      | (r, _, s1) \<Rightarrow> (ReturnUtilResp r, m, s1))"

subsection \<open>Controllers named by the upper layers\<close>

fun std_merge :: "string list \<Rightarrow> string list \<Rightarrow> string list" where
  "std_merge [] ys = ys"
| "std_merge xs [] = xs"
| "std_merge (x # xs) (y # ys) =
     (if y < x then y # std_merge (x # xs) ys else x # std_merge xs (y # ys))"

text \<open>The lists of a driver named by both layers are merged without duplicates.\<close>

definition add_driver_info ::
  "unc_keytype_ctrtype_t \<Rightarrow> string list \<Rightarrow> TcDriverInfoMap \<Rightarrow> TcDriverInfoMap" where
  "add_driver_info d controllers info =
     (case map_of info d of
        None \<Rightarrow> sm_put d controllers info
      | Some old \<Rightarrow> sm_put d (remdups_adj (std_merge (sort controllers) (sort old))) info)"

fun read_controllers ::
  "nat option \<Rightarrow> nat \<Rightarrow> u32 \<Rightarrow> string list \<Rightarrow> ipc_state \<Rightarrow> TcUtilRet + u32 \<times> string list" where
  "read_controllers p 0 idx acc s = Inr (idx, acc)"
| "read_controllers p (Suc n) idx acc s =
     (case get_string p (idx + 1) s of
        Inl r \<Rightarrow> Inl r
      | Inr c \<Rightarrow> read_controllers p n (idx + 1) (acc @ [c]) s)"

text \<open>
  The loop over the drivers keeps what it stored before a malformed entry, as the members of
  the object do.
\<close>

fun read_drivers ::
  "nat option \<Rightarrow> nat \<Rightarrow> u32 \<Rightarrow> TwoPhaseCommit \<Rightarrow> ipc_state \<Rightarrow> TcUtilRet \<times> TwoPhaseCommit" where
  "read_drivers p 0 idx m s = (TCUTIL_RET_SUCCESS, m)"
| "read_drivers p (Suc n) idx m s =
     (case get_uint8 p (idx + 1) s of
        Inl r \<Rightarrow> (r, m)
      | Inr driver_id \<Rightarrow>
          (let driver_type = ucast driver_id; m1 = m\<lparr>driver_set := insert driver_type (driver_set m)\<rparr>
           in case get_uint8 p (idx + 2) s of
                Inl r \<Rightarrow> (r, m1)
              | Inr controller_count \<Rightarrow>
                  (case read_controllers p (unat controller_count) (idx + 2) [] s of
                     Inl r \<Rightarrow> (r, m1)
                   | Inr (idx', controllers) \<Rightarrow>
                       read_drivers p n idx'
                         (m1\<lparr>driverinfo_map := add_driver_info driver_type controllers
                              (driverinfo_map m1)\<rparr>) s)))"

definition GetControllerInfo ::
  "nat option \<Rightarrow> TwoPhaseCommit \<Rightarrow> ipc_state \<Rightarrow> TcOperRet \<times> TwoPhaseCommit" where
  "GetControllerInfo p m s =
     (case get_uint8 p 0 s of
        Inl r \<Rightarrow> (ReturnUtilResp r, m)
      | Inr driver_count \<Rightarrow>
          (case read_drivers p (unat driver_count) 0 m s of (r, m1) \<Rightarrow> (ReturnUtilResp r, m1)))"

subsection \<open>Drivers\<close>

text \<open>The answer invented for a controller whose driver is not running.\<close>

definition dummy_values :: "string \<Rightarrow> ipc_value list" where
  "dummy_values ctr =
     [IpcStr ctr, IpcU32 (status_num TC_OPER_DRIVER_NOT_PRESENT), IpcU32 0, IpcU64 0, IpcU64 0,
      IpcStr '''']"

fun put_both ::
  "ipc_env \<Rightarrow> nat option \<Rightarrow> nat option \<Rightarrow> ipc_value list \<Rightarrow> ipc_state \<Rightarrow> TcUtilRet \<times> ipc_state" where
  "put_both E p q [] s = (TCUTIL_RET_SUCCESS, s)"
| "put_both E p q (v # vs) s =
     (case set_value E p v s of
        (TCUTIL_RET_SUCCESS, s1) \<Rightarrow>
          (case set_value E q v s1 of
             (TCUTIL_RET_SUCCESS, s2) \<Rightarrow> put_both E p q vs s2
           | (r, s2) \<Rightarrow> (r, s2))
      | (r, s1) \<Rightarrow> (r, s1))"

definition HandleDriverNotPresent ::
  "ipc_env \<Rightarrow> unc_keytype_ctrtype_t \<Rightarrow> TwoPhaseCommit \<Rightarrow> ipc_state \<Rightarrow> TcOperRet \<times> ipc_state" where
  "HandleDriverNotPresent E driver m s =
     (case map_of (driverinfo_map m) driver of
        None \<Rightarrow> (TCOPER_RET_FAILURE, s)
      | Some ctrs \<Rightarrow>
          (case put_both E (upll_sess m) (uppl_sess m) (concat (map dummy_values ctrs)) s of
             (r, s1) \<Rightarrow> (ReturnUtilResp r, s1)))"

definition driver_items :: "TwoPhaseCommit \<Rightarrow> string list \<Rightarrow> item list" where
  "driver_items m clist =
     [Put (IpcU8 (msg_num (if opertype m = MSG_COMMIT_VOTE then MSG_COMMIT_DRIVER_VOTE
                           else if opertype m = MSG_COMMIT_GLOBAL then MSG_COMMIT_DRIVER_GLOBAL
                           else MSG_NONE))),
      Require (ids_valid m), Put (IpcU32 (session_id m)), Put (IpcU32 (config_id m)),
      Put (IpcU8 (word_of_nat (length clist)))] @ map (Put \<circ> IpcStr) clist"

text \<open>The results of the driver are appended to the data of a session of an upper layer.\<close>

definition forward_result :: "ipc_env \<Rightarrow> nat option \<Rightarrow> nat \<Rightarrow> ipc_state \<Rightarrow> TcOperRet \<times> ipc_state" where
  "forward_result E dst src s =
     (case dst of
        None \<Rightarrow> (TCOPER_RET_FATAL, s)
      | Some p \<Rightarrow>
          (let (r, s1) = ask E (Forward p src) s;
               vs = (case map_of (ipc_heap s1) src of None \<Rightarrow> [] | Some c \<Rightarrow> cs_resp c)
           in if rp_err r \<noteq> 0 then (TCOPER_RET_FATAL, s1)
              else (TCOPER_RET_SUCCESS,
                    s1\<lparr>ipc_heap := append_out p vs (ipc_heap s1)\<rparr>)))"

text \<open>Both sessions receive the results when the logical layer named the driver.\<close>

definition forward_both ::
  "ipc_env \<Rightarrow> unc_keytype_ctrtype_t \<Rightarrow> nat \<Rightarrow> TwoPhaseCommit \<Rightarrow> ipc_state \<Rightarrow> TcOperRet \<times> ipc_state" where
  "forward_both E driver p m s =
     (if driver \<in> (case driverset_map m TC_UPLL of None \<Rightarrow> {} | Some ds \<Rightarrow> ds)
      then (case forward_result E (upll_sess m) p s of
              (TCOPER_RET_SUCCESS, s1) \<Rightarrow> forward_result E (uppl_sess m) p s1
            | r \<Rightarrow> r)
      else (TCOPER_RET_SUCCESS, s))"

text \<open>
  What happens to the answer of a driver: the result code decides whether the loop goes on.
  \<^verbatim>\<open>driverset_map_[TC_UPLL]\<close> creates an empty entry when there is none.
\<close>

definition driver_answer ::
  "ipc_env \<Rightarrow> unc_keytype_ctrtype_t \<Rightarrow> TcDaemonName \<Rightarrow> nat \<Rightarrow> u32 \<Rightarrow> TwoPhaseCommit \<Rightarrow> ipc_state
     \<Rightarrow> TcOperRet \<times> TwoPhaseCommit \<times> ipc_state" where
  "driver_answer E driver d p resp m s =
     (if resp = TC_SUCCESS
      then (let m1 = m\<lparr>driverset_map := (driverset_map m)(TC_UPLL := Some
                   (case driverset_map m TC_UPLL of None \<Rightarrow> {} | Some ds \<Rightarrow> ds))\<rparr>
            in case forward_both E driver p m1 s of
                 (TCOPER_RET_SUCCESS, s1) \<Rightarrow>
                   (TCOPER_RET_SUCCESS, m1\<lparr>abort_on_fail := abort_on_fail m1 @ [d]\<rparr>, s1)
               | (r, s1) \<Rightarrow> (r, m1, s1))
      else if resp = TC_FAILURE \<and> opertype m = MSG_COMMIT_VOTE
      then (let m1 = m\<lparr>trans_result := TRANS_END_FAILURE\<rparr>
            in case SendAbortRequest E m1 (abort_on_fail m1) s of
                 (r, s1) \<Rightarrow>
                   if r = TCOPER_RET_SUCCESS
                   then (TCOPER_RET_ABORT, m1\<lparr>abort_on_fail := [], driverinfo_map := []\<rparr>, s1)
                   else (TCOPER_RET_FATAL, m1\<lparr>abort_on_fail := []\<rparr>, s1))
      else if resp = TC_FAILURE \<and> opertype m = MSG_COMMIT_GLOBAL
      then (TCOPER_RET_FATAL, m, s)
      else (TCOPER_RET_SUCCESS, m, s))"

fun driver_loop ::
  "ipc_env \<Rightarrow> TcDriverInfoMap \<Rightarrow> TwoPhaseCommit \<Rightarrow> ipc_state \<Rightarrow> TcOperRet \<times> TwoPhaseCommit \<times> ipc_state" where
  "driver_loop E [] m s = (TCOPER_RET_SUCCESS, m, s)"
| "driver_loop E ((driver, clist) # rest) m s =
     (let d = MapTcDriverId driver
      in if d = TC_NONE then (TCOPER_RET_FATAL, m, s)
         else if GetChannelName m d = ''''
         then (case HandleDriverNotPresent E driver m s of
                 (r, s1) \<Rightarrow>
                   if r \<noteq> TCOPER_RET_SUCCESS then (TCOPER_RET_FATAL, m, s1)
                   else driver_loop E rest m s1)
         else (case request E (GetChannelName m d) TCLIB_COMMIT_DRV_VOTE_GLOBAL True
                      (driver_items m clist) s of
                 (NoSession, s1) \<Rightarrow> (TCOPER_RET_FATAL, m\<lparr>sess := None\<rparr>, s1)
               | (Refused p c, s1) \<Rightarrow> (TCOPER_RET_FAILURE, m\<lparr>sess := Some p, conn := c\<rparr>, s1)
               | (Failed p c r, s1) \<Rightarrow> (r, m\<lparr>sess := Some p, conn := c\<rparr>, s1)
               | (Answered p c resp, s1) \<Rightarrow>
                   (case driver_answer E driver d p resp (m\<lparr>sess := Some p, conn := c\<rparr>) s1 of
                      (r, m2, s2) \<Rightarrow>
                        if r = TCOPER_RET_SUCCESS
                        then driver_loop E rest (m2\<lparr>sess := None\<rparr>)
                               (snd (tc_session_close E (Some p) c s2))
                        else (r, m2, s2))))"

definition SendRequestToDriver ::
  "ipc_env \<Rightarrow> TwoPhaseCommit \<Rightarrow> ipc_state \<Rightarrow> TcOperRet \<times> TwoPhaseCommit \<times> ipc_state" where
  "SendRequestToDriver E m s =
     (case CreateSessionsToForwardDriverResult E m s of
        (r, m1, s1) \<Rightarrow>
          if r \<noteq> TCOPER_RET_SUCCESS then (TCOPER_RET_FAILURE, m1, s1)
          else (case driver_loop E (driverinfo_map m1) m1 s1 of
                  (r2, m2, s2) \<Rightarrow>
                    if r2 \<noteq> TCOPER_RET_SUCCESS then (r2, m2, s2)
                    else (case HandleDriverResultResponse E (upll_sess m2) m2 s2 of
                            (r3, m3, s3) \<Rightarrow>
                              if r3 \<noteq> TCOPER_RET_SUCCESS then (r3, m3, s3)
                              else HandleDriverResultResponse E (uppl_sess m3) m3 s3)))"

subsection \<open>Upper layers\<close>

definition undo_vote :: "ipc_env \<Rightarrow> TwoPhaseCommit \<Rightarrow> ipc_state \<Rightarrow> TcOperRet \<times> TwoPhaseCommit \<times> ipc_state" where
  "undo_vote E m s =
     (if abort_on_fail m = [] then (TCOPER_RET_ABORT, m, s)
      else case SendAbortRequest E m (abort_on_fail m) s of
          (r, s1) \<Rightarrow> (if r = TCOPER_RET_SUCCESS then TCOPER_RET_ABORT else TCOPER_RET_FATAL,
                      m\<lparr>abort_on_fail := []\<rparr>, s1))"

definition TwoPhaseCommit_SendRequest ::
  "ipc_env \<Rightarrow> string \<Rightarrow> TwoPhaseCommit \<Rightarrow> ipc_state \<Rightarrow> TcOperRet \<times> TwoPhaseCommit \<times> ipc_state" where
  "TwoPhaseCommit_SendRequest E channel m s =
     (case request E channel TCLIB_COMMIT_TRANSACTION True (commit_items m) s of
        (NoSession, s1) \<Rightarrow> (TCOPER_RET_FATAL, m\<lparr>sess := None\<rparr>, s1)
      | (Refused p c, s1) \<Rightarrow> (TCOPER_RET_FAILURE, m\<lparr>sess := Some p, conn := c\<rparr>, s1)
      | (Failed p c r, s1) \<Rightarrow> (r, m\<lparr>sess := Some p, conn := c\<rparr>, s1)
      | (Answered p c resp, s1) \<Rightarrow>
          (let m1 = m\<lparr>sess := Some p, conn := c\<rparr>;
               respcount = (case map_of (ipc_heap s1) p of None \<Rightarrow> 0 | Some cs \<Rightarrow> length (cs_resp cs));
               finish = (\<lambda>m'. (TCOPER_RET_SUCCESS, m'\<lparr>sess := None\<rparr>,
                                snd (tc_session_close E (Some p) c s1)))
           in if resp = TC_SUCCESS \<and> respcount > 0
              then (case GetControllerInfo (Some p) m1 s1 of
                      (r, m2) \<Rightarrow> if r \<noteq> TCOPER_RET_SUCCESS then (TCOPER_RET_FAILURE, m2, s1)
                                 else finish m2)
              else if resp = TC_FAILURE \<and> opertype m = MSG_COMMIT_VOTE
              then undo_vote E (m1\<lparr>trans_result := TRANS_END_FAILURE\<rparr>) s1
              else if resp = TC_FAILURE \<and> opertype m = MSG_COMMIT_GLOBAL
              then (TCOPER_RET_FATAL, m1, s1)
              else finish m1))"

text \<open>A layer that answered is remembered, with the set of drivers it named.\<close>

definition remember_layer :: "TcDaemonName \<Rightarrow> TwoPhaseCommit \<Rightarrow> TwoPhaseCommit" where
  "remember_layer d m =
     (let m1 = m\<lparr>abort_on_fail := abort_on_fail m @ [d]\<rparr>
      in if driver_set m1 \<noteq> {}
         then m1\<lparr>driverset_map := (case driverset_map m1 d of
                    None \<Rightarrow> (driverset_map m1)(d \<mapsto> driver_set m1) | Some _ \<Rightarrow> driverset_map m1),
                 driver_set := {}\<rparr>
         else m1)"

fun layer_loop ::
  "ipc_env \<Rightarrow> TcDaemonName list \<Rightarrow> TwoPhaseCommit \<Rightarrow> ipc_state \<Rightarrow> TcOperRet \<times> TwoPhaseCommit \<times> ipc_state" where
  "layer_loop E [] m s = (TCOPER_RET_SUCCESS, m, s)"
| "layer_loop E (d # ds) m s =
     (if GetChannelName m d = '''' then (TCOPER_RET_FAILURE, m, s)
      else case TwoPhaseCommit_SendRequest E (GetChannelName m d) m s of
          (r, m1, s1) \<Rightarrow>
            if r \<noteq> TCOPER_RET_SUCCESS then (r, m1\<lparr>abort_on_fail := []\<rparr>, s1)
            else layer_loop E ds (remember_layer d m1) s1)"

text \<open>Without controllers the upper layers receive an empty driver result.\<close>

definition dummy_driver_result ::
  "ipc_env \<Rightarrow> TwoPhaseCommit \<Rightarrow> ipc_state \<Rightarrow> TcOperRet \<times> TwoPhaseCommit \<times> ipc_state" where
  "dummy_driver_result E m s =
     (case CreateSessionsToForwardDriverResult E m s of
        (r, m1, s1) \<Rightarrow>
          if r \<noteq> TCOPER_RET_SUCCESS then (TCOPER_RET_FAILURE, m1, s1)
          else (case HandleDriverResultResponse E (upll_sess m1) m1 s1 of
                  (r2, m2, s2) \<Rightarrow>
                    if r2 \<noteq> TCOPER_RET_SUCCESS then (TCOPER_RET_FAILURE, m2, s2)
                    else (case HandleDriverResultResponse E (uppl_sess m2) m2 s2 of
                            (r3, m3, s3) \<Rightarrow>
                              if r3 \<noteq> TCOPER_RET_SUCCESS then (TCOPER_RET_FAILURE, m3, s3)
                              else (TCOPER_RET_SUCCESS, m3\<lparr>abort_on_fail := []\<rparr>, s3))))"

definition TwoPhaseCommit_Execute ::
  "ipc_env \<Rightarrow> TwoPhaseCommit \<Rightarrow> ipc_state \<Rightarrow> TcOperRet \<times> TwoPhaseCommit \<times> ipc_state" where
  "TwoPhaseCommit_Execute E m s =
     (if session_id m = 0 \<or> config_id m = 0 then (TCOPER_RET_FAILURE, m, s)
      else let order = notifyorder m @ [TC_UPLL, TC_UPPL]
      in case layer_loop E order (m\<lparr>notifyorder := order\<rparr>) s of
           (r, m1, s1) \<Rightarrow>
             if r \<noteq> TCOPER_RET_SUCCESS then (r, m1, s1)
             else if driverinfo_map m1 = [] then dummy_driver_result E m1 s1
             else (case SendRequestToDriver E m1 s1 of
                     (r2, m2, s2) \<Rightarrow>
                       (r2, m2\<lparr>abort_on_fail := [], driverset_map := Map.empty, notifyorder := []\<rparr>, s2)))"

end
