(* ===== verification/TcMsgTrace.thy ===== *)
theory TcMsgTrace
  imports TcMsgCommit
begin

text \<open>
  What a message object does as its peers see it: the trace of the invocations in the history,
  each with its channel, service, data and response code (\<open>None\<close> for a failed
  invocation). The lemmas give the trace of every building block of a message.
\<close>

section \<open>Traces\<close>

type_synonym trace_entry = "string \<times> u32 \<times> ipc_value list \<times> u32 option"

fun entry_of :: "ipc_call \<times> ipc_reply \<Rightarrow> trace_entry list" where
  "entry_of (Invoke p channel svc out, r) =
     [(channel, svc, out, if err8 r = 0 then Some (rp_resp r) else None)]"
| "entry_of _ = []"

definition trace :: "ipc_state \<Rightarrow> trace_entry list" where
  "trace s = concat (map entry_of (ipc_log s))"

fun puts :: "item list \<Rightarrow> ipc_value list" where
  "puts [] = []"
| "puts (Put v # is) = v # puts is"
| "puts (Require b # is) = puts is"

lemma trace_cong [simp]:
  "trace (s\<lparr>ipc_heap := h\<rparr>) = trace s" "trace (s\<lparr>sess_map := mp\<rparr>) = trace s"
  "trace (s\<lparr>ipc_next := n\<rparr>) = trace s" "trace (s\<lparr>srv_out := vs\<rparr>) = trace s"
  "trace (sess_delete p s) = trace s"
  by (simp_all add: trace_def sess_delete_def)

lemma trace_ask: "trace (snd (ask E c s)) = trace s @ entry_of (c, fst (ask E c s))"
  by (simp add: ask_def trace_def Let_def)

lemma ask_fields [simp]:
  "ipc_heap (snd (ask E c s)) = ipc_heap s" "sess_map (snd (ask E c s)) = sess_map s"
  "ipc_next (snd (ask E c s)) = ipc_next s" "sys_stop (snd (ask E c s)) = sys_stop s"
  "srv_args (snd (ask E c s)) = srv_args s" "srv_out (snd (ask E c s)) = srv_out s"
  by (simp_all add: ask_def Let_def)

lemma trace_ask_silent [simp]:
  "entry_of (c, fst (ask E c s)) = [] \<Longrightarrow> trace (snd (ask E c s)) = trace s"
  by (simp add: trace_ask)

lemma trace_close [simp]: "trace (snd (tc_session_close E p c s)) = trace s"
  by (simp add: tc_session_close_def Let_def split_beta split: option.split)

lemma trace_add_output [simp]: "trace (snd (add_output E p v s)) = trace s"
  by (simp add: add_output_def split_beta split: option.split)

lemma trace_set_value [simp]: "trace (snd (set_value E p v s)) = trace s"
  by (cases v) (simp_all add: set_uint8_def set_uint32_def set_uint64_def set_string_def)

lemma set_value_trace: "set_value E p v s = (r, t) \<Longrightarrow> trace t = trace s"
  by (metis snd_conv trace_set_value)

lemma set_value_ok:
  assumes "set_value E (Some p) v s = (TCUTIL_RET_SUCCESS, t)" and "map_of (ipc_heap s) p = Some cs"
  shows "map_of (ipc_heap t) p = Some (cs\<lparr>cs_out := cs_out cs @ [v]\<rparr>)"
  using assms
  by (cases v)
    (auto simp: set_uint8_def set_uint32_def set_uint64_def set_string_def add_output_def append_out_def split_beta
      split: if_splits)


section \<open>Building blocks\<close>

lemma append_data_trace: "append_data E p is s = (r, t) \<Longrightarrow> trace t = trace s"
proof (induction E p "is" s rule: append_data.induct)
  case (3 E p v "is" s)
  then show ?case
    by (auto split: prod.splits TcUtilRet.splits dest: set_value_trace)
qed (auto split: if_splits)

lemma append_data_ok:
  "append_data E p is s = (Appended, t) \<Longrightarrow> map_of (ipc_heap s) p = Some cs \<Longrightarrow>
   map_of (ipc_heap t) p = Some (cs\<lparr>cs_out := cs_out cs @ puts is\<rparr>)"
proof (induction E p "is" s arbitrary: cs rule: append_data.induct)
  case (3 E p v "is" s)
  from 3(2) obtain s1 where s1: "set_value E (Some p) v s = (TCUTIL_RET_SUCCESS, s1)"
      and rest: "append_data E p is s1 = (Appended, t)"
    by (auto split: prod.splits TcUtilRet.splits)
  from 3(1) [OF s1 [symmetric] refl rest set_value_ok [OF s1 3(3)]] show ?case
    by simp
qed (auto split: if_splits)

lemma create_ok:
  assumes "create_tc_client_session E channel svc b True s = (Some (p, c), t)"
  shows "trace t = trace s" and "p = ipc_next s"
    and "map_of (ipc_heap t) p = Some \<lparr>cs_conn = c, cs_channel = channel, cs_service = ''tclib'',
           cs_service_id = svc, cs_out = [], cs_resp = []\<rparr>"
  using assms unfolding create_tc_client_session_def
  by (auto simp: Let_def split_beta split: if_splits)

lemma create_None:
  assumes "create_tc_client_session E channel svc b True s = (None, t)"
  shows "trace t = trace s"
  using assms unfolding create_tc_client_session_def
  by (auto simp: Let_def split_beta split: if_splits)

lemma invoke_ok:
  assumes "tc_session_invoke E (Some p) s = (TCUTIL_RET_SUCCESS, resp, t)" and "map_of (ipc_heap s) p = Some cs"
  shows "trace t = trace s @ [(cs_channel cs, cs_service_id cs, cs_out cs, Some resp)]"
    and "\<exists>vs. map_of (ipc_heap t) p = Some (cs\<lparr>cs_resp := vs\<rparr>)"
  using assms unfolding tc_session_invoke_def
  by (auto simp: split_beta trace_ask split: if_splits)

lemmas request_splits = prod.splits option.splits append_result.splits TcUtilRet.splits

lemma request_NoSession: "request E ch svc b is s = (NoSession, t) \<Longrightarrow> trace t = trace s"
  by (auto simp: request_def split: request_splits dest: create_None)

lemma request_Refused: "request E ch svc b is s = (Refused p c, t) \<Longrightarrow> trace t = trace s"
  by (auto simp: request_def split: request_splits dest!: create_ok(1) append_data_trace)

lemma request_Answered:
  assumes "request E ch svc b is s = (Answered p c resp, t)"
  shows "trace t = trace s @ [(ch, tclib_num svc, puts is, Some resp)]"
proof -
  from assms obtain s1 s2
    where 1: "create_tc_client_session E ch (tclib_num svc) b True s = (Some (p, c), s1)"
      and 2: "append_data E p is s1 = (Appended, s2)"
      and 3: "tc_session_invoke E (Some p) s2 = (TCUTIL_RET_SUCCESS, resp, t)"
    by (auto simp: request_def split: request_splits)
  note heap = append_data_ok [OF 2 create_ok(3) [OF 1]]
  have "trace s2 = trace s"
    using append_data_trace [OF 2] create_ok(1) [OF 1] by simp
  with invoke_ok(1) [OF 3 heap] show ?thesis
    by simp
qed

lemma append_data_PutFailed: "append_data E p is s = (PutFailed r, t) \<Longrightarrow> r \<noteq> TCUTIL_RET_SUCCESS"
  by (induction E p "is" s rule: append_data.induct)
    (auto split: prod.splits TcUtilRet.splits if_splits)

lemma request_Failed:
  assumes "request E ch svc b is s = (Failed p c r, t)"
  shows "r = TCOPER_RET_FAILURE \<or> r = TCOPER_RET_FATAL"
proof -
  have "ReturnUtilResp q = TCOPER_RET_FAILURE \<or> ReturnUtilResp q = TCOPER_RET_FATAL"
    if "q \<noteq> TCUTIL_RET_SUCCESS" for q
    using that by (cases q) auto
  with assms show ?thesis
    unfolding request_def by (auto split: request_splits dest!: append_data_PutFailed)
qed

section \<open>A transport without faults\<close>

text \<open>
  The transport reports no error and the daemons answer an invocation by a function of its
  channel, service and data. Then every well-formed request is answered.
\<close>

definition reliable :: "(string \<Rightarrow> u32 \<Rightarrow> ipc_value list \<Rightarrow> u32) \<Rightarrow> ipc_env \<Rightarrow> bool" where
  "reliable f E \<longleftrightarrow>
     (\<forall>h c. rp_err (E h c) = 0 \<and> rp_conn (E h c) \<noteq> 0 \<and>
        (\<forall>p ch svc out. c = Invoke p ch svc out \<longrightarrow> rp_resp (E h c) = f ch svc out))"

fun well_formed :: "item list \<Rightarrow> bool" where
  "well_formed [] = True"
| "well_formed (Require b # is) = (b \<and> well_formed is)"
| "well_formed (Put v # is) =
     (well_formed is \<and> (case v of IpcU8 _ \<Rightarrow> True | IpcU32 _ \<Rightarrow> True | IpcU64 _ \<Rightarrow> True
        | IpcStr _ \<Rightarrow> True | _ \<Rightarrow> False))"

lemma reliable_ask: "reliable f E \<Longrightarrow> rp_err (fst (ask E c s)) = 0 \<and> rp_conn (fst (ask E c s)) \<noteq> 0"
  by (simp add: reliable_def ask_def Let_def)

lemma reliable_create:
  assumes "reliable f E"
  shows "\<exists>p c t. create_tc_client_session E ch svc b True s = (Some (p, c), t) \<and> sys_stop t = sys_stop s"
  using reliable_ask [OF assms]
  by (auto simp: create_tc_client_session_def Let_def split_beta)

lemma reliable_set_value:
  assumes "reliable f E" and "well_formed [Put v]"
  shows "\<exists>t. set_value E (Some p) v s = (TCUTIL_RET_SUCCESS, t) \<and> sys_stop t = sys_stop s"
  using reliable_ask [OF assms(1)] assms(2)
  by (cases v) (auto simp: set_uint8_def set_uint32_def set_uint64_def set_string_def add_output_def
      err8_def split_beta)

lemma reliable_append_data:
  "reliable f E \<Longrightarrow> well_formed is \<Longrightarrow>
   \<exists>t. append_data E p is s = (Appended, t) \<and> sys_stop t = sys_stop s"
proof (induction "is" arbitrary: s)
  case (Cons i "is")
  show ?case
  proof (cases i)
    case (Put v)
    with Cons.prems obtain s1 where "set_value E (Some p) v s = (TCUTIL_RET_SUCCESS, s1)"
        and "sys_stop s1 = sys_stop s"
      using reliable_set_value [of f E v p s] by auto
    with Put Cons show ?thesis by auto
  qed (use Cons in auto)
qed auto

lemma reliable_request:
  assumes "reliable f E" and "well_formed is" and "\<not> sys_stop s"
  shows "\<exists>p c t. request E ch svc b is s = (Answered p c (f ch (tclib_num svc) (puts is)), t) \<and>
                 \<not> sys_stop t"
proof -
  obtain p c s1 where 1: "create_tc_client_session E ch (tclib_num svc) b True s = (Some (p, c), s1)"
      and a: "\<not> sys_stop s1"
    using reliable_create [OF assms(1), of ch "tclib_num svc" b s] assms(3) by auto
  obtain s2 where 2: "append_data E p is s1 = (Appended, s2)" and b: "\<not> sys_stop s2"
    using reliable_append_data [OF assms(1,2), of p s1] a by auto
  note heap = append_data_ok [OF 2 create_ok(3) [OF 1]]
  let ?c = "Invoke p ch (tclib_num svc) (puts is)"
  have "rp_err (fst (ask E ?c s2)) = 0" "rp_resp (fst (ask E ?c s2)) = f ch (tclib_num svc) (puts is)"
    using assms(1) by (simp_all add: reliable_def ask_def Let_def)
  then have "\<exists>t. tc_session_invoke E (Some p) s2 =
      (TCUTIL_RET_SUCCESS, f ch (tclib_num svc) (puts is), t) \<and> \<not> sys_stop t"
    using b heap by (simp add: tc_session_invoke_def get_sys_stop_def split_beta err8_def)
  with 1 2 show ?thesis
    by (auto simp: request_def)
qed

lemma sys_stop_close [simp]: "sys_stop (snd (tc_session_close E p c s)) = sys_stop s"
  by (simp add: tc_session_close_def sess_delete_def Let_def split_beta split: option.split)

end
