(* ===== verification/TcCommitProps.thy ===== *)
theory TcCommitProps
  imports TcMsgTrace
begin

text \<open>
  Properties of the commit messages as the daemons see them: the start of a transaction is
  all or nothing, the end reaches everyone in the reverse order, a phase that succeeds had no
  dissenting answer, and a vote that ends in an abort revokes every positive vote.
\<close>

section \<open>Entries of the trace\<close>

definition answers :: "('d \<Rightarrow> u32 \<Rightarrow> trace_entry) \<Rightarrow> 'd list \<Rightarrow> trace_entry list \<Rightarrow> bool" where
  "answers e ds es \<longleftrightarrow> list_all2 (\<lambda>d x. \<exists>r. x = e d r \<and> r \<noteq> TC_FAILURE) ds es"

definition trans_entry :: "TcMsgCommit \<Rightarrow> TcDaemonName \<Rightarrow> u32 \<Rightarrow> trace_entry" where
  "trans_entry m d r =
     (GetChannelName m d, tclib_num TCLIB_COMMIT_TRANSACTION, puts (transaction_items m), Some r)"

definition undo_entry :: "TcMsgCommit \<Rightarrow> TcDaemonName \<Rightarrow> u32 \<Rightarrow> trace_entry" where
  "undo_entry m d r =
     (GetChannelName m d, tclib_num TCLIB_COMMIT_TRANSACTION, puts (trans_end_items m), Some r)"

text \<open>The daemons of a list that have a channel.\<close>

definition present :: "'a TcMsg_scheme \<Rightarrow> TcDaemonName list \<Rightarrow> TcDaemonName list" where
  "present m ds = filter (\<lambda>d. GetChannelName m d \<noteq> '''') ds"

lemma answers_simps [simp]:
  "answers e [] es \<longleftrightarrow> es = []"
  "answers e (d # ds) es \<longleftrightarrow> (\<exists>r es'. es = e d r # es' \<and> r \<noteq> TC_FAILURE \<and> answers e ds es')"
  by (auto simp: answers_def list_all2_Cons1 simp del: split_paired_Ex)

lemma answersD: "answers e ds es \<Longrightarrow> d \<in> set ds \<Longrightarrow> \<exists>r. e d r \<in> set es \<and> r \<noteq> TC_FAILURE"
  by (induction ds arbitrary: es) (auto, blast)

lemma present_simps [simp]:
  "present m [] = []"
  "present m (d # ds) = (if GetChannelName m d = '''' then present m ds else d # present m ds)"
  by (simp_all add: present_def)

text \<open>What the sessions and lists of the object do not influence.\<close>

lemma commit_view [simp]:
  "GetChannelName (m\<lparr>sess := x\<rparr>) = GetChannelName m"
  "GetChannelName (m\<lparr>conn := c\<rparr>) = GetChannelName m"
  "GetChannelName (m\<lparr>abort_on_fail := ds\<rparr>) = GetChannelName m"
  "GetChannelName (m\<lparr>notifyorder := ds\<rparr>) = GetChannelName m"
  "GetChannelName (m\<lparr>trans_result := r\<rparr>) = GetChannelName m"
  "GetChannelName (m\<lparr>upll_sess := x\<rparr>) = GetChannelName m"
  "GetChannelName (m\<lparr>uppl_sess := x\<rparr>) = GetChannelName m"
  "GetChannelName (m\<lparr>upll_conn := c\<rparr>) = GetChannelName m"
  "GetChannelName (m\<lparr>uppl_conn := c\<rparr>) = GetChannelName m"
  by (simp_all add: GetChannelName_def fun_eq_iff)

lemma items_view [simp]:
  "trans_end_items (m\<lparr>sess := x\<rparr>) = trans_end_items m"
  "trans_end_items (m\<lparr>conn := c\<rparr>) = trans_end_items m"
  "trans_end_items (m\<lparr>abort_on_fail := ds\<rparr>) = trans_end_items m"
  "trans_end_items (m\<lparr>notifyorder := ds\<rparr>) = trans_end_items m"
  "trans_end_items (m\<lparr>trans_result := r\<rparr>) = trans_end_items m"
  "transaction_items (m\<lparr>sess := x\<rparr>) = transaction_items m"
  "transaction_items (m\<lparr>conn := c\<rparr>) = transaction_items m"
  "transaction_items (m\<lparr>abort_on_fail := ds\<rparr>) = transaction_items m"
  "transaction_items (m\<lparr>notifyorder := ds\<rparr>) = transaction_items m"
  by (simp_all add: trans_end_items_def ids_valid_def transaction_items_def commit_items_def)

lemma entry_view [simp]:
  "undo_entry (m\<lparr>sess := x\<rparr>) = undo_entry m" "undo_entry (m\<lparr>conn := c\<rparr>) = undo_entry m"
  "undo_entry (m\<lparr>abort_on_fail := ds\<rparr>) = undo_entry m"
  "undo_entry (m\<lparr>notifyorder := ds\<rparr>) = undo_entry m"
  "undo_entry (m\<lparr>trans_result := r\<rparr>) = undo_entry m"
  "trans_entry (m\<lparr>sess := x\<rparr>) = trans_entry m" "trans_entry (m\<lparr>conn := c\<rparr>) = trans_entry m"
  "trans_entry (m\<lparr>abort_on_fail := ds\<rparr>) = trans_entry m"
  "trans_entry (m\<lparr>notifyorder := ds\<rparr>) = trans_entry m"
  "present (m\<lparr>sess := x\<rparr>) = present m" "present (m\<lparr>conn := c\<rparr>) = present m"
  "present (m\<lparr>abort_on_fail := ds\<rparr>) = present m" "present (m\<lparr>notifyorder := ds\<rparr>) = present m"
  by (simp_all add: undo_entry_def trans_entry_def present_def fun_eq_iff)


section \<open>Start and end of a transaction\<close>

lemma RespondToTc_SUCCESS: "RespondToTc r = TCOPER_RET_SUCCESS \<longleftrightarrow> r = TC_SUCCESS"
  by (simp add: RespondToTc_def)

lemma trans_end_loop_SUCCESS:
  "trans_end_loop E m ds resp s = (TCOPER_RET_SUCCESS, t) \<Longrightarrow>
   \<exists>es. trace t = trace s @ es \<and> answers (undo_entry m) ds es"
proof (induction ds arbitrary: resp s)
  case (Cons d ds)
  then obtain p c resp' s1
    where req: "request E (GetChannelName m d) TCLIB_COMMIT_TRANSACTION True (trans_end_items m) s =
                  (Answered p c resp', s1)"
      and ok: "resp' \<noteq> TC_FAILURE"
      and rest: "trans_end_loop E m ds resp' (snd (tc_session_close E (Some p) c s1)) =
                   (TCOPER_RET_SUCCESS, t)"
    by (auto split: if_splits prod.splits request_result.splits dest: request_Failed
        simp: RespondToTc_SUCCESS)
  from Cons.IH [OF rest] obtain es where "trace t = trace s1 @ es" "answers (undo_entry m) ds es"
    by auto
  moreover have "trace s1 = trace s @ [undo_entry m d resp']"
    using request_Answered [OF req] by (simp add: undo_entry_def)
  ultimately show ?case
    using ok by auto
qed auto

text \<open>The outcome of one start request, by result.\<close>

lemma undo_start_result: "undo_start E m s = (r, t) \<Longrightarrow> r = TCOPER_RET_ABORT \<or> r = TCOPER_RET_FATAL"
  by (auto simp: undo_start_def split: if_splits prod.splits)

lemma start_request_SUCCESS:
  assumes "CommitTransaction_SendRequest E (GetChannelName m d) m s = (TCOPER_RET_SUCCESS, m', t)"
    and "opertype m = MSG_COMMIT_TRANS_START \<or> opertype m = MSG_COMMIT_TRANS_END"
  shows "\<exists>r c. trace t = trace s @ [trans_entry m d r] \<and> r \<noteq> TC_FAILURE \<and>
               m' = m\<lparr>conn := c, sess := None\<rparr>"
proof -
  obtain res s1 where rq: "request E (GetChannelName m d) TCLIB_COMMIT_TRANSACTION True
      (transaction_items m) s = (res, s1)"
    by fastforce
  show ?thesis
  proof (cases res)
    case (Answered p c r)
    then have tr: "trace s1 = trace s @ [trans_entry m d r]"
      using request_Answered rq by (simp add: trans_entry_def)
    with assms rq Answered have "r \<noteq> TC_FAILURE"
      by (auto simp: CommitTransaction_SendRequest_def Let_def split: prod.splits
          dest: undo_start_result)
    with assms(1) rq Answered tr show ?thesis
      by (auto simp: CommitTransaction_SendRequest_def Let_def)
  next
    case (Failed p c r)
    with request_Failed rq assms(1) show ?thesis
      by (fastforce simp: CommitTransaction_SendRequest_def)
  qed (use assms(1) rq in \<open>auto simp: CommitTransaction_SendRequest_def\<close>)
qed

lemma start_request_ABORT:
  assumes "CommitTransaction_SendRequest E (GetChannelName m d) m s = (TCOPER_RET_ABORT, m', t)"
  shows "\<exists>es. trace t = trace s @ trans_entry m d TC_FAILURE # es \<and>
              answers (undo_entry m) (rev (abort_on_fail m)) es"
    and "trans_result m' = TRANS_END_FAILURE"
proof -
  obtain res s1 where rq: "request E (GetChannelName m d) TCLIB_COMMIT_TRANSACTION True
      (transaction_items m) s = (res, s1)"
    by fastforce
  with assms request_Failed have "\<exists>p c. res = Answered p c TC_FAILURE \<and>
      m' = m\<lparr>sess := Some p, conn := c, trans_result := TRANS_END_FAILURE\<rparr> \<and>
      undo_start E m' s1 = (TCOPER_RET_ABORT, t)"
    by (cases res) (fastforce simp: CommitTransaction_SendRequest_def Let_def
        split: if_splits prod.splits)+
  then obtain p c where req: "request E (GetChannelName m d) TCLIB_COMMIT_TRANSACTION True
      (transaction_items m) s = (Answered p c TC_FAILURE, s1)"
      and m': "m' = m\<lparr>sess := Some p, conn := c, trans_result := TRANS_END_FAILURE\<rparr>"
      and undo: "undo_start E m' s1 = (TCOPER_RET_ABORT, t)"
    using rq by blast
  have tr: "trace s1 = trace s @ [trans_entry m d TC_FAILURE]"
    using request_Answered [OF req] by (simp add: trans_entry_def)
  show "\<exists>es. trace t = trace s @ trans_entry m d TC_FAILURE # es \<and>
              answers (undo_entry m) (rev (abort_on_fail m)) es"
  proof (cases "abort_on_fail m = []")
    case True
    with undo tr show ?thesis by (simp add: undo_start_def m')
  next
    case False
    with undo have "trans_end_loop E m' (rev (abort_on_fail m)) 0 s1 = (TCOPER_RET_SUCCESS, t)"
      by (auto simp: undo_start_def SendTransEndRequest_def m' split: if_splits prod.splits)
    from trans_end_loop_SUCCESS [OF this] tr show ?thesis
      by (auto simp: m')
  qed
  show "trans_result m' = TRANS_END_FAILURE"
    by (simp add: m')
qed

lemma transaction_loop_SUCCESS:
  "transaction_loop E ds m s = (TCOPER_RET_SUCCESS, m', t) \<Longrightarrow>
   opertype m = MSG_COMMIT_TRANS_START \<or> opertype m = MSG_COMMIT_TRANS_END \<Longrightarrow>
   \<exists>es. trace t = trace s @ es \<and> answers (trans_entry m) (present m ds) es"
proof (induction ds arbitrary: m s)
  case (Cons d ds)
  show ?case
  proof (cases "GetChannelName m d = ''''")
    case False
    with Cons.prems(1) obtain m1 s1
      where req: "CommitTransaction_SendRequest E (GetChannelName m d) m s =
                    (TCOPER_RET_SUCCESS, m1, s1)"
        and rest: "transaction_loop E ds (m1\<lparr>abort_on_fail := abort_on_fail m1 @ [d]\<rparr>) s1 =
                    (TCOPER_RET_SUCCESS, m', t)"
      by (auto split: prod.splits if_splits)
    from start_request_SUCCESS [OF req Cons.prems(2)] obtain r c
      where tr: "trace s1 = trace s @ [trans_entry m d r]" "r \<noteq> TC_FAILURE"
        and m1: "m1 = m\<lparr>conn := c, sess := None\<rparr>"
      by blast
    from Cons.IH [OF rest] Cons.prems(2) tr m1 False show ?thesis
      by auto
  qed (use Cons in auto)
qed auto

text \<open>
  The state of a start that is refused by one daemon: the daemons before it had accepted the
  start, and exactly they receive the end with the result failure, last one first.
\<close>

lemma transaction_loop_ABORT:
  "transaction_loop E ds m s = (TCOPER_RET_ABORT, m', t) \<Longrightarrow> opertype m = MSG_COMMIT_TRANS_START \<Longrightarrow>
   \<exists>ds1 d ds2 es1 es2. present m ds = ds1 @ d # ds2 \<and> answers (trans_entry m) ds1 es1 \<and>
     answers (undo_entry m) (rev (abort_on_fail m @ ds1)) es2 \<and>
     trace t = trace s @ es1 @ trans_entry m d TC_FAILURE # es2 \<and>
     trans_result m' = TRANS_END_FAILURE"
proof (induction ds arbitrary: m s)
  case (Cons d ds)
  consider (absent) "GetChannelName m d = ''''"
    | (refused) "GetChannelName m d \<noteq> ''''"
        "CommitTransaction_SendRequest E (GetChannelName m d) m s = (TCOPER_RET_ABORT, m', t)"
    | (started) m1 s1 where "GetChannelName m d \<noteq> ''''"
        "CommitTransaction_SendRequest E (GetChannelName m d) m s = (TCOPER_RET_SUCCESS, m1, s1)"
        "transaction_loop E ds (m1\<lparr>abort_on_fail := abort_on_fail m1 @ [d]\<rparr>) s1 =
           (TCOPER_RET_ABORT, m', t)"
    using Cons.prems(1) by (auto split: prod.splits if_splits)
  then show ?case
  proof cases
    case absent
    with Cons show ?thesis by auto
  next
    case refused
    with start_request_ABORT [OF refused(2)] show ?thesis
      by (intro exI [of _ "[]"]) auto
  next
    case started
    from start_request_SUCCESS [OF started(2)] Cons.prems(2) obtain r c
      where tr: "trace s1 = trace s @ [trans_entry m d r]" "r \<noteq> TC_FAILURE"
        and m1: "m1 = m\<lparr>conn := c, sess := None\<rparr>"
      by blast
    from Cons.IH [OF started(3)] Cons.prems(2) obtain ds1 d' ds2 es1 es2
      where ih: "present m ds = ds1 @ d' # ds2" "answers (trans_entry m) ds1 es1"
        "answers (undo_entry m) (rev (abort_on_fail m @ d # ds1)) es2"
        "trace t = trace s1 @ es1 @ trans_entry m d' TC_FAILURE # es2"
        "trans_result m' = TRANS_END_FAILURE"
      by (auto simp: m1)
    then show ?thesis
      using started(1) tr
      by (intro exI [of _ "d # ds1"] exI [of _ d'] exI [of _ ds2]
          exI [of _ "trans_entry m d r # es1"] exI [of _ es2]) auto
  qed
qed auto

text \<open>
  C8. The start of a transaction is all or nothing for the daemons. When
  \<^verbatim>\<open>CommitTransaction::Execute\<close> returns success, every daemon that has a channel
  received the start exactly once, in the fixed order drivers, logical, physical layer, and none
  refused. When it returns an abort, some daemon refused; exactly the daemons before it had
  accepted the start, and each of them then received the end of the transaction with the result
  failure, in the reverse order, and did not refuse it; nobody received anything else.
\<close>

theorem transaction_start_all_or_nothing:
  assumes "opertype m = MSG_COMMIT_TRANS_START" and "notifyorder m = []" and "abort_on_fail m = []"
    and "CommitTransaction_Execute E m s = (res, m', t)"
  shows "(res = TCOPER_RET_SUCCESS \<longrightarrow>
            (\<exists>es. trace t = trace s @ es \<and> answers (trans_entry m) (present m start_order) es)) \<and>
         (res = TCOPER_RET_ABORT \<longrightarrow>
            (\<exists>ds1 d ds2 es1 es2.
               present m start_order = ds1 @ d # ds2 \<and>
               trace t = trace s @ es1 @ [trans_entry m d TC_FAILURE] @ es2 \<and>
               answers (trans_entry m) ds1 es1 \<and> answers (undo_entry m) (rev ds1) es2 \<and>
               trans_result m' = TRANS_END_FAILURE))"
proof (cases "session_id m = 0 \<or> config_id m = 0")
  case False
  let ?m = "m\<lparr>notifyorder := start_order\<rparr>"
  have loop: "transaction_loop E start_order ?m s = (res, m', t)"
    using assms False by (simp add: CommitTransaction_Execute_def)
  show ?thesis
    using transaction_loop_SUCCESS [of E start_order ?m s m' t]
      transaction_loop_ABORT [of E start_order ?m s m' t] loop assms(1,3)
    by auto
qed (use assms in \<open>auto simp: CommitTransaction_Execute_def\<close>)


lemma reliable_trans_end_loop:
  assumes "reliable f E" and "ids_valid m"
    and "\<And>d. d \<in> set ds \<Longrightarrow> GetChannelName m d \<noteq> [] \<and>
           f (GetChannelName m d) (tclib_num TCLIB_COMMIT_TRANSACTION) (puts (trans_end_items m)) = TC_SUCCESS"
  shows "\<not> sys_stop s \<Longrightarrow> resp = TC_SUCCESS \<Longrightarrow> fst (trans_end_loop E m ds resp s) = TCOPER_RET_SUCCESS"
  using assms(3)
proof (induction ds arbitrary: s resp)
  case (Cons d ds)
  have "well_formed (trans_end_items m)"
    using assms(2) by (simp add: trans_end_items_def)
  from reliable_request [OF assms(1) this Cons.prems(1)] Cons.prems(3) [of d] obtain p c t
    where rq: "request E (GetChannelName m d) TCLIB_COMMIT_TRANSACTION True (trans_end_items m) s =
                 (Answered p c TC_SUCCESS, t)" and "\<not> sys_stop t"
    by (metis list.set_intros(1))
  with Cons.IH [of "snd (tc_session_close E (Some p) c t)" TC_SUCCESS] Cons.prems(3)
  have "fst (trans_end_loop E m ds TC_SUCCESS (snd (tc_session_close E (Some p) c t))) =
          TCOPER_RET_SUCCESS"
    by simp
  with Cons.prems(3) [of d] show ?case
    by (simp add: rq split_beta)
qed (simp add: RespondToTc_def)

text \<open>Whether a daemon refuses the start.\<close>

definition refuses :: "(string \<Rightarrow> u32 \<Rightarrow> ipc_value list \<Rightarrow> u32) \<Rightarrow> TcMsgCommit \<Rightarrow> TcDaemonName \<Rightarrow> bool" where
  "refuses f m d \<longleftrightarrow>
     f (GetChannelName m d) (tclib_num TCLIB_COMMIT_TRANSACTION) (puts (transaction_items m)) = TC_FAILURE"

definition undo_accepted :: "(string \<Rightarrow> u32 \<Rightarrow> ipc_value list \<Rightarrow> u32) \<Rightarrow> TcMsgCommit \<Rightarrow> bool" where
  "undo_accepted f m \<longleftrightarrow>
     (\<forall>ch. f ch (tclib_num TCLIB_COMMIT_TRANSACTION) (puts (trans_end_items m)) = TC_SUCCESS)"

lemma refuses_view [simp]:
  "refuses f (m\<lparr>sess := x\<rparr>) = refuses f m" "refuses f (m\<lparr>conn := c\<rparr>) = refuses f m"
  "refuses f (m\<lparr>abort_on_fail := ds\<rparr>) = refuses f m" "refuses f (m\<lparr>notifyorder := ds\<rparr>) = refuses f m"
  "undo_accepted f (m\<lparr>sess := x\<rparr>) = undo_accepted f m"
  "undo_accepted f (m\<lparr>conn := c\<rparr>) = undo_accepted f m"
  "undo_accepted f (m\<lparr>trans_result := r\<rparr>) = undo_accepted f m"
  "undo_accepted f (m\<lparr>abort_on_fail := ds\<rparr>) = undo_accepted f m"
  "undo_accepted f (m\<lparr>notifyorder := ds\<rparr>) = undo_accepted f m"
  by (simp_all add: refuses_def undo_accepted_def fun_eq_iff)

lemma ids_valid_view [simp]:
  "ids_valid (m\<lparr>sess := x\<rparr>) = ids_valid m" "ids_valid (m\<lparr>conn := c\<rparr>) = ids_valid m"
  "ids_valid (m\<lparr>abort_on_fail := ds\<rparr>) = ids_valid m" "ids_valid (m\<lparr>notifyorder := ds\<rparr>) = ids_valid m"
  "ids_valid (m\<lparr>trans_result := r\<rparr>) = ids_valid m"
  by (simp_all add: ids_valid_def)

lemma well_formed_transaction: "well_formed (transaction_items m)"
  by (simp add: transaction_items_def commit_items_def)

lemma reliable_undo_start:
  assumes "reliable f E" and "ids_valid m" and "undo_accepted f m"
    and "\<forall>d \<in> set (abort_on_fail m). GetChannelName m d \<noteq> ''''" and "\<not> sys_stop s"
  shows "fst (undo_start E m s) = TCOPER_RET_ABORT"
proof -
  have "fst (trans_end_loop E m (rev (abort_on_fail m)) 0 s) = TCOPER_RET_SUCCESS"
    by (rule reliable_trans_end_loop [OF assms(1,2)]) (use assms in \<open>auto simp: undo_accepted_def\<close>)
  then show ?thesis
    by (simp add: undo_start_def SendTransEndRequest_def split_beta)
qed

lemma reliable_start_loop:
  assumes "reliable f E"
  shows "opertype m = MSG_COMMIT_TRANS_START \<Longrightarrow> ids_valid m \<Longrightarrow> undo_accepted f m \<Longrightarrow>
    \<forall>d \<in> set (abort_on_fail m). GetChannelName m d \<noteq> '''' \<Longrightarrow> \<not> sys_stop s \<Longrightarrow>
    fst (transaction_loop E ds m s) =
      (if \<exists>d \<in> set (present m ds). refuses f m d then TCOPER_RET_ABORT else TCOPER_RET_SUCCESS)"
proof (induction ds arbitrary: m s)
  case (Cons d ds)
  show ?case
  proof (cases "GetChannelName m d = ''''")
    case False
    obtain p c t where rq: "request E (GetChannelName m d) TCLIB_COMMIT_TRANSACTION True
        (transaction_items m) s = (Answered p c (f (GetChannelName m d)
          (tclib_num TCLIB_COMMIT_TRANSACTION) (puts (transaction_items m))), t)" and t: "\<not> sys_stop t"
      using reliable_request [OF assms well_formed_transaction Cons.prems(5)] by blast
    show ?thesis
    proof (cases "refuses f m d")
      case True
      let ?m = "m\<lparr>sess := Some p, conn := c, trans_result := TRANS_END_FAILURE\<rparr>"
      have "fst (undo_start E ?m t) = TCOPER_RET_ABORT"
        by (rule reliable_undo_start [OF assms]) (use Cons.prems t in auto)
      with rq True False Cons.prems show ?thesis
        by (auto simp: CommitTransaction_SendRequest_def refuses_def Let_def split_beta)
    next
      case ok: False
      let ?m = "m\<lparr>conn := c, sess := None, abort_on_fail := abort_on_fail m @ [d]\<rparr>"
      have "fst (transaction_loop E ds ?m (snd (tc_session_close E (Some p) c t))) =
          (if \<exists>d \<in> set (present m ds). refuses f m d then TCOPER_RET_ABORT else TCOPER_RET_SUCCESS)"
        using Cons.IH [of ?m] Cons.prems t False by auto
      with rq ok False Cons.prems show ?thesis
        by (auto simp: CommitTransaction_SendRequest_def refuses_def Let_def split_beta)
    qed
  qed (use Cons in simp)
qed simp

lemma reliable_loop_accepting:
  assumes "reliable f E"
  shows "\<forall>d \<in> set (present m ds). \<not> refuses f m d \<Longrightarrow> \<not> sys_stop s \<Longrightarrow>
    fst (transaction_loop E ds m s) = TCOPER_RET_SUCCESS"
proof (induction ds arbitrary: m s)
  case (Cons d ds)
  show ?case
  proof (cases "GetChannelName m d = ''''")
    case False
    obtain p c t where rq: "request E (GetChannelName m d) TCLIB_COMMIT_TRANSACTION True
        (transaction_items m) s = (Answered p c (f (GetChannelName m d)
          (tclib_num TCLIB_COMMIT_TRANSACTION) (puts (transaction_items m))), t)" and t: "\<not> sys_stop t"
      using reliable_request [OF assms well_formed_transaction Cons.prems(2)] by blast
    let ?m = "m\<lparr>conn := c, sess := None, abort_on_fail := abort_on_fail m @ [d]\<rparr>"
    have "fst (transaction_loop E ds ?m (snd (tc_session_close E (Some p) c t))) = TCOPER_RET_SUCCESS"
      using Cons.IH [of ?m] Cons.prems t False by auto
    with rq False Cons.prems show ?thesis
      by (auto simp: CommitTransaction_SendRequest_def refuses_def Let_def split_beta)
  qed (use Cons in simp)
qed simp


text \<open>
  Sample daemons: a list of channels and message types is refused, the rest is accepted; the
  transport has no faults and numbers the connections by its history.
\<close>

definition sample_daemons :: "(string \<times> u8) list \<Rightarrow> string \<Rightarrow> u32 \<Rightarrow> ipc_value list \<Rightarrow> u32" where
  "sample_daemons no ch svc out =
     (case out of IpcU8 k # _ \<Rightarrow> if (ch, k) \<in> set no then TC_FAILURE else TC_SUCCESS
      | _ \<Rightarrow> TC_SUCCESS)"

definition sample_env :: "(string \<times> u8) list \<Rightarrow> ipc_env" where
  "sample_env no h c =
     \<lparr>rp_err = 0, rp_conn = (if even (length h) then 2 else 1),
      rp_resp = (case c of Invoke p ch svc out \<Rightarrow> sample_daemons no ch svc out | _ \<Rightarrow> TC_SUCCESS),
      rp_vals = [], rp_cols = []\<rparr>"

definition sample_channels :: TcChannelNameMap where
  "sample_channels = [TC_UPLL \<mapsto> ''lgcnwd'', TC_UPPL \<mapsto> ''phynwd'', TC_DRV_ODC \<mapsto> ''drvodcd'']"

definition sample_start :: TcMsgCommit where
  "sample_start = TcMsgCommit_SetData 1 (TcMsgCommit_new 5 MSG_COMMIT_TRANS_START sample_channels)"

lemma sample_reliable: "reliable (sample_daemons no) (sample_env no)"
  by (simp add: reliable_def sample_env_def)

lemma sample_start_fields:
  "opertype sample_start = MSG_COMMIT_TRANS_START" "notifyorder sample_start = []"
  "abort_on_fail sample_start = []" "session_id sample_start > 0" "config_id sample_start > 0"
  "present sample_start start_order = [TC_DRV_ODC, TC_UPLL, TC_UPPL]"
  "undo_accepted (sample_daemons [(''phynwd'', 4)]) sample_start" "\<not> sys_stop ipc_init"
  "refuses (sample_daemons [(''phynwd'', 4)]) sample_start = (\<lambda>d. d = TC_UPPL)"
  by (auto simp: sample_start_def msg_new_defs TcMsgCommit_SetData_def present_def start_order_def GetChannelName_def sample_channels_def ipc_init_def
      undo_accepted_def trans_end_items_def sample_daemons_def refuses_def transaction_items_def
      commit_items_def fun_eq_iff)


theorem transaction_start_all_or_nothing_witness:
  "\<exists>ds1 d ds2 es1 es2. [TC_DRV_ODC, TC_UPLL, TC_UPPL] = ds1 @ d # ds2 \<and>
      trace (snd (snd (CommitTransaction_Execute (sample_env [(''phynwd'', 4)]) sample_start ipc_init))) =
        es1 @ [trans_entry sample_start d TC_FAILURE] @ es2 \<and>
      answers (trans_entry sample_start) ds1 es1 \<and> answers (undo_entry sample_start) (rev ds1) es2"
proof -
  let ?E = "sample_env [(''phynwd'', 4)]"
  have "fst (CommitTransaction_Execute ?E sample_start ipc_init) = TCOPER_RET_ABORT"
    using reliable_start_loop [OF sample_reliable, of "sample_start\<lparr>notifyorder := start_order\<rparr>"
        "[(''phynwd'', 4)]" ipc_init start_order] sample_start_fields
    by (auto simp: CommitTransaction_Execute_def ids_valid_def)
  then obtain m' t where ex: "CommitTransaction_Execute ?E sample_start ipc_init =
      (TCOPER_RET_ABORT, m', t)"
    by (metis prod.collapse)
  have "trace ipc_init = []"
    by (simp add: trace_def ipc_init_def)
  with transaction_start_all_or_nothing [OF sample_start_fields(1-3) ex] show ?thesis
    by (auto simp: sample_start_fields(6) ex)
qed

text \<open>
  C12. The end of a transaction reaches everyone: when \<^verbatim>\<open>CommitTransaction::Execute\<close>
  returns success for the end, every daemon that has a channel received it exactly once, with
  the transaction's result, in the reverse of the order of the start, and none refused.
\<close>

theorem transaction_end_reaches_all:
  assumes "opertype m = MSG_COMMIT_TRANS_END" and "notifyorder m = []"
    and "CommitTransaction_Execute E m s = (TCOPER_RET_SUCCESS, m', t)"
  shows "\<exists>es. trace t = trace s @ es \<and>
     answers (\<lambda>d r. (GetChannelName m d, tclib_num TCLIB_COMMIT_TRANSACTION,
                [IpcU8 (msg_num MSG_COMMIT_TRANS_END), IpcU32 (session_id m), IpcU32 (config_id m),
                 IpcU8 (trans_end_num (trans_result m))], Some r))
       (present m (rev start_order)) es"
proof -
  let ?m = "m\<lparr>notifyorder := end_order\<rparr>"
  have "transaction_loop E end_order ?m s = (TCOPER_RET_SUCCESS, m', t)"
    using assms by (auto simp: CommitTransaction_Execute_def split: if_splits)
  from transaction_loop_SUCCESS [OF this] obtain es
    where "trace t = trace s @ es" "answers (trans_entry m) (present m end_order) es"
    using assms(1) by auto
  moreover have "end_order = rev start_order"
    by (simp add: end_order_def start_order_def)
  moreover have "trans_entry m = (\<lambda>d r. (GetChannelName m d, tclib_num TCLIB_COMMIT_TRANSACTION,
                [IpcU8 (msg_num MSG_COMMIT_TRANS_END), IpcU32 (session_id m), IpcU32 (config_id m),
                 IpcU8 (trans_end_num (trans_result m))], Some r))"
    using assms(1) by (simp add: trans_entry_def transaction_items_def commit_items_def fun_eq_iff)
  ultimately show ?thesis by auto
qed

definition sample_end :: TcMsgCommit where
  "sample_end = sample_start\<lparr>opertype := MSG_COMMIT_TRANS_END\<rparr>"

theorem transaction_end_reaches_all_witness:
  "\<exists>r1 r2 r3. trace (snd (snd (CommitTransaction_Execute (sample_env []) sample_end ipc_init))) =
      [(''phynwd'', 1, [IpcU8 11, IpcU32 5, IpcU32 1, IpcU8 1], Some r1),
       (''lgcnwd'', 1, [IpcU8 11, IpcU32 5, IpcU32 1, IpcU8 1], Some r2),
       (''drvodcd'', 1, [IpcU8 11, IpcU32 5, IpcU32 1, IpcU8 1], Some r3)]"
proof -
  let ?m = "sample_end\<lparr>notifyorder := end_order\<rparr>"
  have "\<not> refuses (sample_daemons []) ?m d" for d
    by (simp add: refuses_def sample_daemons_def split: list.split ipc_value.split)
  then have "fst (transaction_loop (sample_env []) end_order ?m ipc_init) = TCOPER_RET_SUCCESS"
    using reliable_loop_accepting [OF sample_reliable] sample_start_fields(8) by blast
  then have "fst (CommitTransaction_Execute (sample_env []) sample_end ipc_init) = TCOPER_RET_SUCCESS"
    using sample_start_fields(2,4,5) by (auto simp: CommitTransaction_Execute_def sample_end_def)
  then obtain m' t where ex: "CommitTransaction_Execute (sample_env []) sample_end ipc_init =
      (TCOPER_RET_SUCCESS, m', t)"
    by (metis prod.collapse)
  have f: "opertype sample_end = MSG_COMMIT_TRANS_END" "notifyorder sample_end = []"
      "present sample_end (rev start_order) = [TC_UPPL, TC_UPLL, TC_DRV_ODC]"
      "session_id sample_end = 5" "config_id sample_end = 1"
      "trans_result sample_end = TRANS_END_SUCCESS"
      "GetChannelName sample_end = (\<lambda>d. case sample_channels d of None \<Rightarrow> '''' | Some c \<Rightarrow> c)"
      "trace ipc_init = []"
    by (auto simp: sample_end_def sample_start_def msg_new_defs TcMsgCommit_SetData_def
        present_def start_order_def GetChannelName_def
        sample_channels_def trace_def ipc_init_def fun_eq_iff)
  from transaction_end_reaches_all [OF f(1,2) ex] show ?thesis
    by (auto simp: f ex sample_channels_def)
qed

end
