(* ===== verification/TcVoteProps.thy ===== *)
theory TcVoteProps
  imports TcCommitProps
begin

text \<open>
  Properties of the two phases of a commit (\<^verbatim>\<open>TwoPhaseCommit\<close>): a phase succeeds only
  with the agreement of everyone asked, a vote that ends in an abort revokes every positive
  vote, and the controller lists of the upper layers are merged without loss.
\<close>

section \<open>What the steps of a phase keep\<close>

definition same_job :: "'a TcMsgCommit_scheme \<Rightarrow> 'b TcMsgCommit_scheme \<Rightarrow> bool" where
  "same_job m m' \<longleftrightarrow> channel_names m' = channel_names m \<and> session_id m' = session_id m \<and>
     config_id m' = config_id m \<and> opertype m' = opertype m"

lemma same_job_refl [simp]: "same_job m m"
  by (simp add: same_job_def)

lemma same_job_trans: "same_job m m1 \<Longrightarrow> same_job m1 m2 \<Longrightarrow> same_job m m2"
  by (simp add: same_job_def)

lemma same_job_view:
  assumes "same_job m m'"
  shows "GetChannelName m' = GetChannelName m" "opertype m' = opertype m"
    "commit_items m' = commit_items m" "abort_items m' = abort_items m"
  using assms by (auto simp: same_job_def GetChannelName_def commit_items_def abort_items_def
      ids_valid_def fun_eq_iff)

lemma same_job_driver_items: "same_job m m' \<Longrightarrow> driver_items m' = driver_items m"
  by (auto simp: same_job_def driver_items_def ids_valid_def fun_eq_iff)

subsection \<open>Steps without an invocation\<close>

lemma trace_forward_result [simp]: "trace (snd (forward_result E dst src s)) = trace s"
  by (simp add: forward_result_def split_beta split: option.split)

lemma trace_forward_both: "forward_both E driver p m s = (r, t) \<Longrightarrow> trace t = trace s"
  by (auto simp: forward_both_def split: if_splits prod.splits TcOperRet.splits)
    (metis snd_conv trace_forward_result)+

lemma put_both_trace: "put_both E p q vs s = (r, t) \<Longrightarrow> trace t = trace s"
  by (induction E p q vs s rule: put_both.induct)
    (auto split: prod.splits TcUtilRet.splits dest!: set_value_trace)

lemma HandleDriverNotPresent_trace: "HandleDriverNotPresent E driver m s = (r, t) \<Longrightarrow> trace t = trace s"
  by (auto simp: HandleDriverNotPresent_def split: option.splits prod.splits dest: put_both_trace)

lemma SetSession_trace: "SetSessionToForwardDriverResult E p m s = (r, t) \<Longrightarrow> trace t = trace s"
  by (auto simp: SetSessionToForwardDriverResult_def split: option.splits prod.splits append_result.splits
      dest: append_data_trace)

lemma open_driver_result_trace: "open_driver_result E d m s = (r, h, t) \<Longrightarrow> trace t = trace s"
  by (auto simp: open_driver_result_def split: option.splits prod.splits
      dest!: SetSession_trace create_ok(1) create_None)

lemma keep_fields [simp]:
  "same_job m (keep_upll h m)" "same_job m (keep_uppl h m)"
  "abort_on_fail (keep_upll h m) = abort_on_fail m" "abort_on_fail (keep_uppl h m) = abort_on_fail m"
  "driverinfo_map (keep_upll h m) = driverinfo_map m" "driverinfo_map (keep_uppl h m) = driverinfo_map m"
  by (auto simp: keep_upll_def keep_uppl_def same_job_def split: option.split)

lemma CreateSessions_ok:
  assumes "CreateSessionsToForwardDriverResult E m s = (r, m', t)"
  shows "trace t = trace s" "same_job m m'" "abort_on_fail m' = abort_on_fail m"
    "driverinfo_map m' = driverinfo_map m"
  using assms
  by (auto simp: CreateSessionsToForwardDriverResult_def Let_def split: prod.splits if_splits
      dest!: open_driver_result_trace intro: same_job_trans keep_fields)

subsection \<open>Steps with an invocation\<close>

definition abort_entry :: "'a TcMsgCommit_scheme \<Rightarrow> TcDaemonName \<Rightarrow> u32 \<Rightarrow> trace_entry" where
  "abort_entry m d r =
     (GetChannelName m d, tclib_num TCLIB_COMMIT_GLOBAL_ABORT, puts (abort_items m), Some r)"

definition phase_entry :: "'a TcMsgCommit_scheme \<Rightarrow> TcDaemonName \<Rightarrow> u32 \<Rightarrow> trace_entry" where
  "phase_entry m d r =
     (GetChannelName m d, tclib_num TCLIB_COMMIT_TRANSACTION, puts (commit_items m), Some r)"

definition driver_entry ::
  "TwoPhaseCommit \<Rightarrow> unc_keytype_ctrtype_t \<Rightarrow> string list \<Rightarrow> u32 \<Rightarrow> trace_entry" where
  "driver_entry m driver clist r =
     (GetChannelName m (MapTcDriverId driver), tclib_num TCLIB_COMMIT_DRV_VOTE_GLOBAL,
      puts (driver_items m clist), Some r)"

lemma same_job_entries:
  assumes "same_job m m'"
  shows "abort_entry m' = abort_entry m" "phase_entry m' = phase_entry m"
  using same_job_view [OF assms] by (simp_all add: abort_entry_def phase_entry_def fun_eq_iff)

lemma same_job_driver_entry: "same_job m m' \<Longrightarrow> driver_entry m' = driver_entry m"
  using same_job_view same_job_driver_items by (fastforce simp: driver_entry_def fun_eq_iff)

text \<open>Everyone in a stretch of the trace answered, and none refused.\<close>

definition agreed :: "trace_entry list \<Rightarrow> bool" where
  "agreed es \<longleftrightarrow> list_all (\<lambda>(ch, svc, out, r). r \<noteq> None \<and> r \<noteq> Some TC_FAILURE) es"

lemma agreed_simps [simp]:
  "agreed []" "agreed (es @ fs) \<longleftrightarrow> agreed es \<and> agreed fs"
  "agreed ((ch, svc, out, Some r) # es) \<longleftrightarrow> r \<noteq> TC_FAILURE \<and> agreed es"
  "agreed (phase_entry m d r # es) \<longleftrightarrow> r \<noteq> TC_FAILURE \<and> agreed es"
  "agreed (driver_entry m' dr cl r # es) \<longleftrightarrow> r \<noteq> TC_FAILURE \<and> agreed es"
  by (auto simp: agreed_def phase_entry_def driver_entry_def)

lemma abort_loop_SUCCESS:
  "abort_loop E m ds resp s = (TCOPER_RET_SUCCESS, t) \<Longrightarrow>
   \<exists>es. trace t = trace s @ es \<and> answers (abort_entry m) ds es"
proof (induction ds arbitrary: resp s)
  case (Cons d ds)
  then obtain p c resp' s1
    where req: "request E (GetChannelName m d) TCLIB_COMMIT_GLOBAL_ABORT True (abort_items m) s =
                  (Answered p c resp', s1)"
      and ok: "resp' \<noteq> TC_FAILURE"
      and rest: "abort_loop E m ds resp' (snd (tc_session_close E (Some p) c s1)) =
                   (TCOPER_RET_SUCCESS, t)"
    by (auto split: if_splits prod.splits request_result.splits dest: request_Failed
        simp: RespondToTc_SUCCESS)
  from Cons.IH [OF rest] obtain es where "trace t = trace s1 @ es" "answers (abort_entry m) ds es"
    by auto
  moreover have "trace s1 = trace s @ [abort_entry m d resp']"
    using request_Answered [OF req] by (simp add: abort_entry_def)
  ultimately show ?case
    using ok by auto
qed auto

lemma SendAbortRequest_SUCCESS:
  "SendAbortRequest E m ds s = (TCOPER_RET_SUCCESS, t) \<Longrightarrow>
   \<exists>es. trace t = trace s @ es \<and> answers (abort_entry m) ds es"
  by (auto simp: SendAbortRequest_def split: if_splits dest: abort_loop_SUCCESS)

lemma invoke_entry:
  assumes "tc_session_invoke E p s = (TCUTIL_RET_SUCCESS, resp, t)"
  shows "\<exists>q c. p = Some q \<and> map_of (ipc_heap s) q = Some c \<and>
     trace t = trace s @ [(cs_channel c, cs_service_id c, cs_out c, Some resp)]"
  using assms unfolding tc_session_invoke_def
  by (auto simp: split_beta trace_ask split: option.splits if_splits)

lemma ReturnUtilResp_cases:
  "ReturnUtilResp r = TCOPER_RET_SUCCESS \<longleftrightarrow> r = TCUTIL_RET_SUCCESS"
  "ReturnUtilResp r \<noteq> TCOPER_RET_ABORT"
  by (cases r; simp)+

section \<open>Sessions that stay open\<close>

text \<open>A session object keeps its channel and service until it is closed.\<close>

definition session_at :: "ipc_state \<Rightarrow> nat \<Rightarrow> string \<Rightarrow> u32 \<Rightarrow> bool" where
  "session_at s q ch svc \<longleftrightarrow> q < ipc_next s \<and>
     (\<exists>c. map_of (ipc_heap s) q = Some c \<and> cs_channel c = ch \<and> cs_service_id c = svc)"

definition keeps :: "ipc_state \<Rightarrow> ipc_state \<Rightarrow> bool" where
  "keeps s t \<longleftrightarrow> (\<forall>q ch svc. session_at s q ch svc \<longrightarrow> session_at t q ch svc)"

lemma keeps_refl [simp]: "keeps s s"
  by (simp add: keeps_def)

lemma keeps_trans: "keeps s t \<Longrightarrow> keeps t u \<Longrightarrow> keeps s u"
  by (simp add: keeps_def)

lemma session_at_ask [simp]: "session_at (snd (ask E c s)) = session_at s"
  by (simp add: session_at_def fun_eq_iff)

lemma keeps_create: "create_tc_client_session E ch svc b True s = (r, t) \<Longrightarrow> keeps s t"
  unfolding create_tc_client_session_def keeps_def
  by (auto simp: Let_def split_beta session_at_def sess_delete_def split: if_splits)

lemma keeps_add_output: "keeps s (snd (add_output E p v s))"
  by (auto simp: add_output_def keeps_def session_at_def append_out_def split_beta
      split: option.split)

lemma keeps_set_value: "set_value E p v s = (r, t) \<Longrightarrow> keeps s t"
  using keeps_add_output [of s E p v]
  by (cases v) (auto simp: set_uint8_def set_uint32_def set_uint64_def set_string_def
      dest: arg_cong [where f = snd])

lemma keeps_append_data: "append_data E p is s = (r, t) \<Longrightarrow> keeps s t"
proof (induction E p "is" s rule: append_data.induct)
  case (3 E p v "is" s)
  then show ?case
    by (auto split: prod.splits TcUtilRet.splits dest!: keeps_set_value intro: keeps_trans)
qed (auto split: if_splits)

lemma keeps_invoke: "tc_session_invoke E p s = (r, x, t) \<Longrightarrow> keeps s t"
  unfolding tc_session_invoke_def keeps_def
  by (auto simp: split_beta session_at_def split: option.splits if_splits)

lemma keeps_request: "request E ch svc b is s = (r, t) \<Longrightarrow> keeps s t"
  by (auto simp: request_def split: request_splits
      dest!: keeps_create keeps_append_data keeps_invoke intro: keeps_trans)

lemma request_address:
  "request E ch svc b is s = (Answered p c x, t) \<Longrightarrow> p = ipc_next s"
  by (auto simp: request_def split: request_splits dest!: create_ok(2))

lemma keeps_close:
  assumes "keeps s t" and "ipc_next s \<le> p"
  shows "keeps s (snd (tc_session_close E (Some p) c t))"
  using assms
  by (auto simp: keeps_def session_at_def tc_session_close_def sess_delete_def Let_def split_beta)

lemma keeps_forward_both: "forward_both E driver p m s = (r, t) \<Longrightarrow> keeps s t"
proof -
  have fw: "forward_result E dst src s = (r, t) \<Longrightarrow> keeps s t" for dst src s r t
    by (auto simp: forward_result_def keeps_def session_at_def append_out_def split_beta
        split: option.splits if_splits)
  show "forward_both E driver p m s = (r, t) \<Longrightarrow> keeps s t"
    by (auto simp: forward_both_def split: if_splits prod.splits TcOperRet.splits
        dest!: fw intro: keeps_trans)
qed

lemma keeps_HandleDriverNotPresent: "HandleDriverNotPresent E driver m s = (r, t) \<Longrightarrow> keeps s t"
proof -
  have "put_both E p q vs s = (r, t) \<Longrightarrow> keeps s t" for p q vs r
    by (induction E p q vs s rule: put_both.induct)
      (auto split: prod.splits TcUtilRet.splits dest!: keeps_set_value intro: keeps_trans)
  then show "HandleDriverNotPresent E driver m s = (r, t) \<Longrightarrow> keeps s t"
    by (auto simp: HandleDriverNotPresent_def split: option.splits prod.splits)
qed

section \<open>The drivers\<close>

lemma open_driver_result_SUCCESS:
  assumes "open_driver_result E d m s = (TCOPER_RET_SUCCESS, h, t)"
  shows "\<exists>p c. h = Some (p, c) \<and> keeps s t \<and>
     session_at t p (GetChannelName m d) (tclib_num TCLIB_COMMIT_DRV_RESULT)"
proof -
  from assms obtain p c s1 where 1: "create_tc_client_session E (GetChannelName m d)
        (tclib_num TCLIB_COMMIT_DRV_RESULT) True True s = (Some (p, c), s1)"
      and 2: "SetSessionToForwardDriverResult E p m s1 = (TCOPER_RET_SUCCESS, t)" and "h = Some (p, c)"
    by (auto simp: open_driver_result_def split: option.splits prod.splits if_splits)
  have "p < ipc_next s1"
    using 1 unfolding create_tc_client_session_def by (auto simp: Let_def split_beta split: if_splits)
  with create_ok(3) [OF 1]
  have "session_at s1 p (GetChannelName m d) (tclib_num TCLIB_COMMIT_DRV_RESULT)"
    by (simp add: session_at_def)
  moreover have "keeps s1 t"
    using 2 by (auto simp: SetSessionToForwardDriverResult_def
        split: option.splits prod.splits append_result.splits dest: keeps_append_data)
  ultimately show ?thesis
    using \<open>h = Some (p, c)\<close> keeps_create [OF 1] by (auto simp: keeps_def)
qed

definition result_sessions :: "TwoPhaseCommit \<Rightarrow> ipc_state \<Rightarrow> bool" where
  "result_sessions m s \<longleftrightarrow>
     (\<exists>p q. upll_sess m = Some p \<and> uppl_sess m = Some q \<and>
        session_at s p (GetChannelName m TC_UPLL) (tclib_num TCLIB_COMMIT_DRV_RESULT) \<and>
        session_at s q (GetChannelName m TC_UPPL) (tclib_num TCLIB_COMMIT_DRV_RESULT))"

lemma CreateSessions_SUCCESS:
  assumes "CreateSessionsToForwardDriverResult E m s = (TCOPER_RET_SUCCESS, m', t)"
  shows "result_sessions m' t"
proof -
  from assms obtain h s1 h2 where 1: "open_driver_result E TC_UPLL m s = (TCOPER_RET_SUCCESS, h, s1)"
      and 2: "open_driver_result E TC_UPPL (keep_upll h m) s1 = (TCOPER_RET_SUCCESS, h2, t)"
      and m': "m' = keep_uppl h2 (keep_upll h m)"
    by (auto simp: CreateSessionsToForwardDriverResult_def Let_def split: prod.splits if_splits)
  from open_driver_result_SUCCESS [OF 1] open_driver_result_SUCCESS [OF 2] show ?thesis
    by (auto simp: result_sessions_def m' keep_upll_def keep_uppl_def keeps_def)
qed

lemma result_sessions_keep:
  "result_sessions m s \<Longrightarrow> keeps s t \<Longrightarrow> upll_sess m' = upll_sess m \<Longrightarrow> uppl_sess m' = uppl_sess m \<Longrightarrow>
   same_job m m' \<Longrightarrow> result_sessions m' t"
  by (auto simp: result_sessions_def keeps_def same_job_view(1))

text \<open>Every positive vote in a stretch of the trace comes from a daemon of the list.\<close>

definition vote_services :: "u32 set" where
  "vote_services = {tclib_num TCLIB_COMMIT_TRANSACTION, tclib_num TCLIB_COMMIT_DRV_VOTE_GLOBAL}"

definition covered :: "(TcDaemonName \<Rightarrow> string) \<Rightarrow> TcDaemonName list \<Rightarrow> trace_entry list \<Rightarrow> bool" where
  "covered chan ds es \<longleftrightarrow>
     list_all (\<lambda>(ch, svc, out, r). svc \<in> vote_services \<longrightarrow> r = Some TC_SUCCESS \<longrightarrow> ch \<in> chan ` set ds) es"

lemma covered_simps [simp]:
  "covered chan ds []" "covered chan ds (es @ fs) \<longleftrightarrow> covered chan ds es \<and> covered chan ds fs"
  "covered chan ds ((ch, svc, out, r) # es) \<longleftrightarrow>
     (svc \<in> vote_services \<longrightarrow> r = Some TC_SUCCESS \<longrightarrow> ch \<in> chan ` set ds) \<and> covered chan ds es"
  by (simp_all add: covered_def)

lemma covered_mono: "covered chan ds es \<Longrightarrow> set ds \<subseteq> set ds' \<Longrightarrow> covered chan ds' es"
  by (fastforce simp: covered_def list_all_iff)

abbreviation (input) two_phase :: "TwoPhaseCommit \<Rightarrow> bool" where
  "two_phase m \<equiv> opertype m = MSG_COMMIT_VOTE \<or> opertype m = MSG_COMMIT_GLOBAL"

lemma driver_answer_SUCCESS:
  assumes "driver_answer E driver d p resp m s = (TCOPER_RET_SUCCESS, m', t)" and "two_phase m"
  shows "resp \<noteq> TC_FAILURE" "trace t = trace s" "keeps s t" "same_job m m'"
    "upll_sess m' = upll_sess m" "uppl_sess m' = uppl_sess m" "driverinfo_map m' = driverinfo_map m"
    "abort_on_fail m' = abort_on_fail m @ (if resp = TC_SUCCESS then [d] else [])"
proof -
  let ?m = "m\<lparr>driverset_map := (driverset_map m)(TC_UPLL := Some
               (case driverset_map m TC_UPLL of None \<Rightarrow> {} | Some ds \<Rightarrow> ds))\<rparr>"
  have cases: "resp = TC_SUCCESS \<and> forward_both E driver p ?m s = (TCOPER_RET_SUCCESS, t) \<and>
        m' = ?m\<lparr>abort_on_fail := abort_on_fail m @ [d]\<rparr> \<or>
      resp \<noteq> TC_SUCCESS \<and> resp \<noteq> TC_FAILURE \<and> m' = m \<and> t = s"
  proof (cases "resp = TC_SUCCESS")
    case True
    with assms(1) show ?thesis
      by (cases "forward_both E driver p ?m s"; cases "fst (forward_both E driver p ?m s)")
        (auto simp: driver_answer_def Let_def)
  next
    case False
    with assms show ?thesis
      by (auto simp: driver_answer_def Let_def split: if_splits prod.splits)
  qed
  show "resp \<noteq> TC_FAILURE" "trace t = trace s" "keeps s t"
    using cases by (auto dest: trace_forward_both keeps_forward_both)
  show "same_job m m'" "upll_sess m' = upll_sess m" "uppl_sess m' = uppl_sess m"
    "driverinfo_map m' = driverinfo_map m"
    "abort_on_fail m' = abort_on_fail m @ (if resp = TC_SUCCESS then [d] else [])"
    using cases by (auto simp: same_job_def)
qed

lemma forward_both_not_ABORT: "forward_both E driver p m s \<noteq> (TCOPER_RET_ABORT, t)"
  by (auto simp: forward_both_def forward_result_def Let_def split_beta
      split: if_splits prod.splits option.splits TcOperRet.splits)

lemma driver_answer_ABORT:
  assumes "driver_answer E driver d p resp m s = (TCOPER_RET_ABORT, m', t)"
  shows "resp = TC_FAILURE" "trans_result m' = TRANS_END_FAILURE"
    "\<exists>es. trace t = trace s @ es \<and> answers (abort_entry m) (abort_on_fail m) es"
proof -
  let ?m = "m\<lparr>trans_result := TRANS_END_FAILURE\<rparr>"
  have same: "abort_entry ?m = abort_entry m"
    by (rule same_job_entries(1)) (simp add: same_job_def)
  have ab: "resp = TC_FAILURE \<and> trans_result m' = TRANS_END_FAILURE \<and>
      SendAbortRequest E ?m (abort_on_fail m) s = (TCOPER_RET_SUCCESS, t)"
    using assms forward_both_not_ABORT
    by (fastforce simp: driver_answer_def Let_def split: if_splits prod.splits TcOperRet.splits)
  then show "resp = TC_FAILURE" "trans_result m' = TRANS_END_FAILURE"
    by auto
  show "\<exists>es. trace t = trace s @ es \<and> answers (abort_entry m) (abort_on_fail m) es"
    using SendAbortRequest_SUCCESS [of E ?m "abort_on_fail m" s t] ab same by simp
qed

text \<open>One step of the loop over the drivers, by what it does with the driver.\<close>

lemma driver_loop_step:
  assumes "driver_loop E ((driver, clist) # rest) m s = (r, m', t)"
    and "r = TCOPER_RET_SUCCESS \<or> r = TCOPER_RET_ABORT"
  obtains (absent) s1 where "GetChannelName m (MapTcDriverId driver) = ''''"
      "HandleDriverNotPresent E driver m s = (TCOPER_RET_SUCCESS, s1)"
      "driver_loop E rest m s1 = (r, m', t)"
    | (accepted) p c resp s1 m2 s2 where "GetChannelName m (MapTcDriverId driver) \<noteq> ''''"
      "request E (GetChannelName m (MapTcDriverId driver)) TCLIB_COMMIT_DRV_VOTE_GLOBAL True
         (driver_items m clist) s = (Answered p c resp, s1)"
      "driver_answer E driver (MapTcDriverId driver) p resp (m\<lparr>sess := Some p, conn := c\<rparr>) s1 =
         (TCOPER_RET_SUCCESS, m2, s2)"
      "driver_loop E rest (m2\<lparr>sess := None\<rparr>) (snd (tc_session_close E (Some p) c s2)) = (r, m', t)"
    | (refused) p c resp s1 where "r = TCOPER_RET_ABORT"
      "request E (GetChannelName m (MapTcDriverId driver)) TCLIB_COMMIT_DRV_VOTE_GLOBAL True
         (driver_items m clist) s = (Answered p c resp, s1)"
      "driver_answer E driver (MapTcDriverId driver) p resp (m\<lparr>sess := Some p, conn := c\<rparr>) s1 =
         (TCOPER_RET_ABORT, m', t)"
proof (cases "GetChannelName m (MapTcDriverId driver) = ''''")
  case True
  with assms absent show thesis
    by (cases "HandleDriverNotPresent E driver m s") (auto simp: Let_def split: if_splits)
next
  case False
  obtain res s1 where rq: "request E (GetChannelName m (MapTcDriverId driver))
      TCLIB_COMMIT_DRV_VOTE_GLOBAL True (driver_items m clist) s = (res, s1)"
    by fastforce
  have nn: "MapTcDriverId driver \<noteq> TC_NONE"
    using assms by auto
  show thesis
  proof (cases res)
    case (Answered p c resp)
    obtain r2 m2 s2 where an: "driver_answer E driver (MapTcDriverId driver) p resp
        (m\<lparr>sess := Some p, conn := c\<rparr>) s1 = (r2, m2, s2)"
      by (metis prod_cases3)
    show thesis
    proof (cases "r2 = TCOPER_RET_SUCCESS")
      case True
      with assms(1) rq Answered an False nn show thesis
        by (intro accepted [OF False]) (auto simp: Let_def)
    next
      case no: False
      with assms rq Answered an False nn show thesis
        by (intro refused) (auto simp: Let_def)
    qed
  next
    case (Failed p c r')
    with assms rq False nn request_Failed show thesis
      by (fastforce simp: Let_def)
  qed (use assms rq False nn in \<open>auto simp: Let_def\<close>)
qed

lemma driver_entry_fields: "driver_entry m driver clist r =
   (GetChannelName m (MapTcDriverId driver), tclib_num TCLIB_COMMIT_DRV_VOTE_GLOBAL,
    puts (driver_items m clist), Some r)"
  by (simp add: driver_entry_def)

lemma driver_loop_SUCCESS:
  "driver_loop E info m s = (TCOPER_RET_SUCCESS, m', t) \<Longrightarrow> two_phase m \<Longrightarrow>
   \<exists>es ds. trace t = trace s @ es \<and> agreed es \<and> keeps s t \<and> same_job m m' \<and>
     upll_sess m' = upll_sess m \<and> uppl_sess m' = uppl_sess m \<and> driverinfo_map m' = driverinfo_map m \<and>
     abort_on_fail m' = abort_on_fail m @ ds \<and> covered (GetChannelName m) ds es \<and>
     (\<forall>(driver, clist) \<in> set info. GetChannelName m (MapTcDriverId driver) \<noteq> '''' \<longrightarrow>
        (\<exists>r. driver_entry m driver clist r \<in> set es))"
proof (induction info arbitrary: m s)
  case (Cons dc rest)
  obtain driver clist where dc: "dc = (driver, clist)"
    by fastforce
  have "TCOPER_RET_SUCCESS = TCOPER_RET_SUCCESS \<or> TCOPER_RET_SUCCESS = TCOPER_RET_ABORT"
    by simp
  with Cons.prems(1) [unfolded dc] show ?case
  proof (cases rule: driver_loop_step)
    case (absent s1)
    with Cons.IH [OF absent(3) Cons.prems(2)] HandleDriverNotPresent_trace [OF absent(2)]
      keeps_HandleDriverNotPresent [OF absent(2)] dc
    show ?thesis
      by (auto intro: keeps_trans)
  next
    case (accepted p c resp s1 m2 s2)
    let ?m = "m2\<lparr>sess := None\<rparr>" and ?s = "snd (tc_session_close E (Some p) c s2)"
    let ?e = "driver_entry m driver clist resp"
    have two: "two_phase (m\<lparr>sess := Some p, conn := c\<rparr>)"
      using Cons.prems(2) by simp
    note an = driver_answer_SUCCESS [OF accepted(3) two]
    have job: "same_job m ?m"
      using an(4) by (simp add: same_job_def)
    have tr: "trace ?s = trace s @ [?e]"
      using request_Answered [OF accepted(2)] an(2) by (simp add: driver_entry_def)
    have kp: "keeps s ?s"
      using keeps_trans [OF keeps_request [OF accepted(2)] an(3)] request_address [OF accepted(2)]
      by (simp add: keeps_close)
    from Cons.IH [OF accepted(4)] same_job_view(2) [OF job] Cons.prems(2) obtain es ds
      where ih: "trace t = trace ?s @ es" "agreed es" "keeps ?s t" "same_job ?m m'"
        "upll_sess m' = upll_sess ?m" "uppl_sess m' = uppl_sess ?m"
        "driverinfo_map m' = driverinfo_map ?m" "abort_on_fail m' = abort_on_fail ?m @ ds"
        "covered (GetChannelName ?m) ds es"
        "\<forall>(driver, clist) \<in> set rest. GetChannelName ?m (MapTcDriverId driver) \<noteq> '''' \<longrightarrow>
           (\<exists>r. driver_entry ?m driver clist r \<in> set es)"
      by auto
    let ?ds = "(if resp = TC_SUCCESS then [MapTcDriverId driver] else []) @ ds"
    show ?thesis
    proof (intro exI [of _ "?e # es"] exI [of _ ?ds] conjI)
      show "covered (GetChannelName m) ?ds (?e # es)"
        using covered_mono [OF ih(9), of ?ds] same_job_view(1) [OF job]
        by (auto simp: driver_entry_fields)
      show "\<forall>(driver, clist) \<in> set (dc # rest). GetChannelName m (MapTcDriverId driver) \<noteq> '''' \<longrightarrow>
         (\<exists>r. driver_entry m driver clist r \<in> set (?e # es))"
        using ih(10) dc same_job_view(1) [OF job] same_job_driver_entry [OF job] by auto
    qed (use ih an tr kp job in \<open>auto intro: keeps_trans same_job_trans\<close>)
  qed auto
qed simp

text \<open>
  A stretch of the trace that ends with the revocation of the votes: the daemons of \<open>ds\<close>
  are told to abort, \<open>ds\<close> includes those that had voted before, and every positive vote
  of the stretch comes from one of them.
\<close>

definition revoked :: "TwoPhaseCommit \<Rightarrow> TcDaemonName list \<Rightarrow> ipc_state \<Rightarrow> ipc_state \<Rightarrow> bool" where
  "revoked m before s t \<longleftrightarrow>
     (\<exists>votes aborts ds. trace t = trace s @ votes @ aborts \<and> answers (abort_entry m) ds aborts \<and>
        set before \<subseteq> set ds \<and> covered (GetChannelName m) ds votes)"

lemma revoked_now:
  assumes "trace t = trace s @ es" and "answers (abort_entry m) ds es" and "set before \<subseteq> set ds"
  shows "revoked m before s t"
  unfolding revoked_def using assms
  by (intro exI [of _ "[]"] exI [of _ es] exI [of _ ds]) simp

lemma revoked_later:
  assumes "revoked m1 before1 s1 t" and "same_job m m1" and "trace s1 = trace s @ es"
    and "set before \<subseteq> set before1" and "covered (GetChannelName m) before1 es"
  shows "revoked m before s t"
proof -
  from assms(1) obtain votes aborts ds
    where r: "trace t = trace s1 @ votes @ aborts" "answers (abort_entry m1) ds aborts"
      "set before1 \<subseteq> set ds" "covered (GetChannelName m1) ds votes"
    unfolding revoked_def by blast
  show ?thesis
    unfolding revoked_def
    by (intro exI [of _ "es @ votes"] exI [of _ aborts] exI [of _ ds])
      (use r assms covered_mono [OF assms(5) r(3)] same_job_view(1) [OF assms(2)]
        same_job_entries(1) [OF assms(2)] in auto)
qed

lemma driver_loop_ABORT:
  "driver_loop E info m s = (TCOPER_RET_ABORT, m', t) \<Longrightarrow> two_phase m \<Longrightarrow>
   revoked m (abort_on_fail m) s t \<and> trans_result m' = TRANS_END_FAILURE"
proof (induction info arbitrary: m s)
  case (Cons dc rest)
  obtain driver clist where dc: "dc = (driver, clist)"
    by fastforce
  have "TCOPER_RET_ABORT = TCOPER_RET_SUCCESS \<or> TCOPER_RET_ABORT = TCOPER_RET_ABORT"
    by simp
  with Cons.prems(1) [unfolded dc] show ?case
  proof (cases rule: driver_loop_step)
    case (absent s1)
    with Cons.IH [OF absent(3) Cons.prems(2)] HandleDriverNotPresent_trace [OF absent(2)] show ?thesis
      by (auto intro: revoked_later [of m "abort_on_fail m" s1 t m s "[]"])
  next
    case (accepted p c resp s1 m2 s2)
    let ?m = "m2\<lparr>sess := None\<rparr>" and ?s = "snd (tc_session_close E (Some p) c s2)"
    have two: "two_phase (m\<lparr>sess := Some p, conn := c\<rparr>)"
      using Cons.prems(2) by simp
    note an = driver_answer_SUCCESS [OF accepted(3) two]
    have job: "same_job m ?m"
      using an(4) by (simp add: same_job_def)
    have tr: "trace ?s = trace s @ [driver_entry m driver clist resp]"
      using request_Answered [OF accepted(2)] an(2) by (simp add: driver_entry_def)
    from Cons.IH [OF accepted(4)] same_job_view(2) [OF job] Cons.prems(2)
    have ih: "revoked ?m (abort_on_fail ?m) ?s t" "trans_result m' = TRANS_END_FAILURE"
      by auto
    have "revoked m (abort_on_fail m) s t"
      by (rule revoked_later [OF ih(1) job tr]) (auto simp: an(8) driver_entry_fields)
    with ih(2) show ?thesis by simp
  next
    case (refused p c resp s1)
    let ?m = "m\<lparr>sess := Some p, conn := c\<rparr>"
    note an = driver_answer_ABORT [OF refused(3)]
    have job: "same_job m ?m"
      by (simp add: same_job_def)
    have tr: "trace s1 = trace s @ [driver_entry m driver clist resp]"
      using request_Answered [OF refused(2)] by (simp add: driver_entry_def)
    from an(3) have "revoked ?m (abort_on_fail ?m) s1 t"
      by (auto intro: revoked_now)
    then have "revoked m (abort_on_fail m) s t"
      by (rule revoked_later [OF _ job tr]) (auto simp: an(1) driver_entry_fields)
    with an(2) show ?thesis by simp
  qed
qed simp


section \<open>The driver results\<close>

lemma HandleDriverResultResponse_SUCCESS:
  assumes "HandleDriverResultResponse E p m s = (TCOPER_RET_SUCCESS, m', t)" and "two_phase m"
  shows "m' = m \<and> keeps s t \<and> (\<exists>q c r. p = Some q \<and> map_of (ipc_heap s) q = Some c \<and>
     trace t = trace s @ [(cs_channel c, cs_service_id c, cs_out c, Some r)] \<and> r \<noteq> TC_FAILURE)"
proof -
  obtain u r s1 where inv: "tc_session_invoke E p s = (u, r, s1)"
    by (metis prod_cases3)
  with assms have "u = TCUTIL_RET_SUCCESS" "r \<noteq> TC_FAILURE" "m' = m" "s1 = t"
    by (cases u; auto simp: HandleDriverResultResponse_def Let_def split: if_splits prod.splits)+
  with inv invoke_entry [of E p s r t] keeps_invoke [of E p s] show ?thesis
    by blast
qed

lemma HandleDriverResultResponse_ABORT:
  assumes "HandleDriverResultResponse E p m s = (TCOPER_RET_ABORT, m', t)"
  shows "revoked m (abort_on_fail m) s t \<and> trans_result m' = TRANS_END_FAILURE"
proof -
  let ?m = "m\<lparr>trans_result := TRANS_END_FAILURE\<rparr>"
  obtain u r s1 where inv: "tc_session_invoke E p s = (u, r, s1)"
    by (metis prod_cases3)
  with assms have u: "u = TCUTIL_RET_SUCCESS" "r = TC_FAILURE" and m': "m' = ?m"
    and ab: "SendAbortRequest E ?m (abort_on_fail m) s1 = (TCOPER_RET_SUCCESS, t)"
    by (cases u; auto simp: HandleDriverResultResponse_def Let_def split: if_splits prod.splits)+
  have job: "same_job m ?m"
    by (simp add: same_job_def)
  from SendAbortRequest_SUCCESS [OF ab] have "revoked ?m (abort_on_fail m) s1 t"
    by (auto intro: revoked_now)
  moreover obtain e where "trace s1 = trace s @ [e]" "covered (GetChannelName m) (abort_on_fail m) [e]"
    using invoke_entry [of E p s r s1] inv u by fastforce
  ultimately show ?thesis
    using m' revoked_later [OF _ job, of "abort_on_fail m" s1 t s "[e]" "abort_on_fail m"] by simp
qed

lemma result_services: "tclib_num TCLIB_COMMIT_DRV_RESULT \<notin> vote_services"
  by (simp add: vote_services_def)

definition result_entry :: "'a TcMsgCommit_scheme \<Rightarrow> TcDaemonName \<Rightarrow> ipc_value list \<Rightarrow> u32 \<Rightarrow> trace_entry" where
  "result_entry m d out r =
     (GetChannelName m d, tclib_num TCLIB_COMMIT_DRV_RESULT, out, Some r)"

lemma driver_result_SUCCESS:
  assumes "HandleDriverResultResponse E p m s = (TCOPER_RET_SUCCESS, m', t)" and "two_phase m"
    and "result_sessions m s" and "p = upll_sess m \<and> d = TC_UPLL \<or> p = uppl_sess m \<and> d = TC_UPPL"
  shows "m' = m \<and> result_sessions m t \<and>
     (\<exists>out r. trace t = trace s @ [result_entry m d out r] \<and> r \<noteq> TC_FAILURE)"
  using HandleDriverResultResponse_SUCCESS [OF assms(1,2)] assms(3,4)
  by (auto simp: result_sessions_def session_at_def keeps_def result_entry_def)

lemma SendRequestToDriver_parts:
  assumes "SendRequestToDriver E m s = (r, m', t)" and "r = TCOPER_RET_SUCCESS \<or> r = TCOPER_RET_ABORT"
  obtains m1 s1 r2 m2 s2 where "CreateSessionsToForwardDriverResult E m s = (TCOPER_RET_SUCCESS, m1, s1)"
      "driver_loop E (driverinfo_map m1) m1 s1 = (r2, m2, s2)"
      "r2 \<noteq> TCOPER_RET_SUCCESS \<Longrightarrow> (r2, m2, s2) = (r, m', t)"
      "r2 = TCOPER_RET_SUCCESS \<Longrightarrow>
         (case HandleDriverResultResponse E (upll_sess m2) m2 s2 of
            (r3, m3, s3) \<Rightarrow> if r3 \<noteq> TCOPER_RET_SUCCESS then (r3, m3, s3)
                            else HandleDriverResultResponse E (uppl_sess m3) m3 s3) = (r, m', t)"
proof -
  obtain r1 m1 s1 where 1: "CreateSessionsToForwardDriverResult E m s = (r1, m1, s1)"
    by (metis prod_cases3)
  with assms have r1: "r1 = TCOPER_RET_SUCCESS"
    by (auto simp: SendRequestToDriver_def split: if_splits)
  obtain r2 m2 s2 where 2: "driver_loop E (driverinfo_map m1) m1 s1 = (r2, m2, s2)"
    by (metis prod_cases3)
  show thesis
    by (rule that [OF 1 [unfolded r1] 2]) (use assms(1) 1 2 r1 in \<open>auto simp: SendRequestToDriver_def\<close>)
qed

lemma SendRequestToDriver_SUCCESS:
  assumes "SendRequestToDriver E m s = (TCOPER_RET_SUCCESS, m', t)" and "two_phase m"
  shows "\<exists>es out1 r1 out2 r2.
     trace t = trace s @ es @ [result_entry m TC_UPLL out1 r1, result_entry m TC_UPPL out2 r2] \<and>
     agreed es \<and> r1 \<noteq> TC_FAILURE \<and> r2 \<noteq> TC_FAILURE \<and> driverinfo_map m' = driverinfo_map m \<and>
     (\<forall>(driver, clist) \<in> set (driverinfo_map m). GetChannelName m (MapTcDriverId driver) \<noteq> '''' \<longrightarrow>
        (\<exists>r. driver_entry m driver clist r \<in> set es))"
proof -
  have "TCOPER_RET_SUCCESS = TCOPER_RET_SUCCESS \<or> TCOPER_RET_SUCCESS = TCOPER_RET_ABORT"
    by simp
  with assms(1) show ?thesis
  proof (cases rule: SendRequestToDriver_parts)
    case (1 m1 s1 r2 m2 s2)
    note cs = CreateSessions_ok [OF 1(1)]
    have two1: "two_phase m1"
      using assms(2) same_job_view(2) [OF cs(2)] by simp
    from 1(3) have r2: "r2 = TCOPER_RET_SUCCESS"
      by auto
    from driver_loop_SUCCESS [OF 1(2) [unfolded r2] two1] obtain es ds
      where dl: "trace s2 = trace s1 @ es" "agreed es" "keeps s1 s2" "same_job m1 m2"
        "upll_sess m2 = upll_sess m1" "uppl_sess m2 = uppl_sess m1" "driverinfo_map m2 = driverinfo_map m1"
        "\<forall>(driver, clist) \<in> set (driverinfo_map m1). GetChannelName m1 (MapTcDriverId driver) \<noteq> '''' \<longrightarrow>
           (\<exists>r. driver_entry m1 driver clist r \<in> set es)"
      by blast
    note rs = result_sessions_keep [OF CreateSessions_SUCCESS [OF 1(1)] dl(3,5,6,4)]
    have two2: "two_phase m2"
      using two1 same_job_view(2) [OF dl(4)] by simp
    obtain m3 s3 where h1: "HandleDriverResultResponse E (upll_sess m2) m2 s2 = (TCOPER_RET_SUCCESS, m3, s3)"
      and h2: "HandleDriverResultResponse E (uppl_sess m3) m3 s3 = (TCOPER_RET_SUCCESS, m', t)"
      using 1(4) [OF r2] by (auto split: prod.splits if_splits)
    from driver_result_SUCCESS [OF h1 two2 rs, of TC_UPLL] obtain out1 x1
      where m3: "m3 = m2" "result_sessions m2 s3"
        and e1: "trace s3 = trace s2 @ [result_entry m2 TC_UPLL out1 x1]" "x1 \<noteq> TC_FAILURE"
      by auto
    from driver_result_SUCCESS [OF h2 [unfolded m3(1)] two2 m3(2), of TC_UPPL] obtain out2 x2
      where m': "m' = m2" and e2: "trace t = trace s3 @ [result_entry m2 TC_UPPL out2 x2]" "x2 \<noteq> TC_FAILURE"
      by auto
    have job: "same_job m m2"
      using same_job_trans [OF cs(2) dl(4)] .
    have "result_entry m2 = result_entry m"
      using same_job_view(1) [OF job] by (simp add: result_entry_def fun_eq_iff)
    with cs dl e1 e2 m' same_job_view(1) [OF cs(2)] same_job_driver_entry [OF cs(2)] show ?thesis
      by (intro exI [of _ es] exI [of _ out1] exI [of _ x1] exI [of _ out2] exI [of _ x2]) auto
  qed
qed

lemma driver_results_ABORT:
  assumes "(case HandleDriverResultResponse E (upll_sess m) m s of
      (r3, m3, s3) \<Rightarrow> if r3 \<noteq> TCOPER_RET_SUCCESS then (r3, m3, s3)
                      else HandleDriverResultResponse E (uppl_sess m3) m3 s3) = (TCOPER_RET_ABORT, m', t)"
    and "two_phase m" and "result_sessions m s"
  shows "revoked m (abort_on_fail m) s t \<and> trans_result m' = TRANS_END_FAILURE"
proof -
  obtain r3 m3 s3 where h: "HandleDriverResultResponse E (upll_sess m) m s = (r3, m3, s3)"
    by (metis prod_cases3)
  show ?thesis
  proof (cases "r3 = TCOPER_RET_SUCCESS")
    case True
    from driver_result_SUCCESS [OF h [unfolded True] assms(2,3), of TC_UPLL] obtain out r
      where m3: "m3 = m" and e: "trace s3 = trace s @ [result_entry m TC_UPLL out r]"
      by auto
    have "HandleDriverResultResponse E (uppl_sess m) m s3 = (TCOPER_RET_ABORT, m', t)"
      using assms(1) h True m3 by simp
    from HandleDriverResultResponse_ABORT [OF this] show ?thesis
      using revoked_later [of m "abort_on_fail m" s3 t m s _ "abort_on_fail m", OF _ same_job_refl e]
        result_services
      by (simp add: result_entry_def)
  next
    case False
    with assms(1) h show ?thesis
      by (intro HandleDriverResultResponse_ABORT) simp
  qed
qed

lemma SendRequestToDriver_ABORT:
  assumes "SendRequestToDriver E m s = (TCOPER_RET_ABORT, m', t)" and "two_phase m"
  shows "revoked m (abort_on_fail m) s t \<and> trans_result m' = TRANS_END_FAILURE"
proof -
  have "TCOPER_RET_ABORT = TCOPER_RET_SUCCESS \<or> TCOPER_RET_ABORT = TCOPER_RET_ABORT"
    by simp
  with assms(1) show ?thesis
  proof (cases rule: SendRequestToDriver_parts)
    case (1 m1 s1 r2 m2 s2)
    note cs = CreateSessions_ok [OF 1(1)]
    have two1: "two_phase m1"
      using assms(2) same_job_view(2) [OF cs(2)] by simp
    have "revoked m1 (abort_on_fail m1) s1 t \<and> trans_result m' = TRANS_END_FAILURE"
    proof (cases "r2 = TCOPER_RET_SUCCESS")
      case True
      from driver_loop_SUCCESS [OF 1(2) [unfolded True] two1] obtain es ds
        where dl: "trace s2 = trace s1 @ es" "keeps s1 s2" "same_job m1 m2"
          "upll_sess m2 = upll_sess m1" "uppl_sess m2 = uppl_sess m1"
          "abort_on_fail m2 = abort_on_fail m1 @ ds" "covered (GetChannelName m1) ds es"
        by blast
      note rs = result_sessions_keep [OF CreateSessions_SUCCESS [OF 1(1)] dl(2,4,5,3)]
      have "two_phase m2"
        using two1 same_job_view(2) [OF dl(3)] by simp
      from driver_results_ABORT [OF 1(4) [OF True] this rs] show ?thesis
        using revoked_later [OF _ dl(3,1), of "abort_on_fail m2" t "abort_on_fail m1"]
          covered_mono [OF dl(7), of "abort_on_fail m2"] dl(6) by auto
    next
      case False
      with 1(2,3) two1 show ?thesis
        by (intro driver_loop_ABORT) auto
    qed
    then show ?thesis
      using revoked_later [OF _ cs(2), of "abort_on_fail m1" s1 t s "[]" "abort_on_fail m"] cs(1,3) by simp
  qed
qed


section \<open>The upper layers\<close>

lemma read_drivers_keeps:
  "read_drivers p n idx m s = (r, m') \<Longrightarrow>
   same_job m m' \<and> abort_on_fail m' = abort_on_fail m \<and> trans_result m' = trans_result m"
proof (induction n arbitrary: idx m)
  case (Suc n)
  then show ?case
    by (fastforce simp: Let_def same_job_def split: sum.splits prod.splits)
qed simp

lemma GetControllerInfo_keeps:
  "GetControllerInfo p m s = (r, m') \<Longrightarrow>
   same_job m m' \<and> abort_on_fail m' = abort_on_fail m \<and> trans_result m' = trans_result m"
  by (auto simp: GetControllerInfo_def split: sum.splits prod.splits dest: read_drivers_keeps)

lemma undo_vote_ABORT:
  assumes "undo_vote E m s = (TCOPER_RET_ABORT, m', t)"
  shows "revoked m (abort_on_fail m) s t \<and> trans_result m' = trans_result m"
proof (cases "abort_on_fail m = []")
  case True
  with assms show ?thesis
    using revoked_now [of t s "[]" m "[]" "[]"] by (simp add: undo_vote_def)
next
  case False
  with assms have "SendAbortRequest E m (abort_on_fail m) s = (TCOPER_RET_SUCCESS, t)"
    and "trans_result m' = trans_result m"
    by (auto simp: undo_vote_def split: prod.splits if_splits)
  with SendAbortRequest_SUCCESS [of E m "abort_on_fail m" s t] show ?thesis
    by (auto intro: revoked_now)
qed

text \<open>The request to an upper layer, by its two good outcomes.\<close>

lemma phase_request_SUCCESS:
  assumes "TwoPhaseCommit_SendRequest E (GetChannelName m d) m s = (TCOPER_RET_SUCCESS, m', t)"
    and "two_phase m"
  shows "\<exists>r. trace t = trace s @ [phase_entry m d r] \<and> r \<noteq> TC_FAILURE"
    and "same_job m m'" and "abort_on_fail m' = abort_on_fail m"
proof -
  obtain res s1 where rq: "request E (GetChannelName m d) TCLIB_COMMIT_TRANSACTION True
      (commit_items m) s = (res, s1)"
    by fastforce
  have "\<exists>p c r. res = Answered p c r \<and> r \<noteq> TC_FAILURE \<and> same_job m m' \<and>
      abort_on_fail m' = abort_on_fail m \<and> trace t = trace s1"
  proof (cases res)
    case (Answered p c r)
    let ?m = "m\<lparr>sess := Some p, conn := c\<rparr>"
    let ?n = "case map_of (ipc_heap s1) p of None \<Rightarrow> 0 | Some cs \<Rightarrow> length (cs_resp cs)"
    obtain g m2 where gi: "GetControllerInfo (Some p) ?m s1 = (g, m2)"
      by fastforce
    have "same_job m m2" "abort_on_fail m2 = abort_on_fail m"
      using GetControllerInfo_keeps [OF gi] by (auto simp: same_job_def)
    moreover have "r \<noteq> TC_FAILURE"
      using assms rq Answered by (auto simp: TwoPhaseCommit_SendRequest_def Let_def undo_vote_def
          split: if_splits prod.splits)
    moreover have "m' = (if r = TC_SUCCESS \<and> ?n > 0 then m2 else ?m)\<lparr>sess := None\<rparr> \<and>
        t = snd (tc_session_close E (Some p) c s1)"
      using assms(1) rq Answered gi calculation(3)
      by (auto simp: TwoPhaseCommit_SendRequest_def Let_def split: if_splits)
    ultimately show ?thesis
      using Answered by (simp add: same_job_def)
  next
    case (Failed p c r)
    with assms(1) rq request_Failed show ?thesis
      by (fastforce simp: TwoPhaseCommit_SendRequest_def)
  qed (use assms(1) rq in \<open>auto simp: TwoPhaseCommit_SendRequest_def\<close>)
  with rq request_Answered show "\<exists>r. trace t = trace s @ [phase_entry m d r] \<and> r \<noteq> TC_FAILURE"
    and "same_job m m'" and "abort_on_fail m' = abort_on_fail m"
    by (auto simp: phase_entry_def)
qed

lemma phase_request_ABORT:
  assumes "TwoPhaseCommit_SendRequest E (GetChannelName m d) m s = (TCOPER_RET_ABORT, m', t)"
  shows "revoked m (abort_on_fail m) s t \<and> trans_result m' = TRANS_END_FAILURE"
proof -
  obtain res s1 where rq: "request E (GetChannelName m d) TCLIB_COMMIT_TRANSACTION True
      (commit_items m) s = (res, s1)"
    by fastforce
  with assms request_Failed have "\<exists>p c. res = Answered p c TC_FAILURE \<and>
      undo_vote E (m\<lparr>sess := Some p, conn := c, trans_result := TRANS_END_FAILURE\<rparr>) s1 =
        (TCOPER_RET_ABORT, m', t)"
    by (cases res) (fastforce simp: TwoPhaseCommit_SendRequest_def Let_def split: if_splits prod.splits)+
  then obtain p c where "res = Answered p c TC_FAILURE"
      and un: "undo_vote E (m\<lparr>sess := Some p, conn := c, trans_result := TRANS_END_FAILURE\<rparr>) s1 =
        (TCOPER_RET_ABORT, m', t)"
    by blast
  then have e: "trace s1 = trace s @ [phase_entry m d TC_FAILURE]"
    using rq request_Answered by (simp add: phase_entry_def)
  have job: "same_job m (m\<lparr>sess := Some p, conn := c, trans_result := TRANS_END_FAILURE\<rparr>)"
    by (simp add: same_job_def)
  from undo_vote_ABORT [OF un] show ?thesis
    using revoked_later [OF _ job e, of "abort_on_fail m" t "abort_on_fail m"] by (simp add: phase_entry_def)
qed

lemma remember_layer_keeps:
  "same_job m (remember_layer d m)" "abort_on_fail (remember_layer d m) = abort_on_fail m @ [d]"
  by (auto simp: remember_layer_def same_job_def Let_def)

lemma layer_loop_SUCCESS:
  "layer_loop E ds m s = (TCOPER_RET_SUCCESS, m', t) \<Longrightarrow> two_phase m \<Longrightarrow>
   \<exists>es. trace t = trace s @ es \<and> answers (phase_entry m) ds es \<and> same_job m m' \<and>
        abort_on_fail m' = abort_on_fail m @ ds"
proof (induction ds arbitrary: m s)
  case (Cons d ds)
  then obtain m1 s1
    where req: "TwoPhaseCommit_SendRequest E (GetChannelName m d) m s = (TCOPER_RET_SUCCESS, m1, s1)"
      and rest: "layer_loop E ds (remember_layer d m1) s1 = (TCOPER_RET_SUCCESS, m', t)"
    by (auto split: if_splits prod.splits)
  note ph = phase_request_SUCCESS [OF req Cons.prems(2)]
  have job: "same_job m (remember_layer d m1)"
    using same_job_trans [OF ph(2) remember_layer_keeps(1)] .
  have "two_phase (remember_layer d m1)"
    using same_job_view(2) [OF job] Cons.prems(2) by simp
  from Cons.IH [OF rest this] ph(1,3) same_job_trans [OF job] same_job_entries(2) [OF job]
  show ?case
    by (auto simp: remember_layer_keeps(2)) blast
qed simp

lemma layer_loop_ABORT:
  "layer_loop E ds m s = (TCOPER_RET_ABORT, m', t) \<Longrightarrow> two_phase m \<Longrightarrow>
   revoked m (abort_on_fail m) s t \<and> trans_result m' = TRANS_END_FAILURE"
proof (induction ds arbitrary: m s)
  case (Cons d ds)
  obtain r m1 s1 where req: "TwoPhaseCommit_SendRequest E (GetChannelName m d) m s = (r, m1, s1)"
    by (metis prod_cases3)
  show ?case
  proof (cases "r = TCOPER_RET_SUCCESS")
    case True
    note ph = phase_request_SUCCESS [OF req [unfolded True] Cons.prems(2)]
    have job: "same_job m (remember_layer d m1)"
      using same_job_trans [OF ph(2) remember_layer_keeps(1)] .
    have two: "two_phase (remember_layer d m1)"
      using same_job_view(2) [OF job] Cons.prems(2) by simp
    have "layer_loop E ds (remember_layer d m1) s1 = (TCOPER_RET_ABORT, m', t)"
      using Cons.prems(1) req True by (simp split: if_splits)
    note ih = Cons.IH [OF this two]
    from ph(1) obtain x where e: "trace s1 = trace s @ [phase_entry m d x]"
      by blast
    have "revoked m (abort_on_fail m) s t"
      by (rule revoked_later [OF conjunct1 [OF ih] job e])
        (auto simp: remember_layer_keeps(2) ph(3) phase_entry_def)
    with ih show ?thesis by simp
  next
    case False
    with Cons.prems(1) req have "r = TCOPER_RET_ABORT" "t = s1"
      "trans_result m' = trans_result m1"
      by (auto split: if_splits)
    with phase_request_ABORT req show ?thesis by simp
  qed
qed simp

lemma dummy_driver_result_not_ABORT: "dummy_driver_result E m s \<noteq> (TCOPER_RET_ABORT, m', t)"
  by (auto simp: dummy_driver_result_def split: prod.splits if_splits)

text \<open>Without controllers: the two results of an empty driver phase.\<close>

lemma dummy_driver_result_SUCCESS:
  assumes "dummy_driver_result E m s = (TCOPER_RET_SUCCESS, m', t)" and "two_phase m"
  shows "\<exists>out1 r1 out2 r2.
     trace t = trace s @ [result_entry m TC_UPLL out1 r1, result_entry m TC_UPPL out2 r2] \<and>
     r1 \<noteq> TC_FAILURE \<and> r2 \<noteq> TC_FAILURE \<and> driverinfo_map m' = driverinfo_map m"
proof -
  from assms(1) obtain m1 s1 m2 s2 m3
    where 1: "CreateSessionsToForwardDriverResult E m s = (TCOPER_RET_SUCCESS, m1, s1)"
      and 2: "HandleDriverResultResponse E (upll_sess m1) m1 s1 = (TCOPER_RET_SUCCESS, m2, s2)"
      and 3: "HandleDriverResultResponse E (uppl_sess m2) m2 s2 = (TCOPER_RET_SUCCESS, m3, t)"
      and m': "m' = m3\<lparr>abort_on_fail := []\<rparr>"
    by (auto simp: dummy_driver_result_def split: prod.splits if_splits)
  note cs = CreateSessions_ok [OF 1]
  have two: "two_phase m1"
    using assms(2) same_job_view(2) [OF cs(2)] by simp
  from driver_result_SUCCESS [OF 2 two CreateSessions_SUCCESS [OF 1], of TC_UPLL] obtain out1 r1
    where m2: "m2 = m1" "result_sessions m1 s2"
      and e1: "trace s2 = trace s1 @ [result_entry m1 TC_UPLL out1 r1]" "r1 \<noteq> TC_FAILURE"
    by auto
  from driver_result_SUCCESS [OF 3 [unfolded m2(1)] two m2(2), of TC_UPPL] obtain out2 r2
    where "m3 = m1" and e2: "trace t = trace s2 @ [result_entry m1 TC_UPPL out2 r2]" "r2 \<noteq> TC_FAILURE"
    by auto
  moreover have "result_entry m1 = result_entry m"
    using same_job_view(1) [OF cs(2)] by (simp add: result_entry_def fun_eq_iff)
  ultimately show ?thesis
    using cs e1 m' by auto
qed

text \<open>
  C10. A phase of a commit succeeds only unanimously: when \<^verbatim>\<open>TwoPhaseCommit::Execute\<close>
  returns success, for the vote or for the global commit, the logical and then the physical
  layer were asked with the phase's message, after them every driver that was named and has a
  channel with exactly the controllers collected for it, and last both layers with the driver
  results; everyone asked answered, and no answer was a refusal.
\<close>

theorem phase_success_unanimous:
  assumes "opertype m = MSG_COMMIT_VOTE \<or> opertype m = MSG_COMMIT_GLOBAL" and "notifyorder m = []"
    and "TwoPhaseCommit_Execute E m s = (TCOPER_RET_SUCCESS, m', t)"
  shows "\<exists>r1 r2 es out1 x1 out2 x2.
     trace t = trace s @ [phase_entry m TC_UPLL r1, phase_entry m TC_UPPL r2] @ es @
       [result_entry m TC_UPLL out1 x1, result_entry m TC_UPPL out2 x2] \<and>
     TC_FAILURE \<notin> {r1, r2, x1, x2} \<and> agreed es \<and>
     (\<forall>(driver, clist) \<in> set (driverinfo_map m'). GetChannelName m (MapTcDriverId driver) \<noteq> '''' \<longrightarrow>
        (\<exists>r. driver_entry m driver clist r \<in> set es))"
proof -
  let ?m = "m\<lparr>notifyorder := [TC_UPLL, TC_UPPL]\<rparr>"
  have job0: "same_job m ?m"
    by (simp add: same_job_def)
  obtain r0 m1 s1 where "layer_loop E [TC_UPLL, TC_UPPL] ?m s = (r0, m1, s1)"
    by (metis prod_cases3)
  moreover from this assms have "r0 = TCOPER_RET_SUCCESS"
    by (auto simp: TwoPhaseCommit_Execute_def simp del: layer_loop.simps split: if_splits)
  ultimately have ll: "layer_loop E [TC_UPLL, TC_UPPL] ?m s = (TCOPER_RET_SUCCESS, m1, s1)"
    by simp
  have "two_phase ?m"
    using assms(1) by simp
  from layer_loop_SUCCESS [OF ll this] obtain r1 r2
    where tr: "trace s1 = trace s @ [phase_entry m TC_UPLL r1, phase_entry m TC_UPPL r2]"
      and no: "r1 \<noteq> TC_FAILURE" "r2 \<noteq> TC_FAILURE" and "same_job ?m m1"
    using same_job_entries(2) [OF job0] by auto
  then have job: "same_job m m1"
    using same_job_trans [OF job0] by blast
  then have two: "two_phase m1"
    using assms(1) same_job_view(2) [OF job] by simp
  have ent: "result_entry m1 = result_entry m"
    using same_job_view(1) [OF job] by (simp add: result_entry_def fun_eq_iff)
  show ?thesis
  proof (cases "driverinfo_map m1 = []")
    case True
    with assms(2,3) ll have "dummy_driver_result E m1 s1 = (TCOPER_RET_SUCCESS, m', t)"
      by (auto simp: TwoPhaseCommit_Execute_def simp del: layer_loop.simps split: if_splits)
    from dummy_driver_result_SUCCESS [OF this two] obtain out1 x1 out2 x2
      where d: "trace t = trace s1 @ [result_entry m1 TC_UPLL out1 x1, result_entry m1 TC_UPPL out2 x2]"
        "x1 \<noteq> TC_FAILURE" "x2 \<noteq> TC_FAILURE" "driverinfo_map m' = driverinfo_map m1"
      by blast
    show ?thesis
      by (rule exI [of _ r1], rule exI [of _ r2], rule exI [of _ "[]"], rule exI [of _ out1],
          rule exI [of _ x1], rule exI [of _ out2], rule exI [of _ x2])
        (use d tr no ent True in auto)
  next
    case False
    with assms(2,3) ll obtain m2 where sr: "SendRequestToDriver E m1 s1 = (TCOPER_RET_SUCCESS, m2, t)"
      and "driverinfo_map m' = driverinfo_map m2"
      by (auto simp: TwoPhaseCommit_Execute_def simp del: layer_loop.simps
          split: if_splits prod.splits)
    with SendRequestToDriver_SUCCESS [OF sr two] obtain es out1 x1 out2 x2
      where d: "trace t = trace s1 @ es @
            [result_entry m1 TC_UPLL out1 x1, result_entry m1 TC_UPPL out2 x2]"
        "agreed es" "x1 \<noteq> TC_FAILURE" "x2 \<noteq> TC_FAILURE" "driverinfo_map m' = driverinfo_map m1"
        "\<forall>(driver, clist) \<in> set (driverinfo_map m1). GetChannelName m1 (MapTcDriverId driver) \<noteq> [] \<longrightarrow>
           (\<exists>r. driver_entry m1 driver clist r \<in> set es)"
      by auto
    show ?thesis
      by (rule exI [of _ r1], rule exI [of _ r2], rule exI [of _ es], rule exI [of _ out1],
          rule exI [of _ x1], rule exI [of _ out2], rule exI [of _ x2])
        (use d tr no ent same_job_view(1) [OF job] same_job_driver_entry [OF job] in auto)
  qed
qed


section \<open>Two-phase commits over a transport without faults\<close>

definition quiet :: "ipc_env \<Rightarrow> bool" where
  "quiet E \<longleftrightarrow> (\<forall>h c. rp_vals (E h c) = [])"

lemma quiet_request:
  assumes "quiet E" and "request E ch svc b is s = (Answered p c r, t)"
  shows "\<exists>cs. map_of (ipc_heap t) p = Some cs \<and> cs_resp cs = []"
proof -
  from assms(2) obtain s2 where "tc_session_invoke E (Some p) s2 = (TCUTIL_RET_SUCCESS, r, t)"
    by (auto simp: request_def split: request_splits)
  with assms(1) show ?thesis
    by (auto simp: tc_session_invoke_def split_beta ask_def Let_def quiet_def
        split: option.splits if_splits)
qed

lemma reliable_phase_accepted:
  assumes "reliable f E" and "quiet E" and "\<not> sys_stop s"
    and "f ch (tclib_num TCLIB_COMMIT_TRANSACTION) (puts (commit_items m)) \<noteq> TC_FAILURE"
  shows "\<exists>c t. TwoPhaseCommit_SendRequest E ch m s =
      (TCOPER_RET_SUCCESS, m\<lparr>conn := c, sess := None\<rparr>, t) \<and> \<not> sys_stop t"
proof -
  have "well_formed (commit_items m)"
    by (simp add: commit_items_def)
  from reliable_request [OF assms(1) this assms(3)] obtain p c r t
    where rq: "request E ch TCLIB_COMMIT_TRANSACTION True (commit_items m) s = (Answered p c r, t)"
      and t: "\<not> sys_stop t" "r \<noteq> TC_FAILURE"
    using assms(4) by metis
  from quiet_request [OF assms(2) rq] rq t show ?thesis
    by (auto simp: TwoPhaseCommit_SendRequest_def Let_def)
qed

lemma reliable_phase_refused:
  assumes "reliable f E" and "\<not> sys_stop s" and "opertype m = MSG_COMMIT_VOTE"
    and "f ch (tclib_num TCLIB_COMMIT_TRANSACTION) (puts (commit_items m)) = TC_FAILURE"
  shows "\<exists>p c t. TwoPhaseCommit_SendRequest E ch m s =
      undo_vote E (m\<lparr>sess := Some p, conn := c, trans_result := TRANS_END_FAILURE\<rparr>) t \<and> \<not> sys_stop t"
proof -
  have "well_formed (commit_items m)"
    by (simp add: commit_items_def)
  from reliable_request [OF assms(1) this assms(2)] obtain p c t
    where "request E ch TCLIB_COMMIT_TRANSACTION True (commit_items m) s = (Answered p c TC_FAILURE, t)"
      and "\<not> sys_stop t"
    using assms(4) by metis
  with assms(3) show ?thesis
    by (intro exI [of _ p] exI [of _ c] exI [of _ t]) (simp add: TwoPhaseCommit_SendRequest_def Let_def)
qed

lemma reliable_abort_loop:
  assumes "reliable f E" and "ids_valid m"
    and "\<And>ch. f ch (tclib_num TCLIB_COMMIT_GLOBAL_ABORT) (puts (abort_items m)) = TC_SUCCESS"
  shows "\<not> sys_stop s \<Longrightarrow> resp = TC_SUCCESS \<Longrightarrow> fst (abort_loop E m ds resp s) = TCOPER_RET_SUCCESS"
proof (induction ds arbitrary: s resp)
  case (Cons d ds)
  have "well_formed (abort_items m)"
    using assms(2) by (simp add: abort_items_def)
  from reliable_request [OF assms(1) this Cons.prems(1)] assms(3) obtain p c t
    where rq: "request E (GetChannelName m d) TCLIB_COMMIT_GLOBAL_ABORT True (abort_items m) s =
                 (Answered p c TC_SUCCESS, t)" and "\<not> sys_stop t"
    by metis
  with Cons.IH [of "snd (tc_session_close E (Some p) c t)" TC_SUCCESS] show ?case
    by (simp add: split_beta)
qed (simp add: RespondToTc_def)

definition sample_vote :: TwoPhaseCommit where
  "sample_vote = TcMsgCommit_SetData 1 (TwoPhaseCommit_new 5 MSG_COMMIT_VOTE sample_channels)"

lemma sample_vote_fields:
  "opertype sample_vote = MSG_COMMIT_VOTE" "notifyorder sample_vote = []"
  "abort_on_fail sample_vote = []" "session_id sample_vote = 5" "config_id sample_vote = 1"
  "driverinfo_map sample_vote = []" "driver_set sample_vote = {}" "driverset_map sample_vote = Map.empty"
  "channel_names sample_vote = sample_channels"
  by (simp_all add: sample_vote_def msg_new_defs TcMsgCommit_SetData_def)

lemma sample_quiet: "quiet (sample_env no)"
  by (simp add: quiet_def sample_env_def)

lemma sample_vote_view:
  "GetChannelName sample_vote TC_UPLL = ''lgcnwd''" "GetChannelName sample_vote TC_UPPL = ''phynwd''"
  "commit_items sample_vote = [Put (IpcU8 5), Put (IpcU32 5), Put (IpcU32 1)]"
  "puts (abort_items sample_vote) = [IpcU8 27, IpcU32 5, IpcU32 1, IpcU8 1]" "ids_valid sample_vote"
  by (simp_all add: GetChannelName_def sample_vote_fields sample_channels_def commit_items_def
      abort_items_def ids_valid_def)

lemma remember_layer_plain:
  "driver_set m = {} \<Longrightarrow> remember_layer d m = m\<lparr>abort_on_fail := abort_on_fail m @ [d]\<rparr>"
  by (simp add: remember_layer_def)

text \<open>The physical layer refuses the vote: the vote of the logical layer is revoked.\<close>

lemma sample_vote_aborted:
  "fst (TwoPhaseCommit_Execute (sample_env [(''phynwd'', 5)]) sample_vote ipc_init) = TCOPER_RET_ABORT"
proof -
  let ?no = "[(''phynwd'', 5)] :: (string \<times> u8) list" and ?E = "sample_env [(''phynwd'', 5)]"
  let ?m = "sample_vote\<lparr>notifyorder := [TC_UPLL, TC_UPPL]\<rparr>"
  have job: "same_job sample_vote (m :: TwoPhaseCommit) \<Longrightarrow> commit_items m = commit_items sample_vote" for m
    by (rule same_job_view(3))
  have up: "sample_daemons ?no ''lgcnwd'' svc (puts (commit_items sample_vote)) = TC_SUCCESS"
    "sample_daemons ?no ''phynwd'' svc (puts (commit_items sample_vote)) = TC_FAILURE" for svc
    by (simp_all add: sample_vote_view sample_daemons_def)
  have jm: "same_job sample_vote ?m"
    by (simp add: same_job_def)
  obtain c s1 where 1: "TwoPhaseCommit_SendRequest ?E ''lgcnwd'' ?m ipc_init =
      (TCOPER_RET_SUCCESS, ?m\<lparr>conn := c, sess := None\<rparr>, s1)" and s1: "\<not> sys_stop s1"
    using reliable_phase_accepted [OF sample_reliable sample_quiet sample_start_fields(8), of ?no "''lgcnwd''" ?m]
      up(1) job [OF jm] by auto
  let ?m1 = "?m\<lparr>conn := c, sess := None, abort_on_fail := [TC_UPLL]\<rparr>"
  have jm1: "same_job sample_vote ?m1"
    by (simp add: same_job_def)
  obtain p c' s2 where 2: "TwoPhaseCommit_SendRequest ?E ''phynwd'' ?m1 s1 =
      undo_vote ?E (?m1\<lparr>sess := Some p, conn := c', trans_result := TRANS_END_FAILURE\<rparr>) s2"
      and s2: "\<not> sys_stop s2"
    using reliable_phase_refused [OF sample_reliable s1, of ?m1 ?no "''phynwd''"]
      up(2) job [OF jm1] sample_vote_fields(1) by auto
  let ?m2 = "?m1\<lparr>sess := Some p, conn := c', trans_result := TRANS_END_FAILURE\<rparr>"
  have jm2: "same_job sample_vote ?m2"
    by (simp add: same_job_def)
  have "fst (abort_loop ?E ?m2 [TC_UPLL] TC_SUCCESS s2) = TCOPER_RET_SUCCESS"
    by (rule reliable_abort_loop [OF sample_reliable, of _ ?no])
      (use s2 sample_vote_view same_job_view(4) [OF jm2] in \<open>simp_all add: sample_daemons_def\<close>)
  then have "fst (undo_vote ?E ?m2 s2) = TCOPER_RET_ABORT"
    by (simp add: undo_vote_def SendAbortRequest_def sample_vote_fields split_beta)
  then have "fst (layer_loop ?E [TC_UPLL, TC_UPPL] ?m ipc_init) = TCOPER_RET_ABORT"
    using 1 2 by (simp add: sample_vote_view sample_vote_fields remember_layer_plain split_beta)
  then show ?thesis
    by (simp add: TwoPhaseCommit_Execute_def sample_vote_fields split_beta Let_def del: layer_loop.simps)
qed


lemma reliable_open_driver_result:
  assumes "reliable f E" and "ids_valid m" and "two_phase m"
  shows "\<exists>h t. open_driver_result E d m s = (TCOPER_RET_SUCCESS, h, t) \<and> sys_stop t = sys_stop s"
proof -
  obtain p c s1 where 1: "create_tc_client_session E (GetChannelName m d)
      (tclib_num TCLIB_COMMIT_DRV_RESULT) True True s = (Some (p, c), s1)" "sys_stop s1 = sys_stop s"
    using reliable_create [OF assms(1)] by blast
  obtain items where it: "driver_result_items m = Some items" "well_formed items"
    using assms(2,3) by (auto simp: driver_result_items_def)
  obtain t where "append_data E p items s1 = (Appended, t)" "sys_stop t = sys_stop s1"
    using reliable_append_data [OF assms(1) it(2)] by blast
  with 1 it(1) show ?thesis
    by (auto simp: open_driver_result_def SetSessionToForwardDriverResult_def)
qed

lemma reliable_CreateSessions:
  assumes "reliable f E" and "ids_valid m" and "two_phase m"
  shows "\<exists>m' t. CreateSessionsToForwardDriverResult E m s = (TCOPER_RET_SUCCESS, m', t) \<and>
                sys_stop t = sys_stop s"
proof -
  obtain h s1 where 1: "open_driver_result E TC_UPLL m s = (TCOPER_RET_SUCCESS, h, s1)"
      "sys_stop s1 = sys_stop s"
    using reliable_open_driver_result [OF assms] by blast
  have "ids_valid (keep_upll h m)" "two_phase (keep_upll h m)"
    using assms(2,3) by (auto simp: keep_upll_def ids_valid_def split: option.split)
  from reliable_open_driver_result [OF assms(1) this, of TC_UPPL s1] 1 show ?thesis
    by (auto simp: CreateSessionsToForwardDriverResult_def Let_def)
qed

lemma reliable_driver_result:
  assumes "reliable f E" and "\<And>ch svc out. f ch svc out = TC_SUCCESS" and "\<not> sys_stop s"
    and "session_at s q ch svc"
  shows "\<exists>t. HandleDriverResultResponse E (Some q) m s = (TCOPER_RET_SUCCESS, m, t) \<and> \<not> sys_stop t"
proof -
  from assms(4) obtain cs where cs: "map_of (ipc_heap s) q = Some cs"
    by (auto simp: session_at_def)
  let ?c = "Invoke q (cs_channel cs) (cs_service_id cs) (cs_out cs)"
  have "rp_err (fst (ask E ?c s)) = 0" "rp_resp (fst (ask E ?c s)) = TC_SUCCESS"
    using assms(1,2) by (simp_all add: reliable_def ask_def Let_def)
  with cs assms(3) have "\<exists>t. tc_session_invoke E (Some q) s = (TCUTIL_RET_SUCCESS, TC_SUCCESS, t) \<and> \<not> sys_stop t"
    by (simp add: tc_session_invoke_def get_sys_stop_def split_beta err8_def)
  then show ?thesis
    by (auto simp: HandleDriverResultResponse_def)
qed

lemma reliable_dummy_driver_result:
  assumes "reliable f E" and "\<And>ch svc out. f ch svc out = TC_SUCCESS" and "\<not> sys_stop s"
    and "ids_valid m" and "two_phase m"
  shows "fst (dummy_driver_result E m s) = TCOPER_RET_SUCCESS"
proof -
  obtain m1 s1 where 1: "CreateSessionsToForwardDriverResult E m s = (TCOPER_RET_SUCCESS, m1, s1)"
      and s1: "\<not> sys_stop s1"
    using reliable_CreateSessions [OF assms(1,4,5), of s] assms(3) by auto
  from CreateSessions_SUCCESS [OF 1] obtain p q where pq: "upll_sess m1 = Some p" "uppl_sess m1 = Some q"
      and at: "session_at s1 p (GetChannelName m1 TC_UPLL) 3" "session_at s1 q (GetChannelName m1 TC_UPPL) 3"
    by (auto simp: result_sessions_def)
  obtain s2 where 2: "HandleDriverResultResponse E (Some p) m1 s1 = (TCOPER_RET_SUCCESS, m1, s2)"
      and s2: "\<not> sys_stop s2"
    using reliable_driver_result [OF assms(1,2) s1 at(1)] by blast
  have "two_phase m1"
    using assms(5) same_job_view(2) [OF CreateSessions_ok(2) [OF 1]] by simp
  with 2 have "session_at s2 q (GetChannelName m1 TC_UPPL) 3"
    using at(2) HandleDriverResultResponse_SUCCESS [OF 2] by (auto simp: keeps_def)
  from reliable_driver_result [OF assms(1,2) s2 this, of m1] 1 2 pq show ?thesis
    by (auto simp: dummy_driver_result_def)
qed

text \<open>Both layers accept and name no controller.\<close>

theorem phase_success_unanimous_witness:
  "\<exists>r1 r2 es out1 x1 out2 x2.
     trace (snd (snd (TwoPhaseCommit_Execute (sample_env []) sample_vote ipc_init))) =
       [phase_entry sample_vote TC_UPLL r1, phase_entry sample_vote TC_UPPL r2] @ es @
       [result_entry sample_vote TC_UPLL out1 x1, result_entry sample_vote TC_UPPL out2 x2] \<and>
     TC_FAILURE \<notin> {r1, r2, x1, x2}"
proof -
  let ?E = "sample_env []" and ?m = "sample_vote\<lparr>notifyorder := [TC_UPLL, TC_UPPL]\<rparr>"
  have yes: "sample_daemons [] ch svc out = TC_SUCCESS" for ch svc out
    by (simp add: sample_daemons_def split: list.split ipc_value.split)
  obtain c s1 where 1: "TwoPhaseCommit_SendRequest ?E ''lgcnwd'' ?m ipc_init =
      (TCOPER_RET_SUCCESS, ?m\<lparr>conn := c, sess := None\<rparr>, s1)" and s1: "\<not> sys_stop s1"
    using reliable_phase_accepted [OF sample_reliable sample_quiet sample_start_fields(8), of "[]"
        "''lgcnwd''" ?m] yes by auto
  let ?m1 = "?m\<lparr>conn := c, sess := None, abort_on_fail := [TC_UPLL]\<rparr>"
  obtain c' s2 where 2: "TwoPhaseCommit_SendRequest ?E ''phynwd'' ?m1 s1 =
      (TCOPER_RET_SUCCESS, ?m1\<lparr>conn := c', sess := None\<rparr>, s2)" and s2: "\<not> sys_stop s2"
    using reliable_phase_accepted [OF sample_reliable sample_quiet s1, of "[]" "''phynwd''" ?m1] yes by auto
  let ?m2 = "?m1\<lparr>conn := c', sess := None, abort_on_fail := [TC_UPLL, TC_UPPL]\<rparr>"
  have "layer_loop ?E [TC_UPLL, TC_UPPL] ?m ipc_init = (TCOPER_RET_SUCCESS, ?m2, s2)"
    using 1 2 by (simp add: sample_vote_view sample_vote_fields remember_layer_plain)
  moreover have "fst (dummy_driver_result ?E ?m2 s2) = TCOPER_RET_SUCCESS"
    using reliable_dummy_driver_result [OF sample_reliable yes s2, of ?m2] sample_vote_view(5)
      sample_vote_fields(1) by simp
  ultimately have "fst (TwoPhaseCommit_Execute ?E sample_vote ipc_init) = TCOPER_RET_SUCCESS"
    by (simp add: TwoPhaseCommit_Execute_def sample_vote_fields Let_def del: layer_loop.simps)
  then obtain m' t where ex: "TwoPhaseCommit_Execute ?E sample_vote ipc_init = (TCOPER_RET_SUCCESS, m', t)"
    by (metis prod.collapse)
  have "trace ipc_init = []"
    by (simp add: trace_def ipc_init_def)
  with phase_success_unanimous [OF disjI1 [OF sample_vote_fields(1)] sample_vote_fields(2) ex]
  show ?thesis
    unfolding ex by simp blast
qed

end
