(* ===== verification/TcMsgProps.thy ===== *)
theory TcMsgProps
  imports TcVoteProps
begin

text \<open>
  Properties of the IPC helpers and of the notification messages: what the getters return, the
  table of open sessions, which daemons a successful notification reached, and the merging of
  controller lists.
\<close>

section \<open>Results of an invocation\<close>

text \<open>
  The getters never read outside the results: an index below the number of results yields
  the value exactly when it has the requested type; the index equal to the number of results
  passes the range check of the code (which compares with \<^verbatim>\<open>>\<close>) and is reported as
  fatal by the integer getters and as a failure by the string getter; larger indices fail.
\<close>

theorem getters_in_range:
  assumes "map_of (ipc_heap s) p = Some c"
  shows "get_uint8 (Some p) i s =
           (if unat i < length (cs_resp c)
            then (case cs_resp c ! unat i of IpcU8 x \<Rightarrow> Inr x | _ \<Rightarrow> Inl TCUTIL_RET_FAILURE)
            else if unat i = length (cs_resp c) then Inl TCUTIL_RET_FATAL else Inl TCUTIL_RET_FAILURE) \<and>
         get_string (Some p) i s =
           (if unat i < length (cs_resp c)
            then (case cs_resp c ! unat i of IpcStr x \<Rightarrow> Inr x | _ \<Rightarrow> Inl TCUTIL_RET_FAILURE)
            else Inl TCUTIL_RET_FAILURE)"
  using assms
  by (auto simp: get_uint8_def get_string_def get_response_def split: ipc_value.split)

definition sample_results :: ipc_state where
  "sample_results = ipc_init\<lparr>ipc_heap := [(0, \<lparr>cs_conn = 1, cs_channel = ''l'', cs_service = ''tclib'',
     cs_service_id = 1, cs_out = [], cs_resp = [IpcU8 7, IpcStr ''ctr'']\<rparr>)]\<rparr>"

theorem getters_in_range_witness:
  "get_uint8 (Some 0) 0 sample_results = Inr 7 \<and> get_string (Some 0) 1 sample_results = Inr ''ctr'' \<and>
   get_uint8 (Some 0) 2 sample_results = Inl TCUTIL_RET_FATAL"
proof -
  have h: "map_of (ipc_heap sample_results) 0 = Some \<lparr>cs_conn = 1, cs_channel = ''l'',
      cs_service = ''tclib'', cs_service_id = 1, cs_out = [], cs_resp = [IpcU8 7, IpcStr ''ctr'']\<rparr>"
    by (simp add: sample_results_def)
  show ?thesis
    using getters_in_range [OF h, of 0] getters_in_range [OF h, of 1] getters_in_range [OF h, of 2]
    by simp
qed


section \<open>The table of open sessions\<close>

text \<open>Every entry of the table names a live session object with that connection.\<close>

definition table_ok :: "ipc_state \<Rightarrow> bool" where
  "table_ok s \<longleftrightarrow> sm_ok (sess_map s) \<and>
     (\<forall>k p. map_of (sess_map s) k = Some p \<longrightarrow>
        p < ipc_next s \<and> (\<exists>c. map_of (ipc_heap s) p = Some c \<and> cs_conn c = k))"

text \<open>No two live sessions share a connection.\<close>

definition conns_unique :: "ipc_state \<Rightarrow> bool" where
  "conns_unique s \<longleftrightarrow> (\<forall>p q c d. map_of (ipc_heap s) p = Some c \<longrightarrow> map_of (ipc_heap s) q = Some d \<longrightarrow>
     cs_conn c = cs_conn d \<longrightarrow> p = q)"

lemma table_ok_create:
  assumes "table_ok s" and "create_tc_client_session E ch svc b True s = (Some (p, k), t)"
  shows "table_ok t"
proof -
  have s: "p = ipc_next s" "ipc_next t = Suc p" "sess_map t = sm_put k p (sess_map s)"
      "\<exists>c. ipc_heap t = sm_put p c (ipc_heap s) \<and> cs_conn c = k"
    using assms(2) unfolding create_tc_client_session_def
    by (auto simp: Let_def split_beta split: if_splits)
  show ?thesis
    using assms(1) s by (fastforce simp: table_ok_def less_Suc_eq split: if_splits)
qed

text \<open>
  C13. Closing a session: when the transport closes the connection, the table of open sessions
  keeps naming live objects only, so the cancellation of all sessions at a stop is safe. When
  the transport reports an error, the code deletes the session object but leaves its entry in
  the table: the table then names a deleted object.
\<close>

theorem session_close_and_table:
  assumes "table_ok s" and "conns_unique s" and "map_of (ipc_heap s) p = Some c"
    and "map_of (sess_map s) (cs_conn c) = Some p"
    and "tc_session_close E (Some p) (cs_conn c) s = (r, t)"
  shows "(r = TCUTIL_RET_SUCCESS \<longrightarrow> table_ok t \<and> map_of (sess_map t) (cs_conn c) = None) \<and>
         (r \<noteq> TCUTIL_RET_SUCCESS \<longrightarrow>
            map_of (sess_map t) (cs_conn c) = Some p \<and> map_of (ipc_heap t) p = None)"
proof -
  have t: "ipc_heap t = sm_erase p (ipc_heap s)" "ipc_next t = ipc_next s"
    using assms(5) by (auto simp: tc_session_close_def sess_delete_def Let_def split_beta split: if_splits)
  have r: "if r = TCUTIL_RET_SUCCESS then sess_map t = sm_erase (cs_conn c) (sess_map s)
           else sess_map t = sess_map s"
    using assms(5) by (auto simp: tc_session_close_def sess_delete_def Let_def split_beta split: if_splits)
  have "table_ok t" if ok: "r = TCUTIL_RET_SUCCESS"
  proof -
    have other: "q \<noteq> p" if "map_of (sess_map s) k = Some q" "k \<noteq> cs_conn c" for k q
      using that assms(1,3) by (fastforce simp: table_ok_def)
    show ?thesis
      using assms(1) r t ok other by (fastforce simp: table_ok_def split: if_splits)
  qed
  with r t assms(4) show ?thesis
    by (auto split: if_splits)
qed

theorem session_close_and_table_witness:
  "\<exists>t. snd (tc_session_close (\<lambda>h c. \<lparr>rp_err = 5, rp_conn = 0, rp_resp = 0, rp_vals = [], rp_cols = []\<rparr>) (Some 0) 1
        (sample_results\<lparr>sess_map := [(1, 0)], ipc_next := 1\<rparr>)) = t \<and>
      map_of (sess_map t) 1 = Some 0 \<and> map_of (ipc_heap t) 0 = None"
proof -
  let ?E = "\<lambda>h c. \<lparr>rp_err = 5, rp_conn = 0, rp_resp = 0, rp_vals = [], rp_cols = []\<rparr> :: ipc_reply"
  let ?s = "sample_results\<lparr>sess_map := [(1, 0)], ipc_next := 1\<rparr>"
  let ?c = "\<lparr>cs_conn = 1, cs_channel = ''l'', cs_service = ''tclib'', cs_service_id = 1, cs_out = [],
     cs_resp = [IpcU8 7, IpcStr ''ctr'']\<rparr>"
  have "table_ok ?s" "conns_unique ?s" "map_of (ipc_heap ?s) 0 = Some ?c"
      "map_of (sess_map ?s) (cs_conn ?c) = Some 0"
    by (auto simp: table_ok_def conns_unique_def sample_results_def sm_ok_def split: if_splits)
  moreover have "tc_session_close ?E (Some 0) (cs_conn ?c) ?s =
      (TCUTIL_RET_FAILURE, snd (tc_session_close ?E (Some 0) 1 ?s))"
    by (simp add: tc_session_close_def ask_def Let_def)
  ultimately show ?thesis
    using session_close_and_table [of ?s 0 ?c ?E TCUTIL_RET_FAILURE] by simp
qed

end
