(* ===== verification/TcDb.thy ===== *)
theory TcDb
  imports TcMsg
begin

text \<open>
  The database handler (\<^verbatim>\<open>tc_db_handler.cc\<close>). The database is reached through calls
  that leave the process; the statements are the texts the code builds. The columns of a fetched
  row are the contents of the bound buffers after the call. The texts that only go to the log are
  left out.
\<close>

section \<open>Calls of the database interface\<close>

abbreviation (input) SQL_SUCCESS :: u32 where "SQL_SUCCESS \<equiv> 0"
abbreviation (input) SQL_SUCCESS_WITH_INFO :: u32 where "SQL_SUCCESS_WITH_INFO \<equiv> 1"
abbreviation (input) SQL_NO_DATA :: u32 where "SQL_NO_DATA \<equiv> 100"

definition sql :: "ipc_env \<Rightarrow> sql_call \<Rightarrow> ipc_state \<Rightarrow> ipc_reply \<times> ipc_state" where
  "sql E c s = ask E (Sql c) s"

definition sql_ok :: "ipc_reply \<Rightarrow> bool" where
  "sql_ok r \<longleftrightarrow> rp_err r = SQL_SUCCESS \<or> rp_err r = SQL_SUCCESS_WITH_INFO"

definition SAVE_CONF_TABLE :: string where "SAVE_CONF_TABLE = ''TC_UNC_CONF_TABLE''"
definition RECOVERY_TABLE :: string where "RECOVERY_TABLE = ''TC_RECOVERY_TABLE''"

subsection \<open>Texts of numbers\<close>

text \<open>\<^verbatim>\<open>snprintf(buf, n, "%d", x)\<close> and \<^verbatim>\<open>"%u"\<close>: at most \<open>n - 1\<close> characters are kept.\<close>

fun dec_nat :: "nat \<Rightarrow> string" where
  "dec_nat n = (if n < 10 then [char_of (48 + n)] else dec_nat (n div 10) @ [char_of (48 + n mod 10)])"

declare dec_nat.simps [simp del]

definition dec_int :: "int \<Rightarrow> string" where
  "dec_int i = (if i < 0 then CHR ''-'' # dec_nat (nat (- i)) else dec_nat (nat i))"

definition fmt_d :: "nat \<Rightarrow> u32 \<Rightarrow> string" where
  "fmt_d n x = take (n - 1) (dec_int (sint x))"

definition fmt_u64 :: "nat \<Rightarrow> u64 \<Rightarrow> string" where
  "fmt_u64 n x = take (n - 1) (dec_nat (unat x))"


section \<open>Connections\<close>

text \<open>
  The handles are recorded as non-null or null. A failed allocation leaves a null handle; the code
  does not reset a handle that it frees.
\<close>

record TcDbHandler =
  dsn_name :: string
  db_env :: bool
  db_conn_handle :: bool

definition SetConnectionEnv :: "ipc_env \<Rightarrow> TcDbHandler \<Rightarrow> ipc_state \<Rightarrow> TcOperRet \<times> TcDbHandler \<times> ipc_state" where
  "SetConnectionEnv E h s =
     (let (r1, s1) = sql E SqlAllocEnv s; h1 = h\<lparr>db_env := sql_ok r1\<rparr>
      in if \<not> sql_ok r1 then (TCOPER_RET_FAILURE, h1, s1)
         else let (r2, s2) = sql E SqlSetEnvAttr s1
         in if \<not> sql_ok r2 then (TCOPER_RET_FAILURE, h1, snd (sql E SqlFreeEnv s2))
         else let (r3, s3) = sql E SqlAllocDbc s2; h3 = h1\<lparr>db_conn_handle := sql_ok r3\<rparr>
         in if \<not> sql_ok r3 then (TCOPER_RET_FAILURE, h3, snd (sql E SqlFreeEnv s3))
         else (TCOPER_RET_SUCCESS, h3, s3))"

definition GetDBConnectString :: "TcDbHandler \<Rightarrow> string" where
  "GetDBConnectString h = ''DSN='' @ dsn_name h"

definition OpenDBConnection :: "ipc_env \<Rightarrow> TcDbHandler \<Rightarrow> ipc_state \<Rightarrow> TcOperRet \<times> TcDbHandler \<times> ipc_state" where
  "OpenDBConnection E h s =
     (case SetConnectionEnv E h s of
        (r, h1, s1) \<Rightarrow>
          if r = TCOPER_RET_FAILURE then (TCOPER_RET_FAILURE, h1, s1)
          else (let (r2, s2) = sql E (SqlDriverConnect (GetDBConnectString h1)) s1
                in if \<not> sql_ok r2
                   then (TCOPER_RET_FAILURE, h1, snd (sql E SqlFreeEnv (snd (sql E SqlFreeDbc s2))))
                   else (TCOPER_RET_SUCCESS, h1, s2)))"

text \<open>The constructor goes on whether or not the connection was opened.\<close>

definition TcDbHandler_new :: "ipc_env \<Rightarrow> string \<Rightarrow> ipc_state \<Rightarrow> TcDbHandler \<times> ipc_state" where
  "TcDbHandler_new E dsn s =
     snd (OpenDBConnection E \<lparr>dsn_name = dsn, db_env = False, db_conn_handle = False\<rparr> s)"

definition CloseDBConnection :: "ipc_env \<Rightarrow> TcDbHandler \<Rightarrow> ipc_state \<Rightarrow> TcOperRet \<times> ipc_state" where
  "CloseDBConnection E h s =
     (let free_env = (\<lambda>s'. if db_env h
            then (let (r, s3) = sql E SqlFreeEnv s'
                  in (if rp_err r \<noteq> SQL_SUCCESS then TCOPER_RET_FAILURE else TCOPER_RET_SUCCESS, s3))
            else (TCOPER_RET_SUCCESS, s'))
      in if db_conn_handle h
         then (let (r1, s1) = sql E SqlDisconnect s
               in if rp_err r1 \<noteq> SQL_SUCCESS then (TCOPER_RET_FAILURE, s1)
                  else let (r2, s2) = sql E SqlFreeDbc s1
                  in if rp_err r2 \<noteq> SQL_SUCCESS then (TCOPER_RET_FAILURE, s2) else free_env s2)
         else free_env s)"


section \<open>Statements\<close>

definition IsRowExists :: "ipc_env \<Rightarrow> string \<Rightarrow> string \<Rightarrow> ipc_state \<Rightarrow> TcOperRet \<times> ipc_state" where
  "IsRowExists E table attribute s =
     (let query = ''SELECT '' @ attribute @ '' FROM '' @ table; (r1, s1) = sql E SqlAllocStmt s
      in if \<not> sql_ok r1 then (TCOPER_RET_FATAL, s1)
         else let (r2, s2) = sql E (SqlExecDirect query) s1
         in if \<not> sql_ok r2 then (TCOPER_RET_FATAL, snd (sql E SqlFreeStmt s2))
         else let (r3, s3) = sql E SqlRowCount s2; s4 = snd (sql E SqlFreeStmt s3)
         in if \<not> sql_ok r3 then (TCOPER_RET_FATAL, s4)
            else if rp_resp r3 = 0 then (TCOPER_RET_FAILURE, s4) else (TCOPER_RET_SUCCESS, s4))"

text \<open>A statement without results: the part the update methods share.\<close>

definition sql_execute :: "ipc_env \<Rightarrow> string \<Rightarrow> ipc_state \<Rightarrow> TcOperRet \<times> ipc_state" where
  "sql_execute E query s =
     (let (r1, s1) = sql E SqlAllocStmt s
      in if \<not> sql_ok r1 then (TCOPER_RET_FAILURE, s1)
         else let (r2, s2) = sql E (SqlExecDirect query) s1; s3 = snd (sql E SqlFreeStmt s2)
         in (if sql_ok r2 then TCOPER_RET_SUCCESS else TCOPER_RET_FAILURE, s3))"

text \<open>
  A query with bound columns: the answer of the fetch, or \<open>None\<close> for a failure before it. When
  a column cannot be bound, the statement is not freed.
\<close>

fun bind_cols :: "ipc_env \<Rightarrow> nat list \<Rightarrow> ipc_state \<Rightarrow> bool \<times> ipc_state" where
  "bind_cols E [] s = (True, s)"
| "bind_cols E (i # is) s =
     (let (r, s1) = sql E (SqlBindCol i) s in if sql_ok r then bind_cols E is s1 else (False, s1))"

definition sql_select :: "ipc_env \<Rightarrow> string \<Rightarrow> nat \<Rightarrow> ipc_state \<Rightarrow> ipc_reply option \<times> ipc_state" where
  "sql_select E query n s =
     (let (r1, s1) = sql E SqlAllocStmt s
      in if \<not> sql_ok r1 then (None, s1)
         else let (b, s2) = bind_cols E [1..<Suc n] s1
         in if \<not> b then (None, s2)
         else let (r3, s3) = sql E (SqlExecDirect query) s2
         in if \<not> sql_ok r3 then (None, snd (sql E SqlFreeStmt s3))
         else let (r4, s4) = sql E SqlFetch s3 in (Some r4, snd (sql E SqlFreeStmt s4)))"

definition col :: "ipc_reply \<Rightarrow> nat \<Rightarrow> sql_value" where
  "col r i = (if i < length (rp_cols r) then rp_cols r ! i else SqlNull)"

fun col_u32 :: "u32 \<Rightarrow> sql_value \<Rightarrow> u32" where
  "col_u32 d SqlNull = d" | "col_u32 d (SqlInt i) = word_of_int i" | "col_u32 d (SqlText t) = 0"

fun col_u64 :: "sql_value \<Rightarrow> u64" where
  "col_u64 SqlNull = 0" | "col_u64 (SqlInt i) = word_of_int i" | "col_u64 (SqlText t) = 0"

fun col_text :: "sql_value \<Rightarrow> string" where
  "col_text SqlNull = ''''" | "col_text (SqlInt i) = dec_int i" | "col_text (SqlText t) = t"

definition col_bool :: "sql_value \<Rightarrow> bool" where
  "col_bool v \<longleftrightarrow>
     \<not> (v = SqlNull \<or> (\<exists>c \<in> {CHR ''0'', CHR ''f'', CHR ''F''}. take 1 (col_text v) = [c]))"

section \<open>The configuration table\<close>

abbreviation (input) quote :: string where "quote \<equiv> [CHR 0x27]"

definition SetDefaultConfTable :: "ipc_env \<Rightarrow> ipc_state \<Rightarrow> TcOperRet \<times> ipc_state" where
  "SetDefaultConfTable E s =
     (case IsRowExists E SAVE_CONF_TABLE ''auto_save'' s of
        (r, s1) \<Rightarrow>
          if r \<noteq> TCOPER_RET_FAILURE then (r, s1)
          else sql_execute E (''INSERT INTO '' @ SAVE_CONF_TABLE @ ''(auto_save,date_time)'' @
                 '' VALUES(false,CURRENT_TIMESTAMP);'') s1)"

definition conf_update :: "bool \<Rightarrow> string" where
  "conf_update auto_save =
     ''UPDATE '' @ SAVE_CONF_TABLE @ '' SET auto_save='' @ quote @
     (if auto_save then ''true'' else ''false'') @ quote @
     '',date_time=CURRENT_TIMESTAMP WHERE auto_save >= '' @ quote @ ''0'' @ quote @ '';''"

definition UpdateConfTable :: "ipc_env \<Rightarrow> bool \<Rightarrow> ipc_state \<Rightarrow> TcOperRet \<times> ipc_state" where
  "UpdateConfTable E auto_save s =
     (case IsRowExists E SAVE_CONF_TABLE ''auto_save'' s of
        (r, s1) \<Rightarrow> if r \<noteq> TCOPER_RET_SUCCESS then (r, s1) else sql_execute E (conf_update auto_save) s1)"

text \<open>The output argument is passed with the value it had: a failed fetch leaves it alone.\<close>

definition GetConfTable :: "ipc_env \<Rightarrow> bool \<Rightarrow> ipc_state \<Rightarrow> TcOperRet \<times> bool \<times> ipc_state" where
  "GetConfTable E old s =
     (case IsRowExists E SAVE_CONF_TABLE ''auto_save'' s of
        (r, s1) \<Rightarrow>
          if r \<noteq> TCOPER_RET_SUCCESS then (r, old, s1)
          else (case sql_select E ''SELECT auto_save FROM TC_UNC_CONF_TABLE'' 1 s1 of
                  (None, s2) \<Rightarrow> (TCOPER_RET_FAILURE, old, s2)
                | (Some f, s2) \<Rightarrow>
                    (TCOPER_RET_SUCCESS,
                     if rp_err f = SQL_SUCCESS then col_bool (col f 0) else old, s2)))"


section \<open>The recovery table\<close>

definition recovery_default :: string where
  "recovery_default =
     ''INSERT INTO '' @ RECOVERY_TABLE @
     ''(database, operation,  config_mode, vtn_name,  abort_version, save_version,  '' @
     ''global_mode_dirty,  failover_instance,date_time)'' @ '' VALUES('' @
     fmt_d 25 (datatype_num UNC_DT_INVALID) @ '','' @ fmt_d 25 (service_num TC_OP_INVALID) @ '','' @
     fmt_d 25 (config_mode_num TC_CONFIG_INVALID) @ '','' @ quote @ quote @ '','' @
     fmt_u64 25 0 @ '','' @ fmt_u64 25 0 @ '','' @ ''false'' @ '','' @ fmt_d 25 0 @
     '',CURRENT_TIMESTAMP);''"

text \<open>A failed insertion is reported as a success.\<close>

definition SetDefaultRecoveryTable :: "ipc_env \<Rightarrow> ipc_state \<Rightarrow> TcOperRet \<times> ipc_state" where
  "SetDefaultRecoveryTable E s =
     (case IsRowExists E RECOVERY_TABLE ''database'' s of
        (r, s1) \<Rightarrow>
          if r \<noteq> TCOPER_RET_FAILURE then (r, s1)
          else (let (r1, s2) = sql E SqlAllocStmt s1
                in if \<not> sql_ok r1 then (TCOPER_RET_FAILURE, s2)
                   else (TCOPER_RET_SUCCESS,
                         snd (sql E SqlFreeStmt (snd (sql E (SqlExecDirect recovery_default) s2))))))"

definition recovery_update ::
  "unc_keytype_datatype_t \<Rightarrow> TcServiceType \<Rightarrow> TcConfigMode \<Rightarrow> string \<Rightarrow> u32 \<Rightarrow> string" where
  "recovery_update db oper mode vtn failover =
     ''UPDATE TC_RECOVERY_TABLE SET database='' @ fmt_d 4 (datatype_num db) @
     '',operation='' @ fmt_d 4 (service_num oper) @
     '',config_mode='' @ fmt_d 4 (config_mode_num mode) @
     '',vtn_name='' @ quote @ vtn @ quote @
     '',failover_instance='' @ fmt_d 4 failover @
     '',date_time=CURRENT_TIMESTAMP WHERE database >= 0;''"

text \<open>\<open>None\<close>: the check of the attributes aborts the process.\<close>

definition UpdateRecoveryTable ::
  "ipc_env \<Rightarrow> unc_keytype_datatype_t \<Rightarrow> TcServiceType \<Rightarrow> TcConfigMode \<Rightarrow> string \<Rightarrow> u32 \<Rightarrow> ipc_state
     \<Rightarrow> (TcOperRet \<times> ipc_state) option" where
  "UpdateRecoveryTable E db oper mode vtn failover s =
     (case IsRowExists E RECOVERY_TABLE ''database'' s of
        (r, s1) \<Rightarrow>
          if r \<noteq> TCOPER_RET_SUCCESS then Some (r, s1)
          else (case ValidateAuditDBAttributes db oper of
                  None \<Rightarrow> None
                | Some v \<Rightarrow>
                    if v \<noteq> TCOPER_RET_SUCCESS then Some (TCOPER_RET_FAILURE, s1)
                    else Some (sql_execute E (recovery_update db oper mode vtn failover) s1)))"

definition recovery_set :: "string \<Rightarrow> string" where
  "recovery_set assignment =
     ''UPDATE TC_RECOVERY_TABLE SET '' @ assignment @
     '',date_time=CURRENT_TIMESTAMP WHERE database >= 0;''"

definition update_recovery_field :: "ipc_env \<Rightarrow> string \<Rightarrow> ipc_state \<Rightarrow> TcOperRet \<times> ipc_state" where
  "update_recovery_field E assignment s =
     (case IsRowExists E RECOVERY_TABLE ''database'' s of
        (r, s1) \<Rightarrow>
          if r \<noteq> TCOPER_RET_SUCCESS then (r, s1) else sql_execute E (recovery_set assignment) s1)"

definition UpdateRecoveryTableAbortVersion :: "ipc_env \<Rightarrow> u64 \<Rightarrow> ipc_state \<Rightarrow> TcOperRet \<times> ipc_state" where
  "UpdateRecoveryTableAbortVersion E v = update_recovery_field E (''abort_version='' @ fmt_u64 25 v)"

definition UpdateRecoveryTableSaveVersion :: "ipc_env \<Rightarrow> u64 \<Rightarrow> ipc_state \<Rightarrow> TcOperRet \<times> ipc_state" where
  "UpdateRecoveryTableSaveVersion E v = update_recovery_field E (''save_version='' @ fmt_u64 25 v)"

definition UpdateRecoveryTableGlobalModeDirty :: "ipc_env \<Rightarrow> bool \<Rightarrow> ipc_state \<Rightarrow> TcOperRet \<times> ipc_state" where
  "UpdateRecoveryTableGlobalModeDirty E b =
     update_recovery_field E
       (''global_mode_dirty='' @ quote @ (if b then ''true'' else ''false'') @ quote)"

record recovery_row =
  rc_db :: unc_keytype_datatype_t
  rc_oper :: TcServiceType
  rc_mode :: TcConfigMode
  rc_vtn :: string
  rc_failover :: u32

text \<open>
  The reads. Any answer of the fetch other than \<^verbatim>\<open>SQL_NO_DATA\<close>, an error included, is taken
  as a row; the buffer of the tenant name holds 32 characters.
\<close>

definition read_recovery :: "ipc_env \<Rightarrow> string \<Rightarrow> nat \<Rightarrow> ipc_state \<Rightarrow> (TcOperRet + ipc_reply) \<times> ipc_state" where
  "read_recovery E columns n s =
     (case IsRowExists E RECOVERY_TABLE ''database'' s of
        (r, s1) \<Rightarrow>
          if r \<noteq> TCOPER_RET_SUCCESS then (Inl r, s1)
          else (case sql_select E (''SELECT '' @ columns @ '' FROM TC_RECOVERY_TABLE'') n s1 of
                  (None, s2) \<Rightarrow> (Inl TCOPER_RET_FAILURE, s2)
                | (Some f, s2) \<Rightarrow> (Inr f, s2)))"

definition GetRecoveryTable ::
  "ipc_env \<Rightarrow> recovery_row \<Rightarrow> ipc_state \<Rightarrow> TcOperRet \<times> recovery_row \<times> ipc_state" where
  "GetRecoveryTable E old s =
     (case read_recovery E ''database,operation,failover_instance,config_mode, vtn_name'' 5 s of
        (Inl r, s1) \<Rightarrow> (r, old, s1)
      | (Inr f, s1) \<Rightarrow>
          (TCOPER_RET_SUCCESS,
           if rp_err f = SQL_NO_DATA then old
           else \<lparr>rc_db = to_datatype (col_u32 0 (col f 0)),
                 rc_oper = to_service (col_u32 (service_num TC_OP_INVALID) (col f 1)),
                 rc_mode = to_config_mode (col_u32 0 (col f 3)),
                 rc_vtn = take 32 (col_text (col f 4)),
                 rc_failover = col_u32 1 (col f 2)\<rparr>, s1))"

definition GetRecoveryTableAbortVersion :: "ipc_env \<Rightarrow> u64 \<Rightarrow> ipc_state \<Rightarrow> TcOperRet \<times> u64 \<times> ipc_state" where
  "GetRecoveryTableAbortVersion E old s =
     (case read_recovery E ''abort_version'' 1 s of
        (Inl r, s1) \<Rightarrow> (r, old, s1)
      | (Inr f, s1) \<Rightarrow>
          (TCOPER_RET_SUCCESS, if rp_err f = SQL_NO_DATA then old else col_u64 (col f 0), s1))"

definition GetRecoveryTableSaveVersion :: "ipc_env \<Rightarrow> u64 \<Rightarrow> ipc_state \<Rightarrow> TcOperRet \<times> u64 \<times> ipc_state" where
  "GetRecoveryTableSaveVersion E old s =
     (case read_recovery E ''save_version'' 1 s of
        (Inl r, s1) \<Rightarrow> (r, old, s1)
      | (Inr f, s1) \<Rightarrow>
          (TCOPER_RET_SUCCESS, if rp_err f = SQL_NO_DATA then old else col_u64 (col f 0), s1))"

definition GetRecoveryTableGlobalModeDirty ::
  "ipc_env \<Rightarrow> bool \<Rightarrow> ipc_state \<Rightarrow> TcOperRet \<times> bool \<times> ipc_state" where
  "GetRecoveryTableGlobalModeDirty E old s =
     (case read_recovery E ''global_mode_dirty'' 1 s of
        (Inl r, s1) \<Rightarrow> (r, old, s1)
      | (Inr f, s1) \<Rightarrow>
          (TCOPER_RET_SUCCESS, if rp_err f = SQL_SUCCESS then col_bool (col f 0) else old, s1))"

definition InitTcDbTables :: "ipc_env \<Rightarrow> ipc_state \<Rightarrow> TcOperRet \<times> ipc_state" where
  "InitTcDbTables E s =
     (case SetDefaultConfTable E s of
        (r, s1) \<Rightarrow>
          if r \<noteq> TCOPER_RET_SUCCESS then (TCOPER_RET_FAILURE, s1)
          else (case SetDefaultRecoveryTable E s1 of
                  (r2, s2) \<Rightarrow>
                    (if r2 = TCOPER_RET_SUCCESS then TCOPER_RET_SUCCESS else TCOPER_RET_FAILURE, s2)))"

definition InitDB :: "ipc_env \<Rightarrow> ipc_state \<Rightarrow> TcOperRet \<times> ipc_state" where
  "InitDB = InitTcDbTables"

end
