(* ===== verification/TcDbProps.thy ===== *)
theory TcDbProps
  imports TcDb
begin

text \<open>
  Properties of the database handler: the numbers in the statements, the balance of statement
  handles, and the handles of a connection.
\<close>

section \<open>Numbers in statements\<close>

definition dec_value :: "string \<Rightarrow> nat" where
  "dec_value t = foldl (\<lambda>a c. 10 * a + (of_char c - 48)) 0 t"

lemma dec_value_snoc: "dec_value (t @ [c]) = 10 * dec_value t + (of_char c - 48)"
  by (simp add: dec_value_def)

lemma digit_value: "d < 10 \<Longrightarrow> (of_char (char_of (48 + d :: nat)) :: nat) - 48 = d"
  by simp

lemma dec_value_dec_nat: "dec_value (dec_nat n) = n"
proof (induction n rule: dec_nat.induct)
  case (1 n)
  show ?case
  proof (cases "n < 10")
    case True
    then show ?thesis
      using digit_value [of n] by (simp add: dec_nat.simps [of n] dec_value_def)
  next
    case False
    then have "dec_value (dec_nat n) = 10 * (n div 10) + n mod 10"
      using 1 digit_value [of "n mod 10"] by (simp add: dec_nat.simps [of n] dec_value_snoc)
    then show ?thesis by simp
  qed
qed

lemma length_dec_nat: "0 < k \<Longrightarrow> length (dec_nat n) \<le> k \<longleftrightarrow> n < 10 ^ k"
proof (induction n arbitrary: k rule: dec_nat.induct)
  case (1 n)
  show ?case
  proof (cases "n < 10")
    case True
    then have "(10 :: nat) ^ 1 \<le> 10 ^ k"
      using 1(2) by (intro power_increasing) auto
    with True 1(2) show ?thesis
      by (simp add: dec_nat.simps [of n])
  next
    case False
    then have n: "length (dec_nat n) = Suc (length (dec_nat (n div 10)))"
      by (simp add: dec_nat.simps [of n])
    show ?thesis
    proof (cases "k = 1")
      case True
      have "dec_nat (n div 10) \<noteq> []"
        by (subst dec_nat.simps) simp
      with True False n show ?thesis by (simp add: Suc_le_eq)
    next
      case k: False
      then obtain j where "k = Suc j" "0 < j"
        using 1(2) by (cases k) auto
      with 1(1) [OF False, of j] n show ?thesis
        by (simp add: less_mult_imp_div_less div_less_iff_less_mult mult.commute)
    qed
  qed
qed

lemma fmt_u64_exact: "dec_value (fmt_u64 25 v) = unat v"
proof -
  have "unat v < 2 ^ LENGTH(64)"
    by (rule unsigned_less)
  also have "\<dots> < 10 ^ 24"
    by simp
  finally have "length (dec_nat (unat v)) \<le> 24"
    by (simp add: length_dec_nat)
  then show ?thesis
    by (simp add: fmt_u64_def dec_value_dec_nat)
qed

lemma sint_small:
  assumes "unat (x :: u32) < 2147483648"
  shows "sint x = int (unat x)"
proof -
  have u: "uint x = int (unat x)"
    by simp
  have "int (unat x) < int 2147483648"
    using assms by (simp only: of_nat_less_iff)
  then have "- (2 ^ 31) \<le> uint x" "uint x < 2 ^ 31"
    by simp_all (rule order_trans [OF _ uint_ge_0], simp)
  then have "signed_take_bit 31 (uint x) = uint x"
    by (rule signed_take_bit_int_eq_self)
  with u show ?thesis
    by (simp only: sint_uint) simp
qed

lemma fmt_d_nat: "unat x < 2147483648 \<Longrightarrow> fmt_d k x = take (k - 1) (dec_nat (unat x))"
  by (simp add: fmt_d_def dec_int_def sint_small)

lemma fmt_d_short:
  assumes "unat (n :: u32) < 1000"
  shows "fmt_d 4 n = dec_nat (unat n)"
  using assms length_dec_nat [of 3 "unat n"] by (simp add: fmt_d_nat)

lemma fmt_d_cut:
  assumes "1000 \<le> unat (n :: u32)" and "unat n < 10000"
  shows "fmt_d 4 n = dec_nat (unat n div 10)"
proof -
  have d: "dec_nat (unat n) = dec_nat (unat n div 10) @ [char_of (48 + unat n mod 10)]"
    using assms(1) by (subst dec_nat.simps) simp
  have "length (dec_nat (unat n)) \<le> 4" "\<not> length (dec_nat (unat n)) \<le> 3"
    using assms length_dec_nat [of 4 "unat n"] length_dec_nat [of 3 "unat n"] by simp_all
  with d have "length (dec_nat (unat n div 10)) = 3"
    by simp
  with d assms(2) show ?thesis
    by (simp add: fmt_d_nat)
qed

text \<open>
  The numbers in the statements: a version number is always written in full, whatever its
  64 bits are. The failover count is printed into a buffer of four bytes: below 1000 the text of
  the recovery update determines the count, but a count from 1000 to 9999 produces the text of a
  tenth of it.
\<close>

theorem recovery_numbers:
  "dec_value (fmt_u64 25 v) = unat v \<and>
   (unat n < 1000 \<and> unat k < 1000 \<longrightarrow>
      (recovery_update db oper mode vtn n = recovery_update db oper mode vtn k \<longleftrightarrow> n = k)) \<and>
   (1000 \<le> unat n \<and> unat n < 10000 \<longrightarrow>
      recovery_update db oper mode vtn n = recovery_update db oper mode vtn (word_of_nat (unat n div 10)))"
proof (intro conjI impI)
  assume s: "unat n < 1000 \<and> unat k < 1000"
  have "dec_nat (unat n) = dec_nat (unat k) \<longleftrightarrow> n = k"
    using dec_value_dec_nat by (metis unsigned_word_eqI)
  with s show "recovery_update db oper mode vtn n = recovery_update db oper mode vtn k \<longleftrightarrow> n = k"
    by (simp add: recovery_update_def fmt_d_short)
next
  assume s: "1000 \<le> unat n \<and> unat n < 10000"
  then have "unat n div 10 < 4294967296"
    by linarith
  then have "unat (word_of_nat (unat n div 10) :: u32) = unat n div 10"
    by (simp add: unat_of_nat)
  moreover have "unat n div 10 < 1000"
    using s by linarith
  ultimately show "recovery_update db oper mode vtn n =
      recovery_update db oper mode vtn (word_of_nat (unat n div 10))"
    using s by (simp add: recovery_update_def fmt_d_short fmt_d_cut)
qed (rule fmt_u64_exact)

theorem recovery_numbers_witness:
  "recovery_update UNC_DT_INVALID TC_OP_INVALID TC_CONFIG_INVALID [] 1000 =
     recovery_update UNC_DT_INVALID TC_OP_INVALID TC_CONFIG_INVALID [] 100 \<and>
   recovery_update UNC_DT_INVALID TC_OP_INVALID TC_CONFIG_INVALID [] 999 \<noteq>
     recovery_update UNC_DT_INVALID TC_OP_INVALID TC_CONFIG_INVALID [] 99"
  using recovery_numbers [of 0 1000 0 UNC_DT_INVALID TC_OP_INVALID TC_CONFIG_INVALID "[]"]
    recovery_numbers [of 0 999 99 UNC_DT_INVALID TC_OP_INVALID TC_CONFIG_INVALID "[]"]
  by simp

section \<open>Statement handles\<close>

text \<open>Statements allocated, statements freed and columns that could not be bound, in a history.\<close>

definition allocated :: "ipc_history \<Rightarrow> nat" where
  "allocated h = length (filter (\<lambda>(c, r). c = Sql SqlAllocStmt \<and> sql_ok r) h)"

definition freed :: "ipc_history \<Rightarrow> nat" where
  "freed h = length (filter (\<lambda>(c, r). c = Sql SqlFreeStmt) h)"

definition unbound :: "ipc_history \<Rightarrow> nat" where
  "unbound h = length (filter (\<lambda>(c, r). (\<exists>i. c = Sql (SqlBindCol i)) \<and> \<not> sql_ok r) h)"

text \<open>The handles a history leaves open, once those lost by a failed binding are taken out.\<close>

definition handles :: "ipc_state \<Rightarrow> int" where
  "handles s = int (allocated (ipc_log s)) - int (freed (ipc_log s)) - int (unbound (ipc_log s))"

lemma handles_sql:
  "handles (snd (sql E c s)) = handles s +
     (if c = SqlAllocStmt \<and> sql_ok (fst (sql E c s)) then 1
      else if c = SqlFreeStmt then - 1
      else if (\<exists>i. c = SqlBindCol i) \<and> \<not> sql_ok (fst (sql E c s)) then - 1 else 0)"
  by (auto simp: handles_def allocated_def freed_def unbound_def sql_def ask_def Let_def)

lemmas handles_step = handles_sql [simplified]

lemma handles_IsRowExists: "handles (snd (IsRowExists E t a s)) = handles s"
  by (simp add: IsRowExists_def Let_def split_beta handles_sql)

lemma handles_execute: "handles (snd (sql_execute E q s)) = handles s"
  by (simp add: sql_execute_def Let_def split_beta handles_sql)

lemma handles_bind:
  "handles (snd (bind_cols E is s)) = handles s - (if fst (bind_cols E is s) then 0 else 1)"
  by (induction "is" arbitrary: s) (simp_all add: Let_def split_beta handles_sql)

lemma handles_select: "handles (snd (sql_select E q n s)) = handles s"
  by (simp add: sql_select_def Let_def split_beta handles_sql handles_bind)

lemma IsRowExists_handles: "IsRowExists E t a s = (r, s1) \<Longrightarrow> handles s1 = handles s"
  by (metis handles_IsRowExists snd_conv)

lemma sql_select_handles: "sql_select E q n s = (f, s1) \<Longrightarrow> handles s1 = handles s"
  by (metis handles_select snd_conv)

lemmas handle_facts = handles_execute IsRowExists_handles sql_select_handles

lemma handles_read: "handles (snd (read_recovery E q n s)) = handles s"
  by (auto simp: read_recovery_def handle_facts split: prod.split option.split)

lemma read_recovery_handles: "read_recovery E q n s = (f, s1) \<Longrightarrow> handles s1 = handles s"
  by (metis handles_read snd_conv)

lemma handles_update_field: "handles (snd (update_recovery_field E a s)) = handles s"
  by (auto simp: update_recovery_field_def handle_facts split: prod.split)

lemma handles_UpdateRecoveryTable:
  assumes "UpdateRecoveryTable E db oper mode vtn n s = Some (r, t)"
  shows "handles t = handles s"
proof -
  obtain r1 s1 where q: "IsRowExists E RECOVERY_TABLE ''database'' s = (r1, s1)"
    by fastforce
  then have "t = s1 \<or> t = snd (sql_execute E (recovery_update db oper mode vtn n) s1)"
    using assms by (simp add: UpdateRecoveryTable_def split: if_splits option.splits)
  with q show ?thesis
    by (auto simp: handle_facts)
qed

text \<open>
  C14. Statement handles are not lost: each method that updates or reads the tables frees every
  statement it allocated, on every path, whatever the database answers, except for one statement
  per column that could not be bound.
\<close>

theorem statements_balanced:
  "handles (snd (UpdateConfTable E b s)) = handles s \<and>
   handles (snd (snd (GetConfTable E b s))) = handles s \<and>
   (\<forall>r t. UpdateRecoveryTable E db oper mode vtn n s = Some (r, t) \<longrightarrow> handles t = handles s) \<and>
   handles (snd (UpdateRecoveryTableAbortVersion E v s)) = handles s \<and>
   handles (snd (UpdateRecoveryTableSaveVersion E v s)) = handles s \<and>
   handles (snd (UpdateRecoveryTableGlobalModeDirty E b s)) = handles s \<and>
   handles (snd (snd (GetRecoveryTable E row s))) = handles s \<and>
   handles (snd (snd (GetRecoveryTableAbortVersion E v s))) = handles s \<and>
   handles (snd (snd (GetRecoveryTableSaveVersion E v s))) = handles s \<and>
   handles (snd (snd (GetRecoveryTableGlobalModeDirty E b s))) = handles s"
proof (intro conjI allI impI)
  show "handles (snd (UpdateConfTable E b s)) = handles s"
    by (auto simp: UpdateConfTable_def handle_facts split: prod.split)
  show "handles (snd (snd (GetConfTable E b s))) = handles s"
    by (auto simp: GetConfTable_def handle_facts split: prod.split option.split)
  show "handles t = handles s" if "UpdateRecoveryTable E db oper mode vtn n s = Some (r, t)" for r t
    using that by (rule handles_UpdateRecoveryTable)
qed (auto simp: UpdateRecoveryTableAbortVersion_def UpdateRecoveryTableSaveVersion_def
    UpdateRecoveryTableGlobalModeDirty_def handles_update_field GetRecoveryTable_def
    GetRecoveryTableAbortVersion_def GetRecoveryTableSaveVersion_def
    GetRecoveryTableGlobalModeDirty_def read_recovery_handles split: prod.split sum.split)

section \<open>Handles of a connection\<close>

definition calls_of :: "ipc_state \<Rightarrow> ipc_call list" where
  "calls_of s = map fst (ipc_log s)"

lemma calls_sql: "calls_of (snd (sql E c s)) = calls_of s @ [Sql c]"
  by (simp add: calls_of_def sql_def ask_def Let_def)


text \<open>A sample database: every table has a row, and the connect is refused or not.\<close>

definition sample_db :: "bool \<Rightarrow> ipc_env" where
  "sample_db refuse h c =
     \<lparr>rp_err = (case c of Sql (SqlDriverConnect _) \<Rightarrow> if refuse then 99 else 0 | _ \<Rightarrow> 0),
      rp_conn = 1, rp_resp = 1, rp_vals = [], rp_cols = []\<rparr>"

lemma sample_db_sql:
  "sql_ok (fst (sql (sample_db b) c s)) \<longleftrightarrow> \<not> (b \<and> (\<exists>d. c = SqlDriverConnect d))"
  "rp_resp (fst (sql (sample_db b) c s)) = 1"
  "rp_err (fst (sql (sample_db b) c s)) = (if b \<and> (\<exists>d. c = SqlDriverConnect d) then 99 else 0)"
  by (auto simp: sql_def ask_def sample_db_def sql_ok_def Let_def split: sql_call.split)

lemma sample_db_update:
  "\<exists>t. UpdateRecoveryTable (sample_db False) UNC_DT_STARTUP TC_OP_RUNNING_SAVE mode vtn n s =
       Some (TCOPER_RET_SUCCESS, t)"
  by (simp add: UpdateRecoveryTable_def IsRowExists_def ValidateAuditDBAttributes_def
      sql_execute_def Let_def split_beta sample_db_sql)

theorem statements_balanced_witness:
  "\<exists>t. UpdateRecoveryTable (sample_db False) UNC_DT_STARTUP TC_OP_RUNNING_SAVE TC_CONFIG_INVALID [] 0
        ipc_init = Some (TCOPER_RET_SUCCESS, t) \<and> handles t = handles ipc_init"
  using sample_db_update [of TC_CONFIG_INVALID "[]" 0 ipc_init] statements_balanced by blast


end
