(* ===== verification/TcMsgAudit.thy ===== *)
theory TcMsgAudit
  imports TcMsgCommit
begin

text \<open>
  The messages of an audit (\<^verbatim>\<open>tcmsg_audit.cc\<close>): start and end of the audit and of its
  transaction, the vote and the global commit, and the question for the type of a controller.
  They also change process-wide data of \<^verbatim>\<open>TcOperations\<close> and \<^verbatim>\<open>TcMsg\<close>, which is
  kept beside the state of the transport. Another thread may ask for a cancellation at any
  time: what \<^verbatim>\<open>GetAuditCancelFlag\<close> answers is a function of the history of calls.
\<close>

section \<open>State\<close>

datatype TcAuditPhase =
    AUDIT_NOT_STARTED | AUDIT_START | AUDIT_TRANSACTION_START | AUDIT_VOTE_REQUEST
  | AUDIT_GLOBAL_COMMIT | AUDIT_TRANSACTION_END | AUDIT_END

fun audit_phase_num :: "TcAuditPhase \<Rightarrow> nat" where
  "audit_phase_num AUDIT_NOT_STARTED = 0" | "audit_phase_num AUDIT_START = 1"
| "audit_phase_num AUDIT_TRANSACTION_START = 2" | "audit_phase_num AUDIT_VOTE_REQUEST = 3"
| "audit_phase_num AUDIT_GLOBAL_COMMIT = 4" | "audit_phase_num AUDIT_TRANSACTION_END = 5"
| "audit_phase_num AUDIT_END = 6"

datatype TcAuditType =
    TC_AUDIT_INVALID | TC_AUDIT_NORMAL | TC_AUDIT_SIMPLIFIED | TC_AUDIT_REALNETWORK
  | TC_AUDIT_OTHER u8

fun audit_type_num :: "TcAuditType \<Rightarrow> u8" where
  "audit_type_num TC_AUDIT_INVALID = 0" | "audit_type_num TC_AUDIT_NORMAL = 1"
| "audit_type_num TC_AUDIT_SIMPLIFIED = 2" | "audit_type_num TC_AUDIT_REALNETWORK = 3"
| "audit_type_num (TC_AUDIT_OTHER n) = n"

definition to_audit_type :: "u8 \<Rightarrow> TcAuditType" where
  "to_audit_type n =
     (if n = 0 then TC_AUDIT_INVALID else if n = 1 then TC_AUDIT_NORMAL
      else if n = 2 then TC_AUDIT_SIMPLIFIED else if n = 3 then TC_AUDIT_REALNETWORK
      else TC_AUDIT_OTHER n)"

record msg_state =
  ms_ipc :: ipc_state
  ms_phase :: TcAuditPhase
  ms_cancel_notify :: "TcDaemonName list"
  ms_controller :: string

type_synonym cancel_flag = "ipc_history \<Rightarrow> bool"

definition on_ipc :: "(ipc_state \<Rightarrow> 'r \<times> ipc_state) \<Rightarrow> msg_state \<Rightarrow> 'r \<times> msg_state" where
  "on_ipc f x = (let (r, i) = f (ms_ipc x) in (r, x\<lparr>ms_ipc := i\<rparr>))"

definition set_phase :: "TcAuditPhase \<Rightarrow> msg_state \<Rightarrow> msg_state" where
  "set_phase p x = x\<lparr>ms_phase := p\<rparr>"


section \<open>The common part\<close>

record TcMsgAudit = TcMsg +
  controller_id :: string
  driver_id :: unc_keytype_ctrtype_t
  audit_type :: TcAuditType

definition TcMsgAudit_new :: "u32 \<Rightarrow> TcMsgOperType \<Rightarrow> TcChannelNameMap \<Rightarrow> TcMsgAudit" where
  "TcMsgAudit_new sess_id oper daemon_names =
     TcMsg.TcMsg.extend (TcMsg_new sess_id oper daemon_names)
       (TcMsgAudit.TcMsgAudit.fields '''' UNC_CT_UNKNOWN TC_AUDIT_NORMAL)"

definition TcMsgAudit_SetData ::
  "string \<Rightarrow> unc_keytype_ctrtype_t \<Rightarrow> 'a TcMsgAudit_scheme \<Rightarrow> 'a TcMsgAudit_scheme" where
  "TcMsgAudit_SetData ctr drv m = m\<lparr>controller_id := ctr, driver_id := drv\<rparr>"

definition SetAuditType :: "TcAuditType \<Rightarrow> 'a TcMsgAudit_scheme \<Rightarrow> 'a TcMsgAudit_scheme" where
  "SetAuditType t m = m\<lparr>audit_type := t\<rparr>"

definition driver_valid :: "'a TcMsgAudit_scheme \<Rightarrow> bool" where
  "driver_valid m \<longleftrightarrow> UNC_CT_PFC \<le> driver_id m \<and> driver_id m \<le> UNC_CT_ODC"

definition cancelled :: "cancel_flag \<Rightarrow> 'a TcMsgAudit_scheme \<Rightarrow> msg_state \<Rightarrow> bool" where
  "cancelled flag m x \<longleftrightarrow> flag (ipc_log (ms_ipc x)) \<and> audit_type m \<noteq> TC_AUDIT_REALNETWORK"

definition id_items :: "'a TcMsgAudit_scheme \<Rightarrow> item list" where
  "id_items m =
     [Put (IpcU32 (session_id m)), Require (driver_valid m), Put (IpcU8 (ucast (driver_id m))),
      Require (controller_id m \<noteq> ''''), Put (IpcStr (controller_id m))]"

text \<open>The phase of the abort is \<^verbatim>\<open>AUDIT_VOTE_REQUEST\<close> of the protocol, number two.\<close>

definition audit_abort_items :: "'a TcMsgAudit_scheme \<Rightarrow> item list" where
  "audit_abort_items m = Put (IpcU8 (msg_num MSG_AUDIT_ABORT)) # id_items m @ [Put (IpcU8 2)]"

fun audit_abort_loop ::
  "ipc_env \<Rightarrow> 'a TcMsgAudit_scheme \<Rightarrow> TcDaemonName list \<Rightarrow> u32 \<Rightarrow> ipc_state \<Rightarrow> TcOperRet \<times> ipc_state" where
  "audit_abort_loop E m [] resp s = (RespondToTc resp, s)"
| "audit_abort_loop E m (d # ds) resp s =
     (case request E (GetChannelName m d) TCLIB_AUDIT_GLOBAL_ABORT True (audit_abort_items m) s of
        (NoSession, s1) \<Rightarrow> (TCOPER_RET_FATAL, s1)
      | (Refused p c, s1) \<Rightarrow> (TCOPER_RET_FAILURE, s1)
      | (Failed p c r, s1) \<Rightarrow> (r, snd (tc_session_close E (Some p) c s1))
      | (Answered p c resp', s1) \<Rightarrow>
          (let (_, s2) = tc_session_close E (Some p) c s1
           in if resp' = TC_FAILURE then (RespondToTc resp', s2) else audit_abort_loop E m ds resp' s2))"

definition Audit_SendAbortRequest ::
  "ipc_env \<Rightarrow> 'a TcMsgAudit_scheme \<Rightarrow> TcDaemonName list \<Rightarrow> msg_state \<Rightarrow> TcOperRet \<times> msg_state" where
  "Audit_SendAbortRequest E m ds x =
     (if opertype m = MSG_AUDIT_VOTE then on_ipc (audit_abort_loop E m ds 0) x
      else (TCOPER_RET_FAILURE, x))"

definition audit_end_items :: "TcMsgOperType \<Rightarrow> 'a TcMsgAudit_scheme \<Rightarrow> item list" where
  "audit_end_items oper m =
     Put (IpcU8 (msg_num oper)) # id_items m @
     (if oper = MSG_AUDIT_TRANS_END then [Put (IpcU8 (trans_end_num (trans_result m)))] else []) @
     (if oper = MSG_AUDIT_END then [Put (IpcU8 (audit_result_num (audit_result m)))] else [])"

fun audit_end_loop ::
  "ipc_env \<Rightarrow> TcMsgOperType \<Rightarrow> 'a TcMsgAudit_scheme \<Rightarrow> TcDaemonName list \<Rightarrow> u32 \<Rightarrow> ipc_state
     \<Rightarrow> TcOperRet \<times> ipc_state" where
  "audit_end_loop E oper m [] resp s = (RespondToTc resp, s)"
| "audit_end_loop E oper m (d # ds) resp s =
     (if GetChannelName m d = '''' then (TCOPER_RET_FAILURE, s)
      else case request E (GetChannelName m d) TCLIB_AUDIT_TRANSACTION True (audit_end_items oper m) s of
        (NoSession, s1) \<Rightarrow> (TCOPER_RET_FATAL, s1)
      | (Refused p c, s1) \<Rightarrow> (TCOPER_RET_FAILURE, s1)
      | (Failed p c r, s1) \<Rightarrow> (r, snd (tc_session_close E (Some p) c s1))
      | (Answered p c resp', s1) \<Rightarrow>
          (let (_, s2) = tc_session_close E (Some p) c s1
           in if resp' = TC_FAILURE then (RespondToTc resp', s2) else audit_end_loop E oper m ds resp' s2))"

definition SendAuditTransEndRequest ::
  "ipc_env \<Rightarrow> TcMsgOperType \<Rightarrow> 'a TcMsgAudit_scheme \<Rightarrow> TcDaemonName list \<Rightarrow> msg_state \<Rightarrow> TcOperRet \<times> msg_state" where
  "SendAuditTransEndRequest E oper m ds x =
     (if oper = MSG_AUDIT_TRANS_END
      then on_ipc (audit_end_loop E oper m (rev ds) 0) (set_phase AUDIT_TRANSACTION_END x)
      else if oper = MSG_AUDIT_END
      then on_ipc (audit_end_loop E oper m (rev ds) 0) (set_phase AUDIT_END x)
      else (TCOPER_RET_FAILURE, x))"


section \<open>The type of a controller\<close>

text \<open>The answer is the response code; the session stays open for forwarding.\<close>

definition GetDriverId_Execute ::
  "ipc_env \<Rightarrow> TcMsgAudit \<Rightarrow> msg_state \<Rightarrow> TcOperRet \<times> TcMsgAudit \<times> msg_state" where
  "GetDriverId_Execute E m x =
     (case on_ipc (request E (GetChannelName m TC_UPPL) TCLIB_GET_DRIVERID False
                     [Put (IpcStr (controller_id m))]) x of
        (NoSession, x1) \<Rightarrow> (TCOPER_RET_FATAL, m\<lparr>sess := None\<rparr>, x1)
      | (Refused p c, x1) \<Rightarrow> (TCOPER_RET_FAILURE, m\<lparr>sess := Some p, conn := c\<rparr>, x1)
      | (Failed p c r, x1) \<Rightarrow> (r, m\<lparr>sess := Some p, conn := c\<rparr>, x1)
      | (Answered p c resp, x1) \<Rightarrow>
          (TCOPER_RET_SUCCESS, m\<lparr>sess := Some p, conn := c, driver_id := resp\<rparr>, x1))"

definition GetResult :: "TcMsgAudit \<Rightarrow> unc_keytype_ctrtype_t" where
  "GetResult m = driver_id m"


section \<open>Start and end\<close>

record AuditTransaction = TcMsgAudit +
  reconnect_controller :: u8
  at_commit_number :: u64
  commit_date :: u64
  commit_application :: string
  user_audit :: bool

definition AuditTransaction_new :: "u32 \<Rightarrow> TcMsgOperType \<Rightarrow> TcChannelNameMap \<Rightarrow> AuditTransaction" where
  "AuditTransaction_new sess_id oper daemon_names =
     TcMsgAudit.TcMsgAudit.extend (TcMsgAudit_new sess_id oper daemon_names)
       (AuditTransaction.fields 0 0 0 '''' False)"

definition SetReconnect :: "u8 \<Rightarrow> AuditTransaction \<Rightarrow> AuditTransaction" where
  "SetReconnect b m = m\<lparr>reconnect_controller := b\<rparr>"

definition IsUserAudit :: "bool \<Rightarrow> AuditTransaction \<Rightarrow> AuditTransaction" where
  "IsUserAudit b m = m\<lparr>user_audit := b\<rparr>"

definition SetCommitInfo :: "u64 \<Rightarrow> u64 \<Rightarrow> string \<Rightarrow> AuditTransaction \<Rightarrow> AuditTransaction" where
  "SetCommitInfo n d a m = m\<lparr>at_commit_number := n, commit_date := d, commit_application := a\<rparr>"

definition audit_transaction_items :: "AuditTransaction \<Rightarrow> item list" where
  "audit_transaction_items m =
     [Put (IpcU8 (msg_num (opertype m))), Put (IpcU32 (session_id m)),
      Put (IpcU8 (ucast (driver_id m))), Put (IpcStr (controller_id m))] @
     (if opertype m = MSG_AUDIT_START
      then [Put (IpcU8 (reconnect_controller m)), Put (IpcU8 (audit_type_num (audit_type m))),
            Put (IpcU64 (at_commit_number m)), Put (IpcU64 (commit_date m)),
            Put (IpcStr (commit_application m))] else []) @
     (if opertype m = MSG_AUDIT_TRANS_END then [Put (IpcU8 (trans_end_num (trans_result m)))] else []) @
     (if opertype m = MSG_AUDIT_END then [Put (IpcU8 (audit_result_num (audit_result m)))] else [])"

definition resp_count :: "nat \<Rightarrow> ipc_state \<Rightarrow> nat" where
  "resp_count p s = (case map_of (ipc_heap s) p of None \<Rightarrow> 0 | Some c \<Rightarrow> length (cs_resp c))"

text \<open>The commit information in the answer to the start of an audit, from the fourth result on.\<close>

definition read_commit_info :: "nat \<Rightarrow> AuditTransaction \<Rightarrow> ipc_state \<Rightarrow> TcUtilRet + AuditTransaction" where
  "read_commit_info p m s =
     (if resp_count p s < 6 then Inr m
      else case get_uint64 (Some p) 3 s of
          Inl r \<Rightarrow> Inl r
        | Inr n \<Rightarrow>
            (case get_uint64 (Some p) 4 s of
               Inl r \<Rightarrow> Inl r
             | Inr d \<Rightarrow>
                 (case get_string (Some p) 5 s of
                    Inl r \<Rightarrow> Inl r | Inr a \<Rightarrow> Inr (SetCommitInfo n d a m))))"

text \<open>
  The modules that already accepted are told about the end. \<open>final\<close> is the result when
  they all agree; a failure is fatal.
\<close>

definition undo_audit ::
  "ipc_env \<Rightarrow> TcMsgOperType \<Rightarrow> TcOperRet \<Rightarrow> AuditTransaction \<Rightarrow> msg_state
     \<Rightarrow> TcOperRet \<times> AuditTransaction \<times> msg_state" where
  "undo_audit E oper final m x =
     (if abort_on_fail m = [] then (final, m, x)
      else let (r, x1) = SendAuditTransEndRequest E oper m (abort_on_fail m) x
           in (if r = TCOPER_RET_SUCCESS then final
               else if r = TCOPER_RET_FAILURE then TCOPER_RET_FATAL else r,
               m\<lparr>abort_on_fail := []\<rparr>, x1))"

definition undo_trans_start ::
  "ipc_env \<Rightarrow> AuditTransaction \<Rightarrow> msg_state \<Rightarrow> TcOperRet \<times> AuditTransaction \<times> msg_state" where
  "undo_trans_start E m x =
     (if abort_on_fail m = [] then (TCOPER_RET_ABORT, m, x)
      else let (r, x1) = SendAuditTransEndRequest E MSG_AUDIT_TRANS_END m (abort_on_fail m) x
           in (if r \<noteq> TCOPER_RET_SUCCESS then TCOPER_RET_FATAL else TCOPER_RET_ABORT,
               m\<lparr>abort_on_fail := []\<rparr>, x1))"

text \<open>A module that answers with a cancellation is told about the end too.\<close>

definition cancelled_answer ::
  "ipc_env \<Rightarrow> TcMsgOperType \<Rightarrow> string \<Rightarrow> AuditTransaction \<Rightarrow> msg_state
     \<Rightarrow> TcOperRet \<times> AuditTransaction \<times> msg_state" where
  "cancelled_answer E oper channel m x =
     (let d = GetDaemonName m channel
      in if d = TC_NONE then (TCOPER_RET_AUDIT_CANCELLED, m, x)
         else let m1 = m\<lparr>abort_on_fail := abort_on_fail m @ [d], audit_result := TC_AUDIT_CANCELLED\<rparr>;
                  m2 = (if oper = MSG_AUDIT_TRANS_END then m1\<lparr>trans_result := TRANS_END_SUCCESS\<rparr> else m1)
              in undo_audit E oper TCOPER_RET_AUDIT_CANCELLED m2 x)"

definition audit_answer ::
  "ipc_env \<Rightarrow> string \<Rightarrow> u32 \<Rightarrow> AuditTransaction \<Rightarrow> msg_state \<Rightarrow> TcOperRet \<times> AuditTransaction \<times> msg_state" where
  "audit_answer E channel resp m x =
     (if resp = TC_SUCCESS then (TCOPER_RET_SUCCESS, m, x)
      else if resp = TC_SIMPLIFIED_AUDIT \<and> opertype m = MSG_AUDIT_START
      then (TCOPER_RET_SUCCESS, if user_audit m then m else SetAuditType TC_AUDIT_SIMPLIFIED m, x)
      else if resp = TC_CANCELLED_AUDIT \<and> opertype m = MSG_AUDIT_START
      then cancelled_answer E MSG_AUDIT_END channel m (set_phase AUDIT_END x)
      else if resp = TC_FAILURE \<and> opertype m = MSG_AUDIT_START
      then undo_audit E MSG_AUDIT_END TCOPER_RET_ABORT (m\<lparr>audit_result := TC_AUDIT_FAILURE\<rparr>)
             (set_phase AUDIT_END x)
      else if resp = TC_CANCELLED_AUDIT \<and> opertype m = MSG_AUDIT_TRANS_START
      then cancelled_answer E MSG_AUDIT_TRANS_END channel m (set_phase AUDIT_TRANSACTION_END x)
      else if resp = TC_FAILURE \<and> opertype m = MSG_AUDIT_TRANS_START
      then undo_trans_start E (m\<lparr>audit_result := TC_AUDIT_FAILURE, trans_result := TRANS_END_FAILURE\<rparr>)
             (set_phase AUDIT_TRANSACTION_END x)
      else if resp = TC_FAILURE \<and> (opertype m = MSG_AUDIT_END \<or> opertype m = MSG_AUDIT_TRANS_END)
      then (TCOPER_RET_FATAL, m\<lparr>audit_result := TC_AUDIT_FAILURE\<rparr>, x)
      else (TCOPER_RET_SUCCESS, m, x))"

definition AuditTransaction_SendRequest ::
  "ipc_env \<Rightarrow> string \<Rightarrow> AuditTransaction \<Rightarrow> msg_state \<Rightarrow> TcOperRet \<times> AuditTransaction \<times> msg_state" where
  "AuditTransaction_SendRequest E channel m x =
     (case on_ipc (request E channel TCLIB_AUDIT_TRANSACTION True (audit_transaction_items m)) x of
        (NoSession, x1) \<Rightarrow> (TCOPER_RET_FATAL, m\<lparr>sess := None\<rparr>, x1)
      | (Refused p c, x1) \<Rightarrow> (TCOPER_RET_FAILURE, m\<lparr>sess := Some p, conn := c\<rparr>, x1)
      | (Failed p c r, x1) \<Rightarrow> (r, m\<lparr>sess := Some p, conn := c\<rparr>, x1)
      | (Answered p c resp, x1) \<Rightarrow>
          (let m1 = m\<lparr>sess := Some p, conn := c\<rparr>
           in case (if (resp = TC_SIMPLIFIED_AUDIT \<or> resp = TC_SUCCESS) \<and> opertype m = MSG_AUDIT_START
                    then read_commit_info p m1 (ms_ipc x1) else Inr m1) of
                Inl r \<Rightarrow> (ReturnUtilResp r, m1, x1)
              | Inr m2 \<Rightarrow>
                  (case audit_answer E channel resp m2 x1 of
                     (ret, m3, x2) \<Rightarrow>
                       if ret = TCOPER_RET_SUCCESS
                       then (ret, m3\<lparr>sess := None\<rparr>, snd (on_ipc (tc_session_close E (Some p) c) x2))
                       else (ret, m3, x2))))"

definition audit_start_order :: "unc_keytype_ctrtype_t \<Rightarrow> TcDaemonName list" where
  "audit_start_order drv = [MapTcDriverId drv, TC_UPPL, TC_UPLL]"

definition audit_end_order :: "unc_keytype_ctrtype_t \<Rightarrow> TcDaemonName list" where
  "audit_end_order drv = [TC_UPPL, TC_UPLL, MapTcDriverId drv]"

text \<open>The cancellation noticed between two modules: those that accepted are told; errors are only logged.\<close>

definition cancel_started ::
  "ipc_env \<Rightarrow> AuditTransaction \<Rightarrow> msg_state \<Rightarrow> AuditTransaction \<times> msg_state" where
  "cancel_started E m x =
     (if abort_on_fail m = [] then (m, x)
      else if opertype m = MSG_AUDIT_START
      then (let m1 = m\<lparr>audit_result := TC_AUDIT_CANCELLED\<rparr>
            in (m1, snd (SendAuditTransEndRequest E MSG_AUDIT_END m1 (abort_on_fail m1) x)))
      else (let m1 = m\<lparr>audit_result := TC_AUDIT_CANCELLED, trans_result := TRANS_END_SUCCESS\<rparr>
            in (m1, snd (SendAuditTransEndRequest E MSG_AUDIT_TRANS_END m1 (abort_on_fail m1) x))))"

fun audit_loop ::
  "ipc_env \<Rightarrow> cancel_flag \<Rightarrow> TcDaemonName list \<Rightarrow> TcOperRet \<Rightarrow> AuditTransaction \<Rightarrow> msg_state
     \<Rightarrow> TcOperRet \<times> AuditTransaction \<times> msg_state" where
  "audit_loop E flag [] ret m x = (ret, m\<lparr>abort_on_fail := [], notifyorder := []\<rparr>, x)"
| "audit_loop E flag (d # ds) ret m x =
     (if GetChannelName m d = ''''
      then if opertype m = MSG_AUDIT_START
           then (TCOPER_RET_NO_DRIVER, m\<lparr>abort_on_fail := [], notifyorder := []\<rparr>, x)
           else audit_loop E flag ds ret m x
      else if cancelled flag m x \<and> (opertype m = MSG_AUDIT_START \<or> opertype m = MSG_AUDIT_TRANS_START)
      then (let (m1, x1) = cancel_started E m x
            in (TCOPER_RET_AUDIT_CANCELLED, m1\<lparr>abort_on_fail := [], notifyorder := []\<rparr>, x1))
      else let x1 = (if opertype m = MSG_AUDIT_START
                     then x\<lparr>ms_cancel_notify := ms_cancel_notify x @ [d]\<rparr> else x)
      in case AuditTransaction_SendRequest E (GetChannelName m d) m x1 of
           (r, m2, x2) \<Rightarrow>
             if r \<noteq> TCOPER_RET_SUCCESS then (r, m2, x2)
             else audit_loop E flag ds
                    (if audit_type m2 = TC_AUDIT_SIMPLIFIED then TCOPER_RET_SIMPLIFIED_AUDIT else r)
                    (m2\<lparr>abort_on_fail := abort_on_fail m2 @ [d]\<rparr>) x2)"

definition AuditTransaction_Execute ::
  "ipc_env \<Rightarrow> cancel_flag \<Rightarrow> AuditTransaction \<Rightarrow> msg_state \<Rightarrow> TcOperRet \<times> AuditTransaction \<times> msg_state" where
  "AuditTransaction_Execute E flag m x =
     (if \<not> driver_valid m \<or> controller_id m = '''' then (TCOPER_RET_FAILURE, m, x)
      else let go = (\<lambda>more. let order = notifyorder m @ more
                 in audit_loop E flag order TCOPER_RET_SUCCESS (m\<lparr>notifyorder := order\<rparr>) x)
      in case opertype m of
           MSG_AUDIT_START \<Rightarrow> go (audit_start_order (driver_id m))
         | MSG_AUDIT_END \<Rightarrow> go (audit_end_order (driver_id m))
         | MSG_AUDIT_TRANS_START \<Rightarrow> go start_order
         | MSG_AUDIT_TRANS_END \<Rightarrow> go end_order
         | _ \<Rightarrow> (TCOPER_RET_FAILURE, m, x))"


section \<open>Vote and global commit\<close>

record TwoPhaseAudit = TcMsgAudit +
  au_driverinfo_map :: TcDriverInfoMap
  au_driver_set :: DriverSet
  au_driverset_map :: "TcDaemonName \<Rightarrow> DriverSet option"

definition TwoPhaseAudit_new :: "u32 \<Rightarrow> TcMsgOperType \<Rightarrow> TcChannelNameMap \<Rightarrow> TwoPhaseAudit" where
  "TwoPhaseAudit_new sess_id oper daemon_names =
     TcMsgAudit.TcMsgAudit.extend (TcMsgAudit_new sess_id oper daemon_names)
       (TwoPhaseAudit.fields [] {} Map.empty)"

definition vote_cancelled :: "cancel_flag \<Rightarrow> TwoPhaseAudit \<Rightarrow> msg_state \<Rightarrow> bool" where
  "vote_cancelled flag m x \<longleftrightarrow> cancelled flag m x \<and> opertype m = MSG_AUDIT_VOTE"

fun append_status :: "append_result \<Rightarrow> TcOperRet" where
  "append_status Appended = TCOPER_RET_SUCCESS"
| "append_status CheckFailed = TCOPER_RET_FAILURE"
| "append_status (PutFailed r) = ReturnUtilResp r"

subsection \<open>Driver results\<close>

fun audit_driver_result :: "TcMsgOperType \<Rightarrow> (TcMsgOperType \<times> TcCommitPhaseType) option" where
  "audit_driver_result MSG_AUDIT_VOTE = Some (MSG_AUDIT_VOTE_DRIVER_RESULT, TC_AUDIT_VOTE_PHASE)"
| "audit_driver_result MSG_AUDIT_GLOBAL =
     Some (MSG_AUDIT_GLOBAL_DRIVER_RESULT, TC_AUDIT_GLOBAL_COMMIT_PHASE)"
| "audit_driver_result _ = None"

definition Audit_SetSessionToForwardDriverResult ::
  "ipc_env \<Rightarrow> nat \<Rightarrow> TwoPhaseAudit \<Rightarrow> msg_state \<Rightarrow> TcOperRet \<times> msg_state" where
  "Audit_SetSessionToForwardDriverResult E p m x =
     (case audit_driver_result (opertype m) of
        None \<Rightarrow> (TCOPER_RET_FAILURE, x)
      | Some (oper, phase) \<Rightarrow>
          (case on_ipc (append_data E p [Put (IpcU8 (msg_num oper)), Put (IpcU32 (session_id m)),
                                         Put (IpcStr (controller_id m))]) x of
             (Appended, x1) \<Rightarrow>
               (let x2 = x1\<lparr>ms_controller := controller_id m\<rparr>;
                    (a, x3) = on_ipc (append_data E p [Put (IpcU8 (commit_phase_num phase))]) x2
                in (append_status a, x3))
           | (a, x1) \<Rightarrow> (append_status a, x1)))"

definition audit_open_result ::
  "ipc_env \<Rightarrow> TcDaemonName \<Rightarrow> TwoPhaseAudit \<Rightarrow> msg_state \<Rightarrow> TcOperRet \<times> (nat \<times> u32) option \<times> msg_state" where
  "audit_open_result E d m x =
     (case on_ipc (create_tc_client_session E (GetChannelName m d)
             (tclib_num TCLIB_AUDIT_DRV_RESULT) True True) x of
        (None, x1) \<Rightarrow> (TCOPER_RET_FATAL, None, x1)
      | (Some (p, c), x1) \<Rightarrow>
          (let (r, x2) = Audit_SetSessionToForwardDriverResult E p m x1
           in (if r \<noteq> TCOPER_RET_SUCCESS then TCOPER_RET_FAILURE else TCOPER_RET_SUCCESS,
               Some (p, c), x2)))"

definition audit_keep_upll :: "(nat \<times> u32) option \<Rightarrow> TwoPhaseAudit \<Rightarrow> TwoPhaseAudit" where
  "audit_keep_upll h m =
     (case h of None \<Rightarrow> m\<lparr>upll_sess := None\<rparr> | Some (p, c) \<Rightarrow> m\<lparr>upll_sess := Some p, upll_conn := c\<rparr>)"

definition audit_keep_uppl :: "(nat \<times> u32) option \<Rightarrow> TwoPhaseAudit \<Rightarrow> TwoPhaseAudit" where
  "audit_keep_uppl h m =
     (case h of None \<Rightarrow> m\<lparr>uppl_sess := None\<rparr> | Some (p, c) \<Rightarrow> m\<lparr>uppl_sess := Some p, uppl_conn := c\<rparr>)"

definition Audit_CreateSessionsToForwardDriverResult ::
  "ipc_env \<Rightarrow> TwoPhaseAudit \<Rightarrow> msg_state \<Rightarrow> TcOperRet \<times> TwoPhaseAudit \<times> msg_state" where
  "Audit_CreateSessionsToForwardDriverResult E m x =
     (case audit_open_result E TC_UPLL m x of
        (r, h, x1) \<Rightarrow>
          (let m1 = audit_keep_upll h m
           in if r \<noteq> TCOPER_RET_SUCCESS then (r, m1, x1)
              else (case audit_open_result E TC_UPPL m1 x1 of
                      (r2, h2, x2) \<Rightarrow> (r2, audit_keep_uppl h2 m1, x2))))"

text \<open>
  The result of the audit is the last item of the answer to a global commit; without items the
  index wraps around. The conjunction of the results is success or failure only.
\<close>

definition last_result :: "nat option \<Rightarrow> ipc_state \<Rightarrow> TcUtilRet + u8" where
  "last_result p s =
     get_uint8 p (word_of_nat (case p of None \<Rightarrow> 0 | Some a \<Rightarrow> resp_count a s) - 1) s"

definition and_result :: "u8 \<Rightarrow> TwoPhaseAudit \<Rightarrow> TwoPhaseAudit" where
  "and_result ret m =
     m\<lparr>audit_result := (if audit_result_num (audit_result m) \<noteq> 0 \<and> ret \<noteq> 0
                         then TC_AUDIT_SUCCESS else TC_AUDIT_FAILURE)\<rparr>"

definition read_audit_result ::
  "nat option \<Rightarrow> u32 \<Rightarrow> TwoPhaseAudit \<Rightarrow> msg_state \<Rightarrow> TcUtilRet + TwoPhaseAudit" where
  "read_audit_result p resp m x =
     (if opertype m = MSG_AUDIT_GLOBAL \<and> resp = TC_SUCCESS
      then (case last_result p (ms_ipc x) of Inl r \<Rightarrow> Inl r | Inr ret \<Rightarrow> Inr (and_result ret m))
      else Inr m)"

definition audit_failed :: "TwoPhaseAudit \<Rightarrow> TwoPhaseAudit" where
  "audit_failed m = m\<lparr>trans_result := TRANS_END_FAILURE, audit_result := TC_AUDIT_FAILURE\<rparr>"

definition on_invoke ::
  "ipc_env \<Rightarrow> nat option \<Rightarrow> msg_state \<Rightarrow> TcUtilRet \<times> u32 \<times> msg_state" where
  "on_invoke E p x =
     (case tc_session_invoke E p (ms_ipc x) of (r, resp, i) \<Rightarrow> (r, resp, x\<lparr>ms_ipc := i\<rparr>))"

definition Audit_HandleDriverResultResponse ::
  "ipc_env \<Rightarrow> nat option \<Rightarrow> TwoPhaseAudit \<Rightarrow> msg_state \<Rightarrow> TcOperRet \<times> TwoPhaseAudit \<times> msg_state" where
  "Audit_HandleDriverResultResponse E p m x =
     (case on_invoke E p x of
        (TCUTIL_RET_SUCCESS, resp, x1) \<Rightarrow>
          (case read_audit_result p resp m x1 of
             Inl r \<Rightarrow> (ReturnUtilResp r, m, x1)
           | Inr m1 \<Rightarrow>
               if resp = TC_FAILURE \<and> opertype m = MSG_AUDIT_VOTE
               then (let m2 = audit_failed m1;
                         (r, x2) = Audit_SendAbortRequest E m2 (abort_on_fail m2) x1
                     in (if r = TCOPER_RET_SUCCESS then TCOPER_RET_ABORT else TCOPER_RET_FATAL, m2, x2))
               else if resp = TC_FAILURE \<and> opertype m = MSG_AUDIT_GLOBAL
               then (TCOPER_RET_FATAL, m1\<lparr>audit_result := TC_AUDIT_FAILURE\<rparr>, x1)
               else (TCOPER_RET_SUCCESS, m1, x1))
      | (r, _, x1) \<Rightarrow> (ReturnUtilResp r, m, x1))"

definition audit_forward_results ::
  "ipc_env \<Rightarrow> TwoPhaseAudit \<Rightarrow> msg_state \<Rightarrow> TcOperRet \<times> TwoPhaseAudit \<times> msg_state" where
  "audit_forward_results E m x =
     (case Audit_HandleDriverResultResponse E (upll_sess m) m x of
        (r, m1, x1) \<Rightarrow>
          if r \<noteq> TCOPER_RET_SUCCESS then (r, m1, x1)
          else Audit_HandleDriverResultResponse E (uppl_sess m1) m1 x1)"

subsection \<open>Controllers named by the upper layers\<close>

fun audit_read_drivers ::
  "nat option \<Rightarrow> nat \<Rightarrow> u32 \<Rightarrow> TwoPhaseAudit \<Rightarrow> ipc_state \<Rightarrow> TcUtilRet \<times> TwoPhaseAudit" where
  "audit_read_drivers p 0 idx m s = (TCUTIL_RET_SUCCESS, m)"
| "audit_read_drivers p (Suc n) idx m s =
     (case get_uint8 p (idx + 1) s of
        Inl r \<Rightarrow> (r, m)
      | Inr drv \<Rightarrow>
          (let driver_type = ucast drv; m1 = m\<lparr>au_driver_set := insert driver_type (au_driver_set m)\<rparr>
           in case get_uint8 p (idx + 2) s of
                Inl r \<Rightarrow> (r, m1)
              | Inr controller_count \<Rightarrow>
                  (case read_controllers p (unat controller_count) (idx + 2) [] s of
                     Inl r \<Rightarrow> (r, m1)
                   | Inr (idx', controllers) \<Rightarrow>
                       audit_read_drivers p n idx'
                         (m1\<lparr>au_driverinfo_map := add_driver_info driver_type controllers
                              (au_driverinfo_map m1)\<rparr>) s)))"

definition Audit_GetControllerInfo ::
  "nat option \<Rightarrow> TwoPhaseAudit \<Rightarrow> ipc_state \<Rightarrow> TcOperRet \<times> TwoPhaseAudit" where
  "Audit_GetControllerInfo p m s =
     (case get_uint8 p 0 s of
        Inl r \<Rightarrow> (ReturnUtilResp r, m)
      | Inr driver_count \<Rightarrow>
          (case audit_read_drivers p (unat driver_count) 0 m s of (r, m1) \<Rightarrow> (ReturnUtilResp r, m1)))"

subsection \<open>Drivers\<close>

definition audit_driver_items :: "TwoPhaseAudit \<Rightarrow> string list \<Rightarrow> item list" where
  "audit_driver_items m clist =
     [Put (IpcU8 (msg_num (if opertype m = MSG_AUDIT_VOTE then MSG_AUDIT_DRIVER_VOTE
                           else if opertype m = MSG_AUDIT_GLOBAL then MSG_AUDIT_DRIVER_GLOBAL
                           else MSG_NONE))),
      Put (IpcU32 (session_id m)), Put (IpcStr (controller_id m)),
      Put (IpcU8 (word_of_nat (length clist)))] @ map (Put \<circ> IpcStr) clist"

definition audit_forward_both ::
  "ipc_env \<Rightarrow> unc_keytype_ctrtype_t \<Rightarrow> nat \<Rightarrow> TwoPhaseAudit \<Rightarrow> ipc_state \<Rightarrow> TcOperRet \<times> ipc_state" where
  "audit_forward_both E driver p m s =
     (if driver \<in> (case au_driverset_map m TC_UPLL of None \<Rightarrow> {} | Some ds \<Rightarrow> ds)
      then (case forward_result E (upll_sess m) p s of
              (TCOPER_RET_SUCCESS, s1) \<Rightarrow> forward_result E (uppl_sess m) p s1
            | r \<Rightarrow> r)
      else (TCOPER_RET_SUCCESS, s))"

definition audit_driver_answer ::
  "ipc_env \<Rightarrow> unc_keytype_ctrtype_t \<Rightarrow> TcDaemonName \<Rightarrow> nat \<Rightarrow> u32 \<Rightarrow> TwoPhaseAudit \<Rightarrow> msg_state
     \<Rightarrow> TcOperRet \<times> TwoPhaseAudit \<times> msg_state" where
  "audit_driver_answer E driver d p resp m x =
     (if resp = TC_SUCCESS
      then (let m1 = m\<lparr>au_driverset_map := (au_driverset_map m)(TC_UPLL := Some
                   (case au_driverset_map m TC_UPLL of None \<Rightarrow> {} | Some ds \<Rightarrow> ds))\<rparr>
            in case on_ipc (audit_forward_both E driver p m1) x of
                 (TCOPER_RET_SUCCESS, x1) \<Rightarrow>
                   (TCOPER_RET_SUCCESS, m1\<lparr>abort_on_fail := abort_on_fail m1 @ [d]\<rparr>, x1)
               | (r, x1) \<Rightarrow> (r, m1, x1))
      else if resp = TC_CANCELLED_AUDIT \<and> opertype m = MSG_AUDIT_VOTE
      then (TCOPER_RET_AUDIT_CANCELLED,
            m\<lparr>trans_result := TRANS_END_FAILURE, audit_result := TC_AUDIT_CANCELLED,
              abort_on_fail := [], au_driverinfo_map := []\<rparr>, set_phase AUDIT_TRANSACTION_END x)
      else if resp = TC_FAILURE \<and> opertype m = MSG_AUDIT_VOTE
      then (let m1 = audit_failed m
            in case Audit_SendAbortRequest E m1 (abort_on_fail m1) (set_phase AUDIT_TRANSACTION_END x) of
                 (r, x1) \<Rightarrow>
                   if r = TCOPER_RET_SUCCESS
                   then (TCOPER_RET_ABORT, m1\<lparr>abort_on_fail := [], au_driverinfo_map := []\<rparr>, x1)
                   else (TCOPER_RET_FATAL, m1\<lparr>abort_on_fail := []\<rparr>, x1))
      else if resp = TC_FAILURE \<and> opertype m = MSG_AUDIT_GLOBAL
      then (TCOPER_RET_FATAL, m\<lparr>audit_result := TC_AUDIT_FAILURE\<rparr>, x)
      else (TCOPER_RET_SUCCESS, m, x))"

text \<open>
  The loop over the drivers. The channel of a driver is looked up without a check: \<open>None\<close>
  when the driver is not running. The cancellation is looked for once more before the call.
\<close>

fun audit_driver_loop ::
  "ipc_env \<Rightarrow> cancel_flag \<Rightarrow> TcDriverInfoMap \<Rightarrow> TwoPhaseAudit \<Rightarrow> msg_state
     \<Rightarrow> (TcOperRet \<times> TwoPhaseAudit \<times> msg_state) option" where
  "audit_driver_loop E flag [] m x = Some (TCOPER_RET_SUCCESS, m, x)"
| "audit_driver_loop E flag ((driver, clist) # rest) m x =
     (let d = MapTcDriverId driver
      in if d = TC_NONE then Some (TCOPER_RET_FATAL, m, x)
         else case channel_names m d of
             None \<Rightarrow> None
           | Some channel \<Rightarrow>
               (case on_ipc (create_tc_client_session E channel
                       (tclib_num TCLIB_AUDIT_DRV_VOTE_GLOBAL) True True) x of
                  (None, x1) \<Rightarrow> Some (TCOPER_RET_FATAL, m\<lparr>sess := None\<rparr>, x1)
                | (Some (p, c), x1) \<Rightarrow>
                    (let m1 = m\<lparr>sess := Some p, conn := c\<rparr>
                     in case on_ipc (append_data E p (audit_driver_items m1 clist)) x1 of
                          (Appended, x2) \<Rightarrow>
                            if vote_cancelled flag m1 x2 then Some (TCOPER_RET_AUDIT_CANCELLED, m1, x2)
                            else (case on_invoke E (Some p) x2 of
                               (TCUTIL_RET_SUCCESS, resp, x3) \<Rightarrow>
                                 (case audit_driver_answer E driver d p resp m1 x3 of
                                    (r, m2, x4) \<Rightarrow>
                                      if r = TCOPER_RET_SUCCESS
                                      then audit_driver_loop E flag rest (m2\<lparr>sess := None\<rparr>)
                                             (snd (on_ipc (tc_session_close E (Some p) c) x4))
                                      else Some (r, m2, x4))
                             | (r, _, x3) \<Rightarrow> Some (ReturnUtilResp r, m1, x3))
                        | (a, x2) \<Rightarrow> Some (append_status a, m1, x2))))"

definition Audit_SendRequestToDriver ::
  "ipc_env \<Rightarrow> cancel_flag \<Rightarrow> TwoPhaseAudit \<Rightarrow> msg_state \<Rightarrow> (TcOperRet \<times> TwoPhaseAudit \<times> msg_state) option" where
  "Audit_SendRequestToDriver E flag m x =
     (if vote_cancelled flag m x then Some (TCOPER_RET_AUDIT_CANCELLED, m, x)
      else case Audit_CreateSessionsToForwardDriverResult E m x of
        (r, m1, x1) \<Rightarrow>
          if r \<noteq> TCOPER_RET_SUCCESS then Some (TCOPER_RET_FAILURE, m1, x1)
          else (case audit_driver_loop E flag (au_driverinfo_map m1) m1 x1 of
                  None \<Rightarrow> None
                | Some (r2, m2, x2) \<Rightarrow>
                    if r2 \<noteq> TCOPER_RET_SUCCESS then Some (r2, m2, x2)
                    else if vote_cancelled flag m2 x2 then Some (TCOPER_RET_AUDIT_CANCELLED, m2, x2)
                    else Some (audit_forward_results E m2 x2)))"

subsection \<open>Upper layers\<close>

definition audit_undo_vote ::
  "ipc_env \<Rightarrow> TwoPhaseAudit \<Rightarrow> msg_state \<Rightarrow> TcOperRet \<times> TwoPhaseAudit \<times> msg_state" where
  "audit_undo_vote E m x =
     (if abort_on_fail m = [] then (TCOPER_RET_ABORT, m, x)
      else case Audit_SendAbortRequest E m (abort_on_fail m) x of
          (r, x1) \<Rightarrow> (if r = TCOPER_RET_SUCCESS then TCOPER_RET_ABORT else TCOPER_RET_FATAL,
                      m\<lparr>abort_on_fail := []\<rparr>, x1))"

definition audit_layer_answer ::
  "ipc_env \<Rightarrow> nat \<Rightarrow> u32 \<Rightarrow> TwoPhaseAudit \<Rightarrow> msg_state \<Rightarrow> TcOperRet \<times> TwoPhaseAudit \<times> msg_state" where
  "audit_layer_answer E p resp m x =
     (if resp = TC_SUCCESS \<and> resp_count p (ms_ipc x) > 1
      then (case Audit_GetControllerInfo (Some p) m (ms_ipc x) of
              (r, m1) \<Rightarrow> (if r \<noteq> TCOPER_RET_SUCCESS then TCOPER_RET_FAILURE else TCOPER_RET_SUCCESS, m1, x))
      else if resp = TC_CANCELLED_AUDIT \<and> opertype m = MSG_AUDIT_VOTE
      then (TCOPER_RET_AUDIT_CANCELLED,
            m\<lparr>trans_result := TRANS_END_FAILURE, audit_result := TC_AUDIT_CANCELLED,
              abort_on_fail := []\<rparr>, set_phase AUDIT_TRANSACTION_END x)
      else if resp = TC_FAILURE \<and> opertype m = MSG_AUDIT_VOTE
      then audit_undo_vote E (audit_failed m) (set_phase AUDIT_TRANSACTION_END x)
      else if resp = TC_FAILURE \<and> opertype m = MSG_AUDIT_GLOBAL
      then (TCOPER_RET_FATAL, m\<lparr>audit_result := TC_AUDIT_FAILURE\<rparr>, x)
      else (TCOPER_RET_SUCCESS, m, x))"

definition audit_layer_items :: "TwoPhaseAudit \<Rightarrow> item list" where
  "audit_layer_items m =
     [Put (IpcU8 (msg_num (opertype m))), Put (IpcU32 (session_id m)),
      Put (IpcU8 (ucast (driver_id m))), Put (IpcStr (controller_id m))]"

definition TwoPhaseAudit_SendRequest ::
  "ipc_env \<Rightarrow> string \<Rightarrow> TwoPhaseAudit \<Rightarrow> msg_state \<Rightarrow> TcOperRet \<times> TwoPhaseAudit \<times> msg_state" where
  "TwoPhaseAudit_SendRequest E channel m x =
     (case on_ipc (request E channel TCLIB_AUDIT_TRANSACTION True (audit_layer_items m)) x of
        (NoSession, x1) \<Rightarrow> (TCOPER_RET_FATAL, m\<lparr>sess := None\<rparr>, x1)
      | (Refused p c, x1) \<Rightarrow> (TCOPER_RET_FAILURE, m\<lparr>sess := Some p, conn := c\<rparr>, x1)
      | (Failed p c r, x1) \<Rightarrow> (r, m\<lparr>sess := Some p, conn := c\<rparr>, x1)
      | (Answered p c resp, x1) \<Rightarrow>
          (let m1 = m\<lparr>sess := Some p, conn := c\<rparr>
           in case read_audit_result (Some p) resp m1 x1 of
                Inl r \<Rightarrow> (ReturnUtilResp r, m1, x1)
              | Inr m2 \<Rightarrow>
                  (case audit_layer_answer E p resp m2 x1 of
                     (r, m3, x2) \<Rightarrow>
                       if r = TCOPER_RET_SUCCESS
                       then (r, m3\<lparr>sess := None\<rparr>, snd (on_ipc (tc_session_close E (Some p) c) x2))
                       else (r, m3, x2))))"

definition audit_remember_layer :: "TcDaemonName \<Rightarrow> TwoPhaseAudit \<Rightarrow> TwoPhaseAudit" where
  "audit_remember_layer d m =
     (let m1 = m\<lparr>abort_on_fail := abort_on_fail m @ [d]\<rparr>
      in if au_driver_set m1 \<noteq> {}
         then m1\<lparr>au_driverset_map := (case au_driverset_map m1 d of
                    None \<Rightarrow> (au_driverset_map m1)(d \<mapsto> au_driver_set m1) | Some _ \<Rightarrow> au_driverset_map m1),
                 au_driver_set := {}\<rparr>
         else m1)"

text \<open>The first component says whether the loop ended without returning from its function.\<close>

fun audit_layer_loop ::
  "ipc_env \<Rightarrow> cancel_flag \<Rightarrow> TcDaemonName list \<Rightarrow> TwoPhaseAudit \<Rightarrow> msg_state
     \<Rightarrow> bool \<times> TcOperRet \<times> TwoPhaseAudit \<times> msg_state" where
  "audit_layer_loop E flag [] m x = (True, TCOPER_RET_SUCCESS, m, x)"
| "audit_layer_loop E flag (d # ds) m x =
     (if GetChannelName m d = '''' then (False, TCOPER_RET_FAILURE, m, x)
      else if vote_cancelled flag m x then (True, TCOPER_RET_AUDIT_CANCELLED, m, x)
      else case TwoPhaseAudit_SendRequest E (GetChannelName m d) m x of
          (r, m1, x1) \<Rightarrow>
            if r \<noteq> TCOPER_RET_SUCCESS then (False, r, m1\<lparr>abort_on_fail := []\<rparr>, x1)
            else audit_layer_loop E flag ds (audit_remember_layer d m1) x1)"

definition audit_dummy_result ::
  "ipc_env \<Rightarrow> TwoPhaseAudit \<Rightarrow> msg_state \<Rightarrow> TcOperRet \<times> TwoPhaseAudit \<times> msg_state" where
  "audit_dummy_result E m x =
     (case Audit_CreateSessionsToForwardDriverResult E m x of
        (r, m1, x1) \<Rightarrow>
          if r \<noteq> TCOPER_RET_SUCCESS then (TCOPER_RET_FAILURE, m1, x1)
          else (case audit_forward_results E m1 x1 of
                  (r2, m2, x2) \<Rightarrow>
                    if r2 \<noteq> TCOPER_RET_SUCCESS then (TCOPER_RET_FAILURE, m2, x2)
                    else (TCOPER_RET_SUCCESS, m2\<lparr>abort_on_fail := []\<rparr>, x2)))"

definition TwoPhaseAudit_Execute ::
  "ipc_env \<Rightarrow> cancel_flag \<Rightarrow> TwoPhaseAudit \<Rightarrow> msg_state \<Rightarrow> (TcOperRet \<times> TwoPhaseAudit \<times> msg_state) option" where
  "TwoPhaseAudit_Execute E flag m x =
     (let m0 = m\<lparr>notifyorder := []\<rparr>
      in if \<not> driver_valid m0 \<or> controller_id m0 = '''' then Some (TCOPER_RET_FAILURE, m0, x)
         else case audit_layer_loop E flag [TC_UPLL, TC_UPPL] (m0\<lparr>notifyorder := [TC_UPLL, TC_UPPL]\<rparr>) x of
           (finished, r, m1, x1) \<Rightarrow>
             if \<not> finished then Some (r, m1, x1)
             else if vote_cancelled flag m1 x1 then Some (TCOPER_RET_AUDIT_CANCELLED, m1, x1)
             else if r = TCOPER_RET_SUCCESS \<and> au_driverinfo_map m1 = []
             then Some (audit_dummy_result E m1 x1)
             else (case Audit_SendRequestToDriver E flag m1 x1 of
                     None \<Rightarrow> None
                   | Some (r2, m2, x2) \<Rightarrow>
                       Some (r2, m2\<lparr>abort_on_fail := [], au_driverset_map := Map.empty, notifyorder := []\<rparr>, x2)))"

end
