(* ===== verification/TcMsgFactory.thy ===== *)
theory TcMsgFactory
  imports TcMsgAudit
begin

text \<open>
  Message objects behind a pointer to the base class: the factory
  \<^verbatim>\<open>TcMsg::CreateInstance\<close> and the virtual methods. The overloads of \<^verbatim>\<open>SetData\<close> are
  told apart by a suffix; a class that does not override an overload inherits the empty one.
\<close>

section \<open>Objects\<close>

datatype TcMsgObj =
    MNotifyConfigId TcMsgNotifyConfigId
  | MSetUp TcMsgSetUp
  | MCommitTransaction TcMsgCommit
  | MTwoPhaseCommit TwoPhaseCommit
  | MAuditTransaction AuditTransaction
  | MTwoPhaseAudit TwoPhaseAudit
  | MToStartupDB TcMsgToStartupDB
  | MAbortCandidateDB AbortCandidateDB
  | MAuditDB TcMsgAuditDB
  | MGetDriverId TcMsgAudit
  | MAutoSave TcMsgAutoSave

text \<open>
  The first two arguments are the values found in the members that two constructors leave
  without a value. \<open>None\<close> is \<^verbatim>\<open>NULL\<close>.
\<close>

definition CreateInstance ::
  "bool \<Rightarrow> TcConfigMode \<Rightarrow> u32 \<Rightarrow> TcMsgOperType \<Rightarrow> TcChannelNameMap \<Rightarrow> TcMsgObj option" where
  "CreateInstance b mode sess_id oper daemon_names =
     (case oper of
        MSG_NOTIFY_CONFIGID \<Rightarrow>
          Some (MNotifyConfigId (TcMsgNotifyConfigId_new mode sess_id oper daemon_names))
      | MSG_SETUP_COMPLETE \<Rightarrow> Some (MSetUp (TcMsgSetUp_new b sess_id oper daemon_names))
      | MSG_SETUP \<Rightarrow> Some (MSetUp (TcMsgSetUp_new b sess_id oper daemon_names))
      | MSG_COMMIT_TRANS_START \<Rightarrow> Some (MCommitTransaction (TcMsgCommit_new sess_id oper daemon_names))
      | MSG_COMMIT_TRANS_END \<Rightarrow> Some (MCommitTransaction (TcMsgCommit_new sess_id oper daemon_names))
      | MSG_COMMIT_VOTE \<Rightarrow> Some (MTwoPhaseCommit (TwoPhaseCommit_new sess_id oper daemon_names))
      | MSG_COMMIT_GLOBAL \<Rightarrow> Some (MTwoPhaseCommit (TwoPhaseCommit_new sess_id oper daemon_names))
      | MSG_AUDIT_START \<Rightarrow> Some (MAuditTransaction (AuditTransaction_new sess_id oper daemon_names))
      | MSG_AUDIT_TRANS_START \<Rightarrow> Some (MAuditTransaction (AuditTransaction_new sess_id oper daemon_names))
      | MSG_AUDIT_TRANS_END \<Rightarrow> Some (MAuditTransaction (AuditTransaction_new sess_id oper daemon_names))
      | MSG_AUDIT_END \<Rightarrow> Some (MAuditTransaction (AuditTransaction_new sess_id oper daemon_names))
      | MSG_AUDIT_VOTE \<Rightarrow> Some (MTwoPhaseAudit (TwoPhaseAudit_new sess_id oper daemon_names))
      | MSG_AUDIT_GLOBAL \<Rightarrow> Some (MTwoPhaseAudit (TwoPhaseAudit_new sess_id oper daemon_names))
      | MSG_SAVE_CONFIG \<Rightarrow> Some (MToStartupDB (TcMsgToStartupDB_new sess_id oper daemon_names))
      | MSG_CLEAR_CONFIG \<Rightarrow> Some (MToStartupDB (TcMsgToStartupDB_new sess_id oper daemon_names))
      | MSG_ABORT_CANDIDATE \<Rightarrow> Some (MAbortCandidateDB (AbortCandidateDB_new sess_id oper daemon_names))
      | MSG_AUDITDB \<Rightarrow> Some (MAuditDB (TcMsgAuditDB_new sess_id oper daemon_names))
      | MSG_GET_DRIVERID \<Rightarrow> Some (MGetDriverId (TcMsgAudit_new sess_id oper daemon_names))
      | MSG_AUTOSAVE_ENABLE \<Rightarrow> Some (MAutoSave (TcMsgAutoSave_new sess_id oper daemon_names))
      | MSG_AUTOSAVE_DISABLE \<Rightarrow> Some (MAutoSave (TcMsgAutoSave_new sess_id oper daemon_names))
      | _ \<Rightarrow> None)"


section \<open>Virtual methods\<close>

fun SetData_autosave :: "bool \<Rightarrow> TcMsgObj \<Rightarrow> TcMsgObj" where
  "SetData_autosave b (MSetUp m) = MSetUp (TcMsgSetUp_SetData b m)"
| "SetData_autosave b m = m"

fun SetData_version :: "unc_keytype_datatype_t \<Rightarrow> TcServiceType \<Rightarrow> u64 \<Rightarrow> TcMsgObj \<Rightarrow> TcMsgObj" where
  "SetData_version db oper v (MAutoSave m) = MAutoSave (TcMsgAutoSave_SetData v m)"
| "SetData_version db oper v (MToStartupDB m) = MToStartupDB (TcMsgToStartupDB_SetData v m)"
| "SetData_version db oper v (MAbortCandidateDB m) = MAbortCandidateDB (AbortCandidateDB_SetData v m)"
| "SetData_version db oper v (MAuditDB m) = MAuditDB (TcMsgAuditDB_SetData db oper v m)"
| "SetData_version db oper v m = m"

fun SetData_config :: "u32 \<Rightarrow> string \<Rightarrow> unc_keytype_ctrtype_t \<Rightarrow> TcMsgObj \<Rightarrow> TcMsgObj" where
  "SetData_config cid ctr drv (MNotifyConfigId m) = MNotifyConfigId (m\<lparr>nc_config_id := cid\<rparr>)"
| "SetData_config cid ctr drv (MCommitTransaction m) = MCommitTransaction (TcMsgCommit_SetData cid m)"
| "SetData_config cid ctr drv (MTwoPhaseCommit m) = MTwoPhaseCommit (TcMsgCommit_SetData cid m)"
| "SetData_config cid ctr drv (MAbortCandidateDB m) = MAbortCandidateDB (TcMsgCommit_SetData cid m)"
| "SetData_config cid ctr drv (MAuditTransaction m) = MAuditTransaction (TcMsgAudit_SetData ctr drv m)"
| "SetData_config cid ctr drv (MTwoPhaseAudit m) = MTwoPhaseAudit (TcMsgAudit_SetData ctr drv m)"
| "SetData_config cid ctr drv (MGetDriverId m) = MGetDriverId (TcMsgAudit_SetData ctr drv m)"
| "SetData_config cid ctr drv m = m"

fun SetData_mode :: "u32 \<Rightarrow> TcConfigMode \<Rightarrow> string \<Rightarrow> TcMsgObj \<Rightarrow> TcMsgObj" where
  "SetData_mode cid mode vtn (MNotifyConfigId m) =
     MNotifyConfigId (TcMsgNotifyConfigId_SetData cid mode vtn m)"
| "SetData_mode cid mode vtn (MAuditDB m) = MAuditDB (TcMsgAuditDB_SetMode mode vtn m)"
| "SetData_mode cid mode vtn m = m"

text \<open>Methods of the base class on any object.\<close>

fun obj_set_trans_result :: "TcTransEndResult \<Rightarrow> TcMsgObj \<Rightarrow> TcMsgObj" where
  "obj_set_trans_result r (MNotifyConfigId m) = MNotifyConfigId (snd (SetTransResult r m))"
| "obj_set_trans_result r (MSetUp m) = MSetUp (snd (SetTransResult r m))"
| "obj_set_trans_result r (MCommitTransaction m) = MCommitTransaction (snd (SetTransResult r m))"
| "obj_set_trans_result r (MTwoPhaseCommit m) = MTwoPhaseCommit (snd (SetTransResult r m))"
| "obj_set_trans_result r (MAuditTransaction m) = MAuditTransaction (snd (SetTransResult r m))"
| "obj_set_trans_result r (MTwoPhaseAudit m) = MTwoPhaseAudit (snd (SetTransResult r m))"
| "obj_set_trans_result r (MToStartupDB m) = MToStartupDB (snd (SetTransResult r m))"
| "obj_set_trans_result r (MAbortCandidateDB m) = MAbortCandidateDB (snd (SetTransResult r m))"
| "obj_set_trans_result r (MAuditDB m) = MAuditDB (snd (SetTransResult r m))"
| "obj_set_trans_result r (MGetDriverId m) = MGetDriverId (snd (SetTransResult r m))"
| "obj_set_trans_result r (MAutoSave m) = MAutoSave (snd (SetTransResult r m))"

text \<open>The part of an object that belongs to the base class.\<close>

fun base_of :: "TcMsgObj \<Rightarrow> TcMsg" where
  "base_of (MNotifyConfigId m) = TcMsg.TcMsg.truncate m"
| "base_of (MSetUp m) = TcMsg.TcMsg.truncate m"
| "base_of (MCommitTransaction m) = TcMsg.TcMsg.truncate m"
| "base_of (MTwoPhaseCommit m) = TcMsg.TcMsg.truncate m"
| "base_of (MAuditTransaction m) = TcMsg.TcMsg.truncate m"
| "base_of (MTwoPhaseAudit m) = TcMsg.TcMsg.truncate m"
| "base_of (MToStartupDB m) = TcMsg.TcMsg.truncate m"
| "base_of (MAbortCandidateDB m) = TcMsg.TcMsg.truncate m"
| "base_of (MAuditDB m) = TcMsg.TcMsg.truncate m"
| "base_of (MGetDriverId m) = TcMsg.TcMsg.truncate m"
| "base_of (MAutoSave m) = TcMsg.TcMsg.truncate m"

definition obj_delete :: "ipc_env \<Rightarrow> TcMsgObj \<Rightarrow> ipc_state \<Rightarrow> ipc_state" where
  "obj_delete E m s = TcMsg_delete E (base_of m) s"

fun obj_set_audit_result :: "TcAuditResult \<Rightarrow> TcMsgObj \<Rightarrow> TcMsgObj" where
  "obj_set_audit_result r (MNotifyConfigId m) = MNotifyConfigId (snd (SetAuditResult r m))"
| "obj_set_audit_result r (MSetUp m) = MSetUp (snd (SetAuditResult r m))"
| "obj_set_audit_result r (MCommitTransaction m) = MCommitTransaction (snd (SetAuditResult r m))"
| "obj_set_audit_result r (MTwoPhaseCommit m) = MTwoPhaseCommit (snd (SetAuditResult r m))"
| "obj_set_audit_result r (MAuditTransaction m) = MAuditTransaction (snd (SetAuditResult r m))"
| "obj_set_audit_result r (MTwoPhaseAudit m) = MTwoPhaseAudit (snd (SetAuditResult r m))"
| "obj_set_audit_result r (MToStartupDB m) = MToStartupDB (snd (SetAuditResult r m))"
| "obj_set_audit_result r (MAbortCandidateDB m) = MAbortCandidateDB (snd (SetAuditResult r m))"
| "obj_set_audit_result r (MAuditDB m) = MAuditDB (snd (SetAuditResult r m))"
| "obj_set_audit_result r (MGetDriverId m) = MGetDriverId (snd (SetAuditResult r m))"
| "obj_set_audit_result r (MAutoSave m) = MAutoSave (snd (SetAuditResult r m))"

fun obj_set_audit_type :: "TcAuditType \<Rightarrow> TcMsgObj \<Rightarrow> TcMsgObj" where
  "obj_set_audit_type t (MAuditTransaction m) = MAuditTransaction (SetAuditType t m)"
| "obj_set_audit_type t (MTwoPhaseAudit m) = MTwoPhaseAudit (SetAuditType t m)"
| "obj_set_audit_type t (MGetDriverId m) = MGetDriverId (SetAuditType t m)"
| "obj_set_audit_type t m = m"

fun obj_set_reconnect :: "u8 \<Rightarrow> TcMsgObj \<Rightarrow> TcMsgObj" where
  "obj_set_reconnect b (MAuditTransaction m) = MAuditTransaction (SetReconnect b m)"
| "obj_set_reconnect b m = m"

fun obj_is_user_audit :: "bool \<Rightarrow> TcMsgObj \<Rightarrow> TcMsgObj" where
  "obj_is_user_audit b (MAuditTransaction m) = MAuditTransaction (IsUserAudit b m)"
| "obj_is_user_audit b m = m"

fun obj_get_result :: "TcMsgObj \<Rightarrow> unc_keytype_ctrtype_t" where
  "obj_get_result (MGetDriverId m) = GetResult m"
| "obj_get_result m = UNC_CT_UNKNOWN"

text \<open>The messages that use the transport only.\<close>

definition lift_ipc ::
  "('m \<Rightarrow> TcMsgObj) \<Rightarrow> (ipc_state \<Rightarrow> TcOperRet \<times> 'm \<times> ipc_state) \<Rightarrow> msg_state
     \<Rightarrow> (TcOperRet \<times> TcMsgObj \<times> msg_state) option" where
  "lift_ipc con f x =
     (case f (ms_ipc x) of (r, m, i) \<Rightarrow> Some (r, con m, x\<lparr>ms_ipc := i\<rparr>))"

text \<open>
  The virtual \<^verbatim>\<open>Execute\<close>. \<open>None\<close>: the process was aborted by a failed check, or an
  iterator that points nowhere was used.
\<close>

fun obj_Execute ::
  "ipc_env \<Rightarrow> cancel_flag \<Rightarrow> TcMsgObj \<Rightarrow> msg_state \<Rightarrow> (TcOperRet \<times> TcMsgObj \<times> msg_state) option" where
  "obj_Execute E flag (MNotifyConfigId m) x = lift_ipc MNotifyConfigId (TcMsgNotifyConfigId_Execute E m) x"
| "obj_Execute E flag (MSetUp m) x = lift_ipc MSetUp (TcMsgSetUp_Execute E m) x"
| "obj_Execute E flag (MCommitTransaction m) x =
     lift_ipc MCommitTransaction (CommitTransaction_Execute E m) x"
| "obj_Execute E flag (MTwoPhaseCommit m) x = lift_ipc MTwoPhaseCommit (TwoPhaseCommit_Execute E m) x"
| "obj_Execute E flag (MToStartupDB m) x = lift_ipc MToStartupDB (TcMsgToStartupDB_Execute E m) x"
| "obj_Execute E flag (MAbortCandidateDB m) x =
     lift_ipc MAbortCandidateDB (AbortCandidateDB_Execute E m) x"
| "obj_Execute E flag (MAuditDB m) x =
     (case TcMsgAuditDB_Execute E m (ms_ipc x) of
        None \<Rightarrow> None | Some (r, m1, i) \<Rightarrow> Some (r, MAuditDB m1, x\<lparr>ms_ipc := i\<rparr>))"
| "obj_Execute E flag (MAutoSave m) x = lift_ipc MAutoSave (TcMsgAutoSave_Execute E m) x"
| "obj_Execute E flag (MAuditTransaction m) x =
     (case AuditTransaction_Execute E flag m x of (r, m1, x1) \<Rightarrow> Some (r, MAuditTransaction m1, x1))"
| "obj_Execute E flag (MTwoPhaseAudit m) x =
     (case TwoPhaseAudit_Execute E flag m x of
        None \<Rightarrow> None | Some (r, m1, x1) \<Rightarrow> Some (r, MTwoPhaseAudit m1, x1))"
| "obj_Execute E flag (MGetDriverId m) x =
     (case GetDriverId_Execute E m x of (r, m1, x1) \<Rightarrow> Some (r, MGetDriverId m1, x1))"

end
