(* ===== verification/TcOper.thy ===== *)
theory TcOper
  imports TcLockMgr TcDb TcMsgFactory "HOL-Library.Monad_Syntax"
begin

text \<open>
  The state of the coordinator as its operations see it, the base class
  \<^verbatim>\<open>TcOperations\<close> (\<^verbatim>\<open>tc_operations.cc\<close>) with its template method
  \<^verbatim>\<open>Dispatch\<close>, and the counters of \<^verbatim>\<open>TcReadStatusOperations\<close> that several operations
  set. A method returns \<open>None\<close> when the process is aborted: a failed \<^verbatim>\<open>PFC_VERIFY\<close> or the use of a
  null pointer. The virtual methods of a class are collected in a record.
\<close>

section \<open>State and environment\<close>

datatype TcOperEnum =
    INPUT_VALIDATION | GET_EXCLUSION_PHASE | CREATE_MSG_LIST | EXECUTE_PHASE
  | RELEASE_EXCLUSION_PHASE | SEND_RESPONSE_PHASE

datatype TcAuditCancelStatus = AUDIT_CANCEL_DONE | AUDIT_CANCEL_INPROGRESS

datatype TcReadStatusType = TC_DB_STATUS_CONFIRMED | TC_DB_STATUS_UPDATING

fun read_status_num :: "TcReadStatusType \<Rightarrow> u8" where
  "read_status_num TC_DB_STATUS_CONFIRMED = 0" | "read_status_num TC_DB_STATUS_UPDATING = 1"

record read_status =
  commit_number :: u64
  save_number :: u64
  runningDB_status :: TcReadStatusType
  startupDB_status :: TcReadStatusType

text \<open>The flags of a driver audit that waits in the queue; the queue holds the addresses of audits.\<close>

record audit_wait =
  primary_wait_signalled :: bool
  secondary_wait_signalled :: bool

text \<open>
  The static members and the objects the operations share. A queue of waiting operations holds
  their session ids; the signals sent to the condition variables of the waiters are recorded.
\<close>

record tc_state =
  tc_lock :: TcLock
  tc_ipc :: ipc_state
  tc_msgs :: TcMsgGlobals
  rd_status :: read_status
  audit_phase :: TcAuditPhase
  audit_cancel_status :: TcAuditCancelStatus
  audit_cancel_notify :: "TcDaemonName list"
  state_changed_to_sby :: bool
  config_req_queue :: "u32 list"
  config_signals :: "u32 list"
  candidate_req_queue :: "u32 list"
  candidate_signals :: "u32 list"
  drv_audit_req_queue :: "nat list"
  audit_waits :: "nat \<Rightarrow> audit_wait"
  secondary_driver_audit_timeout :: u32

text \<open>
  What is outside the thread that runs an operation: the calls that leave the process; a wait on
  a condition variable until a deadline or without one, with the state the other threads left when
  it ends and whether it was ended by a signal; a cancellation of the audit that another thread asks
  for while a message is executed; the clock, in seconds and microseconds; and the values found in
  members that a constructor leaves unset.
\<close>

record tc_env =
  ext :: ipc_env
  gettimeofday :: "tc_state \<Rightarrow> int \<times> int"
  cancel_seen :: "ipc_history \<Rightarrow> bool"
  cond_wait :: "(int \<times> int) option \<Rightarrow> tc_state \<Rightarrow> bool \<times> tc_state"
  unset_bool :: bool
  unset_mode :: TcConfigMode
  unset_u64 :: u64

definition via_ipc :: "(ipc_state \<Rightarrow> 'r \<times> ipc_state) \<Rightarrow> tc_state \<Rightarrow> 'r \<times> tc_state" where
  "via_ipc f w = (let (r, i) = f (tc_ipc w) in (r, w\<lparr>tc_ipc := i\<rparr>))"

definition via_lock :: "(TcLock \<Rightarrow> 'r \<times> TcLock) \<Rightarrow> tc_state \<Rightarrow> 'r \<times> tc_state" where
  "via_lock f w = (let (r, l) = f (tc_lock w) in (r, w\<lparr>tc_lock := l\<rparr>))"

text \<open>A call of the lock that has to return.\<close>

definition take_lock :: "(TcLock \<Rightarrow> lock_outcome \<times> TcLock) \<Rightarrow> tc_state \<Rightarrow> (TcLockRet \<times> tc_state) option" where
  "take_lock f w =
     (case f (tc_lock w) of (Returned r, l) \<Rightarrow> Some (r, w\<lparr>tc_lock := l\<rparr>) | _ \<Rightarrow> None)"


section \<open>Read status\<close>

definition read_status_init :: read_status where
  "read_status_init = \<lparr>commit_number = 1, save_number = 1, runningDB_status = TC_DB_STATUS_CONFIRMED,
     startupDB_status = TC_DB_STATUS_CONFIRMED\<rparr>"

definition SetRunningStatus :: "tc_state \<Rightarrow> tc_state" where
  "SetRunningStatus w = w\<lparr>rd_status := (rd_status w)\<lparr>runningDB_status := TC_DB_STATUS_UPDATING\<rparr>\<rparr>"

definition SetStartupStatus :: "tc_state \<Rightarrow> tc_state" where
  "SetStartupStatus w = w\<lparr>rd_status := (rd_status w)\<lparr>startupDB_status := TC_DB_STATUS_UPDATING\<rparr>\<rparr>"

definition SetRunningStatusIncr :: "tc_state \<Rightarrow> tc_state" where
  "SetRunningStatusIncr w =
     w\<lparr>rd_status := (rd_status w)\<lparr>commit_number := commit_number (rd_status w) + 1,
                                  runningDB_status := TC_DB_STATUS_CONFIRMED\<rparr>\<rparr>"

definition SetStartupStatusIncr :: "tc_state \<Rightarrow> tc_state" where
  "SetStartupStatusIncr w =
     w\<lparr>rd_status := (rd_status w)\<lparr>save_number := save_number (rd_status w) + 1,
                                  startupDB_status := TC_DB_STATUS_CONFIRMED\<rparr>\<rparr>"

definition ReadStatus_Init :: "tc_state \<Rightarrow> tc_state" where
  "ReadStatus_Init w = w\<lparr>rd_status := read_status_init\<rparr>"

definition GetRunningStatus :: "tc_state \<Rightarrow> u64 \<times> TcReadStatusType" where
  "GetRunningStatus w = (commit_number (rd_status w), runningDB_status (rd_status w))"

definition GetStartupStatus :: "tc_state \<Rightarrow> u64 \<times> TcReadStatusType" where
  "GetStartupStatus w = (save_number (rd_status w), startupDB_status (rd_status w))"


section \<open>The base class\<close>

record TcOperations =
  ssess :: bool
  db_hdlr :: "TcDbHandler option"
  unc_oper_channel_map :: TcChannelNameMap
  op_session_id :: u32
  tc_oper :: TcServiceType
  TcOperMessageList :: "TcMsgOperType list"
  tc_oper_status :: TcOperEnum
  audit_db_fail :: bool
  csess :: "nat option"
  cconn :: u32

type_synonym 'o meth = "tc_env \<Rightarrow> 'o \<Rightarrow> tc_state \<Rightarrow> (TcOperStatus \<times> 'o \<times> tc_state) option"

definition TcOperations_new :: "bool \<Rightarrow> TcDbHandler option \<Rightarrow> TcChannelNameMap \<Rightarrow> TcOperations" where
  "TcOperations_new has_sess h channels =
     \<lparr>ssess = has_sess, db_hdlr = h, unc_oper_channel_map = channels, op_session_id = 0,
      tc_oper = TC_OP_INVALID, TcOperMessageList = [], tc_oper_status = INPUT_VALIDATION,
      audit_db_fail = False, csess = None, cconn = 0\<rparr>"

definition TcOperations_delete :: "tc_env \<Rightarrow> 'a TcOperations_scheme \<Rightarrow> tc_state \<Rightarrow> tc_state" where
  "TcOperations_delete E ob w =
     (let w1 = (case db_hdlr ob of
                  None \<Rightarrow> w | Some h \<Rightarrow> snd (via_ipc (CloseDBConnection (ext E) h) w))
      in if csess ob = None then w1
         else snd (via_ipc (tc_session_close (ext E) (csess ob) (cconn ob)) w1))"

text \<open>A call through the database pointer.\<close>

definition via_db :: "'a TcOperations_scheme \<Rightarrow> (ipc_state \<Rightarrow> 'r \<times> ipc_state) \<Rightarrow> tc_state \<Rightarrow> ('r \<times> tc_state) option" where
  "via_db ob f w = (if db_hdlr ob = None then None else Some (via_ipc f w))"

subsection \<open>Arguments of a request\<close>

abbreviation (input) TC_REQ_OP_TYPE_INDEX :: u32 where "TC_REQ_OP_TYPE_INDEX \<equiv> 0"
abbreviation (input) TC_REQ_SESSION_ID_INDEX :: u32 where "TC_REQ_SESSION_ID_INDEX \<equiv> 1"
abbreviation (input) TC_REQ_ARG_INDEX :: u32 where "TC_REQ_ARG_INDEX \<equiv> 2"

text \<open>How a failed read of an argument is reported.\<close>

fun arg_status :: "TcUtilRet \<Rightarrow> TcOperStatus" where
  "arg_status TCUTIL_RET_FAILURE = TC_OPER_INVALID_INPUT"
| "arg_status TCUTIL_RET_FATAL = TC_OPER_FAILURE"
| "arg_status TCUTIL_RET_SUCCESS = TC_OPER_SUCCESS"

definition GetOperType :: "'a TcOperations_scheme \<Rightarrow> tc_state \<Rightarrow> TcOperStatus \<times> 'a TcOperations_scheme" where
  "GetOperType ob w =
     (case srv_get_uint32 TC_REQ_OP_TYPE_INDEX (tc_ipc w) of
        Inl r \<Rightarrow> (arg_status r, ob)
      | Inr n \<Rightarrow> (TC_OPER_SUCCESS, ob\<lparr>tc_oper := to_service n\<rparr>))"

definition GetSessionId :: "'a TcOperations_scheme \<Rightarrow> tc_state \<Rightarrow> TcOperStatus \<times> 'a TcOperations_scheme" where
  "GetSessionId ob w =
     (case srv_get_uint32 TC_REQ_SESSION_ID_INDEX (tc_ipc w) of
        Inl r \<Rightarrow> (arg_status r, ob)
      | Inr n \<Rightarrow>
          (if n = 0 then TC_OPER_INVALID_INPUT else TC_OPER_SUCCESS, ob\<lparr>op_session_id := n\<rparr>))"

text \<open>
  The validation methods of a class: the least number of arguments, the session, the operation type, the
  number of arguments and the parameters.
\<close>

record 'o arg_methods =
  TcGetMinArgCount :: nat
  op_GetSessionId :: "'o \<Rightarrow> tc_state \<Rightarrow> TcOperStatus \<times> 'o"
  TcValidateOperType :: "tc_env \<Rightarrow> 'o \<Rightarrow> tc_state \<Rightarrow> TcOperStatus \<times> tc_state"
  TcCheckOperArgCount :: "nat \<Rightarrow> 'o \<Rightarrow> TcOperStatus \<times> 'o"
  TcValidateOperParams :: "'o meth"

definition HandleArgs :: "'a TcOperations_scheme arg_methods \<Rightarrow> 'a TcOperations_scheme meth" where
  "HandleArgs A E ob w =
     (if \<not> ssess ob
      then (let (r, w1) = TcValidateOperType A E ob w in Some (r, ob, w1))
      else let count = length (srv_args (tc_ipc w))
      in if TcGetMinArgCount A > 0 \<and> count \<ge> TcGetMinArgCount A
         then (let (r1, o1) = GetOperType ob w
               in if r1 \<noteq> TC_OPER_SUCCESS then Some (r1, o1, w)
               else let (r2, o2) = op_GetSessionId A o1 w
               in if r2 \<noteq> TC_OPER_SUCCESS then Some (r2, o2, w)
               else let (r3, w3) = TcValidateOperType A E o2 w
               in if r3 \<noteq> TC_OPER_SUCCESS then Some (r3, o2, w3)
               else let (r4, o4) = TcCheckOperArgCount A count o2
               in if r4 \<noteq> TC_OPER_SUCCESS then Some (r4, o4, w3)
               else TcValidateOperParams A E o4 w3)
         else Some (TC_OPER_INVALID_INPUT, ob, w))"

subsection \<open>Response\<close>

definition put_u32 :: "tc_env \<Rightarrow> u32 \<Rightarrow> tc_state \<Rightarrow> TcOperStatus \<times> tc_state" where
  "put_u32 E x w = (let (r, w1) = via_ipc (srv_set_uint32 (ext E) x) w in (arg_status r, w1))"

text \<open>The type of the operation is narrowed to eight bits before it is written.\<close>

definition SetOperType :: "tc_env \<Rightarrow> 'a TcOperations_scheme \<Rightarrow> tc_state \<Rightarrow> TcOperStatus \<times> tc_state" where
  "SetOperType E ob w = put_u32 E (ucast (ucast (service_num (tc_oper ob)) :: u8)) w"

definition SetSessionId :: "tc_env \<Rightarrow> 'a TcOperations_scheme \<Rightarrow> tc_state \<Rightarrow> TcOperStatus \<times> tc_state" where
  "SetSessionId E ob w = put_u32 E (op_session_id ob) w"

definition SetOperStatus :: "tc_env \<Rightarrow> TcOperStatus \<Rightarrow> tc_state \<Rightarrow> TcOperStatus \<times> tc_state" where
  "SetOperStatus E st w = put_u32 E (status_num st) w"

definition SendResponse ::
  "(TcOperStatus \<Rightarrow> 'a TcOperations_scheme meth) \<Rightarrow> TcOperStatus \<Rightarrow> 'a TcOperations_scheme meth" where
  "SendResponse additional st E ob w =
     (if \<not> ssess ob \<or> st = TC_OPER_INVALID_INPUT \<or> st = TC_OPER_FAILURE then Some (st, ob, w)
      else let (r1, w1) = SetOperType E ob w
      in if r1 \<noteq> TC_OPER_SUCCESS then Some (TC_OPER_FAILURE, ob, w1)
      else let (r2, w2) = SetSessionId E ob w1
      in if r2 \<noteq> TC_OPER_SUCCESS then Some (TC_OPER_FAILURE, ob, w2)
      else let (r3, w3) = SetOperStatus E st w2
      in if r3 \<noteq> TC_OPER_SUCCESS then Some (TC_OPER_FAILURE, ob, w3)
      else additional st E ob w3)"

subsection \<open>Dispatch\<close>

record 'o op_methods =
  op_HandleArgs :: "'o meth"
  op_GetExclusion :: "'o meth"
  op_CreateMsgList :: "'o meth"
  op_Execute :: "'o meth"
  op_ReleaseExclusion :: "'o meth"
  op_SendResponse :: "TcOperStatus \<Rightarrow> 'o meth"

definition RevokeOperation ::
  "'a TcOperations_scheme op_methods \<Rightarrow> TcOperStatus \<Rightarrow> 'a TcOperations_scheme meth" where
  "RevokeOperation V st E ob w =
     (case tc_oper_status ob of
        INPUT_VALIDATION \<Rightarrow> op_SendResponse V st E ob w
      | GET_EXCLUSION_PHASE \<Rightarrow> op_SendResponse V st E ob w
      | RELEASE_EXCLUSION_PHASE \<Rightarrow> op_SendResponse V TC_SYSTEM_FAILURE E ob w
      | SEND_RESPONSE_PHASE \<Rightarrow> Some (TC_OPER_FAILURE, ob, w)
      | _ \<Rightarrow> do {
          (r, o1, w1) \<leftarrow> op_ReleaseExclusion V E ob w;
          op_SendResponse V (if r = TC_OPER_SUCCESS then st else TC_SYSTEM_FAILURE) E o1 w1
        })"

text \<open>
  One phase: the phase is recorded, the method runs, and a failure revokes the operation;
  otherwise the next phase follows.
\<close>

definition run_phase ::
  "'a TcOperations_scheme op_methods \<Rightarrow> TcOperEnum \<Rightarrow> 'a TcOperations_scheme meth
     \<Rightarrow> 'a TcOperations_scheme meth \<Rightarrow> 'a TcOperations_scheme meth" where
  "run_phase V ph m continue E ob w = do {
     (r, o1, w1) \<leftarrow> m E (ob\<lparr>tc_oper_status := ph\<rparr>) w;
     if r \<noteq> TC_OPER_SUCCESS then RevokeOperation V r E o1 w1 else continue E o1 w1
   }"

text \<open>
  The phases that follow a successful exclusion; they end every variant of the dispatch, and
  \<open>finish\<close> is what comes after the last of them.
\<close>

definition dispatch_tail ::
  "'a TcOperations_scheme op_methods \<Rightarrow> 'a TcOperations_scheme meth \<Rightarrow> 'a TcOperations_scheme meth" where
  "dispatch_tail V finish =
     run_phase V CREATE_MSG_LIST (op_CreateMsgList V)
      (run_phase V EXECUTE_PHASE (op_Execute V)
        (run_phase V RELEASE_EXCLUSION_PHASE (op_ReleaseExclusion V) finish))"

definition Dispatch :: "'a TcOperations_scheme op_methods \<Rightarrow> 'a TcOperations_scheme meth" where
  "Dispatch V =
     run_phase V INPUT_VALIDATION (op_HandleArgs V)
      (run_phase V GET_EXCLUSION_PHASE (op_GetExclusion V)
        (dispatch_tail V (op_SendResponse V TC_OPER_SUCCESS)))"

subsection \<open>Messages\<close>

fun HandleMsgRet :: "TcOperRet \<Rightarrow> TcOperStatus" where
  "HandleMsgRet TCOPER_RET_FATAL = TC_SYSTEM_FAILURE"
| "HandleMsgRet TCOPER_RET_FAILURE = TC_SYSTEM_FAILURE"
| "HandleMsgRet TCOPER_RET_ABORT = TC_OPER_ABORT"
| "HandleMsgRet TCOPER_RET_NO_DRIVER = TC_OPER_DRIVER_NOT_PRESENT"
| "HandleMsgRet TCOPER_RET_AUDIT_CANCELLED = TC_OPER_AUDIT_CANCELLED"
| "HandleMsgRet _ = TC_OPER_SUCCESS"

definition new_msg :: "tc_env \<Rightarrow> 'a TcOperations_scheme \<Rightarrow> TcMsgOperType \<Rightarrow> TcMsgObj option" where
  "new_msg E ob t =
     CreateInstance (unset_bool E) (unset_mode E) (op_session_id ob) t (unc_oper_channel_map ob)"

text \<open>A message sees the flag as it was set before, or as another thread sets it meanwhile.\<close>

definition cancel_flag_of :: "tc_env \<Rightarrow> tc_state \<Rightarrow> cancel_flag" where
  "cancel_flag_of E w h \<longleftrightarrow> GetAuditCancelFlag (tc_msgs w) \<or> cancel_seen E h"

definition msg_state_of :: "tc_state \<Rightarrow> msg_state" where
  "msg_state_of w =
     \<lparr>ms_ipc = tc_ipc w, ms_phase = audit_phase w, ms_cancel_notify = audit_cancel_notify w,
      ms_controller = notify_controller_id (tc_msgs w)\<rparr>"

definition put_msg_state :: "msg_state \<Rightarrow> tc_state \<Rightarrow> tc_state" where
  "put_msg_state x w =
     w\<lparr>tc_ipc := ms_ipc x, audit_phase := ms_phase x, audit_cancel_notify := ms_cancel_notify x,
       tc_msgs := SetNotifyControllerId (ms_controller x) (tc_msgs w)\<rparr>"

definition execute_msg :: "tc_env \<Rightarrow> TcMsgObj \<Rightarrow> tc_state \<Rightarrow> (TcOperRet \<times> TcMsgObj \<times> tc_state) option" where
  "execute_msg E m w = do {
     (r, m1, x) \<leftarrow> obj_Execute (ext E) (cancel_flag_of E w) m (msg_state_of w);
     Some (r, m1, put_msg_state x w)
   }"

definition delete_msg :: "tc_env \<Rightarrow> TcMsgObj \<Rightarrow> tc_state \<Rightarrow> tc_state" where
  "delete_msg E m w = w\<lparr>tc_ipc := obj_delete (ext E) m (tc_ipc w)\<rparr>"

type_synonym 'o fill =
  "tc_env \<Rightarrow> TcMsgObj \<Rightarrow> TcMsgOperType \<Rightarrow> 'o \<Rightarrow> tc_state \<Rightarrow> (TcOperStatus \<times> TcMsgObj \<times> 'o \<times> tc_state) option"

fun execute_list ::
  "'a TcOperations_scheme fill \<Rightarrow> TcMsgOperType list \<Rightarrow> 'a TcOperations_scheme meth" where
  "execute_list fill [] E ob w = Some (TC_OPER_SUCCESS, ob, w)"
| "execute_list fill (t # ts) E ob w =
     (case new_msg E ob t of
        None \<Rightarrow> Some (TC_SYSTEM_FAILURE, ob, w)
      | Some m \<Rightarrow> do {
          (r, m1, o1, w1) \<leftarrow> fill E m t ob w;
          if r \<noteq> TC_OPER_SUCCESS then Some (TC_SYSTEM_FAILURE, o1, delete_msg E m1 w1)
          else do {
            (mr, m2, w2) \<leftarrow> execute_msg E m1 w1;
            if mr \<noteq> TCOPER_RET_SUCCESS then Some (HandleMsgRet mr, o1, delete_msg E m2 w2)
            else execute_list fill ts E o1 (delete_msg E m2 w2)
          }
        })"

definition Execute :: "'a TcOperations_scheme fill \<Rightarrow> 'a TcOperations_scheme meth" where
  "Execute fill E ob w =
     (if TcOperMessageList ob = [] then Some (TC_OPER_FAILURE, ob, w)
      else execute_list fill (TcOperMessageList ob) E ob w)"

subsection \<open>Static members\<close>

definition SetAuditPhase :: "TcAuditPhase \<Rightarrow> tc_state \<Rightarrow> tc_state" where
  "SetAuditPhase p w = w\<lparr>audit_phase := p\<rparr>"

definition GetAuditPhase :: "tc_state \<Rightarrow> TcAuditPhase" where
  "GetAuditPhase w = audit_phase w"

definition SetAuditCancelStatus :: "TcAuditCancelStatus \<Rightarrow> tc_state \<Rightarrow> tc_state" where
  "SetAuditCancelStatus c w = w\<lparr>audit_cancel_status := c\<rparr>"

definition GetAuditCancelStatus :: "tc_state \<Rightarrow> TcAuditCancelStatus" where
  "GetAuditCancelStatus w = audit_cancel_status w"

definition IsStateChangedToSby :: "tc_state \<Rightarrow> bool" where
  "IsStateChangedToSby w = state_changed_to_sby w"

definition SetStateChangedToSby :: "bool \<Rightarrow> tc_state \<Rightarrow> tc_state" where
  "SetStateChangedToSby b w = w\<lparr>state_changed_to_sby := b\<rparr>"

subsection \<open>Asking the layers whether the candidate configuration is dirty\<close>

text \<open>
  The question to one layer: \<open>None\<close> for each of the errors that make the caller return
  \<^verbatim>\<open>PFC_FALSE\<close>. A session that was opened and not closed stays in the object; the answer
  is an eight-bit truth value.
\<close>

fun dirty_service :: "TcDaemonName \<Rightarrow> u32 \<times> u32" where
  "dirty_service TC_UPLL = (UPLL_GLOBAL_CONFIG_SVC_ID, 101)"
| "dirty_service d = (UPPL_SVC_GLOBAL_CONFIG, 0)"

definition dirty_answer :: "nat \<Rightarrow> u32 \<Rightarrow> ipc_state \<Rightarrow> u8 option" where
  "dirty_answer p oper i =
     (case (get_uint32 (Some p) 0 i, get_uint32 (Some p) 1 i, get_uint8 (Some p) 2 i) of
        (Inr a, Inr code, Inr dirty) \<Rightarrow> if a = oper \<and> code = 0 then Some dirty else None
      | _ \<Rightarrow> None)"

definition ask_dirty ::
  "ipc_env \<Rightarrow> string \<Rightarrow> TcDaemonName \<Rightarrow> u32 \<Rightarrow> u32 \<Rightarrow> 'a TcOperations_scheme \<Rightarrow> ipc_state
     \<Rightarrow> u8 option \<times> 'a TcOperations_scheme \<times> ipc_state" where
  "ask_dirty E channel d sid cid ob i =
     (let (svc, oper) = dirty_service d
      in case create_tc_client_session E channel svc True False i of
           (None, i1) \<Rightarrow> (None, ob\<lparr>csess := None\<rparr>, i1)
         | (Some (p, c), i1) \<Rightarrow>
             (let o1 = ob\<lparr>csess := Some p, cconn := c\<rparr>
              in case append_data E p [Put (IpcU32 oper), Put (IpcU32 sid), Put (IpcU32 cid)] i1 of
                   (Appended, i2) \<Rightarrow>
                     (case tc_session_invoke E (Some p) i2 of
                        (r, resp, i3) \<Rightarrow>
                          if r \<noteq> TCUTIL_RET_SUCCESS \<or> resp \<noteq> 0 then (None, o1, i3)
                          else case dirty_answer p oper i3 of
                              None \<Rightarrow> (None, o1, i3)
                            | Some dirty \<Rightarrow>
                                (Some dirty, o1\<lparr>csess := None\<rparr>, snd (tc_session_close E (Some p) c i3)))
                 | (_, i2) \<Rightarrow> (None, o1, i2)))"

text \<open>
  The name of the channel survives from one round of the loop to the next, so a layer without a
  channel of its own is asked on the channel of the layer before it.
\<close>

fun dirty_loop ::
  "ipc_env \<Rightarrow> TcDaemonName list \<Rightarrow> string \<Rightarrow> u8 \<Rightarrow> u32 \<Rightarrow> u32 \<Rightarrow> 'a TcOperations_scheme \<Rightarrow> ipc_state
     \<Rightarrow> u8 \<times> 'a TcOperations_scheme \<times> ipc_state" where
  "dirty_loop E [] channel dirty sid cid ob i = (dirty, ob, i)"
| "dirty_loop E (d # ds) channel dirty sid cid ob i =
     (let channel1 = (case unc_oper_channel_map ob d of None \<Rightarrow> channel | Some c \<Rightarrow> c)
      in if channel1 = '''' then (0, ob, i)
         else case ask_dirty E channel1 d sid cid ob i of
             (None, o1, i1) \<Rightarrow> (0, o1, i1)
           | (Some dirty1, o1, i1) \<Rightarrow>
               if dirty1 = 1 then (1, o1, i1)
               else dirty_loop E ds channel1 dirty1 sid cid o1 i1)"

definition IsCandidateDirty ::
  "tc_env \<Rightarrow> u32 \<Rightarrow> u32 \<Rightarrow> 'a TcOperations_scheme \<Rightarrow> tc_state
     \<Rightarrow> u8 \<times> 'a TcOperations_scheme \<times> tc_state" where
  "IsCandidateDirty E sid cid ob w =
     (case dirty_loop (ext E) [TC_UPLL, TC_UPPL] '''' 0 sid cid ob (tc_ipc w) of
        (dirty, o1, i1) \<Rightarrow> (dirty, o1, w\<lparr>tc_ipc := i1\<rparr>))"

end
