(* ===== verification/TcConfigOps.thy ===== *)
theory TcConfigOps
  imports TcOper
begin

text \<open>
  \<^verbatim>\<open>TcConfigOperations\<close> (\<^verbatim>\<open>tc_config_operations.cc\<close>): acquiring and releasing a
  configuration session, at once, by force, for a part of the configuration, or with a timeout
  in the queue of waiting requests.
\<close>

section \<open>Object\<close>

record TcConfigOperations = TcOperations +
  cf_config_id :: u32
  cf_timeout :: i32
  tc_mode :: TcConfigMode
  cf_vtn_name :: string

definition TcConfigOperations_new ::
  "bool \<Rightarrow> TcDbHandler option \<Rightarrow> TcChannelNameMap \<Rightarrow> TcConfigOperations" where
  "TcConfigOperations_new has_sess h channels =
     TcOperations.extend (TcOperations_new has_sess h channels)
       (TcConfigOperations.fields 0 0 TC_CONFIG_INVALID '''')"

section \<open>The queue of waiting requests\<close>

definition InsertConfigRequest :: "u32 \<Rightarrow> tc_state \<Rightarrow> tc_state" where
  "InsertConfigRequest sid w = w\<lparr>config_req_queue := config_req_queue w @ [sid]\<rparr>"

definition RemoveConfigRequest :: "u32 \<Rightarrow> tc_state \<Rightarrow> tc_state" where
  "RemoveConfigRequest sid w = w\<lparr>config_req_queue := remove1 sid (config_req_queue w)\<rparr>"

definition RetrieveConfigRequest :: "tc_state \<Rightarrow> u32 option" where
  "RetrieveConfigRequest w = (case config_req_queue w of [] \<Rightarrow> None | sid # _ \<Rightarrow> Some sid)"

definition IsConfigReqQueueEmpty :: "tc_state \<Rightarrow> bool" where
  "IsConfigReqQueueEmpty w \<longleftrightarrow> config_req_queue w = []"

definition ClearConfigAcquisitionQueue :: "tc_state \<Rightarrow> tc_state" where
  "ClearConfigAcquisitionQueue w =
     w\<lparr>config_req_queue := [], config_signals := config_signals w @ config_req_queue w\<rparr>"

text \<open>The first waiting request is woken; it leaves the queue itself.\<close>

definition HandleConfigRelease :: "tc_state \<Rightarrow> tc_state" where
  "HandleConfigRelease w =
     (case RetrieveConfigRequest w of
        None \<Rightarrow> w | Some sid \<Rightarrow> w\<lparr>config_signals := config_signals w @ [sid]\<rparr>)"

section \<open>Validation\<close>

fun Config_HandleLockRet :: "TcLockRet \<Rightarrow> TcOperStatus" where
  "Config_HandleLockRet TC_LOCK_INVALID_UNC_STATE = TC_INVALID_STATE"
| "Config_HandleLockRet TC_LOCK_OPERATION_NOT_ALLOWED = TC_INVALID_STATE"
| "Config_HandleLockRet TC_LOCK_BUSY = TC_SYSTEM_BUSY"
| "Config_HandleLockRet TC_LOCK_INVALID_SESSION_ID = TC_INVALID_SESSION_ID"
| "Config_HandleLockRet TC_LOCK_INVALID_CONFIG_ID = TC_INVALID_CONFIG_ID"
| "Config_HandleLockRet TC_LOCK_NOT_ACQUIRED = TC_CONFIG_NOT_PRESENT"
| "Config_HandleLockRet TC_LOCK_NO_CONFIG_SESSION_EXIST = TC_CONFIG_NOT_PRESENT"
| "Config_HandleLockRet _ = TC_OPER_FAILURE"

definition Config_TcCheckOperArgCount ::
  "nat \<Rightarrow> TcConfigOperations \<Rightarrow> TcOperStatus \<times> TcConfigOperations" where
  "Config_TcCheckOperArgCount n ob =
     (let bad = (case tc_oper ob of
                   TC_OP_CONFIG_ACQUIRE \<Rightarrow> n \<noteq> 2
                 | TC_OP_CONFIG_ACQUIRE_FORCE \<Rightarrow> n \<noteq> 2
                 | TC_OP_CONFIG_RELEASE \<Rightarrow> n \<noteq> 3
                 | TC_OP_CONFIG_ACQUIRE_TIMED \<Rightarrow> n \<noteq> 3
                 | TC_OP_CONFIG_ACQUIRE_PARTIAL \<Rightarrow> n < 3 \<or> n > 4
                 | _ \<Rightarrow> False)
      in (if bad then TC_OPER_INVALID_INPUT else TC_OPER_SUCCESS, ob))"

definition Config_TcValidateOperType ::
  "tc_env \<Rightarrow> TcConfigOperations \<Rightarrow> tc_state \<Rightarrow> TcOperStatus \<times> tc_state" where
  "Config_TcValidateOperType E ob w =
     (if service_num (tc_oper ob) < service_num TC_OP_CONFIG_ACQUIRE \<or>
         service_num (tc_oper ob) > service_num TC_OP_CONFIG_ACQUIRE_FORCE
      then (TC_INVALID_OPERATION_TYPE, w)
      else (TC_OPER_SUCCESS,
            if tc_oper ob = TC_OP_CONFIG_ACQUIRE_TIMED \<and> ssess ob
            then snd (via_ipc (set_srv_timeout (ext E)) w) else w))"

definition validate_release :: "TcConfigOperations \<Rightarrow> tc_state \<Rightarrow> TcOperStatus \<times> TcConfigOperations" where
  "validate_release ob w =
     (case srv_get_uint32 TC_REQ_ARG_INDEX (tc_ipc w) of
        Inl r \<Rightarrow> (arg_status r, ob)
      | Inr cid \<Rightarrow>
          (case GetConfigData (op_session_id ob) (tc_lock w) of
             (lr, d) \<Rightarrow>
               (if lr \<noteq> TC_LOCK_SUCCESS then Config_HandleLockRet lr
                else if cd_config_id d \<noteq> Some cid then TC_INVALID_CONFIG_ID
                else TC_OPER_SUCCESS, ob\<lparr>cf_config_id := cid\<rparr>)))"

definition validate_partial :: "TcConfigOperations \<Rightarrow> tc_state \<Rightarrow> TcOperStatus \<times> TcConfigOperations" where
  "validate_partial ob w =
     (case srv_get_uint32 TC_REQ_ARG_INDEX (tc_ipc w) of
        Inl r \<Rightarrow> (arg_status r, ob)
      | Inr m \<Rightarrow>
          (let o1 = ob\<lparr>tc_mode := to_config_mode m\<rparr>
           in case tc_mode o1 of
                TC_CONFIG_GLOBAL \<Rightarrow> (TC_OPER_SUCCESS, o1)
              | TC_CONFIG_REAL \<Rightarrow> (TC_OPER_SUCCESS, o1)
              | TC_CONFIG_VIRTUAL \<Rightarrow> (TC_OPER_SUCCESS, o1)
              | TC_CONFIG_VTN \<Rightarrow>
                  (case srv_get_string (TC_REQ_ARG_INDEX + 1) (tc_ipc w) of
                     Inl r \<Rightarrow> (arg_status r, o1)
                   | Inr nm \<Rightarrow>
                       if nm = '''' then (TC_OPER_INVALID_INPUT, o1)
                       else (TC_OPER_SUCCESS, o1\<lparr>cf_vtn_name := nm\<rparr>))
              | _ \<Rightarrow> (TC_OPER_INVALID_INPUT, o1)))"

definition Config_TcValidateOperParams :: "TcConfigOperations meth" where
  "Config_TcValidateOperParams E ob w =
     (let (r, o1) =
        (case tc_oper ob of
           TC_OP_CONFIG_RELEASE \<Rightarrow> validate_release ob w
         | TC_OP_CONFIG_ACQUIRE \<Rightarrow> (TC_OPER_SUCCESS, ob\<lparr>tc_mode := TC_CONFIG_GLOBAL\<rparr>)
         | TC_OP_CONFIG_ACQUIRE_FORCE \<Rightarrow> (TC_OPER_SUCCESS, ob\<lparr>tc_mode := TC_CONFIG_GLOBAL\<rparr>)
         | TC_OP_CONFIG_ACQUIRE_TIMED \<Rightarrow>
             (let o1 = ob\<lparr>tc_mode := TC_CONFIG_GLOBAL\<rparr>
              in case srv_get_int32 TC_REQ_ARG_INDEX (tc_ipc w) of
                   Inl r \<Rightarrow> (arg_status r, o1)
                 | Inr t \<Rightarrow> (TC_OPER_SUCCESS, o1\<lparr>cf_timeout := t\<rparr>))
         | TC_OP_CONFIG_ACQUIRE_PARTIAL \<Rightarrow> validate_partial ob w
         | _ \<Rightarrow> (TC_OPER_SUCCESS, ob))
      in Some (r, o1, w))"

definition config_args :: "TcConfigOperations arg_methods" where
  "config_args = \<lparr>TcGetMinArgCount = 2, op_GetSessionId = GetSessionId,
     TcValidateOperType = Config_TcValidateOperType,
     TcCheckOperArgCount = Config_TcCheckOperArgCount,
     TcValidateOperParams = Config_TcValidateOperParams\<rparr>"

section \<open>Exclusion\<close>

text \<open>
  Releasing a global session clears the flag of a dirty global configuration when the layers
  report a clean candidate; a partial session is refused while the flag is set. A mode that the
  lock does not report is the value found in an unset variable.
\<close>

definition ValidateGlobalModeDirty :: "TcConfigOperations meth" where
  "ValidateGlobalModeDirty E ob w =
     (if tc_oper ob = TC_OP_CONFIG_RELEASE
      then let mode = (case cd_mode (snd (GetConfigData (op_session_id ob) (tc_lock w))) of
                         None \<Rightarrow> unset_mode E | Some m \<Rightarrow> m)
           in if mode \<noteq> TC_CONFIG_GLOBAL then Some (TC_OPER_SUCCESS, ob, w)
              else (case IsCandidateDirty E (op_session_id ob) (cf_config_id ob) ob w of
                (dirty, o1, w1) \<Rightarrow>
                  if dirty \<noteq> 0 then Some (TC_OPER_SUCCESS, o1, w1)
                  else do {
                    (r, w2) \<leftarrow> via_db o1 (UpdateRecoveryTableGlobalModeDirty (ext E) False) w1;
                    Some (if r \<noteq> TCOPER_RET_SUCCESS then TC_SYSTEM_FAILURE else TC_OPER_SUCCESS, o1, w2)
                  })
      else if tc_oper ob = TC_OP_CONFIG_ACQUIRE_PARTIAL
      then if db_hdlr ob = None then None
           else (case GetRecoveryTableGlobalModeDirty (ext E) False (tc_ipc w) of
             (r, dirty, i) \<Rightarrow>
               let w1 = w\<lparr>tc_ipc := i\<rparr>
               in Some (if r \<noteq> TCOPER_RET_SUCCESS then TC_SYSTEM_FAILURE
                        else if dirty \<and> tc_mode ob \<noteq> TC_CONFIG_GLOBAL then TC_SYSTEM_BUSY
                        else TC_OPER_SUCCESS, ob, w1))
      else Some (TC_OPER_SUCCESS, ob, w))"

definition lock_status :: "(TcLockRet \<Rightarrow> TcOperStatus) \<Rightarrow> TcLockRet \<Rightarrow> TcOperStatus" where
  "lock_status handle r = (if r \<noteq> TC_LOCK_SUCCESS then handle r else TC_OPER_SUCCESS)"

definition Config_TcGetExclusion :: "TcConfigOperations meth" where
  "Config_TcGetExclusion E ob w = do {
     (v, o1, w1) \<leftarrow> ValidateGlobalModeDirty E ob w;
     if v \<noteq> TC_OPER_SUCCESS then Some (v, o1, w1)
     else if tc_oper o1 = TC_OP_CONFIG_RELEASE
     then (let (r, w2) = via_lock (ReleaseLock (op_session_id o1) (cf_config_id o1)
                                     TC_RELEASE_CONFIG_SESSION TC_WRITE_NONE) w1
           in Some (lock_status Config_HandleLockRet r, o1, w2))
     else if tc_oper o1 \<in> {TC_OP_CONFIG_ACQUIRE, TC_OP_CONFIG_ACQUIRE_TIMED, TC_OP_CONFIG_ACQUIRE_PARTIAL}
     then do {
       (r, w2) \<leftarrow> take_lock (GetLock (op_session_id o1) TC_ACQUIRE_CONFIG_SESSION TC_WRITE_NONE
                               (tc_mode o1) (cf_vtn_name o1)) w1;
       Some (lock_status Config_HandleLockRet r, o1, w2)
     }
     else if tc_oper o1 = TC_OP_CONFIG_ACQUIRE_FORCE
     then do {
       (r, w2) \<leftarrow> take_lock (GetLock (op_session_id o1) TC_FORCE_ACQUIRE_CONFIG_SESSION TC_WRITE_NONE
                               TC_CONFIG_GLOBAL '''') w1;
       Some (lock_status Config_HandleLockRet r, o1, w2)
     }
     else Some (TC_INVALID_OPERATION_TYPE, o1, w1)
   }"

definition Config_TcReleaseExclusion :: "TcConfigOperations meth" where
  "Config_TcReleaseExclusion E ob w =
     (let (r, w1) = via_lock (NotifyConfigIdSessionIdDone (cf_config_id ob) (op_session_id ob)
            (if tc_oper ob = TC_OP_CONFIG_RELEASE then TC_NOTIFY_RELEASE else TC_NOTIFY_ACQUIRE)) w
      in Some (lock_status Config_HandleLockRet r, ob, w1))"

section \<open>Messages and response\<close>

definition Config_TcCreateMsgList :: "TcConfigOperations meth" where
  "Config_TcCreateMsgList E ob w =
     (if TcOperMessageList ob = []
      then Some (TC_OPER_SUCCESS, ob\<lparr>TcOperMessageList := [MSG_NOTIFY_CONFIGID]\<rparr>, w)
      else Some (TC_OPER_FAILURE, ob, w))"

definition Config_FillTcMsgData :: "TcConfigOperations fill" where
  "Config_FillTcMsgData E m t ob w =
     (if tc_oper ob \<noteq> TC_OP_CONFIG_RELEASE
      then (case GetConfigData (op_session_id ob) (tc_lock w) of
              (lr, d) \<Rightarrow>
                let o1 = (case cd_config_id d of None \<Rightarrow> ob | Some cid \<Rightarrow> ob\<lparr>cf_config_id := cid\<rparr>);
                    mode = (case cd_mode d of None \<Rightarrow> TC_CONFIG_INVALID | Some x \<Rightarrow> x)
                in if lr \<noteq> TC_LOCK_SUCCESS then Some (TC_OPER_FAILURE, m, o1, w)
                   else Some (TC_OPER_SUCCESS, SetData_mode (cf_config_id o1) mode (cd_vtn_name d) m, o1, w))
      else Some (TC_OPER_SUCCESS, SetData_mode 0 TC_CONFIG_INVALID '''' m, ob, w))"

definition Config_SetConfigId :: "tc_env \<Rightarrow> TcConfigOperations \<Rightarrow> tc_state \<Rightarrow> TcOperStatus \<times> tc_state" where
  "Config_SetConfigId E ob w =
     (let (r, w1) = via_ipc (srv_set_uint32 (ext E) (cf_config_id ob)) w
      in (if r \<noteq> TCUTIL_RET_SUCCESS then TC_OPER_FAILURE else TC_OPER_SUCCESS, w1))"

definition Config_SendAdditionalResponse :: "TcOperStatus \<Rightarrow> TcConfigOperations meth" where
  "Config_SendAdditionalResponse st E ob w =
     (if tc_oper ob \<noteq> TC_OP_CONFIG_RELEASE \<and> st = TC_OPER_SUCCESS
      then let (r, w1) = Config_SetConfigId E ob w
           in if r \<noteq> TC_OPER_SUCCESS then Some (r, ob, w1)
              else if tc_mode ob = TC_CONFIG_GLOBAL
              then do {
                (dr, w2) \<leftarrow> via_db ob (UpdateRecoveryTableGlobalModeDirty (ext E) True) w1;
                Some (if dr \<noteq> TCOPER_RET_SUCCESS then TC_SYSTEM_FAILURE else st, ob, w2)
              }
              else Some (st, ob, w1)
      else Some (st, ob, w))"

definition config_methods :: "TcConfigOperations op_methods" where
  "config_methods = \<lparr>op_HandleArgs = HandleArgs config_args, op_GetExclusion = Config_TcGetExclusion,
     op_CreateMsgList = Config_TcCreateMsgList, op_Execute = Execute Config_FillTcMsgData,
     op_ReleaseExclusion = Config_TcReleaseExclusion,
     op_SendResponse = SendResponse Config_SendAdditionalResponse\<rparr>"

section \<open>Timed acquisition\<close>

text \<open>The instant, in seconds and nanoseconds, that lies the given number of milliseconds ahead.\<close>

definition timed_deadline :: "int \<Rightarrow> int \<times> int \<Rightarrow> int \<times> int" where
  "timed_deadline ms now =
     (let sec = ms div 1000 + fst now; nsec = (ms mod 1000) * 1000000 + snd now * 1000
      in (sec + nsec div 1000000000, nsec mod 1000000000))"

definition config_wait :: "(int \<times> int) option \<Rightarrow> TcConfigOperations meth" where
  "config_wait deadline E ob w =
     (let w1 = InsertConfigRequest (op_session_id ob) w; (signalled, w2) = cond_wait E deadline w1
      in if \<not> signalled
         then Some (TC_SYSTEM_BUSY, ob, RemoveConfigRequest (op_session_id ob) w2)
         else if IsStateChangedToSby w2 then Some (TC_STATE_CHANGED, ob, w2)
         else do {
           (r, o1, w3) \<leftarrow> Config_TcGetExclusion E (ob\<lparr>tc_oper_status := GET_EXCLUSION_PHASE\<rparr>) w2;
           Some (r, o1, RemoveConfigRequest (op_session_id o1) w3)
         })"

definition HandleTimedConfigAcquisition :: "TcConfigOperations meth" where
  "HandleTimedConfigAcquisition E ob w =
     (let t = cf_timeout ob; o1 = ob\<lparr>tc_oper_status := GET_EXCLUSION_PHASE\<rparr>;
          deadline = (if t > 0 then Some (timed_deadline t (gettimeofday E w)) else None)
      in if t = 0
         then if config_req_queue w \<noteq> [] then Some (TC_SYSTEM_BUSY, ob, w)
              else Config_TcGetExclusion E o1 w
         else if config_req_queue w = []
         then do {
           (r, o2, w2) \<leftarrow> Config_TcGetExclusion E o1 w;
           if r = TC_OPER_SUCCESS then Some (r, o2, w2)
           else config_wait deadline E (o2\<lparr>tc_oper_status := INPUT_VALIDATION\<rparr>) w2
         }
         else config_wait deadline E ob w)"

section \<open>Dispatch\<close>

definition config_finish :: "TcConfigOperations meth" where
  "config_finish E ob w =
     op_SendResponse config_methods TC_OPER_SUCCESS E ob
       (if tc_oper ob = TC_OP_CONFIG_RELEASE \<and> GetConfigMap (tc_lock w) = []
        then HandleConfigRelease w else w)"

definition config_exclusion :: "TcConfigOperations meth" where
  "config_exclusion E ob w =
     (if tc_oper ob \<in> {TC_OP_CONFIG_ACQUIRE, TC_OP_CONFIG_ACQUIRE_PARTIAL} \<and> \<not> IsConfigReqQueueEmpty w
      then RevokeOperation config_methods TC_SYSTEM_BUSY E ob w
      else do {
        (r, o1, w1) \<leftarrow>
          (if tc_oper ob = TC_OP_CONFIG_ACQUIRE_TIMED then HandleTimedConfigAcquisition E ob w
           else Config_TcGetExclusion E (ob\<lparr>tc_oper_status := GET_EXCLUSION_PHASE\<rparr>) w);
        if r \<noteq> TC_OPER_SUCCESS then RevokeOperation config_methods r E o1 w1
        else dispatch_tail config_methods config_finish E o1 w1
      })"

definition Config_Dispatch :: "TcConfigOperations meth" where
  "Config_Dispatch =
     run_phase config_methods INPUT_VALIDATION (op_HandleArgs config_methods) config_exclusion"

end
