(* ===== verification/TcWaitQueue.thy ===== *)
theory TcWaitQueue
  imports TcConfigOps
begin

text \<open>
  The queues of operations that wait for the write lock: timed candidate operations
  (\<^verbatim>\<open>tc_candidate_operations.cc\<close>) and driver audits (\<^verbatim>\<open>tc_audit_operations.cc\<close>).
  Every operation that gives back the write lock calls \<^verbatim>\<open>HandleCandidateRelease\<close>.
\<close>

section \<open>Waiting driver audits\<close>

text \<open>
  A signal sets the flag of the first waiting audit; the audit looks at it before it sleeps.
\<close>

definition SignalPrimaryWaitingAudit :: "tc_state \<Rightarrow> tc_state" where
  "SignalPrimaryWaitingAudit w =
     (case drv_audit_req_queue w of
        [] \<Rightarrow> w
      | a # _ \<Rightarrow> w\<lparr>audit_waits := (audit_waits w)(a := (audit_waits w a)\<lparr>primary_wait_signalled := True\<rparr>)\<rparr>)"

definition SignalSecondaryWaitingAudit :: "tc_state \<Rightarrow> tc_state" where
  "SignalSecondaryWaitingAudit w =
     (case drv_audit_req_queue w of
        [] \<Rightarrow> w
      | a # _ \<Rightarrow> w\<lparr>audit_waits := (audit_waits w)(a := (audit_waits w a)\<lparr>secondary_wait_signalled := True\<rparr>)\<rparr>)"

definition PushToWaitQueue :: "nat \<Rightarrow> tc_state \<Rightarrow> tc_state" where
  "PushToWaitQueue a w = w\<lparr>drv_audit_req_queue := drv_audit_req_queue w @ [a]\<rparr>"

text \<open>The first audit of the queue leaves it, whichever audit has ended.\<close>

definition PopWaitQueue :: "tc_state \<Rightarrow> tc_state" where
  "PopWaitQueue w = w\<lparr>drv_audit_req_queue := tl (drv_audit_req_queue w)\<rparr>"


section \<open>Waiting candidate operations\<close>

definition InsertCandidateRequest :: "u32 \<Rightarrow> tc_state \<Rightarrow> tc_state" where
  "InsertCandidateRequest sid w = w\<lparr>candidate_req_queue := candidate_req_queue w @ [sid]\<rparr>"

definition RemoveCandidateRequest :: "u32 \<Rightarrow> tc_state \<Rightarrow> tc_state" where
  "RemoveCandidateRequest sid w = w\<lparr>candidate_req_queue := remove1 sid (candidate_req_queue w)\<rparr>"

definition RetrieveCandidateRequest :: "tc_state \<Rightarrow> u32 option" where
  "RetrieveCandidateRequest w = (case candidate_req_queue w of [] \<Rightarrow> None | sid # _ \<Rightarrow> Some sid)"

definition HandleCandidateRelease :: "tc_state \<Rightarrow> tc_state" where
  "HandleCandidateRelease w =
     (case RetrieveCandidateRequest w of
        Some sid \<Rightarrow> w\<lparr>candidate_signals := candidate_signals w @ [sid]\<rparr>
      | None \<Rightarrow> SignalPrimaryWaitingAudit w)"

definition ClearCandidateQueue :: "tc_state \<Rightarrow> tc_state" where
  "ClearCandidateQueue w =
     w\<lparr>candidate_req_queue := [], candidate_signals := candidate_signals w @ candidate_req_queue w\<rparr>"

end
