(* ===== verification/TcUserOps.thy ===== *)
theory TcUserOps
  imports TcWaitQueue
begin

text \<open>
  The operations on the startup configuration (\<^verbatim>\<open>tc_db_operations.cc\<close>), the read
  sessions (\<^verbatim>\<open>tc_read_operations.cc\<close> and their timer in \<^verbatim>\<open>tc_taskq.cc\<close>), the read
  status (\<^verbatim>\<open>tc_read_status_operations.cc\<close>) and the autosave setting
  (\<^verbatim>\<open>tc_autosave_operations.cc\<close>).
\<close>

definition ok :: "'o meth" where
  "ok E ob w = Some (TC_OPER_SUCCESS, ob, w)"

definition echo :: "TcOperStatus \<Rightarrow> 'o meth" where
  "echo st E ob w = Some (st, ob, w)"

text \<open>An infinite timeout on the session of the request; without a session the call fails.\<close>

definition no_timeout :: "tc_env \<Rightarrow> 'a TcOperations_scheme \<Rightarrow> tc_state \<Rightarrow> TcOperStatus \<times> tc_state" where
  "no_timeout E ob w =
     (if \<not> ssess ob then (TC_OPER_FAILURE, w)
      else let (r, w1) = via_ipc (set_srv_timeout (ext E)) w
           in (if r = TCUTIL_RET_FAILURE then TC_OPER_FAILURE else TC_OPER_SUCCESS, w1))"


section \<open>The startup configuration\<close>

record TcDbOperations = TcOperations +
  db_save_version :: u64

text \<open>The constructor leaves the version without a value.\<close>

definition TcDbOperations_new :: "u64 \<Rightarrow> bool \<Rightarrow> TcDbHandler option \<Rightarrow> TcChannelNameMap \<Rightarrow> TcDbOperations" where
  "TcDbOperations_new unset has_sess h channels =
     TcOperations.extend (TcOperations_new has_sess h channels) (TcDbOperations.fields unset)"

fun Db_HandleLockRet :: "TcLockRet \<Rightarrow> TcOperStatus" where
  "Db_HandleLockRet TC_LOCK_INVALID_UNC_STATE = TC_INVALID_STATE"
| "Db_HandleLockRet TC_LOCK_OPERATION_NOT_ALLOWED = TC_INVALID_STATE"
| "Db_HandleLockRet TC_LOCK_BUSY = TC_SYSTEM_BUSY"
| "Db_HandleLockRet _ = TC_OPER_FAILURE"

definition Db_TcCheckOperArgCount :: "nat \<Rightarrow> TcDbOperations \<Rightarrow> TcOperStatus \<times> TcDbOperations" where
  "Db_TcCheckOperArgCount n ob = (if n \<noteq> 2 then TC_OPER_INVALID_INPUT else TC_OPER_SUCCESS, ob)"

definition Db_TcValidateOperType :: "tc_env \<Rightarrow> TcDbOperations \<Rightarrow> tc_state \<Rightarrow> TcOperStatus \<times> tc_state" where
  "Db_TcValidateOperType E ob w =
     (if tc_oper ob \<noteq> TC_OP_RUNNING_SAVE \<and> tc_oper ob \<noteq> TC_OP_CLEAR_STARTUP
      then (TC_INVALID_OPERATION_TYPE, w) else no_timeout E ob w)"

fun Db_HandleMsgRet :: "TcOperRet \<Rightarrow> TcOperStatus" where
  "Db_HandleMsgRet TCOPER_RET_FATAL = TC_SYSTEM_FAILURE"
| "Db_HandleMsgRet TCOPER_RET_FAILURE = TC_SYSTEM_FAILURE"
| "Db_HandleMsgRet TCOPER_RET_ABORT = TC_OPER_ABORT"
| "Db_HandleMsgRet _ = TC_OPER_SUCCESS"

definition db_write_op :: "TcServiceType \<Rightarrow> TcWriteOperation" where
  "db_write_op op = (if op = TC_OP_RUNNING_SAVE then TC_SAVE_STARTUP_CONFIG else TC_CLEAR_STARTUP_CONFIG)"

definition Db_TcGetExclusion :: "TcDbOperations meth" where
  "Db_TcGetExclusion E ob w = do {
     (r, w1) \<leftarrow> take_lock (GetLock (op_session_id ob) TC_ACQUIRE_WRITE_SESSION
                             (db_write_op (tc_oper ob)) TC_CONFIG_GLOBAL '''') w;
     Some (lock_status Db_HandleLockRet r, ob, w1)
   }"

definition Db_TcReleaseExclusion :: "TcDbOperations meth" where
  "Db_TcReleaseExclusion E ob w =
     (let (r, w1) = via_lock (ReleaseLock (op_session_id ob) 0 TC_RELEASE_WRITE_SESSION
                                (db_write_op (tc_oper ob))) w
      in if r \<noteq> TC_LOCK_SUCCESS then Some (Db_HandleLockRet r, ob, w1)
         else Some (TC_OPER_SUCCESS, ob, HandleCandidateRelease w1))"

text \<open>An update of the recovery table through the database pointer.\<close>

definition update_recovery ::
  "tc_env \<Rightarrow> 'a TcOperations_scheme \<Rightarrow> unc_keytype_datatype_t \<Rightarrow> TcServiceType \<Rightarrow> TcConfigMode \<Rightarrow> string
     \<Rightarrow> tc_state \<Rightarrow> (TcOperRet \<times> tc_state) option" where
  "update_recovery E ob db op mode vtn w =
     (if db_hdlr ob = None then None
      else case UpdateRecoveryTable (ext E) db op mode vtn 0 (tc_ipc w) of
          None \<Rightarrow> None | Some (r, i) \<Rightarrow> Some (r, w\<lparr>tc_ipc := i\<rparr>))"

definition Db_TcCreateMsgList :: "TcDbOperations meth" where
  "Db_TcCreateMsgList E ob w =
     (let save = (tc_oper ob = TC_OP_RUNNING_SAVE) in do {
        (r, w1) \<leftarrow> update_recovery E ob UNC_DT_STARTUP
                     (if save then TC_OP_RUNNING_SAVE else TC_OP_CLEAR_STARTUP) TC_CONFIG_INVALID '''' w;
        if r \<noteq> TCOPER_RET_SUCCESS \<or> TcOperMessageList ob \<noteq> [] then Some (TC_OPER_FAILURE, ob, w1)
        else Some (TC_OPER_SUCCESS,
               ob\<lparr>TcOperMessageList := [if save then MSG_SAVE_CONFIG else MSG_CLEAR_CONFIG]\<rparr>, w1)
      })"

definition Db_FillTcMsgData :: "TcDbOperations \<Rightarrow> TcMsgObj \<Rightarrow> TcMsgObj" where
  "Db_FillTcMsgData ob m = SetData_version UNC_DT_STARTUP TC_OP_RUNNING_SAVE (db_save_version ob) m"

definition Db_SendAdditionalResponse :: "TcOperStatus \<Rightarrow> TcDbOperations meth" where
  "Db_SendAdditionalResponse st E ob w =
     (if st = TC_OPER_SUCCESS
      then do {
        (r, w1) \<leftarrow> update_recovery E ob UNC_DT_INVALID TC_OP_INVALID TC_CONFIG_INVALID '''' w;
        Some (if r \<noteq> TCOPER_RET_SUCCESS then TC_OPER_FAILURE else TC_OPER_SUCCESS, ob, w1)
      }
      else Some (st, ob, w))"

fun db_messages :: "TcMsgOperType list \<Rightarrow> TcDbOperations meth" where
  "db_messages [] E ob w = Some (TC_OPER_SUCCESS, ob, w)"
| "db_messages (t # ts) E ob w =
     (case new_msg E ob t of
        None \<Rightarrow> Some (TC_SYSTEM_FAILURE, ob, w)
      | Some m \<Rightarrow> do {
          (mr, m1, w1) \<leftarrow> execute_msg E (Db_FillTcMsgData ob m) (SetStartupStatus w);
          let w2 = SetStartupStatusIncr w1 in
          if mr \<noteq> TCOPER_RET_SUCCESS then Some (Db_HandleMsgRet mr, ob, delete_msg E m1 w2)
          else do {
            w3 \<leftarrow> (if tc_oper ob = TC_OP_RUNNING_SAVE
                   then map_option snd (via_db ob (UpdateRecoveryTableSaveVersion (ext E) (db_save_version ob)) w2)
                   else Some w2);
            db_messages ts E ob (delete_msg E m1 w3)
          }
        })"

text \<open>The version of the next save; a failed read keeps the old value.\<close>

definition next_version ::
  "tc_env \<Rightarrow> 'a TcOperations_scheme \<Rightarrow> (ipc_env \<Rightarrow> u64 \<Rightarrow> ipc_state \<Rightarrow> TcOperRet \<times> u64 \<times> ipc_state) \<Rightarrow> u64
     \<Rightarrow> tc_state \<Rightarrow> (u64 \<times> tc_state) option" where
  "next_version E ob get v w =
     (if db_hdlr ob = None then None
      else case get (ext E) v (tc_ipc w) of
          (r, v1, i) \<Rightarrow> Some (if r \<noteq> TCOPER_RET_SUCCESS then v1 else v1 + 1, w\<lparr>tc_ipc := i\<rparr>))"

definition Db_Execute :: "TcDbOperations meth" where
  "Db_Execute E ob w =
     (if TcOperMessageList ob = [] then Some (TC_OPER_FAILURE, ob, w)
      else if tc_oper ob = TC_OP_RUNNING_SAVE
      then do {
        (v, w1) \<leftarrow> next_version E ob GetRecoveryTableSaveVersion (db_save_version ob) w;
        db_messages (TcOperMessageList ob) E (ob\<lparr>db_save_version := v\<rparr>) w1
      }
      else db_messages (TcOperMessageList ob) E ob w)"

definition db_args :: "TcDbOperations arg_methods" where
  "db_args = \<lparr>TcGetMinArgCount = 2, op_GetSessionId = GetSessionId,
     TcValidateOperType = Db_TcValidateOperType,
     TcCheckOperArgCount = Db_TcCheckOperArgCount, TcValidateOperParams = ok\<rparr>"

definition db_methods :: "TcDbOperations op_methods" where
  "db_methods = \<lparr>op_HandleArgs = HandleArgs db_args, op_GetExclusion = Db_TcGetExclusion,
     op_CreateMsgList = Db_TcCreateMsgList, op_Execute = Db_Execute,
     op_ReleaseExclusion = Db_TcReleaseExclusion,
     op_SendResponse = SendResponse Db_SendAdditionalResponse\<rparr>"

text \<open>The autosave setting, read through the database pointer.\<close>

definition read_autosave ::
  "tc_env \<Rightarrow> 'a TcOperations_scheme \<Rightarrow> bool \<Rightarrow> tc_state \<Rightarrow> (TcOperRet \<times> bool \<times> tc_state) option" where
  "read_autosave E ob old w =
     (if db_hdlr ob = None then None
      else case GetConfTable (ext E) old (tc_ipc w) of (r, b, i) \<Rightarrow> Some (r, b, w\<lparr>tc_ipc := i\<rparr>))"

text \<open>
  With autosave enabled a save is answered at once and a clear is refused. A failed read of the
  setting ends the request without a response.
\<close>

definition db_exclusion :: "TcDbOperations meth" where
  "db_exclusion E ob w = do {
     (r, autosave, w1) \<leftarrow> read_autosave E ob False w;
     if r = TCOPER_RET_FAILURE then Some (TC_OPER_FAILURE, ob, w1)
     else if autosave \<and> tc_oper ob = TC_OP_RUNNING_SAVE
     then op_SendResponse db_methods TC_OPER_SUCCESS E ob w1
     else if autosave \<and> tc_oper ob = TC_OP_CLEAR_STARTUP
     then RevokeOperation db_methods TC_OPER_FORBIDDEN E ob w1
     else run_phase db_methods GET_EXCLUSION_PHASE (op_GetExclusion db_methods)
            (dispatch_tail db_methods (op_SendResponse db_methods TC_OPER_SUCCESS)) E ob w1
   }"

definition Db_Dispatch :: "TcDbOperations meth" where
  "Db_Dispatch = run_phase db_methods INPUT_VALIDATION (op_HandleArgs db_methods) db_exclusion"


section \<open>Read sessions\<close>

record TcReadOperations = TcOperations +
  read_handle :: bool
  arg_timeout :: bool
  rd_timeout :: u32

definition TcReadOperations_new ::
  "bool \<Rightarrow> TcDbHandler option \<Rightarrow> TcChannelNameMap \<Rightarrow> bool \<Rightarrow> TcReadOperations" where
  "TcReadOperations_new has_sess h channels readq =
     TcOperations.extend (TcOperations_new has_sess h channels) (TcReadOperations.fields readq False 0)"

fun Read_HandleLockRet :: "TcLockRet \<Rightarrow> TcOperStatus" where
  "Read_HandleLockRet TC_LOCK_INVALID_UNC_STATE = TC_INVALID_STATE"
| "Read_HandleLockRet TC_LOCK_OPERATION_NOT_ALLOWED = TC_INVALID_STATE"
| "Read_HandleLockRet TC_LOCK_BUSY = TC_SYSTEM_BUSY"
| "Read_HandleLockRet TC_LOCK_INVALID_SESSION_ID = TC_INVALID_SESSION_ID"
| "Read_HandleLockRet TC_LOCK_ALREADY_ACQUIRED = TC_SESSION_ALREADY_ACTIVE"
| "Read_HandleLockRet TC_LOCK_NOT_ACQUIRED = TC_SESSION_NOT_ACTIVE"
| "Read_HandleLockRet _ = TC_OPER_FAILURE"

definition Read_TcCheckOperArgCount :: "nat \<Rightarrow> TcReadOperations \<Rightarrow> TcOperStatus \<times> TcReadOperations" where
  "Read_TcCheckOperArgCount n ob =
     (if tc_oper ob = TC_OP_READ_ACQUIRE
      then if n > 3 then (TC_OPER_INVALID_INPUT, ob)
           else (TC_OPER_SUCCESS, if n = 3 then ob\<lparr>arg_timeout := True\<rparr> else ob)
      else if tc_oper ob = TC_OP_READ_RELEASE \<and> n \<noteq> 2 then (TC_OPER_INVALID_INPUT, ob)
      else (TC_OPER_SUCCESS, ob))"

definition Read_TcValidateOperType :: "tc_env \<Rightarrow> TcReadOperations \<Rightarrow> tc_state \<Rightarrow> TcOperStatus \<times> tc_state" where
  "Read_TcValidateOperType E ob w =
     (if tc_oper ob \<noteq> TC_OP_READ_ACQUIRE \<and> tc_oper ob \<noteq> TC_OP_READ_RELEASE
      then TC_INVALID_OPERATION_TYPE else TC_OPER_SUCCESS, w)"

definition Read_TcValidateOperParams :: "TcReadOperations meth" where
  "Read_TcValidateOperParams E ob w =
     (if tc_oper ob \<noteq> TC_OP_READ_ACQUIRE \<or> \<not> arg_timeout ob then Some (TC_OPER_SUCCESS, ob, w)
      else case srv_get_uint32 TC_REQ_ARG_INDEX (tc_ipc w) of
          Inl r \<Rightarrow> Some (arg_status r, ob, w)
        | Inr t \<Rightarrow> Some (if t > 0 \<and> \<not> read_handle ob then TC_OPER_FAILURE else TC_OPER_SUCCESS,
                         ob\<lparr>rd_timeout := t\<rparr>, w))"

definition Read_TcGetExclusion :: "TcReadOperations meth" where
  "Read_TcGetExclusion E ob w =
     (if tc_oper ob = TC_OP_READ_RELEASE
      then let (r, w1) = via_lock (ReleaseLock (op_session_id ob) 0 TC_RELEASE_READ_SESSION TC_WRITE_NONE) w
           in Some (lock_status Read_HandleLockRet r, ob, w1)
      else if tc_oper ob = TC_OP_READ_ACQUIRE
      then do {
        (r, w1) \<leftarrow> take_lock (GetLock (op_session_id ob) TC_ACQUIRE_READ_SESSION TC_WRITE_NONE
                                TC_CONFIG_GLOBAL '''') w;
        Some (lock_status Read_HandleLockRet r, ob, w1)
      }
      else Some (Read_HandleLockRet TC_LOCK_FAILURE, ob, w))"

text \<open>
  Releasing the exclusion only wakes the next writer; the lock of a read session stays with
  the session.
\<close>

definition Read_TcReleaseExclusion :: "TcReadOperations meth" where
  "Read_TcReleaseExclusion E ob w =
     Some (TC_OPER_SUCCESS, ob,
           if tc_oper ob = TC_OP_READ_RELEASE \<and> CanWriteLock (tc_lock w) then HandleCandidateRelease w else w)"

definition PostReadTimer :: "tc_env \<Rightarrow> u32 \<Rightarrow> u32 \<Rightarrow> tc_state \<Rightarrow> u32 \<times> tc_state" where
  "PostReadTimer E sid t w =
     (if t = 0 then (0, w)
      else let (r, w1) = via_ipc (ask (ext E) (TimerPost sid t)) w in (rp_err r, w1))"

definition Read_Execute :: "TcReadOperations meth" where
  "Read_Execute E ob w =
     (if rd_timeout ob = 0 \<or> tc_oper ob = TC_OP_READ_RELEASE then Some (TC_OPER_SUCCESS, ob, w)
      else if \<not> read_handle ob then None
      else let (r, w1) = PostReadTimer E (op_session_id ob) (rd_timeout ob) w
           in Some (if r \<noteq> 0 then TC_OPER_FAILURE else TC_OPER_SUCCESS, ob, w1))"

definition read_args :: "TcReadOperations arg_methods" where
  "read_args = \<lparr>TcGetMinArgCount = 2, op_GetSessionId = GetSessionId,
     TcValidateOperType = Read_TcValidateOperType,
     TcCheckOperArgCount = Read_TcCheckOperArgCount, TcValidateOperParams = Read_TcValidateOperParams\<rparr>"

definition read_methods :: "TcReadOperations op_methods" where
  "read_methods = \<lparr>op_HandleArgs = HandleArgs read_args, op_GetExclusion = Read_TcGetExclusion,
     op_CreateMsgList = ok, op_Execute = Read_Execute,
     op_ReleaseExclusion = Read_TcReleaseExclusion, op_SendResponse = SendResponse echo\<rparr>"

text \<open>What the timer runs: a release of the session without a request.\<close>

definition HandleReadTimeout :: "tc_env \<Rightarrow> u32 \<Rightarrow> TcChannelNameMap \<Rightarrow> tc_state \<Rightarrow> tc_state option" where
  "HandleReadTimeout E sid channels w =
     (let ob = (TcReadOperations_new False None channels False)
                 \<lparr>op_session_id := sid, tc_oper := TC_OP_READ_RELEASE\<rparr>
      in map_option (\<lambda>(r, o1, w1). TcOperations_delete E o1 w1) (Dispatch read_methods E ob w))"


section \<open>Read status\<close>

definition Status_TcValidateOperType :: "tc_env \<Rightarrow> TcOperations \<Rightarrow> tc_state \<Rightarrow> TcOperStatus \<times> tc_state" where
  "Status_TcValidateOperType E ob w =
     (if service_num (tc_oper ob) < service_num TC_OP_READ_RUNNING_STATUS \<or>
         service_num (tc_oper ob) > service_num TC_OP_READ_STARTUP_STATUS
      then TC_INVALID_OPERATION_TYPE else TC_OPER_SUCCESS, w)"

definition Status_TcCheckOperArgCount :: "nat \<Rightarrow> TcOperations \<Rightarrow> TcOperStatus \<times> TcOperations" where
  "Status_TcCheckOperArgCount n ob =
     (if tc_oper ob = TC_OP_READ_RUNNING_STATUS \<or> tc_oper ob = TC_OP_READ_STARTUP_STATUS
      then if n \<noteq> 2 then TC_OPER_INVALID_INPUT else TC_OPER_SUCCESS
      else TC_INVALID_OPERATION_TYPE, ob)"

definition put_status :: "tc_env \<Rightarrow> TcOperStatus \<Rightarrow> u64 \<times> TcReadStatusType \<Rightarrow> TcOperations \<Rightarrow> tc_state
     \<Rightarrow> (TcOperStatus \<times> TcOperations \<times> tc_state) option" where
  "put_status E st v ob w =
     (let (r1, w1) = via_ipc (srv_set_uint8 (ext E) (read_status_num (snd v))) w
      in if r1 \<noteq> TCUTIL_RET_SUCCESS then Some (TC_OPER_FAILURE, ob, w1)
         else let (r2, w2) = via_ipc (srv_set_uint64 (ext E) (fst v)) w1
              in Some (if r2 \<noteq> TCUTIL_RET_SUCCESS then TC_OPER_FAILURE else st, ob, w2))"

definition Status_SendAdditionalResponse :: "TcOperStatus \<Rightarrow> TcOperations meth" where
  "Status_SendAdditionalResponse st E ob w =
     (if tc_oper ob = TC_OP_READ_RUNNING_STATUS then put_status E st (GetRunningStatus w) ob w
      else if tc_oper ob = TC_OP_READ_STARTUP_STATUS then put_status E st (GetStartupStatus w) ob w
      else Some (TC_INVALID_OPERATION_TYPE, ob, w))"

definition status_args :: "TcOperations arg_methods" where
  "status_args = \<lparr>TcGetMinArgCount = 2, op_GetSessionId = GetSessionId,
     TcValidateOperType = Status_TcValidateOperType,
     TcCheckOperArgCount = Status_TcCheckOperArgCount, TcValidateOperParams = ok\<rparr>"

definition status_methods :: "TcOperations op_methods" where
  "status_methods = \<lparr>op_HandleArgs = HandleArgs status_args, op_GetExclusion = ok, op_CreateMsgList = ok,
     op_Execute = ok, op_ReleaseExclusion = ok,
     op_SendResponse = SendResponse Status_SendAdditionalResponse\<rparr>"


section \<open>Autosave\<close>

record TcAutoSaveOperations = TcOperations +
  autosave :: bool

definition TcAutoSaveOperations_new ::
  "bool \<Rightarrow> TcDbHandler option \<Rightarrow> TcChannelNameMap \<Rightarrow> TcAutoSaveOperations" where
  "TcAutoSaveOperations_new has_sess h channels =
     TcOperations.extend (TcOperations_new has_sess h channels) (TcAutoSaveOperations.fields False)"

definition SetAutoSave :: "tc_env \<Rightarrow> TcAutoSaveOperations \<Rightarrow> tc_state \<Rightarrow> TcOperStatus \<times> tc_state" where
  "SetAutoSave E ob w =
     (let (r, w1) = via_ipc (srv_set_uint32 (ext E) (if autosave ob then 1 else 0)) w
      in (if r \<noteq> TCUTIL_RET_SUCCESS then TC_OPER_FAILURE else TC_OPER_SUCCESS, w1))"

text \<open>The codes of the lock are translated as for the startup configuration.\<close>

abbreviation (input) AutoSave_HandleLockRet :: "TcLockRet \<Rightarrow> TcOperStatus" where
  "AutoSave_HandleLockRet \<equiv> Db_HandleLockRet"

definition AutoSave_TcCheckOperArgCount ::
  "nat \<Rightarrow> TcAutoSaveOperations \<Rightarrow> TcOperStatus \<times> TcAutoSaveOperations" where
  "AutoSave_TcCheckOperArgCount n ob = (if n \<noteq> 2 then TC_OPER_INVALID_INPUT else TC_OPER_SUCCESS, ob)"

definition AutoSave_TcValidateOperType ::
  "tc_env \<Rightarrow> TcAutoSaveOperations \<Rightarrow> tc_state \<Rightarrow> TcOperStatus \<times> tc_state" where
  "AutoSave_TcValidateOperType E ob w =
     (if service_num (tc_oper ob) > service_num TC_OP_AUTOSAVE_DISABLE \<or>
         service_num (tc_oper ob) < service_num TC_OP_AUTOSAVE_GET
      then TC_INVALID_OPERATION_TYPE else TC_OPER_SUCCESS, w)"

definition AutoSave_TcGetExclusion :: "TcAutoSaveOperations meth" where
  "AutoSave_TcGetExclusion E ob w =
     (let go = (\<lambda>op. do {
            (r, w1) \<leftarrow> take_lock (GetLock (op_session_id ob) op TC_WRITE_NONE TC_CONFIG_GLOBAL '''') w;
            Some (lock_status AutoSave_HandleLockRet r, ob, w1)
          })
      in case tc_oper ob of
           TC_OP_AUTOSAVE_GET \<Rightarrow> go TC_AUTO_SAVE_GET
         | TC_OP_AUTOSAVE_ENABLE \<Rightarrow> go TC_AUTO_SAVE_ENABLE
         | TC_OP_AUTOSAVE_DISABLE \<Rightarrow> go TC_AUTO_SAVE_DISABLE
         | _ \<Rightarrow> Some (AutoSave_HandleLockRet TC_LOCK_FAILURE, ob, w))"

definition AutoSave_TcReleaseExclusion :: "TcAutoSaveOperations meth" where
  "AutoSave_TcReleaseExclusion E ob w =
     (let op = (if tc_oper ob = TC_OP_AUTOSAVE_GET then TC_AUTO_SAVE_GET
                else if tc_oper ob = TC_OP_AUTOSAVE_ENABLE then TC_AUTO_SAVE_ENABLE
                else TC_AUTO_SAVE_DISABLE);
          (r, w1) = via_lock (ReleaseLock (op_session_id ob) 0 op TC_WRITE_NONE) w
      in Some (lock_status AutoSave_HandleLockRet r, ob, w1))"

text \<open>
  The notification of the layers. The version is that of the next save when autosave is
  disabled and zero when it is enabled; in both cases it is written to the recovery table.
\<close>

definition autosave_notify :: "TcAutoSaveOperations meth" where
  "autosave_notify E ob w = do {
     (v, w1) \<leftarrow> (if tc_oper ob = TC_OP_AUTOSAVE_DISABLE
                  then next_version E ob GetRecoveryTableSaveVersion 0 w else Some (0, w));
     case new_msg E ob (if tc_oper ob = TC_OP_AUTOSAVE_ENABLE then MSG_AUTOSAVE_ENABLE
                        else MSG_AUTOSAVE_DISABLE) of
       None \<Rightarrow> Some (TC_SYSTEM_FAILURE, ob, w1)
     | Some m \<Rightarrow> do {
         (mr, m1, w2) \<leftarrow> execute_msg E (SetData_version UNC_DT_INVALID TC_OP_AUTOSAVE_DISABLE v m)
                            (SetStartupStatus w1);
         let w3 = delete_msg E m1 (SetStartupStatusIncr w2) in
         if mr \<noteq> TCOPER_RET_SUCCESS then Some (HandleMsgRet mr, ob, w3)
         else do {
           (r, w4) \<leftarrow> via_db ob (UpdateRecoveryTableSaveVersion (ext E) v) w3;
           Some (TC_OPER_SUCCESS, ob, w4)
         }
       }
   }"

definition autosave_change :: "bool \<Rightarrow> TcAutoSaveOperations meth" where
  "autosave_change b E ob w =
     (if autosave ob = b then Some (TC_OPER_SUCCESS, ob, w)
      else do {
        (r, w1) \<leftarrow> via_db ob (UpdateConfTable (ext E) b) w;
        if r \<noteq> TCOPER_RET_SUCCESS then Some (TC_OPER_FAILURE, ob\<lparr>autosave := b\<rparr>, w1)
        else autosave_notify E (ob\<lparr>autosave := b\<rparr>) w1
      })"

definition AutoSave_Execute :: "TcAutoSaveOperations meth" where
  "AutoSave_Execute E ob w = do {
     (r, b, w1) \<leftarrow> read_autosave E ob (autosave ob) w;
     let o1 = ob\<lparr>autosave := b\<rparr> in
     if r \<noteq> TCOPER_RET_SUCCESS then Some (TC_OPER_FAILURE, o1, w1)
     else (case tc_oper ob of
             TC_OP_AUTOSAVE_GET \<Rightarrow> Some (TC_OPER_SUCCESS, o1, w1)
           | TC_OP_AUTOSAVE_ENABLE \<Rightarrow> autosave_change True E o1 w1
           | TC_OP_AUTOSAVE_DISABLE \<Rightarrow> autosave_change False E o1 w1
           | _ \<Rightarrow> Some (TC_OPER_FAILURE, o1, w1))
   }"

definition AutoSave_SendAdditionalResponse :: "TcOperStatus \<Rightarrow> TcAutoSaveOperations meth" where
  "AutoSave_SendAdditionalResponse st E ob w =
     (let (r, w1) = SetAutoSave E ob w
      in Some (if r \<noteq> TC_OPER_SUCCESS then TC_OPER_FAILURE else st, ob, w1))"

definition autosave_args :: "TcAutoSaveOperations arg_methods" where
  "autosave_args = \<lparr>TcGetMinArgCount = 2, op_GetSessionId = GetSessionId,
     TcValidateOperType = AutoSave_TcValidateOperType,
     TcCheckOperArgCount = AutoSave_TcCheckOperArgCount, TcValidateOperParams = ok\<rparr>"

definition autosave_methods :: "TcAutoSaveOperations op_methods" where
  "autosave_methods = \<lparr>op_HandleArgs = HandleArgs autosave_args,
     op_GetExclusion = AutoSave_TcGetExclusion, op_CreateMsgList = ok, op_Execute = AutoSave_Execute,
     op_ReleaseExclusion = AutoSave_TcReleaseExclusion,
     op_SendResponse = SendResponse AutoSave_SendAdditionalResponse\<rparr>"

end
