(* ===== verification/TcCandidateOps.thy ===== *)
theory TcCandidateOps
  imports TcUserOps
begin

text \<open>
  \<^verbatim>\<open>TcCandidateOperations\<close> (\<^verbatim>\<open>tc_candidate_operations.cc\<close>): commit and abort of the
  candidate configuration, at once or with a timeout in the queue of waiting requests, and the
  cancellation of a running audit.
\<close>

section \<open>Object\<close>

record TcCandidateOperations = TcOperations +
  cancel_audit :: u8
  ca_config_id :: u32
  ca_abort_version :: u64
  ca_timeout :: i32
  ca_resp_msg :: "TcMsgObj option"
  ca_trans_result :: TcTransEndResult
  ca_autosave :: bool
  ca_response :: TcOperStatus

definition TcCandidateOperations_new ::
  "bool \<Rightarrow> TcDbHandler option \<Rightarrow> TcChannelNameMap \<Rightarrow> TcCandidateOperations" where
  "TcCandidateOperations_new has_sess h channels =
     TcOperations.extend (TcOperations_new has_sess h channels)
       (TcCandidateOperations.fields 0 0 0 0 None TRANS_END_FAILURE False TC_OPER_SUCCESS)"

definition TcCandidateOperations_delete :: "tc_env \<Rightarrow> TcCandidateOperations \<Rightarrow> tc_state \<Rightarrow> tc_state" where
  "TcCandidateOperations_delete E ob w =
     TcOperations_delete E ob (case ca_resp_msg ob of None \<Rightarrow> w | Some m \<Rightarrow> delete_msg E m w)"

definition is_commit :: "TcServiceType \<Rightarrow> bool" where
  "is_commit op \<longleftrightarrow> op = TC_OP_CANDIDATE_COMMIT \<or> op = TC_OP_CANDIDATE_COMMIT_TIMED"

definition is_abort :: "TcServiceType \<Rightarrow> bool" where
  "is_abort op \<longleftrightarrow> op = TC_OP_CANDIDATE_ABORT \<or> op = TC_OP_CANDIDATE_ABORT_TIMED"

definition is_timed :: "TcServiceType \<Rightarrow> bool" where
  "is_timed op \<longleftrightarrow> op = TC_OP_CANDIDATE_COMMIT_TIMED \<or> op = TC_OP_CANDIDATE_ABORT_TIMED"

section \<open>Validation\<close>

fun Candidate_HandleLockRet :: "TcLockRet \<Rightarrow> TcOperStatus" where
  "Candidate_HandleLockRet TC_LOCK_INVALID_UNC_STATE = TC_INVALID_STATE"
| "Candidate_HandleLockRet TC_LOCK_OPERATION_NOT_ALLOWED = TC_INVALID_STATE"
| "Candidate_HandleLockRet TC_LOCK_BUSY = TC_SYSTEM_BUSY"
| "Candidate_HandleLockRet TC_LOCK_NO_CONFIG_SESSION_EXIST = TC_CONFIG_NOT_PRESENT"
| "Candidate_HandleLockRet _ = TC_OPER_FAILURE"

definition Candidate_TcCheckOperArgCount ::
  "nat \<Rightarrow> TcCandidateOperations \<Rightarrow> TcOperStatus \<times> TcCandidateOperations" where
  "Candidate_TcCheckOperArgCount n ob =
     (if tc_oper ob \<in> {TC_OP_CANDIDATE_COMMIT, TC_OP_CANDIDATE_ABORT} \<and> n \<noteq> 3 \<or>
         is_timed (tc_oper ob) \<and> n \<noteq> 5
      then TC_OPER_INVALID_INPUT else TC_OPER_SUCCESS, ob)"

definition Candidate_TcValidateOperType ::
  "tc_env \<Rightarrow> TcCandidateOperations \<Rightarrow> tc_state \<Rightarrow> TcOperStatus \<times> tc_state" where
  "Candidate_TcValidateOperType E ob w =
     (if \<not> is_commit (tc_oper ob) \<and> \<not> is_abort (tc_oper ob)
      then (TC_INVALID_OPERATION_TYPE, w) else no_timeout E ob w)"

text \<open>The two additional arguments of a timed request.\<close>

definition validate_timed :: "TcCandidateOperations \<Rightarrow> tc_state \<Rightarrow> TcOperStatus \<times> TcCandidateOperations" where
  "validate_timed ob w =
     (case srv_get_int32 (TC_REQ_ARG_INDEX + 1) (tc_ipc w) of
        Inl _ \<Rightarrow> (TC_OPER_FAILURE, ob)
      | Inr t \<Rightarrow>
          (case srv_get_uint8 (TC_REQ_ARG_INDEX + 2) (tc_ipc w) of
             Inl _ \<Rightarrow> (TC_OPER_FAILURE, ob\<lparr>ca_timeout := t\<rparr>)
           | Inr c \<Rightarrow> (TC_OPER_SUCCESS, ob\<lparr>ca_timeout := t, cancel_audit := c\<rparr>)))"

definition Candidate_TcValidateOperParams :: "TcCandidateOperations meth" where
  "Candidate_TcValidateOperParams E ob w =
     (case srv_get_uint32 TC_REQ_ARG_INDEX (tc_ipc w) of
        Inl _ \<Rightarrow> Some (TC_OPER_FAILURE, ob, w)
      | Inr cid \<Rightarrow>
          (case GetConfigData (op_session_id ob) (tc_lock w) of
             (lr, d) \<Rightarrow>
               let o1 = ob\<lparr>ca_config_id := cid\<rparr>;
                   expected = (case cd_config_id d of None \<Rightarrow> 0 | Some i \<Rightarrow> i)
               in if lr = TC_LOCK_INVALID_SESSION_ID then Some (TC_INVALID_SESSION_ID, o1, w)
                  else if expected \<noteq> cid then Some (TC_INVALID_CONFIG_ID, o1, w)
                  else if lr \<noteq> TC_LOCK_SUCCESS then Some (Candidate_HandleLockRet lr, o1, w)
                  else if is_timed (tc_oper ob)
                  then (let (r, o2) = validate_timed o1 w in Some (r, o2, w))
                  else Some (TC_OPER_SUCCESS, o1, w)))"

section \<open>Exclusion\<close>

definition candidate_write_op :: "TcServiceType \<Rightarrow> TcWriteOperation" where
  "candidate_write_op op = (if is_commit op then TC_COMMIT else TC_ABORT_CANDIDATE_CONFIG)"

definition Candidate_TcGetExclusion :: "TcCandidateOperations meth" where
  "Candidate_TcGetExclusion E ob w = do {
     (r, w1) \<leftarrow> take_lock (GetLock (op_session_id ob) TC_ACQUIRE_WRITE_SESSION
                             (candidate_write_op (tc_oper ob)) TC_CONFIG_GLOBAL '''') w;
     Some (lock_status Candidate_HandleLockRet r, ob, w1)
   }"

text \<open>
  A session that was marked while the operation ran is released by a configuration operation
  without a request and without a database handler.
\<close>

definition release_marked :: "tc_env \<Rightarrow> TcCandidateOperations \<Rightarrow> tc_state \<Rightarrow> (TcOperStatus \<times> tc_state) option" where
  "release_marked E ob w =
     (let c = (TcConfigOperations_new False None (unc_oper_channel_map ob))
                \<lparr>op_session_id := op_session_id ob, cf_config_id := ca_config_id ob,
                 tc_oper := TC_OP_CONFIG_RELEASE\<rparr>
      in do {
        (r, c1, w1) \<leftarrow> Config_Dispatch E c w;
        Some (r, TcOperations_delete E c1 (HandleCandidateRelease w1))
      })"

definition candidate_release_tail :: "TcCandidateOperations meth" where
  "candidate_release_tail E ob w =
     (if GetMarkedSessionId (op_session_id ob) (tc_lock w) \<noteq> op_session_id ob
      then Some (TC_OPER_SUCCESS, ob, HandleCandidateRelease w)
      else do { (r, w1) \<leftarrow> release_marked E ob w; Some (r, ob, w1) })"

definition Candidate_TcReleaseExclusion :: "TcCandidateOperations meth" where
  "Candidate_TcReleaseExclusion E ob w =
     (if is_commit (tc_oper ob) \<or> is_abort (tc_oper ob)
      then let (r, w1) = via_lock (ReleaseLock (op_session_id ob) (ca_config_id ob)
                                     TC_RELEASE_WRITE_SESSION (candidate_write_op (tc_oper ob))) w
           in if r \<noteq> TC_LOCK_SUCCESS then Some (Candidate_HandleLockRet r, ob, w1)
              else candidate_release_tail E ob w1
      else candidate_release_tail E ob w)"

section \<open>Messages\<close>

definition Candidate_TcCreateMsgList :: "TcCandidateOperations meth" where
  "Candidate_TcCreateMsgList E ob w = do {
     (r, b, w1) \<leftarrow> read_autosave E ob (ca_autosave ob) w;
     let o1 = ob\<lparr>ca_autosave := b\<rparr> in
     Some (TC_OPER_SUCCESS,
           if TcOperMessageList ob = [] \<and> is_abort (tc_oper ob)
           then o1\<lparr>TcOperMessageList := [MSG_ABORT_CANDIDATE]\<rparr> else o1, w1)
   }"

definition Candidate_FillTcMsgData ::
  "TcCandidateOperations \<Rightarrow> TcMsgOperType \<Rightarrow> TcMsgObj \<Rightarrow> TcMsgObj" where
  "Candidate_FillTcMsgData ob t m =
     (let m1 = SetData_version UNC_DT_CANDIDATE (tc_oper ob) (ca_abort_version ob)
                 (SetData_config (ca_config_id ob) '''' UNC_CT_UNKNOWN m)
      in if t = MSG_COMMIT_TRANS_END then obj_set_trans_result (ca_trans_result ob) m1 else m1)"

text \<open>One message of a transaction; a message that cannot be made aborts the process.\<close>

definition trans_msg ::
  "tc_env \<Rightarrow> TcMsgOperType \<Rightarrow> TcCandidateOperations \<Rightarrow> tc_state \<Rightarrow> (TcOperRet \<times> TcMsgObj \<times> tc_state) option" where
  "trans_msg E t ob w = do {
     m \<leftarrow> new_msg E ob t;
     execute_msg E (Candidate_FillTcMsgData ob t m) w
   }"

type_synonym step = "(bool \<times> TcCandidateOperations \<times> tc_state) option"

definition TransStartMsg :: "tc_env \<Rightarrow> TcCandidateOperations \<Rightarrow> tc_state \<Rightarrow> step" where
  "TransStartMsg E ob w = do {
     (r, m, w1) \<leftarrow> trans_msg E MSG_COMMIT_TRANS_START ob w;
     if r \<noteq> TCOPER_RET_SUCCESS
     then Some (False, ob\<lparr>ca_response := HandleMsgRet r, ca_resp_msg := Some m\<rparr>, w1)
     else Some (True, ob, delete_msg E m w1)
   }"

definition TransEndMsg :: "tc_env \<Rightarrow> TcCandidateOperations \<Rightarrow> tc_state \<Rightarrow> step" where
  "TransEndMsg E ob w = do {
     (r, m, w1) \<leftarrow> trans_msg E MSG_COMMIT_TRANS_END ob w;
     Some (r = TCOPER_RET_SUCCESS,
           if r \<noteq> TCOPER_RET_SUCCESS then ob\<lparr>ca_response := TC_SYSTEM_FAILURE\<rparr> else ob, delete_msg E m w1)
   }"

text \<open>A refused vote ends the transaction before the refusal is reported.\<close>

definition TransVoteMsg :: "tc_env \<Rightarrow> TcCandidateOperations \<Rightarrow> tc_state \<Rightarrow> step" where
  "TransVoteMsg E ob w = do {
     (r, m, w1) \<leftarrow> trans_msg E MSG_COMMIT_VOTE ob w;
     if r = TCOPER_RET_SUCCESS then Some (True, ob, delete_msg E m w1)
     else if r = TCOPER_RET_FATAL
     then Some (False, ob\<lparr>ca_response := HandleMsgRet r, ca_resp_msg := Some m\<rparr>, w1)
     else do {
       (ended, o2, w2) \<leftarrow> TransEndMsg E ob w1;
       if ended then Some (False, o2\<lparr>ca_response := HandleMsgRet r, ca_resp_msg := Some m\<rparr>, w2)
       else Some (False, o2, delete_msg E m w2)
     }
   }"

text \<open>
  The configuration that an operation works on, as it is written to the recovery table; the
  result of the lock is only logged.
\<close>

definition recovery_mode :: "u32 \<Rightarrow> tc_state \<Rightarrow> TcConfigMode \<times> string" where
  "recovery_mode sid w =
     (let d = snd (GetConfigData sid (tc_lock w))
      in (case cd_mode d of None \<Rightarrow> TC_CONFIG_INVALID | Some m \<Rightarrow> m, cd_vtn_name d))"

definition TransGlobalCommitMsg :: "tc_env \<Rightarrow> TcCandidateOperations \<Rightarrow> tc_state \<Rightarrow> step" where
  "TransGlobalCommitMsg E ob w =
     (let (mode, vtn) = recovery_mode (op_session_id ob) w in do {
        (u, w1) \<leftarrow> update_recovery E ob UNC_DT_RUNNING TC_OP_CANDIDATE_COMMIT mode vtn w;
        (r, m, w2) \<leftarrow> trans_msg E MSG_COMMIT_GLOBAL ob w1;
        let o1 = ob\<lparr>ca_trans_result := GetTransResult (base_of m)\<rparr> in
        if r \<noteq> TCOPER_RET_SUCCESS
        then Some (False, o1\<lparr>ca_response := TC_SYSTEM_FAILURE\<rparr>, delete_msg E m w2)
        else Some (True, o1\<lparr>ca_resp_msg := Some m\<rparr>, w2)
      })"

definition commit_steps :: "TcCandidateOperations meth" where
  "commit_steps E ob w = do {
     (b1, o1, w1) \<leftarrow> TransStartMsg E ob w;
     if \<not> b1 then Some (ca_response o1, o1, w1) else do {
     (b2, o2, w2) \<leftarrow> TransVoteMsg E o1 w1;
     if \<not> b2 then Some (ca_response o2, o2, w2) else do {
     (r, auto, w3) \<leftarrow> read_autosave E o2 False w2;
     let w4 = SetRunningStatus w3; w5 = (if auto then SetStartupStatus w4 else w4) in do {
     (b6, o6, w6) \<leftarrow> TransGlobalCommitMsg E o2 w5;
     if \<not> b6 then Some (ca_response o6, o6, w6) else
     let w7 = SetRunningStatusIncr w6; w8 = (if auto then SetStartupStatusIncr w7 else w7) in do {
     (b9, o9, w9) \<leftarrow> TransEndMsg E o6 w8;
     if \<not> b9 then Some (ca_response o9, o9, w9) else Some (TC_OPER_SUCCESS, o9, w9) }}}}
   }"

fun abort_messages :: "TcMsgOperType list \<Rightarrow> TcCandidateOperations meth" where
  "abort_messages [] E ob w = Some (ca_response ob, ob, w)"
| "abort_messages (t # ts) E ob w =
     (case new_msg E ob t of
        None \<Rightarrow> Some (TC_SYSTEM_FAILURE, ob, w)
      | Some m \<Rightarrow> do {
          (mr, m1, w1) \<leftarrow> execute_msg E (Candidate_FillTcMsgData ob t m) w;
          if mr \<noteq> TCOPER_RET_SUCCESS
          then abort_messages ts E (ob\<lparr>ca_response := HandleMsgRet mr\<rparr>) (delete_msg E m1 w1)
          else do {
            (u, w2) \<leftarrow> via_db ob (UpdateRecoveryTableAbortVersion (ext E) (ca_abort_version ob)) w1;
            abort_messages ts E ob (delete_msg E m1 w2)
          }
        })"

definition abort_steps :: "TcCandidateOperations meth" where
  "abort_steps E ob w =
     (let (mode, vtn) = recovery_mode (op_session_id ob) w in do {
        (u, w1) \<leftarrow> update_recovery E ob UNC_DT_CANDIDATE TC_OP_CANDIDATE_ABORT mode vtn w;
        (v, w2) \<leftarrow> next_version E ob GetRecoveryTableAbortVersion (ca_abort_version ob) w1;
        abort_messages (TcOperMessageList ob) E (ob\<lparr>ca_abort_version := v\<rparr>) w2
      })"

definition Candidate_Execute :: "TcCandidateOperations meth" where
  "Candidate_Execute E ob w = (if is_commit (tc_oper ob) then commit_steps E ob w else abort_steps E ob w)"

section \<open>Response\<close>

definition Candidate_SetConfigId :: "tc_env \<Rightarrow> TcCandidateOperations \<Rightarrow> tc_state \<Rightarrow> TcOperStatus \<times> tc_state" where
  "Candidate_SetConfigId E ob w =
     (let (r, w1) = via_ipc (srv_set_uint32 (ext E) (ca_config_id ob)) w
      in (if r \<noteq> TCUTIL_RET_SUCCESS then TC_OPER_FAILURE else TC_OPER_SUCCESS, w1))"

text \<open>The results kept in a message are forwarded, then a success resets the recovery table.\<close>

definition candidate_response_tail :: "TcOperStatus \<Rightarrow> TcCandidateOperations meth" where
  "candidate_response_tail st E ob w =
     (let (f, w1) = (case ca_resp_msg ob of
                       None \<Rightarrow> (TCOPER_RET_SUCCESS, w)
                     | Some m \<Rightarrow> via_ipc (ForwardResponseToVTN (ext E) (base_of m)) w)
      in if f \<noteq> TCOPER_RET_SUCCESS then Some (TC_SYSTEM_FAILURE, ob, w1)
         else if st = TC_OPER_SUCCESS
         then do {
           (u, w2) \<leftarrow> update_recovery E ob UNC_DT_INVALID TC_OP_INVALID TC_CONFIG_INVALID '''' w1;
           Some (st, ob, w2)
         }
         else Some (st, ob, w1))"

definition Candidate_SendResponse :: "TcOperStatus \<Rightarrow> TcCandidateOperations meth" where
  "Candidate_SendResponse st E ob w =
     (if \<not> ssess ob then Some (st, ob, w)
      else if st = TC_OPER_INVALID_INPUT \<or> st = TC_OPER_FAILURE
      then candidate_response_tail st E ob w
      else let (r1, w1) = SetOperType E ob w
      in if r1 \<noteq> TC_OPER_SUCCESS then Some (TC_OPER_FAILURE, ob, w1)
      else let (r2, w2) = SetSessionId E ob w1
      in if r2 \<noteq> TC_OPER_SUCCESS then Some (TC_OPER_FAILURE, ob, w2)
      else let (r3, w3) = Candidate_SetConfigId E ob w2
      in if r3 \<noteq> TC_OPER_SUCCESS then Some (TC_OPER_FAILURE, ob, w3)
      else let (r4, w4) = SetOperStatus E st w3
      in if r4 \<noteq> TC_OPER_SUCCESS then Some (TC_OPER_FAILURE, ob, w4)
      else candidate_response_tail st E ob w4)"

definition candidate_args :: "TcCandidateOperations arg_methods" where
  "candidate_args = \<lparr>TcGetMinArgCount = 3, op_GetSessionId = GetSessionId,
     TcValidateOperType = Candidate_TcValidateOperType,
     TcCheckOperArgCount = Candidate_TcCheckOperArgCount,
     TcValidateOperParams = Candidate_TcValidateOperParams\<rparr>"

definition candidate_methods :: "TcCandidateOperations op_methods" where
  "candidate_methods = \<lparr>op_HandleArgs = HandleArgs candidate_args,
     op_GetExclusion = Candidate_TcGetExclusion, op_CreateMsgList = Candidate_TcCreateMsgList,
     op_Execute = Candidate_Execute, op_ReleaseExclusion = Candidate_TcReleaseExclusion,
     op_SendResponse = Candidate_SendResponse\<rparr>"

section \<open>Cancelling an audit\<close>

definition cancel_items :: "tc_state \<Rightarrow> item list" where
  "cancel_items w =
     (let driver = GetNotifyDriverId (tc_msgs w); ctr = GetNotifyControllerId (tc_msgs w)
      in [Put (IpcU8 (msg_num MSG_AUDIT_CANCEL)), Put (IpcU32 0),
          Require (driver \<noteq> UNC_CT_UNKNOWN), Put (IpcU8 (ucast driver)),
          Require (ctr \<noteq> ''''), Put (IpcStr ctr)])"

text \<open>
  An error returns at once, with the session left open and the list of recipients kept; a
  refusal ends the loop and clears the list.
\<close>

fun cancel_loop ::
  "ipc_env \<Rightarrow> TcChannelNameMap \<Rightarrow> item list \<Rightarrow> TcDaemonName list \<Rightarrow> TcOperRet \<Rightarrow> ipc_state
     \<Rightarrow> TcOperRet \<times> bool \<times> ipc_state" where
  "cancel_loop E channels is [] ret i = (ret, True, i)"
| "cancel_loop E channels is (d # ds) ret i =
     (case (case channels d of None \<Rightarrow> '''' | Some c \<Rightarrow> c) of
        [] \<Rightarrow> (TCOPER_RET_FAILURE, False, i)
      | channel \<Rightarrow>
          (case request E channel TCLIB_AUDIT_CANCEL True is i of
             (NoSession, i1) \<Rightarrow> (TCOPER_RET_FAILURE, False, i1)
           | (Refused p c, i1) \<Rightarrow> (TCOPER_RET_FAILURE, False, i1)
           | (Failed p c r, i1) \<Rightarrow> (r, False, i1)
           | (Answered p c resp, i1) \<Rightarrow>
               (let i2 = snd (tc_session_close E (Some p) c i1)
                in if resp = TC_FAILURE then (TCOPER_RET_ABORT, True, i2)
                   else cancel_loop E channels is ds
                          (if resp = TC_SUCCESS then TCOPER_RET_SUCCESS else ret) i2)))"

definition HandleCancelAudit :: "tc_env \<Rightarrow> TcCandidateOperations \<Rightarrow> tc_state \<Rightarrow> TcOperRet \<times> tc_state" where
  "HandleCancelAudit E ob w =
     (case cancel_loop (ext E) (unc_oper_channel_map ob) (cancel_items w) (audit_cancel_notify w)
             TCOPER_RET_SUCCESS (tc_ipc w) of
        (r, cleared, i) \<Rightarrow>
          (r, w\<lparr>tc_ipc := i, audit_cancel_notify := (if cleared then [] else audit_cancel_notify w)\<rparr>))"

definition set_cancel_flag :: "tc_state \<Rightarrow> tc_state" where
  "set_cancel_flag w = w\<lparr>tc_msgs := SetAuditCancelFlag True (tc_msgs w)\<rparr>"

definition cancel_running_audit :: "tc_env \<Rightarrow> TcCandidateOperations \<Rightarrow> tc_state \<Rightarrow> tc_state" where
  "cancel_running_audit E ob w =
     (let w1 = (if TcGetCurrentWriteOperation (tc_lock w) \<in> {TC_AUDIT_USER, TC_AUDIT_DRIVER}
                then set_cancel_flag w else w)
      in if GetAuditPhase w1 = AUDIT_NOT_STARTED then w1
         else if GetAuditCancelStatus w1 = AUDIT_CANCEL_INPROGRESS then w1
         else if audit_phase_num (GetAuditPhase w1) > audit_phase_num AUDIT_VOTE_REQUEST then w1
         else snd (HandleCancelAudit E ob (SetAuditCancelStatus AUDIT_CANCEL_INPROGRESS (set_cancel_flag w1))))"

section \<open>Timed requests\<close>

definition candidate_wait :: "(int \<times> int) option \<Rightarrow> TcCandidateOperations meth" where
  "candidate_wait deadline E ob w =
     (let w1 = InsertCandidateRequest (op_session_id ob) w; (signalled, w2) = cond_wait E deadline w1
      in if \<not> signalled
         then Some (TC_SYSTEM_BUSY, ob, RemoveCandidateRequest (op_session_id ob) w2)
         else if IsStateChangedToSby w2 then Some (TC_STATE_CHANGED, ob, w2)
         else do {
           (r, o1, w3) \<leftarrow> Candidate_TcGetExclusion E (ob\<lparr>tc_oper_status := GET_EXCLUSION_PHASE\<rparr>) w2;
           Some (r, o1, RemoveCandidateRequest (op_session_id o1) w3)
         })"

definition HandleCandidateTimedRequest :: "TcCandidateOperations meth" where
  "HandleCandidateTimedRequest E ob w =
     (let w0 = (if cancel_audit ob = 1 then cancel_running_audit E ob w else w);
          t = ca_timeout ob; o1 = ob\<lparr>tc_oper_status := GET_EXCLUSION_PHASE\<rparr>;
          deadline = (if t > 0 then Some (timed_deadline t (gettimeofday E w0)) else None)
      in if t = 0
         then if candidate_req_queue w0 \<noteq> [] then Some (TC_SYSTEM_BUSY, ob, w0)
              else Candidate_TcGetExclusion E o1 w0
         else if candidate_req_queue w0 = []
         then do {
           (r, o2, w2) \<leftarrow> Candidate_TcGetExclusion E o1 w0;
           if r = TC_OPER_SUCCESS then Some (r, o2, w2)
           else candidate_wait deadline E (o2\<lparr>tc_oper_status := INPUT_VALIDATION\<rparr>) w2
         }
         else candidate_wait deadline E ob w0)"

section \<open>Dispatch\<close>

definition candidate_exclusion :: "TcCandidateOperations meth" where
  "candidate_exclusion E ob w =
     (let w1 = (if cancel_audit ob = 1 then SignalSecondaryWaitingAudit w else w);
          tail = dispatch_tail candidate_methods (op_SendResponse candidate_methods TC_OPER_SUCCESS)
      in if tc_oper ob \<in> {TC_OP_CANDIDATE_COMMIT, TC_OP_CANDIDATE_ABORT} \<and> candidate_req_queue w1 \<noteq> []
         then RevokeOperation candidate_methods TC_SYSTEM_BUSY E ob w1
         else do {
           (r, o2, w2) \<leftarrow>
             (if is_timed (tc_oper ob) then HandleCandidateTimedRequest E ob w1
              else Candidate_TcGetExclusion E (ob\<lparr>tc_oper_status := GET_EXCLUSION_PHASE\<rparr>) w1);
           if r \<noteq> TC_OPER_SUCCESS then RevokeOperation candidate_methods r E o2 w2
           else tail E o2 w2
         })"

definition Candidate_Dispatch :: "TcCandidateOperations meth" where
  "Candidate_Dispatch =
     run_phase candidate_methods INPUT_VALIDATION (op_HandleArgs candidate_methods) candidate_exclusion"

end
