(* ===== verification/TcAuditOps.thy ===== *)
theory TcAuditOps
  imports TcCandidateOps
begin

text \<open>
  \<^verbatim>\<open>TcAuditOperations\<close> (\<^verbatim>\<open>tc_audit_operations.cc\<close>) and the driver audits that the
  task queue runs (\<^verbatim>\<open>tc_taskq.cc\<close>). A driver audit asked for by a request is only
  dispatched to the queue; the queued audit waits until no candidate operation needs the lock.
  The two loops that may run for ever are \<^verbatim>\<open>partial_function\<close>s: \<open>None\<close> stands for a
  process that was aborted and for a loop that does not end.
\<close>

section \<open>State\<close>

record TcAuditOperations = TcOperations +
  au_self :: nat
  au_controller_id :: string
  au_driver_id :: unc_keytype_ctrtype_t
  au_resp_msg :: "TcMsgObj option"
  user_response :: TcOperStatus
  au_audit_handle :: bool
  au_audit_result :: TcAuditResult
  au_trans_result :: TcTransEndResult
  api_audit :: bool
  force_reconnect :: u8
  au_audit_type :: TcAuditType

definition TcAuditOperations_new ::
  "nat \<Rightarrow> bool \<Rightarrow> TcDbHandler option \<Rightarrow> TcChannelNameMap \<Rightarrow> bool \<Rightarrow> TcAuditOperations" where
  "TcAuditOperations_new addr has_sess h channels auditq =
     TcOperations.extend (TcOperations_new has_sess h channels)
       (TcAuditOperations.fields addr '''' UNC_CT_UNKNOWN None TC_OPER_FAILURE auditq
          TC_AUDIT_FAILURE TRANS_END_FAILURE False 0 TC_AUDIT_NORMAL)"

definition TcAuditOperations_delete :: "tc_env \<Rightarrow> TcAuditOperations \<Rightarrow> tc_state \<Rightarrow> tc_state" where
  "TcAuditOperations_delete E ob w =
     TcOperations_delete E ob (case au_resp_msg ob of None \<Rightarrow> w | Some m \<Rightarrow> delete_msg E m w)"

text \<open>The flags of the object, which other threads set through the queue.\<close>

definition reset_flags :: "TcAuditOperations \<Rightarrow> tc_state \<Rightarrow> tc_state" where
  "reset_flags ob w =
     w\<lparr>audit_waits := (audit_waits w)
         (au_self ob := \<lparr>primary_wait_signalled = False, secondary_wait_signalled = False\<rparr>)\<rparr>"

definition reset_secondary :: "TcAuditOperations \<Rightarrow> tc_state \<Rightarrow> tc_state" where
  "reset_secondary ob w =
     w\<lparr>audit_waits := (audit_waits w)
         (au_self ob := (audit_waits w (au_self ob))\<lparr>secondary_wait_signalled := False\<rparr>)\<rparr>"

section \<open>Arguments\<close>

fun Audit_HandleLockRet :: "TcLockRet \<Rightarrow> TcOperStatus" where
  "Audit_HandleLockRet TC_LOCK_INVALID_UNC_STATE = TC_INVALID_STATE"
| "Audit_HandleLockRet TC_LOCK_OPERATION_NOT_ALLOWED = TC_INVALID_STATE"
| "Audit_HandleLockRet TC_LOCK_BUSY = TC_SYSTEM_BUSY"
| "Audit_HandleLockRet TC_LOCK_NO_CONFIG_SESSION_EXIST = TC_CONFIG_NOT_PRESENT"
| "Audit_HandleLockRet _ = TC_OPER_FAILURE"

definition Audit_TcCheckOperArgCount :: "nat \<Rightarrow> TcAuditOperations \<Rightarrow> TcOperStatus \<times> TcAuditOperations" where
  "Audit_TcCheckOperArgCount n ob = (if n < 4 \<or> n > 5 then TC_OPER_INVALID_INPUT else TC_OPER_SUCCESS, ob)"

definition Audit_GetSessionId :: "TcAuditOperations \<Rightarrow> tc_state \<Rightarrow> TcOperStatus \<times> TcAuditOperations" where
  "Audit_GetSessionId ob w =
     (if tc_oper ob = TC_OP_DRIVER_AUDIT then (TC_OPER_SUCCESS, ob) else GetSessionId ob w)"

definition Audit_TcValidateOperType :: "tc_env \<Rightarrow> TcAuditOperations \<Rightarrow> tc_state \<Rightarrow> TcOperStatus \<times> tc_state" where
  "Audit_TcValidateOperType E ob w =
     (if tc_oper ob \<noteq> TC_OP_USER_AUDIT \<and> tc_oper ob \<noteq> TC_OP_DRIVER_AUDIT
      then (TC_INVALID_OPERATION_TYPE, w)
      else if tc_oper ob = TC_OP_USER_AUDIT then no_timeout E ob w
      else (TC_OPER_SUCCESS, w))"

text \<open>
  The arguments are read one after the other and the results are looked at together: a
  missing argument wins over a transport error.
\<close>

definition read_status_of :: "(TcUtilRet + unit) list \<Rightarrow> TcOperStatus" where
  "read_status_of rs =
     (if Inl TCUTIL_RET_FAILURE \<in> set rs then TC_OPER_INVALID_INPUT
      else if Inl TCUTIL_RET_FATAL \<in> set rs then TC_OPER_FAILURE else TC_OPER_SUCCESS)"

definition outcome :: "TcUtilRet + 'v \<Rightarrow> TcUtilRet + unit" where
  "outcome r = map_sum id (\<lambda>_. ()) r"

definition get_ok :: "TcUtilRet + 'v \<Rightarrow> 'v \<Rightarrow> 'v" where
  "get_ok r old = (case r of Inl _ \<Rightarrow> old | Inr v \<Rightarrow> v)"

definition validate_user_audit :: "TcAuditOperations \<Rightarrow> tc_state \<Rightarrow> TcOperStatus \<times> u8 \<times> TcAuditOperations" where
  "validate_user_audit ob w =
     (let ctr = srv_get_string TC_REQ_ARG_INDEX (tc_ipc w);
          rec = srv_get_uint8 (TC_REQ_ARG_INDEX + 1) (tc_ipc w);
          ty = srv_get_uint8 (TC_REQ_ARG_INDEX + 2) (tc_ipc w);
          n = length (srv_args (tc_ipc w));
          o1 = ob\<lparr>au_controller_id := get_ok ctr (au_controller_id ob)\<rparr>
      in if n = 5
         then (read_status_of [outcome ctr, outcome rec, outcome ty],
               get_ok rec 0, o1\<lparr>au_audit_type := to_audit_type (get_ok ty 0)\<rparr>)
         else if n = 4
         then (read_status_of [outcome ctr, outcome rec],
               get_ok rec 0, o1\<lparr>au_audit_type := TC_AUDIT_NORMAL\<rparr>)
         else (TC_OPER_INVALID_INPUT, get_ok rec 0, o1\<lparr>au_audit_type := TC_AUDIT_INVALID\<rparr>))"

definition DispatchAuditDriverRequest ::
  "tc_env \<Rightarrow> string \<Rightarrow> unc_keytype_ctrtype_t \<Rightarrow> tc_state \<Rightarrow> u32 \<times> tc_state" where
  "DispatchAuditDriverRequest E ctr drv w =
     (let (r, w1) = via_ipc (ask (ext E) (TaskDispatch ctr drv)) w in (rp_err r, w1))"

text \<open>A driver audit asked for by a request goes to the task queue with a copy of the handler.\<close>

definition validate_driver_audit :: "TcAuditOperations meth" where
  "validate_driver_audit E ob w =
     (case srv_get_uint8 TC_REQ_ARG_INDEX (tc_ipc w) of
        Inl r \<Rightarrow> Some (arg_status r, ob, w)
      | Inr drv \<Rightarrow>
          (let o1 = ob\<lparr>au_driver_id := ucast drv\<rparr>
           in if au_driver_id o1 = UNC_CT_UNKNOWN then Some (TC_OPER_INVALID_INPUT, o1, w)
              else if db_hdlr o1 = None \<or> \<not> au_audit_handle o1 then None
              else let (r, w1) = DispatchAuditDriverRequest E (au_controller_id o1) (au_driver_id o1) w
                   in Some (if r \<noteq> 0 then TC_OPER_FAILURE else TC_OPER_SUCCESS,
                            o1\<lparr>api_audit := True\<rparr>, w1)))"

definition Audit_TcValidateOperParams :: "TcAuditOperations meth" where
  "Audit_TcValidateOperParams E ob w =
     (let (r, reconnect, o1) =
        (if tc_oper ob = TC_OP_USER_AUDIT then validate_user_audit ob w
         else let ctr = srv_get_string TC_REQ_SESSION_ID_INDEX (tc_ipc w)
              in (read_status_of [outcome ctr], 0, ob\<lparr>au_controller_id := get_ok ctr (au_controller_id ob)\<rparr>))
      in if r \<noteq> TC_OPER_SUCCESS then Some (r, o1, w)
         else if au_controller_id o1 = '''' then Some (TC_OPER_INVALID_INPUT, o1, w)
         else let o2 = o1\<lparr>force_reconnect := reconnect\<rparr>
         in if tc_oper ob = TC_OP_DRIVER_AUDIT then validate_driver_audit E o2 w
            else Some (TC_OPER_SUCCESS, o2, w))"

definition audit_args :: "TcAuditOperations arg_methods" where
  "audit_args = \<lparr>TcGetMinArgCount = 4, op_GetSessionId = Audit_GetSessionId,
     TcValidateOperType = Audit_TcValidateOperType, TcCheckOperArgCount = Audit_TcCheckOperArgCount,
     TcValidateOperParams = Audit_TcValidateOperParams\<rparr>"

section \<open>Exclusion\<close>

definition audit_write_op :: "TcServiceType \<Rightarrow> TcWriteOperation" where
  "audit_write_op op = (if op = TC_OP_USER_AUDIT then TC_AUDIT_USER else TC_AUDIT_DRIVER)"

definition Audit_TcGetExclusion :: "TcAuditOperations meth" where
  "Audit_TcGetExclusion E ob w =
     (if tc_oper ob \<noteq> TC_OP_USER_AUDIT \<and> api_audit ob then Some (TC_OPER_SUCCESS, ob, w)
      else do {
        (r, w1) \<leftarrow> take_lock (GetLock (op_session_id ob) TC_ACQUIRE_WRITE_SESSION
                                (audit_write_op (tc_oper ob)) TC_CONFIG_GLOBAL '''') w;
        Some (lock_status Audit_HandleLockRet r, ob, w1)
      })"

text \<open>What the end of an audit resets, whether it was cancelled or not.\<close>

definition reset_audit :: "tc_state \<Rightarrow> tc_state" where
  "reset_audit w =
     (let w1 = (if GetAuditCancelStatus w = AUDIT_CANCEL_INPROGRESS
                then SetAuditCancelStatus AUDIT_CANCEL_DONE w else w)
      in (SetAuditPhase AUDIT_NOT_STARTED w1)
           \<lparr>tc_msgs := SetAuditCancelFlag False (tc_msgs w1), audit_cancel_notify := []\<rparr>)"

definition Audit_TcReleaseExclusion :: "TcAuditOperations meth" where
  "Audit_TcReleaseExclusion E ob w =
     (if api_audit ob then Some (TC_OPER_SUCCESS, ob, w)
      else let (r, w1) = via_lock (ReleaseLock (op_session_id ob) 0 TC_RELEASE_WRITE_SESSION
                                     (audit_write_op (tc_oper ob))) w
           in if r \<noteq> TC_LOCK_SUCCESS then Some (Audit_HandleLockRet r, ob, w1)
              else Some (TC_OPER_SUCCESS, ob, HandleCandidateRelease (reset_audit w1)))"

section \<open>Messages\<close>

text \<open>
  A driver of unknown type leaves the message without its data; the result of this function
  is not looked at by the callers.
\<close>

definition Audit_FillTcMsgData ::
  "TcAuditOperations \<Rightarrow> TcMsgOperType \<Rightarrow> TcMsgObj \<Rightarrow> TcOperStatus \<times> TcMsgObj" where
  "Audit_FillTcMsgData ob t m =
     (if t \<noteq> MSG_GET_DRIVERID \<and> au_driver_id ob = UNC_CT_UNKNOWN then (TC_OPER_INVALID_INPUT, m)
      else let m1 = SetData_config 0 (au_controller_id ob)
                      (if t = MSG_GET_DRIVERID then UNC_CT_UNKNOWN else au_driver_id ob) m;
               m2 = obj_set_audit_type (au_audit_type ob) m1;
               m3 = (if t = MSG_AUDIT_START
                     then (let m' = obj_set_reconnect (force_reconnect ob) m2
                           in if tc_oper ob = TC_OP_USER_AUDIT then obj_is_user_audit True m' else m')
                     else m2);
               m4 = (if t = MSG_AUDIT_TRANS_END then obj_set_trans_result (au_trans_result ob) m3 else m3);
               m5 = (if t = MSG_AUDIT_END then obj_set_audit_result (au_audit_result ob) m4 else m4)
           in (TC_OPER_SUCCESS, m5))"

definition audit_msg ::
  "tc_env \<Rightarrow> TcMsgOperType \<Rightarrow> TcAuditOperations \<Rightarrow> tc_state \<Rightarrow> (TcOperRet \<times> TcMsgObj \<times> tc_state) option" where
  "audit_msg E t ob w = do {
     m \<leftarrow> new_msg E ob t;
     execute_msg E (snd (Audit_FillTcMsgData ob t m)) w
   }"

type_synonym audit_step = "(bool \<times> TcAuditOperations \<times> tc_state) option"

definition GetDriverType :: "tc_env \<Rightarrow> TcAuditOperations \<Rightarrow> tc_state \<Rightarrow> audit_step" where
  "GetDriverType E ob w =
     (if tc_oper ob = TC_OP_DRIVER_AUDIT then Some (True, ob, w)
      else do {
        (r, m, w1) \<leftarrow> audit_msg E MSG_GET_DRIVERID ob w;
        if r \<noteq> TCOPER_RET_SUCCESS
        then Some (False, ob\<lparr>user_response := HandleMsgRet r\<rparr>, delete_msg E m w1)
        else let o1 = ob\<lparr>au_driver_id := obj_get_result m\<rparr>
             in if au_driver_id o1 = UNC_CT_UNKNOWN then Some (False, o1\<lparr>au_resp_msg := Some m\<rparr>, w1)
                else Some (True, o1, delete_msg E m w1)
      })"

definition AuditStart :: "tc_env \<Rightarrow> TcAuditOperations \<Rightarrow> tc_state \<Rightarrow> audit_step" where
  "AuditStart E ob w = do {
     (r, m, w1) \<leftarrow> audit_msg E MSG_AUDIT_START ob w;
     if r \<noteq> TCOPER_RET_SUCCESS \<and> r \<noteq> TCOPER_RET_SIMPLIFIED_AUDIT
     then Some (False, ob\<lparr>user_response := HandleMsgRet r, au_resp_msg := Some m\<rparr>, w1)
     else Some (True, if r = TCOPER_RET_SIMPLIFIED_AUDIT
                      then ob\<lparr>user_response := TC_OPER_SIMPLIFIED_AUDIT\<rparr> else ob, delete_msg E m w1)
   }"

definition audit_end_msg :: "TcMsgOperType \<Rightarrow> tc_env \<Rightarrow> TcAuditOperations \<Rightarrow> tc_state \<Rightarrow> audit_step" where
  "audit_end_msg t E ob w = do {
     (r, m, w1) \<leftarrow> audit_msg E t ob w;
     Some (r = TCOPER_RET_SUCCESS,
           if r \<noteq> TCOPER_RET_SUCCESS then ob\<lparr>user_response := TC_SYSTEM_FAILURE\<rparr> else ob, delete_msg E m w1)
   }"

definition AuditTransEnd :: "tc_env \<Rightarrow> TcAuditOperations \<Rightarrow> tc_state \<Rightarrow> audit_step" where
  "AuditTransEnd = audit_end_msg MSG_AUDIT_TRANS_END"

definition AuditEnd :: "tc_env \<Rightarrow> TcAuditOperations \<Rightarrow> tc_state \<Rightarrow> audit_step" where
  "AuditEnd = audit_end_msg MSG_AUDIT_END"

text \<open>
  A refused message is kept for the response once the audit has been ended; it is deleted
  when the end fails too.
\<close>

definition audit_refused ::
  "(tc_env \<Rightarrow> TcAuditOperations \<Rightarrow> tc_state \<Rightarrow> audit_step) \<Rightarrow> TcOperRet \<Rightarrow> TcMsgObj \<Rightarrow> tc_env
     \<Rightarrow> TcAuditOperations \<Rightarrow> tc_state \<Rightarrow> audit_step" where
  "audit_refused undo r m E ob w =
     (if r = TCOPER_RET_FATAL
      then Some (False, ob\<lparr>user_response := HandleMsgRet r, au_resp_msg := Some m\<rparr>, w)
      else do {
        (ended, o1, w1) \<leftarrow> undo E (if r = TCOPER_RET_AUDIT_CANCELLED
                                   then ob\<lparr>au_audit_result := TC_AUDIT_CANCELLED\<rparr> else ob) w;
        if ended then Some (False, o1\<lparr>user_response := HandleMsgRet r, au_resp_msg := Some m\<rparr>, w1)
        else Some (False, o1, delete_msg E m w1)
      })"

definition AuditTransStart :: "tc_env \<Rightarrow> TcAuditOperations \<Rightarrow> tc_state \<Rightarrow> audit_step" where
  "AuditTransStart E ob w = do {
     (r, m, w1) \<leftarrow> audit_msg E MSG_AUDIT_TRANS_START ob w;
     if r \<noteq> TCOPER_RET_SUCCESS then audit_refused AuditEnd r m E ob w1
     else Some (True, ob, delete_msg E m w1)
   }"

definition end_transaction_and_audit :: "tc_env \<Rightarrow> TcAuditOperations \<Rightarrow> tc_state \<Rightarrow> audit_step" where
  "end_transaction_and_audit E ob w = do {
     (ended, o1, w1) \<leftarrow> AuditTransEnd E ob w;
     if ended then AuditEnd E o1 w1 else Some (False, o1, w1)
   }"

definition AuditVote :: "tc_env \<Rightarrow> TcAuditOperations \<Rightarrow> tc_state \<Rightarrow> audit_step" where
  "AuditVote E ob w = do {
     (r, m, w1) \<leftarrow> audit_msg E MSG_AUDIT_VOTE ob w;
     if r \<noteq> TCOPER_RET_SUCCESS then audit_refused end_transaction_and_audit r m E ob w1
     else Some (True, ob, delete_msg E m w1)
   }"

definition AuditGlobalCommit :: "tc_env \<Rightarrow> TcAuditOperations \<Rightarrow> tc_state \<Rightarrow> audit_step" where
  "AuditGlobalCommit E ob w = do {
     (u, w1) \<leftarrow> update_recovery E ob UNC_DT_RUNNING (tc_oper ob) TC_CONFIG_INVALID '''' w;
     (r, m, w2) \<leftarrow> audit_msg E MSG_AUDIT_GLOBAL ob w1;
     let o1 = ob\<lparr>au_trans_result := GetTransResult (base_of m), au_audit_result := GetAuditResult (base_of m)\<rparr> in
     if r \<noteq> TCOPER_RET_SUCCESS
     then Some (False, o1\<lparr>user_response := TC_SYSTEM_FAILURE\<rparr>, delete_msg E m w2)
     else Some (True, o1\<lparr>au_resp_msg := Some m\<rparr>, w2)
   }"

section \<open>Execution\<close>

definition audit_cancelled :: "tc_env \<Rightarrow> TcAuditOperations \<Rightarrow> tc_state \<Rightarrow> bool" where
  "audit_cancelled E ob w \<longleftrightarrow>
     cancel_flag_of E w (ipc_log (tc_ipc w)) \<and> au_audit_type ob \<noteq> TC_AUDIT_REALNETWORK"

text \<open>
  The transaction of an audit. The first component of the result says whether the audit goes
  on; otherwise the second is what \<^verbatim>\<open>Execute\<close> returns.
\<close>

definition audit_transaction :: "tc_env \<Rightarrow> TcAuditOperations \<Rightarrow> tc_state \<Rightarrow> audit_step" where
  "audit_transaction E ob w = do {
     (b1, o1, w1) \<leftarrow> AuditTransStart E ob (SetAuditPhase AUDIT_TRANSACTION_START w);
     if \<not> b1 then Some (False, o1, w1) else do {
     (b2, o2, w2) \<leftarrow> AuditVote E o1 (SetAuditPhase AUDIT_VOTE_REQUEST w1);
     if \<not> b2 then Some (False, o2, w2) else
     let w3 = SetAuditPhase AUDIT_GLOBAL_COMMIT w2 in
     if audit_cancelled E o2 w3
     then do {
       (b4, o4, w4) \<leftarrow> AuditEnd E (o2\<lparr>au_audit_result := TC_AUDIT_CANCELLED\<rparr>) w3;
       Some (False, if b4 then o4\<lparr>user_response := TC_OPER_AUDIT_CANCELLED\<rparr> else o4, w4)
     }
     else do {
       (b5, o5, w5) \<leftarrow> AuditGlobalCommit E o2 (SetRunningStatus w3);
       if \<not> b5 then Some (False, o5, w5)
       else AuditTransEnd E o5 (SetAuditPhase AUDIT_TRANSACTION_END (SetRunningStatusIncr w5))
     }}
   }"

definition audit_has_transaction :: "TcAuditOperations \<Rightarrow> bool" where
  "audit_has_transaction ob \<longleftrightarrow>
     (tc_oper ob = TC_OP_USER_AUDIT \<and> au_audit_type ob \<noteq> TC_AUDIT_REALNETWORK) \<or>
     (tc_oper ob = TC_OP_DRIVER_AUDIT \<and> user_response ob \<noteq> TC_OPER_SIMPLIFIED_AUDIT)"

definition final_result :: "TcAuditOperations \<Rightarrow> TcAuditOperations" where
  "final_result ob =
     (let o1 = (if user_response ob = TC_OPER_SIMPLIFIED_AUDIT \<and> tc_oper ob = TC_OP_DRIVER_AUDIT
                then ob\<lparr>au_audit_result := TC_SIMPLIFIED_AUDIT_SUCCESS\<rparr> else ob)
      in if tc_oper ob = TC_OP_USER_AUDIT \<and> au_audit_type ob = TC_AUDIT_REALNETWORK
         then o1\<lparr>au_audit_result := TC_AUDIT_SUCCESS\<rparr> else o1)"

definition finish_audit :: "TcAuditOperations meth" where
  "finish_audit E ob w = do {
     (b, o1, w1) \<leftarrow> AuditEnd E (final_result ob) (SetAuditPhase AUDIT_END w);
     if \<not> b then Some (user_response o1, o1, w1)
     else do {
       (r, w2) \<leftarrow> update_recovery E o1 UNC_DT_INVALID TC_OP_INVALID TC_CONFIG_INVALID '''' w1;
       if r \<noteq> TCOPER_RET_SUCCESS then Some (TC_OPER_FAILURE, o1\<lparr>user_response := TC_OPER_FAILURE\<rparr>, w2)
       else Some (TC_OPER_SUCCESS, o1, w2)
     }
   }"

definition remember_target :: "TcAuditOperations \<Rightarrow> tc_state \<Rightarrow> tc_state" where
  "remember_target ob w =
     w\<lparr>tc_msgs := SetNotifyControllerId (au_controller_id ob) (SetNotifyDriverId (au_driver_id ob) (tc_msgs w))\<rparr>"

definition Audit_Execute :: "TcAuditOperations meth" where
  "Audit_Execute E ob w =
     (if api_audit ob then Some (TC_OPER_SUCCESS, ob, w)
      else do {
        (known, o1, w1) \<leftarrow> GetDriverType E ob w;
        if \<not> known then Some (TC_OPER_ABORT, o1, w1)
        else let w2 = remember_target o1 w1 in
        if audit_cancelled E o1 w2
        then Some (TC_OPER_AUDIT_CANCELLED,
                   o1\<lparr>user_response := TC_OPER_AUDIT_CANCELLED, au_audit_result := TC_AUDIT_CANCELLED\<rparr>, w2)
        else do {
          (started, o3, w3) \<leftarrow> AuditStart E o1 (SetAuditPhase AUDIT_START w2);
          if \<not> started then Some (user_response o3, o3, w3)
          else if \<not> audit_has_transaction o3 then finish_audit E o3 w3
          else do {
            (goes_on, o4, w4) \<leftarrow> audit_transaction E o3 w3;
            if \<not> goes_on then Some (user_response o4, o4, w4) else finish_audit E o4 w4
          }
        }
      })"

section \<open>Response\<close>

definition SetAuditOperationStatus :: "tc_env \<Rightarrow> TcAuditOperations \<Rightarrow> tc_state \<Rightarrow> TcOperStatus \<times> tc_state" where
  "SetAuditOperationStatus E ob w =
     (let (r, w1) = via_ipc (srv_set_uint32 (ext E) (ucast (audit_result_num (au_audit_result ob)))) w
      in (if r \<noteq> TCUTIL_RET_SUCCESS then TC_OPER_FAILURE else TC_OPER_SUCCESS, w1))"

definition Audit_SendAdditionalResponse :: "TcOperStatus \<Rightarrow> TcAuditOperations meth" where
  "Audit_SendAdditionalResponse st E ob w =
     (if api_audit ob then Some (st, ob, w)
      else let (r, w1) = SetAuditOperationStatus E ob w
      in if r \<noteq> TC_OPER_SUCCESS then Some (TC_OPER_FAILURE, ob, w1)
         else case au_resp_msg ob of
             None \<Rightarrow> Some (st, ob, w1)
           | Some m \<Rightarrow>
               if tc_oper ob \<noteq> TC_OP_USER_AUDIT then Some (st, ob, w1)
               else let (f, w2) = via_ipc (ForwardResponseToVTN (ext E) (base_of m)) w1
                    in Some (if f \<noteq> TCOPER_RET_SUCCESS then TC_SYSTEM_FAILURE else st, ob, w2))"

definition audit_methods :: "TcAuditOperations op_methods" where
  "audit_methods = \<lparr>op_HandleArgs = HandleArgs audit_args, op_GetExclusion = Audit_TcGetExclusion,
     op_CreateMsgList = ok, op_Execute = Audit_Execute,
     op_ReleaseExclusion = Audit_TcReleaseExclusion,
     op_SendResponse = SendResponse Audit_SendAdditionalResponse\<rparr>"

section \<open>Waiting for the lock\<close>

definition primary_wait :: "tc_env \<Rightarrow> TcAuditOperations \<Rightarrow> tc_state \<Rightarrow> tc_state" where
  "primary_wait E ob w =
     reset_flags ob (if primary_wait_signalled (audit_waits w (au_self ob)) then w
                     else snd (cond_wait E None w))"

text \<open>
  The second wait gives candidate operations a time to follow the last one. \<open>True\<close>: it was
  ended by a signal, or one had arrived before it began.
\<close>

definition secondary_wait :: "tc_env \<Rightarrow> TcAuditOperations \<Rightarrow> tc_state \<Rightarrow> bool \<times> tc_state" where
  "secondary_wait E ob w =
     (let now = gettimeofday E w;
          (signalled, w1) =
            (if secondary_wait_signalled (audit_waits w (au_self ob)) then (True, w)
             else cond_wait E (Some (fst now + uint (secondary_driver_audit_timeout w), snd now * 1000)) w)
      in (signalled, reset_secondary ob w1))"

text \<open>One round: the answer of the function, or none when it goes back to the first wait.\<close>

definition wait_round ::
  "tc_env \<Rightarrow> TcAuditOperations \<Rightarrow> tc_state \<Rightarrow> (TcOperStatus option \<times> TcAuditOperations \<times> tc_state) option" where
  "wait_round E ob w =
     (let w1 = primary_wait E ob w;
          exclude = (\<lambda>w2. do {
            (r, o3, w3) \<leftarrow> Audit_TcGetExclusion E ob w2;
            Some (if r \<noteq> TC_OPER_SUCCESS then None else Some r, o3, w3)
          })
      in if get_sys_stop (tc_ipc w1) then Some (Some TC_INVALID_STATE, ob, w1)
         else if IsLastOperationCandidate (tc_lock w1)
         then let (signalled, w2) = secondary_wait E ob w1
              in if get_sys_stop (tc_ipc w2) then Some (Some TC_INVALID_STATE, ob, w2)
                 else if signalled then Some (None, ob, w2)
                 else exclude w2
         else exclude w1)"

partial_function (option) wait_loop :: "TcAuditOperations meth" where
  "wait_loop E ob w = do {
     (answer, o1, w1) \<leftarrow> wait_round E ob w;
     case answer of Some r \<Rightarrow> Some (r, o1, w1) | None \<Rightarrow> wait_loop E o1 w1
   }"

definition DriverAuditWait :: "TcAuditOperations meth" where
  "DriverAuditWait E ob w =
     (if get_sys_stop (tc_ipc w) then Some (TC_INVALID_STATE, ob, w) else wait_loop E ob w)"

section \<open>Dispatch\<close>

text \<open>A driver audit that failed drops the message it kept before it is revoked.\<close>

definition audit_execute_phase :: "TcAuditOperations meth" where
  "audit_execute_phase E ob w = do {
     (r, o1, w1) \<leftarrow> Audit_Execute E ob w;
     if r \<noteq> TC_OPER_SUCCESS \<and> tc_oper o1 = TC_OP_DRIVER_AUDIT
     then Some (r, o1\<lparr>au_resp_msg := None\<rparr>,
                case au_resp_msg o1 of None \<Rightarrow> w1 | Some m \<Rightarrow> delete_msg E m w1)
     else Some (r, o1, w1)
   }"

definition audit_tail :: "TcAuditOperations meth" where
  "audit_tail =
     dispatch_tail (audit_methods\<lparr>op_Execute := audit_execute_phase\<rparr>)
       (op_SendResponse audit_methods TC_OPER_SUCCESS)"

definition audit_exclusion :: "TcAuditOperations meth" where
  "audit_exclusion E ob w0 =
     (let w = reset_flags ob w0;
          queued = (candidate_req_queue w \<noteq> []);
          background = (\<not> ssess ob \<and> tc_oper ob = TC_OP_DRIVER_AUDIT)
      in if tc_oper ob = TC_OP_USER_AUDIT \<and> queued
         then RevokeOperation audit_methods TC_SYSTEM_BUSY E ob w
         else do {
           (r, o1, w1) \<leftarrow>
             (if background \<and> queued then DriverAuditWait E ob w
              else do {
                (g, o2, w2) \<leftarrow> Audit_TcGetExclusion E (ob\<lparr>tc_oper_status := GET_EXCLUSION_PHASE\<rparr>) w;
                if g \<noteq> TC_OPER_SUCCESS \<and> background then DriverAuditWait E o2 w2 else Some (g, o2, w2)
              });
           if r \<noteq> TC_OPER_SUCCESS then RevokeOperation audit_methods r E o1 w1
           else audit_tail E o1 w1
         })"

definition Audit_Dispatch :: "TcAuditOperations meth" where
  "Audit_Dispatch = run_phase audit_methods INPUT_VALIDATION (op_HandleArgs audit_methods) audit_exclusion"

section \<open>Driver audits from the task queue\<close>

partial_function (option) audit_until_done :: "TcAuditOperations meth" where
  "audit_until_done E ob w = do {
     (r, o1, w1) \<leftarrow> Audit_Dispatch E ob w;
     if r = TC_OPER_AUDIT_CANCELLED then audit_until_done E o1 w1 else Some (r, o1, w1)
   }"

definition HandleDriverAudit ::
  "tc_env \<Rightarrow> nat \<Rightarrow> string \<Rightarrow> TcDbHandler \<Rightarrow> TcChannelNameMap \<Rightarrow> unc_keytype_ctrtype_t \<Rightarrow> tc_state
     \<Rightarrow> tc_state option" where
  "HandleDriverAudit E addr ctr h channels drv w =
     (let ob = (TcAuditOperations_new addr False (Some h) channels False)
                 \<lparr>au_controller_id := ctr, tc_oper := TC_OP_DRIVER_AUDIT, au_driver_id := drv\<rparr>
      in do {
        (r, o1, w1) \<leftarrow> audit_until_done E ob (PushToWaitQueue addr (reset_flags ob w));
        Some (TcAuditOperations_delete E o1 (PopWaitQueue w1))
      })"

definition SetSecondaryWaitTime :: "u32 \<Rightarrow> tc_state \<Rightarrow> tc_state" where
  "SetSecondaryWaitTime t w = w\<lparr>secondary_driver_audit_timeout := t\<rparr>"

end
