(* ===== verification/TcStartUpOps.thy ===== *)
theory TcStartUpOps
  imports TcUserOps
begin

text \<open>
  \<^verbatim>\<open>TcStartUpOperations\<close> (\<^verbatim>\<open>tc_startup_operations.cc\<close>): what the coordinator does when
  it becomes active. The recovery table tells which operation was interrupted; its database is
  audited, then the setup messages are sent.
\<close>

record TcStartUpOperations = TcOperations +
  is_switch :: bool
  su_fail_oper :: TcServiceType
  su_version :: u64
  su_database_type :: unc_keytype_datatype_t
  su_config_mode :: TcConfigMode
  su_vtn_name :: string

definition TcStartUpOperations_new ::
  "bool \<Rightarrow> TcDbHandler option \<Rightarrow> TcChannelNameMap \<Rightarrow> bool \<Rightarrow> TcStartUpOperations" where
  "TcStartUpOperations_new has_sess h channels switched =
     TcOperations.extend (TcOperations_new has_sess h channels)
       (TcStartUpOperations.fields switched TC_OP_INVALID 0 UNC_DT_INVALID TC_CONFIG_INVALID '''')"

text \<open>The row of the recovery table, read into the members of the object.\<close>

definition load_recovery ::
  "tc_env \<Rightarrow> u32 \<Rightarrow> TcStartUpOperations \<Rightarrow> tc_state \<Rightarrow> (TcOperRet \<times> u32 \<times> TcStartUpOperations \<times> tc_state) option" where
  "load_recovery E failover ob w =
     (if db_hdlr ob = None then None
      else case GetRecoveryTable (ext E)
             \<lparr>rc_db = su_database_type ob, rc_oper = su_fail_oper ob, rc_mode = su_config_mode ob,
              rc_vtn = su_vtn_name ob, rc_failover = failover\<rparr> (tc_ipc w) of
          (r, row, i) \<Rightarrow>
            Some (r, rc_failover row,
                  ob\<lparr>su_database_type := rc_db row, su_fail_oper := rc_oper row,
                     su_config_mode := rc_mode row, su_vtn_name := rc_vtn row\<rparr>, w\<lparr>tc_ipc := i\<rparr>))"

definition StartUp_HandleArgs :: "TcStartUpOperations meth" where
  "StartUp_HandleArgs E ob w = do {
     (r, failover, o1, w1) \<leftarrow> load_recovery E 0 ob w;
     Some (if r \<noteq> TCOPER_RET_SUCCESS then TC_OPER_FAILURE else TC_OPER_SUCCESS, o1, w1)
   }"

text \<open>Which messages a cold start and a switchover send.\<close>

definition startup_messages :: "bool \<Rightarrow> bool \<Rightarrow> unc_keytype_datatype_t \<Rightarrow> TcServiceType \<Rightarrow> TcMsgOperType list" where
  "startup_messages switched auto db op =
     (if \<not> switched
      then (if auto \<and> db \<noteq> UNC_DT_INVALID \<and> op = TC_OP_CANDIDATE_COMMIT then [MSG_AUDITDB]
            else if \<not> auto \<and> db \<noteq> UNC_DT_INVALID \<and> (op = TC_OP_RUNNING_SAVE \<or> op = TC_OP_CLEAR_STARTUP)
            then [MSG_AUDITDB] else []) @ [MSG_SETUP]
      else (if db \<noteq> UNC_DT_INVALID \<and> op \<noteq> TC_OP_INVALID then [MSG_AUDITDB] else []))
     @ [MSG_SETUP_COMPLETE]"

definition StartUp_TcCreateMsgList :: "TcStartUpOperations meth" where
  "StartUp_TcCreateMsgList E ob w =
     (if TcOperMessageList ob \<noteq> [] then Some (TC_OPER_FAILURE, ob, w)
      else let fin = (\<lambda>auto w1. Some (TC_OPER_SUCCESS,
                 ob\<lparr>TcOperMessageList :=
                      startup_messages (is_switch ob) auto (su_database_type ob) (su_fail_oper ob)\<rparr>, w1))
      in if is_switch ob then fin False w
         else do {
           (r, auto, w1) \<leftarrow> read_autosave E ob False w;
           if r = TCOPER_RET_FAILURE then Some (TC_OPER_FAILURE, ob, w1) else fin auto w1
         })"

text \<open>The state becomes active before the last message is sent.\<close>

definition StartUp_FillTcMsgData :: "TcStartUpOperations fill" where
  "StartUp_FillTcMsgData E m t ob w =
     (let w1 = (if t = MSG_SETUP_COMPLETE then w\<lparr>tc_lock := TcUpdateUncState TC_ACT (tc_lock w)\<rparr> else w)
      in do {
        (r, auto, w2) \<leftarrow> read_autosave E ob False w1;
        if r = TCOPER_RET_FAILURE then Some (TC_OPER_FAILURE, m, ob, w2)
        else let m1 = SetData_autosave auto m
             in Some (TC_OPER_SUCCESS,
                  if t = MSG_AUDITDB
                  then SetData_mode 0 (su_config_mode ob) (su_vtn_name ob)
                         (SetData_version (su_database_type ob) (su_fail_oper ob) (su_version ob) m1)
                  else m1, ob, w2)
      })"

definition startup_version :: "TcMsgOperType \<Rightarrow> TcStartUpOperations meth" where
  "startup_version t E ob w =
     (let get = (\<lambda>g. case g (ext E) 0 (tc_ipc w) of
                    (r, v, i) \<Rightarrow> Some (TC_OPER_SUCCESS, ob\<lparr>su_version := v\<rparr>, w\<lparr>tc_ipc := i\<rparr>))
      in if t = MSG_AUDITDB \<and> su_fail_oper ob \<in> {TC_OP_CANDIDATE_ABORT, TC_OP_RUNNING_SAVE}
         then if db_hdlr ob = None then None
              else if su_fail_oper ob = TC_OP_CANDIDATE_ABORT then get GetRecoveryTableAbortVersion
              else get GetRecoveryTableSaveVersion
         else Some (TC_OPER_SUCCESS, ob\<lparr>su_version := 0\<rparr>, w))"

text \<open>An audit of the running or the startup database is shown in the read status.\<close>

definition startup_execute ::
  "tc_env \<Rightarrow> TcMsgObj \<Rightarrow> TcMsgOperType \<Rightarrow> TcStartUpOperations \<Rightarrow> tc_state
     \<Rightarrow> (TcOperRet \<times> TcMsgObj \<times> tc_state) option" where
  "startup_execute E m t ob w =
     (let (before, after) =
        (if t = MSG_AUDITDB \<and> su_database_type ob = UNC_DT_RUNNING then (SetRunningStatus, SetRunningStatusIncr)
         else if t = MSG_AUDITDB \<and> su_database_type ob = UNC_DT_STARTUP then (SetStartupStatus, SetStartupStatusIncr)
         else (id, id))
      in do { (r, m1, w1) \<leftarrow> execute_msg E m (before w); Some (r, m1, after w1) })"

text \<open>The versions that are written back after a message has succeeded; errors are only logged.\<close>

definition startup_done :: "TcMsgOperType \<Rightarrow> TcStartUpOperations meth" where
  "startup_done t E ob w =
     (if t = MSG_AUDITDB
      then let o1 = ob\<lparr>su_version := su_version ob + 1\<rparr>
           in if su_fail_oper ob = TC_OP_CANDIDATE_ABORT
              then map_option (\<lambda>(r, w1). (TC_OPER_SUCCESS, o1, w1))
                     (via_db o1 (UpdateRecoveryTableAbortVersion (ext E) (su_version o1)) w)
              else if su_fail_oper ob = TC_OP_RUNNING_SAVE
              then map_option (\<lambda>(r, w1). (TC_OPER_SUCCESS, o1, w1))
                     (via_db o1 (UpdateRecoveryTableSaveVersion (ext E) (su_version o1)) w)
              else Some (TC_OPER_SUCCESS, o1, w)
      else if t = MSG_SETUP
      then let o1 = ob\<lparr>su_version := 0\<rparr> in do {
             (r1, w1) \<leftarrow> via_db o1 (UpdateRecoveryTableAbortVersion (ext E) 0) w;
             (r2, w2) \<leftarrow> via_db o1 (UpdateRecoveryTableSaveVersion (ext E) 0) w1;
             Some (TC_OPER_SUCCESS, o1, w2)
           }
      else if t = MSG_SETUP_COMPLETE
      then Some (TC_OPER_SUCCESS, ob, ReadStatus_Init (w\<lparr>tc_lock := TcSetSetupComplete True (tc_lock w)\<rparr>))
      else Some (TC_OPER_SUCCESS, ob, w))"

fun startup_list :: "TcMsgOperType list \<Rightarrow> TcStartUpOperations meth" where
  "startup_list [] E ob w = Some (TC_OPER_SUCCESS, ob, w)"
| "startup_list (t # ts) E ob w =
     (case new_msg E ob t of
        None \<Rightarrow> Some (TC_SYSTEM_FAILURE, ob, w)
      | Some m \<Rightarrow> do {
          (_, o1, w1) \<leftarrow> startup_version t E ob w;
          (f, m2, o2, w2) \<leftarrow> StartUp_FillTcMsgData E m t o1 w1;
          if f \<noteq> TC_OPER_SUCCESS then Some (TC_SYSTEM_FAILURE, o2, delete_msg E m2 w2)
          else do {
            (mr, m3, w3) \<leftarrow> startup_execute E m2 t o2 w2;
            if mr = TCOPER_RET_SUCCESS
            then do {
              (_, o4, w4) \<leftarrow> startup_done t E o2 w3;
              startup_list ts E o4 (delete_msg E m3 w4)
            }
            else if t = MSG_AUDITDB \<and> mr = TCOPER_RET_LAST_DB_OP_FAILED
            then startup_list ts E o2 (delete_msg E m3 w3)
            else Some (HandleMsgRet mr,
                       if t = MSG_AUDITDB then o2\<lparr>audit_db_fail := True\<rparr> else o2, delete_msg E m3 w3)
          }
        })"

definition StartUp_Execute :: "TcStartUpOperations meth" where
  "StartUp_Execute E ob w =
     (if TcOperMessageList ob = [] then Some (TC_OPER_FAILURE, ob, w)
      else startup_list (TcOperMessageList ob) E ob w)"

abbreviation (input) USESS_ID_TC :: u32 where "USESS_ID_TC \<equiv> 133"

text \<open>
  The end of the operation: the recovery table is reset, and the flag of a dirty global
  configuration with it when the layers report a clean candidate.
\<close>

definition StartUp_SendResponse :: "TcOperStatus \<Rightarrow> TcStartUpOperations meth" where
  "StartUp_SendResponse st E ob w =
     (if st \<noteq> TC_OPER_SUCCESS then Some (st, ob, w)
      else do {
        (r1, w1) \<leftarrow> update_recovery E ob UNC_DT_INVALID TC_OP_INVALID TC_CONFIG_INVALID '''' w;
        if r1 \<noteq> TCOPER_RET_SUCCESS then Some (TC_SYSTEM_FAILURE, ob, w1)
        else (case GetRecoveryTableGlobalModeDirty (ext E) False (tc_ipc w1) of
          (r2, flag, i) \<Rightarrow>
            let w2 = w1\<lparr>tc_ipc := i\<rparr>
            in if r2 \<noteq> TCOPER_RET_SUCCESS then Some (TC_SYSTEM_FAILURE, ob, w2)
               else if \<not> flag then Some (st, ob, w2)
               else case IsCandidateDirty E USESS_ID_TC 0 ob w2 of
                   (dirty, o3, w3) \<Rightarrow>
                     if dirty \<noteq> 0 then Some (st, o3, w3)
                     else do {
                       (r4, w4) \<leftarrow> via_db o3 (UpdateRecoveryTableGlobalModeDirty (ext E) False) w3;
                       Some (if r4 \<noteq> TCOPER_RET_SUCCESS then TC_SYSTEM_FAILURE else st, o3, w4)
                     })
      })"

definition startup_methods :: "TcStartUpOperations op_methods" where
  "startup_methods = \<lparr>op_HandleArgs = StartUp_HandleArgs, op_GetExclusion = ok,
     op_CreateMsgList = StartUp_TcCreateMsgList, op_Execute = StartUp_Execute,
     op_ReleaseExclusion = ok, op_SendResponse = StartUp_SendResponse\<rparr>"

text \<open>The alarm for a failed audit; the texts are those of the audited database.\<close>

definition SendAuditDBFailNotice :: "tc_env \<Rightarrow> TcStartUpOperations \<Rightarrow> tc_state \<Rightarrow> TcOperStatus \<times> tc_state" where
  "SendAuditDBFailNotice E ob w =
     (let (msg, key) =
        (case su_database_type ob of
           UNC_DT_RUNNING \<Rightarrow> (''Audit of Running DB failed'', ''DB_Running'')
         | UNC_DT_STARTUP \<Rightarrow> (''Audit of Startup DB failed'', ''DB_Startup'')
         | UNC_DT_CANDIDATE \<Rightarrow> (''Audit of Candidate DB failed'', ''DB_Candidate'')
         | _ \<Rightarrow> ('''', ''''));
          (r, w1) = via_ipc (ask (ext E) (AlarmSend msg key)) w
      in (if rp_err r \<noteq> 0 then TC_OPER_FAILURE else TC_OPER_SUCCESS, w1))"

end
