(* ===== verification/TcModule.thy ===== *)
theory TcModule
  imports TcAuditOps TcStartUpOps
begin

text \<open>
  The module: the channels of the daemons (\<^verbatim>\<open>tc_lnc_event_handler.cc\<close>), the requests of
  clients and the calls of the session manager (\<^verbatim>\<open>tc_module.cc\<close>), and the life cycle
  (\<^verbatim>\<open>tc_unc_states.cc\<close>). A result \<open>None\<close> means that the process was aborted or that the
  call waits for a lock.
\<close>

section \<open>Channels of the daemons\<close>

text \<open>
  The list of the launcher is a parameter, with \<open>None\<close> for an error; the first name of an
  empty list raises an exception.
\<close>

datatype lnc_proctype = LNC_PROCTYPE_LOGICAL | LNC_PROCTYPE_PHYSICAL | LNC_PROCTYPE_DRIVER

type_synonym dmlist = "lnc_proctype \<Rightarrow> string list option"

text \<open>\<^verbatim>\<open>insert\<close> does not overwrite.\<close>

definition map_insert :: "TcDaemonName \<Rightarrow> string \<Rightarrow> TcChannelNameMap \<Rightarrow> TcChannelNameMap" where
  "map_insert d c m = (case m d of None \<Rightarrow> m(d \<mapsto> c) | Some _ \<Rightarrow> m)"

definition collect_layer ::
  "dmlist \<Rightarrow> lnc_proctype \<Rightarrow> TcDaemonName \<Rightarrow> TcChannelNameMap \<Rightarrow> (bool \<times> TcChannelNameMap) option" where
  "collect_layer dl t d m =
     (case dl t of
        None \<Rightarrow> Some (False, m) | Some [] \<Rightarrow> None | Some (c # _) \<Rightarrow> Some (True, map_insert d c m))"

definition TcConvertDriverType :: "unc_keytype_ctrtype_t \<Rightarrow> TcDaemonName" where
  "TcConvertDriverType t =
     (if t = UNC_CT_PFC then TC_DRV_OPENFLOW else if t = UNC_CT_VNP then TC_DRV_OVERLAY
      else if t = UNC_CT_POLC then TC_DRV_POLC else if t = UNC_CT_VAN then TC_DRV_VAN
      else if t = UNC_CT_ODC then TC_DRV_ODC else TC_NONE)"

fun collect_drivers ::
  "ipc_env \<Rightarrow> string list \<Rightarrow> TcChannelNameMap \<Rightarrow> ipc_state \<Rightarrow> bool \<times> TcChannelNameMap \<times> ipc_state" where
  "collect_drivers E [] m i = (True, m, i)"
| "collect_drivers E (c # cs) m i =
     (case GetControllerType E c i of
        (r, t, i1) \<Rightarrow>
          if r \<noteq> TCOPER_RET_SUCCESS then (False, m, i1)
          else let d = TcConvertDriverType (case t of None \<Rightarrow> UNC_CT_UNKNOWN | Some x \<Rightarrow> x)
               in if d = TC_NONE then (False, m, i1) else collect_drivers E cs (map_insert d c m) i1)"

definition collect_unc_daemon_names ::
  "ipc_env \<Rightarrow> dmlist \<Rightarrow> ipc_state \<Rightarrow> (bool \<times> TcChannelNameMap \<times> ipc_state) option" where
  "collect_unc_daemon_names E dl i = do {
     (b1, m1) \<leftarrow> collect_layer dl LNC_PROCTYPE_LOGICAL TC_UPLL Map.empty;
     if \<not> b1 then Some (False, m1, i) else do {
     (b2, m2) \<leftarrow> collect_layer dl LNC_PROCTYPE_PHYSICAL TC_UPPL m1;
     if \<not> b2 then Some (False, m2, i)
     else Some (case dl LNC_PROCTYPE_DRIVER of
                  None \<Rightarrow> (False, m2, i) | Some cs \<Rightarrow> collect_drivers E cs m2 i) }
   }"


section \<open>State\<close>

datatype UncState = INIT | ACT | SBY | STOP | FAILURE

record TcModule =
  md_dsn_name :: string
  act_dsn_name :: string
  tc_channels :: TcChannelNameMap
  max_failover_instance :: u32
  unc_state :: UncState

datatype TcApiRet =
    TC_API_COMMON_SUCCESS | TC_INVALID_PARAM | TC_INVALID_UNC_STATE | TC_NO_CONFIG_SESSION
  | TC_API_COMMON_FAILURE

definition new_db :: "tc_env \<Rightarrow> TcModule \<Rightarrow> tc_state \<Rightarrow> TcDbHandler \<times> tc_state" where
  "new_db E md w = via_ipc (TcDbHandler_new (ext E) (md_dsn_name md)) w"


section \<open>Requests\<close>

text \<open>The object of the operation lives as long as its dispatch.\<close>

definition serve ::
  "(tc_env \<Rightarrow> 'o \<Rightarrow> tc_state \<Rightarrow> tc_state) \<Rightarrow> 'o meth \<Rightarrow> tc_env \<Rightarrow> 'o \<Rightarrow> tc_state
     \<Rightarrow> (TcOperStatus \<times> tc_state) option" where
  "serve delete dispatch E ob w = do {
     (r, o1, w1) \<leftarrow> dispatch E ob w;
     Some (r, delete E o1 w1)
   }"

type_synonym handler = "tc_env \<Rightarrow> TcModule \<Rightarrow> tc_state \<Rightarrow> (TcOperStatus \<times> tc_state) option"

definition HandleConfigRequests :: handler where
  "HandleConfigRequests E md w =
     (let (h, w1) = new_db E md w
      in serve TcOperations_delete Config_Dispatch E
           (TcConfigOperations_new True (Some h) (tc_channels md)) w1)"

definition HandleStartUpRequests :: handler where
  "HandleStartUpRequests E md w =
     (let (h, w1) = new_db E md w
      in serve TcOperations_delete Db_Dispatch E
           (TcDbOperations_new (unset_u64 E) True (Some h) (tc_channels md)) w1)"

definition HandleReadRequests :: handler where
  "HandleReadRequests E md w =
     serve TcOperations_delete (Dispatch read_methods) E
       (TcReadOperations_new True None (tc_channels md) True) w"

definition HandleReadStatusRequests :: handler where
  "HandleReadStatusRequests E md w =
     serve TcOperations_delete (Dispatch status_methods) E
       (TcOperations_new True None (tc_channels md)) w"

definition HandleAutoSaveRequests :: handler where
  "HandleAutoSaveRequests E md w =
     (let (h, w1) = new_db E md w; (_, w2) = via_ipc (ask (ext E) SrvTimeout) w1
      in serve TcOperations_delete (Dispatch autosave_methods) E
           (TcAutoSaveOperations_new True (Some h) (tc_channels md)) w2)"

definition HandleCandidateRequests :: handler where
  "HandleCandidateRequests E md w =
     (let (h, w1) = new_db E md w
      in serve TcCandidateOperations_delete Candidate_Dispatch E
           (TcCandidateOperations_new True (Some h) (tc_channels md)) w1)"

text \<open>The address of the object does not matter here: it is not put into the queue of audits.\<close>

definition HandleAuditRequests :: "nat \<Rightarrow> handler" where
  "HandleAuditRequests addr E md w =
     (let (h, w1) = new_db E md w
      in serve TcAuditOperations_delete Audit_Dispatch E
           (TcAuditOperations_new addr True (Some h) (tc_channels md) True) w1)"

definition ipcService :: "nat \<Rightarrow> u32 \<Rightarrow> handler" where
  "ipcService addr service E md w =
     (if service = 0 then HandleConfigRequests E md w
      else if service = 2 then HandleStartUpRequests E md w
      else if service = 3 then HandleReadRequests E md w
      else if service = 4 then HandleReadStatusRequests E md w
      else if service = 5 then HandleAutoSaveRequests E md w
      else if service = 1 then HandleCandidateRequests E md w
      else if service = 6 then HandleAuditRequests addr E md w
      else Some (TC_OPER_INVALID_INPUT, w))"


section \<open>Sessions\<close>

definition TcGetConfigSession :: "u32 \<Rightarrow> tc_state \<Rightarrow> TcApiRet \<times> config_data" where
  "TcGetConfigSession sid w =
     (case GetConfigData sid (tc_lock w) of
        (r, d) \<Rightarrow>
          (case r of
             TC_LOCK_INVALID_PARAMS \<Rightarrow> TC_INVALID_PARAM
           | TC_LOCK_INVALID_UNC_STATE \<Rightarrow> TC_INVALID_UNC_STATE
           | TC_LOCK_SUCCESS \<Rightarrow> TC_API_COMMON_SUCCESS
           | _ \<Rightarrow> TC_NO_CONFIG_SESSION, d))"

definition release_config ::
  "u32 \<Rightarrow> u32 \<Rightarrow> TcConfigMode \<Rightarrow> string \<Rightarrow> handler" where
  "release_config sid cid mode vtn E md w =
     (let (h, w1) = new_db E md w;
          ob = (TcConfigOperations_new False (Some h) (tc_channels md))
                 \<lparr>op_session_id := sid, cf_config_id := cid, tc_mode := mode,
                  cf_vtn_name := (if mode = TC_CONFIG_VTN then vtn else ''''),
                  tc_oper := TC_OP_CONFIG_RELEASE\<rparr>
      in serve TcOperations_delete Config_Dispatch E ob w1)"

text \<open>All sessions; the result is that of the last release.\<close>

fun release_all :: "TcConfigNameMap \<Rightarrow> TcOperStatus \<Rightarrow> handler" where
  "release_all [] r E md w = Some (r, w)"
| "release_all ((nm, c) # rest) r E md w =
     (if cl_is_taken c
      then do {
        (r1, w1) \<leftarrow> release_config (cl_session_id c) (cl_config_id c) (mode_of_name nm) nm E md w;
        release_all rest r1 E md w1
      }
      else release_all rest r E md w)"

definition ReleaseConfigSession_all :: handler where
  "ReleaseConfigSession_all E md w = release_all (GetConfigMap (tc_lock w)) TC_OPER_SUCCESS E md w"

definition ReleaseConfigSession :: "u32 \<Rightarrow> handler" where
  "ReleaseConfigSession sid E md w =
     (case TcGetConfigSession sid w of
        (r, d) \<Rightarrow>
          if r \<noteq> TC_API_COMMON_SUCCESS then Some (TC_OPER_SUCCESS, w)
          else release_config sid (case cd_config_id d of None \<Rightarrow> 0 | Some c \<Rightarrow> c)
                 (case cd_mode d of None \<Rightarrow> unset_mode E | Some m \<Rightarrow> m) (cd_vtn_name d) E md w)"

definition TcReleaseSession :: "u32 \<Rightarrow> tc_env \<Rightarrow> TcModule \<Rightarrow> tc_state \<Rightarrow> (TcApiRet \<times> tc_state) option" where
  "TcReleaseSession sid E md w =
     (let st = GetUncCurrentState (tc_lock w)
      in if st \<noteq> TC_ACT \<and> st \<noteq> TC_SBY then Some (TC_INVALID_UNC_STATE, w)
         else case GetSessionOperation sid (tc_lock w) of
           TC_READ_PROGRESS \<Rightarrow> do {
             (r, w1) \<leftarrow> serve TcOperations_delete (Dispatch read_methods) E
                          ((TcReadOperations_new False None (tc_channels md) True)
                             \<lparr>op_session_id := sid, tc_oper := TC_OP_READ_RELEASE\<rparr>) w;
             Some (TC_API_COMMON_SUCCESS, w1)
           }
         | TC_WRITE_ABORT_CANDIDATE_CONFIG_PROGRESS \<Rightarrow>
             (let (r, w1) = via_lock (TcMarkSessionId sid) w
              in Some (if r = TC_LOCK_SUCCESS then TC_API_COMMON_SUCCESS else TC_INVALID_PARAM, w1))
         | TC_CONFIG_COMMIT_PROGRESS \<Rightarrow>
             (let (r, w1) = via_lock (TcMarkSessionId sid) w
              in Some (if r = TC_LOCK_SUCCESS then TC_API_COMMON_SUCCESS else TC_INVALID_PARAM, w1))
         | TC_CONFIG_NO_NOTIFY_PROGRESS \<Rightarrow> do {
             (r, w1) \<leftarrow> ReleaseConfigSession sid E md w;
             Some (if r = TC_OPER_SUCCESS then TC_API_COMMON_SUCCESS else TC_INVALID_PARAM, w1)
           }
         | TC_NO_OPERATION_PROGRESS \<Rightarrow> Some (TC_INVALID_PARAM, w)
         | _ \<Rightarrow> Some (TC_API_COMMON_SUCCESS, w))"


section \<open>Life cycle\<close>

definition transition_lock :: "tc_state \<Rightarrow> (TcLockRet \<times> tc_state) option" where
  "transition_lock w =
     take_lock (GetLock 0 TC_ACQUIRE_READ_LOCK_FOR_STATE_TRANSITION TC_WRITE_NONE TC_CONFIG_GLOBAL '''') w"

definition transition_unlock :: "tc_state \<Rightarrow> TcLockRet \<times> tc_state" where
  "transition_unlock w =
     via_lock (ReleaseLock 0 0 TC_RELEASE_READ_LOCK_FOR_STATE_TRANSITION TC_WRITE_NONE) w"

definition HandleStart :: "tc_state \<Rightarrow> (bool \<times> tc_state) option" where
  "HandleStart w = do {
     (r, w1) \<leftarrow> transition_lock w;
     if r \<noteq> TC_LOCK_SUCCESS then Some (False, w1)
     else let (r2, w2) = transition_unlock (w1\<lparr>tc_lock := TcUpdateUncState TC_SBY (tc_lock w1)\<rparr>)
          in Some (r2 = TC_LOCK_SUCCESS, w2)
   }"

definition HandleStop :: "tc_env \<Rightarrow> tc_state \<Rightarrow> bool \<times> tc_state" where
  "HandleStop E w =
     (let w1 = w\<lparr>tc_lock := TcUpdateUncState TC_STOP (tc_lock w)\<rparr>;
          w2 = snd (via_ipc (tc_session_cancel_all_sessions (ext E)) w1);
          w3 = SignalSecondaryWaitingAudit (SignalPrimaryWaitingAudit w2);
          w4 = ClearCandidateQueue (ClearConfigAcquisitionQueue w3)
      in (True, w4\<lparr>tc_lock := ResetTcGlobalDataOnStateTransition (tc_lock w4)\<rparr>))"

text \<open>
  A failed audit of a database counts the failures in the recovery table; from the configured
  number on the coordinator becomes active without having been set up. The answer is the
  one of \<^verbatim>\<open>HandleAct\<close>, or none when the failure is reported.
\<close>

definition audit_db_failed ::
  "tc_env \<Rightarrow> TcModule \<Rightarrow> TcStartUpOperations \<Rightarrow> tc_state \<Rightarrow> (bool option \<times> TcStartUpOperations \<times> tc_state) option" where
  "audit_db_failed E md ob w = do {
     (r, n, o1, w1) \<leftarrow> load_recovery E (ucast (unset_u64 E)) ob w;
     if r \<noteq> TCOPER_RET_SUCCESS then Some (None, o1, w1)
     else (case UpdateRecoveryTable (ext E) (su_database_type o1) (su_fail_oper o1) (su_config_mode o1)
                  (su_vtn_name o1) (n + 1) (tc_ipc w1) of
             None \<Rightarrow> None
           | Some (_, i) \<Rightarrow>
               let w2 = w1\<lparr>tc_ipc := i\<rparr>; o2 = o1\<lparr>audit_db_fail := False\<rparr>
               in if n + 1 \<ge> max_failover_instance md
                  then let w3 = snd (SendAuditDBFailNotice E o2 w2);
                           (u, w4) = transition_unlock (w3\<lparr>tc_lock := TcUpdateUncState TC_ACT_FAIL (tc_lock w3)\<rparr>)
                       in Some (Some (u = TC_LOCK_SUCCESS), o2, w4)
                  else Some (None, o2, w2))
   }"

definition act_failed ::
  "tc_env \<Rightarrow> TcModule \<Rightarrow> TcStartUpOperations \<Rightarrow> tc_state \<Rightarrow> (bool \<times> TcStartUpOperations \<times> tc_state) option" where
  "act_failed E md ob w = do {
     (answer, o1, w1) \<leftarrow> (if audit_db_fail ob then audit_db_failed E md ob w else Some (None, ob, w));
     case answer of
       Some b \<Rightarrow> Some (b, o1, w1)
     | None \<Rightarrow> Some (False, o1, snd (transition_unlock w1))
   }"

definition act_done :: "tc_state \<Rightarrow> bool \<times> tc_state" where
  "act_done w =
     (let (u, w1) = transition_unlock (SetStateChangedToSby False w)
      in if u \<noteq> TC_LOCK_SUCCESS then (False, w1)
         else (True, if CanWriteLock (tc_lock w1) then HandleCandidateRelease w1 else w1))"

definition HandleAct ::
  "tc_env \<Rightarrow> bool \<Rightarrow> TcModule \<Rightarrow> tc_state \<Rightarrow> (bool \<times> TcModule \<times> tc_state) option" where
  "HandleAct E switched md w = do {
     (r, w1) \<leftarrow> transition_lock w;
     if r \<noteq> TC_LOCK_SUCCESS then Some (False, md, w1)
     else let md1 = md\<lparr>md_dsn_name := act_dsn_name md\<rparr>;
              w2 = w1\<lparr>tc_lock := ResetTcGlobalDataOnStateTransition (tc_lock w1)\<rparr>;
              (_, w3) = via_ipc (ask (ext E) AlarmClear) w2;
              (h, w4) = new_db E md1 w3
     in do {
       (st, o5, w5) \<leftarrow> Dispatch startup_methods E (TcStartUpOperations_new False (Some h) (tc_channels md1) switched) w4;
       (b, o6, w6) \<leftarrow> (if st \<noteq> TC_OPER_SUCCESS then act_failed E md1 o5 w5
                        else let (b, w') = act_done w5 in Some (b, o5, w'));
       Some (b, md1, TcOperations_delete E o6 w6)
     }
   }"

text \<open>The handlers of the three events; each is registered for one type of event.\<close>

datatype unc_event = PFC_EVTYPE_SYS_START | PFC_EVTYPE_SYS_STOP | CLSTAT_EVTYPE_ACT bool

fun event_handler ::
  "tc_env \<Rightarrow> unc_event \<Rightarrow> TcModule \<Rightarrow> tc_state \<Rightarrow> (TcModule \<times> tc_state) option" where
  "event_handler E PFC_EVTYPE_SYS_START md w =
     (if unc_state md \<noteq> INIT then Some (md, w)
      else do { (b, w1) \<leftarrow> HandleStart w; Some (md\<lparr>unc_state := if b then SBY else FAILURE\<rparr>, w1) })"
| "event_handler E PFC_EVTYPE_SYS_STOP md w =
     (if unc_state md = STOP then Some (md, w)
      else let (b, w1) = HandleStop E w in Some (md\<lparr>unc_state := if b then STOP else FAILURE\<rparr>, w1))"
| "event_handler E (CLSTAT_EVTYPE_ACT switched) md w =
     (if unc_state md \<noteq> SBY then Some (md, w)
      else do {
        (b, md1, w1) \<leftarrow> HandleAct E switched md w;
        Some (md1\<lparr>unc_state := if b then ACT else FAILURE\<rparr>, w1)
      })"

end
