(* ===== verification/TcFrame.thy ===== *)
theory TcFrame
  imports TcModule TcLockProps
begin

text \<open>
  What the methods of the operations leave alone. A quiet method does not touch the lock
  manager and keeps a part of its object: at least the request, the session, the type and the
  phase of the operation. The messages, the database and the responses are quiet.
\<close>

section \<open>Quiet methods\<close>

lemma bind_SomeE:
  assumes "f \<bind> g = Some y" obtains x where "f = Some x" "g x = Some y"
  using assms by (auto simp: bind_eq_Some_conv)

text \<open>What every method of an operation keeps: the request, the session, the type and the phase.\<close>

definition base_key :: "'a TcOperations_scheme \<Rightarrow> bool \<times> u32 \<times> TcServiceType \<times> TcOperEnum" where
  "base_key ob = (ssess ob, op_session_id ob, tc_oper ob, tc_oper_status ob)"

lemma base_key_update [simp]:
  "base_key (ob\<lparr>TcOperMessageList := ms\<rparr>) = base_key ob"
  "base_key (ob\<lparr>csess := c\<rparr>) = base_key ob" "base_key (ob\<lparr>cconn := n\<rparr>) = base_key ob"
  "base_key (ob\<lparr>audit_db_fail := b\<rparr>) = base_key ob"
  by (simp_all add: base_key_def)

lemma base_keyD:
  "base_key o1 = base_key ob \<Longrightarrow>
   ssess o1 = ssess ob \<and> op_session_id o1 = op_session_id ob \<and> tc_oper o1 = tc_oper ob \<and>
   tc_oper_status o1 = tc_oper_status ob"
  by (simp add: base_key_def)

lemma base_key_db [simp]: "base_key (db\<lparr>db_save_version := v\<rparr>) = base_key db"
  by (simp add: base_key_def)

lemma base_key_autosave [simp]: "base_key (a\<lparr>autosave := b\<rparr>) = base_key a"
  by (simp add: base_key_def)

lemma base_key_candidate [simp]:
  "base_key (ca\<lparr>ca_response := st\<rparr>) = base_key ca" "base_key (ca\<lparr>ca_resp_msg := m\<rparr>) = base_key ca"
  "base_key (ca\<lparr>ca_trans_result := t\<rparr>) = base_key ca" "base_key (ca\<lparr>ca_autosave := b\<rparr>) = base_key ca"
  "base_key (ca\<lparr>ca_abort_version := v\<rparr>) = base_key ca"
  by (simp_all add: base_key_def)

definition quiet :: "('o \<Rightarrow> 'k) \<Rightarrow> (tc_env \<Rightarrow> 'o \<Rightarrow> tc_state \<Rightarrow> ('r \<times> 'o \<times> tc_state) option) \<Rightarrow> bool" where
  "quiet k m \<longleftrightarrow> (\<forall>E ob w r o1 w1. m E ob w = Some (r, o1, w1) \<longrightarrow> tc_lock w1 = tc_lock w \<and> k o1 = k ob)"

lemma quietI:
  "(\<And>E ob w r o1 w1. m E ob w = Some (r, o1, w1) \<Longrightarrow> tc_lock w1 = tc_lock w \<and> k o1 = k ob) \<Longrightarrow> quiet k m"
  by (simp add: quiet_def)

lemma quietD: "quiet k m \<Longrightarrow> m E ob w = Some (r, o1, w1) \<Longrightarrow> tc_lock w1 = tc_lock w \<and> k o1 = k ob"
  by (simp add: quiet_def)

named_theorems same_lock \<open>calls that leave the lock manager as it is\<close>

lemma via_ipc_lock [same_lock]: "via_ipc f w = (r, w1) \<Longrightarrow> tc_lock w1 = tc_lock w"
  by (auto simp: via_ipc_def split: prod.splits)

lemma snd_via_ipc_lock [simp]: "tc_lock (snd (via_ipc f w)) = tc_lock w"
  by (simp add: via_ipc_def split_beta)

lemma via_db_lock [same_lock]: "via_db ob f w = Some (r, w1) \<Longrightarrow> tc_lock w1 = tc_lock w"
  by (auto simp: via_db_def dest: via_ipc_lock split: if_splits)

lemma execute_msg_lock [same_lock]: "execute_msg E m w = Some (r, m1, w1) \<Longrightarrow> tc_lock w1 = tc_lock w"
  by (auto simp: execute_msg_def put_msg_state_def bind_eq_Some_conv)

lemma status_lock [simp]:
  "tc_lock (SetRunningStatus w) = tc_lock w" "tc_lock (SetStartupStatus w) = tc_lock w"
  "tc_lock (SetRunningStatusIncr w) = tc_lock w" "tc_lock (SetStartupStatusIncr w) = tc_lock w"
  "tc_lock (ReadStatus_Init w) = tc_lock w" "tc_lock (delete_msg E m w) = tc_lock w"
  by (simp_all add: SetRunningStatus_def SetStartupStatus_def SetRunningStatusIncr_def
      SetStartupStatusIncr_def ReadStatus_Init_def delete_msg_def)

lemma queue_lock [simp]:
  "tc_lock (HandleCandidateRelease w) = tc_lock w" "tc_lock (SignalPrimaryWaitingAudit w) = tc_lock w"
  "tc_lock (SignalSecondaryWaitingAudit w) = tc_lock w" "tc_lock (HandleConfigRelease w) = tc_lock w"
  "tc_lock (InsertConfigRequest sid w) = tc_lock w" "tc_lock (RemoveConfigRequest sid w) = tc_lock w"
  "tc_lock (InsertCandidateRequest sid w) = tc_lock w" "tc_lock (RemoveCandidateRequest sid w) = tc_lock w"
  "tc_lock (PushToWaitQueue a w) = tc_lock w" "tc_lock (PopWaitQueue w) = tc_lock w"
  "tc_lock (ClearCandidateQueue w) = tc_lock w" "tc_lock (ClearConfigAcquisitionQueue w) = tc_lock w"
  by (simp_all add: HandleCandidateRelease_def SignalPrimaryWaitingAudit_def
      SignalSecondaryWaitingAudit_def HandleConfigRelease_def InsertConfigRequest_def
      RemoveConfigRequest_def InsertCandidateRequest_def RemoveCandidateRequest_def
      PushToWaitQueue_def PopWaitQueue_def ClearCandidateQueue_def ClearConfigAcquisitionQueue_def
      split: option.split list.split)

lemma delete_lock [simp]: "tc_lock (TcOperations_delete E ob w) = tc_lock w"
  by (simp add: TcOperations_delete_def Let_def split: option.split)

lemma update_recovery_lock [same_lock]:
  "update_recovery E ob db op mode vtn w = Some (r, w1) \<Longrightarrow> tc_lock w1 = tc_lock w"
  by (auto simp: update_recovery_def split: if_splits option.splits)

lemma read_autosave_lock [same_lock]:
  "read_autosave E ob old w = Some (r, b, w1) \<Longrightarrow> tc_lock w1 = tc_lock w"
  by (auto simp: read_autosave_def split: if_splits prod.splits)

lemma next_version_lock [same_lock]:
  "next_version E ob get v w = Some (v1, w1) \<Longrightarrow> tc_lock w1 = tc_lock w"
  by (auto simp: next_version_def split: if_splits prod.splits)

lemma no_timeout_lock [same_lock]: "no_timeout E ob w = (r, w1) \<Longrightarrow> tc_lock w1 = tc_lock w"
  by (auto simp: no_timeout_def Let_def dest: via_ipc_lock split: if_splits prod.splits)

lemma put_lock [same_lock]:
  "put_u32 E x w = (r, w1) \<Longrightarrow> tc_lock w1 = tc_lock w"
  "SetOperType E ob w = (r, w1) \<Longrightarrow> tc_lock w1 = tc_lock w"
  "SetSessionId E ob w = (r, w1) \<Longrightarrow> tc_lock w1 = tc_lock w"
  "SetOperStatus E st w = (r, w1) \<Longrightarrow> tc_lock w1 = tc_lock w"
  by (auto simp: put_u32_def SetOperType_def SetSessionId_def SetOperStatus_def Let_def
      dest: via_ipc_lock split: prod.splits)

lemma quiet_ok: "quiet k ok" and quiet_echo: "quiet k (echo st)"
  by (auto simp: quiet_def ok_def echo_def)

lemma quiet_SendResponse:
  assumes "\<And>st. quiet k (additional st)"
  shows "quiet k (SendResponse additional st)"
  by (rule quietI)
    (auto simp: SendResponse_def Let_def dest!: same_lock quietD [OF assms] split: if_splits prod.splits)

text \<open>A list of messages in the base class, for a quiet way to fill them.\<close>

lemma execute_list_quiet:
  assumes "\<And>E m t ob w r m1 o1 w1. fill E m t ob w = Some (r, m1, o1, w1) \<Longrightarrow>
             tc_lock w1 = tc_lock w \<and> base_key o1 = base_key ob"
  shows "execute_list fill ts E ob w = Some (r, o1, w1) \<Longrightarrow>
         tc_lock w1 = tc_lock w \<and> base_key o1 = base_key ob"
proof (induction ts arbitrary: ob w)
  case (Cons t ts)
  from Cons.prems show ?case
    by (auto simp: bind_eq_Some_conv dest!: assms Cons.IH execute_msg_lock split: option.splits if_splits)
qed simp

section \<open>The operations on the startup configuration\<close>

lemma quiet_db:
  shows db_list_quiet: "quiet base_key Db_TcCreateMsgList"
    and db_execute_quiet: "quiet base_key Db_Execute"
    and db_response_quiet: "quiet base_key (SendResponse Db_SendAdditionalResponse st)"
proof -
  show "quiet base_key Db_TcCreateMsgList"
    by (rule quietI)
      (auto simp: Db_TcCreateMsgList_def Let_def bind_eq_Some_conv dest!: same_lock split: if_splits)
  have msgs: "tc_lock w1 = tc_lock w \<and> base_key o1 = base_key ob"
    if "db_messages ts E ob w = Some (r, o1, w1)" for ts E ob w r o1 w1
    using that
  proof (induction ts arbitrary: ob w)
    case (Cons t ts)
    from Cons.prems show ?case
      by (auto simp: bind_eq_Some_conv Let_def dest!: same_lock Cons.IH split: option.splits if_splits)
  qed simp
  show "quiet base_key Db_Execute"
    by (rule quietI)
      (auto simp: Db_Execute_def bind_eq_Some_conv dest!: same_lock msgs split: if_splits)
  show "quiet base_key (SendResponse Db_SendAdditionalResponse st)"
    by (rule quiet_SendResponse, rule quietI)
      (auto simp: Db_SendAdditionalResponse_def bind_eq_Some_conv dest!: same_lock split: if_splits)
qed

section \<open>Autosave\<close>

lemma quiet_autosave:
  shows autosave_execute_quiet: "quiet base_key AutoSave_Execute"
    and autosave_response_quiet: "quiet base_key (SendResponse AutoSave_SendAdditionalResponse st)"
proof -
  have notify: "quiet base_key autosave_notify"
    by (rule quietI)
      (auto simp: autosave_notify_def bind_eq_Some_conv Let_def dest!: same_lock
        split: option.splits if_splits)
  have change: "quiet base_key (autosave_change b)" for b
    by (rule quietI)
      (auto simp: autosave_change_def bind_eq_Some_conv dest!: same_lock quietD [OF notify] split: if_splits)
  show "quiet base_key AutoSave_Execute"
    by (rule quietI)
      (auto simp: AutoSave_Execute_def bind_eq_Some_conv Let_def dest!: same_lock quietD [OF change]
        split: if_splits TcServiceType.splits)
  show "quiet base_key (SendResponse AutoSave_SendAdditionalResponse st)"
    by (rule quiet_SendResponse, rule quietI)
      (auto simp: AutoSave_SendAdditionalResponse_def SetAutoSave_def Let_def dest!: same_lock
        split: prod.splits)
qed

section \<open>Commit and abort\<close>

lemma trans_msg_lock [same_lock]: "trans_msg E t ob w = Some (r, m, w1) \<Longrightarrow> tc_lock w1 = tc_lock w"
  by (auto simp: trans_msg_def bind_eq_Some_conv dest!: same_lock)

lemma quiet_trans:
  shows "quiet base_key TransStartMsg" and trans_end_quiet: "quiet base_key TransEndMsg"
    and "quiet base_key TransVoteMsg" and "quiet base_key TransGlobalCommitMsg"
proof -
  show e: "quiet base_key TransEndMsg"
    by (rule quietI) (auto simp: TransEndMsg_def elim!: bind_SomeE dest!: same_lock split: if_splits)
  show "quiet base_key TransStartMsg"
    by (rule quietI)
      (auto simp: TransStartMsg_def elim!: bind_SomeE dest!: same_lock split: if_splits)
  show "quiet base_key TransVoteMsg"
    by (rule quietI)
      (auto simp: TransVoteMsg_def elim!: bind_SomeE dest!: same_lock quietD [OF e] split: if_splits)
  show "quiet base_key TransGlobalCommitMsg"
    by (rule quietI)
      (auto simp: TransGlobalCommitMsg_def Let_def elim!: bind_SomeE dest!: same_lock
        split: if_splits prod.splits)
qed

lemmas trans_stepD = quiet_trans [THEN quietD]

lemma quiet_candidate:
  shows candidate_list_quiet: "quiet base_key Candidate_TcCreateMsgList"
    and candidate_execute_quiet: "quiet base_key Candidate_Execute"
    and candidate_response_quiet: "quiet base_key (Candidate_SendResponse st)"
proof -
  show "quiet base_key Candidate_TcCreateMsgList"
    by (rule quietI)
      (auto simp: Candidate_TcCreateMsgList_def Let_def elim!: bind_SomeE dest!: same_lock split: if_splits)
  have commit: "quiet base_key commit_steps"
    by (rule quietI)
      (auto simp: commit_steps_def Let_def elim!: bind_SomeE dest!: same_lock trans_stepD split: if_splits)
  have msgs: "tc_lock w1 = tc_lock w \<and> base_key o1 = base_key ob"
    if "abort_messages ts E ob w = Some (r, o1, w1)" for ts E ob w r o1 w1
    using that
  proof (induction ts arbitrary: ob w)
    case (Cons t ts)
    from Cons.prems show ?case
      by (auto simp: elim!: bind_SomeE dest!: same_lock Cons.IH split: option.splits if_splits)
  qed simp
  have abort: "quiet base_key abort_steps"
    by (rule quietI)
      (auto simp: abort_steps_def Let_def elim!: bind_SomeE dest!: same_lock msgs split: prod.splits)
  show "quiet base_key Candidate_Execute"
    by (rule quietI)
      (auto simp: Candidate_Execute_def elim!: bind_SomeE dest!: quietD [OF commit] quietD [OF abort] split: if_splits)
  have tail: "quiet base_key (candidate_response_tail st)" for st
    by (rule quietI)
      (auto simp: candidate_response_tail_def Let_def elim!: bind_SomeE dest!: same_lock
        split: if_splits prod.splits option.splits)
  show "quiet base_key (Candidate_SendResponse st)"
    by (rule quietI)
      (auto simp: Candidate_SendResponse_def Candidate_SetConfigId_def Let_def
        elim!: bind_SomeE dest!: same_lock quietD [OF tail] split: if_splits prod.splits)
qed

section \<open>Audits\<close>

lemma audit_state_lock [simp]:
  "tc_lock (SetAuditPhase ph w) = tc_lock w" "tc_lock (remember_target a w) = tc_lock w"
  "tc_lock (SetAuditCancelStatus c w) = tc_lock w" "tc_lock (reset_audit w) = tc_lock w"
  "tc_lock (reset_flags a w) = tc_lock w" "tc_lock (reset_secondary a w) = tc_lock w"
  by (simp_all add: SetAuditPhase_def remember_target_def SetAuditCancelStatus_def reset_audit_def
      reset_flags_def reset_secondary_def Let_def)

lemma audit_msg_lock [same_lock]: "audit_msg E t ob w = Some (r, m, w1) \<Longrightarrow> tc_lock w1 = tc_lock w"
  by (auto simp: audit_msg_def elim!: bind_SomeE dest!: same_lock)

definition audit_key :: "TcAuditOperations \<Rightarrow> (bool \<times> u32 \<times> TcServiceType \<times> TcOperEnum) \<times> bool \<times> nat" where
  "audit_key ob = (base_key ob, api_audit ob, au_self ob)"

lemma audit_key_update [simp]:
  "audit_key (ob\<lparr>user_response := st\<rparr>) = audit_key ob" "audit_key (ob\<lparr>au_resp_msg := m\<rparr>) = audit_key ob"
  "audit_key (ob\<lparr>au_driver_id := d\<rparr>) = audit_key ob" "audit_key (ob\<lparr>au_audit_result := r\<rparr>) = audit_key ob"
  "audit_key (ob\<lparr>au_trans_result := t\<rparr>) = audit_key ob"
  by (simp_all add: audit_key_def base_key_def)

lemma audit_keyD:
  "audit_key o1 = audit_key ob \<Longrightarrow>
   base_key o1 = base_key ob \<and> api_audit o1 = api_audit ob \<and> au_self o1 = au_self ob"
  by (simp add: audit_key_def)

lemma quiet_audit_refused:
  assumes "quiet audit_key undo"
  shows "quiet audit_key (audit_refused undo r m)"
  by (rule quietI)
    (auto simp: audit_refused_def elim!: bind_SomeE dest!: same_lock quietD [OF assms] split: if_splits)

lemma quiet_audit_steps:
  shows "quiet audit_key GetDriverType" and "quiet audit_key AuditStart"
    and quiet_audit_end: "quiet audit_key AuditEnd" and "quiet audit_key AuditTransEnd"
    and "quiet audit_key AuditGlobalCommit"
proof -
  show "quiet audit_key GetDriverType"
    by (rule quietI) (auto simp: GetDriverType_def Let_def elim!: bind_SomeE dest!: same_lock split: if_splits)
  show "quiet audit_key AuditStart"
    by (rule quietI) (auto simp: AuditStart_def elim!: bind_SomeE dest!: same_lock split: if_splits)
  have "quiet audit_key (audit_end_msg t)" for t
    by (rule quietI) (auto simp: audit_end_msg_def elim!: bind_SomeE dest!: same_lock split: if_splits)
  then show "quiet audit_key AuditEnd" "quiet audit_key AuditTransEnd"
    by (simp_all add: AuditEnd_def AuditTransEnd_def)
  show "quiet audit_key AuditGlobalCommit"
    by (rule quietI)
      (auto simp: AuditGlobalCommit_def Let_def elim!: bind_SomeE dest!: same_lock split: if_splits)
qed

lemmas audit_stepD = quiet_audit_steps [THEN quietD]

lemma quiet_audit_votes:
  shows "quiet audit_key AuditTransStart" and "quiet audit_key AuditVote"
proof -
  note refused = quiet_audit_refused [THEN quietD]
  have both: "quiet audit_key end_transaction_and_audit"
    by (rule quietI)
      (auto simp: end_transaction_and_audit_def elim!: bind_SomeE dest!: audit_stepD split: if_splits)
  show "quiet audit_key AuditTransStart"
    by (rule quietI)
      (auto simp: AuditTransStart_def elim!: bind_SomeE dest!: same_lock refused [OF quiet_audit_end]
        split: if_splits)
  show "quiet audit_key AuditVote"
    by (rule quietI)
      (auto simp: AuditVote_def elim!: bind_SomeE dest!: same_lock refused [OF both] split: if_splits)
qed

lemmas audit_voteD = quiet_audit_votes [THEN quietD]

lemma quiet_audit_execute:
  shows audit_execute_quiet: "quiet audit_key Audit_Execute"
    and audit_phase_quiet: "quiet audit_key audit_execute_phase"
    and audit_response_quiet: "quiet audit_key (SendResponse Audit_SendAdditionalResponse st)"
proof -
  have trans: "quiet audit_key audit_transaction"
    by (rule quietI)
      (auto simp: audit_transaction_def Let_def elim!: bind_SomeE dest!: audit_stepD audit_voteD
        split: if_splits)
  have final: "audit_key (final_result ob) = audit_key ob" for ob
    by (simp add: final_result_def Let_def)
  have finish: "quiet audit_key finish_audit"
    by (rule quietI)
      (auto simp: finish_audit_def final elim!: bind_SomeE dest!: same_lock audit_stepD
        split: if_splits)
  show exec: "quiet audit_key Audit_Execute"
    by (rule quietI)
      (auto simp: Audit_Execute_def Let_def elim!: bind_SomeE
        dest!: audit_stepD quietD [OF trans] quietD [OF finish] split: if_splits)
  show "quiet audit_key audit_execute_phase"
    by (rule quietI)
      (auto simp: audit_execute_phase_def elim!: bind_SomeE dest!: quietD [OF exec]
        split: if_splits option.splits)
  show "quiet audit_key (SendResponse Audit_SendAdditionalResponse st)"
    by (rule quiet_SendResponse, rule quietI)
      (auto simp: Audit_SendAdditionalResponse_def SetAuditOperationStatus_def Let_def dest!: same_lock
        split: if_splits prod.splits option.splits)
qed

end
