(* ===== verification/TcExclusion.thy ===== *)
theory TcExclusion
  imports TcFrame
begin

text \<open>
  The exclusion of the operations. Every class acquires what it needs before its messages and
  gives it back afterwards, whatever happens in between. The locale \<open>exclusion\<close> states what the
  template method \<^verbatim>\<open>Dispatch\<close> relies on; it is interpreted on the six classes that use the
  write lock or the autosave flag only while they run.
\<close>

section \<open>The exclusive part of the lock manager\<close>

text \<open>Who holds the readers/writer lock, and whether autosave is being changed.\<close>

type_synonym lview = "rw_view \<times> bool"

definition lock_view :: "tc_state \<Rightarrow> lview" where
  "lock_view w = (view_of (rwlock (tc_lock w)), auto_save_enable (tc_lock w))"

lemma lock_view_cong: "tc_lock w1 = tc_lock w \<Longrightarrow> lock_view w1 = lock_view w"
  by (simp add: lock_view_def)

definition held :: "u32 \<Rightarrow> TcWriteOperation \<Rightarrow> lview \<Rightarrow> lview \<Rightarrow> bool" where
  "held sid wop v0 v \<longleftrightarrow> fst v0 = Unlocked \<and> v = (WriteLocked sid wop, snd v0)"

lemma view_of_write: "view_of l = WriteLocked sid wop \<longleftrightarrow>
    isWriteHeld l \<and> w_session_id l = sid \<and> w_operation l = wop"
  by (auto simp: view_of_def isWriteHeld_def)

lemma view_of_Unlocked: "view_of l = Unlocked \<longleftrightarrow> rw_owner l = 0"
  by (simp add: view_of_def)

lemma view_setWriter [simp]: "view_of (setWriter sid wop l) = WriteLocked sid wop"
  by (simp add: setWriter_def view_of_def)

lemma view_unlock_write:
  "view_of l = WriteLocked sid wop \<Longrightarrow>
   fst (unlock_write sid wop l) \<and> view_of (snd (unlock_write sid wop l)) = Unlocked"
  by (simp add: unlock_write_def view_of_write isWriteHeld_by_def view_of_Unlocked wakeUp_def clearWriter_def)

lemma write_try_view:
  "write_try sid wop s = (r, s1) \<Longrightarrow>
   (if r = TC_LOCK_SUCCESS
    then view_of (rwlock s) = Unlocked \<and> view_of (rwlock s1) = WriteLocked sid wop \<and>
         auto_save_enable s1 = auto_save_enable s
    else s1 = s)"
  by (auto simp: write_try_def tryLock_write_def canWriteLock_def view_of_Unlocked split: if_splits)

lemma AcquireWriteLock_view:
  "AcquireWriteLock sid wop s = (Returned r, s1) \<Longrightarrow>
   (if r = TC_LOCK_SUCCESS
    then view_of (rwlock s) = Unlocked \<and> view_of (rwlock s1) = WriteLocked sid wop \<and>
         auto_save_enable s1 = auto_save_enable s
    else s1 = s)"
  by (cases wop)
    (auto simp: AcquireWriteLockForAuditDriver_def AcquireWriteLockForCommit_def
      AcquireWriteLockForAbortCandidateConfig_def AcquireWriteLockForAuditUser_def
      AcquireWriteLockForSaveStartupConfig_def AcquireWriteLockForClearStartupConfig_def
      map_prod_def dest!: write_try_view split: if_splits option.splits prod.splits)

lemma ReleaseWriteLock_view:
  "view_of (rwlock s) = WriteLocked sid wop \<Longrightarrow>
   fst (ReleaseWriteLock sid wop s) = TC_LOCK_SUCCESS \<and>
   view_of (rwlock (snd (ReleaseWriteLock sid wop s))) = Unlocked \<and>
   auto_save_enable (snd (ReleaseWriteLock sid wop s)) = auto_save_enable s"
  using view_unlock_write [of "rwlock s" sid wop]
  by (auto simp: ReleaseWriteLock_def split: prod.split bool.split)

lemma take_write_lock:
  assumes "take_lock (GetLock sid TC_ACQUIRE_WRITE_SESSION wop m v) w = Some (r, w1)"
  shows "if r = TC_LOCK_SUCCESS then held sid wop (lock_view w) (lock_view w1) else lock_view w1 = lock_view w"
  using assms
  by (auto simp: take_lock_def GetLock_def Let_def held_def lock_view_def dest!: AcquireWriteLock_view
      split: if_splits prod.splits lock_outcome.splits)

lemma release_write_lock:
  assumes "via_lock (ReleaseLock sid cid TC_RELEASE_WRITE_SESSION wop) w = (r, w1)"
    and "held sid wop v0 (lock_view w)"
  shows "r = TC_LOCK_SUCCESS \<and> lock_view w1 = v0"
  using assms ReleaseWriteLock_view [of "tc_lock w" sid wop]
  by (auto simp: via_lock_def ReleaseLock_def held_def lock_view_def prod_eq_iff split: prod.splits)


text \<open>Configuration sessions do not touch this part.\<close>

lemma config_locks_view:
  "rwlock (snd (AcquireConfigLock sid m v s)) = rwlock s \<and>
   auto_save_enable (snd (AcquireConfigLock sid m v s)) = auto_save_enable s"
  "rwlock (snd (ForceAcquireConfigLock sid s)) = rwlock s \<and>
   auto_save_enable (snd (ForceAcquireConfigLock sid s)) = auto_save_enable s"
  "rwlock (snd (ReleaseConfigLock sid cid s)) = rwlock s \<and>
   auto_save_enable (snd (ReleaseConfigLock sid cid s)) = auto_save_enable s"
  "rwlock (snd (NotifyConfigIdSessionIdDone cid sid nop s)) = rwlock s \<and>
   auto_save_enable (snd (NotifyConfigIdSessionIdDone cid sid nop s)) = auto_save_enable s"
  by (simp_all add: AcquireConfigLock_def ForceAcquireConfigLock_def ReleaseConfigLock_def
      NotifyConfigIdSessionIdDone_def UpdateConfigData_def set_config_entry_def GetConfigId_def Let_def
      split: option.split)

lemma take_config_lock:
  "take_lock (GetLock sid TC_ACQUIRE_CONFIG_SESSION wop m v) w = Some (r, w1) \<Longrightarrow> lock_view w1 = lock_view w"
  "take_lock (GetLock sid TC_FORCE_ACQUIRE_CONFIG_SESSION wop m v) w = Some (r, w1) \<Longrightarrow> lock_view w1 = lock_view w"
  using config_locks_view(1) [of sid m v "tc_lock w"] config_locks_view(2) [of sid "tc_lock w"]
  by (auto simp: take_lock_def GetLock_def Let_def lock_view_def map_prod_def
      split: if_splits prod.splits lock_outcome.splits)

lemma release_config_lock:
  "via_lock (ReleaseLock sid cid TC_RELEASE_CONFIG_SESSION wop) w = (r, w1) \<Longrightarrow> lock_view w1 = lock_view w"
  "via_lock (NotifyConfigIdSessionIdDone cid sid nop) w = (r, w1) \<Longrightarrow> lock_view w1 = lock_view w"
  using config_locks_view(3) [of sid cid "tc_lock w"] config_locks_view(4) [of cid sid nop "tc_lock w"]
  by (auto simp: via_lock_def ReleaseLock_def lock_view_def split: prod.splits)

text \<open>What the autosave operations hold: the flag, with the write lock when it is changed.\<close>

definition autosave_held :: "u32 \<Rightarrow> TcOperation \<Rightarrow> lview \<Rightarrow> lview \<Rightarrow> bool" where
  "autosave_held sid op v0 v \<longleftrightarrow>
     \<not> snd v0 \<and> snd v \<and>
     (if op = TC_AUTO_SAVE_GET then fst v = fst v0
      else fst v0 = Unlocked \<and>
           fst v = WriteLocked sid (if op = TC_AUTO_SAVE_ENABLE then TC_CLEAR_STARTUP_CONFIG
                                    else TC_SAVE_STARTUP_CONFIG))"

lemma autosave_then_write_view:
  assumes "autosave_then_write sid wop s = (Returned r, s1)"
  shows "if r = TC_LOCK_SUCCESS
         then \<not> auto_save_enable s \<and> auto_save_enable s1 \<and> view_of (rwlock s) = Unlocked \<and>
              view_of (rwlock s1) = WriteLocked sid wop
         else rwlock s1 = rwlock s \<and> auto_save_enable s1 = auto_save_enable s"
proof (cases "auto_save_enable s")
  case True
  with assms show ?thesis by (auto simp: autosave_then_write_def AutoSaveEnable_def)
next
  case False
  obtain q t where t: "AcquireWriteLock sid wop (s\<lparr>auto_save_enable := True\<rparr>) = (q, t)" by fastforce
  show ?thesis
  proof (cases q)
    case (Returned x)
    from AcquireWriteLock_view [OF t [unfolded Returned]] assms False t Returned show ?thesis
      by (cases x)
        (auto simp: autosave_then_write_def AutoSaveEnable_def AutoSaveDisable_def split: if_splits)
  qed (use assms False t in \<open>auto simp: autosave_then_write_def AutoSaveEnable_def split: lock_outcome.splits\<close>)
qed

lemma autosave_then_unlock_view:
  assumes "auto_save_enable s" and "view_of (rwlock s) = WriteLocked sid wop"
  shows "view_of (rwlock (snd (autosave_then_unlock sid wop s))) = Unlocked \<and>
         \<not> auto_save_enable (snd (autosave_then_unlock sid wop s))"
  using assms ReleaseWriteLock_view [of "s\<lparr>auto_save_enable := False\<rparr>" sid wop]
  by (auto simp: autosave_then_unlock_def AutoSaveDisable_def split: prod.split TcLockRet.splits)

lemma take_autosave_lock:
  assumes "op \<in> {TC_AUTO_SAVE_GET, TC_AUTO_SAVE_ENABLE, TC_AUTO_SAVE_DISABLE}"
    and "take_lock (GetLock sid op wop m v) w = Some (r, w1)"
  shows "if r = TC_LOCK_SUCCESS then autosave_held sid op (lock_view w) (lock_view w1)
         else lock_view w1 = lock_view w"
  using assms
  by (auto simp: take_lock_def GetLock_def Let_def autosave_held_def lock_view_def AutoSaveEnable_def
      dest!: autosave_then_write_view split: if_splits prod.splits lock_outcome.splits)

lemma release_autosave_lock:
  assumes "op \<in> {TC_AUTO_SAVE_GET, TC_AUTO_SAVE_ENABLE, TC_AUTO_SAVE_DISABLE}"
    and "autosave_held sid op v0 (lock_view w)" and "via_lock (ReleaseLock sid cid op wop) w = (r, w1)"
  shows "lock_view w1 = v0"
  using assms autosave_then_unlock_view [of "tc_lock w" sid]
  by (auto simp: via_lock_def ReleaseLock_def autosave_held_def lock_view_def AutoSaveDisable_def
      prod_eq_iff split: prod.splits)


section \<open>The discipline of an operation\<close>

text \<open>
  The key of an operation is what its methods do not change; \<open>hold k v0 v\<close> says that an
  operation with key \<open>k\<close> has changed the view from \<open>v0\<close> to \<open>v\<close> by its acquisition.
\<close>

locale exclusion =
  fixes V :: "'a TcOperations_scheme op_methods"
    and key :: "'a TcOperations_scheme \<Rightarrow> 'k"
    and ready :: "'k \<Rightarrow> bool"
    and hold :: "'k \<Rightarrow> lview \<Rightarrow> lview \<Rightarrow> bool"
  assumes key_phase: "key (ob\<lparr>tc_oper_status := ph\<rparr>) = key ob"
    and get: "op_GetExclusion V E ob w = Some (r, o1, w1) \<Longrightarrow> ready (key ob) \<Longrightarrow>
       key o1 = key ob \<and> tc_oper_status o1 = tc_oper_status ob \<and>
       (if r = TC_OPER_SUCCESS then hold (key ob) (lock_view w) (lock_view w1) else lock_view w1 = lock_view w)"
    and messages: "op_CreateMsgList V E ob w = Some (r, o1, w1) \<Longrightarrow>
       key o1 = key ob \<and> tc_oper_status o1 = tc_oper_status ob \<and> lock_view w1 = lock_view w"
    and execute: "op_Execute V E ob w = Some (r, o1, w1) \<Longrightarrow>
       key o1 = key ob \<and> tc_oper_status o1 = tc_oper_status ob \<and> lock_view w1 = lock_view w"
    and release: "op_ReleaseExclusion V E ob w = Some (r, o1, w1) \<Longrightarrow> hold (key ob) v0 (lock_view w) \<Longrightarrow>
       key o1 = key ob \<and> tc_oper_status o1 = tc_oper_status ob \<and> lock_view w1 = v0"
    and respond: "op_SendResponse V st E ob w = Some (r, o1, w1) \<Longrightarrow>
       key o1 = key ob \<and> lock_view w1 = lock_view w"
begin

text \<open>An operation that holds nothing is revoked without effect; one that holds something gives it back.\<close>

lemma revoke_unheld:
  "RevokeOperation V st E ob w = Some (r, o1, w1) \<Longrightarrow>
   tc_oper_status ob \<in> {INPUT_VALIDATION, GET_EXCLUSION_PHASE, RELEASE_EXCLUSION_PHASE} \<Longrightarrow>
   key o1 = key ob \<and> lock_view w1 = lock_view w"
  by (auto simp: RevokeOperation_def dest!: respond)

lemma revoke_held:
  assumes "RevokeOperation V st E ob w = Some (r, o1, w1)" and "hold (key ob) v0 (lock_view w)"
    and "tc_oper_status ob \<in> {CREATE_MSG_LIST, EXECUTE_PHASE}"
  shows "key o1 = key ob \<and> lock_view w1 = v0"
proof -
  from assms(1,3) obtain q o2 w2 st' where
    "op_ReleaseExclusion V E ob w = Some (q, o2, w2)" "op_SendResponse V st' E o2 w2 = Some (r, o1, w1)"
    by (auto simp: RevokeOperation_def elim!: bind_SomeE)
  from release [OF this(1) assms(2)] respond [OF this(2)] show ?thesis by simp
qed

text \<open>The phases after the acquisition restore the view, whichever of them fails.\<close>

lemma release_phase:
  assumes "run_phase V RELEASE_EXCLUSION_PHASE (op_ReleaseExclusion V) finish E ob w = Some (r, o1, w1)"
    and "hold (key ob) v0 (lock_view w)"
    and finish: "\<And>E ob w r o1 w1. finish E ob w = Some (r, o1, w1) \<Longrightarrow> key o1 = key ob \<and> lock_view w1 = lock_view w"
  shows "key o1 = key ob \<and> lock_view w1 = v0"
proof -
  from assms(1) obtain q o2 w2 where
    rel: "op_ReleaseExclusion V E (ob\<lparr>tc_oper_status := RELEASE_EXCLUSION_PHASE\<rparr>) w = Some (q, o2, w2)" and
    rest: "(if q \<noteq> TC_OPER_SUCCESS then RevokeOperation V q E o2 w2 else finish E o2 w2) = Some (r, o1, w1)"
    by (auto simp: run_phase_def elim!: bind_SomeE)
  from release [OF rel] assms(2) have after:
    "key o2 = key ob" "tc_oper_status o2 = RELEASE_EXCLUSION_PHASE" "lock_view w2 = v0"
    by (simp_all add: key_phase)
  show ?thesis
  proof (cases "q = TC_OPER_SUCCESS")
    case True
    with rest finish [of E o2 w2] after show ?thesis by simp
  next
    case False
    with rest revoke_unheld [of q E o2 w2] after show ?thesis by simp
  qed
qed

lemma held_phase:
  assumes "run_phase V ph m continue E ob w = Some (r, o1, w1)" and "hold (key ob) v0 (lock_view w)"
    and "ph \<in> {CREATE_MSG_LIST, EXECUTE_PHASE}"
    and m: "\<And>E ob w r o1 w1. m E ob w = Some (r, o1, w1) \<Longrightarrow>
       key o1 = key ob \<and> tc_oper_status o1 = tc_oper_status ob \<and> lock_view w1 = lock_view w"
    and continue: "\<And>E ob w r o1 w1. continue E ob w = Some (r, o1, w1) \<Longrightarrow> hold (key ob) v0 (lock_view w) \<Longrightarrow>
       key o1 = key ob \<and> lock_view w1 = v0"
  shows "key o1 = key ob \<and> lock_view w1 = v0"
proof -
  from assms(1) obtain q o2 w2 where
    step: "m E (ob\<lparr>tc_oper_status := ph\<rparr>) w = Some (q, o2, w2)" and
    rest: "(if q \<noteq> TC_OPER_SUCCESS then RevokeOperation V q E o2 w2 else continue E o2 w2) = Some (r, o1, w1)"
    by (auto simp: run_phase_def elim!: bind_SomeE)
  from m [OF step] assms(2) have after:
    "key o2 = key ob" "tc_oper_status o2 = ph" "hold (key o2) v0 (lock_view w2)"
    by (simp_all add: key_phase)
  show ?thesis
  proof (cases "q = TC_OPER_SUCCESS")
    case True
    with rest continue [of E o2 w2] after show ?thesis by simp
  next
    case False
    with rest revoke_held [of q E o2 w2] after assms(3) show ?thesis by auto
  qed
qed

lemma tail_restores:
  assumes "dispatch_tail V finish E ob w = Some (r, o1, w1)" and "hold (key ob) v0 (lock_view w)"
    and finish: "\<And>E ob w r o1 w1. finish E ob w = Some (r, o1, w1) \<Longrightarrow> key o1 = key ob \<and> lock_view w1 = lock_view w"
  shows "key o1 = key ob \<and> lock_view w1 = v0"
  using assms(1) unfolding dispatch_tail_def
proof (rule held_phase [OF _ assms(2)])
  show "CREATE_MSG_LIST \<in> {CREATE_MSG_LIST, EXECUTE_PHASE}" by simp
qed (erule messages, erule held_phase, assumption, simp, erule execute, rule release_phase [OF _ _ finish])

lemma exclusion_restores:
  assumes "op_GetExclusion V E ob w = Some (q, o2, w2)" and "ready (key ob)"
    and "tc_oper_status ob \<in> {INPUT_VALIDATION, GET_EXCLUSION_PHASE}"
    and "(if q \<noteq> TC_OPER_SUCCESS then RevokeOperation V q E o2 w2
          else dispatch_tail V finish E o2 w2) = Some (r, o1, w1)"
    and "\<And>E ob w r o1 w1. finish E ob w = Some (r, o1, w1) \<Longrightarrow> key o1 = key ob \<and> lock_view w1 = lock_view w"
  shows "key o1 = key ob \<and> lock_view w1 = lock_view w"
proof (cases "q = TC_OPER_SUCCESS")
  case True
  with assms(4) get [OF assms(1,2)] have "dispatch_tail V finish E o2 w2 = Some (r, o1, w1)"
    "hold (key o2) (lock_view w) (lock_view w2)" "key o2 = key ob" by auto
  from tail_restores [OF this(1,2) assms(5)] this(3) show ?thesis by simp
next
  case False
  with assms(3,4) get [OF assms(1,2)] revoke_unheld [of q E o2 w2] show ?thesis by auto
qed

end


section \<open>The classes\<close>

abbreviation oper_key :: "'a TcOperations_scheme \<Rightarrow> bool \<times> u32 \<times> TcServiceType" where
  "oper_key ob \<equiv> (ssess ob, op_session_id ob, tc_oper ob)"

lemma quiet_oper:
  assumes "quiet base_key m" and "m E ob w = Some (r, o1, w1)"
  shows "oper_key o1 = oper_key ob \<and> tc_oper_status o1 = tc_oper_status ob \<and> lock_view w1 = lock_view w"
  using quietD [OF assms] by (auto dest!: base_keyD intro: lock_view_cong)

lemma lock_status_success:
  "lock_status Db_HandleLockRet r = TC_OPER_SUCCESS \<longleftrightarrow> r = TC_LOCK_SUCCESS"
  "lock_status Candidate_HandleLockRet r = TC_OPER_SUCCESS \<longleftrightarrow> r = TC_LOCK_SUCCESS"
  "lock_status Audit_HandleLockRet r = TC_OPER_SUCCESS \<longleftrightarrow> r = TC_LOCK_SUCCESS"
  by (cases r; simp add: lock_status_def)+

definition write_hold :: "(TcServiceType \<Rightarrow> TcWriteOperation) \<Rightarrow> bool \<times> u32 \<times> TcServiceType \<Rightarrow> lview \<Rightarrow> lview \<Rightarrow> bool" where
  "write_hold wop k = held (fst (snd k)) (wop (snd (snd k)))"

lemma Db_get:
  "Db_TcGetExclusion E ob w = Some (r, o1, w1) \<Longrightarrow>
   o1 = ob \<and> (if r = TC_OPER_SUCCESS then write_hold db_write_op (oper_key ob) (lock_view w) (lock_view w1)
               else lock_view w1 = lock_view w)"
  by (auto simp: Db_TcGetExclusion_def lock_status_success write_hold_def elim!: bind_SomeE
      dest!: take_write_lock split: if_splits)

lemma Db_release:
  "Db_TcReleaseExclusion E ob w = Some (r, o1, w1) \<Longrightarrow> write_hold db_write_op (oper_key ob) v0 (lock_view w)
   \<Longrightarrow> o1 = ob \<and> lock_view w1 = v0"
  by (auto simp: Db_TcReleaseExclusion_def write_hold_def lock_view_cong [OF queue_lock(1)]
      dest!: release_write_lock split: if_splits prod.splits)

lemma exclusionI:
  assumes quiet: "quiet base_key (op_CreateMsgList V)" "quiet base_key (op_Execute V)"
      "\<And>st. quiet base_key (op_SendResponse V st)"
    and get: "\<And>E ob w r o1 w1. op_GetExclusion V E ob w = Some (r, o1, w1) \<Longrightarrow> ready (oper_key ob) \<Longrightarrow> base_key o1 = base_key ob \<and>
       (if r = TC_OPER_SUCCESS then hold (oper_key ob) (lock_view w) (lock_view w1) else lock_view w1 = lock_view w)"
    and release: "\<And>E ob w r o1 w1 v0. op_ReleaseExclusion V E ob w = Some (r, o1, w1) \<Longrightarrow>
       hold (oper_key ob) v0 (lock_view w) \<Longrightarrow> base_key o1 = base_key ob \<and> lock_view w1 = v0"
  shows "exclusion V oper_key ready hold"
proof (unfold_locales, goal_cases)
  case (2 E ob w r o1 w1) then show ?case using base_keyD [of o1 ob] get [of E ob w r o1 w1] by auto
next
  case (3 E ob w r o1 w1) then show ?case by (rule quiet_oper [OF quiet(1)])
next
  case (4 E ob w r o1 w1) then show ?case by (rule quiet_oper [OF quiet(2)])
next
  case (5 E ob w r o1 w1 v0) then show ?case using base_keyD [of o1 ob] release [of E ob w r o1 w1 v0] by auto
next
  case (6 st E ob w r o1 w1) then show ?case using quiet_oper [OF quiet(3)] by blast
qed simp

interpretation db_ops: exclusion db_methods oper_key "\<lambda>_. True" "write_hold db_write_op"
  by (rule exclusionI)
    (auto simp: db_methods_def quiet_db dest!: Db_get dest: Db_release split: if_splits)

definition autosave_lock_op :: "TcServiceType \<Rightarrow> TcOperation" where
  "autosave_lock_op op =
     (if op = TC_OP_AUTOSAVE_GET then TC_AUTO_SAVE_GET
      else if op = TC_OP_AUTOSAVE_ENABLE then TC_AUTO_SAVE_ENABLE else TC_AUTO_SAVE_DISABLE)"

definition autosave_hold :: "bool \<times> u32 \<times> TcServiceType \<Rightarrow> lview \<Rightarrow> lview \<Rightarrow> bool" where
  "autosave_hold k = autosave_held (fst (snd k)) (autosave_lock_op (snd (snd k)))"

lemma autosave_lock_op_in:
  "autosave_lock_op op \<in> {TC_AUTO_SAVE_GET, TC_AUTO_SAVE_ENABLE, TC_AUTO_SAVE_DISABLE}"
  by (simp add: autosave_lock_op_def)

lemma AutoSave_get:
  assumes "AutoSave_TcGetExclusion E ob w = Some (r, o1, w1)"
  shows "o1 = ob \<and> (if r = TC_OPER_SUCCESS then autosave_hold (oper_key ob) (lock_view w) (lock_view w1)
                    else lock_view w1 = lock_view w)"
proof (cases "tc_oper ob \<in> {TC_OP_AUTOSAVE_GET, TC_OP_AUTOSAVE_ENABLE, TC_OP_AUTOSAVE_DISABLE}")
  case True
  with assms obtain q where "take_lock (GetLock (op_session_id ob) (autosave_lock_op (tc_oper ob))
      TC_WRITE_NONE TC_CONFIG_GLOBAL '''') w = Some (q, w1)" "r = lock_status Db_HandleLockRet q" "o1 = ob"
    by (auto simp: AutoSave_TcGetExclusion_def autosave_lock_op_def elim!: bind_SomeE)
  with take_autosave_lock [OF autosave_lock_op_in this(1)] show ?thesis
    by (auto simp: autosave_hold_def lock_status_success)
qed (use assms in \<open>auto simp: AutoSave_TcGetExclusion_def split: TcServiceType.splits\<close>)

lemma AutoSave_release:
  assumes "AutoSave_TcReleaseExclusion E ob w = Some (r, o1, w1)"
    and "autosave_hold (oper_key ob) v0 (lock_view w)"
  shows "o1 = ob \<and> lock_view w1 = v0"
proof -
  from assms(1) obtain q where "via_lock (ReleaseLock (op_session_id ob) 0
      (autosave_lock_op (tc_oper ob)) TC_WRITE_NONE) w = (q, w1)" "o1 = ob"
    by (auto simp: AutoSave_TcReleaseExclusion_def autosave_lock_op_def Let_def split: if_splits prod.splits)
  with release_autosave_lock [OF autosave_lock_op_in] assms(2) show ?thesis
    by (auto simp: autosave_hold_def)
qed

interpretation autosave_ops: exclusion autosave_methods oper_key "\<lambda>_. True" autosave_hold
  by (rule exclusionI)
    (auto simp: autosave_methods_def quiet_autosave quiet_ok dest!: AutoSave_get dest: AutoSave_release
      split: if_splits)

text \<open>The read status and the configuration sessions need no exclusion of this kind.\<close>

abbreviation (input) nothing_held :: "'k \<Rightarrow> lview \<Rightarrow> lview \<Rightarrow> bool" where
  "nothing_held \<equiv> \<lambda>_ v0 v. v = v0"

lemma quiet_put_status: "quiet base_key (Status_SendAdditionalResponse st)"
  by (rule quietI)
    (auto simp: Status_SendAdditionalResponse_def put_status_def dest!: same_lock split: if_splits prod.splits)

interpretation status_ops: exclusion status_methods oper_key "\<lambda>_. True" nothing_held
  by (rule exclusionI)
    (auto simp: status_methods_def quiet_ok quiet_SendResponse quiet_put_status ok_def)


lemma base_key_config [simp]: "base_key (c\<lparr>cf_config_id := i\<rparr>) = base_key c"
  by (simp add: base_key_def)

lemma ask_dirty_key: "ask_dirty E channel d sid cid ob i = (a, o1, i1) \<Longrightarrow> base_key o1 = base_key ob"
  by (auto simp: ask_dirty_def Let_def split: prod.splits option.splits if_splits append_result.splits)

lemma dirty_loop_key:
  "dirty_loop E ds channel dirty sid cid ob i = (b, o1, i1) \<Longrightarrow> base_key o1 = base_key ob"
proof (induction ds arbitrary: channel dirty ob i)
  case (Cons d ds)
  from Cons.prems show ?case
    by (auto simp: Let_def dest!: Cons.IH ask_dirty_key split: if_splits prod.splits option.splits)
qed simp

lemma dirty_lock [same_lock]:
  "IsCandidateDirty E sid cid ob w = (b, o1, w1) \<Longrightarrow> tc_lock w1 = tc_lock w \<and> base_key o1 = base_key ob"
  by (auto simp: IsCandidateDirty_def simp del: dirty_loop.simps dest!: dirty_loop_key split: prod.splits)

lemma quiet_global_dirty: "quiet base_key ValidateGlobalModeDirty"
  by (rule quietI)
    (auto simp: ValidateGlobalModeDirty_def Let_def elim!: bind_SomeE dest!: same_lock
      split: if_splits prod.splits)

lemma Config_get:
  assumes "Config_TcGetExclusion E ob w = Some (r, o1, w1)"
  shows "base_key o1 = base_key ob \<and> lock_view w1 = lock_view w"
proof -
  from assms obtain v o2 w2 where v: "ValidateGlobalModeDirty E ob w = Some (v, o2, w2)" and "o1 = o2"
    and "lock_view w1 = lock_view w2"
    by (auto simp: Config_TcGetExclusion_def elim!: bind_SomeE dest!: take_config_lock release_config_lock
        split: if_splits prod.splits)
  with quietD [OF quiet_global_dirty v] lock_view_cong [of w2 w] show ?thesis by simp
qed

lemma Config_release:
  "Config_TcReleaseExclusion E ob w = Some (r, o1, w1) \<Longrightarrow> o1 = ob \<and> lock_view w1 = lock_view w"
  by (auto simp: Config_TcReleaseExclusion_def Let_def dest!: release_config_lock split: prod.splits)

lemma quiet_config:
  shows "quiet base_key Config_TcCreateMsgList" and "quiet base_key (Execute Config_FillTcMsgData)"
    and config_response_quiet: "quiet base_key (SendResponse Config_SendAdditionalResponse st)"
proof -
  show "quiet base_key Config_TcCreateMsgList"
    by (rule quietI) (auto simp: Config_TcCreateMsgList_def split: if_splits)
  have fill: "tc_lock w1 = tc_lock w \<and> base_key o1 = base_key ob"
    if "Config_FillTcMsgData E m t ob w = Some (r, m1, o1, w1)" for E m t ob w r m1 o1 w1
    using that
    by (auto simp: Config_FillTcMsgData_def Let_def split: if_splits prod.splits option.splits)
  have exec: "tc_lock w1 = tc_lock w \<and> base_key o1 = base_key ob"
    if "execute_list Config_FillTcMsgData ts E ob w = Some (r, o1, w1)" for ts E ob w r o1 w1
    using fill that by (rule execute_list_quiet)
  show "quiet base_key (Execute Config_FillTcMsgData)"
    by (rule quietI) (auto simp: Execute_def dest!: exec split: if_splits)
  show "quiet base_key (SendResponse Config_SendAdditionalResponse st)"
    by (rule quiet_SendResponse, rule quietI)
      (auto simp: Config_SendAdditionalResponse_def Config_SetConfigId_def Let_def elim!: bind_SomeE
        dest!: same_lock split: if_splits prod.splits)
qed

interpretation config_ops: exclusion config_methods oper_key "\<lambda>_. True" nothing_held
  by (rule exclusionI)
    (auto simp: config_methods_def quiet_config dest!: Config_get Config_release)


section \<open>Arguments\<close>

text \<open>Reading the arguments of a request changes neither the lock nor the phase.\<close>

definition phase_key :: "'a TcOperations_scheme \<Rightarrow> bool \<times> TcOperEnum" where
  "phase_key ob = (ssess ob, tc_oper_status ob)"

lemma phase_key_update [simp]:
  "phase_key (ob\<lparr>tc_oper := op\<rparr>) = phase_key ob" "phase_key (ob\<lparr>op_session_id := sid\<rparr>) = phase_key ob"
  by (simp_all add: phase_key_def)

lemma GetOperType_key: "GetOperType ob w = (r, o1) \<Longrightarrow> phase_key o1 = phase_key ob"
  by (auto simp: GetOperType_def split: sum.splits)

lemma GetSessionId_key: "GetSessionId ob w = (r, o1) \<Longrightarrow> phase_key o1 = phase_key ob"
  by (auto simp: GetSessionId_def split: sum.splits)

lemma quiet_HandleArgs:
  assumes type: "\<And>E ob w r w1. TcValidateOperType A E ob w = (r, w1) \<Longrightarrow> tc_lock w1 = tc_lock w"
    and sess: "\<And>ob w r o1. op_GetSessionId A ob w = (r, o1) \<Longrightarrow> phase_key o1 = phase_key ob"
    and count: "\<And>n ob r o1. TcCheckOperArgCount A n ob = (r, o1) \<Longrightarrow> phase_key o1 = phase_key ob"
    and params: "quiet phase_key (TcValidateOperParams A)"
  shows "quiet phase_key (HandleArgs A)"
  by (rule quietI)
    (auto simp: HandleArgs_def Let_def dest!: type sess count quietD [OF params] GetOperType_key
      split: if_splits prod.splits)

lemma HandleArgs_background:
  "HandleArgs A E ob w = Some (r, o1, w1) \<Longrightarrow> \<not> ssess ob \<Longrightarrow> o1 = ob"
  by (auto simp: HandleArgs_def Let_def split: if_splits prod.splits)

lemma args_quiet:
  shows "quiet phase_key (HandleArgs db_args)" and "quiet phase_key (HandleArgs autosave_args)"
    and "quiet phase_key (HandleArgs status_args)"
proof -
  show "quiet phase_key (HandleArgs db_args)"
    by (rule quiet_HandleArgs)
      (auto simp: db_args_def quiet_ok Db_TcValidateOperType_def Db_TcCheckOperArgCount_def
        dest!: GetSessionId_key same_lock split: if_splits)
  show "quiet phase_key (HandleArgs autosave_args)"
    by (rule quiet_HandleArgs)
      (auto simp: autosave_args_def quiet_ok AutoSave_TcValidateOperType_def AutoSave_TcCheckOperArgCount_def
        dest!: GetSessionId_key split: if_splits)
  show "quiet phase_key (HandleArgs status_args)"
    by (rule quiet_HandleArgs)
      (auto simp: status_args_def quiet_ok Status_TcValidateOperType_def Status_TcCheckOperArgCount_def
        dest!: GetSessionId_key split: if_splits)
qed

lemma phase_key_config [simp]:
  "phase_key (c\<lparr>tc_mode := m\<rparr>) = phase_key c" "phase_key (c\<lparr>cf_vtn_name := v\<rparr>) = phase_key c"
  "phase_key (c\<lparr>cf_timeout := t\<rparr>) = phase_key c" "phase_key (c\<lparr>cf_config_id := i\<rparr>) = phase_key c"
  by (simp_all add: phase_key_def)

lemma config_args_quiet: "quiet phase_key (HandleArgs config_args)"
proof (rule quiet_HandleArgs)
  have partial: "validate_partial ob w = (r, o1) \<Longrightarrow> phase_key o1 = phase_key ob" for ob w r o1
    by (auto simp: validate_partial_def Let_def split: sum.splits TcConfigMode.splits if_splits)
  have release: "validate_release ob w = (r, o1) \<Longrightarrow> phase_key o1 = phase_key ob" for ob w r o1
    by (auto simp: validate_release_def Let_def split: sum.splits prod.splits if_splits option.splits)
  show "quiet phase_key (TcValidateOperParams config_args)"
    by (rule quietI)
      (auto simp: config_args_def Config_TcValidateOperParams_def Let_def dest!: partial release
        split: prod.splits TcServiceType.splits sum.splits)
qed (auto simp: config_args_def Config_TcValidateOperType_def Config_TcCheckOperArgCount_def
    dest!: GetSessionId_key same_lock split: if_splits)

lemma phase_key_candidate [simp]:
  "phase_key (c\<lparr>ca_config_id := i\<rparr>) = phase_key c" "phase_key (c\<lparr>ca_timeout := t\<rparr>) = phase_key c"
  "phase_key (c\<lparr>cancel_audit := b\<rparr>) = phase_key c"
  by (simp_all add: phase_key_def)

lemma candidate_args_quiet: "quiet phase_key (HandleArgs candidate_args)"
proof (rule quiet_HandleArgs)
  have timed: "validate_timed ob w = (r, o1) \<Longrightarrow> phase_key o1 = phase_key ob" for ob w r o1
    by (auto simp: validate_timed_def split: sum.splits)
  show "quiet phase_key (TcValidateOperParams candidate_args)"
    by (rule quietI)
      (auto simp: candidate_args_def Candidate_TcValidateOperParams_def Let_def dest!: timed
        split: prod.splits sum.splits if_splits)
qed (auto simp: candidate_args_def Candidate_TcValidateOperType_def Candidate_TcCheckOperArgCount_def
    dest!: GetSessionId_key same_lock split: if_splits)


section \<open>Dispatch\<close>

context exclusion
begin

lemma input_phase:
  assumes "run_phase V INPUT_VALIDATION (op_HandleArgs V) continue E ob w = Some (r, o1, w1)"
    and "quiet phase_key (op_HandleArgs V)"
  obtains (refused) q o2 w2 where
      "op_HandleArgs V E (ob\<lparr>tc_oper_status := INPUT_VALIDATION\<rparr>) w = Some (q, o2, w2)"
      "key o1 = key o2" "lock_view w1 = lock_view w"
  | (accepted) o2 w2 where
      "op_HandleArgs V E (ob\<lparr>tc_oper_status := INPUT_VALIDATION\<rparr>) w = Some (TC_OPER_SUCCESS, o2, w2)"
      "continue E o2 w2 = Some (r, o1, w1)" "lock_view w2 = lock_view w"
      "tc_oper_status o2 = INPUT_VALIDATION" "ssess o2 = ssess ob"
proof -
  from assms(1) obtain q o2 w2 where
    args: "op_HandleArgs V E (ob\<lparr>tc_oper_status := INPUT_VALIDATION\<rparr>) w = Some (q, o2, w2)" and
    rest: "(if q \<noteq> TC_OPER_SUCCESS then RevokeOperation V q E o2 w2 else continue E o2 w2) = Some (r, o1, w1)"
    by (auto simp: run_phase_def elim!: bind_SomeE)
  from quietD [OF assms(2) args] have kept:
    "lock_view w2 = lock_view w" "tc_oper_status o2 = INPUT_VALIDATION" "ssess o2 = ssess ob"
    by (auto simp: phase_key_def intro: lock_view_cong)
  show thesis
  proof (cases "q = TC_OPER_SUCCESS")
    case True
    with args rest kept show thesis by (auto intro: accepted)
  next
    case False
    with rest have "RevokeOperation V q E o2 w2 = Some (r, o1, w1)" by simp
    from revoke_unheld [OF this] kept args show thesis by (auto intro: refused)
  qed
qed

lemma get_phase:
  assumes "run_phase V GET_EXCLUSION_PHASE (op_GetExclusion V) (dispatch_tail V finish) E ob w = Some (r, o1, w1)"
    and "ready (key ob)"
    and finish: "\<And>E ob w r o1 w1. finish E ob w = Some (r, o1, w1) \<Longrightarrow> key o1 = key ob \<and> lock_view w1 = lock_view w"
  shows "key o1 = key ob \<and> lock_view w1 = lock_view w"
proof -
  from assms(1) obtain q o2 w2 where
    "op_GetExclusion V E (ob\<lparr>tc_oper_status := GET_EXCLUSION_PHASE\<rparr>) w = Some (q, o2, w2)"
    "(if q \<noteq> TC_OPER_SUCCESS then RevokeOperation V q E o2 w2 else dispatch_tail V finish E o2 w2) = Some (r, o1, w1)"
    by (auto simp: run_phase_def elim!: bind_SomeE)
  from exclusion_restores [OF this(1) _ _ this(2) finish] assms(2) show ?thesis
    by (simp add: key_phase)
qed

lemma get_phase_respond:
  "run_phase V GET_EXCLUSION_PHASE (op_GetExclusion V) (dispatch_tail V (op_SendResponse V st)) E ob w =
     Some (r, o1, w1) \<Longrightarrow> ready (key ob) \<Longrightarrow> key o1 = key ob \<and> lock_view w1 = lock_view w"
  by (erule get_phase) (auto dest: respond)

lemma Dispatch_restores:
  assumes "Dispatch V E ob w = Some (r, o1, w1)" and "quiet phase_key (op_HandleArgs V)" and "\<And>k. ready k"
  shows "lock_view w1 = lock_view w"
  using assms(1,2) unfolding Dispatch_def
proof (cases rule: input_phase)
  case (accepted o2 w2)
  from get_phase [OF accepted(2) assms(3)] respond accepted(3) show ?thesis by simp
qed simp

end

lemma methods_args_quiet:
  shows db_input: "quiet phase_key (op_HandleArgs db_methods)"
    and config_input: "quiet phase_key (op_HandleArgs config_methods)"
    and candidate_input: "quiet phase_key (op_HandleArgs candidate_methods)"
  by (simp_all add: db_methods_def args_quiet config_methods_def config_args_quiet candidate_methods_def
      candidate_args_quiet)

lemma Db_Dispatch_restores:
  assumes "Db_Dispatch E ob w = Some (r, o1, w1)"
  shows "lock_view w1 = lock_view w"
  using assms db_input unfolding Db_Dispatch_def
proof (cases rule: db_ops.input_phase)
  case (accepted o2 w2)
  from accepted(2) obtain a b w3 where auto: "read_autosave E o2 False w2 = Some (a, b, w3)" and
    "lock_view w1 = lock_view w3"
    by (auto simp: db_exclusion_def accepted(4) elim!: bind_SomeE split: if_splits
        dest!: db_ops.respond db_ops.revoke_unheld db_ops.get_phase_respond)
  with lock_view_cong [OF read_autosave_lock [OF auto]] accepted(3) show ?thesis by simp
qed simp

lemma AutoSave_Dispatch_restores:
  "Dispatch autosave_methods E ob w = Some (r, o1, w1) \<Longrightarrow> lock_view w1 = lock_view w"
  by (erule autosave_ops.Dispatch_restores) (simp_all add: autosave_methods_def args_quiet)

lemma Status_Dispatch_restores:
  "Dispatch status_methods E ob w = Some (r, o1, w1) \<Longrightarrow> lock_view w1 = lock_view w"
  by (erule status_ops.Dispatch_restores) (simp_all add: status_methods_def args_quiet)


section \<open>Operations that wait\<close>

text \<open>
  While an operation waits, the other threads change the lock. Their part is a property of the
  view that every wait preserves; the operation preserves it too.
\<close>

definition waits_keep :: "(lview \<Rightarrow> bool) \<Rightarrow> tc_env \<Rightarrow> bool" where
  "waits_keep P E \<longleftrightarrow> (\<forall>d w. P (lock_view w) \<longrightarrow> P (lock_view (snd (cond_wait E d w))))"

lemma waits_keepD: "waits_keep P E \<Longrightarrow> cond_wait E d w = (b, w1) \<Longrightarrow> P (lock_view w) \<Longrightarrow> P (lock_view w1)"
  by (auto simp: waits_keep_def dest!: spec [of _ d] spec [of _ w])

lemma queue_view [simp]:
  "lock_view (InsertConfigRequest sid w) = lock_view w" "lock_view (RemoveConfigRequest sid w) = lock_view w"
  "lock_view (InsertCandidateRequest sid w) = lock_view w" "lock_view (RemoveCandidateRequest sid w) = lock_view w"
  "lock_view (HandleConfigRelease w) = lock_view w" "lock_view (HandleCandidateRelease w) = lock_view w"
  "lock_view (SignalSecondaryWaitingAudit w) = lock_view w" "lock_view (TcOperations_delete E ob w) = lock_view w"
  "lock_view (PushToWaitQueue a w) = lock_view w" "lock_view (PopWaitQueue w) = lock_view w"
  "lock_view (reset_flags au w) = lock_view w" "lock_view (reset_secondary au w) = lock_view w"
  "lock_view (reset_audit w) = lock_view w" "lock_view (delete_msg E m w) = lock_view w"
  by (rule lock_view_cong, simp)+

text \<open>The phase an operation is in while it asks for its exclusion.\<close>

abbreviation (input) asking :: "'a TcOperations_scheme \<Rightarrow> bool" where
  "asking ob \<equiv> tc_oper_status ob \<in> {INPUT_VALIDATION, GET_EXCLUSION_PHASE}"

lemma Config_get_asking:
  "Config_TcGetExclusion E ob w = Some (r, o1, w1) \<Longrightarrow>
   oper_key o1 = oper_key ob \<and> tc_oper_status o1 = tc_oper_status ob \<and> lock_view w1 = lock_view w"
  using config_ops.get [of E ob w r o1 w1] by (auto simp: config_methods_def split: if_splits)

lemma config_wait_view:
  assumes "config_wait d E ob w = Some (r, o1, w1)" and "waits_keep P E"
  shows "P (lock_view w) \<and> asking ob \<longrightarrow> P (lock_view w1) \<and> asking o1"
  using assms(1) unfolding config_wait_def Let_def
  by (auto elim!: bind_SomeE dest!: Config_get_asking waits_keepD [OF assms(2)]
      split: if_splits prod.splits)

lemma timed_config_view:
  assumes "HandleTimedConfigAcquisition E ob w = Some (r, o1, w1)" and "waits_keep P E"
  shows "P (lock_view w) \<and> asking ob \<longrightarrow> P (lock_view w1) \<and> asking o1"
  using assms(1) unfolding HandleTimedConfigAcquisition_def Let_def
  by (auto elim!: bind_SomeE dest!: Config_get_asking config_wait_view [OF _ assms(2)] split: if_splits)

lemma config_finish_view: "config_finish E ob w = Some (r, o1, w1) \<Longrightarrow> oper_key o1 = oper_key ob \<and> lock_view w1 = lock_view w"
  using config_ops.respond by (fastforce simp: config_finish_def split: if_splits)

lemma config_after_asking:
  assumes "(if q \<noteq> TC_OPER_SUCCESS then RevokeOperation config_methods q E ob w
            else dispatch_tail config_methods config_finish E ob w) = Some (r, o1, w1)" and "asking ob"
  shows "lock_view w1 = lock_view w"
proof (cases "q = TC_OPER_SUCCESS")
  case True
  with assms(1) have "dispatch_tail config_methods config_finish E ob w = Some (r, o1, w1)" by simp
  from config_ops.tail_restores [OF this refl config_finish_view] show ?thesis by simp
next
  case False
  with assms config_ops.revoke_unheld [of q E ob w r o1 w1] show ?thesis by auto
qed

lemma config_exclusion_view:
  assumes "config_exclusion E ob w = Some (r, o1, w1)" and "tc_oper_status ob = INPUT_VALIDATION"
    and "waits_keep P E \<or> tc_oper ob \<noteq> TC_OP_CONFIG_ACQUIRE_TIMED" and "P (lock_view w)"
  shows "P (lock_view w1)"
proof (cases "tc_oper ob \<in> {TC_OP_CONFIG_ACQUIRE, TC_OP_CONFIG_ACQUIRE_PARTIAL} \<and> \<not> IsConfigReqQueueEmpty w")
  case True
  with assms config_ops.revoke_unheld [of TC_SYSTEM_BUSY E ob w r o1 w1] show ?thesis
    by (simp add: config_exclusion_def)
next
  case False
  with assms(1) obtain q o2 w2 where
    ask: "(if tc_oper ob = TC_OP_CONFIG_ACQUIRE_TIMED then HandleTimedConfigAcquisition E ob w
           else Config_TcGetExclusion E (ob\<lparr>tc_oper_status := GET_EXCLUSION_PHASE\<rparr>) w) = Some (q, o2, w2)" and
    rest: "(if q \<noteq> TC_OPER_SUCCESS then RevokeOperation config_methods q E o2 w2
            else dispatch_tail config_methods config_finish E o2 w2) = Some (r, o1, w1)"
    by (auto simp: config_exclusion_def elim!: bind_SomeE)
  from ask assms(2-4) have "P (lock_view w2) \<and> asking o2"
    using timed_config_view [of E ob w q o2 w2 P] by (auto dest!: Config_get_asking split: if_splits)
  with config_after_asking [OF rest] show ?thesis by simp
qed

lemma Config_Dispatch_keeps:
  assumes "Config_Dispatch E ob w = Some (r, o1, w1)" and "P (lock_view w)"
    and "waits_keep P E \<or> \<not> ssess ob \<and> tc_oper ob \<noteq> TC_OP_CONFIG_ACQUIRE_TIMED"
  shows "P (lock_view w1)"
  using assms(1) config_input unfolding Config_Dispatch_def
proof (cases rule: config_ops.input_phase)
  case (accepted o2 w2)
  have "tc_oper o2 = tc_oper ob" if "\<not> ssess ob"
    using HandleArgs_background [of config_args E] accepted(1) that by (fastforce simp: config_methods_def)
  with assms(2,3) accepted(3,4) config_exclusion_view [OF accepted(2)] show ?thesis by auto
qed (use assms(2) in simp)


section \<open>Commit and abort\<close>

definition candidate_ready :: "bool \<times> u32 \<times> TcServiceType \<Rightarrow> bool" where
  "candidate_ready k \<longleftrightarrow> is_commit (snd (snd k)) \<or> is_abort (snd (snd k))"

definition candidate_hold :: "bool \<times> u32 \<times> TcServiceType \<Rightarrow> lview \<Rightarrow> lview \<Rightarrow> bool" where
  "candidate_hold k v0 v \<longleftrightarrow> candidate_ready k \<and> write_hold candidate_write_op k v0 v"

lemma Candidate_get:
  "Candidate_TcGetExclusion E ob w = Some (r, o1, w1) \<Longrightarrow>
   o1 = ob \<and> (if r = TC_OPER_SUCCESS then write_hold candidate_write_op (oper_key ob) (lock_view w) (lock_view w1)
               else lock_view w1 = lock_view w)"
  by (auto simp: Candidate_TcGetExclusion_def lock_status_success write_hold_def elim!: bind_SomeE
      dest!: take_write_lock split: if_splits)

lemma release_marked_view: "release_marked E ob w = Some (r, w1) \<Longrightarrow> lock_view w1 = lock_view w"
  by (auto simp: release_marked_def Let_def TcConfigOperations_new_def TcOperations_new_def
      TcOperations.defs TcConfigOperations.defs elim!: bind_SomeE
      dest!: Config_Dispatch_keeps [where P = "\<lambda>v. v = lock_view w", OF _ refl])

lemma candidate_release_tail_view:
  "candidate_release_tail E ob w = Some (r, o1, w1) \<Longrightarrow> o1 = ob \<and> lock_view w1 = lock_view w"
  by (auto simp: candidate_release_tail_def elim!: bind_SomeE dest!: release_marked_view split: if_splits)

lemma Candidate_release:
  "Candidate_TcReleaseExclusion E ob w = Some (r, o1, w1) \<Longrightarrow> candidate_hold (oper_key ob) v0 (lock_view w)
   \<Longrightarrow> o1 = ob \<and> lock_view w1 = v0"
  by (auto simp: Candidate_TcReleaseExclusion_def candidate_hold_def candidate_ready_def write_hold_def
      dest!: release_write_lock candidate_release_tail_view split: if_splits prod.splits)

interpretation candidate_ops: exclusion candidate_methods oper_key candidate_ready candidate_hold
  by (rule exclusionI)
    (auto simp: candidate_methods_def quiet_candidate candidate_hold_def dest!: Candidate_get
      dest: Candidate_release [unfolded candidate_hold_def] split: if_splits)


text \<open>What an operation has when it has asked: the exclusion, or the view as the waits left it.\<close>

definition asked ::
  "('k \<Rightarrow> lview \<Rightarrow> lview \<Rightarrow> bool) \<Rightarrow> (lview \<Rightarrow> bool) \<Rightarrow> TcOperStatus \<Rightarrow> 'k \<Rightarrow> tc_state \<Rightarrow> bool" where
  "asked hold P r k w \<longleftrightarrow>
     (\<exists>v0. P v0 \<and> (if r = TC_OPER_SUCCESS then hold k v0 (lock_view w) else lock_view w = v0))"

lemma asked_refused: "r \<noteq> TC_OPER_SUCCESS \<Longrightarrow> asked hold P r k w \<longleftrightarrow> P (lock_view w)"
  by (simp add: asked_def del: split_paired_Ex)

context exclusion
begin

lemma get_asked:
  "op_GetExclusion V E ob w = Some (r, o1, w1) \<Longrightarrow> ready (key ob) \<Longrightarrow> P (lock_view w) \<Longrightarrow>
   asked hold P r (key o1) w1 \<and> key o1 = key ob \<and> tc_oper_status o1 = tc_oper_status ob"
  by (drule (1) get) (auto simp: asked_def simp del: split_paired_Ex)

lemma asked_tail:
  assumes "asked hold P q (key ob) w" and "asking ob"
    and "(if q \<noteq> TC_OPER_SUCCESS then RevokeOperation V q E ob w
          else dispatch_tail V (op_SendResponse V st) E ob w) = Some (r, o1, w1)"
  shows "P (lock_view w1) \<and> key o1 = key ob"
proof (cases "q = TC_OPER_SUCCESS")
  case True
  with assms(1,3) obtain v0 where v0: "P v0" "hold (key ob) v0 (lock_view w)"
      and tail: "dispatch_tail V (op_SendResponse V st) E ob w = Some (r, o1, w1)"
    by (auto simp: asked_def)
  from tail_restores [OF tail v0(2) respond] v0(1) show ?thesis by simp
next
  case False
  with assms revoke_unheld [of q E ob w r o1 w1] show ?thesis by (auto simp: asked_refused)
qed

end

lemma candidate_ready_args:
  "op_HandleArgs candidate_methods E ob w = Some (TC_OPER_SUCCESS, o1, w1) \<Longrightarrow> candidate_ready (oper_key o1)"
proof -
  have timed: "tc_oper o2 = tc_oper ob" if "validate_timed ob w = (r, o2)" for ob o2 w r
    using that by (auto simp: validate_timed_def split: sum.splits)
  have params: "tc_oper o2 = tc_oper ob" if "Candidate_TcValidateOperParams E ob w = Some (r, o2, w2)"
    for E ob w r o2 w2
    using that by (auto simp: Candidate_TcValidateOperParams_def Let_def dest!: timed
        split: sum.splits prod.splits if_splits)
  assume "op_HandleArgs candidate_methods E ob w = Some (TC_OPER_SUCCESS, o1, w1)"
  then show ?thesis
    by (auto simp: candidate_methods_def HandleArgs_def candidate_args_def Let_def candidate_ready_def
        Candidate_TcValidateOperType_def Candidate_TcCheckOperArgCount_def dest!: params
        split: if_splits prod.splits)
qed

lemma cancel_audit_lock [simp]: "tc_lock (cancel_running_audit E ob w) = tc_lock w"
  by (simp add: cancel_running_audit_def HandleCancelAudit_def set_cancel_flag_def Let_def split: prod.split)

lemma Candidate_get_asked:
  "Candidate_TcGetExclusion E ob w = Some (r, o1, w1) \<Longrightarrow>
   P (lock_view w) \<and> candidate_ready (oper_key ob) \<longrightarrow>
   asked candidate_hold P r (oper_key o1) w1 \<and> tc_oper_status o1 = tc_oper_status ob \<and>
   (r \<noteq> TC_OPER_SUCCESS \<longrightarrow> P (lock_view w1)) \<and> oper_key o1 = oper_key ob"
  using candidate_ops.get_asked [of E ob w r o1 w1 P]
  by (auto simp: candidate_methods_def asked_refused)

lemma cancel_audit_view [simp]: "lock_view (cancel_running_audit E ob w) = lock_view w"
  by (rule lock_view_cong) simp

lemma asked_dequeued [simp]: "asked hold P r k (RemoveCandidateRequest sid w) = asked hold P r k w"
  by (simp add: asked_def)

lemma candidate_wait_asked:
  assumes "candidate_wait d E ob w = Some (r, o1, w1)" and "waits_keep P E"
  shows "P (lock_view w) \<and> asking ob \<and> candidate_ready (oper_key ob) \<longrightarrow>
         asked candidate_hold P r (oper_key o1) w1 \<and> asking o1"
  using assms(1) unfolding candidate_wait_def Let_def
  by (auto simp: asked_refused elim!: bind_SomeE
      dest!: waits_keepD [OF assms(2)] Candidate_get_asked [of _ _ _ _ _ _ P] split: if_splits prod.splits)

lemma candidate_timed_asked:
  assumes "HandleCandidateTimedRequest E ob w = Some (r, o1, w1)" and "waits_keep P E"
  shows "P (lock_view w) \<and> asking ob \<and> candidate_ready (oper_key ob) \<longrightarrow>
         asked candidate_hold P r (oper_key o1) w1 \<and> asking o1"
  using assms(1) unfolding HandleCandidateTimedRequest_def Let_def
  by (auto simp: asked_refused elim!: bind_SomeE
      dest!: Candidate_get_asked [of _ _ _ _ _ _ P] candidate_wait_asked [OF _ assms(2)] split: if_splits)


lemma Candidate_Dispatch_keeps:
  assumes "Candidate_Dispatch E ob w = Some (r, o1, w1)" and "waits_keep P E" and "P (lock_view w)"
  shows "P (lock_view w1)"
  using assms(1) candidate_input unfolding Candidate_Dispatch_def
proof (cases rule: candidate_ops.input_phase)
  case (accepted o2 w2)
  define u where "u = (if cancel_audit o2 = 1 then SignalSecondaryWaitingAudit w2 else w2)"
  have u: "P (lock_view u)" and asking: "tc_oper_status o2 = INPUT_VALIDATION"
    and ready: "candidate_ready (oper_key o2)"
    using accepted(3,4) assms(3) candidate_ready_args [OF accepted(1)] by (simp_all add: u_def)
  show ?thesis
  proof (cases "tc_oper o2 \<in> {TC_OP_CANDIDATE_COMMIT, TC_OP_CANDIDATE_ABORT} \<and> candidate_req_queue u \<noteq> []")
    case True
    with accepted(2) have "RevokeOperation candidate_methods TC_SYSTEM_BUSY E o2 u = Some (r, o1, w1)"
      by (simp add: candidate_exclusion_def u_def Let_def)
    from candidate_ops.revoke_unheld [OF this] asking u show ?thesis by simp
  next
    case False
    with accepted(2) obtain q o3 w3 where
      ask: "(if is_timed (tc_oper o2) then HandleCandidateTimedRequest E o2 u
             else Candidate_TcGetExclusion E (o2\<lparr>tc_oper_status := GET_EXCLUSION_PHASE\<rparr>) u) = Some (q, o3, w3)" and
      rest: "(if q \<noteq> TC_OPER_SUCCESS then RevokeOperation candidate_methods q E o3 w3
              else dispatch_tail candidate_methods (op_SendResponse candidate_methods TC_OPER_SUCCESS) E o3 w3)
             = Some (r, o1, w1)"
      by (auto simp: candidate_exclusion_def Let_def u_def [symmetric] elim!: bind_SomeE)
    from ask u asking ready have "asked candidate_hold P q (oper_key o3) w3 \<and> asking o3"
      by (auto dest!: candidate_timed_asked [OF _ assms(2)] Candidate_get_asked [of _ _ _ _ _ _ P]
          split: if_splits)
    with candidate_ops.asked_tail [OF _ _ rest, of P] show ?thesis by simp
  qed
qed (use assms(3) in simp)

section \<open>Audits\<close>

text \<open>
  A driver audit asked for by a request holds nothing: the task queue runs it. Only such an
  audit has the flag set.
\<close>

abbreviation audit_oper_key :: "TcAuditOperations \<Rightarrow> (bool \<times> u32 \<times> TcServiceType) \<times> bool \<times> nat" where
  "audit_oper_key ob \<equiv> (oper_key ob, api_audit ob, au_self ob)"

definition audit_ready :: "(bool \<times> u32 \<times> TcServiceType) \<times> bool \<times> nat \<Rightarrow> bool" where
  "audit_ready k \<longleftrightarrow> (fst (snd k) \<longrightarrow> snd (snd (fst k)) = TC_OP_DRIVER_AUDIT)"

definition audit_hold :: "(bool \<times> u32 \<times> TcServiceType) \<times> bool \<times> nat \<Rightarrow> lview \<Rightarrow> lview \<Rightarrow> bool" where
  "audit_hold k v0 v \<longleftrightarrow> (if fst (snd k) then v = v0 else write_hold audit_write_op (fst k) v0 v)"

lemma Audit_get:
  "Audit_TcGetExclusion E ob w = Some (r, o1, w1) \<Longrightarrow> audit_ready (audit_oper_key ob) \<Longrightarrow>
   o1 = ob \<and> (if r = TC_OPER_SUCCESS then audit_hold (audit_oper_key ob) (lock_view w) (lock_view w1)
               else lock_view w1 = lock_view w)"
  by (auto simp: Audit_TcGetExclusion_def audit_ready_def audit_hold_def lock_status_success write_hold_def
      elim!: bind_SomeE dest!: take_write_lock split: if_splits)

lemma Audit_release:
  "Audit_TcReleaseExclusion E ob w = Some (r, o1, w1) \<Longrightarrow> audit_hold (audit_oper_key ob) v0 (lock_view w) \<Longrightarrow>
   o1 = ob \<and> lock_view w1 = v0"
  by (auto simp: Audit_TcReleaseExclusion_def audit_hold_def write_hold_def
      dest!: release_write_lock split: if_splits prod.splits)

lemma quiet_audit:
  assumes "quiet audit_key m" and "m E ob w = Some (r, o1, w1)"
  shows "audit_oper_key o1 = audit_oper_key ob \<and> tc_oper_status o1 = tc_oper_status ob \<and>
         lock_view w1 = lock_view w"
  using quietD [OF assms] by (auto dest!: audit_keyD base_keyD intro: lock_view_cong)

lemma audit_exclusionI:
  assumes "quiet audit_key (op_Execute V)" and "op_GetExclusion V = Audit_TcGetExclusion"
    and "op_CreateMsgList V = ok" and "op_ReleaseExclusion V = Audit_TcReleaseExclusion"
    and "op_SendResponse V = SendResponse Audit_SendAdditionalResponse"
  shows "exclusion V audit_oper_key audit_ready audit_hold"
proof (unfold_locales, goal_cases)
  case (2 E ob w r o1 w1) then show ?case using Audit_get [of E ob w r o1 w1] by (simp add: assms(2))
next
  case (3 E ob w r o1 w1) then show ?case by (simp add: assms(3) ok_def)
next
  case (4 E ob w r o1 w1) then show ?case by (rule quiet_audit [OF assms(1)])
next
  case (5 E ob w r o1 w1 v0) then show ?case using Audit_release [of E ob w r o1 w1 v0] by (simp add: assms(4))
next
  case (6 st E ob w r o1 w1) then show ?case
    using quiet_audit [OF audit_response_quiet, of st E ob w r o1 w1] by (simp add: assms(5))
qed simp

interpretation audit_ops: exclusion audit_methods audit_oper_key audit_ready audit_hold
  by (rule audit_exclusionI) (simp_all add: audit_methods_def audit_execute_quiet)

text \<open>The class dispatches with a variant of \<^verbatim>\<open>Execute\<close> that drops the message of a failed driver audit.\<close>

interpretation audit_phases: exclusion "audit_methods\<lparr>op_Execute := audit_execute_phase\<rparr>"
  audit_oper_key audit_ready audit_hold
  by (rule audit_exclusionI) (simp_all add: audit_methods_def audit_phase_quiet)


lemma Audit_get_asked:
  "Audit_TcGetExclusion E ob w = Some (r, o1, w1) \<Longrightarrow>
   P (lock_view w) \<and> audit_ready (audit_oper_key ob) \<longrightarrow>
   asked audit_hold P r (audit_oper_key ob) w1 \<and> o1 = ob \<and> (r \<noteq> TC_OPER_SUCCESS \<longrightarrow> P (lock_view w1))"
  using audit_ops.get_asked [of E ob w r o1 w1 P] Audit_get [of E ob w r o1 w1]
  by (auto simp: audit_methods_def asked_refused)

lemma primary_wait_view: "waits_keep P E \<Longrightarrow> P (lock_view w) \<Longrightarrow> P (lock_view (primary_wait E ob w))"
  by (simp add: primary_wait_def waits_keep_def)

lemma secondary_wait_view:
  "secondary_wait E ob w = (b, w1) \<Longrightarrow> waits_keep P E \<Longrightarrow> P (lock_view w) \<Longrightarrow> P (lock_view w1)"
  by (auto simp: secondary_wait_def Let_def dest: waits_keepD split: if_splits prod.splits)

lemma wait_round_asked:
  assumes "wait_round E ob w = Some (a, o1, w1)" and "waits_keep P E" and "P (lock_view w)"
    and ready: "audit_ready (audit_oper_key ob)"
  shows "o1 = ob \<and> (case a of None \<Rightarrow> P (lock_view w1) | Some r \<Rightarrow> asked audit_hold P r (audit_oper_key ob) w1)"
proof -
  define u where "u = primary_wait E ob w"
  have u: "P (lock_view u)" using primary_wait_view [OF assms(2,3)] by (simp add: u_def)
  have second: "P (lock_view u')" if "secondary_wait E au u = (b, u')" for au b u'
    using secondary_wait_view [OF that assms(2) u] .
  from assms(1) u ready show ?thesis
    unfolding wait_round_def u_def [symmetric] Let_def
    by (auto simp: asked_refused elim!: bind_SomeE dest!: second Audit_get_asked [of _ _ _ _ _ _ P]
        split: if_splits prod.splits)
qed

lemma wait_loop_asked:
  assumes "wait_loop E ob w = Some (r, o1, w1)" and "waits_keep P E" and "P (lock_view w)"
    and "audit_ready (audit_oper_key ob)"
  shows "o1 = ob \<and> asked audit_hold P r (audit_oper_key ob) w1"
proof -
  have "waits_keep P E \<longrightarrow> P (lock_view w) \<longrightarrow> audit_ready (audit_oper_key ob) \<longrightarrow>
        fst (snd (r, o1, w1)) = ob \<and> asked audit_hold P (fst (r, o1, w1)) (audit_oper_key ob) (snd (snd (r, o1, w1)))"
  proof (rule wait_loop.raw_induct [OF _ assms(1)], intro impI)
    fix f E ob w and y :: "TcOperStatus \<times> TcAuditOperations \<times> tc_state"
    assume IH: "\<And>E ob w y. f E ob w = Some y \<Longrightarrow> waits_keep P E \<longrightarrow> P (lock_view w) \<longrightarrow>
        audit_ready (audit_oper_key ob) \<longrightarrow> fst (snd y) = ob \<and> asked audit_hold P (fst y) (audit_oper_key ob) (snd (snd y))"
      and body: "(wait_round E ob w \<bind> (\<lambda>(answer, o1, w1). case answer of Some r \<Rightarrow> Some (r, o1, w1)
        | None \<Rightarrow> f E o1 w1)) = Some y"
      and hyps: "waits_keep P E" "P (lock_view w)" "audit_ready (audit_oper_key ob)"
    from body obtain a o2 w2 where
      round: "wait_round E ob w = Some (a, o2, w2)" and
      rest: "(case a of Some r \<Rightarrow> Some (r, o2, w2) | None \<Rightarrow> f E o2 w2) = Some y"
      by (auto elim!: bind_SomeE)
    from wait_round_asked [OF round hyps] rest hyps IH [of E o2 w2 y]
    show "fst (snd y) = ob \<and> asked audit_hold P (fst y) (audit_oper_key ob) (snd (snd y))"
      by (auto split: option.splits)
  qed
  with assms(2-) show ?thesis by simp
qed

lemma DriverAuditWait_asked:
  "DriverAuditWait E ob w = Some (r, o1, w1) \<Longrightarrow> waits_keep P E \<Longrightarrow> P (lock_view w) \<Longrightarrow>
   audit_ready (audit_oper_key ob) \<Longrightarrow> o1 = ob \<and> asked audit_hold P r (audit_oper_key ob) w1"
  by (auto simp: DriverAuditWait_def asked_refused dest!: wait_loop_asked split: if_splits)


lemma revoke_execute: "RevokeOperation (V\<lparr>op_Execute := x\<rparr>) = RevokeOperation V"
  by (intro ext) (simp add: RevokeOperation_def split: TcOperEnum.split)

lemma phase_key_audit [simp]:
  "phase_key (a\<lparr>au_controller_id := c\<rparr>) = phase_key a" "phase_key (a\<lparr>au_driver_id := d\<rparr>) = phase_key a"
  "phase_key (a\<lparr>au_audit_type := t\<rparr>) = phase_key a" "phase_key (a\<lparr>force_reconnect := f\<rparr>) = phase_key a"
  "phase_key (a\<lparr>api_audit := b\<rparr>) = phase_key a"
  by (simp_all add: phase_key_def)

lemma validate_user_audit_frame:
  "validate_user_audit ob w = (r, f, o1) \<Longrightarrow>
   phase_key o1 = phase_key ob \<and> tc_oper o1 = tc_oper ob \<and> api_audit o1 = api_audit ob"
  by (auto simp: validate_user_audit_def Let_def split: if_splits)

lemma validate_driver_audit_frame:
  "validate_driver_audit E ob w = Some (r, o1, w1) \<Longrightarrow>
   tc_lock w1 = tc_lock w \<and> phase_key o1 = phase_key ob \<and> tc_oper o1 = tc_oper ob"
  by (auto simp: validate_driver_audit_def DispatchAuditDriverRequest_def Let_def dest!: same_lock
      split: sum.splits if_splits prod.splits)

lemma audit_params_frame:
  "Audit_TcValidateOperParams E ob w = Some (r, o1, w1) \<Longrightarrow>
   tc_lock w1 = tc_lock w \<and> phase_key o1 = phase_key ob \<and> tc_oper o1 = tc_oper ob \<and>
   (api_audit o1 \<longrightarrow> api_audit ob \<or> tc_oper ob = TC_OP_DRIVER_AUDIT)"
  by (auto simp: Audit_TcValidateOperParams_def Let_def
      dest!: validate_user_audit_frame validate_driver_audit_frame split: if_splits prod.splits)

lemma audit_input: "quiet phase_key (op_HandleArgs audit_methods)"
proof -
  have "quiet phase_key (HandleArgs audit_args)"
  proof (rule quiet_HandleArgs)
    show "quiet phase_key (TcValidateOperParams audit_args)"
      by (rule quietI) (auto simp: audit_args_def dest!: audit_params_frame)
  qed (auto simp: audit_args_def Audit_TcValidateOperType_def Audit_TcCheckOperArgCount_def
      Audit_GetSessionId_def dest!: GetSessionId_key same_lock split: if_splits)
  then show ?thesis by (simp add: audit_methods_def)
qed

lemma audit_ready_args:
  assumes "op_HandleArgs audit_methods E ob w = Some (r, o1, w1)" and "\<not> api_audit ob"
  shows "audit_ready (audit_oper_key o1)"
proof -
  have type: "GetOperType a w = (q, a1) \<Longrightarrow> api_audit a1 = api_audit a" for a a1 w q
    by (auto simp: GetOperType_def split: sum.splits)
  have sess: "Audit_GetSessionId a w = (q, a1) \<Longrightarrow> api_audit a1 = api_audit a" for a a1 w q
    by (auto simp: Audit_GetSessionId_def GetSessionId_def split: sum.splits if_splits)
  show ?thesis
    using assms
    by (auto simp: audit_methods_def HandleArgs_def audit_args_def Let_def audit_ready_def
        Audit_TcCheckOperArgCount_def dest!: type sess audit_params_frame split: if_splits prod.splits)
qed

lemma audit_exclusion_keeps:
  assumes "audit_exclusion E ob w = Some (r, o1, w1)" and "waits_keep P E" and "P (lock_view w)"
    and status: "tc_oper_status ob = INPUT_VALIDATION" and ready: "audit_ready (audit_oper_key ob)"
  shows "P (lock_view w1) \<and> audit_oper_key o1 = audit_oper_key ob"
proof -
  define u where "u = reset_flags ob w"
  define background where "background \<longleftrightarrow> \<not> ssess ob \<and> tc_oper ob = TC_OP_DRIVER_AUDIT"
  have u: "P (lock_view u)" using assms(3) by (simp add: u_def)
  show ?thesis
  proof (cases "tc_oper ob = TC_OP_USER_AUDIT \<and> candidate_req_queue u \<noteq> []")
    case True
    with assms(1) have "RevokeOperation audit_methods TC_SYSTEM_BUSY E ob u = Some (r, o1, w1)"
      by (simp add: audit_exclusion_def u_def)
    from audit_ops.revoke_unheld [OF this] u status show ?thesis by simp
  next
    case False
    with assms(1) obtain q o2 w2 where
      ask: "(if background \<and> candidate_req_queue u \<noteq> [] then DriverAuditWait E ob u
             else Audit_TcGetExclusion E (ob\<lparr>tc_oper_status := GET_EXCLUSION_PHASE\<rparr>) u \<bind>
               (\<lambda>(g, o2, w2). if g \<noteq> TC_OPER_SUCCESS \<and> background then DriverAuditWait E o2 w2
                               else Some (g, o2, w2))) = Some (q, o2, w2)" and
      rest: "(if q \<noteq> TC_OPER_SUCCESS then RevokeOperation audit_methods q E o2 w2 else audit_tail E o2 w2)
             = Some (r, o1, w1)"
      by (auto simp: audit_exclusion_def Let_def u_def [symmetric] background_def [symmetric] elim!: bind_SomeE)
    from ask u status ready have got: "asked audit_hold P q (audit_oper_key o2) w2 \<and> asking o2 \<and>
        audit_oper_key o2 = audit_oper_key ob"
      by (auto elim!: bind_SomeE dest!: Audit_get_asked [of _ _ _ _ _ _ P] DriverAuditWait_asked [OF _ assms(2)]
          split: if_splits)
    from rest have tail: "(if q \<noteq> TC_OPER_SUCCESS
        then RevokeOperation (audit_methods\<lparr>op_Execute := audit_execute_phase\<rparr>) q E o2 w2
        else dispatch_tail (audit_methods\<lparr>op_Execute := audit_execute_phase\<rparr>)
          (op_SendResponse (audit_methods\<lparr>op_Execute := audit_execute_phase\<rparr>) TC_OPER_SUCCESS) E o2 w2)
        = Some (r, o1, w1)"
      by (simp add: revoke_execute audit_tail_def split: if_splits)
    from audit_phases.asked_tail [OF _ _ tail] got show ?thesis by metis
  qed
qed


lemma audit_background_args:
  "op_HandleArgs audit_methods E ob w = Some (r, o1, w1) \<Longrightarrow> \<not> ssess ob \<Longrightarrow> o1 = ob"
  by (auto simp: audit_methods_def dest: HandleArgs_background)

lemma Audit_Dispatch_keeps:
  assumes "Audit_Dispatch E ob w = Some (r, o1, w1)" and "waits_keep P E" and "P (lock_view w)"
    and "\<not> api_audit ob"
  shows "P (lock_view w1) \<and> (\<not> ssess ob \<longrightarrow> audit_oper_key o1 = audit_oper_key ob)"
  using assms(1) audit_input unfolding Audit_Dispatch_def
proof (cases rule: audit_ops.input_phase)
  case (refused q o2 w2)
  then show ?thesis using assms(3) audit_background_args [OF refused(1)] by auto
next
  case (accepted o2 w2)
  have "audit_ready (audit_oper_key o2)" by (rule audit_ready_args [OF accepted(1)]) (simp add: assms(4))
  from audit_exclusion_keeps [OF accepted(2) assms(2) _ accepted(4) this] accepted(3) assms(3)
    audit_background_args [OF accepted(1)] show ?thesis by auto
qed

lemma audit_until_done_keeps:
  assumes "audit_until_done E ob w = Some (r, o1, w1)" and "waits_keep P E" and "P (lock_view w)"
    and "\<not> ssess ob" and "\<not> api_audit ob"
  shows "P (lock_view w1)"
proof -
  have "waits_keep P E \<longrightarrow> P (lock_view w) \<longrightarrow> \<not> ssess ob \<longrightarrow> \<not> api_audit ob \<longrightarrow> P (lock_view (snd (snd (r, o1, w1))))"
  proof (rule audit_until_done.raw_induct [OF _ assms(1)], intro impI)
    fix f E ob w and y :: "TcOperStatus \<times> TcAuditOperations \<times> tc_state"
    assume IH: "\<And>E ob w y. f E ob w = Some y \<Longrightarrow> waits_keep P E \<longrightarrow> P (lock_view w) \<longrightarrow> \<not> ssess ob \<longrightarrow>
        \<not> api_audit ob \<longrightarrow> P (lock_view (snd (snd y)))"
      and body: "(Audit_Dispatch E ob w \<bind> (\<lambda>(r, o1, w1).
        if r = TC_OPER_AUDIT_CANCELLED then f E o1 w1 else Some (r, o1, w1))) = Some y"
      and hyps: "waits_keep P E" "P (lock_view w)" and bg: "\<not> ssess ob" "\<not> api_audit ob"
    from body obtain q o2 w2 where
      step: "Audit_Dispatch E ob w = Some (q, o2, w2)" and
      rest: "(if q = TC_OPER_AUDIT_CANCELLED then f E o2 w2 else Some (q, o2, w2)) = Some y"
      by (auto elim!: bind_SomeE)
    from Audit_Dispatch_keeps [OF step hyps bg(2)] bg have "P (lock_view w2)" "\<not> ssess o2" "\<not> api_audit o2"
      by simp_all
    with rest hyps(1) IH [of E o2 w2 y] show "P (lock_view (snd (snd y)))"
      by (auto split: if_splits)
  qed
  with assms(2-) show ?thesis by simp
qed

section \<open>Every request gives back what it took\<close>

lemma new_db_view: "new_db E md w = (h, w1) \<Longrightarrow> lock_view w1 = lock_view w"
  by (auto simp: new_db_def dest!: same_lock intro: lock_view_cong)

lemma delete_view [simp]:
  "lock_view (TcCandidateOperations_delete E ca w) = lock_view w"
  "lock_view (TcAuditOperations_delete E au w) = lock_view w"
  by (simp_all add: TcCandidateOperations_delete_def TcAuditOperations_delete_def split: option.split)

lemma serve_keeps:
  assumes "serve del dispatch E ob w = Some (r, w1)"
    and "\<And>r o1 w1. dispatch E ob w = Some (r, o1, w1) \<Longrightarrow> P (lock_view w1)"
    and "\<And>o1 w1. lock_view (del E o1 w1) = lock_view w1"
  shows "P (lock_view w1)"
  using assms by (auto simp: serve_def elim!: bind_SomeE)

lemma new_audit_fresh [simp]: "\<not> api_audit (TcAuditOperations_new addr s h c q)"
  by (simp add: TcAuditOperations_new_def TcAuditOperations.defs TcOperations.defs)

end
