(* ===== verification/TcMoves.thy ===== *)
theory TcMoves
  imports TcExclusion
begin

text \<open>
  How the operations move the lock manager. The locale \<open>lock_rel\<close> is a relation between states
  of the manager that every call of an operation respects; the locale \<open>moving_ops\<close> lifts it from
  the methods of a class to its dispatch. Two relations are of interest: the invariant of the
  manager is kept, and the state of the coordinator stays the same. Both hold of every request, of
  the release of a session, of the timer of a read session and of the audits of the task queue.
\<close>

section \<open>Relations that the calls respect\<close>

definition moves ::
  "(TcLock \<Rightarrow> TcLock \<Rightarrow> bool) \<Rightarrow> tc_env \<Rightarrow> (tc_env \<Rightarrow> 'o \<Rightarrow> tc_state \<Rightarrow> ('r \<times> 'o \<times> tc_state) option) \<Rightarrow> bool" where
  "moves R E m \<longleftrightarrow> (\<forall>ob w r o1 w1. m E ob w = Some (r, o1, w1) \<longrightarrow> R (tc_lock w) (tc_lock w1))"

lemma movesI: "(\<And>ob w r o1 w1. m E ob w = Some (r, o1, w1) \<Longrightarrow> R (tc_lock w) (tc_lock w1)) \<Longrightarrow> moves R E m"
  by (auto simp: moves_def)

lemma movesD: "moves R E m \<Longrightarrow> m E ob w = Some (r, o1, w1) \<Longrightarrow> R (tc_lock w) (tc_lock w1)"
  by (auto simp: moves_def)

text \<open>What other threads do while an operation waits.\<close>

definition waits_move :: "(TcLock \<Rightarrow> TcLock \<Rightarrow> bool) \<Rightarrow> tc_env \<Rightarrow> bool" where
  "waits_move R E \<longleftrightarrow> (\<forall>d w. R (tc_lock w) (tc_lock (snd (cond_wait E d w))))"

lemma waits_moveD:
  assumes "waits_move R E" and "cond_wait E d w = (b, w1)"
  shows "R (tc_lock w) (tc_lock w1)"
proof -
  have "R (tc_lock w) (tc_lock (snd (cond_wait E d w)))" using assms(1) by (simp add: waits_move_def)
  with assms(2) show ?thesis by simp
qed

locale preorder_rel =
  fixes R :: "TcLock \<Rightarrow> TcLock \<Rightarrow> bool"
  assumes stays: "R s s" and trans: "R s t \<Longrightarrow> R t u \<Longrightarrow> R s u"
begin

lemma same: "t = s \<Longrightarrow> R s t"
  by (simp add: stays)

lemma quiet_moves:
  assumes "quiet k m"
  shows "moves R E m"
proof (rule movesI)
  fix ob w r o1 w1
  assume "m E ob w = Some (r, o1, w1)"
  from quietD [OF assms this] show "R (tc_lock w) (tc_lock w1)" by (simp add: stays)
qed

end

text \<open>
  A class: \<open>start\<close> is what its object and the request satisfy at the beginning, \<open>entry\<close> what they
  satisfy when the exclusion is asked for.
\<close>

locale moving_ops = preorder_rel R for R :: "TcLock \<Rightarrow> TcLock \<Rightarrow> bool" +
  fixes E :: tc_env and V :: "'a TcOperations_scheme op_methods"
    and start entry :: "'a TcOperations_scheme \<Rightarrow> tc_state \<Rightarrow> bool"
  assumes args: "start ob w \<Longrightarrow> op_HandleArgs V E ob w = Some (r, o1, w1) \<Longrightarrow>
      tc_lock w1 = tc_lock w \<and> entry o1 w1"
    and start_phase: "start (ob\<lparr>tc_oper_status := ph\<rparr>) w = start ob w"
    and entry_phase: "entry (ob\<lparr>tc_oper_status := ph\<rparr>) w = entry ob w"
    and get: "entry ob w \<Longrightarrow> op_GetExclusion V E ob w = Some (r, o1, w1) \<Longrightarrow> R (tc_lock w) (tc_lock w1)"
    and messages: "moves R E (op_CreateMsgList V)" and execute: "moves R E (op_Execute V)"
    and release: "moves R E (op_ReleaseExclusion V)" and respond: "\<And>st. moves R E (op_SendResponse V st)"
begin

lemma revoke: "moves R E (RevokeOperation V st)"
  by (rule movesI)
    (auto simp: RevokeOperation_def stays elim!: bind_SomeE
      dest!: movesD [OF respond] movesD [OF release] intro: trans split: TcOperEnum.splits)

lemma phase:
  assumes "moves R E m" and "moves R E continue"
  shows "moves R E (run_phase V ph m continue)"
  by (rule movesI)
    (auto simp: run_phase_def elim!: bind_SomeE dest!: movesD [OF assms(1)] movesD [OF assms(2)] movesD [OF revoke]
      intro: trans split: if_splits)

lemma tail: "moves R E finish \<Longrightarrow> moves R E (dispatch_tail V finish)"
  unfolding dispatch_tail_def by (intro phase messages execute release)

text \<open>The first phase, and the second one of the classes that use the dispatch of the base class.\<close>

lemma input:
  assumes "run_phase V INPUT_VALIDATION (op_HandleArgs V) continue E ob w = Some (r, o1, w1)" and "start ob w"
    and "\<And>o2 w2. entry o2 w2 \<Longrightarrow> continue E o2 w2 = Some (r, o1, w1) \<Longrightarrow> R (tc_lock w2) (tc_lock w1)"
  shows "R (tc_lock w) (tc_lock w1)"
  using assms
  by (auto simp: run_phase_def elim!: bind_SomeE dest!: args [rotated] movesD [OF revoke] split: if_splits)
    (auto simp: start_phase, metis)

lemma exclude:
  assumes "run_phase V GET_EXCLUSION_PHASE (op_GetExclusion V) continue E ob w = Some (r, o1, w1)"
    and "entry ob w" and "moves R E continue"
  shows "R (tc_lock w) (tc_lock w1)"
  using assms(1,2)
  by (auto simp: run_phase_def entry_phase elim!: bind_SomeE
      dest!: get [rotated] movesD [OF revoke] movesD [OF assms(3)] intro: trans split: if_splits)

lemma dispatch:
  assumes "Dispatch V E ob w = Some (r, o1, w1)" and "start ob w"
  shows "R (tc_lock w) (tc_lock w1)"
  by (rule input [OF assms(1) [unfolded Dispatch_def] assms(2)])
    (erule exclude, assumption, rule tail, rule respond)

end

section \<open>The lock manager\<close>

text \<open>
  What a caller of the lock has to guarantee: room for one more reader, and no virtual tenant
  network called \<^verbatim>\<open>global-mode\<close>.
\<close>

definition fair_get :: "TcOperation \<Rightarrow> TcConfigMode \<Rightarrow> string \<Rightarrow> TcLock \<Rightarrow> bool" where
  "fair_get op mode vtn s \<longleftrightarrow>
     (op \<in> {TC_ACQUIRE_READ_SESSION, TC_ACQUIRE_READ_LOCK_FOR_STATE_TRANSITION} \<longrightarrow> reader_room (rwlock s)) \<and>
     (mode = TC_CONFIG_VTN \<longrightarrow> vtn \<noteq> ''global-mode'')"

locale lock_rel = preorder_rel R for R :: "TcLock \<Rightarrow> TcLock \<Rightarrow> bool" +
  assumes get: "fair_get op mode vtn s \<Longrightarrow> R s (snd (GetLock sid op wop mode vtn s))"
    and release: "R s (snd (ReleaseLock sid cid op wop s))"
    and notified: "nop \<noteq> TC_NOTIFY_NONE \<Longrightarrow> R s (snd (NotifyConfigIdSessionIdDone cid sid nop s))"
    and mark: "R s (snd (TcMarkSessionId sid s))"
begin

lemma take:
  assumes "take_lock (GetLock sid op wop mode vtn) w = Some (r, w1)" and "fair_get op mode vtn (tc_lock w)"
  shows "R (tc_lock w) (tc_lock w1)"
  using get [OF assms(2), of sid wop] assms(1)
  by (auto simp: take_lock_def split: prod.splits lock_outcome.splits)

lemma give:
  assumes "via_lock (ReleaseLock sid cid op wop) w = (r, w1)"
  shows "R (tc_lock w) (tc_lock w1)"
  using release [of "tc_lock w" sid cid op wop] assms by (auto simp: via_lock_def split: prod.splits)

lemma notify:
  assumes "via_lock (NotifyConfigIdSessionIdDone cid sid nop) w = (r, w1)" and "nop \<noteq> TC_NOTIFY_NONE"
  shows "R (tc_lock w) (tc_lock w1)"
  using notified [OF assms(2), of "tc_lock w" cid sid] assms(1) by (auto simp: via_lock_def split: prod.splits)

end

lemma state_AcquireWriteLock: "current_state (snd (AcquireWriteLock sid wop s)) = current_state s"
  by (cases wop)
    (simp_all add: AcquireWriteLockForAuditDriver_def AcquireWriteLockForCommit_def
      AcquireWriteLockForAbortCandidateConfig_def AcquireWriteLockForAuditUser_def
      AcquireWriteLockForSaveStartupConfig_def AcquireWriteLockForClearStartupConfig_def
      write_try_def split: option.split prod.split bool.split)

lemma state_autosave_then_write: "current_state (snd (autosave_then_write sid wop s)) = current_state s"
proof -
  obtain q t where t: "AcquireWriteLock sid wop (s\<lparr>auto_save_enable := True\<rparr>) = (q, t)" by fastforce
  have "current_state t = current_state s"
    using state_AcquireWriteLock [of sid wop "s\<lparr>auto_save_enable := True\<rparr>"] t by simp
  with t show ?thesis
    by (auto simp: autosave_then_write_def AutoSaveEnable_def AutoSaveDisable_def
        split: lock_outcome.split TcLockRet.split)
qed

lemma state_GetLock: "current_state (snd (GetLock sid op wop m v s)) = current_state s"
  by (cases op)
    (simp_all add: GetLock_def Let_def state_AcquireWriteLock state_autosave_then_write
      AcquireConfigLock_def UpdateConfigData_def GetConfigId_def set_config_entry_def AcquireReadLock_def
      ForceAcquireConfigLock_def AutoSaveEnable_def TcAcquireReadLockForStateTransition_def
      StateTransitionLoop_def split: prod.split bool.split)

lemma fair_GetLock_inv:
  assumes "lock_inv s" and "fair_get op mode vtn s"
  shows "lock_inv (snd (GetLock sid op wop mode vtn s))"
proof (cases "op \<in> {TC_ACQUIRE_READ_SESSION, TC_ACQUIRE_READ_LOCK_FOR_STATE_TRANSITION}")
  case True
  with assms GetLock_inv [of s mode vtn] show ?thesis by (auto simp: fair_get_def)
next
  case False
  with assms show ?thesis
    using AcquireConfigLock_inv [of s mode vtn] AcquireWriteLock_inv [of s sid wop]
      ForceAcquireConfigLock_inv [of s sid] autosave_then_write_inv [of s sid] AutoSave_inv [of s]
    by (cases op) (auto simp: GetLock_def Let_def fair_get_def)
qed

definition keeps_inv :: "TcLock \<Rightarrow> TcLock \<Rightarrow> bool" where
  "keeps_inv s t \<longleftrightarrow> (lock_inv s \<longrightarrow> lock_inv t)"

definition same_state :: "TcLock \<Rightarrow> TcLock \<Rightarrow> bool" where
  "same_state s t \<longleftrightarrow> current_state t = current_state s"

interpretation kept: lock_rel keeps_inv
  by unfold_locales
    (auto simp: keeps_inv_def intro: fair_GetLock_inv ReleaseLock_inv NotifyDone_inv TcMarkSessionId_inv)

interpretation steady: lock_rel same_state
  by unfold_locales (auto simp: same_state_def state_GetLock)

section \<open>The classes\<close>

abbreviation anytime :: "'o \<Rightarrow> tc_state \<Rightarrow> bool" where
  "anytime ob w \<equiv> True"

lemma quiet_read_args: "quiet phase_key (HandleArgs read_args)"
proof (rule quiet_HandleArgs)
  show "quiet phase_key (TcValidateOperParams read_args)"
    by (rule quietI)
      (auto simp: read_args_def Read_TcValidateOperParams_def phase_key_def split: if_splits sum.splits)
qed (auto simp: read_args_def Read_TcValidateOperType_def Read_TcCheckOperArgCount_def phase_key_def
    dest!: GetSessionId_key split: if_splits)

lemma quiet_read_execute: "quiet base_key Read_Execute"
  by (rule quietI)
    (auto simp: Read_Execute_def PostReadTimer_def Let_def dest!: same_lock split: if_splits prod.splits)

text \<open>Only a request to read adds a reader; a release without a request does not.\<close>

definition reading :: "TcReadOperations \<Rightarrow> tc_state \<Rightarrow> bool" where
  "reading ob w \<longleftrightarrow> tc_oper ob = TC_OP_READ_RELEASE \<or> reader_room (rwlock (tc_lock w))"

definition may_read :: "TcReadOperations \<Rightarrow> tc_state \<Rightarrow> bool" where
  "may_read ob w \<longleftrightarrow> \<not> ssess ob \<and> tc_oper ob = TC_OP_READ_RELEASE \<or> reader_room (rwlock (tc_lock w))"

lemma reading_phase [simp]:
  "reading (ob\<lparr>tc_oper_status := ph\<rparr>) w = reading ob w" "may_read (ob\<lparr>tc_oper_status := ph\<rparr>) w = may_read ob w"
  by (simp_all add: reading_def may_read_def)

lemma read_args_reading:
  assumes "HandleArgs read_args E ob w = Some (r, o1, w1)" and "may_read ob w"
  shows "tc_lock w1 = tc_lock w \<and> reading o1 w1"
  using quietD [OF quiet_read_args assms(1)] HandleArgs_background [OF assms(1)] assms(2)
  by (auto simp: reading_def may_read_def)

lemma fair_global [simp]: "fair_get op TC_CONFIG_GLOBAL vtn s \<longleftrightarrow>
   (op \<in> {TC_ACQUIRE_READ_SESSION, TC_ACQUIRE_READ_LOCK_FOR_STATE_TRANSITION} \<longrightarrow> reader_room (rwlock s))"
  by (simp add: fair_get_def)

context lock_rel
begin

lemma write_gets:
  shows "Db_TcGetExclusion E od w = Some (r, od1, w1) \<Longrightarrow> R (tc_lock w) (tc_lock w1)"
    and "AutoSave_TcGetExclusion E oa w = Some (r, oa1, w1) \<Longrightarrow> R (tc_lock w) (tc_lock w1)"
    and "Candidate_TcGetExclusion E oc w = Some (r, oc1, w1) \<Longrightarrow> R (tc_lock w) (tc_lock w1)"
    and "Audit_TcGetExclusion E ou w = Some (r, ou1, w1) \<Longrightarrow> R (tc_lock w) (tc_lock w1)"
    and "reading ro w \<Longrightarrow> Read_TcGetExclusion E ro w = Some (r, ro1, w1) \<Longrightarrow> R (tc_lock w) (tc_lock w1)"
  by (auto simp: Db_TcGetExclusion_def AutoSave_TcGetExclusion_def Candidate_TcGetExclusion_def
      Audit_TcGetExclusion_def Read_TcGetExclusion_def Let_def reading_def stays elim!: bind_SomeE dest!: take give
      split: if_splits TcServiceType.splits prod.splits)

lemma releases:
  shows "moves R E Db_TcReleaseExclusion" and "moves R E AutoSave_TcReleaseExclusion"
    and "moves R E Audit_TcReleaseExclusion" and "moves R E Read_TcReleaseExclusion"
    and "moves R E Config_TcReleaseExclusion"
  by (rule movesI; auto simp: Db_TcReleaseExclusion_def AutoSave_TcReleaseExclusion_def
      Audit_TcReleaseExclusion_def Read_TcReleaseExclusion_def Config_TcReleaseExclusion_def Let_def stays
      dest!: give notify split: if_splits prod.splits)+

lemma quiet_args:
  assumes "quiet k (op_HandleArgs V)" and "op_HandleArgs V E ob w = Some (r, o1, w1)"
  shows "tc_lock w1 = tc_lock w"
  using quietD [OF assms] by simp

lemma status_moves: "moving_ops R E status_methods anytime anytime"
  by unfold_locales
    (auto simp: status_methods_def stays ok_def dest: quietD [OF args_quiet(3)]
      intro: quiet_moves [OF quiet_ok] quiet_moves [OF quiet_SendResponse [OF quiet_put_status]])

lemma db_moves: "moving_ops R E db_methods anytime anytime"
  by unfold_locales
    (auto simp: db_methods_def releases dest: quietD [OF args_quiet(1)] write_gets intro: quiet_moves quiet_db)

lemma autosave_moves: "moving_ops R E autosave_methods anytime anytime"
  by unfold_locales
    (auto simp: autosave_methods_def releases dest: quietD [OF args_quiet(2)] write_gets
      intro: quiet_moves [OF quiet_ok] quiet_moves quiet_autosave)

lemma read_moves: "moving_ops R E read_methods may_read reading"
  by unfold_locales
    (auto simp: read_methods_def releases dest: read_args_reading intro: write_gets
      quiet_moves [OF quiet_ok] quiet_moves [OF quiet_read_execute] quiet_moves [OF quiet_SendResponse [OF quiet_echo]])

end

section \<open>Configuration sessions\<close>

abbreviation (input) GLOBAL_NAME :: string where "GLOBAL_NAME \<equiv> ''global-mode''"

text \<open>The name under which a session is asked for is not that of the global configuration.\<close>

definition named :: "TcConfigOperations \<Rightarrow> tc_state \<Rightarrow> bool" where
  "named ob w \<longleftrightarrow> tc_oper ob \<noteq> TC_OP_CONFIG_RELEASE \<longrightarrow> tc_mode ob = TC_CONFIG_VTN \<longrightarrow> cf_vtn_name ob \<noteq> GLOBAL_NAME"

definition well_named :: "TcConfigOperations \<Rightarrow> tc_state \<Rightarrow> bool" where
  "well_named ob w \<longleftrightarrow>
     (if ssess ob then cf_vtn_name ob \<noteq> GLOBAL_NAME \<and> IpcStr GLOBAL_NAME \<notin> set (srv_args (tc_ipc w))
      else named ob w)"

lemma named_phase [simp]:
  "named (ob\<lparr>tc_oper_status := ph\<rparr>) w = named ob w" "well_named (ob\<lparr>tc_oper_status := ph\<rparr>) w = well_named ob w"
  by (simp_all add: named_def well_named_def)

lemma named_state: "named ob w \<Longrightarrow> named ob w1"
  by (simp add: named_def)

lemma srv_get_string_in: "srv_get_string i s = Inr nm \<Longrightarrow> IpcStr nm \<in> set (srv_args s)"
  by (auto simp: srv_get_string_def srv_get_def Let_def in_set_conv_nth not_less le_less
      elim!: pick_str.elims split: if_splits option.splits)

lemma config_args_named:
  assumes "HandleArgs config_args E ob w = Some (r, o1, w1)" and "well_named ob w"
  shows "named o1 w1"
proof (cases "ssess ob")
  case False
  with assms HandleArgs_background [OF assms(1)] show ?thesis by (simp add: well_named_def named_def)
next
  case True
  have type: "cf_vtn_name o2 = cf_vtn_name o0" if "GetOperType o0 u = (q, o2)" for o0 o2 :: TcConfigOperations and u q
    using that by (auto simp: GetOperType_def split: sum.splits)
  have sess: "cf_vtn_name o2 = cf_vtn_name o0" if "GetSessionId o0 u = (q, o2)" for o0 o2 :: TcConfigOperations and u q
    using that by (auto simp: GetSessionId_def split: sum.splits)
  have valid: "srv_args (tc_ipc u1) = srv_args (tc_ipc u)" if "Config_TcValidateOperType E o0 u = (q, u1)" for o0 u q u1
    using that
    by (auto simp: Config_TcValidateOperType_def via_ipc_def set_srv_timeout_def ask_def Let_def
        split: if_splits prod.splits)
  have partial: "cf_vtn_name o2 \<noteq> GLOBAL_NAME"
    if "validate_partial o0 u = (q, o2)" "cf_vtn_name o0 \<noteq> GLOBAL_NAME" "IpcStr GLOBAL_NAME \<notin> set (srv_args (tc_ipc u))"
    for o0 o2 u q
    using that srv_get_string_in [of _ "tc_ipc u"]
    by (auto simp: validate_partial_def Let_def split: sum.splits TcConfigMode.splits if_splits)
  have params: "cf_vtn_name o2 \<noteq> GLOBAL_NAME"
    if "Config_TcValidateOperParams E o0 u = Some (q, o2, u1)" "cf_vtn_name o0 \<noteq> GLOBAL_NAME"
      "IpcStr GLOBAL_NAME \<notin> set (srv_args (tc_ipc u))" for o0 o2 u q u1
    using that
    by (auto simp: Config_TcValidateOperParams_def validate_release_def Let_def dest!: partial
        split: prod.splits TcServiceType.splits sum.splits option.splits)
  from True assms(2) have "cf_vtn_name ob \<noteq> GLOBAL_NAME" "IpcStr GLOBAL_NAME \<notin> set (srv_args (tc_ipc w))"
    by (simp_all add: well_named_def)
  with assms(1) True have "cf_vtn_name o1 \<noteq> GLOBAL_NAME"
    by (auto simp: HandleArgs_def config_args_def Config_TcCheckOperArgCount_def Let_def
        dest!: type sess valid split: if_splits prod.splits dest: params)
  then show ?thesis by (simp add: named_def)
qed

lemma ask_dirty_more: "ask_dirty E channel d sid cid ob i = (a, o1, i1) \<Longrightarrow> TcOperations.more o1 = TcOperations.more ob"
  by (auto simp: ask_dirty_def Let_def split: prod.splits option.splits append_result.splits if_splits)

lemma dirty_loop_more:
  "dirty_loop E ds channel dirty sid cid ob i = (a, o1, i1) \<Longrightarrow> TcOperations.more o1 = TcOperations.more ob"
  by (induction E ds channel dirty sid cid ob i rule: dirty_loop.induct)
    (auto simp: Let_def dest!: ask_dirty_more split: prod.splits option.splits if_splits)

lemma dirty_more: "IsCandidateDirty E sid cid ob w = (d, o1, w1) \<Longrightarrow> TcOperations.more o1 = TcOperations.more ob"
  by (auto simp: IsCandidateDirty_def simp del: dirty_loop.simps dest!: dirty_loop_more split: prod.splits)

lemma dirty_name:
  assumes "ValidateGlobalModeDirty E ob w = Some (r, o1, w1)"
  shows "tc_mode o1 = tc_mode ob \<and> cf_vtn_name o1 = cf_vtn_name ob"
proof -
  have "TcOperations.more o1 = TcOperations.more ob"
    using assms
    by (auto simp: ValidateGlobalModeDirty_def Let_def elim!: bind_SomeE dest!: dirty_more split: if_splits prod.splits)
  then show ?thesis by (cases ob; cases o1) simp
qed

lemma dirty_named:
  assumes "ValidateGlobalModeDirty E ob w = Some (r, o1, w1)"
  shows "tc_lock w1 = tc_lock w \<and> (named o1 u \<longleftrightarrow> named ob v)"
proof -
  have "tc_lock w1 = tc_lock w" "tc_oper o1 = tc_oper ob"
    using quietD [OF quiet_global_dirty assms] by (auto simp: base_key_def)
  with dirty_name [OF assms] show ?thesis by (simp add: named_def)
qed

lemma Config_get_named:
  "Config_TcGetExclusion E ob w = Some (r, o1, w1) \<Longrightarrow> named o1 u = named ob v"
  by (auto simp: Config_TcGetExclusion_def elim!: bind_SomeE dest!: dirty_named [of E ob w _ _ _ u v]
      split: if_splits prod.splits)

context lock_rel
begin

lemma config_get:
  assumes "Config_TcGetExclusion E ob w = Some (r, o1, w1)" and "named ob v"
  shows "R (tc_lock w) (tc_lock w1)"
proof -
  from assms(1) obtain q o2 w2 where dirty: "ValidateGlobalModeDirty E ob w = Some (q, o2, w2)"
    by (auto simp: Config_TcGetExclusion_def elim!: bind_SomeE)
  from dirty_named [OF dirty] assms(2) have o2: "tc_lock w2 = tc_lock w" "named o2 w2" by auto
  then have "tc_oper o2 \<noteq> TC_OP_CONFIG_RELEASE \<Longrightarrow> fair_get TC_ACQUIRE_CONFIG_SESSION (tc_mode o2) (cf_vtn_name o2) (tc_lock w2)"
    by (auto simp: fair_get_def named_def)
  with assms(1) dirty o2(1) show ?thesis
    by (auto simp: Config_TcGetExclusion_def stays elim!: bind_SomeE dest!: take give split: if_splits prod.splits)
qed

lemma config_moves: "moving_ops R E config_methods well_named named"
  by unfold_locales
    (auto simp: config_methods_def releases dest: quietD [OF config_args_quiet] config_args_named config_get
      intro: quiet_moves [OF quiet_config(1)] quiet_moves [OF quiet_config(2)] quiet_moves [OF quiet_config(3)])

end

section \<open>Dispatch\<close>

lemma queue_tc_lock [simp]:
  "tc_lock (InsertConfigRequest sid w) = tc_lock w" "tc_lock (RemoveConfigRequest sid w) = tc_lock w"
  "tc_lock (InsertCandidateRequest sid w) = tc_lock w" "tc_lock (RemoveCandidateRequest sid w) = tc_lock w"
  "tc_lock (HandleConfigRelease w) = tc_lock w" "tc_lock (HandleCandidateRelease w) = tc_lock w"
  by simp_all

context lock_rel
begin

lemma config_wait_moves:
  assumes "waits_move R E" and "config_wait d E ob w = Some (r, o1, w1)" and "named ob v"
  shows "R (tc_lock w) (tc_lock w1)"
  using assms(2,3)
  by (auto simp: config_wait_def Let_def elim!: bind_SomeE dest!: waits_moveD [OF assms(1)] config_get [where v = v]
      intro: trans split: prod.splits if_splits)

lemma config_get_keeps:
  "Config_TcGetExclusion E ob w = Some (r, o1, w1) \<Longrightarrow> named ob v \<Longrightarrow> R (tc_lock w) (tc_lock w1) \<and> named o1 v"
  using config_get Config_get_named [of E ob w r o1 w1 v v] by simp

lemma timed_config_moves:
  assumes "waits_move R E" and "HandleTimedConfigAcquisition E ob w = Some (r, o1, w1)" and "named ob v"
  shows "R (tc_lock w) (tc_lock w1)"
  using assms(2,3)
  by (auto simp: HandleTimedConfigAcquisition_def Let_def stays elim!: bind_SomeE
      dest!: config_wait_moves [OF assms(1), where v = v] config_get_keeps [where v = v] intro: trans split: if_splits)

lemma config_finish_moves: "moves R E config_finish"
  by (rule movesI)
    (auto simp: config_finish_def config_methods_def dest!: quietD [OF quiet_config(3)] intro: same split: if_splits)

lemma config_dispatch:
  assumes "waits_move R E" and "Config_Dispatch E ob w = Some (r, o1, w1)" and "well_named ob w"
  shows "R (tc_lock w) (tc_lock w1)"
proof (rule moving_ops.input [OF config_moves assms(2) [unfolded Config_Dispatch_def] assms(3)])
  fix o2 w2
  assume n: "named o2 w2" and run: "config_exclusion E o2 w2 = Some (r, o1, w1)"
  note tails = movesD [OF moving_ops.tail [OF config_moves config_finish_moves]]
    movesD [OF moving_ops.revoke [OF config_moves]]
  from n run show "R (tc_lock w2) (tc_lock w1)"
    by (auto simp: config_exclusion_def elim!: bind_SomeE
        dest!: timed_config_moves [OF assms(1), where v = w2] config_get_keeps [where v = w2] tails
        intro: trans split: if_splits)
qed

end

section \<open>Commits and aborts\<close>

lemma fresh_config_release [simp]:
  "well_named (TcConfigOperations_new False h channels\<lparr>op_session_id := sid, cf_config_id := cid, tc_oper := TC_OP_CONFIG_RELEASE\<rparr>) w"
  by (simp add: well_named_def named_def TcConfigOperations_new_def TcOperations_new_def TcOperations.defs
      TcConfigOperations.defs)

context lock_rel
begin

lemma candidate_release:
  assumes "waits_move R E"
  shows "moves R E Candidate_TcReleaseExclusion"
proof (rule movesI)
  fix ob w r o1 w1
  have marked: "R (tc_lock u) (tc_lock u1)" if "release_marked E ob u = Some (q, u1)" for u q u1
    using that
    by (auto simp: release_marked_def Let_def elim!: bind_SomeE dest!: config_dispatch [OF assms])
  have tail: "R (tc_lock u) (tc_lock u1)" if "candidate_release_tail E ob u = Some (q, o2, u1)" for u q o2 u1
    using that
    by (auto simp: candidate_release_tail_def stays elim!: bind_SomeE dest!: marked split: if_splits)
  assume "Candidate_TcReleaseExclusion E ob w = Some (r, o1, w1)"
  then show "R (tc_lock w) (tc_lock w1)"
    by (auto simp: Candidate_TcReleaseExclusion_def Let_def dest!: give tail intro: trans split: if_splits prod.splits)
qed

lemma candidate_moves: "waits_move R E \<Longrightarrow> moving_ops R E candidate_methods anytime anytime"
  by unfold_locales
    (auto simp: candidate_methods_def candidate_release dest: quietD [OF candidate_args_quiet] write_gets
      intro: quiet_moves quiet_candidate)

lemma candidate_wait_moves:
  assumes "waits_move R E" and "candidate_wait d E ob w = Some (r, o1, w1)"
  shows "R (tc_lock w) (tc_lock w1)"
  using assms(2)
  by (auto simp: candidate_wait_def Let_def elim!: bind_SomeE dest!: waits_moveD [OF assms(1)] write_gets
      intro: trans split: prod.splits if_splits)

lemma timed_candidate_moves:
  assumes "waits_move R E" and "HandleCandidateTimedRequest E ob w = Some (r, o1, w1)"
  shows "R (tc_lock w) (tc_lock w1)"
  using assms(2)
  by (auto simp: HandleCandidateTimedRequest_def Let_def stays elim!: bind_SomeE
      dest!: candidate_wait_moves [OF assms(1)] write_gets intro: trans split: if_splits)

lemma candidate_dispatch:
  assumes "waits_move R E" and "Candidate_Dispatch E ob w = Some (r, o1, w1)"
  shows "R (tc_lock w) (tc_lock w1)"
proof (rule moving_ops.input [OF candidate_moves [OF assms(1)] assms(2) [unfolded Candidate_Dispatch_def]])
  fix o2 w2
  assume run: "candidate_exclusion E o2 w2 = Some (r, o1, w1)"
  note tails = movesD [OF moving_ops.tail [OF candidate_moves [OF assms(1)] moving_ops.respond [OF candidate_moves [OF assms(1)]]]]
    movesD [OF moving_ops.revoke [OF candidate_moves [OF assms(1)]]]
  from run show "R (tc_lock w2) (tc_lock w1)"
    by (auto simp: candidate_exclusion_def Let_def elim!: bind_SomeE
        dest!: timed_candidate_moves [OF assms(1)] write_gets tails intro: trans split: if_splits)
qed simp

end

section \<open>Audits\<close>

lemma flags_lock [simp]: "tc_lock (reset_flags ob w) = tc_lock w" "tc_lock (reset_secondary ob w) = tc_lock w"
  by (simp_all add: reset_flags_def reset_secondary_def)

context lock_rel
begin

lemma audit_moves:
  shows "moving_ops R E audit_methods anytime anytime"
    and "moving_ops R E (audit_methods\<lparr>op_Execute := audit_execute_phase\<rparr>) anytime anytime"
proof -
  show "moving_ops R E audit_methods anytime anytime"
    by unfold_locales
      (auto simp: audit_methods_def releases dest: quietD [OF audit_input [unfolded audit_methods_def op_methods.simps]] write_gets
        intro: quiet_moves [OF quiet_ok] quiet_moves [OF quiet_audit_execute(1)] quiet_moves [OF quiet_audit_execute(3)])
  then show "moving_ops R E (audit_methods\<lparr>op_Execute := audit_execute_phase\<rparr>) anytime anytime"
    by (simp add: moving_ops_def moving_ops_axioms_def quiet_moves [OF quiet_audit_execute(2)])
qed

lemma wait_round_moves:
  assumes "waits_move R E" and "wait_round E ob w = Some (a, o1, w1)"
  shows "R (tc_lock w) (tc_lock w1)"
proof -
  have primary: "R (tc_lock w) (tc_lock (primary_wait E ob w))"
    using assms(1) by (simp add: primary_wait_def waits_move_def stays)
  have secondary: "secondary_wait E ob u = (b, u1) \<Longrightarrow> R (tc_lock u) (tc_lock u1)" for ob u b u1
    by (auto simp: secondary_wait_def Let_def stays dest!: waits_moveD [OF assms(1)] split: if_splits prod.splits)
  from assms(2) primary show ?thesis
    by (auto simp: wait_round_def Let_def elim!: bind_SomeE dest!: secondary write_gets intro: trans
        split: if_splits prod.splits)
qed

lemma wait_loop_moves:
  assumes "waits_move R E" and "wait_loop E ob w = Some (r, o1, w1)"
  shows "R (tc_lock w) (tc_lock w1)"
proof -
  have "waits_move R E \<longrightarrow> R (tc_lock w) (tc_lock (snd (snd (r, o1, w1))))"
  proof (rule wait_loop.raw_induct [OF _ assms(2)])
    fix f E ob w and y :: "TcOperStatus \<times> TcAuditOperations \<times> tc_state"
    assume IH: "\<And>E ob w y. f E ob w = Some y \<Longrightarrow> waits_move R E \<longrightarrow> R (tc_lock w) (tc_lock (snd (snd y)))"
      and body: "(wait_round E ob w \<bind> (\<lambda>(answer, o1, w1). case answer of Some r \<Rightarrow> Some (r, o1, w1)
        | None \<Rightarrow> f E o1 w1)) = Some y"
    show "waits_move R E \<longrightarrow> R (tc_lock w) (tc_lock (snd (snd y)))"
      using body IH
      by (cases y) (auto elim!: bind_SomeE dest!: wait_round_moves [rotated] split: option.splits, blast intro: trans)
  qed
  with assms(1) show ?thesis by simp
qed

lemma driver_wait_moves:
  "waits_move R E \<Longrightarrow> DriverAuditWait E ob w = Some (r, o1, w1) \<Longrightarrow> R (tc_lock w) (tc_lock w1)"
  by (auto simp: DriverAuditWait_def stays dest: wait_loop_moves split: if_splits)

lemma audit_dispatch:
  assumes "waits_move R E" and "Audit_Dispatch E ob w = Some (r, o1, w1)"
  shows "R (tc_lock w) (tc_lock w1)"
proof (rule moving_ops.input [OF audit_moves(1) assms(2) [unfolded Audit_Dispatch_def]])
  fix o2 w2
  assume run: "audit_exclusion E o2 w2 = Some (r, o1, w1)"
  note tails = movesD [OF moving_ops.tail [OF audit_moves(2) moving_ops.respond [OF audit_moves(1), where st = TC_OPER_SUCCESS]], folded audit_tail_def]
    movesD [OF moving_ops.revoke [OF audit_moves(1)]]
  from run show "R (tc_lock w2) (tc_lock w1)"
    by (auto simp: audit_exclusion_def Let_def elim!: bind_SomeE
        dest!: driver_wait_moves [OF assms(1)] write_gets tails split: if_splits)
      (blast intro: trans)+
qed simp

lemma audit_until_done_moves:
  assumes "waits_move R E" and "audit_until_done E ob w = Some (r, o1, w1)"
  shows "R (tc_lock w) (tc_lock w1)"
proof -
  have "waits_move R E \<longrightarrow> R (tc_lock w) (tc_lock (snd (snd (r, o1, w1))))"
  proof (rule audit_until_done.raw_induct [OF _ assms(2)])
    fix f E ob w and y :: "TcOperStatus \<times> TcAuditOperations \<times> tc_state"
    assume IH: "\<And>E ob w y. f E ob w = Some y \<Longrightarrow> waits_move R E \<longrightarrow> R (tc_lock w) (tc_lock (snd (snd y)))"
      and body: "(Audit_Dispatch E ob w \<bind> (\<lambda>(r, o1, w1). if r = TC_OPER_AUDIT_CANCELLED then f E o1 w1
        else Some (r, o1, w1))) = Some y"
    show "waits_move R E \<longrightarrow> R (tc_lock w) (tc_lock (snd (snd y)))"
      using body IH
      by (cases y) (auto elim!: bind_SomeE dest!: audit_dispatch [rotated] split: if_splits, blast intro: trans)
  qed
  with assms(1) show ?thesis by simp
qed

end

section \<open>Requests, sessions and timers\<close>

lemma new_db_frame: "new_db E md w = (h, w1) \<Longrightarrow> tc_lock w1 = tc_lock w \<and> srv_args (tc_ipc w1) = srv_args (tc_ipc w)"
  by (auto simp: new_db_def via_ipc_def TcDbHandler_new_def OpenDBConnection_def SetConnectionEnv_def sql_def ask_def Let_def
      split: prod.splits if_splits)

lemma fresh_config_request:
  "IpcStr GLOBAL_NAME \<notin> set (srv_args (tc_ipc w)) \<Longrightarrow> well_named (TcConfigOperations_new True h channels) w"
  by (simp add: well_named_def TcConfigOperations_new_def TcOperations_new_def TcOperations.defs
      TcConfigOperations.defs)

lemma session_release [simp]:
  "well_named (TcConfigOperations_new False h channels
     \<lparr>op_session_id := sid, cf_config_id := cid, tc_mode := mode, cf_vtn_name := nm, tc_oper := TC_OP_CONFIG_RELEASE\<rparr>) w"
  by (simp add: well_named_def named_def TcConfigOperations_new_def TcOperations_new_def TcOperations.defs
      TcConfigOperations.defs)

lemma delete_locks [simp]:
  "tc_lock (TcCandidateOperations_delete E oc w) = tc_lock w" "tc_lock (TcAuditOperations_delete E ou w) = tc_lock w"
  by (simp_all add: TcCandidateOperations_delete_def TcAuditOperations_delete_def split: option.split)

context lock_rel
begin

lemma db_dispatch:
  assumes "Db_Dispatch E ob w = Some (r, o1, w1)"
  shows "R (tc_lock w) (tc_lock w1)"
proof (rule moving_ops.input [OF db_moves assms [unfolded Db_Dispatch_def]])
  fix o2 w2
  assume run: "db_exclusion E o2 w2 = Some (r, o1, w1)"
  note respond = moving_ops.respond [OF db_moves]
  note steps = movesD [OF respond] movesD [OF moving_ops.revoke [OF db_moves]]
    moving_ops.exclude [OF db_moves _ TrueI moving_ops.tail [OF db_moves respond]]
  from run show "R (tc_lock w2) (tc_lock w1)"
    by (auto simp: db_exclusion_def elim!: bind_SomeE dest!: read_autosave_lock steps intro: same split: if_splits)
qed simp

lemma served:
  assumes "serve del dispatch E ob w = Some (r, w1)" and "\<And>o1 u. tc_lock (del E o1 u) = tc_lock u"
    and "\<And>q o1 u. dispatch E ob w = Some (q, o1, u) \<Longrightarrow> R (tc_lock w) (tc_lock u)"
  shows "R (tc_lock w) (tc_lock w1)"
  using assms(1) by (auto simp: serve_def assms(2) elim!: bind_SomeE dest: assms(3))

lemma request_moves:
  assumes "waits_move R E" and "ipcService addr service E md w = Some (r, w1)"
    and "service = 3 \<Longrightarrow> reader_room (rwlock (tc_lock w))" and "IpcStr GLOBAL_NAME \<notin> set (srv_args (tc_ipc w))"
  shows "R (tc_lock w) (tc_lock w1)"
proof -
  obtain h u where db: "new_db E md w = (h, u)" by fastforce
  from new_db_frame [OF db] assms(4) have u: "tc_lock u = tc_lock w" "IpcStr GLOBAL_NAME \<notin> set (srv_args (tc_ipc u))"
    by simp_all
  have timeout: "via_ipc f u = (q, v) \<Longrightarrow> tc_lock v = tc_lock w" for f :: "ipc_state \<Rightarrow> ipc_reply \<times> ipc_state" and q v
    by (drule via_ipc_lock) (simp add: u)
  note run = config_dispatch [OF assms(1) _ fresh_config_request] db_dispatch candidate_dispatch [OF assms(1)]
    audit_dispatch [OF assms(1)] moving_ops.dispatch [OF autosave_moves]
    moving_ops.dispatch [OF status_moves] moving_ops.dispatch [OF read_moves]
  have "HandleConfigRequests E md w = Some (r, w1) \<Longrightarrow> R (tc_lock w) (tc_lock w1)"
    unfolding HandleConfigRequests_def db Let_def prod.case u(1) [symmetric]
    by (erule served) (simp_all add: run(1) u(2))
  moreover have "HandleStartUpRequests E md w = Some (r, w1) \<Longrightarrow> R (tc_lock w) (tc_lock w1)"
    unfolding HandleStartUpRequests_def db Let_def prod.case u(1) [symmetric]
    by (erule served) (simp_all add: run(2))
  moreover have "HandleCandidateRequests E md w = Some (r, w1) \<Longrightarrow> R (tc_lock w) (tc_lock w1)"
    unfolding HandleCandidateRequests_def db Let_def prod.case u(1) [symmetric]
    by (erule served) (simp_all add: run(3))
  moreover have "HandleAuditRequests addr E md w = Some (r, w1) \<Longrightarrow> R (tc_lock w) (tc_lock w1)"
    unfolding HandleAuditRequests_def db Let_def prod.case u(1) [symmetric]
    by (erule served) (simp_all add: run(4))
  moreover have "HandleAutoSaveRequests E md w = Some (r, w1) \<Longrightarrow> R (tc_lock w) (tc_lock w1)"
    by (auto simp: HandleAutoSaveRequests_def db Let_def timeout dest!: served split: prod.splits dest: run(5))
  moreover have "HandleReadStatusRequests E md w = Some (r, w1) \<Longrightarrow> R (tc_lock w) (tc_lock w1)"
    unfolding HandleReadStatusRequests_def by (erule served) (simp_all add: run(6))
  moreover have "service = 3 \<Longrightarrow> HandleReadRequests E md w = Some (r, w1) \<Longrightarrow> R (tc_lock w) (tc_lock w1)"
    unfolding HandleReadRequests_def by (erule served) (use assms(3) in \<open>simp_all add: run(7) may_read_def\<close>)
  ultimately show ?thesis
    using assms(2) by (auto simp: ipcService_def stays split: if_splits)
qed

end

lemma fresh_read_release [simp]:
  "may_read (TcReadOperations_new False h channels q\<lparr>op_session_id := sid, tc_oper := TC_OP_READ_RELEASE\<rparr>) w"
  by (simp add: may_read_def TcReadOperations_new_def TcOperations_new_def TcOperations.defs TcReadOperations.defs)

context lock_rel
begin

lemma release_config_moves:
  assumes "waits_move R E" and "release_config sid cid mode vtn E md w = Some (r, w1)"
  shows "R (tc_lock w) (tc_lock w1)"
proof -
  obtain h u where db: "new_db E md w = (h, u)" by fastforce
  have u: "tc_lock u = tc_lock w" using new_db_frame [OF db] by simp
  show ?thesis
    using assms(2) unfolding release_config_def db Let_def prod.case u [symmetric]
    by (elim served) (simp_all add: config_dispatch [OF assms(1)])
qed

lemma release_session_moves:
  assumes "waits_move R E" and "TcReleaseSession sid E md w = Some (r, w1)"
  shows "R (tc_lock w) (tc_lock w1)"
proof -
  have marked: "via_lock (TcMarkSessionId sid) w = (q, v) \<Longrightarrow> R (tc_lock w) (tc_lock v)" for q v
    using mark [of "tc_lock w" sid] by (auto simp: via_lock_def split: prod.splits)
  have config: "ReleaseConfigSession sid E md w = Some (q, v) \<Longrightarrow> R (tc_lock w) (tc_lock v)" for q v
    by (auto simp: ReleaseConfigSession_def stays dest!: release_config_moves [OF assms(1)] split: prod.splits if_splits)
  have read: "R (tc_lock w) (tc_lock v)"
    if "serve TcOperations_delete (Dispatch read_methods) E
      (TcReadOperations_new False None (tc_channels md) True\<lparr>op_session_id := sid, tc_oper := TC_OP_READ_RELEASE\<rparr>) w
      = Some (q, v)" for q v
    using that by (rule served) (simp_all add: moving_ops.dispatch [OF read_moves])
  from assms(2) show ?thesis
    by (auto simp: TcReleaseSession_def Let_def stays elim!: bind_SomeE dest!: marked config read
        split: if_splits TcSessionOperationProgress.splits prod.splits)
qed

lemma read_timeout_moves: "HandleReadTimeout E sid channels w = Some w1 \<Longrightarrow> R (tc_lock w) (tc_lock w1)"
  by (auto simp: HandleReadTimeout_def Let_def dest!: moving_ops.dispatch [OF read_moves])

lemma driver_audit_moves:
  "waits_move R E \<Longrightarrow> HandleDriverAudit E addr ctr h channels drv w = Some w1 \<Longrightarrow> R (tc_lock w) (tc_lock w1)"
  by (auto simp: HandleDriverAudit_def Let_def PushToWaitQueue_def PopWaitQueue_def elim!: bind_SomeE
      dest!: audit_until_done_moves)

end

end
