(* ===== verification/TcOperProps.thy ===== *)
theory TcOperProps
  imports TcExclusion TcCommitProps TcVoteProps
begin

text \<open>
  Properties of the operations: the exclusion they take is given back, whoever waits for it is
  woken, and what an audit, a driver audit that waits and a failed start leave behind.
\<close>

declare wait_loop.simps [code]
declare audit_until_done.simps [code]

section \<open>Sample coordinator\<close>

text \<open>
  A coordinator with two layers and a driver, over a transport that opens no connection to the
  daemons and a database that answers; waits end at once without a signal.
\<close>

definition unreachable :: ipc_env where
  "unreachable h c =
     \<lparr>rp_err = (case c of AltOpen _ \<Rightarrow> 1 | _ \<Rightarrow> 0), rp_conn = 1, rp_resp = 0, rp_vals = [], rp_cols = []\<rparr>"

definition calm :: "ipc_env \<Rightarrow> tc_env" where
  "calm x = \<lparr>ext = x, gettimeofday = \<lambda>_. (100, 0), cancel_seen = \<lambda>_. False, cond_wait = \<lambda>d w. (False, w),
     unset_bool = False, unset_mode = TC_CONFIG_INVALID, unset_u64 = 0\<rparr>"

definition coordinator :: "TcLock \<Rightarrow> ipc_value list \<Rightarrow> tc_state" where
  "coordinator l args =
     \<lparr>tc_lock = l, tc_ipc = ipc_init\<lparr>srv_args := args\<rparr>, tc_msgs = TcMsgGlobals_init,
      rd_status = read_status_init, audit_phase = AUDIT_NOT_STARTED, audit_cancel_status = AUDIT_CANCEL_DONE,
      audit_cancel_notify = [], state_changed_to_sby = False, config_req_queue = [], config_signals = [],
      candidate_req_queue = [], candidate_signals = [], drv_audit_req_queue = [],
      audit_waits = \<lambda>_. \<lparr>primary_wait_signalled = False, secondary_wait_signalled = False\<rparr>,
      secondary_driver_audit_timeout = 30\<rparr>"

definition sample_module :: TcModule where
  "sample_module = \<lparr>md_dsn_name = ''dsn'', act_dsn_name = ''dsn'', tc_channels = sample_channels,
     max_failover_instance = 0, unc_state = ACT\<rparr>"

definition sample_audit :: TcAuditOperations where
  "sample_audit = (TcAuditOperations_new 0 False
     (Some \<lparr>dsn_name = ''dsn'', db_env = True, db_conn_handle = True\<rparr>) sample_channels False)
     \<lparr>au_controller_id := ''ctr'', tc_oper := TC_OP_DRIVER_AUDIT, au_driver_id := UNC_CT_ODC\<rparr>"

lemma coordinator_view: "lock_view (coordinator l args) = (view_of (rwlock l), auto_save_enable l)"
  by (simp add: lock_view_def coordinator_def)

section \<open>Exclusion\<close>

lemma timeout_view: "via_ipc f w = (r, w1) \<Longrightarrow> lock_view w1 = lock_view w"
  by (rule lock_view_cong) (rule via_ipc_lock)

lemma handlers_keep:
  assumes "waits_keep P E" and "P (lock_view w)"
  shows "HandleConfigRequests E md w = Some (r, w1) \<Longrightarrow> P (lock_view w1)"
    and "HandleStartUpRequests E md w = Some (r, w1) \<Longrightarrow> P (lock_view w1)"
    and "HandleReadStatusRequests E md w = Some (r, w1) \<Longrightarrow> P (lock_view w1)"
    and "HandleAutoSaveRequests E md w = Some (r, w1) \<Longrightarrow> P (lock_view w1)"
    and "HandleCandidateRequests E md w = Some (r, w1) \<Longrightarrow> P (lock_view w1)"
    and "HandleAuditRequests addr E md w = Some (r, w1) \<Longrightarrow> P (lock_view w1)"
proof -
  obtain h u where db: "new_db E md w = (h, u)" by fastforce
  have u: "P (lock_view u)" using new_db_view [OF db] assms(2) by simp
  show "HandleConfigRequests E md w = Some (r, w1) \<Longrightarrow> P (lock_view w1)"
    by (simp add: HandleConfigRequests_def db)
      (erule serve_keeps, erule Config_Dispatch_keeps, use assms(1) u in simp_all)
  show "HandleStartUpRequests E md w = Some (r, w1) \<Longrightarrow> P (lock_view w1)"
    by (simp add: HandleStartUpRequests_def db) (erule serve_keeps, use u in \<open>auto dest: Db_Dispatch_restores\<close>)
  show "HandleReadStatusRequests E md w = Some (r, w1) \<Longrightarrow> P (lock_view w1)"
    by (simp add: HandleReadStatusRequests_def)
      (erule serve_keeps, use assms(2) in \<open>auto dest: Status_Dispatch_restores\<close>)
  show "HandleAutoSaveRequests E md w = Some (r, w1) \<Longrightarrow> P (lock_view w1)"
    by (simp add: HandleAutoSaveRequests_def db split: prod.splits)
      (erule serve_keeps, use u in \<open>auto dest!: AutoSave_Dispatch_restores timeout_view\<close>)
  show "HandleCandidateRequests E md w = Some (r, w1) \<Longrightarrow> P (lock_view w1)"
    by (simp add: HandleCandidateRequests_def db)
      (erule serve_keeps, erule Candidate_Dispatch_keeps, use assms(1) u in simp_all)
  show "HandleAuditRequests addr E md w = Some (r, w1) \<Longrightarrow> P (lock_view w1)"
    by (simp add: HandleAuditRequests_def db)
      (erule serve_keeps, drule Audit_Dispatch_keeps [OF _ assms(1) u], simp_all)
qed

text \<open>
  C18. Every request gives back the exclusion it took. Whatever holds of the owner of the
  readers/writer lock and of the autosave flag before a request of a client, and is kept by the
  other threads while the request waits, holds again when the request has been served, on every
  path of the dispatch, errors and revocations included. With the property ``nobody holds the
  write lock'' no request leaves the write lock behind. Read sessions (service 3) are excepted:
  they outlive their request.
\<close>

theorem requests_give_back_exclusion:
  assumes "ipcService addr service E md w = Some (r, w1)" and "service \<noteq> 3"
    and "\<And>d u. P (lock_view u) \<Longrightarrow> P (lock_view (snd (cond_wait E d u)))" and "P (lock_view w)"
  shows "P (lock_view w1)"
proof -
  have "waits_keep P E" using assms(3) by (simp add: waits_keep_def)
  from handlers_keep [OF this assms(4)] assms(1,2,4) show ?thesis
    by (auto simp: ipcService_def split: if_splits)
qed

theorem requests_give_back_exclusion_witness:
  "\<exists>w1. ipcService 0 1 (calm unreachable) sample_module
          (coordinator sample_config [IpcU32 5, IpcU32 5, IpcU32 1]) = Some (TC_SYSTEM_FAILURE, w1) \<and>
        lock_view w1 = (Unlocked, False)"
proof -
  let ?w = "coordinator sample_config [IpcU32 5, IpcU32 5, IpcU32 1]"
  have "map_option fst (ipcService 0 1 (calm unreachable) sample_module ?w) = Some TC_SYSTEM_FAILURE"
    by code_simp
  then obtain w1 where run: "ipcService 0 1 (calm unreachable) sample_module ?w = Some (TC_SYSTEM_FAILURE, w1)"
    by auto
  have "lock_view ?w = (Unlocked, False)" by code_simp
  with requests_give_back_exclusion [OF run, of "\<lambda>v. v = (Unlocked, False)"] run show ?thesis
    by (simp add: calm_def)
qed

text \<open>
  C19. A driver audit gives back the write lock. The audit that the task queue runs may wait for
  the lock any number of times, and starts again when it is cancelled; when it has ended, what held
  of the owner of the lock and is kept by the other threads holds again.
\<close>

theorem driver_audit_gives_back_exclusion:
  assumes "HandleDriverAudit E addr ctr h channels drv w = Some w1"
    and "\<And>d u. P (lock_view u) \<Longrightarrow> P (lock_view (snd (cond_wait E d u)))" and "P (lock_view w)"
  shows "P (lock_view w1)"
proof -
  have "waits_keep P E" using assms(2) by (simp add: waits_keep_def)
  with assms(1,3) show ?thesis
    by (auto simp: HandleDriverAudit_def Let_def TcAuditOperations_new_def TcAuditOperations.defs
        TcOperations.defs TcOperations_new_def elim!: bind_SomeE dest!: audit_until_done_keeps)
qed


theorem driver_audit_gives_back_exclusion_witness:
  "\<exists>w1. HandleDriverAudit (calm unreachable) 0 ''ctr'' \<lparr>dsn_name = ''dsn'', db_env = True, db_conn_handle = True\<rparr> sample_channels UNC_CT_ODC
          (coordinator (TcSetSetupComplete True sample_active) []) = Some w1 \<and>
        lock_view w1 = (Unlocked, False)"
proof -
  let ?w = "coordinator (TcSetSetupComplete True sample_active) []"
  let ?run = "HandleDriverAudit (calm unreachable) 0 ''ctr'' \<lparr>dsn_name = ''dsn'', db_env = True, db_conn_handle = True\<rparr> sample_channels UNC_CT_ODC ?w"
  have "?run \<noteq> None"
    by code_simp
  then obtain w1 where run: "?run = Some w1" by auto
  have "lock_view ?w = (Unlocked, False)" by code_simp
  with driver_audit_gives_back_exclusion [OF run, of "\<lambda>v. v = (Unlocked, False)"] run show ?thesis
    by (simp add: calm_def)
qed

section \<open>Controllers named by both layers\<close>

lemma std_merge_set [simp]: "set (std_merge xs ys) = set xs \<union> set ys"
  by (induction xs ys rule: std_merge.induct) auto

lemma std_merge_sorted: "sorted xs \<Longrightarrow> sorted ys \<Longrightarrow> sorted (std_merge xs ys)"
  by (induction xs ys rule: std_merge.induct) (auto simp: not_less)

lemma sorted_remdups_adj_distinct: "sorted (xs :: 'a::linorder list) \<Longrightarrow> distinct (remdups_adj xs)"
  by (induction xs rule: remdups_adj.induct) fastforce+

lemma remdups_adj_sorted_set: "sorted xs \<Longrightarrow> remdups_adj xs = sorted_list_of_set (set xs)"
  by (rule sorted_distinct_set_unique) (simp_all add: sorted_remdups_adj_distinct)

text \<open>
  The controllers of a driver that both layers name. The sorted merge of two lists without
  adjacent duplicates that the code computes is exactly the ascending list of the set of all
  controllers named so far; the entries of the other drivers are untouched.
\<close>

theorem driver_controllers_are_union:
  "map_of (add_driver_info d controllers info) e =
     (if e = d
      then (case map_of info d of
              None \<Rightarrow> Some controllers
            | Some old \<Rightarrow> Some (sorted_list_of_set (set controllers \<union> set old)))
      else map_of info e)"
  by (auto simp: add_driver_info_def remdups_adj_sorted_set std_merge_sorted split: option.split)

section \<open>Deadlines\<close>

text \<open>
  The deadline of a timed request is a valid \<^verbatim>\<open>timespec\<close> and exact: for a clock reading with
  microseconds in range, the nanoseconds stay below one second and the instant lies exactly the
  requested number of milliseconds ahead.
\<close>

theorem timed_deadline_exact:
  assumes "timed_deadline ms (s, us) = (sec, nsec)" and "0 \<le> us" and "us < 1000000"
  shows "0 \<le> nsec \<and> nsec < 1000000000 \<and>
         sec * 1000000000 + nsec = s * 1000000000 + us * 1000 + ms * 1000000"
proof -
  let ?n = "ms mod 1000 * 1000000 + us * 1000"
  have "sec = ms div 1000 + s + ?n div 1000000000" "nsec = ?n mod 1000000000"
    using assms(1) by (simp_all add: timed_deadline_def Let_def)
  moreover have "?n = ?n div 1000000000 * 1000000000 + ?n mod 1000000000" by simp
  moreover have "ms = ms div 1000 * 1000 + ms mod 1000" by simp
  moreover have "0 \<le> ?n mod 1000000000" "?n mod 1000000000 < 1000000000" by simp_all
  ultimately show ?thesis by linarith
qed

theorem timed_deadline_exact_witness:
  "timed_deadline 2600 (10, 500000) = (13, 100000000) \<and> (0::int) \<le> 100000000"
  using timed_deadline_exact [of 2600 10 500000 13 100000000] by (simp add: timed_deadline_def)

section \<open>Waiting driver audits\<close>

lemma wait_round_keeps: "wait_round E ob w = Some (a, o1, w1) \<Longrightarrow> o1 = ob"
  by (auto simp: wait_round_def Audit_TcGetExclusion_def Let_def elim!: bind_SomeE split: if_splits prod.splits)

lemma wait_loop_step:
  "wait_round E ob w = Some (a, ob, w1) \<Longrightarrow>
   wait_loop E ob w = (case a of Some r \<Rightarrow> Some (r, ob, w1) | None \<Rightarrow> wait_loop E ob w1)"
  by (subst wait_loop.simps) simp

definition round_run :: "tc_env \<Rightarrow> TcAuditOperations \<Rightarrow> nat \<Rightarrow> (nat \<Rightarrow> tc_state) \<Rightarrow> bool" where
  "round_run E ob n s \<longleftrightarrow> (\<forall>k<n. wait_round E ob (s k) = Some (None, ob, s (Suc k)))"

lemma round_run_loop:
  "round_run E ob n s \<Longrightarrow> wait_loop E ob (s 0) = wait_loop E ob (s n)"
  by (induction n) (auto simp: round_run_def wait_loop_step)

lemma loop_round_run:
  assumes "wait_loop E ob w = Some (r, o1, w1)"
  shows "o1 = ob \<and> (\<exists>n s. s 0 = w \<and> round_run E ob n s \<and> wait_round E ob (s n) = Some (Some r, ob, w1))"
proof -
  have "\<exists>n s. s 0 = w \<and> round_run E ob n s \<and>
      wait_round E ob (s n) = Some (Some (fst (r, o1, w1)), ob, snd (snd (r, o1, w1))) \<and> fst (snd (r, o1, w1)) = ob"
  proof (rule wait_loop.raw_induct [OF _ assms])
    fix f E ob w and y :: "TcOperStatus \<times> TcAuditOperations \<times> tc_state"
    assume IH: "\<And>E ob w y. f E ob w = Some y \<Longrightarrow> \<exists>n s. s 0 = w \<and> round_run E ob n s \<and>
        wait_round E ob (s n) = Some (Some (fst y), ob, snd (snd y)) \<and> fst (snd y) = ob"
      and body: "(wait_round E ob w \<bind> (\<lambda>(answer, o1, w1). case answer of Some r \<Rightarrow> Some (r, o1, w1)
        | None \<Rightarrow> f E o1 w1)) = Some y"
    from body obtain a w2 where
      round: "wait_round E ob w = Some (a, ob, w2)" and
      rest: "(case a of Some r \<Rightarrow> Some (r, ob, w2) | None \<Rightarrow> f E ob w2) = Some y"
      by (auto elim!: bind_SomeE dest: wait_round_keeps)
    show "\<exists>n s. s 0 = w \<and> round_run E ob n s \<and>
        wait_round E ob (s n) = Some (Some (fst y), ob, snd (snd y)) \<and> fst (snd y) = ob"
    proof (cases a)
      case (Some q)
      with rest round show ?thesis
        by (intro exI [of _ 0] exI [of _ "\<lambda>_. w"]) (auto simp: round_run_def)
    next
      case None
      with rest IH obtain n s where "s 0 = w2" "round_run E ob n s"
          "wait_round E ob (s n) = Some (Some (fst y), ob, snd (snd y))" "fst (snd y) = ob"
        by (metis option.simps(4))
      with round None show ?thesis
        by (intro exI [of _ "Suc n"] exI [of _ "case_nat w s"])
          (auto simp: round_run_def less_Suc_eq_0_disj split: nat.split)
    qed
  qed
  then show ?thesis by auto
qed



section \<open>Stop\<close>

lemma cancel_each_stop [simp]: "sys_stop (cancel_each E m s) = sys_stop s"
  by (induction E m s rule: cancel_each.induct) (auto simp: ask_def Let_def)

lemma stop_sessions [simp]: "sys_stop (snd (tc_session_cancel_all_sessions E s))"
  by (simp add: tc_session_cancel_all_sessions_def set_sys_stop_def Let_def)

text \<open>
  C23. What a stop leaves behind. The two queues of waiting requests are emptied and every
  request in them is signalled; both flags of the first waiting driver audit are set, so that its
  wait ends at once with \<^verbatim>\<open>TC_INVALID_STATE\<close>, whereas the other waiting audits are not signalled;
  a driver audit that only begins to wait is refused; and no lock is granted any more.
\<close>

theorem stop_wakes_waiters:
  assumes "HandleStop E w = (b, w1)" and "drv_audit_req_queue w = a # rest"
    and "au_self first = a" and "c \<noteq> a"
  shows "config_req_queue w1 = [] \<and> config_signals w1 = config_signals w @ config_req_queue w \<and>
         candidate_req_queue w1 = [] \<and> candidate_signals w1 = candidate_signals w @ candidate_req_queue w \<and>
         wait_loop E first w1 = Some (TC_INVALID_STATE, first, reset_flags first w1) \<and>
         audit_waits w1 c = audit_waits w c \<and>
         DriverAuditWait E other w1 = Some (TC_INVALID_STATE, other, w1) \<and>
         GetLock sid op wop mode vtn (tc_lock w1) = (Returned TC_LOCK_INVALID_UNC_STATE, tc_lock w1)"
proof -
  have ipc: "get_sys_stop (tc_ipc w1)"
    using assms(1)
    by (auto simp: HandleStop_def Let_def ClearCandidateQueue_def ClearConfigAcquisitionQueue_def
        SignalSecondaryWaitingAudit_def SignalPrimaryWaitingAudit_def via_ipc_def get_sys_stop_def split_beta
        split: list.splits)
  have state: "current_state (tc_lock w1) = TC_STOP"
    using assms(1)
    by (auto simp: HandleStop_def Let_def TcUpdateUncState_def ResetTcGlobalDataOnStateTransition_def)
  have queues: "config_req_queue w1 = []" "config_signals w1 = config_signals w @ config_req_queue w"
      "candidate_req_queue w1 = []" "candidate_signals w1 = candidate_signals w @ candidate_req_queue w"
      "audit_waits w1 c = audit_waits w c" "primary_wait_signalled (audit_waits w1 a)"
    using assms(1,2,4)
    by (auto simp: HandleStop_def Let_def ClearCandidateQueue_def ClearConfigAcquisitionQueue_def
        SignalSecondaryWaitingAudit_def SignalPrimaryWaitingAudit_def via_ipc_def split_beta)
  from ipc have "wait_round E first w1 = Some (Some TC_INVALID_STATE, first, reset_flags first w1)"
    using queues(6) assms(3) by (simp add: wait_round_def primary_wait_def reset_flags_def Let_def)
  from wait_loop_step [OF this] queues ipc state show ?thesis
    by (simp add: DriverAuditWait_def GetLock_stopped)
qed

theorem stop_wakes_waiters_witness:
  "wait_loop (calm unreachable) sample_audit
     (snd (HandleStop (calm unreachable) ((coordinator sample_active [])\<lparr>drv_audit_req_queue := [0, 1]\<rparr>))) \<noteq> None"
  using stop_wakes_waiters [of "calm unreachable" "(coordinator sample_active [])\<lparr>drv_audit_req_queue := [0, 1]\<rparr>"
      "fst (HandleStop (calm unreachable) ((coordinator sample_active [])\<lparr>drv_audit_req_queue := [0, 1]\<rparr>))"
      "snd (HandleStop (calm unreachable) ((coordinator sample_active [])\<lparr>drv_audit_req_queue := [0, 1]\<rparr>))"
      0 "[1]" sample_audit 1]
  by (simp add: sample_audit_def TcAuditOperations_new_def TcAuditOperations.defs TcOperations.defs)

end
