(* ===== verification/TcReplyProps.thy ===== *)
theory TcReplyProps
  imports TcOperProps
begin

text \<open>
  Properties of what clients are told: the form of a response, the read status, and what a commit
  and an audit leave in it.
\<close>

section \<open>Responses\<close>

lemma srv_add_output_out:
  "srv_add_output E v i = (r, i1) \<Longrightarrow> r = TCUTIL_RET_SUCCESS \<Longrightarrow> srv_out i1 = srv_out i @ [v]"
  by (auto simp: srv_add_output_def ask_def Let_def split: if_splits)

lemma arg_status_success: "arg_status r = TC_OPER_SUCCESS \<longleftrightarrow> r = TCUTIL_RET_SUCCESS"
  by (cases r) simp_all

lemma put_u32_success:
  "put_u32 E x w = (TC_OPER_SUCCESS, w1) \<Longrightarrow> srv_out (tc_ipc w1) = srv_out (tc_ipc w) @ [IpcU32 x]"
  by (auto simp: put_u32_def via_ipc_def srv_set_uint32_def arg_status_success dest!: srv_add_output_out
      split: prod.splits)

lemma service_num_byte: "s \<in> set service_list \<Longrightarrow> ucast (ucast (service_num s) :: u8) = service_num s"
  by (cases s) (simp_all add: service_list_def)


definition sample_request :: TcOperations where
  "sample_request = (TcOperations_new True None Map.empty)\<lparr>op_session_id := 7, tc_oper := to_service 300\<rparr>"


text \<open>
  The read status as a client sees it: over a transport that accepts the response, a request
  for the status of the running (13) or startup (14) configuration with a session answers with
  success and carries the state of that database and its counter, and nothing else.
\<close>

theorem read_status_reported:
  assumes "\<And>h v. err8 (ext E h (SrvOutput v)) = 0"
    and "srv_args (tc_ipc w) = [IpcU32 n, IpcU32 sid]" and "sid \<noteq> 0" and "n = 13 \<or> n = 14"
  shows "\<exists>w1. HandleReadStatusRequests E md w = Some (TC_OPER_SUCCESS, w1) \<and> tc_lock w1 = tc_lock w \<and>
    srv_out (tc_ipc w1) = srv_out (tc_ipc w) @ [IpcU32 n, IpcU32 sid, IpcU32 (status_num TC_OPER_SUCCESS)] @
      (if n = 13
       then [IpcU8 (read_status_num (runningDB_status (rd_status w))), IpcU64 (commit_number (rd_status w))]
       else [IpcU8 (read_status_num (startupDB_status (rd_status w))), IpcU64 (save_number (rd_status w))])"
proof -
  have args: "srv_get_uint32 0 (tc_ipc w) = Inr n" "srv_get_uint32 1 (tc_ipc w) = Inr sid"
    using assms(2) by (simp_all add: srv_get_uint32_def srv_get_def)
  have oper: "to_service 13 = TC_OP_READ_RUNNING_STATUS" "to_service 14 = TC_OP_READ_STARTUP_STATUS"
    by (simp_all add: to_service_def service_list_def)
  from assms(4) show ?thesis
    by (elim disjE)
      (simp_all add: HandleReadStatusRequests_def serve_def Dispatch_def run_phase_def dispatch_tail_def
        status_methods_def HandleArgs_def status_args_def TcOperations_new_def GetOperType_def GetSessionId_def
        ok_def Status_TcValidateOperType_def Status_TcCheckOperArgCount_def SendResponse_def SetOperType_def
        SetSessionId_def SetOperStatus_def put_u32_def via_ipc_def srv_set_uint32_def srv_add_output_def
        ask_def Status_SendAdditionalResponse_def put_status_def srv_set_uint8_def srv_set_uint64_def
        GetRunningStatus_def GetStartupStatus_def TcOperations_delete_def Let_def args assms oper)
qed

theorem read_status_reported_witness:
  "\<exists>w1. HandleReadStatusRequests (calm unreachable) sample_module
          (coordinator sample_active [IpcU32 13, IpcU32 7]) = Some (TC_OPER_SUCCESS, w1) \<and>
        srv_out (tc_ipc w1) = [IpcU32 13, IpcU32 7, IpcU32 (status_num TC_OPER_SUCCESS), IpcU8 0, IpcU64 1]"
proof -
  let ?w = "coordinator sample_active [IpcU32 13, IpcU32 7]"
  have "err8 (ext (calm unreachable) h (SrvOutput v)) = 0" for h v
    by (simp add: calm_def unreachable_def err8_def)
  moreover have "srv_args (tc_ipc ?w) = [IpcU32 13, IpcU32 7]" "srv_out (tc_ipc ?w) = []"
      "read_status_num (runningDB_status (rd_status ?w)) = 0" "commit_number (rd_status ?w) = 1"
    by code_simp+
  ultimately show ?thesis
    using read_status_reported [of "calm unreachable" ?w 13 7 sample_module] by auto
qed

section \<open>What a commit leaves in the read status\<close>

text \<open>The result codes of the messages of a transaction.\<close>

definition plain_ret :: "TcOperRet \<Rightarrow> bool" where
  "plain_ret r \<longleftrightarrow> r \<in> {TCOPER_RET_SUCCESS, TCOPER_RET_FAILURE, TCOPER_RET_FATAL, TCOPER_RET_ABORT}"

lemma plain_ret_simps [simp]:
  "plain_ret TCOPER_RET_SUCCESS" "plain_ret TCOPER_RET_FAILURE" "plain_ret TCOPER_RET_FATAL"
  "plain_ret TCOPER_RET_ABORT" "plain_ret (ReturnUtilResp u)"
  by (simp_all add: plain_ret_def) (cases u, simp_all)

lemma plain_HandleMsgRet: "plain_ret r \<Longrightarrow> HandleMsgRet r = TC_OPER_SUCCESS \<longleftrightarrow> r = TCOPER_RET_SUCCESS"
  by (cases r) (simp_all add: plain_ret_def)

lemma request_plain: "request E ch svc b items s = (Failed p c r, s1) \<Longrightarrow> plain_ret r"
  by (auto simp: request_def Let_def split: prod.splits option.splits append_result.splits if_splits TcUtilRet.splits)

lemma transaction_plain:
  "CommitTransaction_Execute E m s = (r, m1, s1) \<Longrightarrow> plain_ret r"
proof -
  have undo: "plain_ret (fst (undo_start E m s))" for m s
    by (auto simp: undo_start_def Let_def split: prod.splits)
  have send: "plain_ret r" if "CommitTransaction_SendRequest E ch m s = (r, m1, s1)" for ch m s r m1 s1
    using that undo
    by (auto simp: CommitTransaction_SendRequest_def Let_def dest!: request_plain
        split: prod.splits request_result.splits if_splits) (metis fst_conv)+
  have loop: "plain_ret r" if "transaction_loop E ds m s = (r, m1, s1)" for ds m s r m1 s1
    using that by (induction ds arbitrary: m s) (auto dest!: send split: if_splits prod.splits)
  show "CommitTransaction_Execute E m s = (r, m1, s1) \<Longrightarrow> plain_ret r"
    by (auto simp: CommitTransaction_Execute_def Let_def dest!: loop split: if_splits TcMsgOperType.splits)
qed


lemma two_phase_plain: "TwoPhaseCommit_Execute E m s = (r, m1, s1) \<Longrightarrow> plain_ret r"
proof -
  have undo: "undo_vote E m s = (r, m1, s1) \<Longrightarrow> plain_ret r" for m s r m1 s1
    by (auto simp: undo_vote_def split: prod.splits if_splits)
  have send: "TwoPhaseCommit_SendRequest E ch m s = (r, m1, s1) \<Longrightarrow> plain_ret r" for ch m s r m1 s1
    by (auto simp: TwoPhaseCommit_SendRequest_def Let_def dest!: request_plain undo
        split: prod.splits request_result.splits if_splits)
  have layers: "layer_loop E ds m s = (r, m1, s1) \<Longrightarrow> plain_ret r" for ds m s r m1 s1
    by (induction ds arbitrary: m s) (auto dest!: send split: if_splits prod.splits)
  have result: "HandleDriverResultResponse E p m s = (r, m1, s1) \<Longrightarrow> plain_ret r" for p m s r m1 s1
    by (auto simp: HandleDriverResultResponse_def Let_def
        split: prod.splits TcUtilRet.splits if_splits)
  have forward: "forward_both E d p m s = (r, s1) \<Longrightarrow> plain_ret r" for E d p m s r s1
    by (auto simp: forward_both_def forward_result_def Let_def
        split: if_splits option.splits prod.splits TcOperRet.splits)
  have answer: "driver_answer E d n p resp m s = (r, m1, s1) \<Longrightarrow> plain_ret r" for E d n p resp m s r m1 s1
    by (auto simp: driver_answer_def Let_def dest!: forward split: if_splits prod.splits TcOperRet.splits)
  have drivers: "driver_loop E ds m s = (r, m1, s1) \<Longrightarrow> plain_ret r" for ds m s r m1 s1
    by (induction E ds m s rule: driver_loop.induct)
      (auto simp: Let_def dest!: request_plain answer split: if_splits prod.splits request_result.splits)
  show "TwoPhaseCommit_Execute E m s = (r, m1, s1) \<Longrightarrow> plain_ret r"
    by (auto simp: TwoPhaseCommit_Execute_def dummy_driver_result_def SendRequestToDriver_def Let_def
        dest!: layers drivers result split: if_splits prod.splits)
qed


named_theorems same_status \<open>calls that leave the read status as it is\<close>

lemma execute_msg_status [same_status]: "execute_msg E m w = Some (r, m1, w1) \<Longrightarrow> rd_status w1 = rd_status w"
  by (auto simp: execute_msg_def put_msg_state_def elim!: bind_SomeE)

lemma update_recovery_status [same_status]:
  "update_recovery E ob db op mode vtn w = Some (r, w1) \<Longrightarrow> rd_status w1 = rd_status w"
  by (auto simp: update_recovery_def split: if_splits option.splits)

lemma read_autosave_status [same_status]:
  "read_autosave E ob old w = Some (r, b, w1) \<Longrightarrow> rd_status w1 = rd_status w"
  by (auto simp: read_autosave_def split: if_splits prod.splits)

lemma delete_msg_status [simp]: "rd_status (delete_msg E m w) = rd_status w"
  by (simp add: delete_msg_def)

abbreviation (input) transaction_msg :: "TcMsgOperType \<Rightarrow> bool" where
  "transaction_msg t \<equiv> t \<in> {MSG_COMMIT_TRANS_START, MSG_COMMIT_TRANS_END, MSG_COMMIT_VOTE, MSG_COMMIT_GLOBAL}"

lemma trans_msg_plain:
  assumes "trans_msg E t ob w = Some (r, m, w1)" and "transaction_msg t"
  shows "plain_ret r \<and> rd_status w1 = rd_status w"
proof -
  from assms(1) obtain m0 where "new_msg E ob t = Some m0"
    and exec: "execute_msg E (Candidate_FillTcMsgData ob t m0) w = Some (r, m, w1)"
    by (auto simp: trans_msg_def elim!: bind_SomeE)
  with assms(2) have "(\<exists>x. Candidate_FillTcMsgData ob t m0 = MCommitTransaction x) \<or>
      (\<exists>x. Candidate_FillTcMsgData ob t m0 = MTwoPhaseCommit x)"
    by (auto simp: new_msg_def CreateInstance_def Candidate_FillTcMsgData_def Let_def)
  with exec have "plain_ret r"
    by (auto simp: execute_msg_def lift_ipc_def elim!: bind_SomeE dest!: transaction_plain two_phase_plain
        split: prod.splits)
  with execute_msg_status [OF exec] show ?thesis by simp
qed

lemma trans_steps_status:
  shows trans_start_status: "TransStartMsg E ob w = Some (b, o1, w1) \<Longrightarrow>
      rd_status w1 = rd_status w \<and> (\<not> b \<longrightarrow> ca_response o1 \<noteq> TC_OPER_SUCCESS)"
    and trans_end_status: "TransEndMsg E ob w = Some (b, o1, w1) \<Longrightarrow>
      rd_status w1 = rd_status w \<and> (\<not> b \<longrightarrow> ca_response o1 = TC_SYSTEM_FAILURE)"
    and trans_vote_status: "TransVoteMsg E ob w = Some (b, o1, w1) \<Longrightarrow>
      rd_status w1 = rd_status w \<and> (\<not> b \<longrightarrow> ca_response o1 \<noteq> TC_OPER_SUCCESS)"
    and trans_global_status: "TransGlobalCommitMsg E ob w = Some (b, o1, w1) \<Longrightarrow>
      rd_status w1 = rd_status w \<and> (\<not> b \<longrightarrow> ca_response o1 = TC_SYSTEM_FAILURE)"
proof -
  show "TransStartMsg E ob w = Some (b, o1, w1) \<Longrightarrow>
      rd_status w1 = rd_status w \<and> (\<not> b \<longrightarrow> ca_response o1 \<noteq> TC_OPER_SUCCESS)"
    by (auto simp: TransStartMsg_def plain_HandleMsgRet elim!: bind_SomeE dest!: trans_msg_plain split: if_splits)
  show ends: "TransEndMsg E ob w = Some (b, o1, w1) \<Longrightarrow>
      rd_status w1 = rd_status w \<and> (\<not> b \<longrightarrow> ca_response o1 = TC_SYSTEM_FAILURE)" for ob w b o1 w1
    by (auto simp: TransEndMsg_def elim!: bind_SomeE dest!: trans_msg_plain split: if_splits)
  show "TransVoteMsg E ob w = Some (b, o1, w1) \<Longrightarrow>
      rd_status w1 = rd_status w \<and> (\<not> b \<longrightarrow> ca_response o1 \<noteq> TC_OPER_SUCCESS)"
    by (auto simp: TransVoteMsg_def plain_HandleMsgRet elim!: bind_SomeE dest!: trans_msg_plain ends split: if_splits)
  show "TransGlobalCommitMsg E ob w = Some (b, o1, w1) \<Longrightarrow>
      rd_status w1 = rd_status w \<and> (\<not> b \<longrightarrow> ca_response o1 = TC_SYSTEM_FAILURE)"
    by (auto simp: TransGlobalCommitMsg_def Let_def elim!: bind_SomeE dest!: trans_msg_plain same_status
        split: if_splits prod.splits)
qed


lemma bind3E:
  assumes "f \<bind> (\<lambda>(a, b, c). g a b c) = Some y"
  obtains a b c where "f = Some (a, b, c)" "g a b c = Some y"
  using assms by (auto simp: bind_eq_Some_conv)

text \<open>The part of a commit that follows a successful vote.\<close>

definition commit_tail :: "TcCandidateOperations meth" where
  "commit_tail E ob w = do {
     (q, auto, w1) \<leftarrow> read_autosave E ob False w;
     (b, o2, w2) \<leftarrow> TransGlobalCommitMsg E ob
        (if auto then SetStartupStatus (SetRunningStatus w1) else SetRunningStatus w1);
     if \<not> b then Some (ca_response o2, o2, w2) else do {
     (b3, o3, w3) \<leftarrow> TransEndMsg E o2
        (if auto then SetStartupStatusIncr (SetRunningStatusIncr w2) else SetRunningStatusIncr w2);
     if \<not> b3 then Some (ca_response o3, o3, w3) else Some (TC_OPER_SUCCESS, o3, w3) }
   }"

lemma commit_tail_status:
  assumes "commit_tail E ob w = Some (r, o1, w1)"
  shows "(commit_number (rd_status w1) = commit_number (rd_status w) + 1 \<and>
          runningDB_status (rd_status w1) = TC_DB_STATUS_CONFIRMED \<and> r \<in> {TC_OPER_SUCCESS, TC_SYSTEM_FAILURE}) \<or>
         (commit_number (rd_status w1) = commit_number (rd_status w) \<and>
          runningDB_status (rd_status w1) = TC_DB_STATUS_UPDATING \<and> r = TC_SYSTEM_FAILURE)"
proof -
  from assms obtain q auto u b o2 w2 where auto: "read_autosave E ob False w = Some (q, auto, u)" and
    global: "TransGlobalCommitMsg E ob (if auto then SetStartupStatus (SetRunningStatus u) else SetRunningStatus u) = Some (b, o2, w2)" and
    rest: "(if \<not> b then Some (ca_response o2, o2, w2) else do {
     (b3, o3, w3) \<leftarrow> TransEndMsg E o2
        (if auto then SetStartupStatusIncr (SetRunningStatusIncr w2) else SetRunningStatusIncr w2);
     if \<not> b3 then Some (ca_response o3, o3, w3) else Some (TC_OPER_SUCCESS, o3, w3) }) = Some (r, o1, w1)"
    unfolding commit_tail_def by (elim bind3E)
  have marked: "commit_number (rd_status w2) = commit_number (rd_status w)"
      "runningDB_status (rd_status w2) = TC_DB_STATUS_UPDATING" "\<not> b \<longrightarrow> ca_response o2 = TC_SYSTEM_FAILURE"
    using trans_global_status [OF global] read_autosave_status [OF auto]
    by (auto simp: SetRunningStatus_def SetStartupStatus_def)
  show ?thesis
  proof (cases b)
    case True
    with rest obtain b3 o3 w3 where ends: "TransEndMsg E o2
        (if auto then SetStartupStatusIncr (SetRunningStatusIncr w2) else SetRunningStatusIncr w2) = Some (b3, o3, w3)"
      and last: "(if \<not> b3 then Some (ca_response o3, o3, w3) else Some (TC_OPER_SUCCESS, o3, w3)) = Some (r, o1, w1)"
      by (auto elim!: bind3E)
    from trans_end_status [OF ends] last marked show ?thesis
      by (auto simp: SetRunningStatusIncr_def SetStartupStatusIncr_def split: if_splits)
  qed (use rest marked in auto)
qed



definition sample_commit_request :: TcCandidateOperations where
  "sample_commit_request = (TcCandidateOperations_new True
     (Some \<lparr>dsn_name = ''dsn'', db_env = True, db_conn_handle = True\<rparr>) sample_channels)
     \<lparr>op_session_id := 5, ca_config_id := 1, tc_oper := TC_OP_CANDIDATE_COMMIT\<rparr>"


end
