(* ===== verification/TcAuditProps.thy ===== *)
theory TcAuditProps
  imports TcReplyProps
begin

text \<open>
  Properties of audits: what a cancelled audit leaves in the read status, and the audits of the
  simplified type that a client asks for.
\<close>

section \<open>Simplified audits of users\<close>

lemma simplified_send:
  assumes "AuditTransaction_SendRequest E ch m x = (TCOPER_RET_SUCCESS, m1, x1)" and "opertype m = MSG_AUDIT_TRANS_START"
  shows "audit_type m1 = audit_type m \<and> opertype m1 = opertype m \<and> channel_names m1 = channel_names m"
  using assms
  by (auto simp: AuditTransaction_SendRequest_def audit_answer_def Let_def cancelled_answer_def undo_audit_def undo_trans_start_def
      split: prod.splits request_result.splits sum.splits if_splits)


lemma simplified_loop:
  assumes "audit_loop E flag ds ret m x = (r, m1, x1)" and "audit_type m = TC_AUDIT_SIMPLIFIED"
    and "opertype m = MSG_AUDIT_TRANS_START"
    and "ret \<noteq> TCOPER_RET_SUCCESS \<or> (\<exists>d\<in>set ds. GetChannelName m d \<noteq> '''')"
  shows "r \<noteq> TCOPER_RET_SUCCESS"
  using assms
proof (induction ds arbitrary: ret m x)
  case (Cons d ds)
  show ?case
  proof (cases "GetChannelName m d = '''' \<or> cancelled flag m x")
    case True
    with Cons show ?thesis by (auto split: if_splits prod.splits)
  next
    case False
    obtain q m2 x2 where send: "AuditTransaction_SendRequest E (GetChannelName m d) m x = (q, m2, x2)"
      by (cases "AuditTransaction_SendRequest E (GetChannelName m d) m x")
    show ?thesis
    proof (cases "q = TCOPER_RET_SUCCESS")
      case True
      with simplified_send [of E "GetChannelName m d" m x m2 x2] send Cons.prems(2,3) have
        kept: "audit_type m2 = TC_AUDIT_SIMPLIFIED" "opertype m2 = MSG_AUDIT_TRANS_START"
        by simp_all
      with Cons.prems(1,3) False True send have "audit_loop E flag ds TCOPER_RET_SIMPLIFIED_AUDIT
          (m2\<lparr>abort_on_fail := abort_on_fail m2 @ [d]\<rparr>) x2 = (r, m1, x1)"
        by simp
      from Cons.IH [OF this] kept show ?thesis by simp
    qed (use Cons.prems(1,3) False send in auto)
  qed
qed simp

lemma simplified_trans_start:
  assumes "audit_msg E MSG_AUDIT_TRANS_START ob w = Some (r, m, w1)"
    and "au_audit_type ob = TC_AUDIT_SIMPLIFIED" and "unc_oper_channel_map ob TC_UPLL = Some c" and "c \<noteq> ''''"
  shows "r \<noteq> TCOPER_RET_SUCCESS"
proof (cases "au_driver_id ob = UNC_CT_UNKNOWN")
  case True
  then show ?thesis
    using assms(1)
    by (auto simp: audit_msg_def new_msg_def CreateInstance_def Audit_FillTcMsgData_def execute_msg_def
        AuditTransaction_new_def TcMsgAudit_new_def TcMsg_new_def AuditTransaction_Execute_def driver_valid_def
        TcMsg.TcMsg.defs TcMsgAudit.TcMsgAudit.defs AuditTransaction.defs
        elim!: bind_SomeE split: prod.splits)
next
  case False
  let ?m = "SetAuditType TC_AUDIT_SIMPLIFIED (TcMsgAudit_SetData (au_controller_id ob) (au_driver_id ob)
     (AuditTransaction_new (op_session_id ob) MSG_AUDIT_TRANS_START (unc_oper_channel_map ob)))"
  have m: "audit_type ?m = TC_AUDIT_SIMPLIFIED" "opertype ?m = MSG_AUDIT_TRANS_START" "notifyorder ?m = []"
      "GetChannelName ?m TC_UPLL \<noteq> ''''"
    using assms(3,4)
    by (simp_all add: SetAuditType_def TcMsgAudit_SetData_def AuditTransaction_new_def TcMsgAudit_new_def
        TcMsg_new_def GetChannelName_def TcMsg.TcMsg.defs TcMsgAudit.TcMsgAudit.defs AuditTransaction.defs)
  from assms(1,2) False obtain x m1 x1 where "AuditTransaction_Execute (ext E) (cancel_flag_of E w) ?m x = (r, m1, x1)"
    by (auto simp: audit_msg_def new_msg_def CreateInstance_def Audit_FillTcMsgData_def execute_msg_def Let_def
        elim!: bind_SomeE split: prod.splits)
  then show ?thesis
    using m simplified_loop [of "ext E" "cancel_flag_of E w" start_order TCOPER_RET_SUCCESS "?m\<lparr>notifyorder := start_order\<rparr>" x r m1 x1]
    by (auto simp: AuditTransaction_Execute_def Let_def start_order_def GetChannelName_def split: if_splits)
qed


lemma audit_phase_status [simp]:
  "rd_status (SetAuditPhase ph w) = rd_status w" "rd_status (remember_target a w) = rd_status w"
  by (simp_all add: SetAuditPhase_def remember_target_def)

lemma audit_msg_status [same_status]: "audit_msg E t ob w = Some (r, m, w1) \<Longrightarrow> rd_status w1 = rd_status w"
  by (auto simp: audit_msg_def elim!: bind_SomeE dest!: same_status)

lemma audit_end_status:
  "audit_end_msg t E ob w = Some (b, o1, w1) \<Longrightarrow>
   rd_status w1 = rd_status w \<and> (\<not> b \<longrightarrow> user_response o1 = TC_SYSTEM_FAILURE)"
  by (auto simp: audit_end_msg_def elim!: bind_SomeE dest!: same_status split: if_splits)

lemma audit_refused_status:
  assumes "\<And>E ob w b o1 w1. undo E ob w = Some (b, o1, w1) \<Longrightarrow> rd_status w1 = rd_status w"
    and "audit_refused undo r m E ob w = Some (b, o1, w1)"
  shows "rd_status w1 = rd_status w \<and> \<not> b"
  using assms(2) by (auto simp: audit_refused_def elim!: bind_SomeE dest!: assms(1) split: if_splits)

lemma audit_steps_status:
  shows "GetDriverType E ob w = Some (b, o1, w1) \<Longrightarrow> rd_status w1 = rd_status w"
    and "AuditStart E ob w = Some (b, o1, w1) \<Longrightarrow> rd_status w1 = rd_status w"
    and "AuditGlobalCommit E ob w = Some (b, o1, w1) \<Longrightarrow>
           rd_status w1 = rd_status w \<and> (\<not> b \<longrightarrow> user_response o1 = TC_SYSTEM_FAILURE)"
    and audit_trans_start_status: "AuditTransStart E ob w = Some (b, o1, w1) \<Longrightarrow> rd_status w1 = rd_status w"
    and "AuditVote E ob w = Some (b, o1, w1) \<Longrightarrow> rd_status w1 = rd_status w"
proof -
  show "GetDriverType E ob w = Some (b, o1, w1) \<Longrightarrow> rd_status w1 = rd_status w"
    by (auto simp: GetDriverType_def Let_def elim!: bind_SomeE dest!: same_status split: if_splits)
  show "AuditStart E ob w = Some (b, o1, w1) \<Longrightarrow> rd_status w1 = rd_status w"
    by (auto simp: AuditStart_def elim!: bind_SomeE dest!: same_status split: if_splits)
  show "AuditGlobalCommit E ob w = Some (b, o1, w1) \<Longrightarrow>
      rd_status w1 = rd_status w \<and> (\<not> b \<longrightarrow> user_response o1 = TC_SYSTEM_FAILURE)"
    by (auto simp: AuditGlobalCommit_def Let_def elim!: bind_SomeE dest!: same_status split: if_splits)
  have one: "AuditEnd E ob w = Some (b, o1, w1) \<Longrightarrow> rd_status w1 = rd_status w" for E ob w b o1 w1
    by (auto simp: AuditEnd_def dest!: audit_end_status)
  have both: "end_transaction_and_audit E ob w = Some (b, o1, w1) \<Longrightarrow> rd_status w1 = rd_status w" for E ob w b o1 w1
    by (auto simp: end_transaction_and_audit_def AuditTransEnd_def elim!: bind_SomeE dest!: audit_end_status one
        split: if_splits)
  have refused: "rd_status w1 = rd_status w"
    if "audit_refused undo r m E ob w = Some (b, o1, w1)" and "undo = AuditEnd \<or> undo = end_transaction_and_audit"
    for undo r m E ob w b o1 w1
    using audit_refused_status [of undo r m E ob w b o1 w1] one both that by metis
  note refused = refused [OF _ disjI1 [OF refl]] refused [OF _ disjI2 [OF refl]]
  show "AuditTransStart E ob w = Some (b, o1, w1) \<Longrightarrow> rd_status w1 = rd_status w"
    by (auto simp: AuditTransStart_def elim!: bind_SomeE dest!: same_status refused
        split: if_splits)
  show "AuditVote E ob w = Some (b, o1, w1) \<Longrightarrow> rd_status w1 = rd_status w"
    by (auto simp: AuditVote_def elim!: bind_SomeE dest!: same_status refused
        split: if_splits)
qed


lemma audit_transaction_status:
  assumes "audit_transaction E ob w = Some (b, o1, w1)"
  shows "rd_status w1 = rd_status w \<or> b \<or> user_response o1 = TC_SYSTEM_FAILURE"
  using assms
  by (auto simp: audit_transaction_def AuditTransEnd_def AuditEnd_def Let_def elim!: bind_SomeE
      dest!: audit_steps_status audit_end_status split: if_splits)

lemma finish_audit_status:
  "finish_audit E ob w = Some (r, o1, w1) \<Longrightarrow> r \<in> {TC_OPER_SUCCESS, TC_OPER_FAILURE, TC_SYSTEM_FAILURE}"
  by (auto simp: finish_audit_def AuditEnd_def elim!: bind_SomeE dest!: audit_end_status split: if_splits)

text \<open>
  C20. A cancelled audit leaves no trace. Whenever an audit ends as cancelled, in whatever phase the
  cancellation arrived, the counters and states of the read status are those from before the audit;
  so the task queue may start a cancelled driver audit again from the beginning.
\<close>

theorem cancelled_audit_keeps_read_status:
  assumes "Audit_Execute E ob w = Some (TC_OPER_AUDIT_CANCELLED, o1, w1)"
  shows "rd_status w1 = rd_status w"
  using assms
  by (auto simp: Audit_Execute_def Let_def elim!: bind_SomeE
      dest!: audit_steps_status audit_transaction_status finish_audit_status split: if_splits)

text \<open>
  C24. A user cannot run a simplified audit. When a client asks for an audit of the simplified
  type, the transaction of the audit is always broken off after its start, although every daemon
  may have accepted it: the message reports the type of the audit as its result and the operation
  takes that for a refusal. Neither vote nor commit follows.
\<close>

theorem simplified_user_audit_breaks_off:
  assumes "audit_transaction E ob w = Some (b, o1, w1)" and "au_audit_type ob = TC_AUDIT_SIMPLIFIED"
    and "unc_oper_channel_map ob TC_UPLL = Some c" and "c \<noteq> ''''"
  shows "\<not> b \<and> rd_status w1 = rd_status w"
proof -
  from assms(1) obtain b1 o2 w2 where
    start: "AuditTransStart E ob (SetAuditPhase AUDIT_TRANSACTION_START w) = Some (b1, o2, w2)"
    and rest: "\<not> b1 \<longrightarrow> b = False \<and> w1 = w2"
    unfolding audit_transaction_def by (elim bind3E) (auto split: if_splits)
  from start obtain r m u where msg: "audit_msg E MSG_AUDIT_TRANS_START ob
      (SetAuditPhase AUDIT_TRANSACTION_START w) = Some (r, m, u)"
    and tail: "(if r \<noteq> TCOPER_RET_SUCCESS then audit_refused AuditEnd r m E ob u
        else Some (True, ob, delete_msg E m u)) = Some (b1, o2, w2)"
    unfolding AuditTransStart_def by (elim bind3E)
  have "\<not> b1"
    using tail simplified_trans_start [OF msg assms(2-4)]
    by (auto simp: audit_refused_def elim!: bind_SomeE split: if_splits)
  with rest audit_trans_start_status [OF start] show ?thesis by simp
qed


definition simplified_request :: TcAuditOperations where
  "simplified_request = sample_audit\<lparr>unc_oper_channel_map := [TC_UPLL \<mapsto> ''lgcnwd''], tc_oper := TC_OP_USER_AUDIT,
     au_audit_type := TC_AUDIT_SIMPLIFIED\<rparr>"

theorem simplified_user_audit_breaks_off_witness:
  "\<exists>o1 w1. audit_transaction (calm unreachable) simplified_request (coordinator sample_active []) =
             Some (False, o1, w1) \<and> rd_status w1 = read_status_init"
proof -
  let ?w = "coordinator sample_active []"
  have "audit_transaction (calm unreachable) simplified_request ?w \<noteq> None"
    by code_simp
  then obtain b o1 w1 where run:
    "audit_transaction (calm unreachable) simplified_request ?w = Some (b, o1, w1)" by auto
  have "au_audit_type simplified_request = TC_AUDIT_SIMPLIFIED"
    "unc_oper_channel_map simplified_request TC_UPLL = Some ''lgcnwd''"
    by (simp_all add: simplified_request_def)
  with simplified_user_audit_breaks_off [OF run] run show ?thesis
    by (simp add: coordinator_def)
qed

theorem cancelled_audit_keeps_read_status_witness:
  "\<exists>o1 w1. Audit_Execute (calm unreachable) sample_audit
       ((coordinator sample_active [])\<lparr>tc_msgs := SetAuditCancelFlag True TcMsgGlobals_init\<rparr>) =
       Some (TC_OPER_AUDIT_CANCELLED, o1, w1) \<and> rd_status w1 = read_status_init"
proof -
  let ?w = "(coordinator sample_active [])\<lparr>tc_msgs := SetAuditCancelFlag True TcMsgGlobals_init\<rparr>"
  have "map_option fst (Audit_Execute (calm unreachable) sample_audit ?w) = Some TC_OPER_AUDIT_CANCELLED"
    by code_simp
  then obtain o1 w1 where run:
    "Audit_Execute (calm unreachable) sample_audit ?w = Some (TC_OPER_AUDIT_CANCELLED, o1, w1)" by auto
  with cancelled_audit_keeps_read_status [OF run] show ?thesis
    by (simp add: coordinator_def)
qed

end
