(* ===== verification/TcLifeCycle.thy ===== *)
theory TcLifeCycle
  imports TcMoves TcAuditProps
begin

text \<open>
  The life cycle of the coordinator: the events, the requests, the releases of sessions, the
  timers and the audits of the task queue as a transition system. In its reachable states the
  invariant of the lock manager holds, and the state of the event handlers agrees with the state
  the lock manager decides by.
\<close>

section \<open>Activation\<close>

text \<open>The daemons answer with success or failure and no other code.\<close>

definition plain_answers :: "tc_env \<Rightarrow> bool" where
  "plain_answers E \<longleftrightarrow> (\<forall>h c. rp_resp (ext E h c) \<in> {TC_SUCCESS, TC_FAILURE})"

lemma plain_request:
  assumes "plain_answers E" and "request (ext E) ch svc b is s = (Answered p c resp, s1)"
  shows "resp \<in> {TC_SUCCESS, TC_FAILURE}"
  using assms
  by (auto simp: request_def plain_answers_def tc_session_invoke_def ask_def Let_def
      split: prod.splits option.splits append_result.splits if_splits TcUtilRet.splits)

lemma plain_notify:
  assumes "plain_answers E" and "notify_daemons (ext E) svc b is stop ds resp m s = (r, m1, s1)"
    and "resp \<in> {TC_SUCCESS, TC_FAILURE}"
  shows "plain_ret r"
  using assms(2,3)
proof (induction ds arbitrary: resp m s)
  case (Cons d ds)
  then show ?case
    using plain_request [OF assms(1), of "GetChannelName m d" svc b "is" s] request_plain [of "ext E" "GetChannelName m d" svc b "is" s]
    by (auto simp: RespondToTc_def Let_def split: if_splits prod.splits request_result.splits)
qed (auto simp: RespondToTc_def)

lemma startup_steps_lock:
  shows "startup_version t E ob w = Some (r, o1, w1) \<Longrightarrow> tc_lock w1 = tc_lock w"
    and "startup_execute E m t ob w = Some (q, m1, w1) \<Longrightarrow> tc_lock w1 = tc_lock w"
    and "StartUp_FillTcMsgData E m t ob w = Some (f, m1, o1, w1) \<Longrightarrow>
           tc_lock w1 = (if t = MSG_SETUP_COMPLETE then TcUpdateUncState TC_ACT (tc_lock w) else tc_lock w)"
    and "startup_done t E ob w = Some (r, o1, w1) \<Longrightarrow>
           tc_lock w1 = (if t = MSG_SETUP_COMPLETE then TcSetSetupComplete True (tc_lock w) else tc_lock w)"
  by (auto simp: startup_version_def startup_execute_def StartUp_FillTcMsgData_def startup_done_def Let_def
      ReadStatus_Init_def elim!: bind_SomeE dest!: same_lock split: if_splits prod.splits)

text \<open>How the start moves the lock: the invariant is kept, and an active coordinator stays active.\<close>

definition activates :: "TcLock \<Rightarrow> TcLock \<Rightarrow> bool" where
  "activates s t \<longleftrightarrow> keeps_inv s t \<and> (current_state s = TC_ACT \<longrightarrow> current_state t = TC_ACT) \<and>
     (current_state t = TC_STOP \<longleftrightarrow> current_state s = TC_STOP)"

interpretation activation: preorder_rel activates
  by unfold_locales (auto simp: activates_def keeps_inv_def)

lemma activates_steps: "activates s (TcUpdateUncState TC_ACT s)" "activates s (TcSetSetupComplete b s)"
  by (auto simp: activates_def keeps_inv_def intro: TcUpdateUncState_inv TcSetSetupComplete_inv)
    (simp_all add: TcUpdateUncState_def TcSetSetupComplete_def split: if_splits)

lemma startup_list_activates:
  "startup_list ts E ob w = Some (r, o1, w1) \<Longrightarrow> activates (tc_lock w) (tc_lock w1)"
proof (induction ts arbitrary: ob w)
  case (Cons t ts)
  have both: "activates s (TcSetSetupComplete True (TcUpdateUncState TC_ACT s))" for s
    by (rule activation.trans [OF activates_steps])
  from Cons.prems show ?case
    by (auto simp: activation.stays activates_steps both delete_msg_def elim!: bind_SomeE
        dest!: startup_steps_lock Cons.IH split: option.splits if_splits)
      (rule activation.trans [OF both])
qed (auto simp: activation.stays)

lemma plain_startup_execute:
  assumes "plain_answers E" and "startup_execute E m t ob w = Some (r, m1, w1)"
    and "m = MSetUp su \<or> m = MAuditDB au"
  shows "plain_ret r"
  using assms(2,3)
  by (auto simp: startup_execute_def execute_msg_def lift_ipc_def TcMsgSetUp_Execute_def TcMsgAuditDB_Execute_def Let_def
      elim!: bind_SomeE dest!: plain_notify [OF assms(1)]
      split: prod.splits if_splits TcMsgOperType.splits option.splits TcOperRet.splits)

lemma startup_msg_kind:
  assumes "new_msg E ob t = Some m" and "t \<in> {MSG_AUDITDB, MSG_SETUP, MSG_SETUP_COMPLETE}"
    and "StartUp_FillTcMsgData E m t o1 w = Some (f, m1, o2, w1)"
  shows "\<exists>su au. m1 = MSetUp su \<or> m1 = MAuditDB au"
  using assms
  by (auto simp: new_msg_def CreateInstance_def StartUp_FillTcMsgData_def Let_def elim!: bind_SomeE split: if_splits)

lemma startup_list_active:
  assumes "plain_answers E" and "current_state (tc_lock w) \<noteq> TC_STOP" and "set ts \<subseteq> {MSG_AUDITDB, MSG_SETUP, MSG_SETUP_COMPLETE}"
    and "startup_list ts E ob w = Some (TC_OPER_SUCCESS, o1, w1)" and "MSG_SETUP_COMPLETE \<in> set ts"
  shows "current_state (tc_lock w1) = TC_ACT"
  using assms(2-5)
proof (induction ts arbitrary: ob w)
  case (Cons t ts)
  from Cons.prems(2,3) obtain m q o2 w2 f m2 o3 w3 where
    msg: "new_msg E ob t = Some m" and version: "startup_version t E ob w = Some (q, o2, w2)" and
    fill: "StartUp_FillTcMsgData E m t o2 w2 = Some (f, m2, o3, w3)" and
    rest: "(if f \<noteq> TC_OPER_SUCCESS then Some (TC_SYSTEM_FAILURE, o3, delete_msg E m2 w3)
      else do {
        (mr, m3, w4) \<leftarrow> startup_execute E m2 t o3 w3;
        if mr = TCOPER_RET_SUCCESS
        then do { (_, o4, w5) \<leftarrow> startup_done t E o3 w4; startup_list ts E o4 (delete_msg E m3 w5) }
        else if t = MSG_AUDITDB \<and> mr = TCOPER_RET_LAST_DB_OP_FAILED then startup_list ts E o3 (delete_msg E m3 w4)
        else Some (HandleMsgRet mr, if t = MSG_AUDITDB then o3\<lparr>audit_db_fail := True\<rparr> else o3, delete_msg E m3 w4)
      }) = Some (TC_OPER_SUCCESS, o1, w1)"
    by (auto elim!: bind_SomeE split: option.splits)
  from msg fill Cons.prems(2) obtain su au where kind: "m2 = MSetUp su \<or> m2 = MAuditDB au"
    using startup_msg_kind by (metis insert_subset list.simps(15))
  have plain: "plain_ret mr \<and> tc_lock v = tc_lock u" if "startup_execute E m2 t' ob' u = Some (mr, m', v)" for mr m' t' ob' u v
    using plain_startup_execute [OF assms(1) that kind] startup_steps_lock(2) [OF that] by simp
  show ?case
  proof (cases "t = MSG_SETUP_COMPLETE")
    case False
    with rest Cons.prems(1,2,4) startup_steps_lock(1) [OF version] startup_steps_lock(3) [OF fill] show ?thesis
      by (auto simp: plain_HandleMsgRet delete_msg_def elim!: bind_SomeE
          dest!: plain startup_steps_lock(4) Cons.IH [rotated 2] split: if_splits)
  next
    case True
    with startup_steps_lock(1) [OF version] startup_steps_lock(3) [OF fill] Cons.prems(1)
    have act: "current_state (tc_lock w3) = TC_ACT"
      by (simp add: TcUpdateUncState_def)
    from rest True have "activates (tc_lock w3) (tc_lock w1)"
      by (auto simp: activation.stays delete_msg_def plain_HandleMsgRet elim!: bind_SomeE
          dest!: plain startup_steps_lock(4) startup_list_activates split: if_splits)
        (rule activation.trans [OF activates_steps(2)])
    with act show ?thesis by (simp add: activates_def)
  qed
qed simp

lemma startup_messages_set [simp]:
  "set (startup_messages s a d q) \<subseteq> {MSG_AUDITDB, MSG_SETUP, MSG_SETUP_COMPLETE}"
  "MSG_SETUP_COMPLETE \<in> set (startup_messages s a d q)"
  by (auto simp: startup_messages_def)

lemma startup_quiet:
  shows "StartUp_HandleArgs E ob w = Some (r, o1, w1) \<Longrightarrow> tc_lock w1 = tc_lock w"
    and "StartUp_TcCreateMsgList E ob w = Some (r, o1, w1) \<Longrightarrow> tc_lock w1 = tc_lock w \<and>
      (r = TC_OPER_SUCCESS \<longrightarrow> set (TcOperMessageList o1) \<subseteq> {MSG_AUDITDB, MSG_SETUP, MSG_SETUP_COMPLETE} \<and>
         MSG_SETUP_COMPLETE \<in> set (TcOperMessageList o1))"
    and "StartUp_SendResponse st E ob w = Some (r, o1, w1) \<Longrightarrow> tc_lock w1 = tc_lock w \<and> (st \<noteq> TC_OPER_SUCCESS \<longrightarrow> r = st)"
  by (auto simp: StartUp_HandleArgs_def load_recovery_def StartUp_TcCreateMsgList_def StartUp_SendResponse_def Let_def
      elim!: bind_SomeE dest!: same_lock dirty_lock subsetD [OF startup_messages_set(1)] split: if_splits prod.splits)

lemma StartUp_Execute_activates: "StartUp_Execute E ob w = Some (r, o1, w1) \<Longrightarrow> activates (tc_lock w) (tc_lock w1)"
  by (auto simp: StartUp_Execute_def activation.stays dest!: startup_list_activates split: if_splits)

interpretation startup_ops: moving_ops activates E startup_methods anytime anytime for E
  by unfold_locales
    (auto simp: startup_methods_def ok_def activation.stays dest!: startup_quiet StartUp_Execute_activates
      intro!: movesI)

lemma startup_revoked:
  "RevokeOperation startup_methods st E ob w = Some (r, o1, w1) \<Longrightarrow> st \<noteq> TC_OPER_SUCCESS \<Longrightarrow> r \<noteq> TC_OPER_SUCCESS"
  by (auto simp: RevokeOperation_def startup_methods_def ok_def elim!: bind_SomeE dest!: startup_quiet(3)
      split: TcOperEnum.splits)

lemma startup_phase:
  assumes "run_phase startup_methods ph m continue E ob w = Some (TC_OPER_SUCCESS, o1, w1)"
  obtains o2 w2 where "m E (ob\<lparr>tc_oper_status := ph\<rparr>) w = Some (TC_OPER_SUCCESS, o2, w2)"
    and "continue E o2 w2 = Some (TC_OPER_SUCCESS, o1, w1)"
  using assms by (auto simp: run_phase_def elim!: bind_SomeE dest: startup_revoked split: if_splits)

lemma startup_success_active:
  assumes "plain_answers E" and "Dispatch startup_methods E ob w = Some (TC_OPER_SUCCESS, o1, w1)"
    and "current_state (tc_lock w) \<noteq> TC_STOP"
  shows "current_state (tc_lock w1) = TC_ACT"
proof -
  from assms(2) [unfolded Dispatch_def dispatch_tail_def] obtain o2 w2 o3 w3 o4 w4 o5 w5 o6 w6 where
    steps: "op_HandleArgs startup_methods E (ob\<lparr>tc_oper_status := INPUT_VALIDATION\<rparr>) w = Some (TC_OPER_SUCCESS, o2, w2)"
      "op_GetExclusion startup_methods E (o2\<lparr>tc_oper_status := GET_EXCLUSION_PHASE\<rparr>) w2 = Some (TC_OPER_SUCCESS, o3, w3)"
      "op_CreateMsgList startup_methods E (o3\<lparr>tc_oper_status := CREATE_MSG_LIST\<rparr>) w3 = Some (TC_OPER_SUCCESS, o4, w4)"
      "op_Execute startup_methods E (o4\<lparr>tc_oper_status := EXECUTE_PHASE\<rparr>) w4 = Some (TC_OPER_SUCCESS, o5, w5)"
      "op_ReleaseExclusion startup_methods E (o5\<lparr>tc_oper_status := RELEASE_EXCLUSION_PHASE\<rparr>) w5 = Some (TC_OPER_SUCCESS, o6, w6)"
      "op_SendResponse startup_methods TC_OPER_SUCCESS E o6 w6 = Some (TC_OPER_SUCCESS, o1, w1)"
    by (elim startup_phase)
  then have "tc_lock w3 = tc_lock w" "tc_lock w4 = tc_lock w3" "tc_lock w1 = tc_lock w5"
    and list: "set (TcOperMessageList o4) \<subseteq> {MSG_AUDITDB, MSG_SETUP, MSG_SETUP_COMPLETE}"
      "MSG_SETUP_COMPLETE \<in> set (TcOperMessageList o4)"
    by (auto simp: startup_methods_def ok_def dest!: startup_quiet)
  moreover from steps(4) list(2) have "startup_list (TcOperMessageList o4) E (o4\<lparr>tc_oper_status := EXECUTE_PHASE\<rparr>) w4 =
      Some (TC_OPER_SUCCESS, o5, w5)"
    by (auto simp: startup_methods_def StartUp_Execute_def split: if_splits)
  ultimately show ?thesis
    using startup_list_active [OF assms(1)] assms(3) by metis
qed

section \<open>Events\<close>

lemma transition_lock_effect:
  assumes "transition_lock w = Some (r, w1)" and "reader_room (rwlock (tc_lock w))"
  shows "keeps_inv (tc_lock w) (tc_lock w1) \<and> same_state (tc_lock w) (tc_lock w1) \<and>
    (r = TC_LOCK_SUCCESS \<longrightarrow> state_transition_in_progress (tc_lock w1) \<and> current_state (tc_lock w1) \<noteq> TC_STOP)"
proof -
  have fair: "fair_get TC_ACQUIRE_READ_LOCK_FOR_STATE_TRANSITION TC_CONFIG_GLOBAL '''' (tc_lock w)"
    using assms(2) by simp
  have "r = TC_LOCK_SUCCESS \<Longrightarrow> state_transition_in_progress (tc_lock w1) \<and> current_state (tc_lock w1) \<noteq> TC_STOP"
    using assms(1)
    by (auto simp: transition_lock_def take_lock_def GetLock_def Let_def TcAcquireReadLockForStateTransition_def
        StateTransitionLoop_def split: if_splits prod.splits lock_outcome.splits)
  with kept.take [OF assms(1) [unfolded transition_lock_def] fair]
    steady.take [OF assms(1) [unfolded transition_lock_def] fair] show ?thesis by blast
qed

lemma transition_unlock_effect:
  "transition_unlock w = (r, w1) \<Longrightarrow> keeps_inv (tc_lock w) (tc_lock w1) \<and> same_state (tc_lock w) (tc_lock w1)"
  unfolding transition_unlock_def by (auto dest: kept.give steady.give)

lemma state_TcUpdateUncState [simp]:
  "current_state (TcUpdateUncState st s) = (if current_state s = TC_STOP then TC_STOP else st)"
  by (simp add: TcUpdateUncState_def)

lemma HandleStart_effect:
  assumes "HandleStart w = Some (b, w1)" and "reader_room (rwlock (tc_lock w))" and "lock_inv (tc_lock w)"
  shows "lock_inv (tc_lock w1) \<and> (b \<longrightarrow> current_state (tc_lock w1) = TC_SBY)"
  using assms
  by (auto simp: HandleStart_def Let_def keeps_inv_def same_state_def TcUpdateUncState_inv elim!: bind_SomeE
      dest!: transition_lock_effect transition_unlock_effect split: if_splits prod.splits)

lemma HandleStop_effect:
  assumes "HandleStop E w = (b, w1)"
  shows "lock_inv (tc_lock w1) \<and> b \<and> current_state (tc_lock w1) = TC_STOP"
proof -
  have "tc_lock w1 = ResetTcGlobalDataOnStateTransition (TcUpdateUncState TC_STOP (tc_lock w))"
    using assms
    by (auto simp: HandleStop_def Let_def ClearCandidateQueue_def ClearConfigAcquisitionQueue_def)
  with Reset_inv [of "TcUpdateUncState TC_STOP (tc_lock w)"] assms show ?thesis
    by (auto simp: HandleStop_def Let_def ResetTcGlobalDataOnStateTransition_def)
qed

lemma load_recovery_lock: "load_recovery E n ob w = Some (r, k, o1, w1) \<Longrightarrow> tc_lock w1 = tc_lock w"
  by (auto simp: load_recovery_def split: if_splits prod.splits)

lemma fail_notice_lock: "tc_lock (snd (SendAuditDBFailNotice E ob w)) = tc_lock w"
  by (auto simp: SendAuditDBFailNotice_def Let_def dest: via_ipc_lock split: prod.splits)

lemma act_failed_effect:
  assumes "act_failed E md ob w = Some (b, o1, w1)" and "lock_inv (tc_lock w)" and "current_state (tc_lock w) \<noteq> TC_STOP"
  shows "lock_inv (tc_lock w1) \<and> (b \<longrightarrow> current_state (tc_lock w1) = TC_ACT_FAIL)"
proof -
  have unlock: "lock_inv (tc_lock (snd (transition_unlock u)))" if "lock_inv (tc_lock u)" for u
    using transition_unlock_effect [of u] that by (cases "transition_unlock u") (auto simp: keeps_inv_def)
  have db: "lock_inv (tc_lock u) \<and> (a = Some True \<longrightarrow> current_state (tc_lock u) = TC_ACT_FAIL)"
    if "audit_db_failed E md ob w = Some (a, o2, u)" for a o2 u
    using that assms(2,3)
    by (auto simp: audit_db_failed_def Let_def keeps_inv_def same_state_def TcUpdateUncState_inv fail_notice_lock
        elim!: bind_SomeE dest!: load_recovery_lock transition_unlock_effect split: if_splits prod.splits option.splits)
  from assms show ?thesis
    by (auto simp: act_failed_def elim!: bind_SomeE dest!: db intro: unlock split: if_splits option.splits)
qed

lemma act_done_effect:
  assumes "act_done w = (b, w1)" and "lock_inv (tc_lock w)"
  shows "lock_inv (tc_lock w1) \<and> current_state (tc_lock w1) = current_state (tc_lock w)"
  using assms
  by (auto simp: act_done_def Let_def keeps_inv_def same_state_def SetStateChangedToSby_def
      dest!: transition_unlock_effect split: if_splits prod.splits)

lemma HandleAct_effect:
  assumes "HandleAct E sw md w = Some (b, md1, w1)" and "reader_room (rwlock (tc_lock w))" and "lock_inv (tc_lock w)"
  shows "lock_inv (tc_lock w1) \<and> unc_state md1 = unc_state md \<and>
    (plain_answers E \<longrightarrow> b \<longrightarrow> current_state (tc_lock w1) \<in> {TC_ACT, TC_ACT_FAIL})"
proof -
  from assms(1) obtain r w2 where lock: "transition_lock w = Some (r, w2)"
    by (auto simp: HandleAct_def elim!: bind_SomeE)
  note eff = transition_lock_effect [OF lock assms(2)]
  show ?thesis
  proof (cases "r = TC_LOCK_SUCCESS")
    case False
    with assms(1,3) lock eff show ?thesis by (auto simp: HandleAct_def keeps_inv_def)
  next
    case True
    let ?reset = "ResetTcGlobalDataOnStateTransition (tc_lock w2)"
    let ?md = "md\<lparr>md_dsn_name := act_dsn_name md\<rparr>"
    from True eff have reset: "lock_inv ?reset" "current_state ?reset \<noteq> TC_STOP"
      using Reset_inv [of "tc_lock w2"] by (auto, simp add: ResetTcGlobalDataOnStateTransition_def)
    obtain x w3 h w4 where init: "via_ipc (ask (ext E) AlarmClear) (w2\<lparr>tc_lock := ?reset\<rparr>) = (x, w3)"
      "new_db E ?md w3 = (h, w4)" by fastforce
    have w4: "tc_lock w4 = ?reset"
      using via_ipc_lock [OF init(1)] new_db_frame [OF init(2)] by simp
    from assms(1) lock True init obtain st o5 w5 o6 w6 where
      run: "Dispatch startup_methods E (TcStartUpOperations_new False (Some h) (tc_channels ?md) sw) w4 = Some (st, o5, w5)"
      and last: "(if st \<noteq> TC_OPER_SUCCESS then act_failed E ?md o5 w5
         else let (b, w') = act_done w5 in Some (b, o5, w')) = Some (b, o6, w6)"
      and res: "md1 = ?md" "w1 = TcOperations_delete E o6 w6"
      by (auto simp: HandleAct_def Let_def elim!: bind_SomeE)
    have w5: "lock_inv (tc_lock w5)" "current_state (tc_lock w5) \<noteq> TC_STOP"
      using startup_ops.dispatch [OF run] reset w4 by (simp_all add: activates_def keeps_inv_def)
    have "lock_inv (tc_lock w6) \<and> (plain_answers E \<longrightarrow> b \<longrightarrow> current_state (tc_lock w6) \<in> {TC_ACT, TC_ACT_FAIL})"
    proof (cases "st = TC_OPER_SUCCESS")
      case True
      with last act_done_effect [of w5 b w6] startup_success_active [of E _ w4] run reset w4 w5 show ?thesis
        by (auto simp: Let_def split: prod.splits)
    qed (use last act_failed_effect [of E ?md o5 w5 b o6 w6] w5 in auto)
    with res show ?thesis by simp
  qed
qed

section \<open>The coordinator as a transition system\<close>

text \<open>
  One rule per entry point of the module. The surroundings of a step are arbitrary except for
  the following: while an operation waits, the other threads keep the invariant of the lock and
  do not handle an event; daemons answer with success or failure; there is room for one more
  reader; and no request names a virtual tenant network \<^verbatim>\<open>global-mode\<close>. A request finds its
  arguments in the session and an empty output.
\<close>

definition good_waits :: "tc_env \<Rightarrow> bool" where
  "good_waits E \<longleftrightarrow> waits_move keeps_inv E \<and> waits_move same_state E"

definition arrive :: "ipc_value list \<Rightarrow> tc_state \<Rightarrow> tc_state" where
  "arrive args w = w\<lparr>tc_ipc := (tc_ipc w)\<lparr>srv_args := args, srv_out := []\<rparr>\<rparr>"

inductive module_step :: "TcModule \<times> tc_state \<Rightarrow> TcModule \<times> tc_state \<Rightarrow> bool" where
  event: "plain_answers E \<Longrightarrow> reader_room (rwlock (tc_lock w)) \<Longrightarrow>
     event_handler E ev md w = Some (md1, w1) \<Longrightarrow> module_step (md, w) (md1, w1)"
| request: "good_waits E \<Longrightarrow> reader_room (rwlock (tc_lock w)) \<Longrightarrow> IpcStr GLOBAL_NAME \<notin> set args \<Longrightarrow>
     ipcService addr service E md (arrive args w) = Some (r, w1) \<Longrightarrow> module_step (md, w) (md, w1)"
| session: "good_waits E \<Longrightarrow> TcReleaseSession sid E md w = Some (q, w1) \<Longrightarrow> module_step (md, w) (md, w1)"
| timer: "HandleReadTimeout E sid channels w = Some w1 \<Longrightarrow> module_step (md, w) (md, w1)"
| audit: "good_waits E \<Longrightarrow> HandleDriverAudit E addr ctr h channels drv w = Some w1 \<Longrightarrow>
     module_step (md, w) (md, w1)"

inductive module_reachable :: "TcModule \<Rightarrow> tc_state \<Rightarrow> bool" where
  start: "unc_state md = INIT \<Longrightarrow> tc_lock w = TcLock_init \<Longrightarrow> module_reachable md w"
| step: "module_reachable md w \<Longrightarrow> module_step (md, w) (md1, w1) \<Longrightarrow> module_reachable md1 w1"

definition state_agrees :: "UncState \<Rightarrow> TcState \<Rightarrow> bool" where
  "state_agrees u t \<longleftrightarrow>
     (case u of INIT \<Rightarrow> t = TC_INIT | SBY \<Rightarrow> t = TC_SBY | ACT \<Rightarrow> t \<in> {TC_ACT, TC_ACT_FAIL}
        | STOP \<Rightarrow> t = TC_STOP | FAILURE \<Rightarrow> True)"

definition cycle_inv :: "TcModule \<Rightarrow> tc_state \<Rightarrow> bool" where
  "cycle_inv md w \<longleftrightarrow> lock_inv (tc_lock w) \<and> state_agrees (unc_state md) (current_state (tc_lock w))"

lemma event_cycle:
  assumes "plain_answers E" and "reader_room (rwlock (tc_lock w))" and "cycle_inv md w"
    and "event_handler E ev md w = Some (md1, w1)"
  shows "cycle_inv md1 w1"
  using assms(3,4) HandleStart_effect [OF _ assms(2)] HandleStop_effect [of E w] HandleAct_effect [OF _ assms(2), of E _ md] assms(1)
  by (cases ev)
    (auto simp: cycle_inv_def state_agrees_def Let_def elim!: bind_SomeE split: if_splits prod.splits)

lemma arrive_simps [simp]: "tc_lock (arrive args w) = tc_lock w" "srv_args (tc_ipc (arrive args w)) = args"
  by (simp_all add: arrive_def)

lemma moved_cycle:
  "cycle_inv md w \<Longrightarrow> keeps_inv (tc_lock w) (tc_lock w1) \<Longrightarrow> same_state (tc_lock w) (tc_lock w1) \<Longrightarrow> cycle_inv md w1"
  by (simp add: cycle_inv_def keeps_inv_def same_state_def)

lemma step_cycle:
  assumes "module_step (md, w) (md1, w1)" and "cycle_inv md w"
  shows "cycle_inv md1 w1"
  using assms(1)
proof cases
  case (event E ev)
  with event_cycle assms(2) show ?thesis by blast
next
  case (request E args addr service r)
  with kept.request_moves [of E addr service md "arrive args w" r w1]
    steady.request_moves [of E addr service md "arrive args w" r w1] assms(2)
  show ?thesis by (auto simp: good_waits_def intro: moved_cycle)
next
  case (session E sid q)
  with kept.release_session_moves steady.release_session_moves assms(2) show ?thesis
    unfolding good_waits_def by (blast intro: moved_cycle)
next
  case (timer E sid channels)
  with kept.read_timeout_moves steady.read_timeout_moves assms(2) show ?thesis by (blast intro: moved_cycle)
next
  case (audit E addr ctr h channels drv)
  with kept.driver_audit_moves steady.driver_audit_moves assms(2) show ?thesis
    unfolding good_waits_def by (blast intro: moved_cycle)
qed

lemma reachable_cycle: "module_reachable md w \<Longrightarrow> cycle_inv md w"
proof (induction rule: module_reachable.induct)
  case (start md w)
  then show ?case by (simp add: cycle_inv_def state_agrees_def lock_inv_init) (simp add: TcLock_init_def)
qed (rule step_cycle)





end
