(* ===== verification/TclibMsg.thy ===== *)
theory TclibMsg
  imports TcIpc
begin

text \<open>
  The daemon side of the protocol, first part: the messages of
  \<^verbatim>\<open>modules/tclib/include/tclib_struct_defs.hh\<close> and the functions of
  \<^verbatim>\<open>modules/tclib/tclib_msg_util.cc\<close> that read them from the server session of a request.
  A session pointer is \<open>None\<close> when it is \<^verbatim>\<open>NULL\<close>. Enumerators that are only handed on
  to the daemon are kept as the octet received; the operation type is converted, and is
  \<open>None\<close> when the octet is none of the enumerators. A field that a message leaves
  uninitialised for its operation type is \<open>None\<close>.
\<close>

section \<open>Operation types\<close>

definition msg_list :: "TcMsgOperType list" where
  "msg_list =
     [MSG_NONE, MSG_NOTIFY_CONFIGID, MSG_SETUP, MSG_SETUP_COMPLETE, MSG_COMMIT_TRANS_START,
      MSG_COMMIT_VOTE, MSG_COMMIT_DRIVER_VOTE, MSG_COMMIT_VOTE_DRIVER_RESULT, MSG_COMMIT_GLOBAL,
      MSG_COMMIT_DRIVER_GLOBAL, MSG_COMMIT_GLOBAL_DRIVER_RESULT, MSG_COMMIT_TRANS_END,
      MSG_AUDIT_START, MSG_AUDIT_TRANS_START, MSG_AUDIT_VOTE, MSG_AUDIT_DRIVER_VOTE,
      MSG_AUDIT_VOTE_DRIVER_RESULT, MSG_AUDIT_GLOBAL, MSG_AUDIT_DRIVER_GLOBAL,
      MSG_AUDIT_GLOBAL_DRIVER_RESULT, MSG_AUDIT_TRANS_END, MSG_AUDIT_END, MSG_AUDIT_CANCEL,
      MSG_SAVE_CONFIG, MSG_CLEAR_CONFIG, MSG_ABORT_CANDIDATE, MSG_AUDITDB, MSG_COMMIT_ABORT,
      MSG_AUDIT_ABORT, MSG_GET_DRIVERID, MSG_CONTROLLER_TYPE, MSG_AUTOSAVE_ENABLE,
      MSG_AUTOSAVE_DISABLE, MSG_MAX]"

definition to_msg :: "u8 \<Rightarrow> TcMsgOperType option" where
  "to_msg n = (if unat n < length msg_list then Some (msg_list ! unat n) else None)"

lemma to_msg_msg_num [simp]: "to_msg (msg_num t) = Some t"
  by (cases t) (simp_all add: to_msg_def msg_list_def)


section \<open>Messages\<close>

record TcCommitTransactionMsg =
  ct_oper_type :: "TcMsgOperType option"
  ct_session_id :: u32
  ct_config_id :: u32
  ct_end_result :: "u8 option"

record TcCommitDrvVoteGlobalMsg =
  cv_oper_type :: "TcMsgOperType option"
  cv_session_id :: u32
  cv_config_id :: u32
  cv_cntrl_count :: u8
  cv_cntrl_list :: "string list"

record TcCommitGlobalAbortMsg =
  ca_oper_type :: "TcMsgOperType option"
  ca_session_id :: u32
  ca_config_id :: u32
  ca_commit_oper_phase :: u8

record TcCommitDrvResultMsg =
  cr_oper_type :: "TcMsgOperType option"
  cr_session_id :: u32
  cr_config_id :: u32
  cr_phase :: u8

text \<open>What only the start of an audit carries.\<close>

record TcAuditStartData =
  as_reconnect_controller :: u8
  as_audit_type :: u8
  as_commit_number :: u64
  as_commit_date :: u64
  as_commit_application :: string

record TcAuditTransactionMsg =
  at_oper_type :: "TcMsgOperType option"
  at_session_id :: u32
  at_driver_id :: unc_keytype_ctrtype_t
  at_controller_id :: string
  at_start :: "TcAuditStartData option"
  at_audit_result :: "u8 option"
  at_end_result :: "u8 option"

record TcAuditDrvVoteGlobalMsg =
  av_oper_type :: "TcMsgOperType option"
  av_session_id :: u32
  av_controller_id :: string
  av_cntrl_count :: u8
  av_cntrl_list :: "string list"

record TcAuditDrvResultMsg =
  ar_oper_type :: "TcMsgOperType option"
  ar_session_id :: u32
  ar_controller_id :: string
  ar_phase :: u8

record TcAuditGlobalAbortMsg =
  aa_oper_type :: "TcMsgOperType option"
  aa_session_id :: u32
  aa_driver_id :: unc_keytype_ctrtype_t
  aa_controller_id :: string
  aa_audit_oper_phase :: u8

record TcAuditConfigMsg =
  ac_db_type :: unc_keytype_datatype_t
  ac_service_type :: TcServiceType
  ac_config_mode :: TcConfigMode
  ac_vtn_name :: string
  ac_version :: u64


section \<open>Reading\<close>

text \<open>The common head of the functions: a session with at least one argument.\<close>

definition session_args :: "ipc_state option \<Rightarrow> (ipc_state \<Rightarrow> u32 + 'a) \<Rightarrow> u32 + 'a" where
  "session_args session f =
     (case session of
        None \<Rightarrow> Inl TC_FAILURE
      | Some s \<Rightarrow> if srv_args s = [] then Inl TC_FAILURE else f s)"

text \<open>One argument; any error of the helper is reported as \<^verbatim>\<open>TC_FAILURE\<close>.\<close>

definition rd :: "TcUtilRet + 'a \<Rightarrow> ('a \<Rightarrow> u32 + 'b) \<Rightarrow> u32 + 'b" where
  "rd x f = (case x of Inl _ \<Rightarrow> Inl TC_FAILURE | Inr a \<Rightarrow> f a)"

definition GetCommitTransactionMsg :: "ipc_state option \<Rightarrow> u32 + TcCommitTransactionMsg" where
  "GetCommitTransactionMsg session = session_args session (\<lambda>s.
     rd (srv_get_uint8 0 s) (\<lambda>oper.
     rd (srv_get_uint32 1 s) (\<lambda>sid.
     rd (srv_get_uint32 2 s) (\<lambda>cid.
     if to_msg oper = Some MSG_COMMIT_TRANS_END
     then rd (srv_get_uint8 3 s) (\<lambda>end_result.
            Inr \<lparr>ct_oper_type = to_msg oper, ct_session_id = sid, ct_config_id = cid,
                 ct_end_result = Some end_result\<rparr>)
     else Inr \<lparr>ct_oper_type = to_msg oper, ct_session_id = sid, ct_config_id = cid,
               ct_end_result = None\<rparr>))))"

text \<open>The loop that reads the controllers; the argument before them is at \<open>idx\<close>.\<close>

primrec read_ctr_list :: "nat \<Rightarrow> u32 \<Rightarrow> ipc_state \<Rightarrow> u32 + string list" where
  "read_ctr_list 0 idx s = Inr []"
| "read_ctr_list (Suc n) idx s =
     rd (srv_get_string (idx + 1) s) (\<lambda>c.
       case read_ctr_list n (idx + 1) s of Inl e \<Rightarrow> Inl e | Inr cs \<Rightarrow> Inr (c # cs))"

definition GetCommitDrvVoteGlobalMsg :: "ipc_state option \<Rightarrow> u32 + TcCommitDrvVoteGlobalMsg" where
  "GetCommitDrvVoteGlobalMsg session = session_args session (\<lambda>s.
     rd (srv_get_uint8 0 s) (\<lambda>oper.
     rd (srv_get_uint32 1 s) (\<lambda>sid.
     rd (srv_get_uint32 2 s) (\<lambda>cid.
     rd (srv_get_uint8 3 s) (\<lambda>count.
     case read_ctr_list (unat count) 3 s of
       Inl e \<Rightarrow> Inl e
     | Inr cs \<Rightarrow> Inr \<lparr>cv_oper_type = to_msg oper, cv_session_id = sid, cv_config_id = cid,
                       cv_cntrl_count = count, cv_cntrl_list = cs\<rparr>)))))"

definition GetCommitDrvResultMsg :: "ipc_state option \<Rightarrow> u32 + TcCommitDrvResultMsg" where
  "GetCommitDrvResultMsg session = session_args session (\<lambda>s.
     rd (srv_get_uint8 0 s) (\<lambda>oper.
     rd (srv_get_uint32 1 s) (\<lambda>sid.
     rd (srv_get_uint32 2 s) (\<lambda>cid.
     rd (srv_get_uint8 3 s) (\<lambda>phase.
     Inr \<lparr>cr_oper_type = to_msg oper, cr_session_id = sid, cr_config_id = cid,
          cr_phase = phase\<rparr>)))))"

definition GetCommitGlobalAbortMsg :: "ipc_state option \<Rightarrow> u32 + TcCommitGlobalAbortMsg" where
  "GetCommitGlobalAbortMsg session = session_args session (\<lambda>s.
     rd (srv_get_uint8 0 s) (\<lambda>oper.
     rd (srv_get_uint32 1 s) (\<lambda>sid.
     rd (srv_get_uint32 2 s) (\<lambda>cid.
     rd (srv_get_uint8 3 s) (\<lambda>phase.
     Inr \<lparr>ca_oper_type = to_msg oper, ca_session_id = sid, ca_config_id = cid,
          ca_commit_oper_phase = phase\<rparr>)))))"

definition GetAuditTransactionMsg :: "ipc_state option \<Rightarrow> u32 + TcAuditTransactionMsg" where
  "GetAuditTransactionMsg session = session_args session (\<lambda>s.
     rd (srv_get_uint8 0 s) (\<lambda>oper.
     rd (srv_get_uint32 1 s) (\<lambda>sid.
     rd (srv_get_uint8 2 s) (\<lambda>drv.
     rd (srv_get_string 3 s) (\<lambda>ctr.
     let m = \<lparr>at_oper_type = to_msg oper, at_session_id = sid, at_driver_id = ucast drv,
              at_controller_id = ctr, at_start = None, at_audit_result = None,
              at_end_result = None\<rparr>
     in if to_msg oper = Some MSG_AUDIT_START
        then rd (srv_get_uint8 4 s) (\<lambda>reconnect.
             rd (srv_get_uint8 5 s) (\<lambda>audit_type.
             rd (srv_get_uint64 6 s) (\<lambda>number.
             rd (srv_get_uint64 7 s) (\<lambda>date.
             rd (srv_get_string 8 s) (\<lambda>app.
             Inr (m\<lparr>at_start := Some \<lparr>as_reconnect_controller = reconnect,
                       as_audit_type = audit_type, as_commit_number = number,
                       as_commit_date = date, as_commit_application = app\<rparr>\<rparr>))))))
        else if to_msg oper = Some MSG_AUDIT_END
        then rd (srv_get_uint8 4 s) (\<lambda>r. Inr (m\<lparr>at_audit_result := Some r\<rparr>))
        else if to_msg oper = Some MSG_AUDIT_TRANS_END
        then rd (srv_get_uint8 4 s) (\<lambda>r. Inr (m\<lparr>at_end_result := Some r\<rparr>))
        else Inr m)))))"

definition GetAuditDrvVoteGlobalMsg :: "ipc_state option \<Rightarrow> u32 + TcAuditDrvVoteGlobalMsg" where
  "GetAuditDrvVoteGlobalMsg session = session_args session (\<lambda>s.
     rd (srv_get_uint8 0 s) (\<lambda>oper.
     rd (srv_get_uint32 1 s) (\<lambda>sid.
     rd (srv_get_string 2 s) (\<lambda>ctr.
     rd (srv_get_uint8 3 s) (\<lambda>count.
     case read_ctr_list (unat count) 3 s of
       Inl e \<Rightarrow> Inl e
     | Inr cs \<Rightarrow> Inr \<lparr>av_oper_type = to_msg oper, av_session_id = sid, av_controller_id = ctr,
                       av_cntrl_count = count, av_cntrl_list = cs\<rparr>)))))"

definition GetAuditDrvResultMsg :: "ipc_state option \<Rightarrow> u32 + TcAuditDrvResultMsg" where
  "GetAuditDrvResultMsg session = session_args session (\<lambda>s.
     rd (srv_get_uint8 0 s) (\<lambda>oper.
     rd (srv_get_uint32 1 s) (\<lambda>sid.
     rd (srv_get_string 2 s) (\<lambda>ctr.
     rd (srv_get_uint8 3 s) (\<lambda>phase.
     Inr \<lparr>ar_oper_type = to_msg oper, ar_session_id = sid, ar_controller_id = ctr,
          ar_phase = phase\<rparr>)))))"

definition GetAuditGlobalAbortMsg :: "ipc_state option \<Rightarrow> u32 + TcAuditGlobalAbortMsg" where
  "GetAuditGlobalAbortMsg session = session_args session (\<lambda>s.
     rd (srv_get_uint8 0 s) (\<lambda>oper.
     rd (srv_get_uint32 1 s) (\<lambda>sid.
     rd (srv_get_uint8 2 s) (\<lambda>drv.
     rd (srv_get_string 3 s) (\<lambda>ctr.
     rd (srv_get_uint8 4 s) (\<lambda>phase.
     Inr \<lparr>aa_oper_type = to_msg oper, aa_session_id = sid, aa_driver_id = ucast drv,
          aa_controller_id = ctr, aa_audit_oper_phase = phase\<rparr>))))))"

definition GetAuditConfigMsg :: "ipc_state option \<Rightarrow> u32 + TcAuditConfigMsg" where
  "GetAuditConfigMsg session = session_args session (\<lambda>s.
     rd (srv_get_uint8 0 s) (\<lambda>db.
     rd (srv_get_uint8 1 s) (\<lambda>service.
     rd (srv_get_uint8 2 s) (\<lambda>mode.
     rd (srv_get_string 3 s) (\<lambda>vtn.
     rd (srv_get_uint64 4 s) (\<lambda>version.
     Inr \<lparr>ac_db_type = to_datatype (ucast db), ac_service_type = to_service (ucast service),
          ac_config_mode = to_config_mode (ucast mode), ac_vtn_name = vtn,
          ac_version = version\<rparr>))))))"

lemmas tclib_msg_defs = GetCommitTransactionMsg_def GetCommitDrvVoteGlobalMsg_def
  GetCommitDrvResultMsg_def GetCommitGlobalAbortMsg_def GetAuditTransactionMsg_def
  GetAuditDrvVoteGlobalMsg_def GetAuditDrvResultMsg_def GetAuditGlobalAbortMsg_def
  GetAuditConfigMsg_def


section \<open>Facts about reading\<close>

lemma rd_Inr [simp]: "rd (Inr a) f = f a"
  by (simp add: rd_def)

lemma rd_Inl [simp]: "rd (Inl e) f = Inl TC_FAILURE"
  by (simp add: rd_def)

lemma rd_eq_Inl: "rd x f = Inl e \<longleftrightarrow> (\<exists>u. x = Inl u) \<and> e = TC_FAILURE \<or> (\<exists>a. x = Inr a \<and> f a = Inl e)"
  by (cases x) auto

lemma rd_eq_Inr: "rd x f = Inr b \<longleftrightarrow> (\<exists>a. x = Inr a \<and> f a = Inr b)"
  by (cases x) auto

lemma session_args_Some [simp]:
  "srv_args s \<noteq> [] \<Longrightarrow> session_args (Some s) f = f s"
  by (simp add: session_args_def)

lemma session_args_None [simp]: "session_args None f = Inl TC_FAILURE"
  by (simp add: session_args_def)

lemma sum_map_eq:
  "(case x of Inl e \<Rightarrow> Inl e | Inr a \<Rightarrow> Inr (f a)) = Inl u \<longleftrightarrow> x = Inl u"
  "(case x of Inl e \<Rightarrow> Inl e | Inr a \<Rightarrow> Inr (f a)) = Inr b \<longleftrightarrow> (\<exists>a. x = Inr a \<and> b = f a)"
  by (cases x; auto)+

lemma read_ctr_list_error: "read_ctr_list n idx s = Inl e \<Longrightarrow> e = TC_FAILURE"
  by (induction n arbitrary: idx) (auto simp: rd_eq_Inl sum_map_eq)

lemma read_ctr_list_length: "read_ctr_list n idx s = Inr cs \<Longrightarrow> length cs = n"
  by (induction n arbitrary: idx cs) (auto simp: rd_eq_Inr sum_map_eq)

text \<open>An argument that is present and of the wanted type is what the getters return.\<close>

lemma srv_get_nth:
  assumes "unat i < length (srv_args s)"
  shows "srv_get pick i s =
    (case pick (srv_args s ! unat i) of None \<Rightarrow> Inl TCUTIL_RET_FAILURE | Some x \<Rightarrow> Inr x)"
  using assms by (simp add: srv_get_def Let_def)

lemma read_ctr_list_suffix:
  assumes "srv_args s = pre @ map IpcStr cs" and "unat idx + 1 = length pre"
    and "length pre + length cs < 2 ^ 32"
  shows "read_ctr_list (length cs) idx s = Inr cs"
  using assms
proof (induction cs arbitrary: pre idx)
  case Nil
  then show ?case by simp
next
  case (Cons c cs)
  from Cons.prems have idx: "unat (idx + 1) = length pre"
    by (subst unat_u32_succ) (auto dest: unat_u32_neq_max simp: unat_u32_neq_max)
  have "srv_get_string (idx + 1) s = Inr c"
    using Cons.prems(1) by (simp add: srv_get_string_def srv_get_nth idx nth_append)
  moreover have "read_ctr_list (length cs) (idx + 1) s = Inr cs"
    using Cons.prems idx by (intro Cons.IH [of "pre @ [IpcStr c]"]) auto
  ultimately show ?case by simp
qed

end
