(* ===== verification/TclibState.thy ===== *)
theory TclibState
  imports TclibMsg
begin

text \<open>
  The daemon side of the protocol, second part: the members of \<^verbatim>\<open>TcLibModule\<close>
  (\<^verbatim>\<open>modules/tclib/include/tclib_module.hh\<close>), the table of configuration sessions that the
  coordinator announces, the results of the drivers, the functions offered to the daemon, and
  the automata that accept the operation types of a commit and of an audit
  (\<^verbatim>\<open>modules/tclib/tclib_module.cc\<close>).

  The daemon is known to the library by the interface \<^verbatim>\<open>TcLibInterface\<close>, which it
  registers: its controller type, and one reaction to each call as a function of the state of the
  library and of the calls made so far. A reaction consists of the code returned, of the output
  parameters, and of the functions \<^verbatim>\<open>TcLibWrite...\<close> that the handler called, in order.

  The services run one at a time. \<open>tl_sess\<close> says that \<^verbatim>\<open>sess_\<close> is not \<^verbatim>\<open>NULL\<close>:
  the services that use it store the session of the request before they do, so what it points to
  is the server session held in \<open>tl_ipc\<close>.
\<close>

section \<open>State\<close>

datatype TcApiCommonRet =
    TC_API_COMMON_SUCCESS | TC_API_COMMON_FAILURE | TC_INVALID_PARAM | TC_HANDLER_ALREADY_ACTIVE
  | TC_INVALID_SESSION_ID | TC_INVALID_CONFIG_ID | TC_INVALID_MODE | TC_INVALID_CONTROLLER_ID
  | TC_INVALID_OPER_STATE | TC_INVALID_KEY_TYPE | TC_INVALID_KEY_DATA | TC_INVALID_VALUE_DATA
  | TC_INVALID_KEY_STDEF | TC_INVALID_VALUE_STDEF | TC_API_FATAL

record TcNotifyConfigData =
  nd_session_id :: u32
  nd_config_id :: u32
  nd_config_mode :: TcConfigMode
  nd_vtn_name :: string

record TcControllerResult =
  tr_controller_id :: string
  tr_resp_code :: u32
  tr_num_of_errors :: u32
  tr_key_list :: "u32 list"
  tr_commit_number :: u64
  tr_commit_date :: u64
  tr_commit_application :: string

type_synonym TcKeyTypeIndexMap = "(u32, u32) stdmap"
type_synonym TcDriverInfo = "(unc_keytype_ctrtype_t, string list) stdmap"

text \<open>The calls of the interface; overloaded names carry a suffix.\<close>

datatype tclib_call =
    HandleCommitTransactionStart u32 u32 TcConfigMode string
  | HandleCommitTransactionEnd u32 u32 TcConfigMode string "u8 option"
  | HandleCommitVoteRequest u32 u32 TcConfigMode string
  | HandleCommitVoteRequest_drv u32 u32 "string list"
  | HandleCommitGlobalCommit u32 u32 TcConfigMode string
  | HandleCommitGlobalCommit_drv u32 u32 "string list"
  | HandleCommitDriverResult u32 u32 TcConfigMode string u8 "TcControllerResult list"
  | HandleCommitGlobalAbort u32 u32 TcConfigMode string u8
  | HandleAuditStart u32 unc_keytype_ctrtype_t string u8 u64 u64 string
  | HandleAuditStart_drv u32 unc_keytype_ctrtype_t string u8 u8
  | HandleAuditEnd u32 unc_keytype_ctrtype_t string "u8 option"
  | HandleAuditTransactionStart u32 unc_keytype_ctrtype_t string
  | HandleAuditTransactionEnd u32 unc_keytype_ctrtype_t string "u8 option"
  | HandleAuditVoteRequest u32 unc_keytype_ctrtype_t string
  | HandleAuditVoteRequest_drv u32 string "string list"
  | HandleAuditGlobalCommit u32 unc_keytype_ctrtype_t string
  | HandleAuditGlobalCommit_drv u32 string "string list"
  | HandleAuditDriverResult u32 string u8 "TcControllerResult list"
  | HandleAuditCancel u32 unc_keytype_ctrtype_t string
  | HandleAuditGlobalAbort u32 unc_keytype_ctrtype_t string u8
  | HandleSaveConfiguration u32 u64
  | HandleAbortCandidate u32 u32 TcConfigMode string u64
  | HandleClearStartup u32
  | HandleAuditConfig unc_keytype_datatype_t TcServiceType TcConfigMode string u64
  | HandleSetup
  | HandleSetupComplete
  | HandleGetControllerType_id string

datatype tclib_write =
    WriteControllerInfo string u32 u32
  | WriteCommitInfo string u32 u32 u64 u64 string
  | WriteKeyValue string u32 "u8 list" "u8 list option"

record tclib_reply =
  hr_ret :: u32
  hr_driver_info :: TcDriverInfo
  hr_audit_result :: TcAuditResult
  hr_writes :: "tclib_write list"

record TcLibModule =
  pTcLibInterface :: "nat option"
  tl_sess :: bool
  tc_notify_config_data_map :: "(u32, TcNotifyConfigData) stdmap"
  controllerid :: string
  audit_in_progress :: bool
  oper_state :: TcMsgOperType
  key_map :: TcKeyTypeIndexMap
  controller_key_map :: "(string, TcKeyTypeIndexMap) stdmap"
  commit_phase_result :: "TcControllerResult list"
  auto_save_enabled :: u8
  request_counter :: u32
  handle_in_tclib :: bool
  tl_ipc :: ipc_state
  tl_calls :: "(tclib_call \<times> tclib_reply) list"

record TcLibInterface =
  if_type :: unc_keytype_ctrtype_t
  if_handle :: "TcLibModule \<Rightarrow> tclib_call \<Rightarrow> tclib_reply"

definition TcLibModule_new :: "ipc_state \<Rightarrow> TcLibModule" where
  "TcLibModule_new i =
     \<lparr>pTcLibInterface = None, tl_sess = False, tc_notify_config_data_map = [], controllerid = '''',
      audit_in_progress = False, oper_state = MSG_NONE, key_map = [], controller_key_map = [],
      commit_phase_result = [], auto_save_enabled = 0, request_counter = 0,
      handle_in_tclib = False, tl_ipc = i, tl_calls = []\<rparr>"

definition SetHandleCancelAuditInTclib :: "bool \<Rightarrow> TcLibModule \<Rightarrow> TcLibModule" where
  "SetHandleCancelAuditInTclib b st = st\<lparr>handle_in_tclib := b\<rparr>"

definition IsHandleCancelAuditInTclib :: "TcLibModule \<Rightarrow> bool" where
  "IsHandleCancelAuditInTclib st = handle_in_tclib st"

definition ReleaseTransactionResources :: "TcLibModule \<Rightarrow> TcLibModule" where
  "ReleaseTransactionResources st =
     SetHandleCancelAuditInTclib False
       (st\<lparr>oper_state := MSG_NONE, key_map := [], controller_key_map := [],
           commit_phase_result := []\<rparr>)"

definition TcLibRegisterHandler :: "nat option \<Rightarrow> TcLibModule \<Rightarrow> TcApiCommonRet \<times> TcLibModule" where
  "TcLibRegisterHandler handler st =
     (case handler of
        None \<Rightarrow> (TC_INVALID_PARAM, st)
      | Some h \<Rightarrow>
          if pTcLibInterface st = None
          then (TC_API_COMMON_SUCCESS, st\<lparr>pTcLibInterface := Some h\<rparr>)
          else (TC_HANDLER_ALREADY_ACTIVE, st))"

definition TcLib_init :: "TcLibModule \<Rightarrow> bool \<times> TcLibModule" where
  "TcLib_init st = (True, st)"

definition TcLib_fini :: "TcLibModule \<Rightarrow> bool \<times> TcLibModule" where
  "TcLib_fini st =
     (True, st\<lparr>pTcLibInterface := None, tl_sess := False, tc_notify_config_data_map := [],
               oper_state := MSG_NONE, audit_in_progress := False, key_map := [],
               controller_key_map := [], commit_phase_result := []\<rparr>)"

definition TcLib_GetControllerType :: "TcLibInterface \<Rightarrow> TcLibModule \<Rightarrow> unc_keytype_ctrtype_t" where
  "TcLib_GetControllerType I st =
     (if pTcLibInterface st = None then UNC_CT_UNKNOWN else if_type I)"

definition IsStartupConfigValid :: "TcLibModule \<Rightarrow> bool" where
  "IsStartupConfigValid st \<longleftrightarrow> auto_save_enabled st = 0"

text \<open>The session \<^verbatim>\<open>sess_\<close> as an argument.\<close>

definition sess_of :: "TcLibModule \<Rightarrow> ipc_state option" where
  "sess_of st = (if tl_sess st then Some (tl_ipc st) else None)"

text \<open>Writing to \<^verbatim>\<open>sess_\<close>; the helpers refuse a \<^verbatim>\<open>NULL\<close> session.\<close>

definition put_sess :: "ipc_env \<Rightarrow> ipc_value \<Rightarrow> TcLibModule \<Rightarrow> TcUtilRet \<times> TcLibModule" where
  "put_sess E v st =
     (if tl_sess st
      then (let (r, i) = srv_add_output E v (tl_ipc st) in (r, st\<lparr>tl_ipc := i\<rparr>))
      else (TCUTIL_RET_FAILURE, st))"

text \<open>A sequence of writes, stopping at the first that fails.\<close>

fun put_values :: "ipc_env \<Rightarrow> ipc_value list \<Rightarrow> TcLibModule \<Rightarrow> bool \<times> TcLibModule" where
  "put_values E [] st = (True, st)"
| "put_values E (v # vs) st =
     (case put_sess E v st of
        (r, st1) \<Rightarrow> if r \<noteq> TCUTIL_RET_SUCCESS then (False, st1) else put_values E vs st1)"


section \<open>Configuration sessions\<close>

text \<open>The identifier, the mode and the name of the VTN of a session.\<close>

definition TcLib_GetConfigData ::
  "TcLibInterface \<Rightarrow> u32 \<Rightarrow> TcLibModule \<Rightarrow> u32 \<times> u32 \<times> TcConfigMode \<times> string" where
  "TcLib_GetConfigData I sid st =
     (if TcLib_GetControllerType I st = UNC_CT_UNKNOWN
      then case map_of (tc_notify_config_data_map st) sid of
          None \<Rightarrow> (TC_FAILURE, 0, TC_CONFIG_INVALID, '''')
        | Some d \<Rightarrow> (TC_SUCCESS, nd_config_id d, nd_config_mode d, nd_vtn_name d)
      else (TC_SUCCESS, 0, TC_CONFIG_INVALID, ''''))"

definition TcLibValidateUpdateMsg ::
  "TcLibInterface \<Rightarrow> u32 \<Rightarrow> u32 \<Rightarrow> TcConfigMode \<Rightarrow> string \<Rightarrow> TcLibModule \<Rightarrow> TcApiCommonRet" where
  "TcLibValidateUpdateMsg I sid cid mode vtn st =
     (case TcLib_GetConfigData I sid st of
        (ret, vcid, vmode, vvtn) \<Rightarrow>
          if ret \<noteq> TC_SUCCESS then TC_INVALID_SESSION_ID
          else if vcid = 0 \<or> cid = 0 \<or> vcid \<noteq> cid then TC_INVALID_CONFIG_ID
          else if vmode = TC_CONFIG_GLOBAL then TC_API_COMMON_SUCCESS
          else if mode \<noteq> vmode then TC_INVALID_MODE
          else if mode = TC_CONFIG_VTN \<and> vtn \<noteq> vvtn then TC_INVALID_MODE
          else TC_API_COMMON_SUCCESS)"

definition TcLibGetSessionAttributes ::
  "u32 \<Rightarrow> TcLibModule \<Rightarrow> TcApiCommonRet \<times> u32 \<times> TcConfigMode \<times> string" where
  "TcLibGetSessionAttributes sid st =
     (case map_of (tc_notify_config_data_map st) sid of
        None \<Rightarrow> (TC_INVALID_SESSION_ID, 0, TC_CONFIG_INVALID, '''')
      | Some d \<Rightarrow>
          (TC_API_COMMON_SUCCESS, nd_config_id d, nd_config_mode d,
           if nd_config_mode d = TC_CONFIG_VTN then nd_vtn_name d else ''''))"

definition TcLibGetConfigMode ::
  "u32 \<Rightarrow> u32 \<Rightarrow> TcLibModule \<Rightarrow> TcApiCommonRet \<times> TcConfigMode \<times> string" where
  "TcLibGetConfigMode sid cid st =
     (case map_of (tc_notify_config_data_map st) sid of
        None \<Rightarrow> (TC_INVALID_SESSION_ID, TC_CONFIG_INVALID, '''')
      | Some d \<Rightarrow>
          if cid \<noteq> nd_config_id d then (TC_INVALID_CONFIG_ID, TC_CONFIG_INVALID, '''')
          else (TC_API_COMMON_SUCCESS, nd_config_mode d, nd_vtn_name d))"

definition UpdateNotifyConfigData ::
  "u32 \<Rightarrow> u32 \<Rightarrow> TcConfigMode \<Rightarrow> string \<Rightarrow> TcLibModule \<Rightarrow> u32 \<times> TcLibModule" where
  "UpdateNotifyConfigData sid cid mode vtn st =
     (let m = (if mode = TC_CONFIG_GLOBAL \<and> cid \<noteq> 0 then [] else tc_notify_config_data_map st)
      in (TC_SUCCESS, st\<lparr>tc_notify_config_data_map :=
            sm_put sid \<lparr>nd_session_id = sid, nd_config_id = cid, nd_config_mode = mode,
                        nd_vtn_name = vtn\<rparr> m\<rparr>))"


section \<open>The automata of the operation types\<close>

fun ValidateUpllUpplCommitSequence :: "TcMsgOperType \<Rightarrow> TcLibModule \<Rightarrow> bool" where
  "ValidateUpllUpplCommitSequence MSG_COMMIT_TRANS_START st \<longleftrightarrow> oper_state st = MSG_NONE"
| "ValidateUpllUpplCommitSequence MSG_COMMIT_VOTE st \<longleftrightarrow> oper_state st = MSG_COMMIT_TRANS_START"
| "ValidateUpllUpplCommitSequence MSG_COMMIT_VOTE_DRIVER_RESULT st \<longleftrightarrow> oper_state st = MSG_COMMIT_VOTE"
| "ValidateUpllUpplCommitSequence MSG_COMMIT_GLOBAL st \<longleftrightarrow>
     oper_state st = MSG_COMMIT_VOTE_DRIVER_RESULT \<or> oper_state st = MSG_COMMIT_VOTE"
| "ValidateUpllUpplCommitSequence MSG_COMMIT_GLOBAL_DRIVER_RESULT st \<longleftrightarrow>
     oper_state st = MSG_COMMIT_GLOBAL"
| "ValidateUpllUpplCommitSequence MSG_COMMIT_TRANS_END st \<longleftrightarrow>
     oper_state st = MSG_COMMIT_GLOBAL_DRIVER_RESULT \<or> oper_state st = MSG_COMMIT_TRANS_START \<or>
     oper_state st = MSG_COMMIT_VOTE \<or> oper_state st = MSG_COMMIT_GLOBAL \<or>
     oper_state st = MSG_COMMIT_ABORT"
| "ValidateUpllUpplCommitSequence MSG_COMMIT_ABORT st \<longleftrightarrow>
     oper_state st = MSG_COMMIT_VOTE \<or> oper_state st = MSG_COMMIT_VOTE_DRIVER_RESULT"
| "ValidateUpllUpplCommitSequence _ st \<longleftrightarrow> False"

fun ValidateDriverCommitSequence :: "TcMsgOperType \<Rightarrow> TcLibModule \<Rightarrow> bool" where
  "ValidateDriverCommitSequence MSG_COMMIT_TRANS_START st \<longleftrightarrow> oper_state st = MSG_NONE"
| "ValidateDriverCommitSequence MSG_COMMIT_DRIVER_VOTE st \<longleftrightarrow> oper_state st = MSG_COMMIT_TRANS_START"
| "ValidateDriverCommitSequence MSG_COMMIT_DRIVER_GLOBAL st \<longleftrightarrow>
     oper_state st = MSG_COMMIT_DRIVER_VOTE"
| "ValidateDriverCommitSequence MSG_COMMIT_TRANS_END st \<longleftrightarrow>
     oper_state st = MSG_COMMIT_DRIVER_GLOBAL \<or> oper_state st = MSG_COMMIT_DRIVER_VOTE \<or>
     oper_state st = MSG_COMMIT_TRANS_START \<or> oper_state st = MSG_COMMIT_ABORT"
| "ValidateDriverCommitSequence MSG_COMMIT_ABORT st \<longleftrightarrow> oper_state st = MSG_COMMIT_DRIVER_VOTE"
| "ValidateDriverCommitSequence _ st \<longleftrightarrow> False"

definition ValidateCommitOperSequence ::
  "TcLibInterface \<Rightarrow> TcMsgOperType \<Rightarrow> TcLibModule \<Rightarrow> bool" where
  "ValidateCommitOperSequence I oper st \<longleftrightarrow>
     (if TcLib_GetControllerType I st = UNC_CT_UNKNOWN
      then ValidateUpllUpplCommitSequence oper st else ValidateDriverCommitSequence oper st)"

fun ValidateUpllUpplAuditSequence :: "TcMsgOperType \<Rightarrow> TcLibModule \<Rightarrow> bool" where
  "ValidateUpllUpplAuditSequence MSG_AUDIT_START st \<longleftrightarrow>
     oper_state st = MSG_NONE \<or> oper_state st = MSG_AUDIT_CANCEL"
| "ValidateUpllUpplAuditSequence MSG_AUDIT_TRANS_START st \<longleftrightarrow>
     oper_state st = MSG_AUDIT_START \<or> oper_state st = MSG_AUDIT_CANCEL"
| "ValidateUpllUpplAuditSequence MSG_AUDIT_VOTE st \<longleftrightarrow>
     oper_state st = MSG_AUDIT_TRANS_START \<or> oper_state st = MSG_AUDIT_CANCEL"
| "ValidateUpllUpplAuditSequence MSG_AUDIT_VOTE_DRIVER_RESULT st \<longleftrightarrow>
     oper_state st = MSG_AUDIT_VOTE \<or> oper_state st = MSG_AUDIT_CANCEL"
| "ValidateUpllUpplAuditSequence MSG_AUDIT_GLOBAL st \<longleftrightarrow> oper_state st = MSG_AUDIT_VOTE_DRIVER_RESULT"
| "ValidateUpllUpplAuditSequence MSG_AUDIT_GLOBAL_DRIVER_RESULT st \<longleftrightarrow> oper_state st = MSG_AUDIT_GLOBAL"
| "ValidateUpllUpplAuditSequence MSG_AUDIT_CANCEL st \<longleftrightarrow>
     oper_state st = MSG_AUDIT_START \<or> oper_state st = MSG_AUDIT_TRANS_START \<or>
     oper_state st = MSG_AUDIT_VOTE \<or> oper_state st = MSG_AUDIT_VOTE_DRIVER_RESULT"
| "ValidateUpllUpplAuditSequence MSG_AUDIT_TRANS_END st \<longleftrightarrow>
     oper_state st = MSG_AUDIT_GLOBAL_DRIVER_RESULT \<or> oper_state st = MSG_AUDIT_TRANS_START \<or>
     oper_state st = MSG_AUDIT_VOTE \<or> oper_state st = MSG_AUDIT_ABORT \<or>
     oper_state st = MSG_AUDIT_CANCEL"
| "ValidateUpllUpplAuditSequence MSG_AUDIT_END st \<longleftrightarrow>
     oper_state st = MSG_AUDIT_START \<or> oper_state st = MSG_AUDIT_TRANS_START \<or>
     oper_state st = MSG_AUDIT_VOTE \<or> oper_state st = MSG_AUDIT_VOTE_DRIVER_RESULT \<or>
     oper_state st = MSG_AUDIT_TRANS_END \<or> oper_state st = MSG_AUDIT_CANCEL"
| "ValidateUpllUpplAuditSequence MSG_AUDIT_ABORT st \<longleftrightarrow>
     oper_state st = MSG_AUDIT_VOTE \<or> oper_state st = MSG_AUDIT_VOTE_DRIVER_RESULT \<or>
     oper_state st = MSG_AUDIT_CANCEL"
| "ValidateUpllUpplAuditSequence _ st \<longleftrightarrow> False"

fun ValidateDriverAuditSequence :: "TcMsgOperType \<Rightarrow> TcLibModule \<Rightarrow> bool" where
  "ValidateDriverAuditSequence MSG_AUDIT_START st \<longleftrightarrow>
     audit_in_progress st \<and> (oper_state st = MSG_NONE \<or> oper_state st = MSG_AUDIT_CANCEL)"
| "ValidateDriverAuditSequence MSG_AUDIT_TRANS_START st \<longleftrightarrow>
     (if audit_in_progress st
      then oper_state st = MSG_AUDIT_START \<or> oper_state st = MSG_AUDIT_CANCEL
      else oper_state st = MSG_NONE)"
| "ValidateDriverAuditSequence MSG_AUDIT_DRIVER_VOTE st \<longleftrightarrow>
     oper_state st = MSG_AUDIT_TRANS_START \<or> oper_state st = MSG_AUDIT_CANCEL"
| "ValidateDriverAuditSequence MSG_AUDIT_CANCEL st \<longleftrightarrow>
     oper_state st = MSG_AUDIT_START \<or> oper_state st = MSG_AUDIT_TRANS_START \<or>
     oper_state st = MSG_AUDIT_DRIVER_VOTE"
| "ValidateDriverAuditSequence MSG_AUDIT_DRIVER_GLOBAL st \<longleftrightarrow> oper_state st = MSG_AUDIT_DRIVER_VOTE"
| "ValidateDriverAuditSequence MSG_AUDIT_TRANS_END st \<longleftrightarrow>
     oper_state st = MSG_AUDIT_DRIVER_GLOBAL \<or> oper_state st = MSG_AUDIT_TRANS_START \<or>
     oper_state st = MSG_AUDIT_DRIVER_VOTE \<or> oper_state st = MSG_AUDIT_ABORT \<or>
     oper_state st = MSG_AUDIT_CANCEL"
| "ValidateDriverAuditSequence MSG_AUDIT_END st \<longleftrightarrow>
     audit_in_progress st \<and>
     (oper_state st = MSG_AUDIT_START \<or> oper_state st = MSG_AUDIT_TRANS_START \<or>
      oper_state st = MSG_AUDIT_VOTE \<or> oper_state st = MSG_AUDIT_DRIVER_VOTE \<or>
      oper_state st = MSG_AUDIT_VOTE_DRIVER_RESULT \<or> oper_state st = MSG_AUDIT_TRANS_END \<or>
      oper_state st = MSG_AUDIT_CANCEL)"
| "ValidateDriverAuditSequence MSG_AUDIT_ABORT st \<longleftrightarrow>
     oper_state st = MSG_AUDIT_DRIVER_VOTE \<or> oper_state st = MSG_AUDIT_CANCEL"
| "ValidateDriverAuditSequence _ st \<longleftrightarrow> False"

text \<open>A cancellation in the idle state is remembered.\<close>

definition ValidateAuditOperSequence ::
  "TcLibInterface \<Rightarrow> TcMsgOperType \<Rightarrow> TcLibModule \<Rightarrow> bool \<times> TcLibModule" where
  "ValidateAuditOperSequence I oper st =
     (let st1 = (if oper = MSG_AUDIT_CANCEL \<and> oper_state st = MSG_NONE
                 then SetHandleCancelAuditInTclib True st else st)
      in (if TcLib_GetControllerType I st1 = UNC_CT_UNKNOWN
          then ValidateUpllUpplAuditSequence oper st1 else ValidateDriverAuditSequence oper st1,
          st1))"

definition commit_types :: "TcMsgOperType list" where
  "commit_types =
     [MSG_COMMIT_TRANS_START, MSG_COMMIT_VOTE, MSG_COMMIT_DRIVER_VOTE,
      MSG_COMMIT_VOTE_DRIVER_RESULT, MSG_COMMIT_GLOBAL, MSG_COMMIT_DRIVER_GLOBAL,
      MSG_COMMIT_GLOBAL_DRIVER_RESULT, MSG_COMMIT_TRANS_END, MSG_COMMIT_ABORT]"

definition audit_types :: "TcMsgOperType list" where
  "audit_types =
     [MSG_AUDIT_START, MSG_AUDIT_TRANS_START, MSG_AUDIT_VOTE, MSG_AUDIT_DRIVER_VOTE,
      MSG_AUDIT_VOTE_DRIVER_RESULT, MSG_AUDIT_GLOBAL, MSG_AUDIT_DRIVER_GLOBAL,
      MSG_AUDIT_GLOBAL_DRIVER_RESULT, MSG_AUDIT_TRANS_END, MSG_AUDIT_END, MSG_AUDIT_ABORT,
      MSG_AUDIT_CANCEL]"

text \<open>
  The state follows the operation type even when the automaton refuses it; only an unexpected
  cancellation leaves it as it is, and is reported as a success.
\<close>

definition ValidateOperTypeSequence ::
  "TcLibInterface \<Rightarrow> TcMsgOperType option \<Rightarrow> TcLibModule \<Rightarrow> u32 \<times> TcLibModule" where
  "ValidateOperTypeSequence I oper st =
     (case oper of
        None \<Rightarrow> (TC_FAILURE, st)
      | Some t \<Rightarrow>
          if t \<in> set commit_types
          then (if ValidateCommitOperSequence I t st then TC_SUCCESS else TC_FAILURE,
                st\<lparr>oper_state := t\<rparr>)
          else if t \<in> set audit_types
          then (case ValidateAuditOperSequence I t st of
                  (ok, st1) \<Rightarrow>
                    if \<not> ok \<and> t = MSG_AUDIT_CANCEL then (TC_SUCCESS, st1)
                    else (if ok then TC_SUCCESS else TC_FAILURE, st1\<lparr>oper_state := t\<rparr>))
          else (TC_FAILURE, st))"

fun IsReadKeyValueAllowed :: "TcMsgOperType \<Rightarrow> bool" where
  "IsReadKeyValueAllowed MSG_COMMIT_VOTE_DRIVER_RESULT \<longleftrightarrow> True"
| "IsReadKeyValueAllowed MSG_COMMIT_GLOBAL_DRIVER_RESULT \<longleftrightarrow> True"
| "IsReadKeyValueAllowed MSG_AUDIT_VOTE_DRIVER_RESULT \<longleftrightarrow> True"
| "IsReadKeyValueAllowed MSG_AUDIT_GLOBAL_DRIVER_RESULT \<longleftrightarrow> True"
| "IsReadKeyValueAllowed _ \<longleftrightarrow> False"

fun IsWriteKeyValueAllowed :: "TcMsgOperType \<Rightarrow> bool" where
  "IsWriteKeyValueAllowed MSG_COMMIT_TRANS_START \<longleftrightarrow> True"
| "IsWriteKeyValueAllowed MSG_COMMIT_DRIVER_VOTE \<longleftrightarrow> True"
| "IsWriteKeyValueAllowed MSG_COMMIT_DRIVER_GLOBAL \<longleftrightarrow> True"
| "IsWriteKeyValueAllowed MSG_COMMIT_VOTE_DRIVER_RESULT \<longleftrightarrow> True"
| "IsWriteKeyValueAllowed MSG_COMMIT_GLOBAL_DRIVER_RESULT \<longleftrightarrow> True"
| "IsWriteKeyValueAllowed MSG_AUDIT_TRANS_START \<longleftrightarrow> True"
| "IsWriteKeyValueAllowed MSG_AUDIT_DRIVER_VOTE \<longleftrightarrow> True"
| "IsWriteKeyValueAllowed MSG_AUDIT_DRIVER_GLOBAL \<longleftrightarrow> True"
| "IsWriteKeyValueAllowed MSG_AUDIT_VOTE_DRIVER_RESULT \<longleftrightarrow> True"
| "IsWriteKeyValueAllowed MSG_AUDIT_GLOBAL_DRIVER_RESULT \<longleftrightarrow> True"
| "IsWriteKeyValueAllowed _ \<longleftrightarrow> False"

end
