(* ===== verification/TclibResults.thy ===== *)
theory TclibResults
  imports TclibState
begin

text \<open>
  The daemon side of the protocol, third part: the functions with which a handler writes its
  results into the session and reads those of the drivers, and the analysis of the results that
  the coordinator forwards (\<^verbatim>\<open>UpdateControllerKeyList\<close>). Positions in a session are natural
  numbers here: a session has fewer than \<open>2 ^ 32\<close> arguments.
\<close>

section \<open>Writing results\<close>

definition TcLibWriteControllerInfo ::
  "ipc_env \<Rightarrow> string \<Rightarrow> u32 \<Rightarrow> u32 \<Rightarrow> TcLibModule \<Rightarrow> TcApiCommonRet \<times> TcLibModule" where
  "TcLibWriteControllerInfo E ctr resp errors st =
     (if oper_state st = MSG_NONE then (TC_INVALID_OPER_STATE, st)
      else case put_values E [IpcStr ctr, IpcU32 resp, IpcU32 errors] st of
          (False, st1) \<Rightarrow> (TC_API_COMMON_FAILURE, st1)
        | (True, st1) \<Rightarrow> (TC_API_COMMON_SUCCESS, st1\<lparr>controllerid := ctr\<rparr>))"

definition TcLibWriteControllerInfo_commit ::
  "ipc_env \<Rightarrow> string \<Rightarrow> u32 \<Rightarrow> u32 \<Rightarrow> u64 \<Rightarrow> u64 \<Rightarrow> string \<Rightarrow> TcLibModule
     \<Rightarrow> TcApiCommonRet \<times> TcLibModule" where
  "TcLibWriteControllerInfo_commit E ctr resp errors number date app st =
     (if oper_state st = MSG_NONE then (TC_INVALID_OPER_STATE, st)
      else case put_values E [IpcStr ctr, IpcU32 resp, IpcU32 errors, IpcU64 number, IpcU64 date,
                           IpcStr app] st of
          (False, st1) \<Rightarrow> (TC_API_COMMON_FAILURE, st1)
        | (True, st1) \<Rightarrow> (TC_API_COMMON_SUCCESS, st1\<lparr>controllerid := ctr\<rparr>))"

definition TcLibWriteKeyValueDataInfo ::
  "ipc_env \<Rightarrow> string \<Rightarrow> u32 \<Rightarrow> u8 list \<Rightarrow> u8 list option \<Rightarrow> TcLibModule
     \<Rightarrow> TcApiCommonRet \<times> TcLibModule" where
  "TcLibWriteKeyValueDataInfo E ctr key_type key val st =
     (if oper_state st = MSG_NONE then (TC_INVALID_OPER_STATE, st)
      else if controllerid st \<noteq> ctr then (TC_INVALID_CONTROLLER_ID, st)
      else case put_values E ([IpcU32 key_type, IpcStruct key] @
                  (case val of None \<Rightarrow> [] | Some v \<Rightarrow> [IpcStruct v])) st of
          (False, st1) \<Rightarrow> (TC_API_COMMON_FAILURE, st1)
        | (True, st1) \<Rightarrow> (TC_API_COMMON_SUCCESS, st1))"

text \<open>The writes of a handler; their results do not matter to the library.\<close>

fun do_write :: "ipc_env \<Rightarrow> tclib_write \<Rightarrow> TcLibModule \<Rightarrow> TcLibModule" where
  "do_write E (WriteControllerInfo ctr resp errors) st =
     snd (TcLibWriteControllerInfo E ctr resp errors st)"
| "do_write E (WriteCommitInfo ctr resp errors number date app) st =
     snd (TcLibWriteControllerInfo_commit E ctr resp errors number date app st)"
| "do_write E (WriteKeyValue ctr kt k v) st = snd (TcLibWriteKeyValueDataInfo E ctr kt k v st)"

definition call_handler ::
  "ipc_env \<Rightarrow> TcLibInterface \<Rightarrow> tclib_call \<Rightarrow> TcLibModule \<Rightarrow> tclib_reply \<times> TcLibModule" where
  "call_handler E I c st =
     (let r = if_handle I st c
      in (r, fold (do_write E) (hr_writes r) (st\<lparr>tl_calls := tl_calls st @ [(c, r)]\<rparr>)))"


section \<open>Reading results\<close>

definition GetKeyIndex :: "string \<Rightarrow> u32 \<Rightarrow> TcLibModule \<Rightarrow> TcApiCommonRet + u32" where
  "GetKeyIndex ctr err_pos st =
     (if controller_key_map st = [] then Inl TC_INVALID_CONTROLLER_ID
      else case map_of (controller_key_map st) ctr of
          None \<Rightarrow> Inl TC_INVALID_PARAM
        | Some m \<Rightarrow>
            if m = [] then Inl TC_INVALID_KEY_TYPE
            else (case map_of m err_pos of None \<Rightarrow> Inl TC_INVALID_PARAM | Some i \<Rightarrow> Inr i))"

text \<open>A reader of \<^verbatim>\<open>sess_\<close>.\<close>

definition get_sess :: "(ipc_state \<Rightarrow> TcUtilRet + 'a) \<Rightarrow> TcLibModule \<Rightarrow> 'a option" where
  "get_sess f st =
     (if tl_sess st then (case f (tl_ipc st) of Inl _ \<Rightarrow> None | Inr x \<Rightarrow> Some x) else None)"

text \<open>The key, and the value when the caller provides room for it.\<close>

definition TcLibReadKeyValueDataInfo ::
  "string \<Rightarrow> u32 \<Rightarrow> u32 \<Rightarrow> bool \<Rightarrow> TcLibModule \<Rightarrow> TcApiCommonRet + u8 list \<times> u8 list option" where
  "TcLibReadKeyValueDataInfo ctr err_pos key_type want_value st =
     (if \<not> IsReadKeyValueAllowed (oper_state st) then Inl TC_INVALID_OPER_STATE
      else case GetKeyIndex ctr err_pos st of
          Inl r \<Rightarrow> Inl r
        | Inr idx \<Rightarrow>
            (case get_sess (srv_get_uint32 idx) st of
               None \<Rightarrow> Inl TC_API_COMMON_FAILURE
             | Some local_key_type \<Rightarrow>
                 if key_type \<noteq> local_key_type then Inl TC_INVALID_KEY_TYPE
                 else (case get_sess (srv_get_struct (idx + 1)) st of
                         None \<Rightarrow> Inl TC_API_COMMON_FAILURE
                       | Some key \<Rightarrow>
                           if want_value
                           then (case get_sess (srv_get_struct (idx + 2)) st of
                                   None \<Rightarrow> Inl TC_API_COMMON_FAILURE
                                 | Some val \<Rightarrow> Inr (key, Some val))
                           else Inr (key, None))))"


section \<open>The results of the drivers\<close>

datatype pfc_ipctype =
    PFC_IPCTYPE_UINT8 | PFC_IPCTYPE_UINT32 | PFC_IPCTYPE_UINT64 | PFC_IPCTYPE_INT32
  | PFC_IPCTYPE_STRING | PFC_IPCTYPE_STRUCT | PFC_IPCTYPE_OTHER u8

fun getArgType :: "ipc_value \<Rightarrow> pfc_ipctype" where
  "getArgType (IpcU8 _) = PFC_IPCTYPE_UINT8" | "getArgType (IpcU32 _) = PFC_IPCTYPE_UINT32"
| "getArgType (IpcU64 _) = PFC_IPCTYPE_UINT64" | "getArgType (IpcI32 _) = PFC_IPCTYPE_INT32"
| "getArgType (IpcStr _) = PFC_IPCTYPE_STRING" | "getArgType (IpcStruct _) = PFC_IPCTYPE_STRUCT"
| "getArgType (IpcOther n) = PFC_IPCTYPE_OTHER n"

text \<open>The next position after \<open>cur\<close> of an argument of the type, or 0.\<close>

function GetMatchTypeIndex :: "ipc_value list \<Rightarrow> nat \<Rightarrow> pfc_ipctype \<Rightarrow> nat" where
  "GetMatchTypeIndex args cur t =
     (if cur < length args
      then if Suc cur < length args
           then if getArgType (args ! Suc cur) \<noteq> t then GetMatchTypeIndex args (Suc cur) t
                else Suc cur
           else 0
      else cur)"
  by pat_completeness auto
termination
  by (relation "measure (\<lambda>(args, cur, t). length args - cur)") auto

declare GetMatchTypeIndex.simps [simp del]

text \<open>
  One controller, whose name is at \<open>idx\<close>: the result and the position of the last argument
  read. The commit information is looked for at the next 64-bit argument, wherever that is.
\<close>

definition read_result :: "ipc_state \<Rightarrow> nat \<Rightarrow> u32 + TcControllerResult \<times> nat" where
  "read_result s idx =
     rd (srv_get_string (word_of_nat idx) s) (\<lambda>ctr.
     rd (srv_get_uint32 (word_of_nat (idx + 1)) s) (\<lambda>resp.
     rd (srv_get_uint32 (word_of_nat (idx + 2)) s) (\<lambda>errors.
     let res = \<lparr>tr_controller_id = ctr, tr_resp_code = resp, tr_num_of_errors = errors,
                tr_key_list = [], tr_commit_number = 0, tr_commit_date = 0,
                tr_commit_application = ''''\<rparr>;
         i = GetMatchTypeIndex (srv_args s) (idx + 2) PFC_IPCTYPE_UINT64
     in if i \<noteq> 0
        then rd (srv_get_uint64 (word_of_nat i) s) (\<lambda>number.
             rd (srv_get_uint64 (word_of_nat (i + 1)) s) (\<lambda>date.
             rd (srv_get_string (word_of_nat (i + 2)) s) (\<lambda>app.
             Inr (res\<lparr>tr_commit_number := number, tr_commit_date := date,
                      tr_commit_application := app\<rparr>, i + 2))))
        else Inr (res, idx + 2))))"

datatype key_outcome = KeysDone | KeysEnd | KeysFail

text \<open>
  The keys of a controller with errors: the \<open>n\<close> that are left, the number of the next, the
  position, \<^verbatim>\<open>key_map_\<close> and the keys read.
\<close>

primrec read_keys ::
  "ipc_state \<Rightarrow> nat \<Rightarrow> u32 \<Rightarrow> nat \<Rightarrow> TcKeyTypeIndexMap \<Rightarrow> u32 list
     \<Rightarrow> key_outcome \<times> TcKeyTypeIndexMap \<times> u32 list \<times> nat" where
  "read_keys s 0 err_count idx km ks = (KeysDone, km, ks, idx)"
| "read_keys s (Suc n) err_count idx km ks =
     (let i = GetMatchTypeIndex (srv_args s) idx PFC_IPCTYPE_UINT32
      in if i = 0 then (KeysEnd, km, ks, i)
         else case srv_get_uint32 (word_of_nat i) s of
             Inl _ \<Rightarrow> (KeysFail, km, ks, i)
           | Inr kt \<Rightarrow> read_keys s n (err_count + 1) i (sm_put err_count (word_of_nat i) km)
                         (ks @ [kt]))"

text \<open>\<^verbatim>\<open>std::map::insert\<close> keeps an entry that is there.\<close>

definition sm_insert :: "'k::linorder \<Rightarrow> 'v \<Rightarrow> ('k, 'v) stdmap \<Rightarrow> ('k, 'v) stdmap" where
  "sm_insert k v m = (if map_of m k = None then sm_put k v m else m)"

lemma GetMatchTypeIndex_gt:
  "0 < GetMatchTypeIndex args cur t \<Longrightarrow> cur < length args \<Longrightarrow> cur < GetMatchTypeIndex args cur t"
proof (induction args cur t rule: GetMatchTypeIndex.induct)
  case (1 args cur t)
  then show ?case
    by (auto simp: GetMatchTypeIndex.simps [of args cur t] split: if_splits)
qed

lemma GetMatchTypeIndex_ge: "0 < GetMatchTypeIndex args cur t \<Longrightarrow> cur \<le> GetMatchTypeIndex args cur t"
  using GetMatchTypeIndex_gt [of args cur t]
  by (cases "cur < length args") (simp_all add: GetMatchTypeIndex.simps [of args cur t])

lemma read_result_gt: "read_result s idx = Inr (res, j) \<Longrightarrow> idx < j"
  by (fastforce simp: read_result_def rd_eq_Inr Let_def split: if_splits dest: GetMatchTypeIndex_ge)

lemma read_keys_ge: "read_keys s n e idx km ks = (KeysDone, km', ks', k) \<Longrightarrow> idx \<le> k"
proof (induction n arbitrary: e idx km ks)
  case (Suc n)
  then show ?case
    by (fastforce simp: Let_def split: if_splits sum.splits dest: GetMatchTypeIndex_ge)
qed simp

function update_loop :: "ipc_state \<Rightarrow> nat \<Rightarrow> TcLibModule \<Rightarrow> u32 \<times> TcLibModule" where
  "update_loop s idx st =
     (if idx < length (srv_args s)
      then let i = GetMatchTypeIndex (srv_args s) idx PFC_IPCTYPE_STRING
           in if i = 0 then (TC_SUCCESS, st)
              else case read_result s i of
                  Inl e \<Rightarrow> (e, st)
                | Inr (res, j) \<Rightarrow>
                    if tr_num_of_errors res = 0
                    then update_loop s j
                           (st\<lparr>commit_phase_result := commit_phase_result st @ [res]\<rparr>)
                    else (case read_keys s (unat (tr_num_of_errors res)) 0 j [] [] of
                            (KeysEnd, km, ks, k) \<Rightarrow> (TC_SUCCESS, st\<lparr>key_map := km\<rparr>)
                          | (KeysFail, km, ks, k) \<Rightarrow> (TC_FAILURE, st\<lparr>key_map := km\<rparr>)
                          | (KeysDone, km, ks, k) \<Rightarrow>
                              update_loop s k
                                (st\<lparr>key_map := km,
                                    controller_key_map :=
                                      sm_insert (tr_controller_id res) km (controller_key_map st),
                                    commit_phase_result :=
                                      commit_phase_result st @ [res\<lparr>tr_key_list := ks\<rparr>]\<rparr>))
      else (TC_SUCCESS, st))"
  by pat_completeness auto
termination
  by (relation "measure (\<lambda>(s, idx, st). length (srv_args s) - idx)")
    (auto dest!: read_result_gt read_keys_ge [OF sym] GetMatchTypeIndex_gt)

declare update_loop.simps [simp del]

definition DRV_RESULT_START_POS :: nat where "DRV_RESULT_START_POS = 3"

definition UpdateControllerKeyList :: "TcLibModule \<Rightarrow> u32 \<times> TcLibModule" where
  "UpdateControllerKeyList st =
     (case sess_of st of
        None \<Rightarrow> (TC_FAILURE, st)
      | Some s \<Rightarrow>
          if srv_args s = [] then (TC_FAILURE, st)
          else update_loop s DRV_RESULT_START_POS
                 (st\<lparr>key_map := [], controller_key_map := [], commit_phase_result := []\<rparr>))"

end
