(* ===== verification/TclibModule.thy ===== *)
theory TclibModule
  imports TclibResults
begin

text \<open>
  The daemon side of the protocol, fourth part: the services of \<^verbatim>\<open>TcLibModule\<close>
  (\<^verbatim>\<open>modules/tclib/tclib_module.cc\<close>), from the announcement of a configuration session to the
  dispatcher \<^verbatim>\<open>ipcService\<close>. The functions carry the prefix \<open>TcLib_\<close> because the
  coordinator uses many of the names too. A result is the code returned and the new state.
\<close>

type_synonym tclib_result = "u32 \<times> TcLibModule"

abbreviation (input) PFC_IPCRESP_FATAL :: u32 where "PFC_IPCRESP_FATAL \<equiv> - 1"

text \<open>The functions that take the session of the request as an argument always get one.\<close>

definition with_args :: "(ipc_state \<Rightarrow> u32 + 'a) \<Rightarrow> ('a \<Rightarrow> TcLibModule \<Rightarrow> tclib_result) \<Rightarrow> TcLibModule \<Rightarrow> tclib_result" where
  "with_args f k st =
     (case session_args (Some (tl_ipc st)) f of Inl e \<Rightarrow> (e, st) | Inr x \<Rightarrow> k x st)"

text \<open>A call of the interface whose code is all that counts.\<close>

definition plain_call :: "ipc_env \<Rightarrow> TcLibInterface \<Rightarrow> tclib_call \<Rightarrow> TcLibModule \<Rightarrow> tclib_result" where
  "plain_call E I c st = (case call_handler E I c st of (r, st1) \<Rightarrow> (hr_ret r, st1))"

definition registered :: "TcLibModule \<Rightarrow> bool" where
  "registered st \<longleftrightarrow> pTcLibInterface st \<noteq> None"


section \<open>Configuration sessions\<close>

definition TcLib_NotifySessionConfig :: "TcLibModule \<Rightarrow> tclib_result" where
  "TcLib_NotifySessionConfig = with_args
     (\<lambda>s. rd (srv_get_uint32 0 s) (\<lambda>sid.
          rd (srv_get_uint32 1 s) (\<lambda>cid.
          rd (srv_get_uint8 2 s) (\<lambda>mode.
          rd (srv_get_string 3 s) (\<lambda>vtn. Inr (sid, cid, mode, vtn))))))
     (\<lambda>(sid, cid, mode, vtn) st.
        if cid = 0
        then (TC_SUCCESS, st\<lparr>tc_notify_config_data_map :=
                               sm_erase sid (tc_notify_config_data_map st)\<rparr>)
        else case UpdateNotifyConfigData sid cid (to_config_mode (ucast mode)) vtn st of
            (ret, st1) \<Rightarrow> if ret \<noteq> TC_SUCCESS then (TC_FAILURE, st1) else (TC_SUCCESS, st1))"


section \<open>Commit\<close>

definition TcLib_CommitTransStartEnd ::
  "ipc_env \<Rightarrow> TcLibInterface \<Rightarrow> TcMsgOperType \<Rightarrow> TcCommitTransactionMsg \<Rightarrow> TcLibModule \<Rightarrow> tclib_result" where
  "TcLib_CommitTransStartEnd E I oper m st =
     (if \<not> registered st then (TC_FAILURE, st)
      else case TcLib_GetConfigData I (ct_session_id m) st of
        (_, _, mode, vtn) \<Rightarrow>
          if oper = MSG_COMMIT_TRANS_START
          then (case plain_call E I (HandleCommitTransactionStart (ct_session_id m) (ct_config_id m)
                                       mode vtn) st of
                  (ret, st1) \<Rightarrow>
                    (ret, if ret \<noteq> TC_SUCCESS then ReleaseTransactionResources st1 else st1))
          else if oper = MSG_COMMIT_TRANS_END
          then (case plain_call E I (HandleCommitTransactionEnd (ct_session_id m) (ct_config_id m)
                                       mode vtn (ct_end_result m)) st of
                  (ret, st1) \<Rightarrow> (ret, ReleaseTransactionResources st1))
          else (TC_FAILURE, st))"

text \<open>
  The map of the drivers and their controllers in a response: the counts are octets, and so are
  the controller types.
\<close>

definition driver_values :: "unc_keytype_ctrtype_t \<times> string list \<Rightarrow> ipc_value list" where
  "driver_values d =
     IpcU8 (ucast (fst d)) # IpcU8 (word_of_nat (length (snd d))) # map IpcStr (snd d)"

definition driver_info_values :: "TcDriverInfo \<Rightarrow> ipc_value list" where
  "driver_info_values info =
     IpcU8 (word_of_nat (length info)) # concat (map driver_values info)"

text \<open>What is written after a successful call, and the code that results.\<close>

definition respond :: "ipc_env \<Rightarrow> ipc_value list \<Rightarrow> TcLibModule \<Rightarrow> tclib_result" where
  "respond E vs st = (case put_values E vs st of (ok, st1) \<Rightarrow> (if ok then TC_SUCCESS else TC_FAILURE, st1))"

definition TcLib_CommitVoteGlobal ::
  "ipc_env \<Rightarrow> TcLibInterface \<Rightarrow> TcMsgOperType \<Rightarrow> TcCommitTransactionMsg \<Rightarrow> TcLibModule \<Rightarrow> tclib_result" where
  "TcLib_CommitVoteGlobal E I oper m st =
     (if \<not> registered st then (TC_FAILURE, st)
      else case TcLib_GetConfigData I (ct_session_id m) st of
        (_, _, mode, vtn) \<Rightarrow>
          (let go = (\<lambda>c. case call_handler E I c st of
                 (r, st1) \<Rightarrow>
                   if hr_ret r \<noteq> TC_SUCCESS then (hr_ret r, st1)
                   else if hr_driver_info r = [] then (TC_SUCCESS, st1)
                   else respond E (driver_info_values (hr_driver_info r)) st1)
           in if oper = MSG_COMMIT_VOTE
              then go (HandleCommitVoteRequest (ct_session_id m) (ct_config_id m) mode vtn)
              else if oper = MSG_COMMIT_GLOBAL
              then go (HandleCommitGlobalCommit (ct_session_id m) (ct_config_id m) mode vtn)
              else (TC_FAILURE, st)))"

text \<open>The session and configuration identifiers of a message, checked against the table.\<close>

definition config_accepted :: "TcLibInterface \<Rightarrow> u32 \<Rightarrow> u32 \<Rightarrow> TcLibModule \<Rightarrow> bool" where
  "config_accepted I sid cid st \<longleftrightarrow>
     (case TcLib_GetConfigData I sid st of
        (_, _, mode, vtn) \<Rightarrow> TcLibValidateUpdateMsg I sid cid mode vtn st = TC_API_COMMON_SUCCESS)"

definition TcLib_CommitTransaction :: "ipc_env \<Rightarrow> TcLibInterface \<Rightarrow> TcLibModule \<Rightarrow> tclib_result" where
  "TcLib_CommitTransaction E I st =
     (case GetCommitTransactionMsg (sess_of st) of
        Inl e \<Rightarrow> (e, st)
      | Inr m \<Rightarrow>
          (case ValidateOperTypeSequence I (ct_oper_type m) st of
             (ret, st1) \<Rightarrow>
               if ret \<noteq> TC_SUCCESS then (TC_FAILURE, st1)
               else if TcLib_GetControllerType I st1 = UNC_CT_UNKNOWN \<and>
                       \<not> config_accepted I (ct_session_id m) (ct_config_id m) st1
               then (TC_FAILURE, st1)
               else (case ct_oper_type m of
                       Some MSG_COMMIT_TRANS_START \<Rightarrow>
                         TcLib_CommitTransStartEnd E I MSG_COMMIT_TRANS_START m st1
                     | Some MSG_COMMIT_TRANS_END \<Rightarrow>
                         TcLib_CommitTransStartEnd E I MSG_COMMIT_TRANS_END m st1
                     | Some MSG_COMMIT_VOTE \<Rightarrow> TcLib_CommitVoteGlobal E I MSG_COMMIT_VOTE m st1
                     | Some MSG_COMMIT_GLOBAL \<Rightarrow> TcLib_CommitVoteGlobal E I MSG_COMMIT_GLOBAL m st1
                     | _ \<Rightarrow> (TC_FAILURE, st1))))"

definition TcLib_CommitDriverVoteGlobal :: "ipc_env \<Rightarrow> TcLibInterface \<Rightarrow> TcLibModule \<Rightarrow> tclib_result" where
  "TcLib_CommitDriverVoteGlobal E I st =
     (if \<not> registered st then (TC_FAILURE, st)
      else case GetCommitDrvVoteGlobalMsg (sess_of st) of
          Inl e \<Rightarrow> (e, st)
        | Inr m \<Rightarrow>
            (case ValidateOperTypeSequence I (cv_oper_type m) st of
               (ret, st1) \<Rightarrow>
                 if ret \<noteq> TC_SUCCESS then (TC_FAILURE, st1)
                 else if cv_oper_type m = Some MSG_COMMIT_DRIVER_VOTE
                 then plain_call E I (HandleCommitVoteRequest_drv (cv_session_id m)
                        (cv_config_id m) (cv_cntrl_list m)) st1
                 else if cv_oper_type m = Some MSG_COMMIT_DRIVER_GLOBAL
                 then plain_call E I (HandleCommitGlobalCommit_drv (cv_session_id m)
                        (cv_config_id m) (cv_cntrl_list m)) st1
                 else (TC_SUCCESS, st1)))"

definition TcLib_CommitDriverResult :: "ipc_env \<Rightarrow> TcLibInterface \<Rightarrow> TcLibModule \<Rightarrow> tclib_result" where
  "TcLib_CommitDriverResult E I st =
     (if \<not> registered st then (TC_FAILURE, st)
      else case GetCommitDrvResultMsg (sess_of st) of
          Inl e \<Rightarrow> (e, st)
        | Inr m \<Rightarrow>
            (case ValidateOperTypeSequence I (cr_oper_type m) st of
               (ret, st1) \<Rightarrow>
                 if ret \<noteq> TC_SUCCESS then (TC_FAILURE, st1)
                 else case TcLib_GetConfigData I (cr_session_id m) st1 of
                   (_, _, mode, vtn) \<Rightarrow>
                     if \<not> config_accepted I (cr_session_id m) (cr_config_id m) st1
                     then (TC_FAILURE, st1)
                     else (case UpdateControllerKeyList st1 of
                             (ret2, st2) \<Rightarrow>
                               if ret2 \<noteq> TC_SUCCESS then (ret2, st2)
                               else plain_call E I (HandleCommitDriverResult (cr_session_id m)
                                      (cr_config_id m) mode vtn (cr_phase m)
                                      (commit_phase_result st2)) st2)))"

definition TcLib_CommitGlobalAbort :: "ipc_env \<Rightarrow> TcLibInterface \<Rightarrow> TcLibModule \<Rightarrow> tclib_result" where
  "TcLib_CommitGlobalAbort E I st =
     (if \<not> registered st then (TC_FAILURE, st)
      else case GetCommitGlobalAbortMsg (sess_of st) of
          Inl e \<Rightarrow> (e, st)
        | Inr m \<Rightarrow>
            (case ValidateOperTypeSequence I (ca_oper_type m) st of
               (ret, st1) \<Rightarrow>
                 if ret \<noteq> TC_SUCCESS then (TC_FAILURE, st1)
                 else if TcLib_GetControllerType I st1 = UNC_CT_UNKNOWN \<and>
                         \<not> config_accepted I (ca_session_id m) (ca_config_id m) st1
                 then (TC_FAILURE, st1)
                 else (case (if TcLib_GetControllerType I st1 = UNC_CT_UNKNOWN
                             then snd (snd (TcLib_GetConfigData I (ca_session_id m) st1))
                             else (TC_CONFIG_INVALID, '''')) of
                         (mode, vtn) \<Rightarrow>
                           plain_call E I (HandleCommitGlobalAbort (ca_session_id m)
                             (ca_config_id m) mode vtn (ca_commit_oper_phase m)) st1)))"


section \<open>Audit\<close>

definition audit_start_call ::
  "unc_keytype_ctrtype_t \<Rightarrow> TcAuditTransactionMsg \<Rightarrow> TcAuditStartData \<Rightarrow> tclib_call" where
  "audit_start_call ctr_type m d =
     (if ctr_type \<noteq> UNC_CT_UNKNOWN
      then HandleAuditStart_drv (at_session_id m) (at_driver_id m) (at_controller_id m)
             (as_reconnect_controller d) (as_audit_type d)
      else HandleAuditStart (at_session_id m) (at_driver_id m) (at_controller_id m)
             (as_audit_type d) (as_commit_number d) (as_commit_date d) (as_commit_application d))"

text \<open>A message read for the start of an audit always carries the data of the start.\<close>

definition TcLib_AuditTransStartEnd ::
  "ipc_env \<Rightarrow> TcLibInterface \<Rightarrow> TcMsgOperType \<Rightarrow> TcAuditTransactionMsg \<Rightarrow> TcLibModule \<Rightarrow> tclib_result" where
  "TcLib_AuditTransStartEnd E I oper m st =
     (if \<not> registered st then (TC_FAILURE, st)
      else if oper = MSG_AUDIT_START
      then (if IsHandleCancelAuditInTclib st \<or> oper_state st = MSG_AUDIT_CANCEL
            then (TC_CANCELLED_AUDIT, st)
            else case at_start m of
                None \<Rightarrow> (TC_FAILURE, st)
              | Some d \<Rightarrow>
                  (case plain_call E I (audit_start_call (TcLib_GetControllerType I st) m d) st of
                     (ret, st1) \<Rightarrow>
                       (ret, if ret \<noteq> TC_SUCCESS \<and> ret \<noteq> TC_SIMPLIFIED_AUDIT \<and>
                                ret \<noteq> TC_CANCELLED_AUDIT
                             then ReleaseTransactionResources (st1\<lparr>audit_in_progress := False\<rparr>)
                             else st1)))
      else if oper = MSG_AUDIT_END
      then (case (if IsHandleCancelAuditInTclib st then (TC_SUCCESS, st)
                  else plain_call E I (HandleAuditEnd (at_session_id m) (at_driver_id m)
                         (at_controller_id m) (at_audit_result m)) st) of
              (ret, st1) \<Rightarrow> (ret, ReleaseTransactionResources (st1\<lparr>audit_in_progress := False\<rparr>)))
      else if oper = MSG_AUDIT_TRANS_START
      then plain_call E I (HandleAuditTransactionStart (at_session_id m) (at_driver_id m)
             (at_controller_id m)) st
      else if oper = MSG_AUDIT_TRANS_END
      then (case plain_call E I (HandleAuditTransactionEnd (at_session_id m) (at_driver_id m)
                   (at_controller_id m) (at_end_result m)) st of
              (ret, st1) \<Rightarrow>
                (ret, if TcLib_GetControllerType I st1 \<noteq> UNC_CT_UNKNOWN \<and> \<not> audit_in_progress st1
                      then ReleaseTransactionResources st1 else st1))
      else (TC_FAILURE, st))"

text \<open>The answer to a global commit ends with the result of the audit.\<close>

definition TcLib_AuditVoteGlobal ::
  "ipc_env \<Rightarrow> TcLibInterface \<Rightarrow> TcMsgOperType \<Rightarrow> TcAuditTransactionMsg \<Rightarrow> TcLibModule \<Rightarrow> tclib_result" where
  "TcLib_AuditVoteGlobal E I oper m st =
     (let go = (\<lambda>c. case call_handler E I c st of
             (r, st1) \<Rightarrow>
               if hr_ret r \<noteq> TC_SUCCESS then (hr_ret r, st1)
               else respond E
                      ((if hr_driver_info r = [] then [] else driver_info_values (hr_driver_info r)) @
                       (if oper = MSG_AUDIT_GLOBAL
                        then [IpcU8 (audit_result_num (hr_audit_result r))] else [])) st1)
      in if \<not> registered st then (TC_FAILURE, st)
         else if oper = MSG_AUDIT_VOTE
         then go (HandleAuditVoteRequest (at_session_id m) (at_driver_id m) (at_controller_id m))
         else if oper = MSG_AUDIT_GLOBAL
         then go (HandleAuditGlobalCommit (at_session_id m) (at_driver_id m) (at_controller_id m))
         else (TC_FAILURE, st))"

definition TcLib_AuditTransaction :: "ipc_env \<Rightarrow> TcLibInterface \<Rightarrow> TcLibModule \<Rightarrow> tclib_result" where
  "TcLib_AuditTransaction E I st =
     (case GetAuditTransactionMsg (sess_of st) of
        Inl e \<Rightarrow> (e, st)
      | Inr m \<Rightarrow>
          (let st0 = (if TcLib_GetControllerType I st \<noteq> UNC_CT_UNKNOWN
                      then st\<lparr>audit_in_progress := (at_driver_id m = TcLib_GetControllerType I st)\<rparr>
                      else st)
           in case ValidateOperTypeSequence I (at_oper_type m) st0 of
             (ret, st1) \<Rightarrow>
               if ret \<noteq> TC_SUCCESS then (TC_FAILURE, st1)
               else (case at_oper_type m of
                       Some MSG_AUDIT_START \<Rightarrow> TcLib_AuditTransStartEnd E I MSG_AUDIT_START m st1
                     | Some MSG_AUDIT_END \<Rightarrow> TcLib_AuditTransStartEnd E I MSG_AUDIT_END m st1
                     | Some MSG_AUDIT_TRANS_START \<Rightarrow>
                         TcLib_AuditTransStartEnd E I MSG_AUDIT_TRANS_START m st1
                     | Some MSG_AUDIT_TRANS_END \<Rightarrow>
                         TcLib_AuditTransStartEnd E I MSG_AUDIT_TRANS_END m st1
                     | Some MSG_AUDIT_VOTE \<Rightarrow> TcLib_AuditVoteGlobal E I MSG_AUDIT_VOTE m st1
                     | Some MSG_AUDIT_GLOBAL \<Rightarrow> TcLib_AuditVoteGlobal E I MSG_AUDIT_GLOBAL m st1
                     | _ \<Rightarrow> (TC_FAILURE, st1))))"

definition TcLib_AuditCancel :: "ipc_env \<Rightarrow> TcLibInterface \<Rightarrow> TcLibModule \<Rightarrow> tclib_result" where
  "TcLib_AuditCancel E I = with_args
     (\<lambda>s. rd (srv_get_uint8 0 s) (\<lambda>oper.
          rd (srv_get_uint32 1 s) (\<lambda>sid.
          rd (srv_get_uint8 2 s) (\<lambda>drv.
          rd (srv_get_string 3 s) (\<lambda>ctr. Inr (to_msg oper, sid, drv, ctr))))))
     (\<lambda>(oper, sid, drv, ctr) st.
        if oper \<noteq> Some MSG_AUDIT_CANCEL then (TC_FAILURE, st)
        else case ValidateOperTypeSequence I oper st of
            (ret, st1) \<Rightarrow>
              if ret \<noteq> TC_SUCCESS then (TC_FAILURE, st1)
              else if \<not> IsHandleCancelAuditInTclib st1
              then plain_call E I (HandleAuditCancel sid (ucast drv) ctr) st1
              else (TC_SUCCESS, st1))"

definition TcLib_AuditDriverVoteGlobal :: "ipc_env \<Rightarrow> TcLibInterface \<Rightarrow> TcLibModule \<Rightarrow> tclib_result" where
  "TcLib_AuditDriverVoteGlobal E I st =
     (if \<not> registered st then (TC_FAILURE, st)
      else case GetAuditDrvVoteGlobalMsg (sess_of st) of
          Inl e \<Rightarrow> (e, st)
        | Inr m \<Rightarrow>
            (case ValidateOperTypeSequence I (av_oper_type m) st of
               (ret, st1) \<Rightarrow>
                 if ret \<noteq> TC_SUCCESS then (TC_FAILURE, st1)
                 else if av_oper_type m = Some MSG_AUDIT_DRIVER_VOTE
                 then plain_call E I (HandleAuditVoteRequest_drv (av_session_id m)
                        (av_controller_id m) (av_cntrl_list m)) st1
                 else if av_oper_type m = Some MSG_AUDIT_DRIVER_GLOBAL
                 then plain_call E I (HandleAuditGlobalCommit_drv (av_session_id m)
                        (av_controller_id m) (av_cntrl_list m)) st1
                 else (TC_SUCCESS, st1)))"

definition TcLib_AuditDriverResult :: "ipc_env \<Rightarrow> TcLibInterface \<Rightarrow> TcLibModule \<Rightarrow> tclib_result" where
  "TcLib_AuditDriverResult E I st =
     (if \<not> registered st then (TC_FAILURE, st)
      else case GetAuditDrvResultMsg (sess_of st) of
          Inl e \<Rightarrow> (e, st)
        | Inr m \<Rightarrow>
            (case ValidateOperTypeSequence I (ar_oper_type m) st of
               (ret, st1) \<Rightarrow>
                 if ret \<noteq> TC_SUCCESS then (TC_FAILURE, st1)
                 else case UpdateControllerKeyList st1 of
                   (ret2, st2) \<Rightarrow>
                     if ret2 \<noteq> TC_SUCCESS then (ret2, st2)
                     else case call_handler E I (HandleAuditDriverResult (ar_session_id m)
                                 (ar_controller_id m) (ar_phase m) (commit_phase_result st2)) st2 of
                       (r, st3) \<Rightarrow>
                         if hr_ret r \<noteq> TC_SUCCESS then (hr_ret r, st3)
                         else if ar_phase m = commit_phase_num TC_AUDIT_GLOBAL_COMMIT_PHASE
                         then respond E [IpcU8 (audit_result_num (hr_audit_result r))] st3
                         else (TC_SUCCESS, st3)))"

definition TcLib_AuditGlobalAbort :: "ipc_env \<Rightarrow> TcLibInterface \<Rightarrow> TcLibModule \<Rightarrow> tclib_result" where
  "TcLib_AuditGlobalAbort E I st =
     (if \<not> registered st then (TC_FAILURE, st)
      else case GetAuditGlobalAbortMsg (sess_of st) of
          Inl e \<Rightarrow> (e, st)
        | Inr m \<Rightarrow>
            (case ValidateOperTypeSequence I (aa_oper_type m) st of
               (ret, st1) \<Rightarrow>
                 if ret \<noteq> TC_SUCCESS then (TC_FAILURE, st1)
                 else plain_call E I (HandleAuditGlobalAbort (aa_session_id m) (aa_driver_id m)
                        (aa_controller_id m) (aa_audit_oper_phase m)) st1))"


section \<open>Startup configuration, candidate and set-up\<close>

definition TcLib_SaveConfiguration :: "ipc_env \<Rightarrow> TcLibInterface \<Rightarrow> TcLibModule \<Rightarrow> tclib_result" where
  "TcLib_SaveConfiguration E I st =
     (if \<not> registered st then (TC_FAILURE, st)
      else with_args
        (\<lambda>s. rd (srv_get_uint32 0 s) (\<lambda>sid. rd (srv_get_uint64 1 s) (\<lambda>version. Inr (sid, version))))
        (\<lambda>(sid, version). plain_call E I (HandleSaveConfiguration sid version)) st)"

definition TcLib_ClearStartup :: "ipc_env \<Rightarrow> TcLibInterface \<Rightarrow> TcLibModule \<Rightarrow> tclib_result" where
  "TcLib_ClearStartup E I st =
     (if \<not> registered st then (TC_FAILURE, st)
      else with_args (\<lambda>s. rd (srv_get_uint32 0 s) Inr)
             (\<lambda>sid. plain_call E I (HandleClearStartup sid)) st)"

definition TcLib_AbortCandidate :: "ipc_env \<Rightarrow> TcLibInterface \<Rightarrow> TcLibModule \<Rightarrow> tclib_result" where
  "TcLib_AbortCandidate E I st =
     (if \<not> registered st then (TC_FAILURE, st)
      else with_args
        (\<lambda>s. rd (srv_get_uint32 0 s) (\<lambda>sid.
             rd (srv_get_uint32 1 s) (\<lambda>cid.
             rd (srv_get_uint64 2 s) (\<lambda>version. Inr (sid, cid, version)))))
        (\<lambda>(sid, cid, version) st.
           case TcLib_GetConfigData I sid st of
             (_, _, mode, vtn) \<Rightarrow> plain_call E I (HandleAbortCandidate sid cid mode vtn version) st) st)"

definition TcLib_AuditConfig :: "ipc_env \<Rightarrow> TcLibInterface \<Rightarrow> TcLibModule \<Rightarrow> tclib_result" where
  "TcLib_AuditConfig E I st =
     (if \<not> registered st then (TC_FAILURE, st)
      else case GetAuditConfigMsg (Some (tl_ipc st)) of
          Inl e \<Rightarrow> (e, st)
        | Inr m \<Rightarrow>
            plain_call E I (HandleAuditConfig (ac_db_type m) (ac_service_type m)
              (ac_config_mode m) (ac_vtn_name m) (ac_version m)) st)"

text \<open>Both messages of the set-up bring the state of the autosave.\<close>

definition setup_autosave :: "(TcLibModule \<Rightarrow> tclib_result) \<Rightarrow> TcLibModule \<Rightarrow> tclib_result" where
  "setup_autosave k st =
     (if \<not> registered st then (TC_FAILURE, st)
      else with_args (\<lambda>s. rd (srv_get_uint8 0 s) Inr)
             (\<lambda>b st1. k (st1\<lparr>auto_save_enabled := b\<rparr>)) st)"

definition TcLib_Setup :: "ipc_env \<Rightarrow> TcLibInterface \<Rightarrow> TcLibModule \<Rightarrow> tclib_result" where
  "TcLib_Setup E I = setup_autosave (plain_call E I HandleSetup)"

definition TcLib_SetupComplete :: "ipc_env \<Rightarrow> TcLibInterface \<Rightarrow> TcLibModule \<Rightarrow> tclib_result" where
  "TcLib_SetupComplete E I = setup_autosave (plain_call E I HandleSetupComplete)"

text \<open>The type of a controller; the code of the reply is the type.\<close>

definition TcLib_GetDriverId :: "ipc_env \<Rightarrow> TcLibInterface \<Rightarrow> TcLibModule \<Rightarrow> tclib_result" where
  "TcLib_GetDriverId E I st =
     (if \<not> registered st then (UNC_CT_UNKNOWN, st)
      else case session_args (sess_of st) (\<lambda>s. rd (srv_get_string 0 s) Inr) of
          Inl _ \<Rightarrow> (UNC_CT_UNKNOWN, st)
        | Inr ctr \<Rightarrow>
            (case plain_call E I (HandleGetControllerType_id ctr)
                    (st\<lparr>oper_state := MSG_GET_DRIVERID\<rparr>) of
               (t, st1) \<Rightarrow> (t, st1\<lparr>oper_state := MSG_NONE\<rparr>)))"

definition NotifyAutoSave :: "ipc_env \<Rightarrow> TcLibInterface \<Rightarrow> TcLibServiceId \<Rightarrow> TcLibModule \<Rightarrow> tclib_result" where
  "NotifyAutoSave E I service st =
     (if service = TCLIB_AUTOSAVE_ENABLE
      then TcLib_ClearStartup E I (st\<lparr>auto_save_enabled := 1\<rparr>)
      else if service = TCLIB_AUTOSAVE_DISABLE
      then TcLib_SaveConfiguration E I (st\<lparr>auto_save_enabled := 0\<rparr>)
      else (TC_FAILURE, st))"


section \<open>Dispatch\<close>

definition tclib_services :: "TcLibServiceId list" where
  "tclib_services =
     [TCLIB_NOTIFY_SESSION_CONFIG, TCLIB_COMMIT_TRANSACTION, TCLIB_COMMIT_DRV_VOTE_GLOBAL,
      TCLIB_COMMIT_DRV_RESULT, TCLIB_COMMIT_GLOBAL_ABORT, TCLIB_AUDIT_TRANSACTION,
      TCLIB_AUDIT_DRV_VOTE_GLOBAL, TCLIB_AUDIT_DRV_RESULT, TCLIB_AUDIT_GLOBAL_ABORT,
      TCLIB_AUDIT_CANCEL, TCLIB_SAVE_CONFIG, TCLIB_CLEAR_STARTUP, TCLIB_USER_ABORT, TCLIB_SETUP,
      TCLIB_SETUP_COMPLETE, TCLIB_GET_DRIVERID, TCLIB_AUDIT_CONFIG, TCLIB_CONTROLLER_TYPE,
      TCLIB_AUTOSAVE_ENABLE, TCLIB_AUTOSAVE_DISABLE]"

definition to_tclib :: "u32 \<Rightarrow> TcLibServiceId option" where
  "to_tclib n = (if unat n < length tclib_services then Some (tclib_services ! unat n) else None)"

definition uses_sess :: "u32 \<Rightarrow> bool" where
  "uses_sess service \<longleftrightarrow>
     tclib_num TCLIB_COMMIT_TRANSACTION \<le> service \<and> service \<le> tclib_num TCLIB_AUDIT_GLOBAL_ABORT \<or>
     service = tclib_num TCLIB_GET_DRIVERID \<or> service = tclib_num TCLIB_CONTROLLER_TYPE"

definition infinite_timeout :: "u32 \<Rightarrow> bool" where
  "infinite_timeout service \<longleftrightarrow>
     tclib_num TCLIB_COMMIT_TRANSACTION \<le> service \<and> service \<le> tclib_num TCLIB_SETUP_COMPLETE \<or>
     service = tclib_num TCLIB_AUDIT_CONFIG \<or> service = tclib_num TCLIB_AUTOSAVE_ENABLE \<or>
     service = tclib_num TCLIB_AUTOSAVE_DISABLE"

fun tclib_dispatch ::
  "ipc_env \<Rightarrow> TcLibInterface \<Rightarrow> TcLibServiceId option \<Rightarrow> TcLibModule \<Rightarrow> tclib_result" where
  "tclib_dispatch E I None st = (PFC_IPCRESP_FATAL, st)"
| "tclib_dispatch E I (Some TCLIB_NOTIFY_SESSION_CONFIG) st = TcLib_NotifySessionConfig st"
| "tclib_dispatch E I (Some TCLIB_COMMIT_TRANSACTION) st = TcLib_CommitTransaction E I st"
| "tclib_dispatch E I (Some TCLIB_COMMIT_DRV_VOTE_GLOBAL) st = TcLib_CommitDriverVoteGlobal E I st"
| "tclib_dispatch E I (Some TCLIB_COMMIT_DRV_RESULT) st = TcLib_CommitDriverResult E I st"
| "tclib_dispatch E I (Some TCLIB_COMMIT_GLOBAL_ABORT) st = TcLib_CommitGlobalAbort E I st"
| "tclib_dispatch E I (Some TCLIB_AUDIT_TRANSACTION) st = TcLib_AuditTransaction E I st"
| "tclib_dispatch E I (Some TCLIB_AUDIT_DRV_VOTE_GLOBAL) st = TcLib_AuditDriverVoteGlobal E I st"
| "tclib_dispatch E I (Some TCLIB_AUDIT_DRV_RESULT) st = TcLib_AuditDriverResult E I st"
| "tclib_dispatch E I (Some TCLIB_AUDIT_GLOBAL_ABORT) st = TcLib_AuditGlobalAbort E I st"
| "tclib_dispatch E I (Some TCLIB_AUDIT_CANCEL) st = TcLib_AuditCancel E I st"
| "tclib_dispatch E I (Some TCLIB_SAVE_CONFIG) st = TcLib_SaveConfiguration E I st"
| "tclib_dispatch E I (Some TCLIB_CLEAR_STARTUP) st = TcLib_ClearStartup E I st"
| "tclib_dispatch E I (Some TCLIB_USER_ABORT) st = TcLib_AbortCandidate E I st"
| "tclib_dispatch E I (Some TCLIB_SETUP) st = TcLib_Setup E I st"
| "tclib_dispatch E I (Some TCLIB_SETUP_COMPLETE) st = TcLib_SetupComplete E I st"
| "tclib_dispatch E I (Some TCLIB_GET_DRIVERID) st = TcLib_GetDriverId E I st"
| "tclib_dispatch E I (Some TCLIB_AUDIT_CONFIG) st = TcLib_AuditConfig E I st"
| "tclib_dispatch E I (Some TCLIB_CONTROLLER_TYPE) st = (TcLib_GetControllerType I st, st)"
| "tclib_dispatch E I (Some TCLIB_AUTOSAVE_ENABLE) st = NotifyAutoSave E I TCLIB_AUTOSAVE_ENABLE st"
| "tclib_dispatch E I (Some TCLIB_AUTOSAVE_DISABLE) st = NotifyAutoSave E I TCLIB_AUTOSAVE_DISABLE st"

text \<open>
  One request: its arguments are those of the server session, to which the response is added.
  The announcement of a configuration session returns before the counter is decremented.
\<close>

definition begin_request ::
  "ipc_env \<Rightarrow> u32 \<Rightarrow> ipc_value list \<Rightarrow> TcLibModule \<Rightarrow> TcLibModule" where
  "begin_request E service args st =
     (let i = (tl_ipc st)\<lparr>srv_args := args, srv_out := []\<rparr>
      in st\<lparr>tl_ipc := (if infinite_timeout service then snd (ask E SrvTimeout i) else i),
            request_counter := request_counter st + 1,
            tl_sess := (uses_sess service \<or> tl_sess st)\<rparr>)"

definition end_request :: "TcLibModule \<Rightarrow> TcLibModule" where
  "end_request st =
     (let n = request_counter st - 1
      in st\<lparr>request_counter := n, tl_sess := (n \<noteq> 0 \<and> tl_sess st)\<rparr>)"

definition TcLib_ipcService ::
  "ipc_env \<Rightarrow> TcLibInterface \<Rightarrow> u32 \<Rightarrow> ipc_value list \<Rightarrow> TcLibModule \<Rightarrow> tclib_result" where
  "TcLib_ipcService E I service args st =
     (if pTcLibInterface st = None then (PFC_IPCRESP_FATAL, st)
      else case tclib_dispatch E I (to_tclib service) (begin_request E service args st) of
          (resp, st1) \<Rightarrow>
            (resp, if service = tclib_num TCLIB_NOTIFY_SESSION_CONFIG then st1 else end_request st1))"


section \<open>The request for an audit\<close>

abbreviation (input) TC_AUDIT_SERVICES :: u32 where "TC_AUDIT_SERVICES \<equiv> 6"

text \<open>
  A driver asks the coordinator for an audit of one of its controllers. The session object lives
  on the stack of the function: it is destroyed on every return, after its connection is closed.
\<close>

definition end_session :: "ipc_env \<Rightarrow> nat \<Rightarrow> u32 \<Rightarrow> ipc_state \<Rightarrow> ipc_state" where
  "end_session E p conn i = sess_delete p (snd (ask E (AltClose conn) i))"

fun add_all :: "ipc_env \<Rightarrow> nat \<Rightarrow> ipc_value list \<Rightarrow> ipc_state \<Rightarrow> bool \<times> ipc_state" where
  "add_all E p [] i = (True, i)"
| "add_all E p (v # vs) i =
     (case add_output E (Some p) v i of
        (r, i1) \<Rightarrow> if r \<noteq> TCUTIL_RET_SUCCESS then (False, i1) else add_all E p vs i1)"

definition audit_request_values :: "string \<Rightarrow> unc_keytype_ctrtype_t \<Rightarrow> ipc_value list" where
  "audit_request_values ctr ctr_type =
     [IpcU32 (service_num TC_OP_DRIVER_AUDIT), IpcStr ctr, IpcU8 (ucast ctr_type), IpcU8 0]"

definition send_audit_request ::
  "ipc_env \<Rightarrow> nat \<Rightarrow> ipc_value list \<Rightarrow> ipc_state \<Rightarrow> TcApiCommonRet \<times> ipc_state" where
  "send_audit_request E p vs i =
     (case add_all E p vs i of
        (False, i1) \<Rightarrow> (TC_API_COMMON_FAILURE, i1)
      | (True, i1) \<Rightarrow>
          (case ask E (Invoke p ''uncd'' TC_AUDIT_SERVICES vs) i1 of
             (r, i2) \<Rightarrow>
               (if rp_err r \<noteq> 0 then TC_API_FATAL
                else if rp_resp r = status_num TC_OPER_SUCCESS then TC_API_COMMON_SUCCESS
                else TC_API_COMMON_FAILURE, i2)))"

definition TcLibAuditControllerRequest ::
  "ipc_env \<Rightarrow> TcLibInterface \<Rightarrow> string \<Rightarrow> TcLibModule \<Rightarrow> TcApiCommonRet \<times> TcLibModule" where
  "TcLibAuditControllerRequest E I ctr st =
     (if pTcLibInterface st = None \<or> if_type I = UNC_CT_UNKNOWN then (TC_API_COMMON_FAILURE, st)
      else
        let (r, i1) = ask E (AltOpen ''uncd'') (tl_ipc st); conn = rp_conn r
        in if rp_err r \<noteq> 0 \<or> conn = 0 then (TC_API_FATAL, st\<lparr>tl_ipc := i1\<rparr>)
           else
             let p = ipc_next i1;
                 i2 = i1\<lparr>ipc_heap := sm_put p
                           \<lparr>cs_conn = conn, cs_channel = ''uncd'', cs_service = ''tc'',
                            cs_service_id = TC_AUDIT_SERVICES, cs_out = [], cs_resp = []\<rparr>
                           (ipc_heap i1), ipc_next := Suc p\<rparr>;
                 (r2, i3) = ask E (NewSession p ''uncd'' ''tc'' TC_AUDIT_SERVICES) i2
             in if rp_err r2 \<noteq> 0 then (TC_API_FATAL, st\<lparr>tl_ipc := end_session E p conn i3\<rparr>)
                else (case send_audit_request E p (audit_request_values ctr (if_type I)) i3 of
                        (ret, i4) \<Rightarrow> (ret, st\<lparr>tl_ipc := end_session E p conn i4\<rparr>)))"

end
