(* ===== verification/TclibFrame.thy ===== *)
theory TclibFrame
  imports TclibModule
begin

text \<open>
  What the parts of \<^verbatim>\<open>TcLibModule\<close> leave alone. A view of the state that does not see the
  session and the name of the controller being written is kept by whatever is written to the
  session (locale \<open>write_view\<close>), and by a call of a handler when it does not see the log of
  calls either (locale \<open>handler_view\<close>); a view that does not see the
  members of a transaction either is kept by every service but the announcement of a
  configuration session (locale \<open>service_view\<close>). The interpretations are the log of calls, the
  members a handler cannot reach, and the members that outlive a transaction.
\<close>

locale write_view =
  fixes view :: "TcLibModule \<Rightarrow> 'v"
  assumes view_ipc [simp]: "view (st\<lparr>tl_ipc := i\<rparr>) = view st"
    and view_controllerid [simp]: "view (st\<lparr>controllerid := c\<rparr>) = view st"
begin

lemma put_sess_view: "put_sess E v st = (r, st') \<Longrightarrow> view st' = view st"
  by (auto simp: put_sess_def Let_def split: if_splits prod.splits)

lemma put_values_view: "put_values E vs st = (ok, st') \<Longrightarrow> view st' = view st"
  by (induction vs arbitrary: st) (auto split: if_splits prod.splits dest!: put_sess_view)

lemma do_write_view: "view (do_write E w st) = view st"
  by (cases w) (auto simp: TcLibWriteControllerInfo_def TcLibWriteControllerInfo_commit_def
      TcLibWriteKeyValueDataInfo_def split: prod.splits bool.splits dest!: put_values_view
      simp del: put_values.simps)

lemma fold_write_view: "view (fold (do_write E) ws st) = view st"
  by (induction ws arbitrary: st) (simp_all add: do_write_view)

lemma respond_view: "respond E vs st = (r, st') \<Longrightarrow> view st' = view st"
  by (auto simp: respond_def split: prod.splits dest!: put_values_view)

end

locale handler_view = write_view view for view :: "TcLibModule \<Rightarrow> 'v" +
  assumes view_calls [simp]: "view (st\<lparr>tl_calls := cs\<rparr>) = view st"
begin

lemma call_handler_view: "call_handler E I c st = (r, st') \<Longrightarrow> view st' = view st"
  by (auto simp: call_handler_def Let_def fold_write_view)

lemma plain_call_view: "plain_call E I c st = (r, st') \<Longrightarrow> view st' = view st"
  by (auto simp: plain_call_def split: prod.splits dest!: call_handler_view)

lemmas view_rules = plain_call_view call_handler_view respond_view

end

locale service_view = handler_view view for view :: "TcLibModule \<Rightarrow> 'v" +
  assumes view_oper [simp]: "view (st\<lparr>oper_state := t\<rparr>) = view st"
    and view_audit [simp]: "view (st\<lparr>audit_in_progress := b\<rparr>) = view st"
    and view_key_map [simp]: "view (st\<lparr>key_map := km\<rparr>) = view st"
    and view_controller_key_map [simp]: "view (st\<lparr>controller_key_map := ckm\<rparr>) = view st"
    and view_result [simp]: "view (st\<lparr>commit_phase_result := rs\<rparr>) = view st"
    and view_autosave [simp]: "view (st\<lparr>auto_save_enabled := n\<rparr>) = view st"
    and view_handle [simp]: "view (st\<lparr>handle_in_tclib := h\<rparr>) = view st"
begin

lemma release_view [simp]: "view (ReleaseTransactionResources st) = view st"
  by (simp add: ReleaseTransactionResources_def SetHandleCancelAuditInTclib_def)

lemma validate_view: "ValidateOperTypeSequence I t st = (r, st') \<Longrightarrow> view st' = view st"
  by (auto simp: ValidateOperTypeSequence_def ValidateAuditOperSequence_def
      SetHandleCancelAuditInTclib_def Let_def split: option.splits if_splits prod.splits)

lemma update_loop_view: "update_loop s idx st = (r, st') \<Longrightarrow> view st' = view st"
proof (induction s idx st rule: update_loop.induct)
  case (1 s idx st)
  show ?case
    using "1.prems" "1.IH"
    by (subst (asm) update_loop.simps)
      (auto simp: Let_def split: if_splits sum.splits prod.splits key_outcome.splits)
qed

lemma update_results_view: "UpdateControllerKeyList st = (r, st') \<Longrightarrow> view st' = view st"
  by (auto simp: UpdateControllerKeyList_def split: option.splits if_splits dest!: update_loop_view)

lemmas step_view = view_rules validate_view update_results_view

lemma commit_start_end_view: "TcLib_CommitTransStartEnd E I t m st = (r, st') \<Longrightarrow> view st' = view st"
  by (auto simp: TcLib_CommitTransStartEnd_def split: if_splits prod.splits dest!: step_view)

lemma commit_vote_global_view: "TcLib_CommitVoteGlobal E I t m st = (r, st') \<Longrightarrow> view st' = view st"
  by (auto simp: TcLib_CommitVoteGlobal_def Let_def split: if_splits prod.splits dest!: step_view)

lemma commit_transaction_view: "TcLib_CommitTransaction E I st = (r, st') \<Longrightarrow> view st' = view st"
  by (auto simp: TcLib_CommitTransaction_def
      split: sum.splits if_splits prod.splits option.splits TcMsgOperType.splits
      dest!: validate_view commit_start_end_view commit_vote_global_view)

lemma audit_start_end_view: "TcLib_AuditTransStartEnd E I t m st = (r, st') \<Longrightarrow> view st' = view st"
  by (auto simp: TcLib_AuditTransStartEnd_def split: if_splits prod.splits option.splits
      dest!: step_view)

lemma audit_vote_global_view: "TcLib_AuditVoteGlobal E I t m st = (r, st') \<Longrightarrow> view st' = view st"
  by (auto simp: TcLib_AuditVoteGlobal_def Let_def split: if_splits prod.splits dest!: step_view)

lemma audit_transaction_view: "TcLib_AuditTransaction E I st = (r, st') \<Longrightarrow> view st' = view st"
  by (auto simp: TcLib_AuditTransaction_def Let_def
      split: sum.splits if_splits prod.splits option.splits TcMsgOperType.splits
      dest!: validate_view audit_start_end_view audit_vote_global_view)

lemma commit_driver_view:
  "TcLib_CommitDriverVoteGlobal E I st = (r, st') \<Longrightarrow> view st' = view st"
  "TcLib_CommitDriverResult E I st = (r, st') \<Longrightarrow> view st' = view st"
  "TcLib_CommitGlobalAbort E I st = (r, st') \<Longrightarrow> view st' = view st"
  by (auto simp: TcLib_CommitDriverVoteGlobal_def TcLib_CommitDriverResult_def
      TcLib_CommitGlobalAbort_def split: sum.splits if_splits prod.splits dest!: step_view)

lemma audit_driver_view:
  "TcLib_AuditDriverVoteGlobal E I st = (r, st') \<Longrightarrow> view st' = view st"
  "TcLib_AuditDriverResult E I st = (r, st') \<Longrightarrow> view st' = view st"
  "TcLib_AuditGlobalAbort E I st = (r, st') \<Longrightarrow> view st' = view st"
  "TcLib_AuditCancel E I st = (r, st') \<Longrightarrow> view st' = view st"
  by (auto simp: TcLib_AuditDriverVoteGlobal_def TcLib_AuditDriverResult_def
      TcLib_AuditGlobalAbort_def TcLib_AuditCancel_def with_args_def
      split: sum.splits if_splits prod.splits dest!: step_view)

lemma startup_view:
  "TcLib_SaveConfiguration E I st = (r, st') \<Longrightarrow> view st' = view st"
  "TcLib_ClearStartup E I st = (r, st') \<Longrightarrow> view st' = view st"
  "TcLib_AbortCandidate E I st = (r, st') \<Longrightarrow> view st' = view st"
  "TcLib_AuditConfig E I st = (r, st') \<Longrightarrow> view st' = view st"
  "TcLib_Setup E I st = (r, st') \<Longrightarrow> view st' = view st"
  "TcLib_SetupComplete E I st = (r, st') \<Longrightarrow> view st' = view st"
  "TcLib_GetDriverId E I st = (r, st') \<Longrightarrow> view st' = view st"
  by (auto simp: TcLib_SaveConfiguration_def TcLib_ClearStartup_def TcLib_AbortCandidate_def
      TcLib_AuditConfig_def TcLib_Setup_def TcLib_SetupComplete_def TcLib_GetDriverId_def
      setup_autosave_def with_args_def split: sum.splits if_splits prod.splits dest!: step_view)

lemma autosave_view: "NotifyAutoSave E I svc st = (r, st') \<Longrightarrow> view st' = view st"
  by (auto simp: NotifyAutoSave_def split: if_splits dest!: startup_view)

lemma dispatch_view:
  assumes "tclib_dispatch E I svc st = (r, st')" and "svc \<noteq> Some TCLIB_NOTIFY_SESSION_CONFIG"
  shows "view st' = view st"
  using assms
  by (cases "(E, I, svc, st)" rule: tclib_dispatch.cases)
    (auto dest: commit_transaction_view audit_transaction_view commit_driver_view
      audit_driver_view startup_view autosave_view)

end

text \<open>The calls made so far.\<close>

definition calls :: "TcLibModule \<Rightarrow> tclib_call list" where
  "calls st = map fst (tl_calls st)"

interpretation calls: write_view calls
  by unfold_locales (simp_all add: calls_def)

lemma call_handler_calls: "call_handler E I c st = (r, st') \<Longrightarrow> calls st' = calls st @ [c]"
  by (auto simp: call_handler_def Let_def calls.fold_write_view) (simp add: calls_def)

text \<open>What a handler cannot change through the library.\<close>

definition members :: "TcLibModule \<Rightarrow> _" where
  "members st = (pTcLibInterface st, tl_sess st, tc_notify_config_data_map st,
     audit_in_progress st, oper_state st, key_map st, controller_key_map st,
     commit_phase_result st, auto_save_enabled st, request_counter st, handle_in_tclib st)"

interpretation member: handler_view members
  by unfold_locales (simp_all add: members_def)

text \<open>What outlives a transaction.\<close>

definition lasting :: "TcLibModule \<Rightarrow> _" where
  "lasting st = (pTcLibInterface st, tl_sess st, tc_notify_config_data_map st, request_counter st)"

interpretation lasting: service_view lasting
  by unfold_locales (simp_all add: lasting_def)

end
