(* ===== verification/TclibReports.thy ===== *)
theory TclibReports
  imports TclibFrame
begin

text \<open>
  The results of the drivers, from the driver that writes them with \<^verbatim>\<open>TcLibWrite...\<close> to the
  layer that reads them with \<^verbatim>\<open>UpdateControllerKeyList\<close> and
  \<^verbatim>\<open>TcLibReadKeyValueDataInfo\<close>. A report is what a driver has to say about one controller; its
  commit information is optional.
\<close>

section \<open>Reports\<close>

type_synonym key_report = "u32 \<times> u8 list \<times> u8 list option"

record driver_report =
  dr_controller :: string
  dr_code :: u32
  dr_info :: "(u64 \<times> u64 \<times> string) option"
  dr_keys :: "key_report list"

definition report_writes :: "driver_report \<Rightarrow> tclib_write list" where
  "report_writes r =
     (case dr_info r of
        None \<Rightarrow> WriteControllerInfo (dr_controller r) (dr_code r) (word_of_nat (length (dr_keys r)))
      | Some (n, d, a) \<Rightarrow>
          WriteCommitInfo (dr_controller r) (dr_code r) (word_of_nat (length (dr_keys r))) n d a) #
     map (\<lambda>(kt, k, v). WriteKeyValue (dr_controller r) kt k v) (dr_keys r)"

definition key_values :: "key_report \<Rightarrow> ipc_value list" where
  "key_values = (\<lambda>(kt, k, v). IpcU32 kt # IpcStruct k # (case v of None \<Rightarrow> [] | Some x \<Rightarrow> [IpcStruct x]))"

definition info_values :: "(u64 \<times> u64 \<times> string) option \<Rightarrow> ipc_value list" where
  "info_values i = (case i of None \<Rightarrow> [] | Some (n, d, a) \<Rightarrow> [IpcU64 n, IpcU64 d, IpcStr a])"

definition report_head :: "driver_report \<Rightarrow> ipc_value list" where
  "report_head r =
     [IpcStr (dr_controller r), IpcU32 (dr_code r), IpcU32 (word_of_nat (length (dr_keys r)))]"

definition report_values :: "driver_report \<Rightarrow> ipc_value list" where
  "report_values r = report_head r @ info_values (dr_info r) @ concat (map key_values (dr_keys r))"

definition report_result :: "driver_report \<Rightarrow> TcControllerResult" where
  "report_result r =
     \<lparr>tr_controller_id = dr_controller r, tr_resp_code = dr_code r,
      tr_num_of_errors = word_of_nat (length (dr_keys r)), tr_key_list = map fst (dr_keys r),
      tr_commit_number = (case dr_info r of None \<Rightarrow> 0 | Some (n, d, a) \<Rightarrow> n),
      tr_commit_date = (case dr_info r of None \<Rightarrow> 0 | Some (n, d, a) \<Rightarrow> d),
      tr_commit_application = (case dr_info r of None \<Rightarrow> '''' | Some (n, d, a) \<Rightarrow> a)\<rparr>"

text \<open>The reports with commit information come before those without.\<close>

definition info_first :: "driver_report list \<Rightarrow> bool" where
  "info_first rs \<longleftrightarrow> (\<forall>r \<in> set (dropWhile (\<lambda>r. dr_info r \<noteq> None) rs). dr_info r = None)"

lemma info_first_Cons:
  "info_first (r # rs) \<longleftrightarrow>
     (if dr_info r = None then (\<forall>x \<in> set rs. dr_info x = None) else info_first rs)"
  by (simp add: info_first_def)

lemma info_first_none: "(\<forall>x \<in> set rs. dr_info x = None) \<Longrightarrow> info_first rs"
  by (auto simp: info_first_def dest: set_dropWhileD)


section \<open>Writing\<close>

text \<open>The transport takes every value of a response.\<close>

definition accepting :: "ipc_env \<Rightarrow> bool" where
  "accepting E \<longleftrightarrow> (\<forall>h v. err8 (E h (SrvOutput v)) = 0)"

abbreviation response :: "TcLibModule \<Rightarrow> ipc_value list" where
  "response st \<equiv> srv_out (tl_ipc st)"

lemma put_values_accepting:
  assumes "accepting E"
  shows "tl_sess st \<Longrightarrow> \<exists>i. put_values E vs st = (True, st\<lparr>tl_ipc := i\<rparr>) \<and>
    srv_out i = response st @ vs"
proof (induction vs arbitrary: st)
  case Nil
  show ?case by (rule exI [of _ "tl_ipc st"]) simp
next
  case (Cons v vs)
  have "\<exists>i. put_sess E v st = (TCUTIL_RET_SUCCESS, st\<lparr>tl_ipc := i\<rparr>) \<and> srv_out i = response st @ [v]"
    using assms Cons.prems
    by (auto simp: put_sess_def srv_add_output_def ask_def accepting_def Let_def
        intro!: exI [of _ "(tl_ipc st)\<lparr>ipc_log := _, srv_out := _\<rparr>"])
  then show ?case
    using Cons.IH [of "st\<lparr>tl_ipc := _\<rparr>"] Cons.prems by fastforce
qed

text \<open>A step of writing: nothing but the response and the name of the controller changes.\<close>

definition wrote :: "ipc_value list \<Rightarrow> TcLibModule \<Rightarrow> TcLibModule \<Rightarrow> bool" where
  "wrote vs st st' \<longleftrightarrow> members st' = members st \<and> response st' = response st @ vs"

lemma wroteD: "wrote vs st st' \<Longrightarrow> oper_state st' = oper_state st \<and> tl_sess st' = tl_sess st"
  by (simp add: wrote_def members_def)

lemma write_head:
  assumes "accepting E" and "tl_sess st" and "oper_state st \<noteq> MSG_NONE"
  shows "let st' = do_write E (hd (report_writes r)) st
    in wrote (report_head r @ info_values (dr_info r)) st st' \<and> controllerid st' = dr_controller r"
proof (cases "dr_info r")
  case None
  from put_values_accepting [OF assms(1,2), of "report_head r"] show ?thesis
    using None assms(3)
    by (auto simp: report_writes_def info_values_def TcLibWriteControllerInfo_def wrote_def
        members_def report_head_def simp del: put_values.simps)
next
  case (Some i)
  obtain n d a where i: "i = (n, d, a)" by (cases i)
  from put_values_accepting [OF assms(1,2), of "report_head r @ info_values (dr_info r)"]
  show ?thesis
    using Some i assms(3)
    by (auto simp: report_writes_def info_values_def TcLibWriteControllerInfo_commit_def wrote_def
        members_def report_head_def simp del: put_values.simps)
qed

lemma write_key:
  assumes "accepting E" and "tl_sess st" and "oper_state st \<noteq> MSG_NONE" and "controllerid st = c"
  shows "let st' = do_write E (WriteKeyValue c kt k v) st
    in wrote (key_values (kt, k, v)) st st' \<and> controllerid st' = c"
  using put_values_accepting [OF assms(1,2), of "key_values (kt, k, v)"] assms(3,4)
  by (auto simp: TcLibWriteKeyValueDataInfo_def wrote_def members_def key_values_def
      split: option.splits simp del: put_values.simps)

lemma write_keys:
  assumes "accepting E"
  shows "tl_sess st \<Longrightarrow> oper_state st \<noteq> MSG_NONE \<Longrightarrow> controllerid st = c \<Longrightarrow>
    wrote (concat (map key_values ks)) st
      (fold (do_write E) (map (\<lambda>(kt, k, v). WriteKeyValue c kt k v) ks) st)"
proof (induction ks arbitrary: st)
  case Nil
  then show ?case by (simp add: wrote_def)
next
  case (Cons k ks)
  obtain kt key v where k: "k = (kt, key, v)" by (cases k)
  let ?st = "do_write E (WriteKeyValue c kt key v) st"
  from write_key [OF assms Cons.prems] have w: "wrote (key_values k) st ?st" "controllerid ?st = c"
    by (simp_all add: k Let_def)
  have "wrote (concat (map key_values ks)) ?st
      (fold (do_write E) (map (\<lambda>(kt, k, v). WriteKeyValue c kt k v) ks) ?st)"
    using Cons.prems w wroteD [OF w(1)] by (intro Cons.IH) simp_all
  then show ?case
    using w(1) by (simp add: k wrote_def)
qed

lemma write_report:
  assumes "accepting E" and "tl_sess st" and "oper_state st \<noteq> MSG_NONE"
  shows "wrote (report_values r) st (fold (do_write E) (report_writes r) st)"
proof -
  let ?st = "do_write E (hd (report_writes r)) st"
  from write_head [OF assms, of r] have w: "wrote (report_head r @ info_values (dr_info r)) st ?st"
      "controllerid ?st = dr_controller r"
    by (simp_all add: Let_def)
  have "wrote (concat (map key_values (dr_keys r))) ?st (fold (do_write E) (tl (report_writes r)) ?st)"
    using assms w wroteD [OF w(1)] by (simp add: report_writes_def write_keys del: do_write.simps)
  then have "wrote (report_values r) st (fold (do_write E) (tl (report_writes r)) ?st)"
    using w(1) by (simp add: wrote_def report_values_def)
  moreover have "report_writes r = hd (report_writes r) # tl (report_writes r)"
    by (simp add: report_writes_def)
  ultimately show ?thesis
    by (metis fold_simps(2))
qed

lemma write_reports:
  assumes "accepting E"
  shows "tl_sess st \<Longrightarrow> oper_state st \<noteq> MSG_NONE \<Longrightarrow>
    wrote (concat (map report_values rs)) st (fold (do_write E) (concat (map report_writes rs)) st)"
proof (induction rs arbitrary: st)
  case Nil
  then show ?case by (simp add: wrote_def)
next
  case (Cons r rs)
  let ?st = "fold (do_write E) (report_writes r) st"
  have w: "wrote (report_values r) st ?st"
    using Cons.prems by (rule write_report [OF assms])
  from Cons.IH [of ?st] Cons.prems wroteD [OF w] w show ?case
    by (simp add: wrote_def)
qed

section \<open>Reading\<close>

subsection \<open>Positions\<close>

lemma match_found:
  "args = pre @ skip @ x # post \<Longrightarrow> length pre = Suc cur \<Longrightarrow> \<forall>y \<in> set skip. getArgType y \<noteq> t \<Longrightarrow>
   getArgType x = t \<Longrightarrow> GetMatchTypeIndex args cur t = length pre + length skip"
proof (induction skip arbitrary: pre cur)
  case Nil
  then show ?case
    by (subst GetMatchTypeIndex.simps) (simp add: nth_append)
next
  case (Cons y skip)
  from Cons.prems have "GetMatchTypeIndex args (Suc cur) t = length (pre @ [y]) + length skip"
    by (intro Cons.IH) auto
  with Cons.prems show ?case
    by (subst GetMatchTypeIndex.simps) (simp add: nth_append)
qed

lemma match_none:
  "args = pre @ skip \<Longrightarrow> length pre = Suc cur \<Longrightarrow> \<forall>y \<in> set skip. getArgType y \<noteq> t \<Longrightarrow>
   GetMatchTypeIndex args cur t = 0"
proof (induction skip arbitrary: pre cur)
  case Nil
  then show ?case
    by (subst GetMatchTypeIndex.simps) simp
next
  case (Cons y skip)
  from Cons.prems have "GetMatchTypeIndex args (Suc cur) t = 0"
    by (intro Cons.IH [of "pre @ [y]"]) auto
  with Cons.prems show ?case
    by (subst GetMatchTypeIndex.simps) (simp add: nth_append)
qed

lemma srv_get_at:
  assumes "i < length (srv_args s)" and "length (srv_args s) < 2 ^ 32"
  shows "srv_get pick (word_of_nat i) s =
    (case pick (srv_args s ! i) of None \<Rightarrow> Inl TCUTIL_RET_FAILURE | Some v \<Rightarrow> Inr v)"
proof -
  have "unat (word_of_nat i :: u32) = i"
    using assms by (simp add: unat_of_nat)
  then show ?thesis
    using assms(1) by (simp add: srv_get_nth)
qed

lemmas get_at = srv_get_string_def srv_get_uint32_def srv_get_uint64_def srv_get_struct_def srv_get_at

lemma no_u64_keys: "y \<in> set (concat (map key_values ks)) \<Longrightarrow> getArgType y \<noteq> PFC_IPCTYPE_UINT64"
  by (auto simp: key_values_def split: option.splits)

lemma no_string_keys: "y \<in> set (concat (map key_values ks)) \<Longrightarrow> getArgType y \<noteq> PFC_IPCTYPE_STRING"
  by (auto simp: key_values_def split: option.splits)

lemma no_u64_reports:
  "\<forall>r \<in> set rs. dr_info r = None \<Longrightarrow> y \<in> set (concat (map report_values rs)) \<Longrightarrow>
   getArgType y \<noteq> PFC_IPCTYPE_UINT64"
  using no_u64_keys by (fastforce simp: report_values_def report_head_def info_values_def)

subsection \<open>One controller\<close>

lemma read_result_report:
  assumes args: "srv_args s = pre @ report_head r @ info_values (dr_info r) @ rest"
    and len: "length (srv_args s) < 2 ^ 32"
    and none: "dr_info r = None \<Longrightarrow> \<forall>y \<in> set rest. getArgType y \<noteq> PFC_IPCTYPE_UINT64"
  shows "read_result s (length pre) =
    Inr ((report_result r)\<lparr>tr_key_list := []\<rparr>, length pre + 2 + length (info_values (dr_info r)))"
proof -
  let ?h = "report_head r"
  have g: "srv_get_string (word_of_nat (length pre)) s = Inr (dr_controller r)"
    "srv_get_uint32 (word_of_nat (length pre + 1)) s = Inr (dr_code r)"
    "srv_get_uint32 (word_of_nat (length pre + 2)) s = Inr (word_of_nat (length (dr_keys r)))"
    using args len
    by (simp_all add: report_head_def get_at nth_append del: of_nat_Suc of_nat_add)
  show ?thesis
  proof (cases "dr_info r")
    case None
    have "GetMatchTypeIndex (srv_args s) (length pre + 2) PFC_IPCTYPE_UINT64 = 0"
      using args none None
      by (intro match_none [where pre = "pre @ ?h" and skip = rest])
        (simp_all add: info_values_def report_head_def)
    then show ?thesis
      using g None by (simp add: read_result_def report_result_def info_values_def Let_def)
  next
    case (Some i)
    obtain n d a where i: "i = (n, d, a)" by (cases i)
    let ?p = "pre @ ?h"
    have m: "GetMatchTypeIndex (srv_args s) (length pre + 2) PFC_IPCTYPE_UINT64 = length pre + 3"
      using match_found [of "srv_args s" ?p "[]" "IpcU64 n" "IpcU64 d # IpcStr a # rest"]
        args Some i by (simp add: info_values_def report_head_def)
    have "srv_get_uint64 (word_of_nat (length pre + 3)) s = Inr n"
      "srv_get_uint64 (word_of_nat (length pre + 4)) s = Inr d"
      "srv_get_string (word_of_nat (length pre + 5)) s = Inr a"
      using args len Some i
      by (simp_all add: info_values_def report_head_def get_at nth_append del: of_nat_Suc of_nat_add)
    then show ?thesis
      using g m Some i
      by (simp add: read_result_def report_result_def info_values_def Let_def
          numeral_eq_Suc del: of_nat_Suc of_nat_add)
  qed
qed

text \<open>Where the key number \<open>e\<close> of a controller is.\<close>

definition located :: "ipc_value list \<Rightarrow> TcKeyTypeIndexMap \<Rightarrow> u32 \<Rightarrow> key_report \<Rightarrow> bool" where
  "located args m e k \<longleftrightarrow>
     (\<exists>p post. map_of m e = Some (word_of_nat p) \<and> drop p args = key_values k @ post)"

abbreviation structs :: "ipc_value list \<Rightarrow> bool" where
  "structs vs \<equiv> (\<forall>y \<in> set vs. getArgType y = PFC_IPCTYPE_STRUCT)"

lemma u32_offsets_differ:
  assumes "i \<noteq> j" and "i < 2 ^ 32" and "j < 2 ^ 32"
  shows "e + word_of_nat i \<noteq> e + (word_of_nat j :: u32)"
proof
  assume "e + word_of_nat i = e + (word_of_nat j :: u32)"
  then have "unat (word_of_nat i :: u32) = unat (word_of_nat j :: u32)" by simp
  with assms show False by (simp add: unat_of_nat)
qed

lemma keys_length: "length ks \<le> length (concat (map key_values ks))"
  by (induction ks) (auto simp: key_values_def)

lemma read_keys_report:
  assumes "length (srv_args s) < 2 ^ 32"
  shows "srv_args s = pre @ junk @ concat (map key_values ks) @ post \<Longrightarrow> length pre = Suc idx \<Longrightarrow>
    structs junk \<Longrightarrow>
    \<exists>km' pre' junk' idx'. read_keys s (length ks) e idx km ks0 = (KeysDone, km', ks0 @ map fst ks, idx') \<and>
      srv_args s = pre' @ junk' @ post \<and> length pre' = Suc idx' \<and> structs junk' \<and>
      (\<forall>x. (\<forall>i < length ks. x \<noteq> e + word_of_nat i) \<longrightarrow> map_of km' x = map_of km x) \<and>
      (\<forall>i < length ks. located (srv_args s) km' (e + word_of_nat i) (ks ! i))"
proof (induction ks arbitrary: e idx km ks0 pre junk)
  case Nil
  then show ?case by fastforce
next
  case (Cons k ks)
  obtain kt key v where k: "k = (kt, key, v)" by (cases k)
  let ?vs = "IpcStruct key # (case v of None \<Rightarrow> [] | Some x \<Rightarrow> [IpcStruct x])"
  let ?p = "length pre + length junk"
  let ?km = "sm_put e (word_of_nat ?p) km"
  have args: "srv_args s = pre @ junk @ IpcU32 kt # ?vs @ concat (map key_values ks) @ post"
    using Cons.prems(1) by (simp add: k key_values_def)
  have match: "GetMatchTypeIndex (srv_args s) idx PFC_IPCTYPE_UINT32 = ?p"
    using args Cons.prems(2,3) by (intro match_found) auto
  have get: "srv_get_uint32 (word_of_nat ?p) s = Inr kt"
    using assms args by (simp add: get_at nth_append del: of_nat_add)
  have small: "length ks < 2 ^ 32"
    using assms args keys_length [of ks] by simp
  have "\<exists>km' pre' junk' idx'. read_keys s (length ks) (e + 1) ?p ?km (ks0 @ [kt]) =
        (KeysDone, km', (ks0 @ [kt]) @ map fst ks, idx') \<and>
      srv_args s = pre' @ junk' @ post \<and> length pre' = Suc idx' \<and> structs junk' \<and>
      (\<forall>x. (\<forall>i < length ks. x \<noteq> e + 1 + word_of_nat i) \<longrightarrow> map_of km' x = map_of ?km x) \<and>
      (\<forall>i < length ks. located (srv_args s) km' (e + 1 + word_of_nat i) (ks ! i))"
    using args by (intro Cons.IH [where pre = "pre @ junk @ [IpcU32 kt]" and junk = ?vs])
      (auto split: option.splits)
  then obtain km' pre' junk' idx' where
    rk: "read_keys s (length ks) (e + 1) ?p ?km (ks0 @ [kt]) = (KeysDone, km', ks0 @ kt # map fst ks, idx')"
    and rest: "srv_args s = pre' @ junk' @ post" "length pre' = Suc idx'" "structs junk'"
    and other: "\<And>x. (\<forall>i < length ks. x \<noteq> e + 1 + word_of_nat i) \<Longrightarrow> map_of km' x = map_of ?km x"
    and loc: "\<And>i. i < length ks \<Longrightarrow> located (srv_args s) km' (e + 1 + word_of_nat i) (ks ! i)"
    by (elim exE conjE) (rule that, auto)
  have "?p \<noteq> 0" using Cons.prems(2) by simp
  then have "read_keys s (length (k # ks)) e idx km ks0 = (KeysDone, km', ks0 @ map fst (k # ks), idx')"
    using match get rk by (simp add: k Let_def)
  moreover have "map_of km' x = map_of km x" if "\<forall>i < length (k # ks). x \<noteq> e + word_of_nat i" for x
  proof -
    have "x \<noteq> e" using that [rule_format, of 0] by simp
    moreover have "\<forall>i < length ks. x \<noteq> e + 1 + word_of_nat i"
      using that [rule_format, of "Suc _"] by (auto simp: add.assoc)
    ultimately show ?thesis using other by simp
  qed
  moreover have "located (srv_args s) km' (e + word_of_nat i) ((k # ks) ! i)" if "i < length (k # ks)" for i
  proof (cases i)
    case 0
    have "e \<noteq> e + 1 + word_of_nat j" if "j < length ks" for j
      using u32_offsets_differ [of 0 "Suc j" e] small that by (simp add: add.assoc)
    then have "map_of km' e = Some (word_of_nat ?p)" using other by simp
    moreover have "drop ?p (srv_args s) = key_values k @ concat (map key_values ks) @ post"
      using args by (simp add: k key_values_def)
    ultimately have "located (srv_args s) km' e k" unfolding located_def by blast
    then show ?thesis using 0 by simp
  next
    case (Suc j)
    then show ?thesis using loc [of j] that by (simp add: add.assoc)
  qed
  ultimately show ?case
    using rest by blast
qed

subsection \<open>All controllers\<close>

lemma loop_report:
  assumes args: "srv_args s = pre @ junk @ report_values r @ rest" and pre: "length pre = Suc idx"
    and junk: "structs junk" and len: "length (srv_args s) < 2 ^ 32"
    and none: "dr_info r = None \<Longrightarrow> \<forall>y \<in> set rest. getArgType y \<noteq> PFC_IPCTYPE_UINT64"
  shows "\<exists>km m pre' junk' idx'. update_loop s idx st = update_loop s idx'
      (st\<lparr>key_map := km,
          controller_key_map := (if dr_keys r = [] then controller_key_map st
                                 else sm_insert (dr_controller r) m (controller_key_map st)),
          commit_phase_result := commit_phase_result st @ [report_result r]\<rparr>) \<and>
    srv_args s = pre' @ junk' @ rest \<and> length pre' = Suc idx' \<and> structs junk' \<and>
    (\<forall>i < length (dr_keys r). located (srv_args s) m (word_of_nat i) (dr_keys r ! i))"
proof -
  let ?ks = "concat (map key_values (dr_keys r))"
  let ?pre = "pre @ junk" let ?n = "length (dr_keys r)"
  let ?j = "length ?pre + 2 + length (info_values (dr_info r))"
  let ?res = "(report_result r)\<lparr>tr_key_list := []\<rparr>"
  have args': "srv_args s = ?pre @ report_head r @ info_values (dr_info r) @ ?ks @ rest"
    using args by (simp add: report_values_def)
  have match: "GetMatchTypeIndex (srv_args s) idx PFC_IPCTYPE_STRING = length ?pre"
    using match_found [of "srv_args s" pre junk "IpcStr (dr_controller r)"] args' pre junk
    by (auto simp: report_head_def)
  have "\<forall>y \<in> set (?ks @ rest). getArgType y \<noteq> PFC_IPCTYPE_UINT64" if "dr_info r = None"
    using none [OF that] no_u64_keys [of _ "dr_keys r"] unfolding set_append by blast
  then have result: "read_result s (length ?pre) = Inr (?res, ?j)"
    by (rule read_result_report [OF args' len])
  have idx: "idx < length (srv_args s)" using args pre by simp
  have small: "?n < 2 ^ 32"
    using len args' keys_length [of "dr_keys r"] by simp
  have pos: "srv_args s = (?pre @ report_head r @ info_values (dr_info r)) @ [] @ ?ks @ rest"
    "length (?pre @ report_head r @ info_values (dr_info r)) = Suc ?j"
    using args' by (simp_all add: report_head_def)
  show ?thesis
  proof (cases "dr_keys r = []")
    case True
    then have "update_loop s idx st = update_loop s ?j
        (st\<lparr>commit_phase_result := commit_phase_result st @ [report_result r]\<rparr>)"
      using idx match result pre
      by (subst update_loop.simps) (simp add: report_result_def Let_def)
    moreover have "st\<lparr>key_map := key_map st, controller_key_map := controller_key_map st\<rparr> = st"
      by (cases st) simp
    ultimately have loop: "update_loop s idx st = update_loop s ?j
        (st\<lparr>key_map := key_map st, controller_key_map := controller_key_map st,
            commit_phase_result := commit_phase_result st @ [report_result r]\<rparr>)"
      by simp
    show ?thesis
      by (rule exI [of _ "key_map st"], rule exI [of _ "[] :: TcKeyTypeIndexMap"],
          rule exI [of _ "?pre @ report_head r @ info_values (dr_info r)"],
          rule exI [of _ "[] :: ipc_value list"], rule exI [of _ ?j])
        (use True pos loop in \<open>simp del: append_assoc\<close>)
  next
    case False
    have n: "unat (tr_num_of_errors ?res) = ?n"
      using small by (simp add: report_result_def unat_of_nat)
    with False have nz: "tr_num_of_errors ?res \<noteq> 0" by fastforce
    from read_keys_report [OF len pos(1,2), of 0 "[]" "[]"]
    obtain km pre' junk' idx' where
      rk: "read_keys s ?n 0 ?j [] [] = (KeysDone, km, map fst (dr_keys r), idx')"
      and rest: "srv_args s = pre' @ junk' @ rest" "length pre' = Suc idx'" "structs junk'"
      and loc: "\<forall>i < ?n. located (srv_args s) km (word_of_nat i) (dr_keys r ! i)"
      by auto
    have loop: "update_loop s idx st = update_loop s idx'
        (st\<lparr>key_map := km, controller_key_map := sm_insert (dr_controller r) km (controller_key_map st),
            commit_phase_result := commit_phase_result st @ [report_result r]\<rparr>)"
      using idx match result pre n nz rk
      by (subst update_loop.simps) (simp add: report_result_def Let_def)
    show ?thesis
      by (rule exI [of _ km], rule exI [of _ km], rule exI [of _ pre'], rule exI [of _ junk'],
          rule exI [of _ idx']) (use False rest loc loop in simp)
  qed
qed

definition keys_found ::
  "ipc_value list \<Rightarrow> (string, TcKeyTypeIndexMap) stdmap \<Rightarrow> driver_report \<Rightarrow> bool" where
  "keys_found args ck r \<longleftrightarrow>
     (\<forall>i < length (dr_keys r). \<exists>m. map_of ck (dr_controller r) = Some m \<and>
        located args m (word_of_nat i) (dr_keys r ! i))"

lemma keys_found_mono:
  assumes "keys_found args ck r" and "\<And>c m. map_of ck c = Some m \<Longrightarrow> map_of ck' c = Some m"
  shows "keys_found args ck' r"
  using assms unfolding keys_found_def by blast

lemma map_of_sm_insert:
  "map_of (sm_insert k v m) c = (if map_of m c = None \<and> c = k then Some v else map_of m c)"
  by (simp add: sm_insert_def)

lemma loop_reports:
  assumes len: "length (srv_args s) < 2 ^ 32"
  shows "srv_args s = pre @ junk @ concat (map report_values rs) \<Longrightarrow> length pre = Suc idx \<Longrightarrow>
    structs junk \<Longrightarrow> info_first rs \<Longrightarrow>
    \<exists>km ck. update_loop s idx st = (TC_SUCCESS, st\<lparr>key_map := km, controller_key_map := ck,
        commit_phase_result := commit_phase_result st @ map report_result rs\<rparr>) \<and>
      (\<forall>c m. map_of (controller_key_map st) c = Some m \<longrightarrow> map_of ck c = Some m) \<and>
      (distinct (map dr_controller rs) \<and>
       (\<forall>r \<in> set rs. map_of (controller_key_map st) (dr_controller r) = None) \<longrightarrow>
       (\<forall>r \<in> set rs. keys_found (srv_args s) ck r))"
proof (induction rs arbitrary: pre junk idx st)
  case Nil
  then have "GetMatchTypeIndex (srv_args s) idx PFC_IPCTYPE_STRING = 0"
    by (intro match_none [where skip = junk]) auto
  then have "update_loop s idx st = (TC_SUCCESS, st)"
    by (subst update_loop.simps) simp
  moreover have "st\<lparr>key_map := key_map st, controller_key_map := controller_key_map st,
      commit_phase_result := commit_phase_result st\<rparr> = st" by (cases st) simp
  ultimately show ?case
    by (intro exI [of _ "key_map st"] exI [of _ "controller_key_map st"]) simp
next
  case (Cons r rs)
  let ?rest = "concat (map report_values rs)"
  have none: "\<forall>y \<in> set ?rest. getArgType y \<noteq> PFC_IPCTYPE_UINT64" if "dr_info r = None"
    using Cons.prems(4) that no_u64_reports by (simp add: info_first_Cons del: set_concat)
  have first: "info_first rs"
    using Cons.prems(4) by (auto simp: info_first_Cons info_first_none split: if_splits)
  obtain km m pre' junk' idx' where
    step: "update_loop s idx st = update_loop s idx'
      (st\<lparr>key_map := km,
          controller_key_map := (if dr_keys r = [] then controller_key_map st
                                 else sm_insert (dr_controller r) m (controller_key_map st)),
          commit_phase_result := commit_phase_result st @ [report_result r]\<rparr>)"
    and pos: "srv_args s = pre' @ junk' @ ?rest" "length pre' = Suc idx'" "structs junk'"
    and loc: "\<forall>i < length (dr_keys r). located (srv_args s) m (word_of_nat i) (dr_keys r ! i)"
    using loop_report [OF _ Cons.prems(2,3) len none, of r st] Cons.prems(1) by auto
  let ?ck = "if dr_keys r = [] then controller_key_map st
             else sm_insert (dr_controller r) m (controller_key_map st)"
  let ?st = "st\<lparr>key_map := km, controller_key_map := ?ck,
                commit_phase_result := commit_phase_result st @ [report_result r]\<rparr>"
  from Cons.IH [OF pos first, of ?st] obtain km' ck where
    loop: "update_loop s idx' ?st = (TC_SUCCESS, ?st\<lparr>key_map := km', controller_key_map := ck,
      commit_phase_result := (commit_phase_result st @ [report_result r]) @ map report_result rs\<rparr>)"
    and keep: "\<And>c m. map_of ?ck c = Some m \<Longrightarrow> map_of ck c = Some m"
    and found: "distinct (map dr_controller rs) \<Longrightarrow>
       (\<forall>r \<in> set rs. map_of ?ck (dr_controller r) = None) \<Longrightarrow>
       (\<forall>r \<in> set rs. keys_found (srv_args s) ck r)"
    by auto
  have old: "map_of ck c = Some m'" if "map_of (controller_key_map st) c = Some m'" for c m'
    using keep that by (simp add: map_of_sm_insert split: if_splits)
  have "keys_found (srv_args s) ck x"
    if "distinct (map dr_controller (r # rs))"
      "\<forall>r \<in> set (r # rs). map_of (controller_key_map st) (dr_controller r) = None" "x \<in> set (r # rs)" for x
  proof (cases "x = r")
    case True
    have "keys_found (srv_args s) ?ck r"
      using loc that(2) by (simp add: keys_found_def map_of_sm_insert)
    then show ?thesis using True keep keys_found_mono by blast
  next
    case False
    have "\<forall>x \<in> set rs. map_of ?ck (dr_controller x) = None"
      using that(1,2) by (auto simp: map_of_sm_insert) (metis imageI)
    then show ?thesis
      using found that(1,3) False by simp
  qed
  then show ?case
    using step loop old
    by (intro exI [of _ km'] exI [of _ ck]) auto
qed

subsection \<open>Keys and values\<close>

lemma located_arguments:
  assumes "located args m e (kt, k, v)"
  obtains p where "map_of m e = Some (word_of_nat p)" "p + 1 < length args" "args ! p = IpcU32 kt"
    "args ! (p + 1) = IpcStruct k"
    "\<forall>x. v = Some x \<longrightarrow> p + 2 < length args \<and> args ! (p + 2) = IpcStruct x"
proof -
  from assms obtain p post where m: "map_of m e = Some (word_of_nat p)"
    and d: "drop p args = key_values (kt, k, v) @ post"
    unfolding located_def by blast
  have len: "length args = p + length (key_values (kt, k, v) @ post)"
    using arg_cong [OF d, of length] by (auto simp: key_values_def)
  then have nth: "args ! (p + i) = (key_values (kt, k, v) @ post) ! i" for i
    using d by (metis le_add1 nth_drop)
  show thesis
    using m len nth [of 0] nth [of 1] nth [of 2]
    by (intro that [of p]) (auto simp: key_values_def)
qed

lemma read_located:
  assumes "located (srv_args (tl_ipc st)) m e (kt, k, v)" and "map_of (controller_key_map st) c = Some m"
    and "IsReadKeyValueAllowed (oper_state st)" and "tl_sess st"
    and "length (srv_args (tl_ipc st)) < 2 ^ 32"
  shows "TcLibReadKeyValueDataInfo c e kt (v \<noteq> None) st = Inr (k, v)"
proof -
  from assms(1) obtain p where p: "map_of m e = Some (word_of_nat p)"
      "p + 1 < length (srv_args (tl_ipc st))" "srv_args (tl_ipc st) ! p = IpcU32 kt"
      "srv_args (tl_ipc st) ! (p + 1) = IpcStruct k"
    and v: "\<forall>x. v = Some x \<longrightarrow>
      p + 2 < length (srv_args (tl_ipc st)) \<and> srv_args (tl_ipc st) ! (p + 2) = IpcStruct x"
    by (rule located_arguments)
  have index: "GetKeyIndex c e st = Inr (word_of_nat p)"
    using assms(2) p(1) by (auto simp: GetKeyIndex_def)
  have "get_sess (srv_get_uint32 (word_of_nat p)) st = Some kt"
    "get_sess (srv_get_struct (word_of_nat (p + 1))) st = Some k"
    using assms(4,5) p by (simp_all add: get_sess_def get_at del: of_nat_Suc of_nat_add)
  moreover have "get_sess (srv_get_struct (word_of_nat (p + 2))) st = Some x" if "v = Some x" for x
    using assms(4,5) v that by (simp add: get_sess_def get_at del: of_nat_Suc of_nat_add)
  ultimately show ?thesis
    using assms(3) index by (cases v) (simp_all add: TcLibReadKeyValueDataInfo_def add.commute)
qed

lemma update_reports:
  assumes "srv_args (tl_ipc st) = head @ concat (map report_values rs)" and "length head = 4"
    and "length (srv_args (tl_ipc st)) < 2 ^ 32" and "tl_sess st" and "info_first rs"
  obtains km ck where "UpdateControllerKeyList st = (TC_SUCCESS, st\<lparr>key_map := km,
      controller_key_map := ck, commit_phase_result := map report_result rs\<rparr>)"
    "distinct (map dr_controller rs) \<Longrightarrow> \<forall>r \<in> set rs. keys_found (srv_args (tl_ipc st)) ck r"
proof -
  let ?st = "st\<lparr>key_map := [], controller_key_map := [], commit_phase_result := []\<rparr>"
  from loop_reports [OF assms(3), of head "[]" rs 3 ?st] obtain km ck where
    loop: "update_loop (tl_ipc st) 3 ?st = (TC_SUCCESS, ?st\<lparr>key_map := km, controller_key_map := ck,
      commit_phase_result := map report_result rs\<rparr>)"
    and found: "distinct (map dr_controller rs) \<Longrightarrow> \<forall>r \<in> set rs. keys_found (srv_args (tl_ipc st)) ck r"
    using assms(1,2,5) by auto
  have "UpdateControllerKeyList st = (TC_SUCCESS, st\<lparr>key_map := km,
      controller_key_map := ck, commit_phase_result := map report_result rs\<rparr>)"
    using loop assms(1,2,4)
    by (auto simp: UpdateControllerKeyList_def sess_of_def DRV_RESULT_START_POS_def)
  with found show thesis by (rule that [rotated])
qed

text \<open>
  C35. The results of the drivers travel without loss. Let the handlers of the drivers report on
  controllers with different names, those that carry commit information first, and let the
  coordinator send what they wrote to a layer, after the four values of the message head. Then
  the layer obtains one result per report, in order, with its response code, the number and
  types of its errors and its commit information (zero when there is none); and reading the key
  and the value of any error of any controller yields what the driver wrote.
\<close>

theorem driver_reports_roundtrip:
  assumes "accepting E" and "tl_sess d" and "oper_state d \<noteq> MSG_NONE" and "response d = []"
    and "srv_args (tl_ipc st) =
      head @ response (fold (do_write E) (concat (map report_writes rs)) d)"
    and "length head = 4" and "length (srv_args (tl_ipc st)) < 2 ^ 32"
    and "tl_sess st" and "IsReadKeyValueAllowed (oper_state st)"
    and "info_first rs" and "distinct (map dr_controller rs)"
  shows "\<exists>st'. UpdateControllerKeyList st = (TC_SUCCESS, st') \<and>
    commit_phase_result st' = map report_result rs \<and>
    (\<forall>r \<in> set rs. \<forall>i < length (dr_keys r). case dr_keys r ! i of (kt, k, v) \<Rightarrow>
       TcLibReadKeyValueDataInfo (dr_controller r) (word_of_nat i) kt (v \<noteq> None) st' = Inr (k, v))"
proof -
  let ?s = "tl_ipc st"
  have "srv_args ?s = head @ concat (map report_values rs)"
    using write_reports [OF assms(1-3), of rs] assms(4,5) by (simp add: wrote_def)
  then obtain km ck where upd: "UpdateControllerKeyList st = (TC_SUCCESS, st\<lparr>key_map := km,
      controller_key_map := ck, commit_phase_result := map report_result rs\<rparr>)"
    and found: "\<forall>r \<in> set rs. keys_found (srv_args ?s) ck r"
    using update_reports [OF _ assms(6,7,8,10)] assms(11) by metis
  let ?st' = "st\<lparr>key_map := km, controller_key_map := ck,
    commit_phase_result := map report_result rs\<rparr>"
  have "TcLibReadKeyValueDataInfo (dr_controller r) (word_of_nat i) kt (v \<noteq> None) ?st' = Inr (k, v)"
    if "r \<in> set rs" "i < length (dr_keys r)" "dr_keys r ! i = (kt, k, v)" for r i kt k v
  proof -
    from found that obtain m where "map_of ck (dr_controller r) = Some m"
        "located (srv_args ?s) m (word_of_nat i) (kt, k, v)"
      by (fastforce simp: keys_found_def)
    then show ?thesis
      using assms(7,8,9) by (intro read_located [where m = m]) simp_all
  qed
  with upd show ?thesis
    by (intro exI [of _ ?st']) (auto split: prod.splits)
qed

definition sample_reports :: "driver_report list" where
  "sample_reports =
     [\<lparr>dr_controller = ''c1'', dr_code = 0, dr_info = Some (7, 8, ''app''), dr_keys = []\<rparr>,
      \<lparr>dr_controller = ''c2'', dr_code = 1, dr_info = None, dr_keys = [(5, [1], Some [2, 3])]\<rparr>]"

definition plain_env :: ipc_env where
  "plain_env h c = \<lparr>rp_err = 0, rp_conn = 1, rp_resp = 0, rp_vals = [], rp_cols = []\<rparr>"

lemma plain_env_accepting: "accepting plain_env"
  by (simp add: accepting_def plain_env_def err8_def)

definition voting_driver :: TcLibModule where
  "voting_driver = (TcLibModule_new ipc_init)\<lparr>tl_sess := True, oper_state := MSG_COMMIT_DRIVER_VOTE\<rparr>"

definition result_layer :: "driver_report list \<Rightarrow> TcLibModule" where
  "result_layer rs =
     (TcLibModule_new (ipc_init\<lparr>srv_args := [IpcU8 7, IpcU32 1, IpcU32 1, IpcU8 0] @
        response (fold (do_write plain_env) (concat (map report_writes rs)) voting_driver)\<rparr>))
     \<lparr>tl_sess := True, oper_state := MSG_COMMIT_VOTE_DRIVER_RESULT\<rparr>"

lemma voting_driver_response:
  "response (fold (do_write plain_env) (concat (map report_writes rs)) voting_driver) =
     concat (map report_values rs)"
  using write_reports [OF plain_env_accepting, of voting_driver rs]
  by (simp add: wrote_def voting_driver_def TcLibModule_new_def ipc_init_def)

theorem driver_reports_roundtrip_witness:
  "\<exists>st'. UpdateControllerKeyList (result_layer sample_reports) = (TC_SUCCESS, st') \<and>
     commit_phase_result st' = map report_result sample_reports \<and>
     TcLibReadKeyValueDataInfo ''c2'' 0 5 True st' = Inr ([1], Some [2, 3])"
proof -
  have "length (srv_args (tl_ipc (result_layer sample_reports))) < 2 ^ 32"
    unfolding result_layer_def voting_driver_response
    by (simp add: TcLibModule_new_def sample_reports_def report_values_def report_head_def info_values_def key_values_def)
  then show ?thesis
    using driver_reports_roundtrip [OF plain_env_accepting, of voting_driver
        "result_layer sample_reports" "[IpcU8 7, IpcU32 1, IpcU32 1, IpcU8 0]" sample_reports]
    by (simp add: result_layer_def voting_driver_def TcLibModule_new_def ipc_init_def
        sample_reports_def info_first_def)
qed

text \<open>
  The order matters. When a controller without commit information precedes one with it, the
  search for the next 64-bit argument runs into the later report: the first controller gets the
  commit information of the second, which is not reported at all; and when the first controller
  has errors, neither is.
\<close>

theorem late_commit_information_lost:
  "map (\<lambda>r. (tr_controller_id r, tr_commit_number r, tr_commit_application r))
     (commit_phase_result (snd (UpdateControllerKeyList (result_layer
        [\<lparr>dr_controller = ''c2'', dr_code = 0, dr_info = None, dr_keys = []\<rparr>,
         \<lparr>dr_controller = ''c1'', dr_code = 0, dr_info = Some (7, 8, ''app''), dr_keys = []\<rparr>])))) =
   [(''c2'', 7, ''app'')] \<and>
   UpdateControllerKeyList (result_layer (rev sample_reports)) =
     (TC_SUCCESS, (result_layer (rev sample_reports))\<lparr>key_map := [], controller_key_map := [],
        commit_phase_result := []\<rparr>)"
  unfolding result_layer_def voting_driver_response
  by code_simp

end
