(* ===== verification/TclibWire.thy ===== *)
theory TclibWire
  imports TclibModule TcMsgAudit TcMsgTrace
begin

text \<open>
  The two ends of the protocol agree: what the coordinator puts into a request
  (\<^verbatim>\<open>tcmsg_commit.cc\<close>, \<^verbatim>\<open>tcmsg_audit.cc\<close>) is what the daemon reads from it
  (\<^verbatim>\<open>tclib_msg_util.cc\<close>), for every message of a commit and of an audit.
\<close>

definition received :: "ipc_state \<Rightarrow> ipc_value list \<Rightarrow> ipc_state option" where
  "received s vs = Some (s\<lparr>srv_args := vs\<rparr>)"

lemma puts_strings [simp]: "puts (map (Put \<circ> IpcStr) cs) = map IpcStr cs"
  by (induction cs) simp_all

lemmas getter_defs = srv_get_uint8_def srv_get_uint32_def srv_get_uint64_def srv_get_string_def
  srv_get_def

lemma read_ctr_list_received:
  assumes "length cs < 256"
  shows "read_ctr_list (unat (word_of_nat (length cs) :: u8)) 3
    (s\<lparr>srv_args := a # b # c # d # map IpcStr cs\<rparr>) = Inr cs"
proof -
  have "unat (word_of_nat (length cs) :: u8) = length cs"
    using assms by (simp add: unat_of_nat)
  then show ?thesis
    using assms by (simp add: read_ctr_list_suffix [where pre = "[a, b, c, d]"])
qed

lemma driver_id_octet: "driver_valid m \<Longrightarrow> ucast (ucast (driver_id m) :: u8) = driver_id m"
proof -
  assume "driver_valid m"
  then have "driver_id m \<le> 5" by (simp add: driver_valid_def)
  then have "unat (driver_id m) < 256" by (simp add: word_le_nat_alt)
  then have "take_bit 8 (driver_id m) = driver_id m"
    by (simp add: word_unat_eq_iff unsigned_take_bit_eq take_bit_nat_eq_self)
  then show ?thesis by (simp add: word_eq_iff_unsigned unsigned_ucast_eq)
qed

lemma driver_message_read:
  assumes "length clist < 256"
  shows "GetCommitDrvVoteGlobalMsg (received s (puts (driver_items t clist))) =
    Inr \<lparr>cv_oper_type = Some (if opertype t = MSG_COMMIT_VOTE then MSG_COMMIT_DRIVER_VOTE
                              else if opertype t = MSG_COMMIT_GLOBAL then MSG_COMMIT_DRIVER_GLOBAL
                              else MSG_NONE),
         cv_session_id = session_id t, cv_config_id = config_id t,
         cv_cntrl_count = word_of_nat (length clist), cv_cntrl_list = clist\<rparr>"
  using assms
  by (simp add: tclib_msg_defs received_def driver_items_def getter_defs read_ctr_list_received
      del: msg_num.simps)

lemma result_message_read:
  assumes "driver_result_items t = Some items"
  shows "GetCommitDrvResultMsg (received s (puts items @ results)) =
    Inr \<lparr>cr_oper_type = Some (if opertype t = MSG_COMMIT_VOTE then MSG_COMMIT_VOTE_DRIVER_RESULT
                              else MSG_COMMIT_GLOBAL_DRIVER_RESULT),
         cr_session_id = session_id t, cr_config_id = config_id t,
         cr_phase = commit_phase_num (if opertype t = MSG_COMMIT_VOTE then TC_COMMIT_VOTE_PHASE
                                      else TC_COMMIT_GLOBAL_COMMIT_PHASE)\<rparr>"
  using assms
  by (auto simp: tclib_msg_defs received_def getter_defs driver_result_items_def Let_def
      split: TcMsgOperType.splits simp del: msg_num.simps)

lemma transaction_message_read:
  "GetCommitTransactionMsg (received s (puts (transaction_items m))) =
    Inr \<lparr>ct_oper_type = Some (opertype m), ct_session_id = session_id m,
         ct_config_id = config_id m,
         ct_end_result = (if opertype m = MSG_COMMIT_TRANS_END
                          then Some (trans_end_num (trans_result m)) else None)\<rparr>"
  by (simp add: tclib_msg_defs received_def getter_defs transaction_items_def commit_items_def
      del: msg_num.simps)



lemma audit_driver_message_read:
  assumes "length clist < 256"
  shows "GetAuditDrvVoteGlobalMsg (received s (puts (audit_driver_items t clist))) =
    Inr \<lparr>av_oper_type = Some (if opertype t = MSG_AUDIT_VOTE then MSG_AUDIT_DRIVER_VOTE
                              else if opertype t = MSG_AUDIT_GLOBAL then MSG_AUDIT_DRIVER_GLOBAL
                              else MSG_NONE),
         av_session_id = session_id t, av_controller_id = controller_id t,
         av_cntrl_count = word_of_nat (length clist), av_cntrl_list = clist\<rparr>"
  using assms
  by (simp add: tclib_msg_defs received_def audit_driver_items_def getter_defs
      read_ctr_list_received del: msg_num.simps)

lemma audit_transaction_message_read:
  assumes "driver_valid m"
  shows "GetAuditTransactionMsg (received s (puts (audit_transaction_items m))) =
    Inr \<lparr>at_oper_type = Some (opertype m), at_session_id = session_id m,
         at_driver_id = driver_id m, at_controller_id = controller_id m,
         at_start = (if opertype m = MSG_AUDIT_START
                     then Some \<lparr>as_reconnect_controller = reconnect_controller m,
                                as_audit_type = audit_type_num (audit_type m),
                                as_commit_number = at_commit_number m,
                                as_commit_date = commit_date m,
                                as_commit_application = commit_application m\<rparr> else None),
         at_audit_result = (if opertype m = MSG_AUDIT_END
                            then Some (audit_result_num (audit_result m)) else None),
         at_end_result = (if opertype m = MSG_AUDIT_TRANS_END
                          then Some (trans_end_num (trans_result m)) else None)\<rparr>"
  using driver_id_octet [OF assms]
  by (auto simp: tclib_msg_defs received_def getter_defs audit_transaction_items_def
      simp del: msg_num.simps)

text \<open>
  Every message of an audit that the coordinator builds for a driver of a known type is read
  back by the daemon: the start with its type and commit information, the votes, the end of the
  transaction and of the audit with their results, the abort, the controllers of a driver, and
  the head of the message with the results of the drivers.
\<close>

theorem audit_messages_understood:
  fixes m :: AuditTransaction and t :: TwoPhaseAudit
  assumes "driver_valid m" and "driver_valid t" and "length clist < 256"
    and "audit_driver_result (opertype t) = Some (oper, phase)"
    and "oper_end = MSG_AUDIT_TRANS_END \<or> oper_end = MSG_AUDIT_END"
  shows "GetAuditTransactionMsg (received s (puts (audit_transaction_items m))) =
      Inr \<lparr>at_oper_type = Some (opertype m), at_session_id = session_id m,
           at_driver_id = driver_id m, at_controller_id = controller_id m,
           at_start = (if opertype m = MSG_AUDIT_START
                       then Some \<lparr>as_reconnect_controller = reconnect_controller m,
                                  as_audit_type = audit_type_num (audit_type m),
                                  as_commit_number = at_commit_number m,
                                  as_commit_date = commit_date m,
                                  as_commit_application = commit_application m\<rparr> else None),
           at_audit_result = (if opertype m = MSG_AUDIT_END
                              then Some (audit_result_num (audit_result m)) else None),
           at_end_result = (if opertype m = MSG_AUDIT_TRANS_END
                            then Some (trans_end_num (trans_result m)) else None)\<rparr> \<and>
    GetAuditTransactionMsg (received s (puts (audit_layer_items t))) =
      Inr \<lparr>at_oper_type = Some (opertype t), at_session_id = session_id t,
           at_driver_id = driver_id t, at_controller_id = controller_id t,
           at_start = None, at_audit_result = None, at_end_result = None\<rparr> \<and>
    GetAuditTransactionMsg (received s (puts (audit_end_items oper_end m))) =
      Inr \<lparr>at_oper_type = Some oper_end, at_session_id = session_id m,
           at_driver_id = driver_id m, at_controller_id = controller_id m, at_start = None,
           at_audit_result = (if oper_end = MSG_AUDIT_END
                              then Some (audit_result_num (audit_result m)) else None),
           at_end_result = (if oper_end = MSG_AUDIT_TRANS_END
                            then Some (trans_end_num (trans_result m)) else None)\<rparr> \<and>
    GetAuditGlobalAbortMsg (received s (puts (audit_abort_items t))) =
      Inr \<lparr>aa_oper_type = Some MSG_AUDIT_ABORT, aa_session_id = session_id t,
           aa_driver_id = driver_id t, aa_controller_id = controller_id t,
           aa_audit_oper_phase = 2\<rparr> \<and>
    GetAuditDrvVoteGlobalMsg (received s (puts (audit_driver_items t clist))) =
      Inr \<lparr>av_oper_type = Some (if opertype t = MSG_AUDIT_VOTE then MSG_AUDIT_DRIVER_VOTE
                                else MSG_AUDIT_DRIVER_GLOBAL),
           av_session_id = session_id t, av_controller_id = controller_id t,
           av_cntrl_count = word_of_nat (length clist), av_cntrl_list = clist\<rparr> \<and>
    GetAuditDrvResultMsg (received s ([IpcU8 (msg_num oper), IpcU32 (session_id t),
        IpcStr (controller_id t), IpcU8 (commit_phase_num phase)] @ results)) =
      Inr \<lparr>ar_oper_type = Some oper, ar_session_id = session_id t,
           ar_controller_id = controller_id t, ar_phase = commit_phase_num phase\<rparr>"
proof -
  have t: "opertype t = MSG_AUDIT_VOTE \<or> opertype t = MSG_AUDIT_GLOBAL"
    using assms(4) by (cases "opertype t") simp_all
  note ids = driver_id_octet [OF assms(1)] driver_id_octet [OF assms(2)]
  show ?thesis
  proof (intro conjI audit_transaction_message_read [OF assms(1)])
    show "GetAuditTransactionMsg (received s (puts (audit_end_items oper_end m))) =
      Inr \<lparr>at_oper_type = Some oper_end, at_session_id = session_id m,
           at_driver_id = driver_id m, at_controller_id = controller_id m, at_start = None,
           at_audit_result = (if oper_end = MSG_AUDIT_END
                              then Some (audit_result_num (audit_result m)) else None),
           at_end_result = (if oper_end = MSG_AUDIT_TRANS_END
                            then Some (trans_end_num (trans_result m)) else None)\<rparr>"
      using assms(5)
      by (elim disjE) (simp_all add: tclib_msg_defs received_def getter_defs audit_end_items_def
          id_items_def ids del: msg_num.simps)
  qed (use t audit_driver_message_read [OF assms(3), of s t] in
      \<open>auto simp: tclib_msg_defs received_def getter_defs audit_layer_items_def audit_abort_items_def id_items_def ids simp del: msg_num.simps\<close>)
qed

lemmas audit_new_defs = AuditTransaction_new_def TwoPhaseAudit_new_def TcMsgAudit_new_def
  TcMsg_new_def TcMsg.TcMsg.extend_def TcMsgAudit.TcMsgAudit.extend_def
  TcMsgAudit.TcMsgAudit.fields_def AuditTransaction.fields_def TwoPhaseAudit.fields_def

theorem audit_messages_understood_witness:
  "GetAuditTransactionMsg (received ipc_init (puts (audit_transaction_items
     ((AuditTransaction_new 1 MSG_AUDIT_TRANS_START Map.empty)\<lparr>driver_id := 5\<rparr>)))) =
   Inr \<lparr>at_oper_type = Some MSG_AUDIT_TRANS_START, at_session_id = 1, at_driver_id = 5,
        at_controller_id = '''', at_start = None, at_audit_result = None, at_end_result = None\<rparr>"
  using audit_messages_understood
    [of "(AuditTransaction_new 1 MSG_AUDIT_TRANS_START Map.empty)\<lparr>driver_id := 5\<rparr>"
        "(TwoPhaseAudit_new 1 MSG_AUDIT_VOTE Map.empty)\<lparr>driver_id := 5\<rparr>" "[]"
        MSG_AUDIT_VOTE_DRIVER_RESULT TC_AUDIT_VOTE_PHASE MSG_AUDIT_END ipc_init]
  by (simp add: audit_new_defs driver_valid_def)

end
