(* ===== verification/TclibProps.thy ===== *)
theory TclibProps
  imports TclibReports TclibWire TcCandidateOps
begin

text \<open>
  The behaviour of the daemon side over sequences of requests: the count of the requests being
  served and the session pointer it guards, the table of configuration sessions as a refinement
  of a partial function, the rounds of a commit that the coordinator sends, what a refused
  message does to the automaton, and the life of a cancellation.
\<close>

section \<open>Sequences of requests\<close>

type_synonym tclib_request = "u32 \<times> ipc_value list"

definition serve :: "ipc_env \<Rightarrow> TcLibInterface \<Rightarrow> tclib_request \<Rightarrow> TcLibModule \<Rightarrow> TcLibModule" where
  "serve E I q st = snd (TcLib_ipcService E I (fst q) (snd q) st)"

definition tclib_run :: "ipc_env \<Rightarrow> TcLibInterface \<Rightarrow> tclib_request list \<Rightarrow> TcLibModule \<Rightarrow> TcLibModule" where
  "tclib_run E I qs st = fold (serve E I) qs st"

definition is_notify :: "tclib_request \<Rightarrow> bool" where
  "is_notify q \<longleftrightarrow> fst q = tclib_num TCLIB_NOTIFY_SESSION_CONFIG"

lemma tclib_run_simps [simp]:
  "tclib_run E I [] st = st" "tclib_run E I (q # qs) st = tclib_run E I qs (serve E I q st)"
  by (simp_all add: tclib_run_def)

lemma to_tclib_num [simp]: "to_tclib (tclib_num t) = Some t"
  by (cases t) (simp_all add: to_tclib_def tclib_services_def)

lemma to_tclib_notify: "to_tclib n = Some TCLIB_NOTIFY_SESSION_CONFIG \<longleftrightarrow> n = 0"
proof
  assume n: "to_tclib n = Some TCLIB_NOTIFY_SESSION_CONFIG"
  then have "unat n < length tclib_services"
    "tclib_services ! unat n = tclib_services ! 0"
    by (simp_all add: to_tclib_def tclib_services_def split: if_splits)
  moreover have "distinct tclib_services" by (simp add: tclib_services_def)
  ultimately have "unat n = 0" by (metis gr_zeroI length_greater_0_conv list.size(3) not_less_zero nth_eq_iff_index_eq)
  then show "n = 0" by (simp add: unat_eq_zero)
qed (simp add: to_tclib_def tclib_services_def)

text \<open>A request that is not an announcement.\<close>

lemma serve_other:
  assumes "pTcLibInterface st \<noteq> None" and "\<not> is_notify q"
  shows "pTcLibInterface (serve E I q st) = pTcLibInterface st"
    and "tc_notify_config_data_map (serve E I q st) = tc_notify_config_data_map st"
    and "request_counter (serve E I q st) = request_counter st"
    and "tl_sess (serve E I q st) \<longleftrightarrow> request_counter st \<noteq> 0 \<and> (uses_sess (fst q) \<or> tl_sess st)"
proof -
  obtain svc args where q: "q = (svc, args)" by (cases q)
  have svc: "svc \<noteq> 0" using assms(2) by (simp add: q is_notify_def)
  obtain r st1 where d: "tclib_dispatch E I (to_tclib svc) (begin_request E svc args st) = (r, st1)"
    by fastforce
  have "lasting st1 = lasting (begin_request E svc args st)"
    using d svc to_tclib_notify by (intro lasting.dispatch_view) auto
  moreover have "serve E I q st = end_request st1"
    using assms(1) svc d by (auto simp: q serve_def TcLib_ipcService_def)
  ultimately show "pTcLibInterface (serve E I q st) = pTcLibInterface st"
    "tc_notify_config_data_map (serve E I q st) = tc_notify_config_data_map st"
    "request_counter (serve E I q st) = request_counter st"
    "tl_sess (serve E I q st) \<longleftrightarrow> request_counter st \<noteq> 0 \<and> (uses_sess (fst q) \<or> tl_sess st)"
    by (simp_all add: q lasting_def begin_request_def end_request_def Let_def)
qed

section \<open>Announcements\<close>

text \<open>What the arguments of an announcement say.\<close>

fun announcement :: "ipc_value list \<Rightarrow> (u32 \<times> u32 \<times> u8 \<times> string) option" where
  "announcement (IpcU32 sid # IpcU32 cid # IpcU8 mode # IpcStr vtn # _) = Some (sid, cid, mode, vtn)"
| "announcement _ = None"

definition announced :: "ipc_value list \<Rightarrow> (u32 \<times> u32 \<times> TcConfigMode \<times> string) option" where
  "announced args =
     map_option (\<lambda>(sid, cid, mode, vtn). (sid, cid, to_config_mode (ucast mode), vtn))
       (announcement args)"

type_synonym session_table = "u32 \<rightharpoonup> u32 \<times> TcConfigMode \<times> string"

text \<open>The specification: a table of sessions, which a global mode empties first.\<close>

definition spec_announce :: "u32 \<times> u32 \<times> TcConfigMode \<times> string \<Rightarrow> session_table \<Rightarrow> session_table" where
  "spec_announce = (\<lambda>(sid, cid, mode, vtn) T.
     if cid = 0 then T(sid := None)
     else (if mode = TC_CONFIG_GLOBAL then Map.empty else T)(sid \<mapsto> (cid, mode, vtn)))"

definition spec_accepts :: "session_table \<Rightarrow> u32 \<Rightarrow> u32 \<Rightarrow> TcConfigMode \<Rightarrow> string \<Rightarrow> bool" where
  "spec_accepts T sid cid mode vtn \<longleftrightarrow>
     (case T sid of
        None \<Rightarrow> False
      | Some (cid', mode', vtn') \<Rightarrow>
          cid \<noteq> 0 \<and> cid = cid' \<and>
          (mode' = TC_CONFIG_GLOBAL \<or> mode = mode' \<and> (mode = TC_CONFIG_VTN \<longrightarrow> vtn = vtn')))"

definition spec_table :: "tclib_request list \<Rightarrow> session_table \<Rightarrow> session_table" where
  "spec_table qs = fold (\<lambda>q T. if is_notify q
     then (case announced (snd q) of None \<Rightarrow> T | Some a \<Rightarrow> spec_announce a T) else T) qs"

definition table_of :: "TcLibModule \<Rightarrow> session_table" where
  "table_of st sid = map_option (\<lambda>d. (nd_config_id d, nd_config_mode d, nd_vtn_name d))
     (map_of (tc_notify_config_data_map st) sid)"

lemma rd_failure [simp]: "rd x (\<lambda>_. Inl TC_FAILURE) = Inl TC_FAILURE"
  by (cases x) simp_all

lemma read_announcement:
  "session_args (Some s) (\<lambda>s. rd (srv_get_uint32 0 s) (\<lambda>sid. rd (srv_get_uint32 1 s) (\<lambda>cid.
     rd (srv_get_uint8 2 s) (\<lambda>mode. rd (srv_get_string 3 s) (\<lambda>vtn. Inr (sid, cid, mode, vtn)))))) =
   (case announcement (srv_args s) of None \<Rightarrow> Inl TC_FAILURE | Some a \<Rightarrow> Inr a)"
  by (cases "srv_args s" rule: announcement.cases) (simp_all add: session_args_def getter_defs)

lemma notify_table:
  "table_of (snd (TcLib_NotifySessionConfig st)) =
     (case announced (srv_args (tl_ipc st)) of None \<Rightarrow> table_of st | Some a \<Rightarrow> spec_announce a (table_of st))"
  "pTcLibInterface (snd (TcLib_NotifySessionConfig st)) = pTcLibInterface st"
  "request_counter (snd (TcLib_NotifySessionConfig st)) = request_counter st"
  "tl_sess (snd (TcLib_NotifySessionConfig st)) = tl_sess st"
  unfolding TcLib_NotifySessionConfig_def with_args_def read_announcement announced_def
  by (auto simp: UpdateNotifyConfigData_def spec_announce_def table_of_def fun_eq_iff
      split: option.splits)

lemma serve_notify:
  assumes "pTcLibInterface st \<noteq> None" and "is_notify q"
  shows "pTcLibInterface (serve E I q st) = pTcLibInterface st"
    and "table_of (serve E I q st) =
      (case announced (snd q) of None \<Rightarrow> table_of st | Some a \<Rightarrow> spec_announce a (table_of st))"
    and "request_counter (serve E I q st) = request_counter st + 1"
    and "tl_sess (serve E I q st) = tl_sess st"
proof -
  have "to_tclib (fst q) = Some TCLIB_NOTIFY_SESSION_CONFIG"
    using assms(2) to_tclib_notify by (simp add: is_notify_def)
  then have s: "serve E I q st = snd (TcLib_NotifySessionConfig (begin_request E (fst q) (snd q) st))"
    using assms by (auto simp: serve_def TcLib_ipcService_def is_notify_def split: prod.splits)
  let ?st = "begin_request E (fst q) (snd q) st"
  have "srv_args (tl_ipc ?st) = snd q" "table_of ?st = table_of st"
    "pTcLibInterface ?st = pTcLibInterface st" "request_counter ?st = request_counter st + 1"
    "tl_sess ?st = tl_sess st"
    using assms(2) by (simp_all add: begin_request_def Let_def ask_def table_of_def fun_eq_iff
        uses_sess_def is_notify_def)
  then show "pTcLibInterface (serve E I q st) = pTcLibInterface st"
    "table_of (serve E I q st) =
      (case announced (snd q) of None \<Rightarrow> table_of st | Some a \<Rightarrow> spec_announce a (table_of st))"
    "request_counter (serve E I q st) = request_counter st + 1"
    "tl_sess (serve E I q st) = tl_sess st"
    by (simp_all add: s notify_table split: option.split)
qed

lemma run_counter:
  "pTcLibInterface st \<noteq> None \<Longrightarrow>
   pTcLibInterface (tclib_run E I qs st) = pTcLibInterface st \<and>
   request_counter (tclib_run E I qs st) = request_counter st + word_of_nat (length (filter is_notify qs))"
proof (induction qs arbitrary: st)
  case (Cons q qs)
  then show ?case
    using serve_notify [of st q E I] serve_other [of st q E I] by (cases "is_notify q") simp_all
qed simp

lemma run_table:
  "pTcLibInterface st \<noteq> None \<Longrightarrow> table_of (tclib_run E I qs st) = spec_table qs (table_of st)"
proof (induction qs arbitrary: st)
  case (Cons q qs)
  have "table_of (serve E I q st) = table_of st" if "\<not> is_notify q"
    using serve_other(2) [OF Cons.prems that] by (simp add: table_of_def fun_eq_iff)
  then show ?case
    using Cons serve_notify [of st q E I] serve_other(1) [of st q E I]
    by (cases "is_notify q") (simp_all add: spec_table_def)
qed (simp add: spec_table_def)

text \<open>
  C34. The table of the configuration sessions refines its specification. After any sequence of
  requests a layer accepts an update, and reports the attributes of a session, exactly as the
  partial function says that the announcements of the sequence have built: a session has the
  identifier, mode and VTN announced last, a released session is unknown, and an announcement of
  the global mode leaves only that session.
\<close>

theorem config_table_refines:
  assumes "pTcLibInterface st \<noteq> None" and "if_type I = UNC_CT_UNKNOWN"
    and "tc_notify_config_data_map st = []"
  shows "let st' = tclib_run E I qs st in
    (TcLibValidateUpdateMsg I sid cid mode vtn st' = TC_API_COMMON_SUCCESS \<longleftrightarrow>
      spec_accepts (spec_table qs Map.empty) sid cid mode vtn) \<and>
    TcLibGetSessionAttributes sid st' =
      (case spec_table qs Map.empty sid of
         None \<Rightarrow> (TC_INVALID_SESSION_ID, 0, TC_CONFIG_INVALID, '''')
       | Some (c, m, v) \<Rightarrow> (TC_API_COMMON_SUCCESS, c, m, if m = TC_CONFIG_VTN then v else ''''))"
proof -
  let ?st = "tclib_run E I qs st"
  have "table_of st = Map.empty" using assms(3) by (simp add: table_of_def fun_eq_iff)
  then have "spec_table qs Map.empty = table_of ?st"
    using run_table [OF assms(1)] by metis
  moreover have "TcLib_GetControllerType I ?st = UNC_CT_UNKNOWN"
    using assms(2) by (simp add: TcLib_GetControllerType_def)
  ultimately show ?thesis
    by (auto simp: TcLibValidateUpdateMsg_def TcLib_GetConfigData_def spec_accepts_def table_of_def
        TcLibGetSessionAttributes_def Let_def split: option.splits)
qed

text \<open>
  The count of the requests being served only grows. Every announcement of a configuration
  session adds one for good, modulo two to the thirty-second, and every other request leaves the
  count as it was; the session pointer is reset after a request exactly when the count is zero,
  so after the first announcement each service that stores its session leaves it behind.
\<close>

theorem session_pointer_left_behind:
  assumes "pTcLibInterface st \<noteq> None" and "\<not> is_notify q"
  shows "let st' = tclib_run E I qs st in
    request_counter st' =
      request_counter st + word_of_nat (length (filter is_notify qs)) \<and>
    request_counter (serve E I q st') = request_counter st' \<and>
    (tl_sess (serve E I q st') \<longleftrightarrow> request_counter st' \<noteq> 0 \<and> (uses_sess (fst q) \<or> tl_sess st'))"
  using run_counter [OF assms(1), of E I qs] serve_other [of "tclib_run E I qs st" q E I] assms
  by (simp add: Let_def)

section \<open>Rounds of a commit\<close>

text \<open>A daemon whose handlers succeed.\<close>

definition willing :: "TcLibInterface \<Rightarrow> bool" where
  "willing I \<longleftrightarrow> (\<forall>st c. hr_ret (if_handle I st c) = TC_SUCCESS)"

lemma call_willing:
  assumes "willing I"
  obtains r st' where "call_handler E I c st = (r, st')" "hr_ret r = TC_SUCCESS"
    "members st' = members st" "calls st' = calls st @ [c]"
proof -
  obtain r st' where c: "call_handler E I c st = (r, st')" by fastforce
  moreover from c assms have "hr_ret r = TC_SUCCESS"
    by (auto simp: call_handler_def willing_def Let_def)
  ultimately show thesis
    using that member.call_handler_view call_handler_calls by blast
qed

lemma plain_call_willing:
  assumes "willing I"
  obtains st' where "plain_call E I c st = (TC_SUCCESS, st')" "members st' = members st"
    "calls st' = calls st @ [c]"
proof -
  obtain r st' where "call_handler E I c st = (r, st')" "hr_ret r = TC_SUCCESS"
      "members st' = members st" "calls st' = calls st @ [c]"
    using assms by (rule call_willing)
  then show thesis using that by (simp add: plain_call_def)
qed

lemma respond_accepting:
  assumes "accepting E" and "tl_sess st"
  obtains st' where "respond E vs st = (TC_SUCCESS, st')" "members st' = members st"
    "calls st' = calls st"
proof -
  obtain r st' where r: "respond E vs st = (r, st')" by fastforce
  with put_values_accepting [OF assms, of vs] have "r = TC_SUCCESS"
    by (auto simp: respond_def)
  with r show thesis
    using that member.respond_view calls.respond_view by blast
qed

text \<open>
  What the daemon knows of the session of a message: a layer has it in its table; a driver has
  no table and hands on an invalid mode and no name.
\<close>

definition knows ::
  "TcLibInterface \<Rightarrow> 'a TcMsgCommit_scheme \<Rightarrow> TcConfigMode \<Rightarrow> string \<Rightarrow> TcLibModule \<Rightarrow> bool" where
  "knows I t mode vtn st \<longleftrightarrow>
     pTcLibInterface st \<noteq> None \<and>
     (if if_type I = UNC_CT_UNKNOWN
      then config_id t \<noteq> 0 \<and> table_of st (session_id t) = Some (config_id t, mode, vtn)
      else mode = TC_CONFIG_INVALID \<and> vtn = '''')"

lemma knows_config:
  assumes "knows I t mode vtn st"
  shows "snd (snd (TcLib_GetConfigData I (session_id t) st)) = (mode, vtn)"
    and "TcLib_GetControllerType I st = if_type I" and "registered st"
    and "if_type I = UNC_CT_UNKNOWN \<Longrightarrow> config_accepted I (session_id t) (config_id t) st"
  using assms
  by (auto simp: knows_def TcLib_GetConfigData_def TcLib_GetControllerType_def registered_def
      table_of_def config_accepted_def TcLibValidateUpdateMsg_def split: if_splits)

lemma knows_cong:
  "pTcLibInterface st' = pTcLibInterface st \<Longrightarrow>
   tc_notify_config_data_map st' = tc_notify_config_data_map st \<Longrightarrow>
   knows I t mode vtn st' = knows I t mode vtn st"
  by (simp add: knows_def table_of_def)

lemma knows_oper_state [simp]: "knows I t mode vtn (st\<lparr>oper_state := x\<rparr>) = knows I t mode vtn st"
  by (rule knows_cong) simp_all

lemma sess_received:
  "tl_sess st \<Longrightarrow> srv_args (tl_ipc st) = vs \<Longrightarrow> sess_of st = received (tl_ipc st) vs"
  by (cases "tl_ipc st") (simp add: sess_of_def received_def)

text \<open>The call that a message of the coordinator makes.\<close>

fun transaction_call :: "'a TcMsgCommit_scheme \<Rightarrow> TcMsgOperType \<Rightarrow> TcConfigMode \<Rightarrow> string \<Rightarrow> tclib_call" where
  "transaction_call t MSG_COMMIT_TRANS_START mode vtn =
     HandleCommitTransactionStart (session_id t) (config_id t) mode vtn"
| "transaction_call t MSG_COMMIT_VOTE mode vtn =
     HandleCommitVoteRequest (session_id t) (config_id t) mode vtn"
| "transaction_call t MSG_COMMIT_GLOBAL mode vtn =
     HandleCommitGlobalCommit (session_id t) (config_id t) mode vtn"
| "transaction_call t _ mode vtn =
     HandleCommitTransactionEnd (session_id t) (config_id t) mode vtn
       (Some (trans_end_num (trans_result t)))"

lemma membersD:
  assumes "members st' = members st"
  shows "pTcLibInterface st' = pTcLibInterface st" "tl_sess st' = tl_sess st"
    "tc_notify_config_data_map st' = tc_notify_config_data_map st" "oper_state st' = oper_state st"
    "audit_in_progress st' = audit_in_progress st" "handle_in_tclib st' = handle_in_tclib st"
    "commit_phase_result st' = commit_phase_result st" "request_counter st' = request_counter st"
  using assms by (simp_all add: members_def)

lemma vote_global_step:
  assumes "knows I t mode vtn st" and "willing I" and "accepting E" and "tl_sess st"
    and "oper = MSG_COMMIT_VOTE \<or> oper = MSG_COMMIT_GLOBAL"
    and "ct_session_id m = session_id t" and "ct_config_id m = config_id t"
  obtains st' where "TcLib_CommitVoteGlobal E I oper m st = (TC_SUCCESS, st')"
    "members st' = members st" "calls st' = calls st @ [transaction_call t oper mode vtn]"
proof -
  let ?c = "transaction_call t oper mode vtn"
  obtain r s1 where call: "call_handler E I ?c st = (r, s1)" "hr_ret r = TC_SUCCESS"
      "members s1 = members st" "calls s1 = calls st @ [?c]"
    using assms(2) by (rule call_willing)
  from call(3) assms(4) have "tl_sess s1" by (simp add: members_def)
  from respond_accepting [OF assms(3) this] obtain s2 where
    put: "respond E (driver_info_values (hr_driver_info r)) s1 = (TC_SUCCESS, s2)"
      "members s2 = members s1" "calls s2 = calls s1" .
  show thesis
    using that [of "if hr_driver_info r = [] then s1 else s2"] call put knows_config [OF assms(1)]
      assms(5-7)
    by (cases "TcLib_GetConfigData I (session_id t) st")
      (auto simp: TcLib_CommitVoteGlobal_def Let_def)
qed

lemma commit_transaction_step:
  assumes "knows I t mode vtn st" and "willing I" and "accepting E" and "tl_sess st"
    and "srv_args (tl_ipc st) = puts (transaction_items t)"
    and "ValidateCommitOperSequence I (opertype t) st"
    and "opertype t \<in> {MSG_COMMIT_TRANS_START, MSG_COMMIT_VOTE, MSG_COMMIT_GLOBAL, MSG_COMMIT_TRANS_END}"
  obtains st' where "TcLib_CommitTransaction E I st = (TC_SUCCESS, st')"
    "calls st' = calls st @ [transaction_call t (opertype t) mode vtn]"
    "oper_state st' = (if opertype t = MSG_COMMIT_TRANS_END then MSG_NONE else opertype t)"
proof -
  define m where "m = \<lparr>ct_oper_type = Some (opertype t), ct_session_id = session_id t,
    ct_config_id = config_id t, ct_end_result = (if opertype t = MSG_COMMIT_TRANS_END
      then Some (trans_end_num (trans_result t)) else None)\<rparr>"
  let ?st = "st\<lparr>oper_state := opertype t\<rparr>" let ?c = "transaction_call t (opertype t) mode vtn"
  have read: "GetCommitTransactionMsg (sess_of st) = Inr m"
    unfolding sess_received [OF assms(4,5)] m_def by (rule transaction_message_read)
  have valid: "ValidateOperTypeSequence I (ct_oper_type m) st = (TC_SUCCESS, ?st)"
    using assms(6,7) by (auto simp: ValidateOperTypeSequence_def m_def commit_types_def)
  have conf: "knows I t mode vtn ?st" using assms(1) by simp
  note k = knows_config [OF conf]
  obtain s1 where plain: "plain_call E I ?c ?st = (TC_SUCCESS, s1)" "members s1 = members ?st"
      "calls s1 = calls ?st @ [?c]"
    using assms(2) by (rule plain_call_willing)
  show thesis
  proof (cases "opertype t = MSG_COMMIT_VOTE \<or> opertype t = MSG_COMMIT_GLOBAL")
    case True
    then obtain s2 where "TcLib_CommitVoteGlobal E I (opertype t) m ?st = (TC_SUCCESS, s2)"
        "members s2 = members ?st" "calls s2 = calls ?st @ [?c]"
      using vote_global_step [OF conf assms(2,3), of "opertype t" m] assms(4) by (auto simp: m_def)
    then show ?thesis
      using that [of s2] read valid k True
      by (auto simp: TcLib_CommitTransaction_def m_def members_def calls_def)
  next
    case False
    then show ?thesis
      using that [of "if opertype t = MSG_COMMIT_TRANS_END then ReleaseTransactionResources s1 else s1"]
        read valid k assms(7) plain
      by (cases "TcLib_GetConfigData I (session_id t) ?st")
        (auto simp: TcLib_CommitTransaction_def TcLib_CommitTransStartEnd_def m_def members_def
          calls_def ReleaseTransactionResources_def SetHandleCancelAuditInTclib_def)
  qed
qed

text \<open>The result of the drivers, as a layer gets it.\<close>

lemma driver_result_step:
  assumes "knows I t mode vtn st" and "if_type I = UNC_CT_UNKNOWN" and "willing I" and "tl_sess st"
    and "driver_result_items t = Some items"
    and "srv_args (tl_ipc st) = puts items @ concat (map report_values rs)"
    and "length (srv_args (tl_ipc st)) < 2 ^ 32" and "info_first rs"
    and "oper = (if opertype t = MSG_COMMIT_VOTE then MSG_COMMIT_VOTE_DRIVER_RESULT
                 else MSG_COMMIT_GLOBAL_DRIVER_RESULT)"
    and "ValidateUpllUpplCommitSequence oper st"
  obtains st' where "TcLib_CommitDriverResult E I st = (TC_SUCCESS, st')"
    "calls st' = calls st @ [HandleCommitDriverResult (session_id t) (config_id t) mode vtn
       (commit_phase_num (if opertype t = MSG_COMMIT_VOTE then TC_COMMIT_VOTE_PHASE
                          else TC_COMMIT_GLOBAL_COMMIT_PHASE)) (map report_result rs)]"
    "oper_state st' = oper"
proof -
  let ?ph = "commit_phase_num (if opertype t = MSG_COMMIT_VOTE then TC_COMMIT_VOTE_PHASE
      else TC_COMMIT_GLOBAL_COMMIT_PHASE)"
  let ?st = "st\<lparr>oper_state := oper\<rparr>"
  let ?c = "HandleCommitDriverResult (session_id t) (config_id t) mode vtn ?ph (map report_result rs)"
  have read: "GetCommitDrvResultMsg (sess_of st) = Inr \<lparr>cr_oper_type = Some oper,
      cr_session_id = session_id t, cr_config_id = config_id t, cr_phase = ?ph\<rparr>"
    unfolding sess_received [OF assms(4,6)] assms(9) by (rule result_message_read [OF assms(5)])
  have conf: "knows I t mode vtn ?st" using assms(1) by simp
  note k = knows_config [OF conf]
  have valid: "ValidateOperTypeSequence I (Some oper) st = (TC_SUCCESS, ?st)"
    using assms(2,9,10) knows_config(2) [OF assms(1)]
    by (auto simp: ValidateOperTypeSequence_def ValidateCommitOperSequence_def commit_types_def)
  have four: "length (puts items) = 4"
    using assms(5) by (auto simp: driver_result_items_def Let_def split: TcMsgOperType.splits)
  have args: "srv_args (tl_ipc ?st) = puts items @ concat (map report_values rs)"
    "length (srv_args (tl_ipc ?st)) < 2 ^ 32" "tl_sess ?st"
    using assms(4,6,7) by simp_all
  obtain km ck where
    upd: "UpdateControllerKeyList ?st = (TC_SUCCESS, ?st\<lparr>key_map := km,
      controller_key_map := ck, commit_phase_result := map report_result rs\<rparr>)"
    using update_reports [OF args(1) four args(2,3) assms(8)] by metis
  let ?st1 = "?st\<lparr>key_map := km, controller_key_map := ck, commit_phase_result := map report_result rs\<rparr>"
  obtain s1 where "plain_call E I ?c ?st1 = (TC_SUCCESS, s1)" "members s1 = members ?st1"
      "calls s1 = calls ?st1 @ [?c]"
    using assms(3) by (rule plain_call_willing)
  then show thesis
    using that [of s1] read valid k(1,3) k(4) [OF assms(2)] upd
    by (cases "TcLib_GetConfigData I (session_id t) ?st")
      (auto simp: TcLib_CommitDriverResult_def members_def calls_def registered_def)
qed

text \<open>Votes and global commits, as a driver gets them.\<close>

lemma driver_vote_step:
  assumes "knows I t mode vtn st" and "if_type I \<noteq> UNC_CT_UNKNOWN" and "willing I" and "tl_sess st"
    and "srv_args (tl_ipc st) = puts (driver_items t clist)" and "length clist < 256"
    and "opertype t = MSG_COMMIT_VOTE \<and> oper_state st = MSG_COMMIT_TRANS_START \<or>
         opertype t = MSG_COMMIT_GLOBAL \<and> oper_state st = MSG_COMMIT_DRIVER_VOTE"
  obtains st' where "TcLib_CommitDriverVoteGlobal E I st = (TC_SUCCESS, st')"
    "calls st' = calls st @ [(if opertype t = MSG_COMMIT_VOTE then HandleCommitVoteRequest_drv
       else HandleCommitGlobalCommit_drv) (session_id t) (config_id t) clist]"
    "oper_state st' = (if opertype t = MSG_COMMIT_VOTE then MSG_COMMIT_DRIVER_VOTE
                       else MSG_COMMIT_DRIVER_GLOBAL)"
proof -
  let ?oper = "if opertype t = MSG_COMMIT_VOTE then MSG_COMMIT_DRIVER_VOTE else MSG_COMMIT_DRIVER_GLOBAL"
  let ?st = "st\<lparr>oper_state := ?oper\<rparr>"
  let ?c = "(if opertype t = MSG_COMMIT_VOTE then HandleCommitVoteRequest_drv
       else HandleCommitGlobalCommit_drv) (session_id t) (config_id t) clist"
  have read: "GetCommitDrvVoteGlobalMsg (sess_of st) = Inr \<lparr>cv_oper_type = Some ?oper,
      cv_session_id = session_id t, cv_config_id = config_id t,
      cv_cntrl_count = word_of_nat (length clist), cv_cntrl_list = clist\<rparr>"
    unfolding sess_received [OF assms(4,5)] using driver_message_read [OF assms(6)] assms(7) by auto
  have valid: "ValidateOperTypeSequence I (Some ?oper) st = (TC_SUCCESS, ?st)"
    using assms(2,7) knows_config(2) [OF assms(1)]
    by (auto simp: ValidateOperTypeSequence_def ValidateCommitOperSequence_def commit_types_def)
  obtain s1 where "plain_call E I ?c ?st = (TC_SUCCESS, s1)" "members s1 = members ?st"
      "calls s1 = calls ?st @ [?c]"
    using assms(3) by (rule plain_call_willing)
  then show thesis
    using that [of s1] read valid knows_config(3) [OF assms(1)] assms(7)
    by (auto simp: TcLib_CommitDriverVoteGlobal_def members_def calls_def)
qed

section \<open>Whole rounds\<close>

text \<open>The responses to a sequence of requests, and the state after them.\<close>

fun tclib_serve_all ::
  "ipc_env \<Rightarrow> TcLibInterface \<Rightarrow> tclib_request list \<Rightarrow> TcLibModule \<Rightarrow> u32 list \<times> TcLibModule" where
  "tclib_serve_all E I [] st = ([], st)"
| "tclib_serve_all E I (q # qs) st =
     (case TcLib_ipcService E I (fst q) (snd q) st of
        (r, st1) \<Rightarrow> (case tclib_serve_all E I qs st1 of (rs, st2) \<Rightarrow> (r # rs, st2)))"

abbreviation with_type :: "TcMsgOperType \<Rightarrow> TwoPhaseCommit \<Rightarrow> TwoPhaseCommit" where
  "with_type oper t \<equiv> t\<lparr>opertype := oper\<rparr>"

text \<open>The requests of a commit to a layer and to a driver, with the data the coordinator puts in them.\<close>

definition result_request :: "TcMsgOperType \<Rightarrow> TwoPhaseCommit \<Rightarrow> driver_report list \<Rightarrow> tclib_request" where
  "result_request oper t rs =
     (tclib_num TCLIB_COMMIT_DRV_RESULT,
      puts (the (driver_result_items (with_type oper t))) @ concat (map report_values rs))"

definition transaction_request :: "TcMsgOperType \<Rightarrow> TwoPhaseCommit \<Rightarrow> tclib_request" where
  "transaction_request oper t =
     (tclib_num TCLIB_COMMIT_TRANSACTION, puts (transaction_items (with_type oper t)))"

definition driver_request :: "TcMsgOperType \<Rightarrow> TwoPhaseCommit \<Rightarrow> string list \<Rightarrow> tclib_request" where
  "driver_request oper t clist =
     (tclib_num TCLIB_COMMIT_DRV_VOTE_GLOBAL, puts (driver_items (with_type oper t) clist))"

definition layer_round :: "TwoPhaseCommit \<Rightarrow> driver_report list \<Rightarrow> driver_report list \<Rightarrow> tclib_request list" where
  "layer_round t rs1 rs2 =
     [transaction_request MSG_COMMIT_TRANS_START t, transaction_request MSG_COMMIT_VOTE t,
      result_request MSG_COMMIT_VOTE t rs1, transaction_request MSG_COMMIT_GLOBAL t,
      result_request MSG_COMMIT_GLOBAL t rs2, transaction_request MSG_COMMIT_TRANS_END t]"

definition driver_round :: "TwoPhaseCommit \<Rightarrow> string list \<Rightarrow> tclib_request list" where
  "driver_round t clist =
     [transaction_request MSG_COMMIT_TRANS_START t, driver_request MSG_COMMIT_VOTE t clist,
      driver_request MSG_COMMIT_GLOBAL t clist, transaction_request MSG_COMMIT_TRANS_END t]"

lemma knows_with_type [simp]: "knows I (with_type oper t) mode vtn st = knows I t mode vtn st"
  by (simp add: knows_def)

text \<open>A request that is accepted in one state of the automaton, makes one call and leads to another.\<close>

definition accepted ::
  "ipc_env \<Rightarrow> TcLibInterface \<Rightarrow> TwoPhaseCommit \<Rightarrow> TcConfigMode \<Rightarrow> string \<Rightarrow> TcMsgOperType \<Rightarrow>
     tclib_request \<times> tclib_call \<times> TcMsgOperType \<Rightarrow> bool" where
  "accepted E I t mode vtn src = (\<lambda>(q, c, tgt). \<forall>st. knows I t mode vtn st \<and> oper_state st = src \<longrightarrow>
     (\<exists>st'. TcLib_ipcService E I (fst q) (snd q) st = (TC_SUCCESS, st') \<and> knows I t mode vtn st' \<and>
        calls st' = calls st @ [c] \<and> oper_state st' = tgt))"

lemma acceptedI:
  assumes "uses_sess svc" and "svc \<noteq> 0"
    and "\<And>st. knows I t mode vtn st \<Longrightarrow> tl_sess st \<Longrightarrow> srv_args (tl_ipc st) = vs \<Longrightarrow> oper_state st = src \<Longrightarrow>
      \<exists>st'. tclib_dispatch E I (to_tclib svc) st = (TC_SUCCESS, st') \<and> calls st' = calls st @ [c] \<and>
        oper_state st' = tgt"
  shows "accepted E I t mode vtn src ((svc, vs), c, tgt)"
  unfolding accepted_def
proof (clarify)
  fix st assume k: "knows I t mode vtn st" and src: "src = oper_state st"
  let ?st = "begin_request E svc vs st"
  have kb: "knows I t mode vtn ?st"
    using k by (subst knows_cong [of _ st]) (simp_all add: begin_request_def Let_def)
  have b: "tl_sess ?st" "srv_args (tl_ipc ?st) = vs" "oper_state ?st = src" "calls ?st = calls st"
    using assms(1) by (simp_all add: begin_request_def Let_def ask_def src calls_def)
  from assms(3) [OF kb b(1-3)] obtain st' where
    d: "tclib_dispatch E I (to_tclib svc) ?st = (TC_SUCCESS, st')" "calls st' = calls ?st @ [c]"
      "oper_state st' = tgt"
    by blast
  have p: "pTcLibInterface st \<noteq> None" using k by (simp add: knows_def)
  then have s: "TcLib_ipcService E I svc vs st = (TC_SUCCESS, end_request st')"
    using d(1) assms(2) by (simp add: TcLib_ipcService_def)
  moreover have "knows I t mode vtn (end_request st')"
    using serve_other [of st "(svc, vs)" E I] p s assms(2) k
    by (subst knows_cong [of _ st]) (simp_all add: serve_def is_notify_def)
  ultimately show "\<exists>st'. TcLib_ipcService E I (fst (svc, vs)) (snd (svc, vs)) st = (TC_SUCCESS, st') \<and>
      knows I t mode vtn st' \<and> calls st' = calls st @ [c] \<and> oper_state st' = tgt"
    using d b(4) by (intro exI [of _ "end_request st'"]) (simp add: end_request_def Let_def calls_def)
qed

lemma transaction_accepted:
  assumes "willing I" and "accepting E"
    and "oper \<in> {MSG_COMMIT_TRANS_START, MSG_COMMIT_VOTE, MSG_COMMIT_GLOBAL, MSG_COMMIT_TRANS_END}"
    and "\<And>st. oper_state st = src \<Longrightarrow> if if_type I = UNC_CT_UNKNOWN
      then ValidateUpllUpplCommitSequence oper st else ValidateDriverCommitSequence oper st"
  shows "accepted E I t mode vtn src (transaction_request oper t,
    transaction_call t oper mode vtn, if oper = MSG_COMMIT_TRANS_END then MSG_NONE else oper)"
  unfolding transaction_request_def
proof (rule acceptedI)
  fix st assume a: "knows I t mode vtn st" "tl_sess st"
    "srv_args (tl_ipc st) = puts (transaction_items (with_type oper t))" "oper_state st = src"
  have k: "knows I (with_type oper t) mode vtn st" using a(1) by simp
  let ?t = "with_type oper t"
  have seq: "ValidateCommitOperSequence I (opertype ?t) st"
    using assms(4) [OF a(4)] knows_config(2) [OF a(1)] by (simp add: ValidateCommitOperSequence_def)
  have "opertype ?t \<in> {MSG_COMMIT_TRANS_START, MSG_COMMIT_VOTE, MSG_COMMIT_GLOBAL, MSG_COMMIT_TRANS_END}"
    using assms(3) by simp
  with k assms(1,2) a(2,3) seq
  obtain st' where "TcLib_CommitTransaction E I st = (TC_SUCCESS, st')"
    "calls st' = calls st @ [transaction_call ?t (opertype ?t) mode vtn]"
    "oper_state st' = (if opertype ?t = MSG_COMMIT_TRANS_END then MSG_NONE else opertype ?t)"
    by (rule commit_transaction_step)
  moreover have "transaction_call ?t oper mode vtn = transaction_call t oper mode vtn"
    by (cases oper) simp_all
  ultimately show "\<exists>st'. tclib_dispatch E I (to_tclib (tclib_num TCLIB_COMMIT_TRANSACTION)) st =
      (TC_SUCCESS, st') \<and> calls st' = calls st @ [transaction_call t oper mode vtn] \<and>
      oper_state st' = (if oper = MSG_COMMIT_TRANS_END then MSG_NONE else oper)"
    unfolding to_tclib_num by simp
qed (simp_all add: uses_sess_def)

lemma result_accepted:
  assumes "willing I" and "if_type I = UNC_CT_UNKNOWN"
    and "oper = MSG_COMMIT_VOTE \<or> oper = MSG_COMMIT_GLOBAL" and "src = oper"
    and "length (snd (result_request oper t rs)) < 2 ^ 32" and "info_first rs"
  shows "accepted E I t mode vtn src (result_request oper t rs,
    HandleCommitDriverResult (session_id t) (config_id t) mode vtn
      (commit_phase_num (if oper = MSG_COMMIT_VOTE then TC_COMMIT_VOTE_PHASE
                         else TC_COMMIT_GLOBAL_COMMIT_PHASE)) (map report_result rs),
    if oper = MSG_COMMIT_VOTE then MSG_COMMIT_VOTE_DRIVER_RESULT else MSG_COMMIT_GLOBAL_DRIVER_RESULT)"
  unfolding result_request_def
proof (rule acceptedI)
  let ?items = "the (driver_result_items (with_type oper t))"
  fix st assume a: "knows I t mode vtn st" "tl_sess st"
    "srv_args (tl_ipc st) = puts ?items @ concat (map report_values rs)" "oper_state st = src"
  have k: "knows I (with_type oper t) mode vtn st" using a(1) by simp
  have items: "driver_result_items (with_type oper t) = Some ?items"
    using assms(3) by (auto simp: driver_result_items_def)
  have len: "length (srv_args (tl_ipc st)) < 2 ^ 32"
    using assms(5) a(3) by (simp add: result_request_def)
  show "\<exists>st'. tclib_dispatch E I (to_tclib (tclib_num TCLIB_COMMIT_DRV_RESULT)) st = (TC_SUCCESS, st') \<and>
      calls st' = calls st @ [HandleCommitDriverResult (session_id t) (config_id t) mode vtn
      (commit_phase_num (if oper = MSG_COMMIT_VOTE then TC_COMMIT_VOTE_PHASE
                         else TC_COMMIT_GLOBAL_COMMIT_PHASE)) (map report_result rs)] \<and>
      oper_state st' = (if oper = MSG_COMMIT_VOTE then MSG_COMMIT_VOTE_DRIVER_RESULT
                        else MSG_COMMIT_GLOBAL_DRIVER_RESULT)"
    unfolding to_tclib_num
    using driver_result_step [OF k assms(2,1) a(2) items a(3) len assms(6) refl, of E] assms(3,4) a(4)
    by (fastforce split: if_splits)
qed (simp_all add: uses_sess_def)

lemma driver_accepted:
  assumes "willing I" and "if_type I \<noteq> UNC_CT_UNKNOWN" and "length clist < 256"
    and "oper = MSG_COMMIT_VOTE \<and> src = MSG_COMMIT_TRANS_START \<or>
         oper = MSG_COMMIT_GLOBAL \<and> src = MSG_COMMIT_DRIVER_VOTE"
  shows "accepted E I t mode vtn src (driver_request oper t clist,
    (if oper = MSG_COMMIT_VOTE then HandleCommitVoteRequest_drv
     else HandleCommitGlobalCommit_drv) (session_id t) (config_id t) clist,
    if oper = MSG_COMMIT_VOTE then MSG_COMMIT_DRIVER_VOTE else MSG_COMMIT_DRIVER_GLOBAL)"
  unfolding driver_request_def
proof (rule acceptedI)
  fix st assume a: "knows I t mode vtn st" "tl_sess st"
    "srv_args (tl_ipc st) = puts (driver_items (with_type oper t) clist)" "oper_state st = src"
  have k: "knows I (with_type oper t) mode vtn st" using a(1) by simp
  show "\<exists>st'. tclib_dispatch E I (to_tclib (tclib_num TCLIB_COMMIT_DRV_VOTE_GLOBAL)) st =
      (TC_SUCCESS, st') \<and> calls st' = calls st @ [(if oper = MSG_COMMIT_VOTE
        then HandleCommitVoteRequest_drv else HandleCommitGlobalCommit_drv)
        (session_id t) (config_id t) clist] \<and>
      oper_state st' = (if oper = MSG_COMMIT_VOTE then MSG_COMMIT_DRIVER_VOTE
                        else MSG_COMMIT_DRIVER_GLOBAL)"
    unfolding to_tclib_num
    using driver_vote_step [OF k assms(2,1) a(2,3) assms(3), of E] assms(4) a(4)
    by (fastforce split: if_splits)
qed (simp_all add: uses_sess_def)

fun accepts_all ::
  "ipc_env \<Rightarrow> TcLibInterface \<Rightarrow> TwoPhaseCommit \<Rightarrow> TcConfigMode \<Rightarrow> string \<Rightarrow> TcMsgOperType \<Rightarrow>
     (tclib_request \<times> tclib_call \<times> TcMsgOperType) list \<Rightarrow> TcMsgOperType \<Rightarrow> bool" where
  "accepts_all E I t mode vtn src [] tgt \<longleftrightarrow> src = tgt"
| "accepts_all E I t mode vtn src (p # ps) tgt \<longleftrightarrow>
     accepted E I t mode vtn src p \<and> accepts_all E I t mode vtn (snd (snd p)) ps tgt"

lemma accepts_all_served:
  "accepts_all E I t mode vtn src ps tgt \<Longrightarrow> knows I t mode vtn st \<Longrightarrow> oper_state st = src \<Longrightarrow>
   \<exists>st'. tclib_serve_all E I (map fst ps) st = (replicate (length ps) TC_SUCCESS, st') \<and>
     calls st' = calls st @ map (fst \<circ> snd) ps \<and> oper_state st' = tgt"
proof (induction ps arbitrary: st src)
  case (Cons p ps)
  obtain q c x where p: "p = (q, c, x)" by (cases p)
  from Cons.prems obtain st1 where
    "TcLib_ipcService E I (fst q) (snd q) st = (TC_SUCCESS, st1)" "knows I t mode vtn st1"
    "calls st1 = calls st @ [c]" "oper_state st1 = x"
    by (auto simp: p accepted_def)
  moreover from this Cons.IH [of x st1] Cons.prems obtain st' where
    "tclib_serve_all E I (map fst ps) st1 = (replicate (length ps) TC_SUCCESS, st')"
    "calls st' = calls st1 @ map (fst \<circ> snd) ps" "oper_state st' = tgt"
    by (auto simp: p)
  ultimately show ?case by (simp add: p)
qed simp

definition layer_calls ::
  "TwoPhaseCommit \<Rightarrow> TcConfigMode \<Rightarrow> string \<Rightarrow> driver_report list \<Rightarrow> driver_report list \<Rightarrow> tclib_call list" where
  "layer_calls t mode vtn rs1 rs2 =
     [HandleCommitTransactionStart (session_id t) (config_id t) mode vtn,
      HandleCommitVoteRequest (session_id t) (config_id t) mode vtn,
      HandleCommitDriverResult (session_id t) (config_id t) mode vtn
        (commit_phase_num TC_COMMIT_VOTE_PHASE) (map report_result rs1),
      HandleCommitGlobalCommit (session_id t) (config_id t) mode vtn,
      HandleCommitDriverResult (session_id t) (config_id t) mode vtn
        (commit_phase_num TC_COMMIT_GLOBAL_COMMIT_PHASE) (map report_result rs2),
      HandleCommitTransactionEnd (session_id t) (config_id t) mode vtn
        (Some (trans_end_num (trans_result t)))]"

definition driver_calls :: "TwoPhaseCommit \<Rightarrow> TcConfigMode \<Rightarrow> string \<Rightarrow> string list \<Rightarrow> tclib_call list" where
  "driver_calls t mode vtn clist =
     [HandleCommitTransactionStart (session_id t) (config_id t) mode vtn,
      HandleCommitVoteRequest_drv (session_id t) (config_id t) clist,
      HandleCommitGlobalCommit_drv (session_id t) (config_id t) clist,
      HandleCommitTransactionEnd (session_id t) (config_id t) mode vtn
        (Some (trans_end_num (trans_result t)))]"

lemma layer_round_served:
  assumes "willing I" and "accepting E" and "knows I t mode vtn st" and "oper_state st = MSG_NONE"
    and "if_type I = UNC_CT_UNKNOWN"
    and "length (snd (result_request MSG_COMMIT_VOTE t rs1)) < 2 ^ 32" and "info_first rs1"
    and "length (snd (result_request MSG_COMMIT_GLOBAL t rs2)) < 2 ^ 32" and "info_first rs2"
  shows "\<exists>st'. tclib_serve_all E I (layer_round t rs1 rs2) st = (replicate 6 TC_SUCCESS, st') \<and>
      calls st' = calls st @ layer_calls t mode vtn rs1 rs2 \<and> oper_state st' = MSG_NONE"
proof -
  note tr = transaction_accepted [OF assms(1,2), where t = t and mode = mode and vtn = vtn]
  note rs = result_accepted [OF assms(1,5), where t = t and mode = mode and vtn = vtn and E = E]
  let ?ps = "zip (layer_round t rs1 rs2) (zip (layer_calls t mode vtn rs1 rs2)
      [MSG_COMMIT_TRANS_START, MSG_COMMIT_VOTE, MSG_COMMIT_VOTE_DRIVER_RESULT, MSG_COMMIT_GLOBAL,
       MSG_COMMIT_GLOBAL_DRIVER_RESULT, MSG_NONE])"
  have "accepts_all E I t mode vtn MSG_NONE ?ps MSG_NONE"
    using tr [of MSG_COMMIT_TRANS_START MSG_NONE] tr [of MSG_COMMIT_VOTE MSG_COMMIT_TRANS_START]
      rs [OF _ refl assms(6,7)] tr [of MSG_COMMIT_GLOBAL MSG_COMMIT_VOTE_DRIVER_RESULT]
      rs [OF _ refl assms(8,9)] tr [of MSG_COMMIT_TRANS_END MSG_COMMIT_GLOBAL_DRIVER_RESULT] assms(5)
    by (simp add: layer_round_def layer_calls_def)
  from accepts_all_served [OF this assms(3,4)] show ?thesis
    by (simp add: layer_round_def layer_calls_def numeral_eq_Suc del: tclib_serve_all.simps)
qed

lemma driver_round_served:
  assumes "willing I" and "accepting E" and "knows I t mode vtn st" and "oper_state st = MSG_NONE"
    and "if_type I \<noteq> UNC_CT_UNKNOWN" and "length clist < 256"
  shows "\<exists>st'. tclib_serve_all E I (driver_round t clist) st = (replicate 4 TC_SUCCESS, st') \<and>
      calls st' = calls st @ driver_calls t mode vtn clist \<and> oper_state st' = MSG_NONE"
proof -
  note tr = transaction_accepted [OF assms(1,2), where t = t and mode = mode and vtn = vtn]
  note dr = driver_accepted [OF assms(1,5,6), where t = t and mode = mode and vtn = vtn and E = E]
  let ?ps = "zip (driver_round t clist) (zip (driver_calls t mode vtn clist)
      [MSG_COMMIT_TRANS_START, MSG_COMMIT_DRIVER_VOTE, MSG_COMMIT_DRIVER_GLOBAL, MSG_NONE])"
  have "accepts_all E I t mode vtn MSG_NONE ?ps MSG_NONE"
    using tr [of MSG_COMMIT_TRANS_START MSG_NONE] dr [of MSG_COMMIT_VOTE MSG_COMMIT_TRANS_START]
      dr [of MSG_COMMIT_GLOBAL MSG_COMMIT_DRIVER_VOTE]
      tr [of MSG_COMMIT_TRANS_END MSG_COMMIT_DRIVER_GLOBAL] assms(5)
    by (simp add: driver_round_def driver_calls_def)
  from accepts_all_served [OF this assms(3,4)] show ?thesis
    by (simp add: driver_round_def driver_calls_def numeral_eq_Suc del: tclib_serve_all.simps)
qed


section \<open>Refusals\<close>

lemma transaction_refused:
  assumes "knows I t mode vtn st" and "\<not> ValidateCommitOperSequence I oper st"
    and "oper \<in> {MSG_COMMIT_TRANS_START, MSG_COMMIT_VOTE, MSG_COMMIT_GLOBAL, MSG_COMMIT_TRANS_END}"
  obtains st' where "TcLib_ipcService E I (fst (transaction_request oper t))
      (snd (transaction_request oper t)) st = (TC_FAILURE, st')"
    "calls st' = calls st" "oper_state st' = oper" "knows I t mode vtn st'"
proof -
  let ?q = "transaction_request oper t" let ?st = "begin_request E (fst ?q) (snd ?q) st"
  have svc: "fst ?q = 1" "to_tclib (fst ?q) = Some TCLIB_COMMIT_TRANSACTION"
    unfolding transaction_request_def by (simp_all del: tclib_num.simps) simp
  have b: "tl_sess ?st" "srv_args (tl_ipc ?st) = puts (transaction_items (with_type oper t))"
    by (simp_all add: begin_request_def transaction_request_def Let_def ask_def uses_sess_def)
  have same: "oper_state ?st = oper_state st" "calls ?st = calls st"
      "pTcLibInterface ?st = pTcLibInterface st"
    by (simp_all add: begin_request_def Let_def calls_def)
  have "TcLib_GetControllerType I ?st = TcLib_GetControllerType I st"
    using same(3) by (simp add: TcLib_GetControllerType_def)
  then have "ValidateCommitOperSequence I oper ?st = ValidateCommitOperSequence I oper st"
    using assms(3) same(1) by (auto simp: ValidateCommitOperSequence_def)
  then have "TcLib_CommitTransaction E I ?st = (TC_FAILURE, ?st\<lparr>oper_state := oper\<rparr>)"
    using assms(2,3) transaction_message_read [of "tl_ipc ?st" "with_type oper t"]
    unfolding TcLib_CommitTransaction_def sess_received [OF b]
    by (auto simp: ValidateOperTypeSequence_def commit_types_def)
  moreover have p: "pTcLibInterface st \<noteq> None" using assms(1) by (simp add: knows_def)
  ultimately have s: "TcLib_ipcService E I (fst ?q) (snd ?q) st =
      (TC_FAILURE, end_request (?st\<lparr>oper_state := oper\<rparr>))"
    using svc by (simp add: TcLib_ipcService_def)
  moreover have "knows I t mode vtn (end_request (?st\<lparr>oper_state := oper\<rparr>))"
    using serve_other [of st ?q E I] p s svc assms(1)
    by (subst knows_cong [of _ st]) (simp_all add: serve_def is_notify_def)
  ultimately show thesis
    using that same by (simp add: end_request_def Let_def calls_def)
qed

text \<open>
  C38. A refused message is not without effect. A request of a commit that the automaton does not
  expect is answered with a failure and reaches no handler, but the automaton moves to its type
  all the same. So after a vote request that a layer has refused, for instance because it is not
  in a transaction, the global commit is accepted and its handler is called, although no
  transaction was started and no vote was taken.
\<close>

theorem refused_message_moves_automaton:
  assumes "knows I t mode vtn st" and "\<not> ValidateCommitOperSequence I oper st"
    and "oper \<in> {MSG_COMMIT_TRANS_START, MSG_COMMIT_VOTE, MSG_COMMIT_GLOBAL, MSG_COMMIT_TRANS_END}"
  shows "\<exists>st'. tclib_serve_all E I [transaction_request oper t] st = ([TC_FAILURE], st') \<and>
      calls st' = calls st \<and> oper_state st' = oper \<and>
      (oper = MSG_COMMIT_VOTE \<and> if_type I = UNC_CT_UNKNOWN \<and> willing I \<and> accepting E \<longrightarrow>
        (\<exists>st''. tclib_serve_all E I [transaction_request MSG_COMMIT_GLOBAL t] st' = ([TC_SUCCESS], st'') \<and>
           calls st'' = calls st @
             [HandleCommitGlobalCommit (session_id t) (config_id t) mode vtn]))"
proof -
  obtain st' where s: "TcLib_ipcService E I (fst (transaction_request oper t))
      (snd (transaction_request oper t)) st = (TC_FAILURE, st')"
    "calls st' = calls st" "oper_state st' = oper" "knows I t mode vtn st'"
    using assms by (rule transaction_refused)
  have "\<exists>st''. tclib_serve_all E I [transaction_request MSG_COMMIT_GLOBAL t] st' = ([TC_SUCCESS], st'') \<and>
      calls st'' = calls st' @ [HandleCommitGlobalCommit (session_id t) (config_id t) mode vtn]"
    if "oper = MSG_COMMIT_VOTE" "if_type I = UNC_CT_UNKNOWN" "willing I" "accepting E"
  proof -
    have "accepted E I t mode vtn MSG_COMMIT_VOTE (transaction_request MSG_COMMIT_GLOBAL t,
        transaction_call t MSG_COMMIT_GLOBAL mode vtn, MSG_COMMIT_GLOBAL)"
      using transaction_accepted [OF that(3,4), of MSG_COMMIT_GLOBAL MSG_COMMIT_VOTE] that(2) by simp
    then show ?thesis
      using s(3,4) that(1) unfolding accepted_def by fastforce
  qed
  then show ?thesis
    using s by (intro exI [of _ st']) auto
qed


section \<open>Cancellation\<close>

definition cancel_request :: "tc_state \<Rightarrow> tclib_request" where
  "cancel_request w = (tclib_num TCLIB_AUDIT_CANCEL, puts (cancel_items w))"

definition audit_request :: "TcMsgOperType \<Rightarrow> AuditTransaction \<Rightarrow> tclib_request" where
  "audit_request oper m =
     (tclib_num TCLIB_AUDIT_TRANSACTION, puts (audit_transaction_items (m\<lparr>opertype := oper\<rparr>)))"

text \<open>The call for the start of an audit, as a layer and as a driver gets it.\<close>

definition audit_start_of :: "TcLibInterface \<Rightarrow> AuditTransaction \<Rightarrow> tclib_call" where
  "audit_start_of I m =
     (if if_type I = UNC_CT_UNKNOWN
      then HandleAuditStart (session_id m) (driver_id m) (controller_id m)
             (audit_type_num (audit_type m)) (at_commit_number m) (commit_date m) (commit_application m)
      else HandleAuditStart_drv (session_id m) (driver_id m) (controller_id m)
             (reconnect_controller m) (audit_type_num (audit_type m)))"

text \<open>An idle daemon that will tell the next audit it has been cancelled, or not.\<close>

definition idle :: "bool \<Rightarrow> TcLibModule \<Rightarrow> bool" where
  "idle b st \<longleftrightarrow> registered st \<and> oper_state st = MSG_NONE \<and> handle_in_tclib st = b"

lemma registered_end [simp]: "registered (end_request st) = registered st"
  by (simp add: registered_def end_request_def Let_def)

lemma cancel_idle:
  assumes "registered st" and "oper_state st = MSG_NONE"
  obtains st' where "TcLib_ipcService E I (fst (cancel_request w)) (snd (cancel_request w)) st =
      (TC_SUCCESS, st')" "calls st' = calls st" "idle True st'"
proof -
  let ?q = "cancel_request w" let ?st = "begin_request E (fst ?q) (snd ?q) st"
  have same: "oper_state ?st = MSG_NONE" "calls ?st = calls st" "registered ?st"
      "srv_args (tl_ipc ?st) = puts (cancel_items w)"
    using assms by (simp_all add: begin_request_def Let_def calls_def registered_def ask_def cancel_request_def)
  have "TcLib_AuditCancel E I ?st = (TC_SUCCESS, ?st\<lparr>handle_in_tclib := True\<rparr>)"
    using same
    by (auto simp: TcLib_AuditCancel_def with_args_def session_args_def getter_defs cancel_items_def
        Let_def ValidateOperTypeSequence_def commit_types_def audit_types_def
        ValidateAuditOperSequence_def SetHandleCancelAuditInTclib_def IsHandleCancelAuditInTclib_def
        simp del: msg_num.simps)
  moreover have "pTcLibInterface st \<noteq> None" using assms(1) by (simp add: registered_def)
  ultimately have "TcLib_ipcService E I (fst ?q) (snd ?q) st =
      (TC_SUCCESS, end_request (?st\<lparr>handle_in_tclib := True\<rparr>))"
    using to_tclib_num [of TCLIB_AUDIT_CANCEL]
    by (simp add: TcLib_ipcService_def cancel_request_def)
  then show thesis
    using that same by (simp add: idle_def end_request_def Let_def calls_def registered_def)
qed

text \<open>What a daemon reads from the request for the start or the end of an audit.\<close>

definition audit_read :: "TcMsgOperType \<Rightarrow> AuditTransaction \<Rightarrow> TcAuditTransactionMsg" where
  "audit_read oper m =
     \<lparr>at_oper_type = Some oper, at_session_id = session_id m, at_driver_id = driver_id m,
      at_controller_id = controller_id m,
      at_start = (if oper = MSG_AUDIT_START
                  then Some \<lparr>as_reconnect_controller = reconnect_controller m,
                             as_audit_type = audit_type_num (audit_type m),
                             as_commit_number = at_commit_number m, as_commit_date = commit_date m,
                             as_commit_application = commit_application m\<rparr> else None),
      at_audit_result = (if oper = MSG_AUDIT_END
                         then Some (audit_result_num (audit_result m)) else None),
      at_end_result = None\<rparr>"

lemma controller_type_registered: "registered st \<Longrightarrow> TcLib_GetControllerType I st = if_type I"
  by (auto simp: TcLib_GetControllerType_def registered_def)

lemma start_end_expected:
  assumes "registered st" and "if_type I \<noteq> UNC_CT_UNKNOWN \<Longrightarrow> audit_in_progress st"
    and "oper_state st = MSG_NONE \<and> oper = MSG_AUDIT_START \<or>
         oper_state st = MSG_AUDIT_START \<and> oper = MSG_AUDIT_END"
  shows "ValidateOperTypeSequence I (Some oper) st = (TC_SUCCESS, st\<lparr>oper_state := oper\<rparr>)"
proof -
  have "ValidateAuditOperSequence I oper st = (True, st)"
    using assms(2,3) controller_type_registered [OF assms(1), of I]
    by (auto simp: ValidateAuditOperSequence_def)
  then show ?thesis
    using assms(3) by (elim disjE conjE)
      (simp_all add: ValidateOperTypeSequence_def commit_types_def audit_types_def)
qed

lemma audit_transaction_step:
  assumes "sess_of st = received s (puts (audit_transaction_items (m\<lparr>opertype := oper\<rparr>)))"
    and "registered st" and "driver_valid m" and "if_type I \<in> {UNC_CT_UNKNOWN, driver_id m}"
    and "oper_state st = MSG_NONE \<and> oper = MSG_AUDIT_START \<or>
         oper_state st = MSG_AUDIT_START \<and> oper = MSG_AUDIT_END"
  obtains st1 where "TcLib_AuditTransaction E I st = TcLib_AuditTransStartEnd E I oper (audit_read oper m) st1"
    "registered st1" "oper_state st1 = oper" "handle_in_tclib st1 = handle_in_tclib st"
    "calls st1 = calls st"
proof -
  let ?st0 = "if if_type I \<noteq> UNC_CT_UNKNOWN then st\<lparr>audit_in_progress := True\<rparr> else st"
  let ?st1 = "?st0\<lparr>oper_state := oper\<rparr>"
  have "driver_valid (m\<lparr>opertype := oper\<rparr>)" using assms(3) by (simp add: driver_valid_def)
  then have "GetAuditTransactionMsg (sess_of st) = Inr (audit_read oper m)"
    using audit_transaction_message_read [of "m\<lparr>opertype := oper\<rparr>" s] assms(1,5)
    by (auto simp: audit_read_def)
  moreover have "registered ?st0" using assms(2) by (simp add: registered_def)
  then have "ValidateOperTypeSequence I (Some oper) ?st0 = (TC_SUCCESS, ?st1)"
    using assms(5) by (intro start_end_expected) auto
  moreover have "TcLib_GetControllerType I st = if_type I"
    using assms(2) by (rule controller_type_registered)
  moreover have "(if if_type I \<noteq> UNC_CT_UNKNOWN
      then st\<lparr>audit_in_progress := (at_driver_id (audit_read oper m) = if_type I)\<rparr> else st) = ?st0"
    using assms(4) by (auto simp: audit_read_def)
  moreover have "at_oper_type (audit_read oper m) = Some oper" by (simp add: audit_read_def)
  ultimately have "TcLib_AuditTransaction E I st = TcLib_AuditTransStartEnd E I oper (audit_read oper m) ?st1"
    using assms(5) by (elim disjE conjE) (simp_all only: TcLib_AuditTransaction_def Let_def sum.case
        prod.case option.case TcMsgOperType.case simp_thms if_False)
  then show thesis
    using that [of ?st1] assms(2) by (auto simp: registered_def calls_def)
qed

lemma audit_request_served:
  assumes "registered st" and "driver_valid m" and "if_type I \<in> {UNC_CT_UNKNOWN, driver_id m}"
    and "oper_state st = MSG_NONE \<and> oper = MSG_AUDIT_START \<or>
         oper_state st = MSG_AUDIT_START \<and> oper = MSG_AUDIT_END"
  obtains st1 where "TcLib_ipcService E I (fst (audit_request oper m)) (snd (audit_request oper m)) st =
      (case TcLib_AuditTransStartEnd E I oper (audit_read oper m) st1 of (r, s) \<Rightarrow> (r, end_request s))"
    "registered st1" "oper_state st1 = oper" "handle_in_tclib st1 = handle_in_tclib st"
    "calls st1 = calls st"
proof -
  let ?q = "audit_request oper m" let ?st = "begin_request E (fst ?q) (snd ?q) st"
  have b: "tl_sess ?st" "srv_args (tl_ipc ?st) = puts (audit_transaction_items (m\<lparr>opertype := oper\<rparr>))"
    by (simp_all add: begin_request_def audit_request_def Let_def ask_def uses_sess_def)
  have same: "oper_state ?st = oper_state st" "calls ?st = calls st" "registered ?st"
      "handle_in_tclib ?st = handle_in_tclib st"
    using assms(1) by (simp_all add: begin_request_def Let_def calls_def registered_def)
  obtain st1 where s: "TcLib_AuditTransaction E I ?st =
      TcLib_AuditTransStartEnd E I oper (audit_read oper m) st1"
    "registered st1" "oper_state st1 = oper" "handle_in_tclib st1 = handle_in_tclib ?st"
    "calls st1 = calls ?st"
    using audit_transaction_step [OF sess_received [OF b] same(3) assms(2,3)] assms(4) same(1)
    by metis
  have "pTcLibInterface st \<noteq> None" using assms(1) by (simp add: registered_def)
  then have "TcLib_ipcService E I (fst ?q) (snd ?q) st =
      (case TcLib_AuditTransStartEnd E I oper (audit_read oper m) st1 of (r, s) \<Rightarrow> (r, end_request s))"
    using s(1) to_tclib_num [of TCLIB_AUDIT_TRANSACTION]
    by (auto simp: TcLib_ipcService_def audit_request_def split: prod.split)
  then show thesis using that s same by simp
qed

lemma cancelled_start:
  assumes "idle True st" and "driver_valid m" and "if_type I \<in> {UNC_CT_UNKNOWN, driver_id m}"
  obtains st' where "TcLib_ipcService E I (fst (audit_request MSG_AUDIT_START m))
      (snd (audit_request MSG_AUDIT_START m)) st = (TC_CANCELLED_AUDIT, st')"
    "calls st' = calls st" "registered st'" "oper_state st' = MSG_AUDIT_START" "handle_in_tclib st'"
proof -
  obtain st1 where "TcLib_ipcService E I (fst (audit_request MSG_AUDIT_START m))
      (snd (audit_request MSG_AUDIT_START m)) st = (case TcLib_AuditTransStartEnd E I MSG_AUDIT_START
        (audit_read MSG_AUDIT_START m) st1 of (r, s) \<Rightarrow> (r, end_request s))"
    "registered st1" "oper_state st1 = MSG_AUDIT_START" "handle_in_tclib st1 = handle_in_tclib st"
    "calls st1 = calls st"
    using audit_request_served [of st m I MSG_AUDIT_START E] assms by (auto simp: idle_def)
  then show thesis
    using that [of "end_request st1"] assms(1)
    by (simp add: idle_def TcLib_AuditTransStartEnd_def IsHandleCancelAuditInTclib_def
        end_request_def Let_def calls_def registered_def)
qed

lemma cancelled_end:
  assumes "registered st" and "oper_state st = MSG_AUDIT_START" and "handle_in_tclib st"
    and "driver_valid m" and "if_type I \<in> {UNC_CT_UNKNOWN, driver_id m}"
  obtains st' where "TcLib_ipcService E I (fst (audit_request MSG_AUDIT_END m))
      (snd (audit_request MSG_AUDIT_END m)) st = (TC_SUCCESS, st')"
    "calls st' = calls st" "idle False st'"
proof -
  obtain st1 where "TcLib_ipcService E I (fst (audit_request MSG_AUDIT_END m))
      (snd (audit_request MSG_AUDIT_END m)) st = (case TcLib_AuditTransStartEnd E I MSG_AUDIT_END
        (audit_read MSG_AUDIT_END m) st1 of (r, s) \<Rightarrow> (r, end_request s))"
    "registered st1" "oper_state st1 = MSG_AUDIT_END" "handle_in_tclib st1 = handle_in_tclib st"
    "calls st1 = calls st"
    using audit_request_served [of st m I MSG_AUDIT_END E] assms by auto
  then show thesis
    using that [of "end_request (ReleaseTransactionResources (st1\<lparr>audit_in_progress := False\<rparr>))"] assms(3)
    by (simp add: idle_def TcLib_AuditTransStartEnd_def IsHandleCancelAuditInTclib_def
        end_request_def Let_def calls_def registered_def ReleaseTransactionResources_def
        SetHandleCancelAuditInTclib_def)
qed

lemma plain_start:
  assumes "idle False st" and "driver_valid m" and "if_type I \<in> {UNC_CT_UNKNOWN, driver_id m}"
    and "willing I"
  obtains st' where "TcLib_ipcService E I (fst (audit_request MSG_AUDIT_START m))
      (snd (audit_request MSG_AUDIT_START m)) st = (TC_SUCCESS, st')"
    "calls st' = calls st @ [audit_start_of I m]" "oper_state st' = MSG_AUDIT_START"
proof -
  obtain st1 where s: "TcLib_ipcService E I (fst (audit_request MSG_AUDIT_START m))
      (snd (audit_request MSG_AUDIT_START m)) st = (case TcLib_AuditTransStartEnd E I MSG_AUDIT_START
        (audit_read MSG_AUDIT_START m) st1 of (r, s) \<Rightarrow> (r, end_request s))"
    "registered st1" "oper_state st1 = MSG_AUDIT_START" "handle_in_tclib st1 = handle_in_tclib st"
    "calls st1 = calls st"
    using audit_request_served [of st m I MSG_AUDIT_START E] assms(1-3) by (auto simp: idle_def)
  obtain d where d: "at_start (audit_read MSG_AUDIT_START m) = Some d"
    "audit_start_call (if_type I) (audit_read MSG_AUDIT_START m) d = audit_start_of I m"
    by (auto simp: audit_read_def audit_start_call_def audit_start_of_def)
  obtain st2 where "plain_call E I (audit_start_of I m) st1 = (TC_SUCCESS, st2)"
    "members st2 = members st1" "calls st2 = calls st1 @ [audit_start_of I m]"
    using assms(4) by (rule plain_call_willing)
  then show thesis
    using that [of "end_request st2"] assms(1) s d controller_type_registered [OF s(2), of I]
      membersD(4) [of st2 st1]
    by (simp add: idle_def TcLib_AuditTransStartEnd_def IsHandleCancelAuditInTclib_def
        end_request_def Let_def calls_def)
qed


section \<open>A concrete daemon\<close>

definition sample_daemon :: TcLibInterface where
  "sample_daemon = \<lparr>if_type = UNC_CT_UNKNOWN, if_handle = \<lambda>_ _.
     \<lparr>hr_ret = TC_SUCCESS, hr_driver_info = [], hr_audit_result = TC_AUDIT_SUCCESS, hr_writes = []\<rparr>\<rparr>"

definition sample_module :: TcLibModule where
  "sample_module = (TcLibModule_new ipc_init)\<lparr>pTcLibInterface := Some 1\<rparr>"

definition sample_session :: TcLibModule where
  "sample_session = serve plain_env sample_daemon
     (0, [IpcU32 4, IpcU32 9, IpcU8 2, IpcStr ''v'']) sample_module"

definition sample_commit :: TwoPhaseCommit where
  "sample_commit = (TwoPhaseCommit_new 4 MSG_COMMIT_TRANS_START Map.empty)\<lparr>config_id := 9\<rparr>"

lemma sample_willing: "willing sample_daemon"
  by (simp add: willing_def sample_daemon_def)

lemma sample_module_registered: "registered sample_module" "pTcLibInterface sample_module \<noteq> None"
    "oper_state sample_module = MSG_NONE" "tc_notify_config_data_map sample_module = []"
    "request_counter sample_module = 0"
  by (simp_all add: sample_module_def registered_def TcLibModule_new_def)

lemma sample_knows:
  "knows sample_daemon sample_commit (to_config_mode 2) ''v'' sample_session"
  "oper_state sample_session = MSG_NONE"
proof -
  have "is_notify (0, [IpcU32 4, IpcU32 9, IpcU8 2, IpcStr ''v''])" by (simp add: is_notify_def)
  note s = serve_notify [OF sample_module_registered(2) this, of plain_env sample_daemon]
  show "knows sample_daemon sample_commit (to_config_mode 2) ''v'' sample_session"
    using s(1,2) sample_module_registered(2)
    by (simp add: knows_def sample_session_def sample_daemon_def sample_commit_def msg_new_defs
        announced_def spec_announce_def)
  show "oper_state sample_session = MSG_NONE" by code_simp
qed

theorem config_table_refines_witness:
  "TcLibGetSessionAttributes 4 (tclib_run plain_env sample_daemon
     [(0, [IpcU32 4, IpcU32 9, IpcU8 2, IpcStr ''v'']), (0, [IpcU32 4, IpcU32 0, IpcU8 2, IpcStr ''v''])]
     sample_module) = (TC_INVALID_SESSION_ID, 0, TC_CONFIG_INVALID, '''')"
  using config_table_refines [OF sample_module_registered(2) _ sample_module_registered(4),
      of sample_daemon plain_env
      "[(0, [IpcU32 4, IpcU32 9, IpcU8 2, IpcStr ''v'']), (0, [IpcU32 4, IpcU32 0, IpcU8 2, IpcStr ''v''])]"
      4 0 TC_CONFIG_INVALID "''''"]
  by (simp add: Let_def sample_daemon_def spec_table_def spec_announce_def announced_def is_notify_def)

theorem session_pointer_left_behind_witness:
  "tl_sess (serve plain_env sample_daemon (transaction_request MSG_COMMIT_TRANS_START sample_commit)
     (tclib_run plain_env sample_daemon [(0, [IpcU32 4, IpcU32 9, IpcU8 2, IpcStr ''v''])] sample_module))"
  using session_pointer_left_behind [OF sample_module_registered(2),
      of "transaction_request MSG_COMMIT_TRANS_START sample_commit" plain_env sample_daemon
      "[(0, [IpcU32 4, IpcU32 9, IpcU8 2, IpcStr ''v''])]"]
  by (simp add: is_notify_def transaction_request_def sample_module_registered(5) uses_sess_def Let_def)


theorem refused_message_moves_automaton_witness:
  "\<exists>st' st''. tclib_serve_all plain_env sample_daemon
       [transaction_request MSG_COMMIT_VOTE sample_commit] sample_session = ([TC_FAILURE], st') \<and>
     tclib_serve_all plain_env sample_daemon
       [transaction_request MSG_COMMIT_GLOBAL sample_commit] st' = ([TC_SUCCESS], st'') \<and>
     calls st'' = calls sample_session @ [HandleCommitGlobalCommit 4 9 (to_config_mode 2) ''v'']"
proof -
  have "\<not> ValidateCommitOperSequence sample_daemon MSG_COMMIT_VOTE sample_session"
    using sample_knows(2) knows_config(2) [OF sample_knows(1)]
    by (simp add: ValidateCommitOperSequence_def sample_daemon_def)
  from refused_message_moves_automaton [OF sample_knows(1) this, of plain_env]
    sample_willing plain_env_accepting show ?thesis
    by (simp add: sample_daemon_def sample_commit_def msg_new_defs del: tclib_serve_all.simps) blast
qed


end
