(* ===== verification/UsessDb.thy ===== *)
theory UsessDb
  imports TcDb
begin

text \<open>
  The management database (\<^verbatim>\<open>libs/mgmt/libuncmgmtdb/mgmt_database.cc\<close>), with which the user
  sessions read and change passwords: a connection with one transaction, and the functions for
  callers in C. The database is reached through calls of ODBC; the object carries their history,
  and an environment answers each call as a function of it. A result \<open>None\<close> is a process ended by
  an uncaught exception or the use of a null pointer.
\<close>

section \<open>Calls of ODBC\<close>

datatype sql_type =
    SQL_UNKNOWN_TYPE | SQL_VARCHAR | SQL_INTEGER | SQL_SMALLINT | SQL_BIGINT | SQL_REAL | SQL_FLOAT
  | SQL_DOUBLE | SQL_TYPE_DATE | SQL_TYPE_TIME | SQL_TYPE_TIMESTAMP

datatype odbc_call =
    SQLAllocEnv | SQLAllocConnect | SQLFreeConnect | SQLFreeEnv
  | SQLDriverConnect string | SQLSetAutocommitOff | SQLDisconnect | SQLTransact bool
  | SQLAllocStmt | SQLExecDirect string | SQLRowCount | SQLBindCol nat sql_type | SQLFetch | SQLFreeStmt

text \<open>
  An answer: the return code, the number of rows, and the contents of the bound buffers of a
  column after the call, as text, as a number and as octets.
\<close>

record odbc_reply =
  or_ret :: u32
  or_rows :: int
  or_text :: "nat \<Rightarrow> string"
  or_num :: "nat \<Rightarrow> int"
  or_bytes :: "nat \<Rightarrow> u8 list"

type_synonym odbc_history = "(odbc_call \<times> odbc_reply) list"
type_synonym odbc_env = "odbc_history \<Rightarrow> odbc_call \<Rightarrow> odbc_reply"

definition odbc_ok :: "odbc_reply \<Rightarrow> bool" where
  "odbc_ok r \<longleftrightarrow> or_ret r = SQL_SUCCESS \<or> or_ret r = SQL_SUCCESS_WITH_INFO"


section \<open>The object\<close>

datatype db_err_e =
    DB_E_OK | DB_E_NG | DB_E_PARA_ERR | DB_E_NOTFOUND | DB_E_UPDATE_ERR | DB_E_TRANSACTION_ERR
  | DB_E_CONNECT_ERR | DB_E_ALREADY_CONNECTED | DB_E_FATAL_ERR

datatype db_commit_e = DB_COMMIT | DB_ROLLBACK

datatype transaction_status_e =
    STATUS_TRANSACTION_NONE | STATUS_TRANSACTION_BEGIN | STATUS_TRANSACTION_UPDATE
  | STATUS_TRANSACTION_ABORT

text \<open>A value of a column; the types that nobody reads keep their octets.\<close>

datatype variant_t =
    VARIANT_UNKNOWN | VARIANT_STRING string | VARIANT_INT16 "16 word" | VARIANT_INT32 i32
  | VARIANT_INT64 u64 | VARIANT_FLOAT "u8 list" | VARIANT_DOUBLE "u8 list" | VARIANT_TIME "u8 list"
  | VARIANT_DATE "u8 list" | VARIANT_TIMESTAMP "u8 list"

type_synonym mgmtdb_variant_v = "variant_t list list"

text \<open>The handles are recorded as non-null or null.\<close>

record MgmtDatabase =
  henv :: bool
  hdbc :: bool
  status_database :: transaction_status_e
  odbc_log :: odbc_history

definition MgmtDatabase_new :: "odbc_history \<Rightarrow> MgmtDatabase" where
  "MgmtDatabase_new h =
     \<lparr>henv = False, hdbc = False, status_database = STATUS_TRANSACTION_NONE, odbc_log = h\<rparr>"

definition odbc :: "odbc_env \<Rightarrow> odbc_call \<Rightarrow> MgmtDatabase \<Rightarrow> odbc_reply \<times> MgmtDatabase" where
  "odbc E c d = (let r = E (odbc_log d) c in (r, d\<lparr>odbc_log := odbc_log d @ [(c, r)]\<rparr>))"

definition MGMTDB_CONNECT_STRING :: string where "MGMTDB_CONNECT_STRING = ''DSN=UNC_DB_DSN''"


section \<open>Transactions\<close>

definition BeginTransaction :: "MgmtDatabase \<Rightarrow> db_err_e \<times> MgmtDatabase" where
  "BeginTransaction d =
     (if status_database d \<noteq> STATUS_TRANSACTION_NONE then (DB_E_TRANSACTION_ERR, d)
      else (DB_E_OK, d\<lparr>status_database := STATUS_TRANSACTION_BEGIN\<rparr>))"

definition EndTransaction :: "odbc_env \<Rightarrow> db_commit_e \<Rightarrow> MgmtDatabase \<Rightarrow> db_err_e \<times> MgmtDatabase" where
  "EndTransaction E mode d =
     (if status_database d = STATUS_TRANSACTION_NONE then (DB_E_TRANSACTION_ERR, d)
      else
        let commit = (mode = DB_COMMIT \<and> status_database d \<noteq> STATUS_TRANSACTION_ABORT);
            (r, d1) = odbc E (SQLTransact commit) d
        in if or_ret r \<noteq> SQL_SUCCESS then (DB_E_TRANSACTION_ERR, d1)
           else (DB_E_OK, if status_database d1 \<noteq> STATUS_TRANSACTION_ABORT
                          then d1\<lparr>status_database := STATUS_TRANSACTION_NONE\<rparr> else d1))"

definition MgmtDatabase_Init :: "odbc_env \<Rightarrow> MgmtDatabase \<Rightarrow> bool \<times> MgmtDatabase" where
  "MgmtDatabase_Init E d =
     (let (r1, d1) = odbc E SQLAllocEnv (d\<lparr>status_database := STATUS_TRANSACTION_NONE\<rparr>);
          d2 = d1\<lparr>henv := odbc_ok r1\<rparr>
      in if or_ret r1 \<noteq> SQL_SUCCESS then (False, d2)
         else
           let (r2, d3) = odbc E SQLAllocConnect d2; d4 = d3\<lparr>hdbc := odbc_ok r2\<rparr>
           in if or_ret r2 \<noteq> SQL_SUCCESS
              then (False, (snd (odbc E SQLFreeEnv d4))\<lparr>henv := False, hdbc := False\<rparr>)
              else (True, d4))"

text \<open>An error of the transaction is reported only when the connection could be closed.\<close>

definition MgmtDatabase_Disconnect :: "odbc_env \<Rightarrow> MgmtDatabase \<Rightarrow> db_err_e \<times> MgmtDatabase" where
  "MgmtDatabase_Disconnect E d =
     (if status_database d = STATUS_TRANSACTION_NONE then (DB_E_TRANSACTION_ERR, d)
      else
        let mode = (if status_database d = STATUS_TRANSACTION_UPDATE then DB_COMMIT else DB_ROLLBACK);
            (ret, d1) = EndTransaction E mode d;
            (r, d2) = odbc E SQLDisconnect d1
        in if \<not> odbc_ok r then (DB_E_NG, d2)
           else (ret, d2\<lparr>status_database := STATUS_TRANSACTION_NONE\<rparr>))"

definition MgmtDatabase_Fini :: "odbc_env \<Rightarrow> MgmtDatabase \<Rightarrow> bool \<times> MgmtDatabase" where
  "MgmtDatabase_Fini E d =
     (let d1 = snd (MgmtDatabase_Disconnect E d);
          d2 = (snd (odbc E SQLFreeConnect d1))\<lparr>hdbc := False\<rparr>
      in (True, (snd (odbc E SQLFreeEnv d2))\<lparr>henv := False\<rparr>))"

definition MgmtDatabase_Connect :: "odbc_env \<Rightarrow> MgmtDatabase \<Rightarrow> db_err_e \<times> MgmtDatabase" where
  "MgmtDatabase_Connect E d =
     (if status_database d \<noteq> STATUS_TRANSACTION_NONE then (DB_E_CONNECT_ERR, d)
      else
        let (r1, d1) = odbc E (SQLDriverConnect MGMTDB_CONNECT_STRING) d;
            failed = (\<lambda>d'. (DB_E_CONNECT_ERR, snd (odbc E SQLDisconnect d')))
        in if \<not> odbc_ok r1 then failed d1
           else
             let (r2, d2) = odbc E SQLSetAutocommitOff d1
             in if \<not> odbc_ok r2 then failed d2
                else (case BeginTransaction d2 of
                        (ret, d3) \<Rightarrow> if ret \<noteq> DB_E_OK then failed d3 else (DB_E_OK, d3)))"

definition MgmtDatabase_Abort :: "MgmtDatabase \<Rightarrow> db_err_e \<times> MgmtDatabase" where
  "MgmtDatabase_Abort d =
     (if status_database d = STATUS_TRANSACTION_NONE then (DB_E_TRANSACTION_ERR, d)
      else (DB_E_OK, d\<lparr>status_database := STATUS_TRANSACTION_ABORT\<rparr>))"


section \<open>Statements\<close>

text \<open>Binding a column; the result of \<^verbatim>\<open>SQLBindCol\<close> is not examined. Columns count from one.\<close>

definition SetBindCol :: "odbc_env \<Rightarrow> nat \<Rightarrow> sql_type \<Rightarrow> MgmtDatabase \<Rightarrow> db_err_e \<times> MgmtDatabase" where
  "SetBindCol E column t d =
     (if t = SQL_UNKNOWN_TYPE then (DB_E_NG, d)
      else (DB_E_OK, snd (odbc E (SQLBindCol column t) d)))"

fun bind_columns :: "odbc_env \<Rightarrow> nat \<Rightarrow> sql_type list \<Rightarrow> MgmtDatabase \<Rightarrow> bool \<times> MgmtDatabase" where
  "bind_columns E column [] d = (True, d)"
| "bind_columns E column (t # ts) d =
     (case SetBindCol E column t d of
        (r, d1) \<Rightarrow> if r \<noteq> DB_E_OK then (False, d1) else bind_columns E (column + 1) ts d1)"

text \<open>The value of a column after a fetch; a text ends at its first null character.\<close>

definition c_str :: "string \<Rightarrow> string" where
  "c_str s = takeWhile (\<lambda>c. c \<noteq> CHR 0x00) s"

fun column_value :: "odbc_reply \<Rightarrow> nat \<Rightarrow> sql_type \<Rightarrow> variant_t" where
  "column_value r k SQL_VARCHAR = VARIANT_STRING (c_str (or_text r k))"
| "column_value r k SQL_INTEGER = VARIANT_INT32 (sint (word_of_int (or_num r k) :: u32))"
| "column_value r k SQL_SMALLINT = VARIANT_INT16 (word_of_int (or_num r k))"
| "column_value r k SQL_BIGINT = VARIANT_INT64 (word_of_int (or_num r k))"
| "column_value r k SQL_REAL = VARIANT_FLOAT (or_bytes r k)"
| "column_value r k SQL_FLOAT = VARIANT_FLOAT (or_bytes r k)"
| "column_value r k SQL_DOUBLE = VARIANT_DOUBLE (or_bytes r k)"
| "column_value r k SQL_TYPE_DATE = VARIANT_DATE (or_bytes r k)"
| "column_value r k SQL_TYPE_TIME = VARIANT_TIME (or_bytes r k)"
| "column_value r k SQL_TYPE_TIMESTAMP = VARIANT_TIMESTAMP (or_bytes r k)"
| "column_value r k SQL_UNKNOWN_TYPE = VARIANT_UNKNOWN"

definition row_values :: "odbc_reply \<Rightarrow> sql_type list \<Rightarrow> variant_t list" where
  "row_values r types = map (\<lambda>(k, t). column_value r k t) (zip [1..<Suc (length types)] types)"

text \<open>The rows still to be fetched keep the values of a fresh vector.\<close>

fun fetch_rows ::
  "odbc_env \<Rightarrow> sql_type list \<Rightarrow> nat \<Rightarrow> mgmtdb_variant_v \<Rightarrow> MgmtDatabase
     \<Rightarrow> bool \<times> mgmtdb_variant_v \<times> MgmtDatabase" where
  "fetch_rows E types 0 acc d = (True, acc, d)"
| "fetch_rows E types (Suc n) acc d =
     (case odbc E SQLFetch d of
        (r, d1) \<Rightarrow>
          if \<not> odbc_ok r
          then (False, acc @ replicate (Suc n) (replicate (length types) VARIANT_UNKNOWN), d1)
          else fetch_rows E types n (acc @ [row_values r types]) d1)"

definition DbField2Value ::
  "odbc_env \<Rightarrow> sql_type list \<Rightarrow> MgmtDatabase \<Rightarrow> (db_err_e \<times> mgmtdb_variant_v \<times> MgmtDatabase) option" where
  "DbField2Value E types d =
     (let (r, d1) = odbc E SQLRowCount d
      in if or_ret r \<noteq> SQL_SUCCESS then Some (DB_E_NG, [], d1)
         else if or_rows r < 0 then None
         else
           let n = nat (or_rows r)
           in case bind_columns E 1 types d1 of
                (False, d2) \<Rightarrow>
                  Some (DB_E_NG, replicate n (replicate (length types) VARIANT_UNKNOWN), d2)
              | (True, d2) \<Rightarrow>
                  (case fetch_rows E types n [] d2 of
                     (ok, rows, d3) \<Rightarrow> Some (if ok then DB_E_OK else DB_E_NG, rows, d3)))"

text \<open>
  The output parameter \<open>v\<close> keeps its value until the statement is allocated. A failed allocation
  leaves a null handle.
\<close>

definition MgmtDatabase_Exec ::
  "odbc_env \<Rightarrow> string \<Rightarrow> bool \<Rightarrow> sql_type list \<Rightarrow> mgmtdb_variant_v \<Rightarrow> MgmtDatabase
     \<Rightarrow> (db_err_e \<times> mgmtdb_variant_v \<times> MgmtDatabase) option" where
  "MgmtDatabase_Exec E stmt upd types v d =
     (if status_database d = STATUS_TRANSACTION_NONE then Some (DB_E_TRANSACTION_ERR, v, d)
      else if stmt = '''' then Some (DB_E_PARA_ERR, v, d)
      else
        let (r1, d1) = odbc E SQLAllocStmt d
        in if \<not> odbc_ok r1 then Some (DB_E_FATAL_ERR, v, d1)
           else
             let (r2, d2) = odbc E (SQLExecDirect stmt) d1;
                 free = (\<lambda>d'. snd (odbc E SQLFreeStmt d'))
             in if \<not> odbc_ok r2 then Some (DB_E_NG, [], free d2)
                else
                  case (if types = [] then Some (DB_E_OK, [], d2) else DbField2Value E types d2) of
                    None \<Rightarrow> None
                  | Some (ret, rows, d3) \<Rightarrow>
                      if ret \<noteq> DB_E_OK then Some (ret, rows, free d3)
                      else Some (DB_E_OK, rows,
                             free (if upd \<and> status_database d3 \<noteq> STATUS_TRANSACTION_ABORT
                                   then d3\<lparr>status_database := STATUS_TRANSACTION_UPDATE\<rparr> else d3)))"

definition DbErr2UsessErr :: "u32 \<Rightarrow> db_err_e" where
  "DbErr2UsessErr c =
     (if c = SQL_SUCCESS \<or> c = SQL_SUCCESS_WITH_INFO then DB_E_OK
      else if c = - 1 then DB_E_NG
      else if c = - 2 then DB_E_FATAL_ERR
      else if c = SQL_NO_DATA then DB_E_NOTFOUND
      else DB_E_NG)"


section \<open>The functions for C\<close>

text \<open>An object is passed by its address, \<open>None\<close> for \<^verbatim>\<open>NULL\<close>.\<close>

definition mgmtdb_create :: "odbc_env \<Rightarrow> odbc_history \<Rightarrow> MgmtDatabase option \<times> odbc_history" where
  "mgmtdb_create E h =
     (case MgmtDatabase_Init E (MgmtDatabase_new h) of
        (True, d) \<Rightarrow> (Some d, odbc_log d)
      | (False, d) \<Rightarrow> (None, odbc_log (snd (MgmtDatabase_Fini E d))))"

text \<open>Deleting the object neither disconnects nor frees a handle.\<close>

definition mgmtdb_delete :: "MgmtDatabase option \<Rightarrow> MgmtDatabase option" where
  "mgmtdb_delete d = None"

definition mgmtdb_connect :: "odbc_env \<Rightarrow> MgmtDatabase option \<Rightarrow> int \<times> MgmtDatabase option" where
  "mgmtdb_connect E d =
     (case d of
        None \<Rightarrow> (- 1, None)
      | Some d' \<Rightarrow>
          (case MgmtDatabase_Connect E d' of
             (r, d1) \<Rightarrow> (if r = DB_E_OK then 0 else - 1, Some d1)))"

definition mgmtdb_disconnect :: "odbc_env \<Rightarrow> MgmtDatabase option \<Rightarrow> int \<times> MgmtDatabase option" where
  "mgmtdb_disconnect E d =
     (case d of
        None \<Rightarrow> (- 1, None) | Some d' \<Rightarrow> (0, Some (snd (MgmtDatabase_Disconnect E d'))))"

text \<open>The value goes to the memory of the caller: \<open>None\<close> when nothing is stored.\<close>

definition mgmtdb_one_execute ::
  "odbc_env \<Rightarrow> MgmtDatabase option \<Rightarrow> string \<Rightarrow> bool \<Rightarrow> string
     \<Rightarrow> (int \<times> variant_t option \<times> MgmtDatabase option) option" where
  "mgmtdb_one_execute E d stmt upd data_type =
     (case d of
        None \<Rightarrow> Some (- 1, None, None)
      | Some d' \<Rightarrow>
          let types = (if data_type = ''NUMBER'' then [SQL_INTEGER]
                       else if data_type = ''TEXT'' then [SQL_VARCHAR] else [])
          in case MgmtDatabase_Exec E stmt upd types [] d' of
               None \<Rightarrow> None
             | Some (r, v, d1) \<Rightarrow>
                 if r = DB_E_OK \<and> types \<noteq> []
                 then (case v of
                         [[x]] \<Rightarrow> Some (0, Some x, Some d1)
                       | _ \<Rightarrow> Some (- 1, None, Some d1))
                 else Some (if r = DB_E_OK then 0 else - 1, None, Some d1))"

definition mgmtdb_abort :: "MgmtDatabase option \<Rightarrow> int \<times> MgmtDatabase option" where
  "mgmtdb_abort d =
     (case d of
        None \<Rightarrow> (- 1, None)
      | Some d' \<Rightarrow>
          (case MgmtDatabase_Abort d' of (r, d1) \<Rightarrow> (if r = DB_E_OK then 0 else - 1, Some d1)))"

end
