(* ===== verification/UsessConf.thy ===== *)
theory UsessConf
  imports UsessDb
begin

text \<open>
  The user session manager, first part: the enumerations of \<^verbatim>\<open>include/unc/usess_ipc.h\<close>, the
  structures of \<^verbatim>\<open>ipc/usess.ipct\<close>, and the configuration classes
  (\<^verbatim>\<open>modules/usess/usess_conf_common.cc\<close>, \<^verbatim>\<open>usess_conf_session.cc\<close>,
  \<^verbatim>\<open>usess_conf_user.cc\<close>, \<^verbatim>\<open>usess_conf_enable.cc\<close>). Enumerations that travel in 32-bit fields are
  integers, because the code casts whatever it receives. The parsed configuration file is a
  parameter.
\<close>

section \<open>Codes\<close>

datatype usess_ipc_err_e =
    USESS_E_OK | USESS_E_NG | USESS_E_INVALID_SESSID | USESS_E_NO_SUCH_SESSID
  | USESS_E_INVALID_PRIVILEGE | USESS_E_INVALID_MODE | USESS_E_INVALID_SESSTYPE
  | USESS_E_INVALID_USER | USESS_E_INVALID_PASSWD | USESS_E_SESS_OVER

fun usess_err_num :: "usess_ipc_err_e \<Rightarrow> u32" where
  "usess_err_num USESS_E_OK = 0"
| "usess_err_num USESS_E_NG = 1"
| "usess_err_num USESS_E_INVALID_SESSID = 2"
| "usess_err_num USESS_E_NO_SUCH_SESSID = 3"
| "usess_err_num USESS_E_INVALID_PRIVILEGE = 4"
| "usess_err_num USESS_E_INVALID_MODE = 5"
| "usess_err_num USESS_E_INVALID_SESSTYPE = 6"
| "usess_err_num USESS_E_INVALID_USER = 7"
| "usess_err_num USESS_E_INVALID_PASSWD = 8"
| "usess_err_num USESS_E_SESS_OVER = 9"

abbreviation (input) USESS_ID_INVALID :: u32 where "USESS_ID_INVALID \<equiv> 0"

abbreviation (input) USESS_TYPE_UNKNOWN :: i32 where "USESS_TYPE_UNKNOWN \<equiv> 0"
abbreviation (input) USESS_TYPE_CLI :: i32 where "USESS_TYPE_CLI \<equiv> 1"
abbreviation (input) USESS_TYPE_CLI_DAEMON :: i32 where "USESS_TYPE_CLI_DAEMON \<equiv> 2"
abbreviation (input) USESS_TYPE_WEB_API :: i32 where "USESS_TYPE_WEB_API \<equiv> 3"
abbreviation (input) USESS_TYPE_WEB_UI :: i32 where "USESS_TYPE_WEB_UI \<equiv> 4"

abbreviation (input) USER_TYPE_UNKNOWN :: i32 where "USER_TYPE_UNKNOWN \<equiv> 0"
abbreviation (input) USER_TYPE_OPER :: i32 where "USER_TYPE_OPER \<equiv> 1"
abbreviation (input) USER_TYPE_ADMIN :: i32 where "USER_TYPE_ADMIN \<equiv> 2"

abbreviation (input) USESS_MODE_OPER :: i32 where "USESS_MODE_OPER \<equiv> 1"
abbreviation (input) USESS_MODE_ENABLE :: i32 where "USESS_MODE_ENABLE \<equiv> 2"

abbreviation (input) CONFIG_STATUS_NONE :: i32 where "CONFIG_STATUS_NONE \<equiv> 0"
abbreviation (input) CONFIG_STATUS_TCLOCK :: i32 where "CONFIG_STATUS_TCLOCK \<equiv> 1"
abbreviation (input) CONFIG_STATUS_TCLOCK_PART :: i32 where "CONFIG_STATUS_TCLOCK_PART \<equiv> 2"

abbreviation (input) HASH_TYPE_UNKNOWN :: i32 where "HASH_TYPE_UNKNOWN \<equiv> 0"
abbreviation (input) HASH_TYPE_MD5 :: i32 where "HASH_TYPE_MD5 \<equiv> 1"
abbreviation (input) HASH_TYPE_SHA256 :: i32 where "HASH_TYPE_SHA256 \<equiv> 5"
abbreviation (input) HASH_TYPE_SHA512 :: i32 where "HASH_TYPE_SHA512 \<equiv> 6"

definition kDefaultUser_CLIAdmin :: string where "kDefaultUser_CLIAdmin = ''UNC_CLI_ADMIN''"
definition kDefaultUser_WebAdmin :: string where "kDefaultUser_WebAdmin = ''UNC_WEB_ADMIN''"

text \<open>The services, in the order of their numbers.\<close>

datatype usess_ipc_service_id_e =
    kUsessSessAdd | kUsessSessDel | kUsessSessTypeDel | kUsessEnable | kUsessDisable
  | kUsessSessCount | kUsessSessList | kUsessSessDetail | kUserUserPasswd | kUserEnablePasswd

definition usess_services :: "usess_ipc_service_id_e list" where
  "usess_services =
     [kUsessSessAdd, kUsessSessDel, kUsessSessTypeDel, kUsessEnable, kUsessDisable,
      kUsessSessCount, kUsessSessList, kUsessSessDetail, kUserUserPasswd, kUserEnablePasswd]"


section \<open>Structures of the requests and responses\<close>

text \<open>Arrays of octets are strings; what follows the first null character does not matter.\<close>

record usess_ipc_req_sess_add =
  ra_sess_uname :: string
  ra_sess_passwd :: string
  ra_login_name :: string
  ra_sess_type :: i32
  ra_ipaddr :: u32
  ra_info :: string

record usess_ipc_res_sess_info =
  si_sess :: u32
  si_sess_type :: i32
  si_sess_mode :: i32
  si_user_type :: i32
  si_config_status :: i32
  si_login_name :: string
  si_sess_uname :: string
  si_ipaddr :: u32
  si_login_time :: "int \<times> int"
  si_info :: string
  si_config_mode :: i32
  si_vtn_name :: string

text \<open>The argument of a request.\<close>

datatype usess_arg =
    ReqSessAdd usess_ipc_req_sess_add
  | ReqSessDel u32 u32
  | ReqSessTypeDel i32
  | ReqSessEnable u32 string
  | ReqSessId u32
  | ReqSessDetail u32 u32
  | ReqUserPasswd u32 string string
  | ReqEnablePasswd u32 string

datatype usess_out = OutSessId u32 | OutCount u32 | OutInfo usess_ipc_res_sess_info

text \<open>
  The C string of an array; an array without a null character is read past its end, which is
  undefined.
\<close>

definition CAST_IPC_STRING :: "string \<Rightarrow> string option" where
  "CAST_IPC_STRING s = (if CHR 0x00 \<in> set s then Some (c_str s) else None)"

text \<open>\<^verbatim>\<open>strncpy\<close> of at most 72 characters into a zeroed buffer of 73.\<close>

definition copy_passwd :: "string \<Rightarrow> string" where
  "copy_passwd s = take 72 (c_str s)"


section \<open>The configuration file\<close>

datatype cfg_value = CfgBool bool | CfgU32 u32 | CfgI32 i32 | CfgI64 int | CfgStr string

text \<open>Blocks by name, and the entries of a map by its name and key; \<open>None\<close> for an invalid block.\<close>

type_synonym conf_block = "string \<rightharpoonup> cfg_value"

record conf_file =
  cf_block :: "string \<rightharpoonup> conf_block"
  cf_map :: "string \<Rightarrow> string \<rightharpoonup> conf_block"

definition getBool :: "string \<Rightarrow> bool \<Rightarrow> conf_block \<Rightarrow> bool" where
  "getBool k dflt b = (case b k of Some (CfgBool x) \<Rightarrow> x | _ \<Rightarrow> dflt)"

definition getUint32 :: "string \<Rightarrow> u32 \<Rightarrow> conf_block \<Rightarrow> u32" where
  "getUint32 k dflt b = (case b k of Some (CfgU32 x) \<Rightarrow> x | _ \<Rightarrow> dflt)"

definition getInt32 :: "string \<Rightarrow> i32 \<Rightarrow> conf_block \<Rightarrow> i32" where
  "getInt32 k dflt b = (case b k of Some (CfgI32 x) \<Rightarrow> x | _ \<Rightarrow> dflt)"

definition getInt64 :: "string \<Rightarrow> int \<Rightarrow> conf_block \<Rightarrow> int" where
  "getInt64 k dflt b = (case b k of Some (CfgI64 x) \<Rightarrow> x | _ \<Rightarrow> dflt)"

definition getString :: "string \<Rightarrow> string \<Rightarrow> conf_block \<Rightarrow> string" where
  "getString k dflt b = (case b k of Some (CfgStr x) \<Rightarrow> x | _ \<Rightarrow> dflt)"

subsection \<open>Common settings\<close>

record usess_conf_common_t =
  lock_timeout :: "int \<times> int"
  auth_retry_count :: u32

definition kDefaultConf_common :: usess_conf_common_t where
  "kDefaultConf_common = \<lparr>lock_timeout = (- 1, - 1), auth_retry_count = 0\<rparr>"

text \<open>The number of retries is not read from the file.\<close>

definition UsessConfCommon_LoadConf :: "conf_file \<Rightarrow> usess_ipc_err_e \<times> usess_conf_common_t" where
  "UsessConfCommon_LoadConf f =
     (case cf_block f ''usess_conf_common'' of
        None \<Rightarrow> (USESS_E_NG, kDefaultConf_common)
      | Some b \<Rightarrow>
          (USESS_E_OK,
           \<lparr>lock_timeout =
              (getInt64 ''lock_timeout_sec'' (fst (lock_timeout kDefaultConf_common)) b,
               getInt64 ''lock_timeout_nsec'' (snd (lock_timeout kDefaultConf_common)) b),
            auth_retry_count = 0\<rparr>))"

subsection \<open>Settings of the sessions\<close>

datatype usess_conf_session_map_type_e = ID_CLI | ID_WEB_API | ID_WEB_UI | ID_FIXED

record usess_conf_session_connect_num_t =
  limited :: bool
  max_session :: u32

record usess_conf_session_parameter_t =
  range_start :: u32
  range_end :: u32
  connect :: usess_conf_session_connect_num_t

record usess_conf_session_t =
  conf_global :: usess_conf_session_connect_num_t
  conf_local :: "usess_conf_session_map_type_e \<Rightarrow> usess_conf_session_parameter_t"

fun kConfMapKey :: "usess_conf_session_map_type_e \<Rightarrow> string" where
  "kConfMapKey ID_CLI = ''cli''"
| "kConfMapKey ID_WEB_API = ''web_api''"
| "kConfMapKey ID_WEB_UI = ''web_ui''"
| "kConfMapKey ID_FIXED = ''fixed''"

fun default_local :: "usess_conf_session_map_type_e \<Rightarrow> usess_conf_session_parameter_t" where
  "default_local ID_CLI =
     \<lparr>range_start = 1, range_end = 127, connect = \<lparr>limited = True, max_session = 16\<rparr>\<rparr>"
| "default_local ID_WEB_API =
     \<lparr>range_start = 1024, range_end = 65535, connect = \<lparr>limited = True, max_session = 64\<rparr>\<rparr>"
| "default_local ID_WEB_UI =
     \<lparr>range_start = 256, range_end = 511, connect = \<lparr>limited = True, max_session = 24\<rparr>\<rparr>"
| "default_local ID_FIXED =
     \<lparr>range_start = 128, range_end = 255, connect = \<lparr>limited = False, max_session = 0\<rparr>\<rparr>"

definition kDefaultConf_session :: usess_conf_session_t where
  "kDefaultConf_session =
     \<lparr>conf_global = \<lparr>limited = True, max_session = 64\<rparr>, conf_local = default_local\<rparr>"

text \<open>The size of the range is computed in 32 bits and corrects the maximum downwards only.\<close>

definition load_local ::
  "usess_conf_session_map_type_e \<Rightarrow> conf_block \<Rightarrow> usess_conf_session_parameter_t" where
  "load_local i b =
     (let dflt = default_local i;
          start = getUint32 ''start_id'' (range_start dflt) b;
          end_id = getUint32 ''end_id'' (range_end dflt) b;
          n = getUint32 ''max_session'' (max_session (connect dflt)) b;
          range_num = end_id - start + 1
      in \<lparr>range_start = start, range_end = end_id,
          connect = \<lparr>limited = getBool ''limited'' (limited (connect dflt)) b,
                     max_session = (if range_num < n then range_num else n)\<rparr>\<rparr>)"

definition UsessConfSession_LoadConf :: "conf_file \<Rightarrow> usess_ipc_err_e \<times> usess_conf_session_t" where
  "UsessConfSession_LoadConf f =
     (let entry = (\<lambda>i. cf_map f ''usess_session_parameter'' (kConfMapKey i))
      in case cf_block f ''usess_session_info'' of
           None \<Rightarrow> (USESS_E_NG, kDefaultConf_session)
         | Some g \<Rightarrow>
             if (\<exists>i \<in> {ID_CLI, ID_WEB_API, ID_WEB_UI, ID_FIXED}. entry i = None)
             then (USESS_E_NG, kDefaultConf_session)
             else (USESS_E_OK,
                   \<lparr>conf_global =
                      \<lparr>limited = getBool ''limited'' (limited (conf_global kDefaultConf_session)) g,
                       max_session =
                         getUint32 ''max_session'' (max_session (conf_global kDefaultConf_session)) g\<rparr>,
                    conf_local = (\<lambda>i. load_local i (the (entry i)))\<rparr>))"

subsection \<open>Settings of passwords\<close>

record usess_conf_enable_t =
  hash_type :: i32
  passwd_length :: u32
  passwd_regular :: string

record usess_conf_user_t = usess_conf_enable_t +
  user_length :: u32
  user_regular :: string

definition kDefaultConf_enable :: usess_conf_enable_t where
  "kDefaultConf_enable = \<lparr>hash_type = HASH_TYPE_MD5, passwd_length = 72,
     passwd_regular = ''[[:alnum:][:graph:]]+''\<rparr>"

definition kDefaultConf_user :: usess_conf_user_t where
  "kDefaultConf_user = \<lparr>hash_type = HASH_TYPE_MD5, passwd_length = 72,
     passwd_regular = ''[[:alnum:][:graph:]]+'', user_length = 32,
     user_regular = ''[[:alpha:]_][[:alnum:]_]+''\<rparr>"

definition UsessConfUser_LoadConf :: "conf_file \<Rightarrow> usess_ipc_err_e \<times> usess_conf_user_t" where
  "UsessConfUser_LoadConf f =
     (case cf_block f ''usess_conf_user'' of
        None \<Rightarrow> (USESS_E_NG, kDefaultConf_user)
      | Some b \<Rightarrow>
          (USESS_E_OK,
           \<lparr>hash_type = getInt32 ''hash'' (hash_type kDefaultConf_user) b,
            passwd_length = getUint32 ''passwd_length'' (passwd_length kDefaultConf_user) b,
            passwd_regular = getString ''passwd_regular'' (passwd_regular kDefaultConf_user) b,
            user_length = getUint32 ''user_length'' (user_length kDefaultConf_user) b,
            user_regular = getString ''user_regular'' (user_regular kDefaultConf_user) b\<rparr>))"

definition UsessConfEnable_LoadConf :: "conf_file \<Rightarrow> usess_ipc_err_e \<times> usess_conf_enable_t" where
  "UsessConfEnable_LoadConf f =
     (case cf_block f ''usess_conf_enable'' of
        None \<Rightarrow> (USESS_E_NG, kDefaultConf_enable)
      | Some b \<Rightarrow>
          (USESS_E_OK,
           \<lparr>hash_type = getInt32 ''hash'' (hash_type kDefaultConf_enable) b,
            passwd_length = getUint32 ''passwd_length'' (passwd_length kDefaultConf_enable) b,
            passwd_regular = getString ''passwd_regular'' (passwd_regular kDefaultConf_enable) b\<rparr>))"

end
