(* ===== verification/UsessTable.thy ===== *)
theory UsessTable
  imports UsessConf TcModule
begin

text \<open>
  The user session manager, second part: a session (\<^verbatim>\<open>modules/usess/usess_session.cc\<close>) and the table
  of sessions (\<^verbatim>\<open>usess_sessions.cc\<close>) with the assignment of identifiers, the limits on their number
  and the privileges. The manager calls the coordinator in its process: the instance of the module
  is \<open>None\<close> when it cannot be found. A result \<open>None\<close> is an aborted process, a call that does not
  return, or an undefined iteration.
\<close>

record UsessSessions =
  us_table :: "(u32, usess_ipc_res_sess_info) stdmap"
  ss_conf :: usess_conf_session_t
  allocated_sess_id :: "usess_conf_session_map_type_e \<Rightarrow> u32"

definition UsessSessions_new :: UsessSessions where
  "UsessSessions_new =
     \<lparr>us_table = [], ss_conf = kDefaultConf_session, allocated_sess_id = \<lambda>_. USESS_ID_INVALID\<rparr>"

definition UsessSessions_LoadConf :: "conf_file \<Rightarrow> UsessSessions \<Rightarrow> usess_ipc_err_e \<times> UsessSessions" where
  "UsessSessions_LoadConf f s =
     (case UsessConfSession_LoadConf f of (r, c) \<Rightarrow> (r, s\<lparr>ss_conf := c\<rparr>))"

definition UsessSessions_Init :: "conf_file \<Rightarrow> UsessSessions \<Rightarrow> bool \<times> UsessSessions" where
  "UsessSessions_Init f s =
     (case UsessSessions_LoadConf f s of
        (r, s1) \<Rightarrow>
          if r \<noteq> USESS_E_OK then (False, s1)
          else (True, s1\<lparr>us_table := [], allocated_sess_id := \<lambda>_. USESS_ID_INVALID\<rparr>))"


section \<open>Identifiers and limits\<close>

definition CONF_LOCAL_ID :: "i32 \<Rightarrow> usess_conf_session_map_type_e" where
  "CONF_LOCAL_ID t =
     (if t = USESS_TYPE_CLI \<or> t = USESS_TYPE_CLI_DAEMON then ID_CLI
      else if t = USESS_TYPE_WEB_API then ID_WEB_API else ID_WEB_UI)"

definition session_param :: "i32 \<Rightarrow> UsessSessions \<Rightarrow> usess_conf_session_parameter_t" where
  "session_param t s = conf_local (ss_conf s) (CONF_LOCAL_ID t)"

definition id_used :: "UsessSessions \<Rightarrow> u32 \<Rightarrow> bool" where
  "id_used s i \<longleftrightarrow> map_of (us_table s) i \<noteq> None"

text \<open>
  The first search runs up to and including the end of the range; with the largest 32-bit number
  as its end the counter wraps and the loop ends only when it meets a free number.
\<close>

partial_function (option) search_up :: "(u32 \<Rightarrow> bool) \<Rightarrow> u32 \<Rightarrow> u32 \<Rightarrow> u32 option" where
  "search_up used i hi =
     (if i \<le> hi then (if used i then search_up used (i + 1) hi else Some i)
      else Some USESS_ID_INVALID)"

declare search_up.simps [code]

function search_below :: "(u32 \<Rightarrow> bool) \<Rightarrow> u32 \<Rightarrow> u32 \<Rightarrow> u32" where
  "search_below used i stop =
     (if i < stop then (if used i then search_below used (i + 1) stop else i)
      else USESS_ID_INVALID)"
  by pat_completeness auto
termination
proof (relation "measure (\<lambda>(used, i, stop). unat stop - unat i)", simp)
  fix used :: "u32 \<Rightarrow> bool" and i stop :: u32
  assume "i < stop" and "used i"
  then have "unat i < unat stop" "i \<noteq> UINT32_MAX"
    using unat_u32_le [of stop] by (auto simp: word_less_nat_alt)
  then show "((used, i + 1, stop), used, i, stop) \<in> measure (\<lambda>(used, i, stop). unat stop - unat i)"
    using unat_u32_succ [of i] by (auto simp: word_less_nat_alt)
qed

declare search_below.simps [simp del]

definition GetNewSessionId :: "i32 \<Rightarrow> UsessSessions \<Rightarrow> (u32 \<times> UsessSessions) option" where
  "GetNewSessionId t s =
     (let p = session_param t s; k = CONF_LOCAL_ID t; a = allocated_sess_id s k;
          start = (if a \<noteq> USESS_ID_INVALID \<and> a < range_end p then a + 1 else range_start p)
      in case search_up (id_used s) start (range_end p) of
           None \<Rightarrow> None
         | Some i \<Rightarrow>
             let j = (if i = USESS_ID_INVALID
                      then search_below (id_used s) (range_start p) start else i)
             in Some (j, if j \<noteq> USESS_ID_INVALID
                         then s\<lparr>allocated_sess_id := (allocated_sess_id s)(k := j)\<rparr> else s))"

definition GetCount :: "UsessSessions \<Rightarrow> u32" where
  "GetCount s = word_of_nat (length (us_table s))"

text \<open>
  The sessions of a range are counted between two iterators of the table; the iteration is
  undefined when the lower one lies behind the upper one.
\<close>

definition count_range :: "usess_conf_session_parameter_t \<Rightarrow> UsessSessions \<Rightarrow> u32 option" where
  "count_range p s =
     (let keys = map fst (us_table s);
          lower = length (takeWhile (\<lambda>k. k < range_start p) keys);
          upper = length (takeWhile (\<lambda>k. k \<le> range_end p) keys)
      in if lower \<le> upper then Some (word_of_nat (upper - lower)) else None)"

definition CheckSessTypeCount :: "i32 \<Rightarrow> UsessSessions \<Rightarrow> bool option" where
  "CheckSessTypeCount t s =
     (let g = conf_global (ss_conf s); p = session_param t s
      in if limited g \<and> max_session g \<le> GetCount s then Some False
         else if limited (connect p)
         then (case count_range p s of
                 None \<Rightarrow> None | Some n \<Rightarrow> Some (\<not> max_session (connect p) \<le> n))
         else Some True)"

definition IsSessType :: "i32 \<Rightarrow> bool" where
  "IsSessType t \<longleftrightarrow> t = USESS_TYPE_UNKNOWN \<or> t = USESS_TYPE_CLI \<or> t = USESS_TYPE_CLI_DAEMON \<or>
     t = USESS_TYPE_WEB_API \<or> t = USESS_TYPE_WEB_UI"

definition IsUserType :: "i32 \<Rightarrow> bool" where
  "IsUserType t \<longleftrightarrow> t = USER_TYPE_UNKNOWN \<or> t = USER_TYPE_OPER \<or> t = USER_TYPE_ADMIN"


section \<open>Adding a session\<close>

text \<open>The parameter \<open>now\<close> is the answer of the clock: an error number and the time.\<close>

definition UsessSessions_Add ::
  "i32 \<times> int \<times> int \<Rightarrow> usess_ipc_req_sess_add \<Rightarrow> i32 \<Rightarrow> UsessSessions
     \<Rightarrow> (usess_ipc_err_e \<times> u32 \<times> UsessSessions) option" where
  "UsessSessions_Add now req user_type s =
     (let t = ra_sess_type req
      in if \<not> IsSessType t then Some (USESS_E_INVALID_SESSTYPE, USESS_ID_INVALID, s)
         else if \<not> IsUserType user_type then Some (USESS_E_INVALID_USER, USESS_ID_INVALID, s)
         else case CheckSessTypeCount t s of
             None \<Rightarrow> None
           | Some False \<Rightarrow> Some (USESS_E_SESS_OVER, USESS_ID_INVALID, s)
           | Some True \<Rightarrow>
               if fst now \<noteq> 0 then Some (USESS_E_NG, USESS_ID_INVALID, s)
               else case GetNewSessionId t s of
                   None \<Rightarrow> None
                 | Some (i, s1) \<Rightarrow>
                     if i = USESS_ID_INVALID then Some (USESS_E_SESS_OVER, USESS_ID_INVALID, s1)
                     else Some (USESS_E_OK, i, s1\<lparr>us_table := sm_put i
                            \<lparr>si_sess = i, si_sess_type = t, si_sess_mode = USESS_MODE_OPER,
                             si_user_type = user_type, si_config_status = CONFIG_STATUS_NONE,
                             si_login_name = ra_login_name req, si_sess_uname = ra_sess_uname req,
                             si_ipaddr = ra_ipaddr req, si_login_time = snd now, si_info = ra_info req,
                             si_config_mode = uint (config_mode_num TC_CONFIG_INVALID),
                             si_vtn_name = ''''\<rparr> (us_table s1)\<rparr>))"


section \<open>Calls of the coordinator\<close>

type_synonym 'a usess_result = "('a \<times> UsessSessions \<times> tc_state) option"

definition UsessSessions_Del ::
  "tc_env \<Rightarrow> TcModule option \<Rightarrow> u32 \<Rightarrow> UsessSessions \<Rightarrow> tc_state \<Rightarrow> usess_ipc_err_e usess_result" where
  "UsessSessions_Del E md target s w =
     (if map_of (us_table s) target = None then Some (USESS_E_NO_SUCH_SESSID, s, w)
      else case md of
          None \<Rightarrow> Some (USESS_E_NG, s, w)
        | Some m \<Rightarrow> do {
            (_, w1) \<leftarrow> TcReleaseSession target E m w;
            Some (USESS_E_OK, s\<lparr>us_table := sm_erase target (us_table s)\<rparr>, w1)
          })"

text \<open>The sessions that are kept, after the others were released in order.\<close>

fun release_sessions ::
  "tc_env \<Rightarrow> TcModule \<Rightarrow> (usess_ipc_res_sess_info \<Rightarrow> bool) \<Rightarrow> (u32, usess_ipc_res_sess_info) stdmap
     \<Rightarrow> tc_state \<Rightarrow> ((u32, usess_ipc_res_sess_info) stdmap \<times> tc_state) option" where
  "release_sessions E m P [] w = Some ([], w)"
| "release_sessions E m P (e # es) w =
     (if \<not> P (snd e)
      then do { (kept, w1) \<leftarrow> release_sessions E m P es w; Some (e # kept, w1) }
      else do {
        (_, w1) \<leftarrow> TcReleaseSession (si_sess (snd e)) E m w;
        release_sessions E m P es w1
      })"

definition UsessSessions_Del_type ::
  "tc_env \<Rightarrow> TcModule option \<Rightarrow> i32 \<Rightarrow> UsessSessions \<Rightarrow> tc_state \<Rightarrow> usess_ipc_err_e usess_result" where
  "UsessSessions_Del_type E md t s w =
     (if \<not> IsSessType t then Some (USESS_E_INVALID_SESSTYPE, s, w)
      else case md of
          None \<Rightarrow> Some (USESS_E_NG, s, w)
        | Some m \<Rightarrow> do {
            (kept, w1) \<leftarrow> release_sessions E m (\<lambda>i. si_sess_type i = t) (us_table s) w;
            Some (USESS_E_OK, s\<lparr>us_table := kept\<rparr>, w1)
          })"

definition UsessSessions_Del_all ::
  "tc_env \<Rightarrow> TcModule option \<Rightarrow> UsessSessions \<Rightarrow> tc_state \<Rightarrow> usess_ipc_err_e usess_result" where
  "UsessSessions_Del_all E md s w =
     (case md of
        None \<Rightarrow> Some (USESS_E_NG, s, w)
      | Some m \<Rightarrow> do {
          (_, w1) \<leftarrow> release_sessions E m (\<lambda>_. True) (us_table s) w;
          Some (USESS_E_OK, s\<lparr>us_table := []\<rparr>, w1)
        })"

definition UsessSessions_Fini ::
  "tc_env \<Rightarrow> TcModule option \<Rightarrow> UsessSessions \<Rightarrow> tc_state \<Rightarrow> bool usess_result" where
  "UsessSessions_Fini E md s w = do {
     (_, s1, w1) \<leftarrow> UsessSessions_Del_all E md s w;
     Some (True, s1\<lparr>us_table := []\<rparr>, w1)
   }"

text \<open>
  The method of a session of the table; the mode of the session is tested before the new mode is
  set.
\<close>

definition TransitMode ::
  "tc_env \<Rightarrow> TcModule option \<Rightarrow> i32 \<Rightarrow> u32 \<Rightarrow> usess_ipc_res_sess_info \<Rightarrow> UsessSessions \<Rightarrow> tc_state
     \<Rightarrow> usess_ipc_err_e usess_result" where
  "TransitMode E md mode key i s w =
     (let done = (\<lambda>w'. Some (USESS_E_OK,
            s\<lparr>us_table := sm_put key (i\<lparr>si_sess_mode := mode\<rparr>) (us_table s)\<rparr>, w'))
      in if si_sess_mode i \<noteq> USESS_MODE_OPER \<and> si_sess_mode i \<noteq> USESS_MODE_ENABLE
         then Some (USESS_E_NG, s, w)
         else if mode = USESS_MODE_OPER
         then (case md of
                 None \<Rightarrow> Some (USESS_E_NG, s, w)
               | Some m \<Rightarrow> do { (_, w1) \<leftarrow> TcReleaseSession (si_sess i) E m w; done w1 })
         else done w)"


section \<open>Reading the table\<close>

definition GetSession :: "u32 \<Rightarrow> UsessSessions \<Rightarrow> usess_ipc_err_e + usess_ipc_res_sess_info" where
  "GetSession target s =
     (case map_of (us_table s) target of None \<Rightarrow> Inl USESS_E_NO_SUCH_SESSID | Some i \<Rightarrow> Inr i)"

text \<open>What the coordinator says about the configuration session of a user session.\<close>

definition with_config :: "TcApiRet \<times> config_data \<Rightarrow> usess_ipc_res_sess_info \<Rightarrow> usess_ipc_res_sess_info" where
  "with_config rd i =
     (let i0 = i\<lparr>si_config_mode := uint (config_mode_num TC_CONFIG_INVALID), si_vtn_name := ''''\<rparr>;
          mode = (case cd_mode (snd rd) of None \<Rightarrow> TC_CONFIG_GLOBAL | Some m \<Rightarrow> m)
      in if fst rd \<noteq> TC_API_COMMON_SUCCESS then i0
         else i0\<lparr>si_config_mode := sint (config_mode_num mode),
                 si_vtn_name := (if mode = TC_CONFIG_VTN then take 31 (c_str (cd_vtn_name (snd rd))) else ''''),
                 si_config_status := (if mode = TC_CONFIG_GLOBAL then CONFIG_STATUS_TCLOCK
                                      else CONFIG_STATUS_TCLOCK_PART)\<rparr>)"

definition GetList_one ::
  "TcModule option \<Rightarrow> u32 \<Rightarrow> UsessSessions \<Rightarrow> tc_state \<Rightarrow> usess_ipc_err_e + usess_ipc_res_sess_info list" where
  "GetList_one md target s w =
     (case map_of (us_table s) target of
        None \<Rightarrow> Inl USESS_E_NO_SUCH_SESSID
      | Some i \<Rightarrow>
          (case md of
             None \<Rightarrow> Inl USESS_E_NG
           | Some m \<Rightarrow>
               (let rd = TcGetConfigSession target w
                in if fst rd \<notin> {TC_API_COMMON_SUCCESS, TC_NO_CONFIG_SESSION, TC_INVALID_UNC_STATE}
                   then Inl USESS_E_NG else Inr [with_config rd i])))"

definition GetList ::
  "TcModule option \<Rightarrow> UsessSessions \<Rightarrow> tc_state \<Rightarrow> usess_ipc_err_e + usess_ipc_res_sess_info list" where
  "GetList md s w =
     (case md of
        None \<Rightarrow> Inl USESS_E_NG
      | Some m \<Rightarrow>
          Inr (map (\<lambda>(_, i). with_config (TcGetConfigSession (si_sess i) w) i) (us_table s)))"


section \<open>Privileges\<close>

datatype session_privilege_e =
    kPrivilegeSessDel | kPrivilegeSessTypeDel | kPrivilegeSessCount | kPrivilegeSessList
  | kPrivilegeSessDetail

definition fixed_id :: "UsessSessions \<Rightarrow> u32 \<Rightarrow> bool" where
  "fixed_id s i \<longleftrightarrow> range_start (conf_local (ss_conf s) ID_FIXED) \<le> i \<and>
     i \<le> range_end (conf_local (ss_conf s) ID_FIXED)"

definition own_or_enabled :: "u32 \<Rightarrow> u32 \<Rightarrow> usess_ipc_res_sess_info \<Rightarrow> usess_ipc_err_e" where
  "own_or_enabled current target i =
     (if si_sess_mode i = USESS_MODE_OPER
      then (if current = target then USESS_E_OK else USESS_E_INVALID_PRIVILEGE)
      else if si_sess_mode i = USESS_MODE_ENABLE then USESS_E_OK
      else USESS_E_INVALID_PRIVILEGE)"

definition UsessSessions_Privilege ::
  "session_privilege_e \<Rightarrow> u32 \<Rightarrow> u32 \<Rightarrow> UsessSessions \<Rightarrow> usess_ipc_err_e" where
  "UsessSessions_Privilege mode current target s =
     (if \<not> fixed_id s current \<and> map_of (us_table s) current = None then USESS_E_INVALID_SESSID
      else if current \<noteq> target \<and> map_of (us_table s) target = None then USESS_E_NO_SUCH_SESSID
      else if fixed_id s current then USESS_E_OK
      else case map_of (us_table s) current of
          None \<Rightarrow> USESS_E_INVALID_SESSID
        | Some i \<Rightarrow>
            (case mode of
               kPrivilegeSessDel \<Rightarrow> own_or_enabled current target i
             | kPrivilegeSessCount \<Rightarrow> USESS_E_OK
             | kPrivilegeSessList \<Rightarrow> USESS_E_OK
             | kPrivilegeSessDetail \<Rightarrow> own_or_enabled current target i
             | kPrivilegeSessTypeDel \<Rightarrow> USESS_E_NG))"

end
