(* ===== verification/UsessAuth.thy ===== *)
theory UsessAuth
  imports UsessTable
begin

text \<open>
  The user session manager, third part: digests and patterns
  (\<^verbatim>\<open>modules/usess/usess_base_common.cc\<close>), the users (\<^verbatim>\<open>usess_user.cc\<close>, \<^verbatim>\<open>usess_users.cc\<close>) and the
  enable password (\<^verbatim>\<open>usess_enable.cc\<close>). The functions \<^verbatim>\<open>crypt_r\<close>, \<^verbatim>\<open>regcomp\<close> and \<^verbatim>\<open>regexec\<close> of the
  C library are parameters: a digest, or \<open>None\<close> for a null pointer; and for a pattern that compiles
  a function that gives the first match, as the offsets of its start and end.
\<close>

record auth_env =
  ae_odbc :: odbc_env
  crypt_r :: "string \<Rightarrow> string \<Rightarrow> string option"
  regcomp :: "string \<Rightarrow> (string \<Rightarrow> (nat \<times> nat) option) option"


section \<open>Digests and patterns\<close>

text \<open>The formats \<^verbatim>\<open>"%d"\<close> and \<^verbatim>\<open>"%014ld"\<close>.\<close>

definition zero_padded :: "nat \<Rightarrow> int \<Rightarrow> string" where
  "zero_padded n i =
     (if i < 0
      then CHR ''-'' # replicate (n - 1 - length (dec_nat (nat (- i)))) (CHR ''0'') @ dec_nat (nat (- i))
      else replicate (n - length (dec_nat (nat i))) (CHR ''0'') @ dec_nat (nat i))"

definition known_hash :: "i32 \<Rightarrow> bool" where
  "known_hash t \<longleftrightarrow> t = HASH_TYPE_MD5 \<or> t = HASH_TYPE_SHA256 \<or> t = HASH_TYPE_SHA512"

text \<open>The empty digest stands for an error; a null pointer of the library ends the process.\<close>

definition Hash :: "'a auth_env_scheme \<Rightarrow> string \<Rightarrow> string \<Rightarrow> string option" where
  "Hash E str salt = (if salt = '''' then Some '''' else crypt_r E str salt)"

definition Hash_key :: "'a auth_env_scheme \<Rightarrow> string \<Rightarrow> string \<Rightarrow> i32 \<Rightarrow> string option" where
  "Hash_key E str key t =
     (if key = '''' \<or> \<not> known_hash t then Some ''''
      else Hash E str (take 127 (''$'' @ dec_int t @ ''$'' @ key)))"

definition Hash_time :: "'a auth_env_scheme \<Rightarrow> string \<Rightarrow> int \<Rightarrow> i32 \<Rightarrow> string option" where
  "Hash_time E str tv_sec t =
     (if \<not> known_hash t then Some ''''
      else Hash E str (take 127 (''$'' @ dec_int t @ ''$'' @ zero_padded 14 tv_sec)))"

definition CheckDigest :: "'a auth_env_scheme \<Rightarrow> string \<Rightarrow> string \<Rightarrow> string \<Rightarrow> bool option" where
  "CheckDigest E str hash_str salt =
     (if hash_str = '''' \<or> salt = '''' then Some False
      else map_option (\<lambda>c. c = hash_str) (Hash E str salt))"

definition CheckRegular :: "'a auth_env_scheme \<Rightarrow> string \<Rightarrow> string \<Rightarrow> bool" where
  "CheckRegular E str regular =
     (if str = '''' then True
      else if regular = '''' then False
      else case regcomp E regular of
          None \<Rightarrow> False
        | Some match \<Rightarrow> match str = Some (0, length str))"


section \<open>Users\<close>

record UsessUser =
  uu_name :: string
  uu_passwd_type :: i32
  uu_passwd_digest :: string
  uu_type :: i32
  uu_conf :: usess_conf_user_t

definition UsessUser_new :: UsessUser where
  "UsessUser_new =
     \<lparr>uu_name = '''', uu_passwd_type = HASH_TYPE_UNKNOWN, uu_passwd_digest = '''',
      uu_type = USER_TYPE_UNKNOWN, uu_conf = kDefaultConf_user\<rparr>"

definition CheckUserName :: "'a auth_env_scheme \<Rightarrow> usess_conf_user_t \<Rightarrow> string \<Rightarrow> bool" where
  "CheckUserName E c name \<longleftrightarrow>
     length name \<le> unat (user_length c) \<and> CheckRegular E (c_str name) (user_regular c)"

text \<open>The two classes with passwords have the same method.\<close>

definition CheckPassword :: "'a auth_env_scheme \<Rightarrow> 'c usess_conf_enable_t_scheme \<Rightarrow> string \<Rightarrow> bool" where
  "CheckPassword E c passwd \<longleftrightarrow>
     length passwd \<le> unat (passwd_length c) \<and> CheckRegular E passwd (passwd_regular c)"

fun v_string :: "variant_t \<Rightarrow> string option" where
  "v_string (VARIANT_STRING s) = Some s"
| "v_string _ = None"

fun v_int32 :: "variant_t \<Rightarrow> i32 option" where
  "v_int32 (VARIANT_INT32 n) = Some n"
| "v_int32 _ = None"

definition SetUserData :: "mgmtdb_variant_v \<Rightarrow> UsessUser \<Rightarrow> (usess_ipc_err_e \<times> UsessUser) option" where
  "SetUserData v u =
     (case v of
        [[a, b, c, d]] \<Rightarrow> do {
          name \<leftarrow> v_string a; pt \<leftarrow> v_int32 b; digest \<leftarrow> v_string c; t \<leftarrow> v_int32 d;
          Some (USESS_E_OK, u\<lparr>uu_name := name, uu_passwd_type := pt, uu_passwd_digest := digest,
                              uu_type := t\<rparr>)
        }
      | _ \<Rightarrow> Some (USESS_E_NG, u))"

definition select_user :: "string \<Rightarrow> string" where
  "select_user name =
     ''SELECT uname, passwd_hash, passwd, usertype'' @ ''  FROM tbl_unc_usess_user'' @
     ''  WHERE uname = '' @ [CHR 0x27] @ name @ [CHR 0x27] @
     ''  AND (expiration >= CURRENT_DATE OR expiration IS NULL)''"

definition Retrieve ::
  "'a auth_env_scheme \<Rightarrow> string \<Rightarrow> UsessUser \<Rightarrow> MgmtDatabase
     \<Rightarrow> (usess_ipc_err_e \<times> UsessUser \<times> MgmtDatabase) option" where
  "Retrieve E name u d =
     (if \<not> CheckUserName E (uu_conf u) name then Some (USESS_E_INVALID_USER, u, d)
      else do {
        (r, v, d1) \<leftarrow> MgmtDatabase_Exec (ae_odbc E) (select_user name) False
                        [SQL_VARCHAR, SQL_INTEGER, SQL_VARCHAR, SQL_INTEGER] [] d;
        if r \<noteq> DB_E_OK \<or> v = [] then Some (USESS_E_INVALID_USER, u, d1)
        else do { (r2, u1) \<leftarrow> SetUserData v u; Some (r2, u1, d1) }
      })"

definition GetUser ::
  "'a auth_env_scheme \<Rightarrow> usess_conf_user_t \<Rightarrow> string \<Rightarrow> UsessUser \<Rightarrow> MgmtDatabase
     \<Rightarrow> (usess_ipc_err_e \<times> UsessUser \<times> MgmtDatabase) option" where
  "GetUser E c name u d = Retrieve E name (u\<lparr>uu_conf := c\<rparr>) d"

text \<open>Whether a session may change the password of the user: it has to be its own.\<close>

definition UsessUser_Privilege :: "usess_ipc_res_sess_info \<Rightarrow> UsessUser \<Rightarrow> usess_ipc_err_e option" where
  "UsessUser_Privilege i u =
     (if si_sess_mode i \<noteq> USESS_MODE_ENABLE \<and> si_sess_mode i \<noteq> USESS_MODE_OPER
      then Some USESS_E_INVALID_MODE
      else do {
        uname \<leftarrow> CAST_IPC_STRING (si_sess_uname i);
        Some (if uu_name u \<noteq> uname then USESS_E_INVALID_USER else USESS_E_OK)
      })"

text \<open>The administrator of the CLI, and everybody on the CLI, needs no password.\<close>

definition UsessUser_Authenticate ::
  "'a auth_env_scheme \<Rightarrow> i32 \<Rightarrow> string \<Rightarrow> UsessUser \<Rightarrow> usess_ipc_err_e option" where
  "UsessUser_Authenticate E sess_type passwd u =
     (if uu_name u = kDefaultUser_CLIAdmin \<or> sess_type = USESS_TYPE_CLI \<or> sess_type = USESS_TYPE_CLI_DAEMON
      then Some USESS_E_OK
      else if \<not> CheckPassword E (uu_conf u) passwd then Some USESS_E_INVALID_PASSWD
      else do {
        same \<leftarrow> CheckDigest E passwd (uu_passwd_digest u) (uu_passwd_digest u);
        Some (if same then USESS_E_OK else USESS_E_INVALID_PASSWD)
      })"

definition update_user :: "string \<Rightarrow> string \<Rightarrow> string \<Rightarrow> string" where
  "update_user digest t name =
     ''UPDATE tbl_unc_usess_user'' @ '' SET passwd = '' @ [CHR 0x27] @ digest @ [CHR 0x27] @ '','' @
     ''   passwd_hash = '' @ [CHR 0x27] @ t @ [CHR 0x27] @ '','' @ ''   expiration = NULL,'' @
     ''   modified = CURRENT_TIMESTAMP'' @ ''   WHERE uname = '' @ [CHR 0x27] @ name @ [CHR 0x27]"

text \<open>The number of the hash is printed into seven octets, its terminator included.\<close>

definition UsessUser_ChangePassword ::
  "'a auth_env_scheme \<Rightarrow> int \<Rightarrow> string \<Rightarrow> UsessUser \<Rightarrow> MgmtDatabase
     \<Rightarrow> (usess_ipc_err_e \<times> MgmtDatabase) option" where
  "UsessUser_ChangePassword E tv_sec passwd u d =
     (if \<not> CheckPassword E (uu_conf u) passwd then Some (USESS_E_INVALID_PASSWD, d)
      else do {
        digest \<leftarrow> Hash_time E passwd tv_sec (hash_type (uu_conf u));
        if digest = '''' then Some (USESS_E_NG, d)
        else do {
          (r, _, d1) \<leftarrow> MgmtDatabase_Exec (ae_odbc E)
            (update_user digest (take 6 (dec_int (hash_type (uu_conf u)))) (uu_name u)) True [] [] d;
          Some (if r \<noteq> DB_E_OK then USESS_E_NG else USESS_E_OK, d1)
        }
      })"


section \<open>The enable password\<close>

datatype enable_privilege_e = kPrivilegeEnable | kPrivilegeDisable | kPrivilegeEnablePasswd

fun UsessEnable_Privilege :: "enable_privilege_e \<Rightarrow> usess_ipc_res_sess_info \<Rightarrow> usess_ipc_err_e" where
  "UsessEnable_Privilege kPrivilegeEnable i =
     (if si_user_type i \<noteq> USER_TYPE_ADMIN then USESS_E_INVALID_PRIVILEGE else USESS_E_OK)"
| "UsessEnable_Privilege kPrivilegeDisable i = USESS_E_OK"
| "UsessEnable_Privilege kPrivilegeEnablePasswd i =
     (if si_sess_mode i \<noteq> USESS_MODE_ENABLE then USESS_E_INVALID_MODE else USESS_E_OK)"

definition select_enable :: string where
  "select_enable =
     ''SELECT passwd_hash, passwd '' @ ''   FROM tbl_unc_usess_enable'' @
     ''   WHERE mode ='' @ [CHR 0x27] @ dec_int USESS_MODE_ENABLE @ [CHR 0x27]"

text \<open>The administrator of the web, over the web, needs no password.\<close>

definition UsessEnable_Authenticate ::
  "'a auth_env_scheme \<Rightarrow> usess_conf_enable_t \<Rightarrow> usess_ipc_res_sess_info \<Rightarrow> string \<Rightarrow> MgmtDatabase
     \<Rightarrow> (usess_ipc_err_e \<times> MgmtDatabase) option" where
  "UsessEnable_Authenticate E c i passwd d = do {
     uname \<leftarrow> CAST_IPC_STRING (si_sess_uname i);
     if uname = kDefaultUser_WebAdmin \<and>
        (si_sess_type i = USESS_TYPE_WEB_API \<or> si_sess_type i = USESS_TYPE_WEB_UI)
     then Some (USESS_E_OK, d)
     else if \<not> CheckPassword E c passwd then Some (USESS_E_INVALID_PASSWD, d)
     else do {
       (r, v, d1) \<leftarrow> MgmtDatabase_Exec (ae_odbc E) select_enable False [SQL_INTEGER, SQL_VARCHAR] [] d;
       if r \<noteq> DB_E_OK then Some (USESS_E_NG, d1)
       else case v of
           [[_, x]] \<Rightarrow> do {
             digest \<leftarrow> v_string x;
             same \<leftarrow> CheckDigest E passwd digest digest;
             Some (if same then USESS_E_OK else USESS_E_INVALID_PASSWD, d1)
           }
         | _ \<Rightarrow> Some (USESS_E_NG, d1)
     }
   }"

definition update_enable :: "string \<Rightarrow> string \<Rightarrow> string" where
  "update_enable digest t =
     ''UPDATE tbl_unc_usess_enable'' @ '' SET passwd = '' @ [CHR 0x27] @ digest @ [CHR 0x27] @ '','' @
     ''     passwd_hash = '' @ [CHR 0x27] @ t @ [CHR 0x27] @ '','' @
     ''     modified = CURRENT_TIMESTAMP'' @
     ''   WHERE mode ='' @ [CHR 0x27] @ dec_int USESS_MODE_ENABLE @ [CHR 0x27]"

definition UsessEnable_ChangePassword ::
  "'a auth_env_scheme \<Rightarrow> int \<Rightarrow> usess_conf_enable_t \<Rightarrow> string \<Rightarrow> MgmtDatabase
     \<Rightarrow> (usess_ipc_err_e \<times> MgmtDatabase) option" where
  "UsessEnable_ChangePassword E tv_sec c passwd d =
     (if \<not> CheckPassword E c passwd then Some (USESS_E_INVALID_PASSWD, d)
      else do {
        digest \<leftarrow> Hash_time E passwd tv_sec (hash_type c);
        if digest = '''' then Some (USESS_E_INVALID_PASSWD, d)
        else do {
          (r, _, d1) \<leftarrow> MgmtDatabase_Exec (ae_odbc E)
            (update_enable digest (take 6 (dec_int (hash_type c)))) True [] [] d;
          Some (if r \<noteq> DB_E_OK then USESS_E_NG else USESS_E_OK, d1)
        }
      })"

end
