(* ===== verification/UsessModule.thy ===== *)
theory UsessModule
  imports UsessAuth
begin

text \<open>
  The user session manager, fourth part: the module (\<^verbatim>\<open>modules/usess/usess.cc\<close>) with the handlers of
  its ten services, its start and stop and the reload of its configuration. Every handler takes the
  lock of the module; whether a timed lock is granted, what the clock says and whether the transport
  takes an output are answers of the environment, which sees the history of these calls. Adding a
  session gives the lock back while the password is checked: what other requests do in between is
  the function \<open>ue_others\<close> of the environment.
\<close>

section \<open>State and environment\<close>

datatype usess_call =
    TimedRdLock "int \<times> int" | TimedWrLock "int \<times> int" | Unlock | ClockRealtime | IpcSetTimeout
  | IpcOutput usess_out | AddEventHandler | RemoveEventHandler | ReloadConf

record usess_reply =
  ur_err :: i32
  ur_time :: "int \<times> int"
  ur_file :: conf_file

type_synonym usess_history = "(usess_call \<times> usess_reply) list"

record Usess =
  us_conf :: usess_conf_common_t
  us_database :: MgmtDatabase
  us_sessions :: UsessSessions
  us_users :: usess_conf_user_t
  us_enable :: usess_conf_enable_t
  us_event :: bool
  us_file :: conf_file
  us_log :: usess_history
  us_out :: "usess_out list"
  us_tc :: tc_state
  us_md :: "TcModule option"

record usess_env = auth_env +
  ue_tc :: tc_env
  ue_ext :: "usess_history \<Rightarrow> usess_call \<Rightarrow> usess_reply"
  ue_others :: "Usess \<Rightarrow> Usess"

type_synonym usess_handler = "usess_env \<Rightarrow> Usess \<Rightarrow> (usess_ipc_err_e \<times> Usess) option"

definition us_ext :: "usess_env \<Rightarrow> usess_call \<Rightarrow> Usess \<Rightarrow> usess_reply \<times> Usess" where
  "us_ext E c st = (let r = ue_ext E (us_log st) c in (r, st\<lparr>us_log := us_log st @ [(c, r)]\<rparr>))"

definition USESS_WLOCK :: "usess_env \<Rightarrow> Usess \<Rightarrow> bool \<times> Usess" where
  "USESS_WLOCK E st =
     (let (r, st1) = us_ext E (TimedWrLock (lock_timeout (us_conf st))) st in (ur_err r = 0, st1))"

definition USESS_RLOCK :: "usess_env \<Rightarrow> Usess \<Rightarrow> bool \<times> Usess" where
  "USESS_RLOCK E st =
     (let (r, st1) = us_ext E (TimedRdLock (lock_timeout (us_conf st))) st in (ur_err r = 0, st1))"

definition USESS_UNLOCK :: "usess_env \<Rightarrow> Usess \<Rightarrow> Usess" where
  "USESS_UNLOCK E st = snd (us_ext E Unlock st)"

definition CONNECT :: "usess_env \<Rightarrow> Usess \<Rightarrow> bool \<times> Usess" where
  "CONNECT E st =
     (case MgmtDatabase_Connect (ae_odbc E) (us_database st) of
        (r, d) \<Rightarrow> (r = DB_E_OK, st\<lparr>us_database := d\<rparr>))"

definition DISCONNECT :: "usess_env \<Rightarrow> Usess \<Rightarrow> bool \<times> Usess" where
  "DISCONNECT E st =
     (case MgmtDatabase_Disconnect (ae_odbc E) (us_database st) of
        (r, d) \<Rightarrow> (r = DB_E_OK, st\<lparr>us_database := d\<rparr>))"

text \<open>The answer of the clock, which leaves no trace.\<close>

definition clock :: "usess_env \<Rightarrow> Usess \<Rightarrow> i32 \<times> int \<times> int" where
  "clock E st = (let r = ue_ext E (us_log st) ClockRealtime in (ur_err r, ur_time r))"

definition add_out :: "usess_env \<Rightarrow> usess_out \<Rightarrow> Usess \<Rightarrow> bool \<times> Usess" where
  "add_out E x st =
     (let (r, st1) = us_ext E (IpcOutput x) st
      in if ur_err r \<noteq> 0 then (False, st1) else (True, st1\<lparr>us_out := us_out st1 @ [x]\<rparr>))"

definition via_sessions ::
  "(UsessSessions \<Rightarrow> tc_state \<Rightarrow> 'r usess_result) \<Rightarrow> Usess \<Rightarrow> ('r \<times> Usess) option" where
  "via_sessions f st = do {
     (r, s, w) \<leftarrow> f (us_sessions st) (us_tc st);
     Some (r, st\<lparr>us_sessions := s, us_tc := w\<rparr>)
   }"

text \<open>The ends of a handler: with the lock held, and with the lock and a connection.\<close>

definition unlock_end :: "usess_env \<Rightarrow> usess_ipc_err_e \<Rightarrow> Usess \<Rightarrow> (usess_ipc_err_e \<times> Usess) option" where
  "unlock_end E r st = Some (r, USESS_UNLOCK E st)"

definition db_end :: "usess_env \<Rightarrow> usess_ipc_err_e \<Rightarrow> Usess \<Rightarrow> (usess_ipc_err_e \<times> Usess) option" where
  "db_end E r st = unlock_end E r (snd (DISCONNECT E st))"


section \<open>Adding a session\<close>

text \<open>One attempt: the error that ends the request, or the user and whether the password was right.\<close>

definition authenticate_once ::
  "usess_env \<Rightarrow> usess_ipc_req_sess_add \<Rightarrow> UsessUser \<Rightarrow> Usess
     \<Rightarrow> ((usess_ipc_err_e + UsessUser \<times> usess_ipc_err_e) \<times> Usess) option" where
  "authenticate_once E req u st =
     (let (locked, st1) = USESS_WLOCK E st
      in if \<not> locked then Some (Inl USESS_E_NG, st1)
         else
           let (connected, st2) = CONNECT E st1
           in if \<not> connected then Some (Inl USESS_E_NG, USESS_UNLOCK E st2)
              else do {
                uname \<leftarrow> CAST_IPC_STRING (ra_sess_uname req);
                (r, u1, d) \<leftarrow> GetUser E (us_users st2) uname u (us_database st2);
                let st3 = st2\<lparr>us_database := d\<rparr>
                in if r \<noteq> USESS_E_OK then Some (Inl r, USESS_UNLOCK E (snd (DISCONNECT E st3)))
                   else
                     let (disconnected, st4) = DISCONNECT E st3; st5 = USESS_UNLOCK E st4
                     in if \<not> disconnected then Some (Inl USESS_E_NG, st5)
                        else do {
                          a \<leftarrow> UsessUser_Authenticate E (ra_sess_type req)
                                 (copy_passwd (ra_sess_passwd req)) u1;
                          Some (Inr (u1, a), st5)
                        }
              })"

partial_function (option) authenticate_user ::
  "usess_env \<Rightarrow> usess_ipc_req_sess_add \<Rightarrow> u32 \<Rightarrow> UsessUser \<Rightarrow> Usess
     \<Rightarrow> ((usess_ipc_err_e + UsessUser) \<times> Usess) option" where
  "authenticate_user E req try_cnt u st = do {
     (r, st1) \<leftarrow> authenticate_once E req u st;
     case r of
       Inl e \<Rightarrow> Some (Inl e, st1)
     | Inr (u1, a) \<Rightarrow>
         if a = USESS_E_INVALID_PASSWD \<and> try_cnt + 1 \<le> auth_retry_count (us_conf st1)
         then authenticate_user E req (try_cnt + 1) u1 (ue_others E st1)
         else if a \<noteq> USESS_E_OK then Some (Inl a, st1) else Some (Inr u1, st1)
   }"

definition register_session :: "usess_ipc_req_sess_add \<Rightarrow> UsessUser \<Rightarrow> usess_handler" where
  "register_session req u E st =
     (let (locked, st1) = USESS_WLOCK E st
      in if \<not> locked then Some (USESS_E_NG, st1)
         else do {
           (r, i, s) \<leftarrow> UsessSessions_Add (clock E st1) req (uu_type u) (us_sessions st1);
           let st2 = st1\<lparr>us_sessions := s\<rparr>
           in if r \<noteq> USESS_E_OK then unlock_end E r st2
              else
                let (sent, st3) = add_out E (OutSessId i) st2
                in if sent then unlock_end E USESS_E_OK st3
                   else do {
                     (_, st4) \<leftarrow> via_sessions (UsessSessions_Del (ue_tc E) (us_md st3) i) st3;
                     unlock_end E USESS_E_NG st4
                   }
         })"

definition UsessSessAddHandler :: "usess_arg option \<Rightarrow> usess_handler" where
  "UsessSessAddHandler arg E st =
     (let st1 = snd (us_ext E IpcSetTimeout st)
      in case arg of
           Some (ReqSessAdd req) \<Rightarrow> do {
             (r, st2) \<leftarrow> authenticate_user E req 0 UsessUser_new st1;
             case r of
               Inl e \<Rightarrow> Some (e, st2)
             | Inr u \<Rightarrow> register_session req u E (ue_others E st2)
           }
         | _ \<Rightarrow> Some (USESS_E_NG, st1))"


section \<open>Deleting sessions\<close>

definition UsessSessDelHandler :: "usess_arg option \<Rightarrow> usess_handler" where
  "UsessSessDelHandler arg E st =
     (case arg of
        Some (ReqSessDel current delsess) \<Rightarrow>
          (let (locked, st1) = USESS_WLOCK E st
           in if \<not> locked then Some (USESS_E_NG, st1)
              else
                let p = UsessSessions_Privilege kPrivilegeSessDel current delsess (us_sessions st1)
                in if p \<noteq> USESS_E_OK then unlock_end E p st1
                   else do {
                     (r, st2) \<leftarrow> via_sessions (UsessSessions_Del (ue_tc E) (us_md st1) delsess) st1;
                     unlock_end E r st2
                   })
      | _ \<Rightarrow> Some (USESS_E_NG, st))"

definition UsessSessTypeDelHandler :: "usess_arg option \<Rightarrow> usess_handler" where
  "UsessSessTypeDelHandler arg E st =
     (case arg of
        Some (ReqSessTypeDel t) \<Rightarrow>
          (let (locked, st1) = USESS_WLOCK E st
           in if \<not> locked then Some (USESS_E_NG, st1)
              else do {
                (r, st2) \<leftarrow> via_sessions (UsessSessions_Del_type (ue_tc E) (us_md st1) t) st1;
                unlock_end E r st2
              })
      | _ \<Rightarrow> Some (USESS_E_NG, st))"


section \<open>The mode of a session\<close>

text \<open>
  One attempt to enable a session: the final result of the handler, or none when the password was
  wrong and the attempt may be repeated. Every error closes the connection.
\<close>

definition enable_once ::
  "u32 \<Rightarrow> string \<Rightarrow> u32 \<Rightarrow> usess_env \<Rightarrow> Usess \<Rightarrow> (usess_ipc_err_e option \<times> Usess) option" where
  "enable_once current passwd try_cnt E st =
     (let failed = (\<lambda>r st'. map_option (apfst Some) (db_end E r st'));
          (connected, st1) = CONNECT E st
      in if \<not> connected then failed USESS_E_NG st1
         else case GetSession current (us_sessions st1) of
             Inl e \<Rightarrow> failed e st1
           | Inr i \<Rightarrow>
               let p = UsessEnable_Privilege kPrivilegeEnable i
               in if p \<noteq> USESS_E_OK then failed p st1
                  else do {
                    (a, d) \<leftarrow> UsessEnable_Authenticate E (us_enable st1) i (copy_passwd passwd)
                               (us_database st1);
                    let st2 = st1\<lparr>us_database := d\<rparr>
                    in if a = USESS_E_INVALID_PASSWD \<and> try_cnt \<le> auth_retry_count (us_conf st2)
                       then (let (disconnected, st3) = DISCONNECT E st2
                             in if \<not> disconnected then failed USESS_E_NG st3 else Some (None, st3))
                       else if a \<noteq> USESS_E_OK then failed a st2
                       else do {
                         (r, st3) \<leftarrow> via_sessions
                           (TransitMode (ue_tc E) (us_md st2) USESS_MODE_ENABLE current i) st2;
                         if r \<noteq> USESS_E_OK then failed r st3
                         else let (disconnected, st4) = DISCONNECT E st3
                              in if \<not> disconnected then failed USESS_E_NG st4
                                 else Some (Some USESS_E_OK, USESS_UNLOCK E st4)
                       }
                  })"

partial_function (option) enable_session ::
  "u32 \<Rightarrow> string \<Rightarrow> u32 \<Rightarrow> usess_env \<Rightarrow> Usess \<Rightarrow> (usess_ipc_err_e \<times> Usess) option" where
  "enable_session current passwd try_cnt E st = do {
     (r, st1) \<leftarrow> enable_once current passwd (try_cnt + 1) E st;
     case r of
       Some e \<Rightarrow> Some (e, st1)
     | None \<Rightarrow> enable_session current passwd (try_cnt + 1) E st1
   }"

definition UsessEnableHandler :: "usess_arg option \<Rightarrow> usess_handler" where
  "UsessEnableHandler arg E st =
     (case arg of
        Some (ReqSessEnable current passwd) \<Rightarrow>
          (let (locked, st1) = USESS_WLOCK E st
           in if \<not> locked then Some (USESS_E_NG, st1) else enable_session current passwd 0 E st1)
      | _ \<Rightarrow> Some (USESS_E_NG, st))"

definition UsessDisableHandler :: "usess_arg option \<Rightarrow> usess_handler" where
  "UsessDisableHandler arg E st =
     (case arg of
        Some (ReqSessId current) \<Rightarrow>
          (let (locked, st1) = USESS_WLOCK E st
           in if \<not> locked then Some (USESS_E_NG, st1)
              else case GetSession current (us_sessions st1) of
                  Inl e \<Rightarrow> unlock_end E e st1
                | Inr i \<Rightarrow>
                    let p = UsessEnable_Privilege kPrivilegeDisable i
                    in if p \<noteq> USESS_E_OK then unlock_end E p st1
                       else do {
                         (r, st2) \<leftarrow> via_sessions
                           (TransitMode (ue_tc E) (us_md st1) USESS_MODE_OPER current i) st1;
                         unlock_end E r st2
                       })
      | _ \<Rightarrow> Some (USESS_E_NG, st))"


section \<open>Reading\<close>

definition UsessSessCountHandler :: "usess_arg option \<Rightarrow> usess_handler" where
  "UsessSessCountHandler arg E st =
     (case arg of
        Some (ReqSessId current) \<Rightarrow>
          (let (locked, st1) = USESS_RLOCK E st
           in if \<not> locked then Some (USESS_E_NG, st1)
              else
                let p = UsessSessions_Privilege kPrivilegeSessCount current current (us_sessions st1)
                in if p \<noteq> USESS_E_OK then unlock_end E p st1
                   else let (sent, st2) = add_out E (OutCount (GetCount (us_sessions st1))) st1
                        in unlock_end E (if sent then USESS_E_OK else USESS_E_NG) st2)
      | _ \<Rightarrow> Some (USESS_E_NG, st))"

fun add_outs :: "usess_env \<Rightarrow> usess_out list \<Rightarrow> Usess \<Rightarrow> bool \<times> Usess" where
  "add_outs E [] st = (True, st)"
| "add_outs E (x # xs) st =
     (let (sent, st1) = add_out E x st in if sent then add_outs E xs st1 else (False, st1))"

definition UsessSessListHandler :: "usess_arg option \<Rightarrow> usess_handler" where
  "UsessSessListHandler arg E st =
     (case arg of
        Some (ReqSessId current) \<Rightarrow>
          (let (locked, st1) = USESS_RLOCK E st
           in if \<not> locked then Some (USESS_E_NG, st1)
              else
                let p = UsessSessions_Privilege kPrivilegeSessList current current (us_sessions st1)
                in if p \<noteq> USESS_E_OK then unlock_end E p st1
                   else case GetList (us_md st1) (us_sessions st1) (us_tc st1) of
                       Inl e \<Rightarrow> unlock_end E e st1
                     | Inr is \<Rightarrow>
                         let (sent, st2) = add_outs E (map OutInfo is) st1
                         in unlock_end E (if sent then USESS_E_OK else USESS_E_NG) st2)
      | _ \<Rightarrow> Some (USESS_E_NG, st))"

definition UsessSessDetailHandler :: "usess_arg option \<Rightarrow> usess_handler" where
  "UsessSessDetailHandler arg E st =
     (case arg of
        Some (ReqSessDetail current detail) \<Rightarrow>
          (let (locked, st1) = USESS_RLOCK E st
           in if \<not> locked then Some (USESS_E_NG, st1)
              else
                let p = UsessSessions_Privilege kPrivilegeSessDetail current detail (us_sessions st1)
                in if p \<noteq> USESS_E_OK then unlock_end E p st1
                   else case GetList_one (us_md st1) detail (us_sessions st1) (us_tc st1) of
                       Inl e \<Rightarrow> unlock_end E e st1
                     | Inr is \<Rightarrow>
                         let (sent, st2) = add_outs E (map OutInfo (take 1 is)) st1
                         in unlock_end E (if sent then USESS_E_OK else USESS_E_NG) st2)
      | _ \<Rightarrow> Some (USESS_E_NG, st))"


section \<open>Passwords\<close>

definition UserUserPasswdHandler :: "usess_arg option \<Rightarrow> usess_handler" where
  "UserUserPasswdHandler arg E st =
     (case arg of
        Some (ReqUserPasswd current uname_field passwd) \<Rightarrow>
          (let (locked, st1) = USESS_WLOCK E st
           in if \<not> locked then Some (USESS_E_NG, st1)
              else
                let (connected, st2) = CONNECT E st1
                in if \<not> connected then db_end E USESS_E_NG st2
                   else case GetSession current (us_sessions st2) of
                       Inl e \<Rightarrow> db_end E e st2
                     | Inr i \<Rightarrow> do {
                         uname \<leftarrow> CAST_IPC_STRING uname_field;
                         (r, u, d) \<leftarrow> GetUser E (us_users st2) uname UsessUser_new (us_database st2);
                         let st3 = st2\<lparr>us_database := d\<rparr>
                         in if r \<noteq> USESS_E_OK then db_end E r st3
                            else do {
                              p \<leftarrow> UsessUser_Privilege i u;
                              if p \<noteq> USESS_E_OK then db_end E p st3
                              else do {
                                (c, d2) \<leftarrow> UsessUser_ChangePassword E (fst (snd (clock E st3)))
                                            (copy_passwd passwd) u (us_database st3);
                                let st4 = st3\<lparr>us_database := d2\<rparr>
                                in if c \<noteq> USESS_E_OK then db_end E c st4
                                   else let (disconnected, st5) = DISCONNECT E st4
                                        in if \<not> disconnected then db_end E USESS_E_NG st5
                                           else unlock_end E USESS_E_OK st5
                              }
                            }
                       })
      | _ \<Rightarrow> Some (USESS_E_NG, st))"

definition UserEnablePasswdHandler :: "usess_arg option \<Rightarrow> usess_handler" where
  "UserEnablePasswdHandler arg E st =
     (case arg of
        Some (ReqEnablePasswd current passwd) \<Rightarrow>
          (let (locked, st1) = USESS_WLOCK E st
           in if \<not> locked then Some (USESS_E_NG, st1)
              else
                let (connected, st2) = CONNECT E st1
                in if \<not> connected then db_end E USESS_E_NG st2
                   else case GetSession current (us_sessions st2) of
                       Inl e \<Rightarrow> db_end E e st2
                     | Inr i \<Rightarrow>
                         let p = UsessEnable_Privilege kPrivilegeEnablePasswd i
                         in if p \<noteq> USESS_E_OK then db_end E p st2
                            else do {
                              (c, d) \<leftarrow> UsessEnable_ChangePassword E (fst (snd (clock E st2)))
                                         (us_enable st2) (copy_passwd passwd) (us_database st2);
                              let st3 = st2\<lparr>us_database := d\<rparr>
                              in if c \<noteq> USESS_E_OK then db_end E c st3
                                 else let (disconnected, st4) = DISCONNECT E st3
                                      in if \<not> disconnected then db_end E USESS_E_NG st4
                                         else unlock_end E USESS_E_OK st4
                            })
      | _ \<Rightarrow> Some (USESS_E_NG, st))"


section \<open>The service dispatcher\<close>

fun IpcHandler :: "usess_ipc_service_id_e \<Rightarrow> usess_arg option \<Rightarrow> usess_handler" where
  "IpcHandler kUsessSessAdd = UsessSessAddHandler"
| "IpcHandler kUsessSessDel = UsessSessDelHandler"
| "IpcHandler kUsessSessTypeDel = UsessSessTypeDelHandler"
| "IpcHandler kUsessEnable = UsessEnableHandler"
| "IpcHandler kUsessDisable = UsessDisableHandler"
| "IpcHandler kUsessSessCount = UsessSessCountHandler"
| "IpcHandler kUsessSessList = UsessSessListHandler"
| "IpcHandler kUsessSessDetail = UsessSessDetailHandler"
| "IpcHandler kUserUserPasswd = UserUserPasswdHandler"
| "IpcHandler kUserEnablePasswd = UserEnablePasswdHandler"

text \<open>The output of a request starts empty.\<close>

definition Usess_ipcService ::
  "u32 \<Rightarrow> usess_arg option \<Rightarrow> usess_env \<Rightarrow> Usess \<Rightarrow> (u32 \<times> Usess) option" where
  "Usess_ipcService service arg E st =
     (let st1 = st\<lparr>us_out := []\<rparr>
      in if unat service \<ge> length usess_services then Some (usess_err_num USESS_E_NG, st1)
         else do {
           (r, st2) \<leftarrow> IpcHandler (usess_services ! unat service) arg E st1;
           Some (usess_err_num r, st2)
         })"


section \<open>Start, stop and reload\<close>

definition load_common :: "Usess \<Rightarrow> usess_ipc_err_e \<times> Usess" where
  "load_common st = (case UsessConfCommon_LoadConf (us_file st) of (r, c) \<Rightarrow> (r, st\<lparr>us_conf := c\<rparr>))"

definition load_users :: "Usess \<Rightarrow> usess_ipc_err_e \<times> Usess" where
  "load_users st = (case UsessConfUser_LoadConf (us_file st) of (r, c) \<Rightarrow> (r, st\<lparr>us_users := c\<rparr>))"

definition load_enable :: "Usess \<Rightarrow> usess_ipc_err_e \<times> Usess" where
  "load_enable st =
     (case UsessConfEnable_LoadConf (us_file st) of (r, c) \<Rightarrow> (r, st\<lparr>us_enable := c\<rparr>))"

definition load_sessions :: "Usess \<Rightarrow> usess_ipc_err_e \<times> Usess" where
  "load_sessions st =
     (case UsessSessions_LoadConf (us_file st) (us_sessions st) of
        (r, s) \<Rightarrow> (r, st\<lparr>us_sessions := s\<rparr>))"

definition Usess_fini :: "usess_env \<Rightarrow> Usess \<Rightarrow> (bool \<times> Usess) option" where
  "Usess_fini E st =
     (let st1 = (if us_event st
                 then (let (r, st') = us_ext E RemoveEventHandler st
                       in if ur_err r = 0 then st'\<lparr>us_event := False\<rparr> else st')
                 else st);
          (locked, st2) = USESS_WLOCK E st1;
          (_, d) = MgmtDatabase_Fini (ae_odbc E) (us_database st2)
      in do {
        (_, st3) \<leftarrow> via_sessions (UsessSessions_Fini (ue_tc E) (us_md st2)) (st2\<lparr>us_database := d\<rparr>);
        Some (locked, if locked then USESS_UNLOCK E st3 else st3)
      })"

text \<open>
  A failure goes on to the finalization; after a failure to load the common settings the lock is
  given back although it was not taken.
\<close>

definition Usess_init :: "usess_env \<Rightarrow> Usess \<Rightarrow> (bool \<times> Usess) option" where
  "Usess_init E st =
     (let failed = (\<lambda>st'. map_option (apfst (\<lambda>_. False)) (Usess_fini E (USESS_UNLOCK E st')));
          (r, st1) = load_common st
      in if r \<noteq> USESS_E_OK then failed st1
         else
           let (locked, st2) = USESS_WLOCK E st1
           in if \<not> locked then map_option (apfst (\<lambda>_. False)) (Usess_fini E st2)
              else
                let (db_ok, d) = MgmtDatabase_Init (ae_odbc E) (us_database st2);
                    st3 = st2\<lparr>us_database := d\<rparr>
                in if \<not> db_ok then failed st3
                   else
                     let (s_ok, s) = UsessSessions_Init (us_file st3) (us_sessions st3);
                         st4 = st3\<lparr>us_sessions := s\<rparr>
                     in if \<not> s_ok then failed st4
                        else
                          let (ru, st5) = load_users st4
                          in if ru \<noteq> USESS_E_OK then failed st5
                             else
                               let (re, st6) = load_enable st5
                               in if re \<noteq> USESS_E_OK then failed st6
                                  else if us_event st6 then Some (True, USESS_UNLOCK E st6)
                                  else
                                    let (a, st7) = us_ext E AddEventHandler st6
                                    in if ur_err a \<noteq> 0 then failed st7
                                       else Some (True, USESS_UNLOCK E (st7\<lparr>us_event := True\<rparr>)))"

definition ReloadConfEventHandler :: "bool \<Rightarrow> usess_env \<Rightarrow> Usess \<Rightarrow> Usess" where
  "ReloadConfEventHandler is_reload E st =
     (if \<not> is_reload then st
      else
        let (r, st1) = us_ext E ReloadConf st
        in if ur_err r \<noteq> 0 then st1
           else
             let (locked, st3) = USESS_WLOCK E (st1\<lparr>us_file := ur_file r\<rparr>)
             in if \<not> locked then st3
                else
                  let st4 = snd (load_common st3); st5 = snd (load_sessions st4);
                      st6 = snd (load_users st5); st7 = snd (load_enable st6)
                  in USESS_UNLOCK E st7)"

end
