(* ===== verification/UsessFrame.thy ===== *)
theory UsessFrame
  imports UsessModule TcFrame
begin

text \<open>
  How the services move the state of the user session manager. Locks, connections, passwords and
  outputs do not touch the table of sessions or the coordinator; the operations that do are the
  hypotheses of the locales \<open>enable_rel\<close> and \<open>request_rel\<close>, and \<open>usess_rel\<close> lifts a relation between
  states from them to every service.
\<close>

section \<open>What most steps leave alone\<close>

definition core :: "Usess \<Rightarrow> UsessSessions \<times> usess_conf_enable_t \<times> tc_state \<times> TcModule option" where
  "core st = (us_sessions st, us_enable st, us_tc st, us_md st)"

lemma core_update [simp]:
  "core (st\<lparr>us_log := a\<rparr>) = core st" "core (st\<lparr>us_database := b\<rparr>) = core st"
  "core (st\<lparr>us_out := c\<rparr>) = core st"
  by (simp_all add: core_def)

lemma coreD:
  assumes "core st' = core st"
  shows "us_sessions st' = us_sessions st" "us_tc st' = us_tc st" "us_md st' = us_md st"
    "us_enable st' = us_enable st"
  using assms by (simp_all add: core_def)

lemma core_ext: "us_ext E c st = (r, st') \<Longrightarrow> core st' = core st"
  by (auto simp: us_ext_def Let_def)

lemma core_wlock: "USESS_WLOCK E st = (b, st') \<Longrightarrow> core st' = core st"
  by (auto simp: USESS_WLOCK_def dest!: core_ext split: prod.splits)

lemma core_rlock: "USESS_RLOCK E st = (b, st') \<Longrightarrow> core st' = core st"
  by (auto simp: USESS_RLOCK_def dest!: core_ext split: prod.splits)

lemma core_unlock [simp]: "core (USESS_UNLOCK E st) = core st"
  by (auto simp: USESS_UNLOCK_def us_ext_def Let_def)

lemma core_connect: "CONNECT E st = (b, st') \<Longrightarrow> core st' = core st"
  by (auto simp: CONNECT_def split: prod.splits)

lemma core_disconnect: "DISCONNECT E st = (b, st') \<Longrightarrow> core st' = core st"
  by (auto simp: DISCONNECT_def split: prod.splits)

lemma core_snd_disconnect [simp]: "core (snd (DISCONNECT E st)) = core st"
  by (auto simp: DISCONNECT_def split: prod.splits)

lemma core_add_out: "add_out E x st = (b, st') \<Longrightarrow> core st' = core st"
  by (auto simp: add_out_def dest!: core_ext split: prod.splits if_splits)

lemma core_add_outs: "add_outs E xs st = (b, st') \<Longrightarrow> core st' = core st"
  by (induction xs arbitrary: st) (auto dest!: core_add_out split: prod.splits if_splits)

lemma core_unlock_end: "unlock_end E r st = Some (r', st') \<Longrightarrow> core st' = core st"
  by (auto simp: unlock_end_def)

lemma core_db_end: "db_end E r st = Some (r', st') \<Longrightarrow> core st' = core st"
  by (auto simp: db_end_def dest!: core_unlock_end)

lemmas core_steps = core_ext core_wlock core_rlock core_connect core_disconnect core_add_out
  core_add_outs core_unlock_end core_db_end

lemma core_authenticate_once:
  "authenticate_once E req u st = Some (r, st') \<Longrightarrow> core st' = core st"
  by (auto simp: authenticate_once_def Let_def elim!: bind_SomeE dest!: core_steps
      split: prod.splits if_splits)

lemma core_count: "UsessSessCountHandler arg E st = Some (r, st') \<Longrightarrow> core st' = core st"
  by (auto simp: UsessSessCountHandler_def Let_def dest!: core_steps
      split: prod.splits if_splits option.splits usess_arg.splits)

lemma core_list: "UsessSessListHandler arg E st = Some (r, st') \<Longrightarrow> core st' = core st"
  by (auto simp: UsessSessListHandler_def Let_def dest!: core_steps
      split: prod.splits if_splits option.splits usess_arg.splits sum.splits)

lemma core_detail: "UsessSessDetailHandler arg E st = Some (r, st') \<Longrightarrow> core st' = core st"
  by (auto simp: UsessSessDetailHandler_def Let_def dest!: core_steps
      split: prod.splits if_splits option.splits usess_arg.splits sum.splits)

lemma core_user_passwd: "UserUserPasswdHandler arg E st = Some (r, st') \<Longrightarrow> core st' = core st"
  by (auto simp: UserUserPasswdHandler_def Let_def elim!: bind_SomeE dest!: core_steps
      split: prod.splits if_splits option.splits usess_arg.splits sum.splits)

lemma core_enable_passwd: "UserEnablePasswdHandler arg E st = Some (r, st') \<Longrightarrow> core st' = core st"
  by (auto simp: UserEnablePasswdHandler_def Let_def elim!: bind_SomeE dest!: core_steps
      split: prod.splits if_splits option.splits usess_arg.splits sum.splits)

section \<open>Relations that the services respect\<close>

text \<open>
  A relation between states that sees only the sessions, the settings of the enable password and
  the coordinator, and composes.
\<close>

locale core_rel =
  fixes R :: "Usess \<Rightarrow> Usess \<Rightarrow> bool"
  assumes same_core: "core st' = core st \<Longrightarrow> R st st'"
    and trans: "R st st1 \<Longrightarrow> R st1 st2 \<Longrightarrow> R st st2"
begin

lemma around: "core st1 = core st \<Longrightarrow> R st1 st2 \<Longrightarrow> core st' = core st2 \<Longrightarrow> R st st'"
  using same_core trans by metis

end

text \<open>
  The service that enables a session: it changes the mode only for a user who is an administrator
  and whose password was accepted.
\<close>

locale enable_rel = core_rel +
  fixes E :: usess_env and current :: u32 and passwd :: string
  assumes enable: "map_of (us_table (us_sessions st)) current = Some i \<Longrightarrow>
      si_user_type i = USER_TYPE_ADMIN \<Longrightarrow>
      UsessEnable_Authenticate E (us_enable st) i (copy_passwd passwd) d = Some (USESS_E_OK, d') \<Longrightarrow>
      via_sessions (TransitMode (ue_tc E) (us_md st) USESS_MODE_ENABLE current i) st = Some (r, st') \<Longrightarrow>
      R st st'"
begin

lemma enable_once_rel:
  assumes "enable_once current passwd n E st = Some (q, st')"
  shows "R st st'"
proof -
  obtain b st1 where conn: "CONNECT E st = (b, st1)" by fastforce
  note c1 = core_connect [OF conn]
  consider "core st' = core st"
    | i p d st3 where "map_of (us_table (us_sessions st1)) current = Some i"
      "si_user_type i = USER_TYPE_ADMIN"
      "UsessEnable_Authenticate E (us_enable st1) i (copy_passwd passwd) (us_database st1) = Some (USESS_E_OK, d)"
      "via_sessions (TransitMode (ue_tc E) (us_md st1) USESS_MODE_ENABLE current i)
        (st1\<lparr>us_database := d\<rparr>) = Some (p, st3)" "core st' = core st3"
    using assms conn c1
    by (auto simp: enable_once_def GetSession_def Let_def elim!: bind_SomeE
        dest!: core_db_end core_disconnect split: option.splits if_splits prod.splits)
  then show ?thesis
  proof cases
    case 1
    then show ?thesis by (rule same_core)
  next
    case 2
    have "R (st1\<lparr>us_database := d\<rparr>) st3"
      using 2 by (intro enable [where i = i]) simp_all
    then show ?thesis
      using around [of "st1\<lparr>us_database := d\<rparr>" st st3 st'] c1 2(5) by simp
  qed
qed

lemma enable_session_rel:
  assumes "enable_session current passwd n E st = Some (r, st')"
  shows "R st st'"
proof -
  let ?same = "\<lambda>c p E'. c = current \<and> p = passwd \<and> E' = E"
  have "?same current passwd E \<longrightarrow> R st (snd (r, st'))"
  proof (rule enable_session.raw_induct [OF _ assms, where P = "\<lambda>c p n E' st y. ?same c p E' \<longrightarrow> R st (snd y)"])
    fix f c p n E' st and y :: "usess_ipc_err_e \<times> Usess"
    assume IH: "\<And>c p n E' st y. f c p n E' st = Some y \<Longrightarrow> ?same c p E' \<longrightarrow> R st (snd y)"
      and body: "(enable_once c p (n + 1) E' st \<bind> (\<lambda>(r, st1). case r of
          Some e \<Rightarrow> Some (e, st1) | None \<Rightarrow> f c p (n + 1) E' st1)) = Some y"
    then show "?same c p E' \<longrightarrow> R st (snd y)"
      using enable_once_rel trans
      by (auto simp: bind_eq_Some_conv split: option.splits prod.splits)
        (metis IH snd_conv)
  qed
  then show ?thesis by simp
qed

lemma enable_handler_rel:
  assumes "UsessEnableHandler (Some (ReqSessEnable current passwd)) E st = Some (r, st')"
  shows "R st st'"
proof -
  obtain b st1 where lock: "USESS_WLOCK E st = (b, st1)" by fastforce
  note c1 = core_wlock [OF lock]
  show ?thesis
    using assms lock c1
    by (auto simp: UsessEnableHandler_def dest!: enable_session_rel intro: same_core around
        split: if_splits)
qed
end

text \<open>The other services, and what happens while a request waits.\<close>

locale request_rel = core_rel +
  fixes E :: usess_env
  assumes others: "R st (ue_others E st)"
    and add: "UsessSessions_Add now req t (us_sessions st) = Some (r, j, s) \<Longrightarrow> R st (st\<lparr>us_sessions := s\<rparr>)"
    and del: "via_sessions (UsessSessions_Del (ue_tc E) (us_md st) k) st = Some (r, st') \<Longrightarrow> R st st'"
    and del_type: "via_sessions (UsessSessions_Del_type (ue_tc E) (us_md st) t) st = Some (r, st') \<Longrightarrow> R st st'"
    and disable: "map_of (us_table (us_sessions st)) k = Some i \<Longrightarrow>
      via_sessions (TransitMode (ue_tc E) (us_md st) USESS_MODE_OPER k i) st = Some (r, st') \<Longrightarrow> R st st'"
begin

lemma authenticate_user_rel:
  assumes "authenticate_user E req n u st = Some (r, st')"
  shows "R st st'"
proof -
  have "E = E \<longrightarrow> R st (snd (r, st'))"
  proof (rule authenticate_user.raw_induct [OF _ assms, where P = "\<lambda>E' req n u st y. E' = E \<longrightarrow> R st (snd y)"])
    fix f E' req n u st and y :: "(usess_ipc_err_e + UsessUser) \<times> Usess"
    assume IH: "\<And>E' req n u st y. f E' req n u st = Some y \<Longrightarrow> E' = E \<longrightarrow> R st (snd y)"
      and body: "(authenticate_once E' req u st \<bind> (\<lambda>(r, st1). case r of Inl e \<Rightarrow> Some (Inl e, st1)
        | Inr (u1, a) \<Rightarrow> if a = USESS_E_INVALID_PASSWD \<and> n + 1 \<le> auth_retry_count (us_conf st1)
            then f E' req (n + 1) u1 (ue_others E' st1)
            else if a \<noteq> USESS_E_OK then Some (Inl a, st1) else Some (Inr u1, st1))) = Some y"
    from body obtain q st1 where once: "authenticate_once E' req u st = Some (q, st1)"
      by (auto elim!: bind_SomeE)
    from core_authenticate_once [OF once] have "R st st1" by (rule same_core)
    then have again: "R st (snd y)" if "f E req (n + 1) u1 (ue_others E st1) = Some y" for u1
      using IH [OF that] others [of st1] trans by blast
    show "E' = E \<longrightarrow> R st (snd y)"
      using body once \<open>R st st1\<close> again
      by (auto simp: bind_eq_Some_conv split: sum.splits prod.splits if_splits)
  qed
  then show ?thesis by simp
qed

lemma register_session_rel:
  assumes "register_session req u E st = Some (r, st')"
  shows "R st st'"
proof -
  obtain b st1 where lock: "USESS_WLOCK E st = (b, st1)" by fastforce
  note c1 = core_wlock [OF lock]
  show ?thesis
  proof (cases b)
    case False
    with assms lock c1 show ?thesis by (auto simp: register_session_def intro!: same_core)
  next
    case True
    with assms lock obtain q i s where
      a: "UsessSessions_Add (clock E st1) req (uu_type u) (us_sessions st1) = Some (q, i, s)"
      by (auto simp: register_session_def elim!: bind_SomeE)
    let ?st2 = "st1\<lparr>us_sessions := s\<rparr>"
    have R2: "R st ?st2" using around [OF c1 add [OF a] refl] .
    obtain sent st3 where out: "add_out E (OutSessId i) ?st2 = (sent, st3)" by fastforce
    note c3 = core_add_out [OF out]
    consider "unlock_end E r ?st2 = Some (r, st')" | "unlock_end E r st3 = Some (r, st')"
      | st4 p where "via_sessions (UsessSessions_Del (ue_tc E) (us_md st3) i) st3 = Some (p, st4)"
        "unlock_end E r st4 = Some (r, st')"
      using assms True lock a out
      by (auto simp: register_session_def unlock_end_def Let_def elim!: bind_SomeE split: if_splits)
    then show ?thesis
    proof cases
      case 1
      then show ?thesis using R2 same_core core_unlock_end trans by metis
    next
      case 2
      then show ?thesis using R2 c3 same_core core_unlock_end trans by metis
    next
      case 3
      from around [OF c3 del [OF 3(1)]] core_unlock_end [OF 3(2)] R2 show ?thesis
        using trans by blast
    qed
  qed
qed

lemma add_handler_rel: "UsessSessAddHandler arg E st = Some (r, st') \<Longrightarrow> R st st'"
proof -
  assume a: "UsessSessAddHandler arg E st = Some (r, st')"
  have c: "R st (snd (us_ext E IpcSetTimeout st))"
    by (rule same_core) (simp add: us_ext_def Let_def)
  show ?thesis
    using a c
    by (auto simp: UsessSessAddHandler_def Let_def elim!: bind_SomeE
        dest!: authenticate_user_rel register_session_rel
        split: option.splits usess_arg.splits sum.splits) (blast intro: trans others)+
qed

lemma del_handler_rel:
  assumes "UsessSessDelHandler arg E st = Some (r, st')"
  shows "R st st'"
proof -
  obtain b st1 where lock: "USESS_WLOCK E st = (b, st1)" by fastforce
  note c1 = core_wlock [OF lock]
  consider "core st' = core st"
    | k p st2 where "via_sessions (UsessSessions_Del (ue_tc E) (us_md st1) k) st1 = Some (p, st2)"
      "core st' = core st2"
    using assms lock c1
    by (fastforce simp: UsessSessDelHandler_def Let_def elim!: bind_SomeE dest!: core_unlock_end
        split: option.splits usess_arg.splits if_splits)
  then show ?thesis
    by cases (auto intro: same_core around [OF c1 del])
qed

lemma type_del_handler_rel:
  assumes "UsessSessTypeDelHandler arg E st = Some (r, st')"
  shows "R st st'"
proof -
  obtain b st1 where lock: "USESS_WLOCK E st = (b, st1)" by fastforce
  note c1 = core_wlock [OF lock]
  consider "core st' = core st"
    | t p st2 where "via_sessions (UsessSessions_Del_type (ue_tc E) (us_md st1) t) st1 = Some (p, st2)"
      "core st' = core st2"
    using assms lock c1
    by (fastforce simp: UsessSessTypeDelHandler_def Let_def elim!: bind_SomeE dest!: core_unlock_end
        split: option.splits usess_arg.splits if_splits)
  then show ?thesis
    by cases (auto intro: same_core around [OF c1 del_type])
qed

lemma disable_handler_rel:
  assumes "UsessDisableHandler arg E st = Some (r, st')"
  shows "R st st'"
proof -
  obtain b st1 where lock: "USESS_WLOCK E st = (b, st1)" by fastforce
  note c1 = core_wlock [OF lock]
  consider "core st' = core st"
    | k i p st2 where "map_of (us_table (us_sessions st1)) k = Some i"
      "via_sessions (TransitMode (ue_tc E) (us_md st1) USESS_MODE_OPER k i) st1 = Some (p, st2)"
      "core st' = core st2"
    using assms lock c1
    by (fastforce simp: UsessDisableHandler_def GetSession_def Let_def elim!: bind_SomeE
        dest!: core_unlock_end split: option.splits usess_arg.splits if_splits)
  then show ?thesis
    by cases (auto intro: same_core around [OF c1 disable])
qed

text \<open>Every service but the one that enables a session.\<close>

lemma other_handler_rel:
  assumes "IpcHandler svc arg E st = Some (r, st')" and "svc \<noteq> kUsessEnable"
  shows "R st st'"
  using assms
  by (cases svc)
    (auto dest: add_handler_rel del_handler_rel type_del_handler_rel
      disable_handler_rel core_count core_list core_detail core_user_passwd core_enable_passwd
      intro: same_core)

end

text \<open>All services together.\<close>

locale usess_rel = request_rel +
  assumes enabling: "enable_rel R E current passwd"
begin

lemma handler_rel: "IpcHandler svc arg E st = Some (r, st') \<Longrightarrow> R st st'"
  using other_handler_rel [of svc arg st r st'] same_core
  by (cases "svc = kUsessEnable"; cases arg; cases "the arg")
    (auto simp: UsessEnableHandler_def intro: enable_rel.enable_handler_rel [OF enabling])

lemma service_rel:
  assumes "Usess_ipcService service arg E st = Some (r, st')"
  shows "R st st'"
proof -
  have "R st (st\<lparr>us_out := []\<rparr>)" by (rule same_core) simp
  with assms show ?thesis
    by (auto simp: Usess_ipcService_def Let_def elim!: bind_SomeE dest!: handler_rel intro: trans
        split: if_splits)
qed

end

end
