(* ===== verification/UsessIds.thy ===== *)
theory UsessIds
  imports UsessTable
begin

text \<open>
  The identifiers of the user sessions: the searches for a free number, the assignment as the next
  free number of its range in cyclic order, and the count of the sessions of a range.
\<close>

section \<open>Searching\<close>

lemma u32_succ_le:
  assumes "i < (j :: u32)"
  shows "i + 1 \<le> j" "unat (i + 1) = Suc (unat i)"
proof -
  have "unat i < unat j" "i \<noteq> UINT32_MAX"
    using assms unat_u32_le [of j] by (auto simp: word_less_nat_alt)
  then show "i + 1 \<le> j" "unat (i + 1) = Suc (unat i)"
    using unat_u32_succ [of i] by (simp_all add: word_le_nat_alt)
qed

lemma search_up_found:
  assumes "i \<le> j" and "j \<le> hi" and "\<not> used j" and "\<And>k. i \<le> k \<Longrightarrow> k < j \<Longrightarrow> used k"
  shows "search_up used i hi = Some j"
  using assms
proof (induction "unat j - unat i" arbitrary: i)
  case 0
  then have "i = j" by (simp add: word_le_nat_alt word_unat_eq_iff)
  with 0 show ?case by (simp add: search_up.simps [of used j hi])
next
  case (Suc n)
  then have "i < j" by (auto simp: word_less_nat_alt)
  note next_i = u32_succ_le [OF this]
  have "used i" using Suc.prems \<open>i < j\<close> by simp
  moreover have "search_up used (i + 1) hi = Some j"
  proof (rule Suc.hyps(1))
    show "n = unat j - unat (i + 1)" using Suc.hyps(2) next_i(2) by simp
    show "used k" if "i + 1 \<le> k" "k < j" for k
      using that Suc.prems(4) [of k] next_i(2) by (simp add: word_le_nat_alt)
  qed (use Suc.prems next_i in simp_all)
  moreover have "i \<le> hi" using Suc.prems by simp
  ultimately show ?case by (simp add: search_up.simps [of used i hi])
qed

lemma search_up_none:
  assumes "\<And>k. i \<le> k \<Longrightarrow> k \<le> hi \<Longrightarrow> used k" and "\<not> used 0"
  shows "search_up used i hi = Some 0"
  using assms
proof (induction "4294967295 - unat i" arbitrary: i)
  case 0
  then have "i = UINT32_MAX"
    using unat_u32_le [of i] by (simp add: word_unat_eq_iff)
  with 0 have "UINT32_MAX \<le> hi \<Longrightarrow> used UINT32_MAX" by simp
  moreover have wrap: "UINT32_MAX + 1 = (0 :: u32)" by simp
  have "search_up used (UINT32_MAX + 1) hi = Some 0"
    unfolding wrap using 0(3) by (simp add: search_up.simps [of used 0 hi])
  ultimately show ?case
    using \<open>i = UINT32_MAX\<close> by (cases "UINT32_MAX \<le> hi") (simp_all add: search_up.simps [of used UINT32_MAX hi])
next
  case (Suc n)
  then have "i \<noteq> UINT32_MAX" by auto
  note next_i = unat_u32_succ [OF this]
  show ?case
  proof (cases "i \<le> hi")
    case True
    have "search_up used (i + 1) hi = Some 0"
    proof (rule Suc.hyps(1))
      show "n = 4294967295 - unat (i + 1)" using Suc.hyps(2) next_i by simp
      show "used k" if "i + 1 \<le> k" "k \<le> hi" for k
        using that Suc.prems(1) [of k] next_i by (simp add: word_le_nat_alt)
    qed (rule Suc.prems)
    with True Suc.prems(1) [of i] show ?thesis by (simp add: search_up.simps [of used i hi])
  qed (simp add: search_up.simps [of used i hi])
qed

lemma search_below_found:
  assumes "i \<le> j" and "j < stop" and "\<not> used j" and "\<And>k. i \<le> k \<Longrightarrow> k < j \<Longrightarrow> used k"
  shows "search_below used i stop = j"
  using assms
proof (induction used i stop rule: search_below.induct)
  case (1 used i stop)
  show ?case
  proof (cases "i = j")
    case True
    with 1 show ?thesis by (subst search_below.simps) simp
  next
    case False
    then have "i < j" using "1.prems"(1) by simp
    note next_i = u32_succ_le [OF this]
    have "used i" "i < stop" using "1.prems" \<open>i < j\<close> by auto
    moreover have "search_below used (i + 1) stop = j"
    proof (rule "1.IH")
      show "used k" if "i + 1 \<le> k" "k < j" for k
        using that "1.prems"(4) [of k] next_i(2) by (simp add: word_le_nat_alt)
    qed (use "1.prems" \<open>used i\<close> \<open>i < stop\<close> next_i in simp_all)
    ultimately show ?thesis by (subst search_below.simps) simp
  qed
qed

lemma search_below_none:
  "(\<And>k. i \<le> k \<Longrightarrow> k < stop \<Longrightarrow> used k) \<Longrightarrow> search_below used i stop = 0"
proof (induction used i stop rule: search_below.induct)
  case (1 used i stop)
  show ?case
  proof (cases "i < stop")
    case True
    note next_i = u32_succ_le [OF True]
    have "search_below used (i + 1) stop = 0"
    proof (rule "1.IH")
      show "used k" if "i + 1 \<le> k" "k < stop" for k
        using that "1.prems" [of k] next_i(2) by (simp add: word_le_nat_alt)
    qed (use True "1.prems" in simp_all)
    with True "1.prems" [of i] show ?thesis by (subst search_below.simps) simp
  qed (subst search_below.simps, simp)
qed

section \<open>Assigning\<close>

definition in_range :: "usess_conf_session_parameter_t \<Rightarrow> u32 \<Rightarrow> bool" where
  "in_range p i \<longleftrightarrow> range_start p \<le> i \<and> i \<le> range_end p"

text \<open>
  When the number \<open>i\<close> comes up after the number \<open>a\<close>: larger numbers first, then the others from the
  smallest.
\<close>

definition turn :: "u32 \<Rightarrow> u32 \<Rightarrow> nat" where
  "turn a i = (if a < i then unat i else unat i + 2 ^ 32)"

definition assigned :: "i32 \<Rightarrow> UsessSessions \<Rightarrow> u32 \<Rightarrow> UsessSessions \<Rightarrow> bool" where
  "assigned t s j s' \<longleftrightarrow>
     (let p = session_param t s; k = CONF_LOCAL_ID t; a = allocated_sess_id s k
      in if j = USESS_ID_INVALID then s' = s \<and> (\<forall>i. in_range p i \<longrightarrow> id_used s i)
         else in_range p j \<and> \<not> id_used s j \<and>
              (\<forall>i. in_range p i \<and> \<not> id_used s i \<longrightarrow> turn a j \<le> turn a i) \<and>
              s' = s\<lparr>allocated_sess_id := (allocated_sess_id s)(k := j)\<rparr>)"

lemma first_free:
  assumes "lo \<le> (i :: u32)" and "Q i" and "\<not> used i"
  obtains j where "lo \<le> j" "Q j" "\<not> used j" "\<forall>k. lo \<le> k \<and> k < j \<and> Q k \<longrightarrow> used k"
proof -
  let ?P = "\<lambda>i. lo \<le> i \<and> Q i \<and> \<not> used i"
  have "?P (LEAST i. ?P i)" using assms by (intro LeastI [of ?P i]) simp
  then show ?thesis using not_less_Least [of _ ?P] that by blast
qed

text \<open>Where the first search begins.\<close>

definition search_start :: "usess_conf_session_parameter_t \<Rightarrow> u32 \<Rightarrow> u32" where
  "search_start p a = (if a \<noteq> 0 \<and> a < range_end p then a + 1 else range_start p)"

lemma search_start_within:
  assumes "a = 0 \<or> range_start p \<le> a"
  shows "range_start p \<le> search_start p a" "search_start p a \<le> range_end p \<or> search_start p a = range_start p"
  using assms u32_succ_le [of a "range_end p"] by (auto simp: search_start_def word_le_nat_alt)

lemma turn_order:
  assumes "0 < range_start p" and "in_range p i" and "in_range p j" and b: "b = search_start p a"
    and "j \<le> i \<and> (b \<le> i \<longrightarrow> b \<le> j) \<or> b \<le> j \<and> i < b"
  shows "turn a j \<le> turn a i"
proof (cases "a \<noteq> 0 \<and> a < range_end p")
  case True
  then have later: "a < k \<longleftrightarrow> b \<le> k" for k
    using u32_succ_le [of a "range_end p"]
    by (auto simp: b search_start_def word_le_nat_alt word_less_nat_alt)
  show ?thesis
    using assms(5) unat_u32_le [of j] unfolding turn_def later
    by (auto simp: word_le_nat_alt word_less_nat_alt)
next
  case False
  then have "a < k \<longleftrightarrow> a = 0" if "in_range p k" for k
    using that assms(1) by (auto simp: in_range_def)
  with assms False show ?thesis
    by (auto simp: turn_def word_le_nat_alt word_less_nat_alt in_range_def search_start_def)
qed

lemma new_session_id_search:
  assumes "search_up (id_used s) (search_start p a) (range_end p) = Some i"
    and "j = (if i = 0 then search_below (id_used s) (range_start p) (search_start p a) else i)"
    and "p = session_param t s" and "a = allocated_sess_id s (CONF_LOCAL_ID t)"
  shows "GetNewSessionId t s = Some (j, if j \<noteq> 0
    then s\<lparr>allocated_sess_id := (allocated_sess_id s)(CONF_LOCAL_ID t := j)\<rparr> else s)"
  using assms by (simp add: GetNewSessionId_def search_start_def Let_def)

lemma new_session_id_assigned:
  assumes p: "p = session_param t s" "0 < range_start p"
    and a: "a = allocated_sess_id s (CONF_LOCAL_ID t)" "a = 0 \<or> range_start p \<le> a"
    and zero: "\<not> id_used s 0"
  shows "\<exists>j s'. GetNewSessionId t s = Some (j, s') \<and> assigned t s j s'"
proof -
  let ?b = "search_start p a"
  note within = search_start_within [OF a(2)] and order = turn_order [OF p(2) _ _ refl, of _ _ a]
    and result = new_session_id_search [OF _ _ p(1) a(1)]
  consider i where "?b \<le> i" "i \<le> range_end p" "\<not> id_used s i"
    | i where "\<forall>k. ?b \<le> k \<and> k \<le> range_end p \<longrightarrow> id_used s k" "in_range p i" "\<not> id_used s i"
    | "\<forall>k. in_range p k \<longrightarrow> id_used s k" by blast
  then show ?thesis
  proof cases
    case 1
    then obtain j where j: "?b \<le> j" "j \<le> range_end p" "\<not> id_used s j"
        "\<forall>k. ?b \<le> k \<and> k < j \<and> k \<le> range_end p \<longrightarrow> id_used s k"
      by (rule first_free [where Q = "\<lambda>i. i \<le> range_end p"])
    then have "search_up (id_used s) ?b (range_end p) = Some j"
      by (intro search_up_found) auto
    moreover have "j \<noteq> 0" "in_range p j" using j(1,2) within(1) p(2) by (auto simp: in_range_def)
    moreover have "turn a j \<le> turn a i" if "in_range p i" "\<not> id_used s i" for i
    proof (intro order)
      have "?b \<le> i \<Longrightarrow> j \<le> i" using j(4) that by (cases "i < j") (auto simp: in_range_def)
      then show "j \<le> i \<and> (?b \<le> i \<longrightarrow> ?b \<le> j) \<or> ?b \<le> j \<and> i < ?b" using j(1) by (auto simp: not_le)
    qed (use that \<open>in_range p j\<close> in simp_all)
    ultimately show ?thesis
      using result [of j j] j(3) by (auto simp: assigned_def Let_def p a)
  next
    case 2
    then have up: "search_up (id_used s) ?b (range_end p) = Some 0"
      using zero by (intro search_up_none) auto
    have lo: "range_start p \<le> i" and "i < ?b \<and> i \<le> range_end p"
      using 2 by (auto simp: in_range_def not_less)
    from this(2) obtain j where j: "range_start p \<le> j" "j < ?b \<and> j \<le> range_end p" "\<not> id_used s j"
        "\<forall>k. range_start p \<le> k \<and> k < j \<and> (k < ?b \<and> k \<le> range_end p) \<longrightarrow> id_used s k"
      by (rule first_free [where Q = "\<lambda>i. i < ?b \<and> i \<le> range_end p" and used = "id_used s", OF lo _ 2(3)])
    have "search_below (id_used s) (range_start p) ?b = j"
    proof (rule search_below_found)
      show "id_used s k" if "range_start p \<le> k" "k < j" for k
        using j(2,4) that by auto
    qed (use j in simp_all)
    moreover have "j \<noteq> 0" "in_range p j" using j p(2) by (auto simp: in_range_def)
    moreover have "turn a j \<le> turn a i" if "in_range p i" "\<not> id_used s i" for i
    proof (intro order)
      have "\<not> ?b \<le> i" using 2(1) that by (auto simp: in_range_def)
      moreover have "j \<le> i" using that calculation j(4) by (cases "i < j") (auto simp: in_range_def)
      ultimately show "j \<le> i \<and> (?b \<le> i \<longrightarrow> ?b \<le> j) \<or> ?b \<le> j \<and> i < ?b" by simp
    qed (use that \<open>in_range p j\<close> in simp_all)
    ultimately show ?thesis
      using result [OF up, of j] j(3) by (auto simp: assigned_def Let_def p a)
  next
    case 3
    then have up: "search_up (id_used s) ?b (range_end p) = Some 0"
      using zero within(1) by (intro search_up_none) (auto simp: in_range_def)
    have "search_below (id_used s) (range_start p) ?b = 0"
      using 3 within(2) by (intro search_below_none) (auto simp: in_range_def)
    then show ?thesis
      using result [OF up, of 0] 3 by (simp add: assigned_def Let_def p)
  qed
qed

section \<open>Counting\<close>

abbreviation sess_ids :: "UsessSessions \<Rightarrow> u32 set" where
  "sess_ids s \<equiv> fst ` set (us_table s)"

definition ids_in :: "usess_conf_session_parameter_t \<Rightarrow> UsessSessions \<Rightarrow> u32 set" where
  "ids_in p s = {i \<in> sess_ids s. in_range p i}"

lemma id_used_iff: "id_used s i \<longleftrightarrow> i \<in> sess_ids s"
  by (simp add: id_used_def map_of_eq_None_iff)

lemma finite_ids [simp]: "finite (ids_in p s)"
  by (simp add: ids_in_def)

lemma takeWhile_below:
  fixes xs :: "'a::linorder list"
  assumes "sorted_wrt (<) xs" and "\<And>x y. x < y \<Longrightarrow> Q y \<Longrightarrow> Q x"
  shows "takeWhile Q xs = filter Q xs"
  using assms(1)
proof (induction xs)
  case (Cons x xs)
  then have "\<not> Q x \<Longrightarrow> filter Q xs = []" using assms(2) by (auto simp: filter_empty_conv)
  with Cons show ?case by auto
qed simp

lemma length_keys: "sm_ok m \<Longrightarrow> length m = card (fst ` set m)"
  using distinct_card [OF sm_ok_distinct, of m] by simp

lemma count_range_card:
  assumes "sm_ok (us_table s)" and "range_start p \<le> range_end p"
  shows "count_range p s = Some (word_of_nat (card (ids_in p s)))"
proof -
  let ?ks = "map fst (us_table s)"
  let ?lo = "filter (\<lambda>k. k < range_start p) ?ks" and ?up = "filter (\<lambda>k. k \<le> range_end p) ?ks"
  have d: "distinct ?ks" and o: "sorted_wrt (<) ?ks"
    using assms(1) by (simp_all add: sm_ok_distinct) (simp add: sm_ok_def)
  have lo: "takeWhile (\<lambda>k. k < range_start p) ?ks = ?lo"
    and up: "takeWhile (\<lambda>k. k \<le> range_end p) ?ks = ?up"
    using takeWhile_below [OF o] by auto
  have len: "length ?lo = card (set ?lo)" "length ?up = card (set ?up)"
    using d by (simp_all only: distinct_card distinct_filter)
  have sub: "set ?lo \<subseteq> set ?up" using assms(2) by auto
  have "set ?up - set ?lo = ids_in p s" by (auto simp: ids_in_def in_range_def not_less)
  then have "card (ids_in p s) = length ?up - length ?lo"
    using card_Diff_subset [OF _ sub] len by simp
  then show ?thesis
    using card_mono [OF _ sub] len by (simp add: count_range_def lo up)
qed

lemma card_ids_u32:
  assumes "A \<subseteq> sess_ids s" and "0 \<notin> sess_ids s"
  shows "unat (word_of_nat (card A) :: u32) = card A"
proof -
  have "card A \<le> card (UNIV - {0 :: u32})" using assms by (intro card_mono) auto
  then have "card A < 2 ^ 32" by (simp add: card_word)
  then show ?thesis by (simp add: unat_of_nat)
qed


section \<open>The property\<close>

text \<open>
  C29. Assigning an identifier ends, although the search up to the end of the range is a loop that
  wraps, and hands out the free identifier of the range that comes next after the last one handed
  out, in cyclic order; it gives up only when every identifier of the range is in use. The range
  must not contain 0 and the last identifier handed out must not lie below it.
\<close>

theorem new_session_id_next_free:
  assumes "0 < range_start (session_param t s)"
    and "allocated_sess_id s (CONF_LOCAL_ID t) = 0 \<or>
      range_start (session_param t s) \<le> allocated_sess_id s (CONF_LOCAL_ID t)"
    and "\<not> id_used s 0"
  shows "\<exists>j s'. GetNewSessionId t s = Some (j, s') \<and>
    (if j = USESS_ID_INVALID
     then s' = s \<and> (\<forall>i. in_range (session_param t s) i \<longrightarrow> id_used s i)
     else in_range (session_param t s) j \<and> \<not> id_used s j \<and>
          (\<forall>i. in_range (session_param t s) i \<and> \<not> id_used s i \<longrightarrow>
             turn (allocated_sess_id s (CONF_LOCAL_ID t)) j \<le> turn (allocated_sess_id s (CONF_LOCAL_ID t)) i) \<and>
          s' = s\<lparr>allocated_sess_id := (allocated_sess_id s)(CONF_LOCAL_ID t := j)\<rparr>)"
  using new_session_id_assigned [OF refl assms(1) refl assms(2,3)] by (simp add: assigned_def Let_def)

definition full_cli :: UsessSessions where
  "full_cli = UsessSessions_new\<lparr>allocated_sess_id := \<lambda>_. 127\<rparr>"

theorem new_session_id_next_free_witness:
  "map_option fst (GetNewSessionId USESS_TYPE_CLI full_cli) = Some 1 \<and>
   in_range (default_local ID_CLI) 2 \<and> turn 127 1 \<le> turn 127 2"
proof -
  have p: "session_param USESS_TYPE_CLI full_cli = default_local ID_CLI" "0 < range_start (default_local ID_CLI)"
    "range_start (default_local ID_CLI) \<le> 127" "allocated_sess_id full_cli (CONF_LOCAL_ID USESS_TYPE_CLI) = 127" "\<not> id_used full_cli i" for i
    by (simp_all add: full_cli_def UsessSessions_new_def session_param_def CONF_LOCAL_ID_def
        kDefaultConf_session_def id_used_def)
  have run: "map_option fst (GetNewSessionId USESS_TYPE_CLI full_cli) = Some 1"
    by code_simp
  then obtain s1 where one: "GetNewSessionId USESS_TYPE_CLI full_cli = Some (1, s1)" by auto
  have "\<exists>j s'. Some (1, s1) = Some (j, s') \<and>
    (\<forall>i. in_range (default_local ID_CLI) i \<longrightarrow> j = 0 \<or> turn 127 j \<le> turn 127 i)"
    using new_session_id_next_free [of USESS_TYPE_CLI full_cli] p(2,3)
    unfolding p(1,4) one by (simp only: p(5)) (auto split: if_splits)
  moreover have "in_range (default_local ID_CLI) 2" by (simp add: in_range_def)
  ultimately show ?thesis using run by auto
qed

end
