(* ===== verification/UsessSound.thy ===== *)
theory UsessSound
  imports UsessFrame UsessIds
begin

text \<open>
  The invariant of the table of user sessions: identifiers lie in the range of their type and
  outside the fixed range, only administrators are in enable mode, and the limits on the number of
  sessions hold. Every operation on the table keeps it.
\<close>

section \<open>The invariant\<close>

text \<open>The kinds of ranges can be enumerated, so that settings can be tested.\<close>

instantiation usess_conf_session_map_type_e :: enum
begin

definition enum_usess_conf_session_map_type_e :: "usess_conf_session_map_type_e list" where
  "enum_usess_conf_session_map_type_e = [ID_CLI, ID_WEB_API, ID_WEB_UI, ID_FIXED]"

definition enum_all_usess_conf_session_map_type_e :: "(usess_conf_session_map_type_e \<Rightarrow> bool) \<Rightarrow> bool" where
  "enum_all_usess_conf_session_map_type_e P \<longleftrightarrow> P ID_CLI \<and> P ID_WEB_API \<and> P ID_WEB_UI \<and> P ID_FIXED"

definition enum_ex_usess_conf_session_map_type_e :: "(usess_conf_session_map_type_e \<Rightarrow> bool) \<Rightarrow> bool" where
  "enum_ex_usess_conf_session_map_type_e P \<longleftrightarrow> P ID_CLI \<or> P ID_WEB_API \<or> P ID_WEB_UI \<or> P ID_FIXED"

instance
proof
  show all: "UNIV = set (enum_class.enum :: usess_conf_session_map_type_e list)"
    by (auto simp: enum_usess_conf_session_map_type_e_def) (metis usess_conf_session_map_type_e.exhaust)
  show "enum_class.enum_all P = Ball UNIV P" for P :: "usess_conf_session_map_type_e \<Rightarrow> bool"
    by (auto simp: enum_all_usess_conf_session_map_type_e_def) (metis usess_conf_session_map_type_e.exhaust)
  show "enum_class.enum_ex P = Bex UNIV P" for P :: "usess_conf_session_map_type_e \<Rightarrow> bool"
    by (auto simp: enum_ex_usess_conf_session_map_type_e_def) (metis usess_conf_session_map_type_e.exhaust)
qed (simp add: enum_usess_conf_session_map_type_e_def)

end

text \<open>Ranges that do not contain 0, are not empty and do not meet each other or the fixed range.\<close>

definition conf_ok :: "usess_conf_session_t \<Rightarrow> bool" where
  "conf_ok c \<longleftrightarrow>
     (\<forall>x. x \<noteq> ID_FIXED \<longrightarrow> 0 < range_start (conf_local c x) \<and>
        range_start (conf_local c x) \<le> range_end (conf_local c x)) \<and>
     (\<forall>x y. x \<noteq> y \<longrightarrow> range_end (conf_local c x) < range_start (conf_local c y) \<or>
        range_end (conf_local c y) < range_start (conf_local c x))"

definition sess_entry_ok :: "usess_conf_session_t \<Rightarrow> u32 \<Rightarrow> usess_ipc_res_sess_info \<Rightarrow> bool" where
  "sess_entry_ok c k i \<longleftrightarrow>
     si_sess i = k \<and> in_range (conf_local c (CONF_LOCAL_ID (si_sess_type i))) k \<and>
     (si_sess_mode i = USESS_MODE_OPER \<or>
      si_sess_mode i = USESS_MODE_ENABLE \<and> si_user_type i = USER_TYPE_ADMIN)"

definition allocated_ok :: "UsessSessions \<Rightarrow> bool" where
  "allocated_ok s \<longleftrightarrow> (\<forall>x. x \<noteq> ID_FIXED \<longrightarrow>
     allocated_sess_id s x = 0 \<or> in_range (conf_local (ss_conf s) x) (allocated_sess_id s x))"

definition within_limits :: "UsessSessions \<Rightarrow> bool" where
  "within_limits s \<longleftrightarrow>
     (limited (conf_global (ss_conf s)) \<longrightarrow>
        card (sess_ids s) \<le> unat (max_session (conf_global (ss_conf s)))) \<and>
     (\<forall>x. x \<noteq> ID_FIXED \<and> limited (connect (conf_local (ss_conf s) x)) \<longrightarrow>
        card (ids_in (conf_local (ss_conf s) x) s) \<le> unat (max_session (connect (conf_local (ss_conf s) x))))"

definition sessions_ok :: "UsessSessions \<Rightarrow> bool" where
  "sessions_ok s \<longleftrightarrow> conf_ok (ss_conf s) \<and> sm_ok (us_table s) \<and>
     (\<forall>k i. map_of (us_table s) k = Some i \<longrightarrow> sess_entry_ok (ss_conf s) k i) \<and>
     allocated_ok s \<and> within_limits s"

lemma CONF_LOCAL_ID_not_fixed [simp]: "CONF_LOCAL_ID t \<noteq> ID_FIXED"
  by (simp add: CONF_LOCAL_ID_def)

lemma sess_ids_dom: "sess_ids s = dom (map_of (us_table s))"
  by (simp add: dom_map_of_conv_image_fst)

lemma conf_ok_range:
  assumes "conf_ok c"
  shows "0 < range_start (conf_local c (CONF_LOCAL_ID t))"
    "range_start (conf_local c (CONF_LOCAL_ID t)) \<le> range_end (conf_local c (CONF_LOCAL_ID t))"
  using assms CONF_LOCAL_ID_not_fixed unfolding conf_ok_def by blast+

lemma conf_ok_disjoint:
  assumes "conf_ok c" and "in_range (conf_local c x) i" and "in_range (conf_local c y) i"
  shows "x = y"
proof (rule ccontr)
  assume "x \<noteq> y"
  with assms(1) have "range_end (conf_local c x) < range_start (conf_local c y) \<or>
      range_end (conf_local c y) < range_start (conf_local c x)"
    unfolding conf_ok_def by blast
  with assms(2,3) show False by (auto simp: in_range_def)
qed

lemma sessions_ok_ids:
  assumes "sessions_ok s" and "k \<in> sess_ids s"
  shows "\<not> fixed_id s k" "k \<noteq> 0"
proof -
  obtain i where "map_of (us_table s) k = Some i"
    using assms(2) unfolding sess_ids_dom by blast
  with assms(1) have c: "conf_ok (ss_conf s)"
      and r: "in_range (conf_local (ss_conf s) (CONF_LOCAL_ID (si_sess_type i))) k"
    by (auto simp: sessions_ok_def sess_entry_ok_def)
  have "\<not> in_range (conf_local (ss_conf s) ID_FIXED) k"
    using conf_ok_disjoint [OF c r] CONF_LOCAL_ID_not_fixed by blast
  then show "\<not> fixed_id s k" by (simp add: fixed_id_def in_range_def)
  show "k \<noteq> 0" using conf_ok_range(1) [OF c] r unfolding in_range_def by (metis not_less)
qed

lemma sessions_ok_new_table:
  assumes "UsessSessions_Init f s = (True, s')" and "conf_ok (ss_conf s')"
  shows "sessions_ok s'"
  using assms
  by (auto simp: UsessSessions_Init_def sessions_ok_def allocated_ok_def within_limits_def ids_in_def
      split: prod.splits if_splits)


section \<open>Removing and changing sessions\<close>

lemma ids_in_mono: "sess_ids s \<subseteq> sess_ids s' \<Longrightarrow> ids_in p s \<subseteq> ids_in p s'"
  by (auto simp: ids_in_def)

lemma sessions_ok_fewer:
  assumes "sessions_ok s" and "sm_ok t" and "dom (map_of t) \<subseteq> sess_ids s"
    and "\<And>k i. map_of t k = Some i \<Longrightarrow> sess_entry_ok (ss_conf s) k i"
  shows "sessions_ok (s\<lparr>us_table := t\<rparr>)"
proof -
  let ?s = "s\<lparr>us_table := t\<rparr>"
  have sub: "sess_ids ?s \<subseteq> sess_ids s" using assms(3) by (simp add: dom_map_of_conv_image_fst)
  have "card (sess_ids ?s) \<le> card (sess_ids s)" "card (ids_in p ?s) \<le> card (ids_in p s)" for p
    using sub ids_in_mono [OF sub] by (simp_all add: card_mono)
  then have "within_limits ?s"
    using assms(1) le_trans unfolding sessions_ok_def within_limits_def by fastforce
  with assms show ?thesis by (simp add: sessions_ok_def allocated_ok_def)
qed

lemma sessions_ok_erase:
  assumes "sessions_ok s"
  shows "sessions_ok (s\<lparr>us_table := sm_erase k (us_table s)\<rparr>)"
  using assms
  by (intro sessions_ok_fewer)
    (auto simp: sessions_ok_def sess_ids_dom split: if_splits)

lemma sm_ok_filter: "sm_ok m \<Longrightarrow> sm_ok (filter P m)"
  by (simp add: sm_ok_def sorted_wrt_filter sorted_wrt_map)

lemma filter_map_of: "sm_ok m \<Longrightarrow> map_of (filter P m) k = Some v \<Longrightarrow> map_of m k = Some v"
  using sm_ok_filter [of m P] by (simp add: sm_in_set_map_of)

lemma sessions_ok_filter:
  assumes "sessions_ok s"
  shows "sessions_ok (s\<lparr>us_table := filter P (us_table s)\<rparr>)"
  using assms
  by (intro sessions_ok_fewer)
    (auto simp: sessions_ok_def sess_ids_dom sm_ok_filter dest: filter_map_of)

lemma sessions_ok_mode:
  assumes "sessions_ok s" and "map_of (us_table s) k = Some i"
    and "mode = USESS_MODE_OPER \<or> mode = USESS_MODE_ENABLE \<and> si_user_type i = USER_TYPE_ADMIN"
  shows "sessions_ok (s\<lparr>us_table := sm_put k (i\<lparr>si_sess_mode := mode\<rparr>) (us_table s)\<rparr>)"
proof (rule sessions_ok_fewer [OF assms(1)])
  show "dom (map_of (sm_put k (i\<lparr>si_sess_mode := mode\<rparr>) (us_table s))) \<subseteq> sess_ids s"
    using assms(2) by (auto simp: sess_ids_dom)
qed (use assms in \<open>auto simp: sessions_ok_def sess_entry_ok_def split: if_splits\<close>)


section \<open>Adding a session\<close>

lemma count_checked:
  assumes ok: "sessions_ok s" and "CheckSessTypeCount t s = Some True"
  shows "limited (conf_global (ss_conf s)) \<Longrightarrow>
      card (sess_ids s) < unat (max_session (conf_global (ss_conf s)))"
    and "limited (connect (session_param t s)) \<Longrightarrow>
      card (ids_in (session_param t s) s) < unat (max_session (connect (session_param t s)))"
proof -
  have m: "sm_ok (us_table s)" and z: "0 \<notin> sess_ids s"
    using ok sessions_ok_ids(2) by (auto simp: sessions_ok_def)
  have r: "range_start (session_param t s) \<le> range_end (session_param t s)"
    using ok conf_ok_range(2) by (simp add: sessions_ok_def session_param_def)
  have "unat (GetCount s) = card (sess_ids s)"
    using card_ids_u32 [OF subset_refl z] by (simp add: GetCount_def length_keys [OF m])
  moreover have "unat (word_of_nat (card (ids_in (session_param t s) s)) :: u32) = card (ids_in (session_param t s) s)"
    using z by (intro card_ids_u32) (auto simp: ids_in_def)
  ultimately show "limited (conf_global (ss_conf s)) \<Longrightarrow>
      card (sess_ids s) < unat (max_session (conf_global (ss_conf s)))"
    and "limited (connect (session_param t s)) \<Longrightarrow>
      card (ids_in (session_param t s) s) < unat (max_session (connect (session_param t s)))"
    using assms(2) count_range_card [OF m r]
    by (auto simp: CheckSessTypeCount_def Let_def word_le_nat_alt split: if_splits)
qed

lemma add_assigned:
  assumes "UsessSessions_Add now req ut s = Some (r, j, s')" and ok: "sessions_ok s"
  obtains "s' = s" "r \<noteq> USESS_E_OK"
  | s1 i where "r = USESS_E_OK" "j \<noteq> 0" "CheckSessTypeCount (ra_sess_type req) s = Some True"
    "assigned (ra_sess_type req) s j s1" "s' = s1\<lparr>us_table := sm_put j i (us_table s1)\<rparr>"
    "si_sess i = j" "si_sess_type i = ra_sess_type req" "si_sess_mode i = USESS_MODE_OPER"
proof -
  let ?t = "ra_sess_type req"
  have "\<not> id_used s 0" using sessions_ok_ids(2) [OF ok] by (auto simp: id_used_iff)
  moreover have "0 < range_start (session_param ?t s)"
    "allocated_sess_id s (CONF_LOCAL_ID ?t) = 0 \<or>
      range_start (session_param ?t s) \<le> allocated_sess_id s (CONF_LOCAL_ID ?t)"
    using ok conf_ok_range(1) [of "ss_conf s" ?t] CONF_LOCAL_ID_not_fixed [of ?t]
    by (auto simp: sessions_ok_def allocated_ok_def session_param_def in_range_def
        simp del: CONF_LOCAL_ID_not_fixed)
  ultimately obtain k s1 where new: "GetNewSessionId ?t s = Some (k, s1)" "assigned ?t s k s1"
    using new_session_id_assigned [OF refl _ refl, of ?t s] by blast
  then have "k = 0 \<Longrightarrow> s1 = s" by (simp add: assigned_def Let_def)
  with assms(1) new that show ?thesis
    by (auto simp: UsessSessions_Add_def Let_def split: if_splits option.splits bool.splits)
qed

lemma sessions_ok_put:
  assumes ok: "sessions_ok s" and count: "CheckSessTypeCount t s = Some True"
    and a: "assigned t s j s1" "j \<noteq> 0"
    and i: "si_sess i = j" "si_sess_type i = t" "si_sess_mode i = USESS_MODE_OPER"
  shows "sessions_ok (s1\<lparr>us_table := sm_put j i (us_table s1)\<rparr>)"
proof -
  let ?c = "ss_conf s" and ?k = "CONF_LOCAL_ID t"
  let ?s = "s1\<lparr>us_table := sm_put j i (us_table s1)\<rparr>"
  have new: "in_range (conf_local ?c ?k) j"
    and s1: "s1 = s\<lparr>allocated_sess_id := (allocated_sess_id s)(?k := j)\<rparr>"
    using a by (simp_all add: assigned_def Let_def session_param_def)
  have ids: "sess_ids ?s = insert j (sess_ids s)" by (simp add: s1 fst_set_sm_put)
  have "limited (conf_global ?c) \<Longrightarrow> card (sess_ids ?s) \<le> unat (max_session (conf_global ?c))"
    using count_checked(1) [OF ok count] unfolding ids by (simp add: card_insert_if)
  moreover have "card (ids_in (conf_local ?c x) ?s) \<le> unat (max_session (connect (conf_local ?c x)))"
    if "x \<noteq> ID_FIXED" "limited (connect (conf_local ?c x))" for x
  proof (cases "x = ?k")
    case True
    have "ids_in (conf_local ?c x) ?s = insert j (ids_in (conf_local ?c x) s)"
      using new unfolding ids_in_def ids True by auto
    with count_checked(2) [OF ok count] that True show ?thesis
      by (simp add: card_insert_if session_param_def)
  next
    case False
    then have "ids_in (conf_local ?c x) ?s = ids_in (conf_local ?c x) s"
      using new conf_ok_disjoint [of ?c x j ?k] ok unfolding ids_in_def ids sessions_ok_def by auto
    with that ok show ?thesis by (simp add: sessions_ok_def within_limits_def)
  qed
  ultimately have "within_limits ?s" by (simp add: within_limits_def s1)
  moreover have "allocated_ok ?s" using ok new by (auto simp: sessions_ok_def allocated_ok_def s1)
  moreover have "sess_entry_ok ?c j i" using new i by (simp add: sess_entry_ok_def)
  ultimately show ?thesis
    using ok by (auto simp: sessions_ok_def s1)
qed

lemma sessions_ok_add:
  assumes "UsessSessions_Add now req ut s = Some (r, j, s')" and "sessions_ok s"
  shows "sessions_ok s'"
  using add_assigned [OF assms] sessions_ok_put [OF assms(2)] assms(2) by metis

end
