(* ===== verification/UsessServe.thy ===== *)
theory UsessServe
  imports UsessSound TcLifeCycle
begin

text \<open>
  The user session manager as a transition system: whole requests, others served while one waits,
  and steps of the coordinator in the same process. The relations between states that the services
  respect are interpretations of the locales of \<open>UsessFrame\<close>: the table stays sound, the coordinator
  moves only by its own steps, and the mode of a session is raised by one service only.
\<close>

section \<open>Interleaved requests\<close>

text \<open>
  The manager and the coordinator share a process. A step is a step of the coordinator or a whole
  request, during which others may be served whenever it gives its lock back.
\<close>

inductive serves :: "Usess \<Rightarrow> Usess \<Rightarrow> bool" where
  coordinator: "us_md st = Some m \<Longrightarrow> module_step (m, us_tc st) (m', w) \<Longrightarrow>
     serves st (st\<lparr>us_md := Some m', us_tc := w\<rparr>)"
| request: "good_waits (ue_tc E) \<Longrightarrow> (\<forall>st. serves\<^sup>*\<^sup>* st (ue_others E st)) \<Longrightarrow>
     Usess_ipcService service arg E st = Some (r, st') \<Longrightarrow> serves st st'"

inductive usess_reachable :: "Usess \<Rightarrow> bool" where
  start: "Usess_init E st0 = Some (True, st) \<Longrightarrow> conf_ok (ss_conf (us_sessions st)) \<Longrightarrow>
     us_md st0 = Some m \<Longrightarrow> module_reachable m (us_tc st0) \<Longrightarrow> usess_reachable st"
| step: "usess_reachable st \<Longrightarrow> serves st st' \<Longrightarrow> usess_reachable st'"

lemma not_started [simp]: "map_option (apfst (\<lambda>_. False)) x \<noteq> Some (True, st)"
  by (cases x) auto

lemma start_state:
  assumes "Usess_init E st0 = Some (True, st)"
  shows "\<exists>f s. UsessSessions_Init f s = (True, us_sessions st)" "us_tc st = us_tc st0" "us_md st = us_md st0"
proof -
  obtain locked st2 where lock: "USESS_WLOCK E (snd (load_common st0)) = (locked, st2)" by fastforce
  have "us_tc st2 = us_tc st0" "us_md st2 = us_md st0"
    using coreD(2,3) [OF core_wlock [OF lock]] by (simp_all add: load_common_def split: prod.split)
  with assms lock show "\<exists>f s. UsessSessions_Init f s = (True, us_sessions st)"
      "us_tc st = us_tc st0" "us_md st = us_md st0"
    by (auto simp: Usess_init_def Let_def load_users_def load_enable_def USESS_UNLOCK_def us_ext_def
        split: prod.splits if_splits) (metis | simp)+
qed

section \<open>The table stays sound\<close>

definition keeps_sound :: "Usess \<Rightarrow> Usess \<Rightarrow> bool" where
  "keeps_sound st st' \<longleftrightarrow> (sessions_ok (us_sessions st) \<longrightarrow> sessions_ok (us_sessions st'))"

definition sound_if :: "usess_env \<Rightarrow> Usess \<Rightarrow> Usess \<Rightarrow> bool" where
  "sound_if E st st' \<longleftrightarrow> ((\<forall>st. keeps_sound st (ue_others E st)) \<longrightarrow> keeps_sound st st')"

lemma release_sessions_kept:
  "release_sessions E m P es w = Some (kept, w1) \<Longrightarrow> kept = filter (\<lambda>e. \<not> P (snd e)) es"
  by (induction es arbitrary: w kept) (auto elim!: bind_SomeE split: if_splits)

lemma via_del_sound:
  "via_sessions (UsessSessions_Del E md k) st = Some (r, st') \<Longrightarrow> keeps_sound st st'"
  by (auto simp: via_sessions_def UsessSessions_Del_def keeps_sound_def sessions_ok_erase
      elim!: bind_SomeE split: if_splits option.splits)

lemma via_del_type_sound:
  "via_sessions (UsessSessions_Del_type E md t) st = Some (r, st') \<Longrightarrow> keeps_sound st st'"
  by (auto simp: via_sessions_def UsessSessions_Del_type_def keeps_sound_def sessions_ok_filter
      elim!: bind_SomeE dest!: release_sessions_kept split: if_splits option.splits)

lemma via_mode_sound:
  assumes "map_of (us_table (us_sessions st)) k = Some i"
    and "mode = USESS_MODE_OPER \<or> mode = USESS_MODE_ENABLE \<and> si_user_type i = USER_TYPE_ADMIN"
    and "via_sessions (TransitMode E md mode k i) st = Some (r, st')"
  shows "keeps_sound st st'"
  using assms(3) sessions_ok_mode [OF _ assms(1,2)]
  by (auto simp: via_sessions_def TransitMode_def Let_def keeps_sound_def
      elim!: bind_SomeE split: if_splits option.splits)

interpretation sound_enable: enable_rel "sound_if E" E current passwd for E current passwd
proof
  show "sound_if E st st'" if "core st' = core st" for st st'
    using coreD(1) [OF that] by (simp add: sound_if_def keeps_sound_def)
  show "sound_if E st st2" if "sound_if E st st1" "sound_if E st1 st2" for st st1 st2
    using that by (auto simp: sound_if_def keeps_sound_def)
qed (auto simp: sound_if_def intro: via_mode_sound)

interpretation sound: usess_rel "sound_if E" E for E
proof
  fix st :: Usess and now :: "i32 \<times> int \<times> int" and req t r j s
  assume "UsessSessions_Add now req t (us_sessions st) = Some (r, j, s)"
  then show "sound_if E st (st\<lparr>us_sessions := s\<rparr>)"
    using sessions_ok_add by (simp add: sound_if_def keeps_sound_def)
qed (auto simp: sound_if_def intro: via_del_sound via_del_type_sound via_mode_sound
    sound_enable.enable_rel_axioms)

section \<open>The coordinator keeps to its life cycle\<close>

definition drives :: "Usess \<Rightarrow> Usess \<Rightarrow> bool" where
  "drives st st' \<longleftrightarrow>
     (case us_md st of
        None \<Rightarrow> us_md st' = None \<and> us_tc st' = us_tc st
      | Some m \<Rightarrow> \<exists>m'. us_md st' = Some m' \<and> module_step\<^sup>*\<^sup>* (m, us_tc st) (m', us_tc st'))"

definition drives_if :: "usess_env \<Rightarrow> Usess \<Rightarrow> Usess \<Rightarrow> bool" where
  "drives_if E st st' \<longleftrightarrow>
     (good_waits (ue_tc E) \<longrightarrow> (\<forall>st. drives st (ue_others E st)) \<longrightarrow> drives st st')"

lemma drives_trans: "drives st st1 \<Longrightarrow> drives st1 st2 \<Longrightarrow> drives st st2"
  by (auto simp: drives_def split: option.splits)

lemma release_sessions_driven:
  "good_waits E \<Longrightarrow> release_sessions E m P es w = Some (kept, w1) \<Longrightarrow> module_step\<^sup>*\<^sup>* (m, w) (m, w1)"
  by (induction es arbitrary: w kept)
    (auto elim!: bind_SomeE split: if_splits
      intro: converse_rtranclp_into_rtranclp [of module_step, OF module_step.session])

lemma via_del_drives:
  "good_waits E \<Longrightarrow> via_sessions (UsessSessions_Del E (us_md st) k) st = Some (r, st') \<Longrightarrow> drives st st'"
  by (auto simp: via_sessions_def UsessSessions_Del_def drives_def
      elim!: bind_SomeE split: if_splits option.splits intro: r_into_rtranclp [of module_step, OF module_step.session])

lemma via_del_type_drives:
  "good_waits E \<Longrightarrow> via_sessions (UsessSessions_Del_type E (us_md st) t) st = Some (r, st') \<Longrightarrow> drives st st'"
  by (auto simp: via_sessions_def UsessSessions_Del_type_def drives_def
      elim!: bind_SomeE dest!: release_sessions_driven split: if_splits option.splits)

lemma via_mode_drives:
  "good_waits E \<Longrightarrow> via_sessions (TransitMode E (us_md st) mode k i) st = Some (r, st') \<Longrightarrow> drives st st'"
  by (auto simp: via_sessions_def TransitMode_def Let_def drives_def
      elim!: bind_SomeE split: if_splits option.splits intro: r_into_rtranclp [of module_step, OF module_step.session])

interpretation driven_enable: enable_rel "drives_if E" E current passwd for E current passwd
proof
  show "drives_if E st st'" if "core st' = core st" for st st'
    using coreD(2,3) [OF that] by (simp add: drives_if_def drives_def split: option.splits)
  show "drives_if E st st2" if "drives_if E st st1" "drives_if E st1 st2" for st st1 st2
    using that drives_trans by (auto simp: drives_if_def)
qed (auto simp: drives_if_def intro: via_mode_drives)

interpretation driven: usess_rel "drives_if E" E for E
proof
  show "drives_if E st (st\<lparr>us_sessions := s\<rparr>)" for st s
    by (simp add: drives_if_def drives_def split: option.splits)
qed (auto simp: drives_if_def intro: via_del_drives via_del_type_drives via_mode_drives
    driven_enable.enable_rel_axioms)


section \<open>Reachable states\<close>

lemma serves_sound: "serves st st' \<Longrightarrow> keeps_sound st st'"
proof (induction rule: serves.induct)
  case (request E service arg st r st')
  have "keeps_sound st (ue_others E st)" for st
  proof -
    have "(\<lambda>a b. serves a b \<and> keeps_sound a b)\<^sup>*\<^sup>* st (ue_others E st)" using request.IH by blast
    then show ?thesis by induction (auto simp: keeps_sound_def)
  qed
  with sound.service_rel [OF request.hyps(2)] show ?case by (simp add: sound_if_def)
qed (simp add: keeps_sound_def)

lemma serves_drives: "serves st st' \<Longrightarrow> drives st st'"
proof (induction rule: serves.induct)
  case (coordinator st m m' w)
  then show ?case by (simp add: drives_def r_into_rtranclp)
next
  case (request E service arg st r st')
  have "drives st (ue_others E st)" for st
  proof -
    have "(\<lambda>a b. serves a b \<and> drives a b)\<^sup>*\<^sup>* st (ue_others E st)" using request.IH by blast
    then show ?thesis by induction (auto simp: drives_def intro: drives_trans split: option.splits)
  qed
  with driven.service_rel [OF request.hyps(2)] request.hyps(1) show ?case by (simp add: drives_if_def)
qed

lemma module_reachable_steps:
  assumes "module_step\<^sup>*\<^sup>* x y" and "module_reachable (fst x) (snd x)"
  shows "module_reachable (fst y) (snd y)"
  using assms
proof (induction rule: rtranclp_induct)
  case (step y z)
  then show ?case using module_reachable.step [of "fst y" "snd y" "fst z" "snd z"] by simp
qed

lemma reachable_sound: "usess_reachable st \<Longrightarrow> sessions_ok (us_sessions st)"
proof (induction rule: usess_reachable.induct)
  case (start E st0 st m)
  then show ?case using start_state(1) [OF start(1)] sessions_ok_new_table by blast
next
  case (step st st')
  then show ?case using serves_sound [OF step(2)] by (simp add: keeps_sound_def)
qed

lemma reachable_coordinator:
  "usess_reachable st \<Longrightarrow> \<exists>m. us_md st = Some m \<and> module_reachable m (us_tc st)"
proof (induction rule: usess_reachable.induct)
  case (start E st0 st m)
  then show ?case using start_state(2,3) [OF start(1)] by simp
next
  case (step st st')
  then obtain m m' where "us_md st' = Some m'" "module_step\<^sup>*\<^sup>* (m, us_tc st) (m', us_tc st')"
      "module_reachable m (us_tc st)"
    using serves_drives [OF step(2)] by (auto simp: drives_def)
  then show ?case using module_reachable_steps [of "(m, us_tc st)" "(m', us_tc st')"] by simp
qed

section \<open>Enable mode\<close>

definition enabled :: "Usess \<Rightarrow> u32 \<Rightarrow> bool" where
  "enabled st k \<longleftrightarrow>
     (case map_of (us_table (us_sessions st)) k of
        None \<Rightarrow> False | Some i \<Rightarrow> si_sess_mode i = USESS_MODE_ENABLE)"

definition unraised :: "Usess \<Rightarrow> Usess \<Rightarrow> bool" where
  "unraised st st' \<longleftrightarrow> (sm_ok (us_table (us_sessions st)) \<longrightarrow>
     sm_ok (us_table (us_sessions st')) \<and> (\<forall>k. enabled st' k \<longrightarrow> enabled st k))"

definition unraised_if :: "usess_env \<Rightarrow> Usess \<Rightarrow> Usess \<Rightarrow> bool" where
  "unraised_if E st st' \<longleftrightarrow> ((\<forall>st. unraised st (ue_others E st)) \<longrightarrow> unraised st st')"

lemma unraised_table:
  assumes "\<And>t. t = us_table (us_sessions st) \<Longrightarrow> sm_ok t \<Longrightarrow> sm_ok (us_table (us_sessions st')) \<and>
    (\<forall>k i. map_of (us_table (us_sessions st')) k = Some i \<longrightarrow>
       map_of t k = Some i \<or> si_sess_mode i \<noteq> USESS_MODE_ENABLE)"
  shows "unraised st st'"
  using assms [OF refl] by (fastforce simp: unraised_def enabled_def split: option.splits)

lemma add_unraised:
  assumes "UsessSessions_Add now req t (us_sessions st) = Some (r, j, s)"
  shows "unraised st (st\<lparr>us_sessions := s\<rparr>)"
proof -
  have "us_table s1 = us_table s0" if "GetNewSessionId t s0 = Some (k, s1)" for t s0 k s1
    using that by (auto simp: GetNewSessionId_def Let_def split: option.splits if_splits)
  with assms show ?thesis
    by (intro unraised_table)
      (auto simp: UsessSessions_Add_def Let_def split: if_splits option.splits bool.splits)
qed

interpretation raising: request_rel "unraised_if E" E for E
proof
  show "unraised_if E st st'" if "core st' = core st" for st st'
    using coreD(1) [OF that] by (simp add: unraised_if_def unraised_def enabled_def)
  show "unraised_if E st st2" if "unraised_if E st st1" "unraised_if E st1 st2" for st st1 st2
    using that by (auto simp: unraised_if_def unraised_def)
  fix st st' :: Usess and k t i and r :: usess_ipc_err_e
  show "unraised_if E st st'" if "via_sessions (UsessSessions_Del (ue_tc E) (us_md st) k) st = Some (r, st')"
    using that unfolding unraised_if_def
    by (intro impI unraised_table) (auto simp: via_sessions_def UsessSessions_Del_def
        elim!: bind_SomeE split: if_splits option.splits)
  show "unraised_if E st st'" if "via_sessions (UsessSessions_Del_type (ue_tc E) (us_md st) t) st = Some (r, st')"
    using that unfolding unraised_if_def
    by (intro impI unraised_table) (auto simp: via_sessions_def UsessSessions_Del_type_def sm_ok_filter
        elim!: bind_SomeE dest!: release_sessions_kept dest: filter_map_of split: if_splits option.splits)
  show "unraised_if E st st'"
    if "via_sessions (TransitMode (ue_tc E) (us_md st) USESS_MODE_OPER k i) st = Some (r, st')"
    using that unfolding unraised_if_def
    by (intro impI unraised_table) (auto simp: via_sessions_def TransitMode_def Let_def
        elim!: bind_SomeE split: if_splits option.splits)
qed (auto simp: unraised_if_def intro: add_unraised)

text \<open>What the service does: nothing, or the session is enabled after the password was accepted.\<close>

definition enables :: "usess_env \<Rightarrow> u32 \<Rightarrow> string \<Rightarrow> Usess \<Rightarrow> Usess \<Rightarrow> bool" where
  "enables E k passwd st st' \<longleftrightarrow> us_enable st' = us_enable st \<and>
     (us_sessions st' = us_sessions st \<or>
      (\<exists>i d d'. map_of (us_table (us_sessions st)) k = Some i \<and> si_user_type i = USER_TYPE_ADMIN \<and>
         UsessEnable_Authenticate E (us_enable st) i (copy_passwd passwd) d = Some (USESS_E_OK, d') \<and>
         us_sessions st' = (us_sessions st)\<lparr>us_table :=
           sm_put k (i\<lparr>si_sess_mode := USESS_MODE_ENABLE\<rparr>) (us_table (us_sessions st))\<rparr>))"

lemma authenticate_mode [simp]:
  "UsessEnable_Authenticate E c (i\<lparr>si_sess_mode := m\<rparr>) passwd d = UsessEnable_Authenticate E c i passwd d"
  by (simp add: UsessEnable_Authenticate_def)

interpretation enabling: enable_rel "enables E k passwd" E k passwd for E k passwd
proof
  show "enables E k passwd st st'" if "core st' = core st" for st st'
    using coreD(1,4) [OF that] by (simp add: enables_def)
  show "enables E k passwd st st2" if "enables E k passwd st st1" "enables E k passwd st1 st2" for st st1 st2
    using that by (auto simp: enables_def sm_put_put)
  show "enables E k passwd st st'"
    if "map_of (us_table (us_sessions st)) k = Some i" "si_user_type i = USER_TYPE_ADMIN"
      "UsessEnable_Authenticate E (us_enable st) i (copy_passwd passwd) d = Some (USESS_E_OK, d')"
      "via_sessions (TransitMode (ue_tc E) (us_md st) USESS_MODE_ENABLE k i) st = Some (r, st')"
    for st i d d' r st'
    using that
    by (auto simp: enables_def via_sessions_def TransitMode_def Let_def
        elim!: bind_SomeE split: if_splits option.splits)
qed

lemma authenticate_accepts:
  assumes "UsessEnable_Authenticate E c i passwd d = Some (USESS_E_OK, d')"
  shows "c_str (si_sess_uname i) = kDefaultUser_WebAdmin \<and>
      (si_sess_type i = USESS_TYPE_WEB_API \<or> si_sess_type i = USESS_TYPE_WEB_UI) \<or>
    (\<exists>digest t. CheckPassword E c passwd \<and> crypt_r E passwd digest = Some digest \<and>
       MgmtDatabase_Exec (ae_odbc E) select_enable False [SQL_INTEGER, SQL_VARCHAR] [] d =
         Some (DB_E_OK, [[t, VARIANT_STRING digest]], d'))"
proof -
  have "v_string x = Some s \<Longrightarrow> x = VARIANT_STRING s" for x s by (cases x) auto
  with assms show ?thesis
    by (auto simp: UsessEnable_Authenticate_def CAST_IPC_STRING_def CheckDigest_def Hash_def
        elim!: bind_SomeE split: if_splits list.splits) blast+
qed

lemma enabling_service:
  assumes "unat service < length usess_services" and "usess_services ! unat service = kUsessEnable"
  shows "service = (3 :: u32)"
proof -
  have "\<forall>n < length usess_services. usess_services ! n = kUsessEnable \<longrightarrow> n = 3" by code_simp
  with assms have "unat service = 3" by blast
  then show ?thesis by (simp add: word_unat_eq_iff)
qed

end
