(* ===== verification/UsessPasswd.thy ===== *)
theory UsessPasswd
  imports UsessFrame
begin

text \<open>
  What the database sees when a password is changed: the calls a handler adds to the history, and
  the status of the transaction along the way.
\<close>

section \<open>Calls that leave the transaction alone\<close>

definition in_txn :: "MgmtDatabase \<Rightarrow> MgmtDatabase \<Rightarrow> bool" where
  "in_txn d d' \<longleftrightarrow> status_database d' = status_database d \<and> (\<exists>h. odbc_log d' = odbc_log d @ h)"

lemma in_txn_refl [simp]: "in_txn d d"
  by (simp add: in_txn_def)

lemma in_txn_trans [trans]: "in_txn d d1 \<Longrightarrow> in_txn d1 d2 \<Longrightarrow> in_txn d d2"
  by (auto simp: in_txn_def)

lemma in_txn_odbc: "odbc E c d = (r, d') \<Longrightarrow> in_txn d d'"
  by (auto simp: in_txn_def odbc_def Let_def)

lemma in_txn_snd_odbc [simp]: "in_txn d (snd (odbc E c d'))" if "in_txn d d'"
  using that by (auto simp: in_txn_def odbc_def Let_def)

lemma in_txn_bind: "bind_columns E n ts d = (b, d') \<Longrightarrow> in_txn d d'"
proof (induction ts arbitrary: n d)
  case (Cons t ts)
  obtain r d1 where c: "SetBindCol E n t d = (r, d1)" by fastforce
  then have "in_txn d d1" by (auto simp: SetBindCol_def split: if_splits)
  moreover have "in_txn d1 d'" using Cons c by (auto split: if_splits)
  ultimately show ?case by (rule in_txn_trans)
qed simp

lemma in_txn_fetch: "fetch_rows E ts n acc d = (b, rows, d') \<Longrightarrow> in_txn d d'"
proof (induction n arbitrary: acc d)
  case (Suc n)
  obtain r d1 where c: "odbc E SQLFetch d = (r, d1)" by fastforce
  moreover have "in_txn d1 d'" using Suc c by (auto split: if_splits)
  ultimately show ?case using in_txn_odbc in_txn_trans by blast
qed simp

lemma in_txn_fields: "DbField2Value E ts d = Some (r, rows, d') \<Longrightarrow> in_txn d d'"
proof -
  obtain q d1 where c: "odbc E SQLRowCount d = (q, d1)" by fastforce
  obtain b d2 where bind: "bind_columns E 1 ts d1 = (b, d2)" by fastforce
  obtain ok rows' d3 where fetch: "fetch_rows E ts (nat (or_rows q)) [] d2 = (ok, rows', d3)"
    using prod_cases3 by blast
  note steps = in_txn_odbc [OF c] in_txn_bind [OF bind] in_txn_fetch [OF fetch]
  assume "DbField2Value E ts d = Some (r, rows, d')"
  then have "d' \<in> {d1, d2, d3}"
    using c bind fetch by (auto simp: DbField2Value_def Let_def split: if_splits bool.splits)
  then show ?thesis using steps in_txn_trans by blast
qed

lemma in_txn_select:
  assumes "MgmtDatabase_Exec E stmt False ts v d = Some (r, rows, d')"
  shows "in_txn d d'"
proof -
  obtain r1 d1 where a: "odbc E SQLAllocStmt d = (r1, d1)" by fastforce
  obtain r2 d2 where x: "odbc E (SQLExecDirect stmt) d1 = (r2, d2)" by fastforce
  have t: "in_txn d d1" "in_txn d d2" using in_txn_odbc [OF a] in_txn_odbc [OF x] in_txn_trans by blast+
  then have "in_txn d d3" if "DbField2Value E ts d2 = Some (q, rows, d3)" for q rows d3
    using in_txn_fields [OF that] in_txn_trans by blast
  with assms a x t show ?thesis
    by (auto simp: MgmtDatabase_Exec_def Let_def split: if_splits option.splits prod.splits)
qed

lemma in_txn_get_user: "GetUser E c name u d = Some (r, u1, d') \<Longrightarrow> in_txn d d'"
  by (auto simp: GetUser_def Retrieve_def elim!: bind_SomeE dest!: in_txn_select split: if_splits)


section \<open>Beginning, changing and committing\<close>

lemma connect_begins:
  assumes "CONNECT E st = (True, st1)"
  shows "status_database (us_database st1) = STATUS_TRANSACTION_BEGIN"
    "\<exists>h. odbc_log (us_database st1) = odbc_log (us_database st) @ h"
  using assms
  by (auto simp: CONNECT_def MgmtDatabase_Connect_def BeginTransaction_def odbc_def Let_def
      split: prod.splits if_splits)

lemma update_executed:
  assumes "MgmtDatabase_Exec E stmt True [] [] d = Some (DB_E_OK, v, d')"
    and "status_database d = STATUS_TRANSACTION_BEGIN"
  shows "status_database d' = STATUS_TRANSACTION_UPDATE \<and>
    (\<exists>r0 r1 r2. odbc_log d' = odbc_log d @ [(SQLAllocStmt, r0), (SQLExecDirect stmt, r1), (SQLFreeStmt, r2)] \<and>
       odbc_ok r1)"
  using assms by (auto simp: MgmtDatabase_Exec_def odbc_def Let_def split: if_splits)

lemma disconnect_commits:
  assumes "DISCONNECT E st = (True, st')" and "status_database (us_database st) = STATUS_TRANSACTION_UPDATE"
  shows "\<exists>r1 r2. odbc_log (us_database st') = odbc_log (us_database st) @ [(SQLTransact True, r1), (SQLDisconnect, r2)] \<and>
    or_ret r1 = SQL_SUCCESS \<and> odbc_ok r2 \<and> status_database (us_database st') = STATUS_TRANSACTION_NONE"
  using assms
  by (auto simp: DISCONNECT_def MgmtDatabase_Disconnect_def EndTransaction_def odbc_def Let_def
      split: prod.splits if_splits)

text \<open>The calls between a change and the end of the handler: the update, and its commit.\<close>

definition committed :: "string \<Rightarrow> MgmtDatabase \<Rightarrow> MgmtDatabase \<Rightarrow> bool" where
  "committed stmt d d' \<longleftrightarrow> status_database d' = STATUS_TRANSACTION_NONE \<and>
     (\<exists>h r0 r1 r2 r3 r4. odbc_log d' = odbc_log d @ h @ [(SQLAllocStmt, r0), (SQLExecDirect stmt, r1),
        (SQLFreeStmt, r2), (SQLTransact True, r3), (SQLDisconnect, r4)] \<and>
        odbc_ok r1 \<and> or_ret r3 = SQL_SUCCESS \<and> odbc_ok r4)"

lemma update_committed:
  assumes "CONNECT E st = (True, st1)" and "in_txn (us_database st1) d"
    and "MgmtDatabase_Exec (ae_odbc E) stmt True [] [] d = Some (DB_E_OK, v, d1)"
    and "DISCONNECT E st2 = (True, st3)" and "us_database st2 = d1"
  shows "committed stmt (us_database st) (us_database st3)"
proof -
  have "status_database d = STATUS_TRANSACTION_BEGIN"
    using assms(2) connect_begins(1) [OF assms(1)] by (simp add: in_txn_def)
  note upd = update_executed [OF assms(3) this]
  from disconnect_commits [OF assms(4)] upd assms(5) obtain r3 r4 where
    "odbc_log (us_database st3) = odbc_log d1 @ [(SQLTransact True, r3), (SQLDisconnect, r4)]"
    "or_ret r3 = SQL_SUCCESS" "odbc_ok r4" "status_database (us_database st3) = STATUS_TRANSACTION_NONE"
    by auto
  with upd assms(2) connect_begins(2) [OF assms(1)] show ?thesis
    by (fastforce simp: committed_def in_txn_def)
qed

section \<open>The handler of user passwords\<close>

lemma wlock_frame:
  "USESS_WLOCK E st = (b, st1) \<Longrightarrow> us_database st1 = us_database st \<and> us_users st1 = us_users st"
  by (auto simp: USESS_WLOCK_def us_ext_def Let_def)

lemma connect_frame: "CONNECT E st = (b, st1) \<Longrightarrow> us_users st1 = us_users st"
  by (auto simp: CONNECT_def split: prod.splits)

lemma unlock_frame [simp]: "us_database (USESS_UNLOCK E st) = us_database st"
  by (simp add: USESS_UNLOCK_def us_ext_def Let_def)

lemma get_user_conf: "GetUser E c name u d = Some (USESS_E_OK, u1, d') \<Longrightarrow> uu_conf u1 = c"
  by (auto simp: GetUser_def Retrieve_def SetUserData_def elim!: bind_SomeE split: if_splits list.splits)

lemma user_password_changed:
  assumes "UsessUser_ChangePassword E tv passwd u d = Some (USESS_E_OK, d')"
  shows "\<exists>digest v. CheckPassword E (uu_conf u) passwd \<and> digest \<noteq> [] \<and>
    Hash_time E passwd tv (hash_type (uu_conf u)) = Some digest \<and>
    MgmtDatabase_Exec (ae_odbc E) (update_user digest (take 6 (dec_int (hash_type (uu_conf u)))) (uu_name u))
      True [] [] d = Some (DB_E_OK, v, d')"
  using assms by (auto simp: UsessUser_ChangePassword_def elim!: bind_SomeE split: if_splits)

lemma user_passwd_steps:
  assumes "UserUserPasswdHandler (Some (ReqUserPasswd k uname passwd)) E st = Some (USESS_E_OK, st')"
  obtains b st1 st2 i name u d d2 st5 where
    "USESS_WLOCK E st = (b, st1)" "CONNECT E st1 = (True, st2)" "map_of (us_table (us_sessions st2)) k = Some i"
    "GetUser E (us_users st2) name UsessUser_new (us_database st2) = Some (USESS_E_OK, u, d)"
    "UsessUser_Privilege i u = Some USESS_E_OK"
    "UsessUser_ChangePassword E (fst (snd (clock E (st2\<lparr>us_database := d\<rparr>)))) (copy_passwd passwd) u d =
       Some (USESS_E_OK, d2)"
    "DISCONNECT E (st2\<lparr>us_database := d2\<rparr>) = (True, st5)" "st' = USESS_UNLOCK E st5"
  using assms that
  by (auto simp: UserUserPasswdHandler_def GetSession_def db_end_def unlock_end_def Let_def
      elim!: bind_SomeE split: prod.splits if_splits option.splits)

lemma user_passwd_committed:
  assumes "UserUserPasswdHandler (Some (ReqUserPasswd k uname passwd)) E st = Some (USESS_E_OK, st')"
  shows "\<exists>i digest tv. map_of (us_table (us_sessions st)) k = Some i \<and>
    CheckPassword E (us_users st) (copy_passwd passwd) \<and> digest \<noteq> [] \<and>
    Hash_time E (copy_passwd passwd) tv (hash_type (us_users st)) = Some digest \<and>
    committed (update_user digest (take 6 (dec_int (hash_type (us_users st)))) (c_str (si_sess_uname i)))
      (us_database st) (us_database st')"
  using assms
proof (rule user_passwd_steps)
  fix b st1 st2 i name u d d2 st5
  assume lock: "USESS_WLOCK E st = (b, st1)" and conn: "CONNECT E st1 = (True, st2)"
    and i: "map_of (us_table (us_sessions st2)) k = Some i"
    and user: "GetUser E (us_users st2) name UsessUser_new (us_database st2) = Some (USESS_E_OK, u, d)"
    and priv: "UsessUser_Privilege i u = Some USESS_E_OK"
    and change: "UsessUser_ChangePassword E (fst (snd (clock E (st2\<lparr>us_database := d\<rparr>)))) (copy_passwd passwd) u d =
       Some (USESS_E_OK, d2)"
    and disc: "DISCONNECT E (st2\<lparr>us_database := d2\<rparr>) = (True, st5)" and "st' = USESS_UNLOCK E st5"
  have name: "uu_name u = c_str (si_sess_uname i)"
    using priv by (auto simp: UsessUser_Privilege_def CAST_IPC_STRING_def elim!: bind_SomeE split: if_splits)
  have conf: "uu_conf u = us_users st"
    using get_user_conf [OF user] wlock_frame [OF lock] connect_frame [OF conn] by simp
  have "us_sessions st2 = us_sessions st"
    using coreD(1) [OF core_wlock [OF lock]] coreD(1) [OF core_connect [OF conn]] by simp
  moreover obtain digest v where g: "CheckPassword E (uu_conf u) (copy_passwd passwd)" "digest \<noteq> []"
      "Hash_time E (copy_passwd passwd) (fst (snd (clock E (st2\<lparr>us_database := d\<rparr>)))) (hash_type (uu_conf u)) = Some digest"
      and x: "MgmtDatabase_Exec (ae_odbc E) (update_user digest (take 6 (dec_int (hash_type (uu_conf u)))) (uu_name u))
        True [] [] d = Some (DB_E_OK, v, d2)"
    using user_password_changed [OF change] by blast
  moreover have "committed (update_user digest (take 6 (dec_int (hash_type (uu_conf u)))) (uu_name u))
      (us_database st) (us_database st')"
    using update_committed [OF conn in_txn_get_user [OF user] x disc] wlock_frame [OF lock] \<open>st' = _\<close> by simp
  ultimately show ?thesis using i unfolding name conf by auto
qed

end
