(* ===== verification/UsessProps.thy ===== *)
theory UsessProps
  imports UsessServe UsessPasswd TcOperProps
begin

text \<open>
  The properties of the user session manager: its table stays sound and its coordinator keeps to
  its life cycle whatever requests are interleaved, sessions are enabled only for administrators
  with an accepted password, and what a reload or a failed database call leave behind.
\<close>

section \<open>A manager to run\<close>

text \<open>
  An environment that grants every lock and every call of the database, with one user, and a
  configuration file of empty blocks, so that every setting has its default.
\<close>

definition plain_file :: conf_file where
  "plain_file = \<lparr>cf_block = \<lambda>_. Some Map.empty, cf_map = \<lambda>_ _. Some Map.empty\<rparr>"

definition granting :: usess_env where
  "granting =
     \<lparr>ae_odbc = \<lambda>_ _. \<lparr>or_ret = 0, or_rows = 1, or_text = \<lambda>_. ''admin'', or_num = \<lambda>_. 2, or_bytes = \<lambda>_. []\<rparr>,
      crypt_r = \<lambda>passwd salt. Some salt, regcomp = \<lambda>_. Some (\<lambda>s. Some (0, length s)),
      ue_tc = calm unreachable,
      ue_ext = \<lambda>_ _. \<lparr>ur_err = 0, ur_time = (100, 0), ur_file = plain_file\<rparr>,
      ue_others = \<lambda>st. st\<rparr>"

definition fresh_manager :: Usess where
  "fresh_manager =
     \<lparr>us_conf = kDefaultConf_common, us_database = MgmtDatabase_new [], us_sessions = UsessSessions_new,
      us_users = kDefaultConf_user, us_enable = kDefaultConf_enable, us_event = False,
      us_file = plain_file, us_log = [], us_out = [],
      us_tc = coordinator TcLock_init [],
      us_md = Some (sample_module\<lparr>unc_state := INIT\<rparr>)\<rparr>"

definition c_array :: "string \<Rightarrow> string" where "c_array s = s @ [CHR 0x00]"

definition login :: usess_arg where
  "login = ReqSessAdd \<lparr>ra_sess_uname = c_array ''admin'', ra_sess_passwd = c_array ''secret'',
     ra_login_name = c_array ''root'', ra_sess_type = USESS_TYPE_CLI, ra_ipaddr = 0, ra_info = c_array ''''\<rparr>"

declare authenticate_user.simps [code] enable_session.simps [code]

definition started :: Usess where
  "started = snd (the (Usess_init granting fresh_manager))"

definition logged_in :: Usess where
  "logged_in = snd (the (Usess_ipcService 0 (Some login) granting started))"

lemma started: "Usess_init granting fresh_manager = Some (True, started)"
proof -
  have "map_option fst (Usess_init granting fresh_manager) = Some True" by code_simp
  then show ?thesis by (auto simp: started_def)
qed

lemma logged_in: "Usess_ipcService 0 (Some login) granting started = Some (0, logged_in)"
proof -
  have "map_option fst (Usess_ipcService 0 (Some login) granting started) = Some 0" by code_simp
  then show ?thesis by (auto simp: logged_in_def)
qed

lemma logged_in_reachable: "usess_reachable logged_in"
proof (rule usess_reachable.step)
  show "usess_reachable started"
  proof (rule usess_reachable.start [OF started])
    show "conf_ok (ss_conf (us_sessions started))" by code_simp
    show "us_md fresh_manager = Some (sample_module\<lparr>unc_state := INIT\<rparr>)"
      by (simp add: fresh_manager_def)
    show "module_reachable (sample_module\<lparr>unc_state := INIT\<rparr>) (us_tc fresh_manager)"
      by (rule module_reachable.start) (simp_all add: fresh_manager_def coordinator_def)
  qed
  show "serves started logged_in"
    by (rule serves.request [OF _ _ logged_in])
      (simp_all add: granting_def calm_def good_waits_def waits_move_def keeps_inv_def same_state_def)
qed

section \<open>Properties\<close>

text \<open>
  C26. The user sessions stay sound. However requests are interleaved with each other and with the
  coordinator, the table is keyed by the identifiers its sessions carry, every identifier lies in
  the range of the type of its session and outside the fixed range, whose identifiers pass the
  checks of privileges, only administrators are in enable mode, and the limits on the number of all
  sessions and of the sessions of a type hold.
\<close>

theorem user_sessions_sound:
  assumes "usess_reachable st"
  shows "sm_ok (us_table (us_sessions st)) \<and>
    (\<forall>k i. map_of (us_table (us_sessions st)) k = Some i \<longrightarrow>
       si_sess i = k \<and> in_range (session_param (si_sess_type i) (us_sessions st)) k \<and>
       \<not> fixed_id (us_sessions st) k \<and>
       (si_sess_mode i = USESS_MODE_OPER \<or>
        si_sess_mode i = USESS_MODE_ENABLE \<and> si_user_type i = USER_TYPE_ADMIN)) \<and>
    within_limits (us_sessions st)"
proof -
  note ok = reachable_sound [OF assms]
  have "\<not> fixed_id (us_sessions st) k" if "map_of (us_table (us_sessions st)) k = Some i" for k i
    using sessions_ok_ids(1) [OF ok] that by (auto simp: sess_ids_dom)
  with ok show ?thesis by (auto simp: sessions_ok_def sess_entry_ok_def session_param_def)
qed

theorem user_sessions_sound_witness:
  "map fst (us_table (us_sessions logged_in)) = [1] \<and> within_limits (us_sessions logged_in)"
proof
  show "map fst (us_table (us_sessions logged_in)) = [1]" by code_simp
  show "within_limits (us_sessions logged_in)"
    using user_sessions_sound [OF logged_in_reachable] by blast
qed



text \<open>
  C27. Nobody is enabled without the right to it. If a request leaves a session in enable mode that
  was not in it, and the requests served while it waited raise no session, then it is the enable
  request of that very session, its user is an administrator, and either it is the administrator of
  the web over the web, or the password of the request passes the format check and its digest is
  the one that the database returned for enable mode.
\<close>

theorem enable_needs_password:
  assumes "Usess_ipcService service arg E st = Some (r, st')" and "sm_ok (us_table (us_sessions st))"
    and "\<forall>st. unraised st (ue_others E st)" and "enabled st' k" and "\<not> enabled st k"
  shows "\<exists>passwd i. service = 3 \<and> arg = Some (ReqSessEnable k passwd) \<and>
    map_of (us_table (us_sessions st)) k = Some i \<and> si_user_type i = USER_TYPE_ADMIN \<and>
    (c_str (si_sess_uname i) = kDefaultUser_WebAdmin \<and>
       (si_sess_type i = USESS_TYPE_WEB_API \<or> si_sess_type i = USESS_TYPE_WEB_UI) \<or>
     (\<exists>digest t d d'. CheckPassword E (us_enable st) (copy_passwd passwd) \<and>
        crypt_r E (copy_passwd passwd) digest = Some digest \<and>
        MgmtDatabase_Exec (ae_odbc E) select_enable False [SQL_INTEGER, SQL_VARCHAR] [] d =
          Some (DB_E_OK, [[t, VARIANT_STRING digest]], d')))"
proof -
  let ?st = "st\<lparr>us_out := []\<rparr>"
  from assms(1,4,5) obtain q where run: "IpcHandler (usess_services ! unat service) arg E ?st = Some (q, st')"
      and svc: "unat service < length usess_services"
    by (auto simp: Usess_ipcService_def Let_def enabled_def elim!: bind_SomeE split: if_splits)
  have enable: "usess_services ! unat service = kUsessEnable"
  proof (rule ccontr)
    assume "usess_services ! unat service \<noteq> kUsessEnable"
    from raising.other_handler_rel [OF run this] assms(3) have "unraised ?st st'"
      unfolding unraised_if_def by (rule mp)
    with assms(2,4,5) show False by (simp add: unraised_def) (simp add: enabled_def)
  qed
  have "service = 3" using enabling_service [OF svc enable] .
  from run enable assms(4,5) obtain c p where arg: "arg = Some (ReqSessEnable c p)"
    by (auto simp: UsessEnableHandler_def enabled_def split: option.splits usess_arg.splits)
  have "enables E c p ?st st'"
    using run enable unfolding arg by (intro enabling.enable_handler_rel) simp
  with assms(4,5) obtain i d d' where "k = c" "map_of (us_table (us_sessions st)) c = Some i"
      "si_user_type i = USER_TYPE_ADMIN"
      "UsessEnable_Authenticate E (us_enable st) i (copy_passwd p) d = Some (USESS_E_OK, d')"
    by (auto simp: enables_def enabled_def split: option.splits if_splits)
  with authenticate_accepts [OF this(4)] \<open>service = 3\<close> arg show ?thesis by blast
qed

definition enabled_admin :: Usess where
  "enabled_admin = snd (the (Usess_ipcService 3 (Some (ReqSessEnable 1 (c_array ''secret''))) granting logged_in))"

theorem enable_needs_password_witness:
  "enabled enabled_admin 1 \<and> (\<exists>i. map_of (us_table (us_sessions logged_in)) 1 = Some i \<and>
     si_user_type i = USER_TYPE_ADMIN)"
proof -
  let ?req = "Some (ReqSessEnable 1 (c_array ''secret''))"
  have "map_option fst (Usess_ipcService 3 ?req granting logged_in) = Some 0" by code_simp
  then have run: "Usess_ipcService 3 ?req granting logged_in = Some (0, enabled_admin)"
    by (auto simp: enabled_admin_def)
  have "\<forall>st. unraised st (ue_others granting st)" by (simp add: granting_def unraised_def)
  moreover have "sm_ok (us_table (us_sessions logged_in))"
    using reachable_sound [OF logged_in_reachable] by (simp add: sessions_ok_def)
  moreover have "enabled enabled_admin 1" by code_simp
  moreover have "\<not> enabled logged_in 1" by code_simp
  ultimately show ?thesis using enable_needs_password [OF run] by blast
qed

text \<open>
  C31. A reload can hand out identifiers without checks of privileges. The settings are replaced and
  the last identifiers handed out are kept: when the new range lies above the last one and its
  successor is free, the next session gets this successor, outside the new range; when it falls
  into the fixed range, the session may delete and inspect every other one.
\<close>

theorem reload_hands_out_fixed_id:
  assumes "UsessSessions_LoadConf f s0 = (USESS_E_OK, s)"
    and "a = allocated_sess_id s0 (CONF_LOCAL_ID t)" and "a \<noteq> 0"
    and "a + 1 < range_start (session_param t s)" and "range_start (session_param t s) \<le> range_end (session_param t s)"
    and "\<not> id_used s0 (a + 1)" and "a < range_end (session_param t s)"
  shows "\<exists>s'. GetNewSessionId t s = Some (a + 1, s') \<and> \<not> in_range (session_param t s) (a + 1) \<and>
    (fixed_id s (a + 1) \<longrightarrow> (\<forall>mode target. map_of (us_table s) target \<noteq> None \<longrightarrow>
       UsessSessions_Privilege mode (a + 1) target s' = USESS_E_OK))"
proof -
  let ?p = "session_param t s"
  have s: "us_table s = us_table s0" "allocated_sess_id s = allocated_sess_id s0"
    using assms(1) by (auto simp: UsessSessions_LoadConf_def split: prod.splits)
  then have free: "\<not> id_used s (a + 1)" using assms(6) by (simp add: id_used_def)
  have "a + 1 \<noteq> 0" "a + 1 \<le> range_end ?p"
    using u32_succ_le [OF assms(7)] by (auto simp: word_unat_eq_iff)
  then have "search_up (id_used s) (search_start ?p a) (range_end ?p) = Some (a + 1)"
    using assms(3,7) free by (intro search_up_found) (auto simp: search_start_def)
  from new_session_id_search [OF this refl refl] \<open>a + 1 \<noteq> 0\<close> assms(2)
  have new: "GetNewSessionId t s = Some (a + 1,
      s\<lparr>allocated_sess_id := (allocated_sess_id s)(CONF_LOCAL_ID t := a + 1)\<rparr>)"
    by (simp add: s)
  show ?thesis
    unfolding new using assms(4)
    by (auto simp: in_range_def fixed_id_def UsessSessions_Privilege_def)
qed

definition moved_file :: conf_file where
  "moved_file = plain_file\<lparr>cf_map := \<lambda>m k. Some (if k = ''cli''
     then [''start_id'' \<mapsto> CfgU32 70000, ''end_id'' \<mapsto> CfgU32 70100] else Map.empty)\<rparr>"

theorem reload_hands_out_fixed_id_witness:
  "\<exists>s s'. UsessSessions_LoadConf moved_file full_cli = (USESS_E_OK, s) \<and>
     GetNewSessionId USESS_TYPE_CLI s = Some (128, s') \<and> fixed_id s 128"
proof -
  let ?s = "snd (UsessSessions_LoadConf moved_file full_cli)"
  have "fst (UsessSessions_LoadConf moved_file full_cli) = USESS_E_OK" by code_simp
  then have load: "UsessSessions_LoadConf moved_file full_cli = (USESS_E_OK, ?s)"
    by (metis prod.collapse)
  have "127 + 1 < range_start (session_param USESS_TYPE_CLI ?s)" by code_simp
  moreover have "range_start (session_param USESS_TYPE_CLI ?s) \<le> range_end (session_param USESS_TYPE_CLI ?s)"
    by code_simp
  moreover have "\<not> id_used full_cli (127 + 1)" "127 < range_end (session_param USESS_TYPE_CLI ?s)"
    by code_simp+
  moreover have "127 = allocated_sess_id full_cli (CONF_LOCAL_ID USESS_TYPE_CLI)" by code_simp
  moreover have "fixed_id ?s 128" by code_simp
  ultimately show ?thesis using reload_hands_out_fixed_id [OF load] load by fastforce
qed

text \<open>
  C32. A transaction that could not be ended locks every user out. While the connection is in a
  transaction, a request for a session fails, whatever the lock and the database answer, and
  leaves the transaction as it is: the handler never calls the function that would end it.
\<close>

theorem open_transaction_refuses_logins:
  assumes "status_database (us_database st) \<noteq> STATUS_TRANSACTION_NONE"
  shows "\<exists>st'. UsessSessAddHandler arg E st = Some (USESS_E_NG, st') \<and>
    us_database st' = us_database st \<and> us_sessions st' = us_sessions st"
proof -
  let ?st = "snd (us_ext E IpcSetTimeout st)"
  have db: "us_database ?st = us_database st" "us_sessions ?st = us_sessions st"
    by (simp_all add: us_ext_def Let_def)
  obtain b st1 where lock: "USESS_WLOCK E ?st = (b, st1)" by fastforce
  then have d: "us_database st1 = us_database st" "us_sessions st1 = us_sessions st"
    using db by (auto simp: USESS_WLOCK_def us_ext_def Let_def)
  have "\<exists>st2. authenticate_user E req n u ?st = Some (Inl USESS_E_NG, st2) \<and>
      us_database st2 = us_database st \<and> us_sessions st2 = us_sessions st" for req n u
    using assms lock d
    by (subst authenticate_user.simps)
      (auto simp: authenticate_once_def CONNECT_def MgmtDatabase_Connect_def USESS_UNLOCK_def us_ext_def Let_def)
  note auth = this
  show ?thesis
  proof (cases "\<exists>req. arg = Some (ReqSessAdd req)")
    case True
    then obtain req where "arg = Some (ReqSessAdd req)" by blast
    with auth [of req 0 UsessUser_new] show ?thesis by (auto simp: UsessSessAddHandler_def)
  next
    case False
    with db show ?thesis
      by (auto simp: UsessSessAddHandler_def Let_def split: option.splits usess_arg.splits)
  qed
qed

definition stuck_manager :: Usess where
  "stuck_manager = started\<lparr>us_database := (us_database started)\<lparr>status_database := STATUS_TRANSACTION_UPDATE\<rparr>\<rparr>"

theorem open_transaction_refuses_logins_witness:
  "\<exists>st'. UsessSessAddHandler (Some login) granting stuck_manager = Some (USESS_E_NG, st')"
proof -
  have "status_database (us_database stuck_manager) \<noteq> STATUS_TRANSACTION_NONE"
    by (simp add: stuck_manager_def)
  from open_transaction_refuses_logins [OF this] show ?thesis by blast
qed

text \<open>
  C30. A changed password is the user's own and is committed. When the service that changes a
  password succeeds, the password passes the format check, and the calls to the database end with an
  update of the row of the very user of the session, with a digest computed from the password, a
  successful commit and a successful disconnect; the transaction is closed.
\<close>

theorem password_change_committed:
  assumes "UserUserPasswdHandler (Some (ReqUserPasswd k uname passwd)) E st = Some (USESS_E_OK, st')"
  shows "\<exists>i digest tv. map_of (us_table (us_sessions st)) k = Some i \<and>
    CheckPassword E (us_users st) (copy_passwd passwd) \<and> digest \<noteq> [] \<and>
    Hash_time E (copy_passwd passwd) tv (hash_type (us_users st)) = Some digest \<and>
    committed (update_user digest (take 6 (dec_int (hash_type (us_users st)))) (c_str (si_sess_uname i)))
      (us_database st) (us_database st')"
  by (rule user_passwd_committed) (rule assms)

theorem password_change_committed_witness:
  "\<exists>st' i digest. UserUserPasswdHandler (Some (ReqUserPasswd 1 (c_array ''admin'') (c_array ''fresh''))) granting logged_in =
     Some (USESS_E_OK, st') \<and> map_of (us_table (us_sessions logged_in)) 1 = Some i \<and>
     committed (update_user digest (take 6 (dec_int (hash_type (us_users logged_in)))) (c_str (si_sess_uname i)))
       (us_database logged_in) (us_database st')"
proof -
  let ?req = "Some (ReqUserPasswd 1 (c_array ''admin'') (c_array ''fresh''))"
  have "map_option fst (UserUserPasswdHandler ?req granting logged_in) = Some USESS_E_OK" by code_simp
  then obtain st' where run: "UserUserPasswdHandler ?req granting logged_in = Some (USESS_E_OK, st')" by auto
  from password_change_committed [OF run] run show ?thesis by blast
qed

end
