(* ===== verification/CapaTables.thy ===== *)
theory CapaTables
  imports TcTypes
begin

text \<open>
  The tables of the capability module (\<^verbatim>\<open>modules/capa/ctrlr_capa_defines.cc\<close>): the key types with
  the names of their blocks in the configuration files, and the attributes of each key type with
  their indices, which are the values of the enumerations of \<^verbatim>\<open>include/ctrlr_capa_defines.hh\<close>.
\<close>

section \<open>Key types\<close>

type_synonym unc_key_type_t = u32

abbreviation (input) UNC_KT_FLOWLIST :: unc_key_type_t where "UNC_KT_FLOWLIST \<equiv> 5"
abbreviation (input) UNC_KT_FLOWLIST_ENTRY :: unc_key_type_t where "UNC_KT_FLOWLIST_ENTRY \<equiv> 6"
abbreviation (input) UNC_KT_POLICING_PROFILE :: unc_key_type_t where "UNC_KT_POLICING_PROFILE \<equiv> 7"
abbreviation (input) UNC_KT_POLICING_PROFILE_ENTRY :: unc_key_type_t where "UNC_KT_POLICING_PROFILE_ENTRY \<equiv> 8"
abbreviation (input) UNC_KT_VTN :: unc_key_type_t where "UNC_KT_VTN \<equiv> 12"
abbreviation (input) UNC_KT_VBRIDGE :: unc_key_type_t where "UNC_KT_VBRIDGE \<equiv> 16"
abbreviation (input) UNC_KT_VBR_PORTMAP :: unc_key_type_t where "UNC_KT_VBR_PORTMAP \<equiv> 17"
abbreviation (input) UNC_KT_VBR_VLANMAP :: unc_key_type_t where "UNC_KT_VBR_VLANMAP \<equiv> 18"
abbreviation (input) UNC_KT_VBR_NWMONITOR :: unc_key_type_t where "UNC_KT_VBR_NWMONITOR \<equiv> 19"
abbreviation (input) UNC_KT_VBR_NWMONITOR_HOST :: unc_key_type_t where "UNC_KT_VBR_NWMONITOR_HOST \<equiv> 20"
abbreviation (input) UNC_KT_VBR_POLICINGMAP :: unc_key_type_t where "UNC_KT_VBR_POLICINGMAP \<equiv> 21"
abbreviation (input) UNC_KT_VBR_POLICINGMAP_ENTRY :: unc_key_type_t where "UNC_KT_VBR_POLICINGMAP_ENTRY \<equiv> 22"
abbreviation (input) UNC_KT_VBR_FLOWFILTER :: unc_key_type_t where "UNC_KT_VBR_FLOWFILTER \<equiv> 23"
abbreviation (input) UNC_KT_VBR_FLOWFILTER_ENTRY :: unc_key_type_t where "UNC_KT_VBR_FLOWFILTER_ENTRY \<equiv> 24"
abbreviation (input) UNC_KT_VBR_IF :: unc_key_type_t where "UNC_KT_VBR_IF \<equiv> 25"
abbreviation (input) UNC_KT_VBRIF_POLICINGMAP :: unc_key_type_t where "UNC_KT_VBRIF_POLICINGMAP \<equiv> 27"
abbreviation (input) UNC_KT_VBRIF_POLICINGMAP_ENTRY :: unc_key_type_t where "UNC_KT_VBRIF_POLICINGMAP_ENTRY \<equiv> 28"
abbreviation (input) UNC_KT_VBRIF_FLOWFILTER :: unc_key_type_t where "UNC_KT_VBRIF_FLOWFILTER \<equiv> 29"
abbreviation (input) UNC_KT_VBRIF_FLOWFILTER_ENTRY :: unc_key_type_t where "UNC_KT_VBRIF_FLOWFILTER_ENTRY \<equiv> 30"
abbreviation (input) UNC_KT_VROUTER :: unc_key_type_t where "UNC_KT_VROUTER \<equiv> 31"
abbreviation (input) UNC_KT_VRT_IF :: unc_key_type_t where "UNC_KT_VRT_IF \<equiv> 32"
abbreviation (input) UNC_KT_VRTIF_FLOWFILTER :: unc_key_type_t where "UNC_KT_VRTIF_FLOWFILTER \<equiv> 33"
abbreviation (input) UNC_KT_VRTIF_FLOWFILTER_ENTRY :: unc_key_type_t where "UNC_KT_VRTIF_FLOWFILTER_ENTRY \<equiv> 34"
abbreviation (input) UNC_KT_VRT_IPROUTE :: unc_key_type_t where "UNC_KT_VRT_IPROUTE \<equiv> 35"
abbreviation (input) UNC_KT_DHCPRELAY_SERVER :: unc_key_type_t where "UNC_KT_DHCPRELAY_SERVER \<equiv> 36"
abbreviation (input) UNC_KT_DHCPRELAY_IF :: unc_key_type_t where "UNC_KT_DHCPRELAY_IF \<equiv> 37"
abbreviation (input) UNC_KT_VTERMINAL :: unc_key_type_t where "UNC_KT_VTERMINAL \<equiv> 39"
abbreviation (input) UNC_KT_VTERM_IF :: unc_key_type_t where "UNC_KT_VTERM_IF \<equiv> 40"
abbreviation (input) UNC_KT_VTERMIF_POLICINGMAP :: unc_key_type_t where "UNC_KT_VTERMIF_POLICINGMAP \<equiv> 41"
abbreviation (input) UNC_KT_VTERMIF_POLICINGMAP_ENTRY :: unc_key_type_t where "UNC_KT_VTERMIF_POLICINGMAP_ENTRY \<equiv> 42"
abbreviation (input) UNC_KT_VTERMIF_FLOWFILTER :: unc_key_type_t where "UNC_KT_VTERMIF_FLOWFILTER \<equiv> 43"
abbreviation (input) UNC_KT_VTERMIF_FLOWFILTER_ENTRY :: unc_key_type_t where "UNC_KT_VTERMIF_FLOWFILTER_ENTRY \<equiv> 44"
abbreviation (input) UNC_KT_VTEP :: unc_key_type_t where "UNC_KT_VTEP \<equiv> 47"
abbreviation (input) UNC_KT_VTEP_IF :: unc_key_type_t where "UNC_KT_VTEP_IF \<equiv> 48"
abbreviation (input) UNC_KT_VTEP_GRP :: unc_key_type_t where "UNC_KT_VTEP_GRP \<equiv> 49"
abbreviation (input) UNC_KT_VTEP_GRP_MEMBER :: unc_key_type_t where "UNC_KT_VTEP_GRP_MEMBER \<equiv> 50"
abbreviation (input) UNC_KT_VTUNNEL :: unc_key_type_t where "UNC_KT_VTUNNEL \<equiv> 51"
abbreviation (input) UNC_KT_VTUNNEL_IF :: unc_key_type_t where "UNC_KT_VTUNNEL_IF \<equiv> 52"
abbreviation (input) UNC_KT_VLINK :: unc_key_type_t where "UNC_KT_VLINK \<equiv> 53"
abbreviation (input) UNC_KT_VTN_POLICINGMAP :: unc_key_type_t where "UNC_KT_VTN_POLICINGMAP \<equiv> 54"
abbreviation (input) UNC_KT_VTN_POLICINGMAP_CONTROLLER :: unc_key_type_t where "UNC_KT_VTN_POLICINGMAP_CONTROLLER \<equiv> 55"
abbreviation (input) UNC_KT_VTN_FLOWFILTER :: unc_key_type_t where "UNC_KT_VTN_FLOWFILTER \<equiv> 56"
abbreviation (input) UNC_KT_VTN_FLOWFILTER_ENTRY :: unc_key_type_t where "UNC_KT_VTN_FLOWFILTER_ENTRY \<equiv> 57"
abbreviation (input) UNC_KT_VTN_FLOWFILTER_CONTROLLER :: unc_key_type_t where "UNC_KT_VTN_FLOWFILTER_CONTROLLER \<equiv> 58"
abbreviation (input) UNC_KT_VTN_DATAFLOW :: unc_key_type_t where "UNC_KT_VTN_DATAFLOW \<equiv> 61"
abbreviation (input) UNC_KT_CONTROLLER :: unc_key_type_t where "UNC_KT_CONTROLLER \<equiv> 512"
abbreviation (input) UNC_KT_SWITCH :: unc_key_type_t where "UNC_KT_SWITCH \<equiv> 513"
abbreviation (input) UNC_KT_PORT :: unc_key_type_t where "UNC_KT_PORT \<equiv> 514"
abbreviation (input) UNC_KT_LINK :: unc_key_type_t where "UNC_KT_LINK \<equiv> 516"
abbreviation (input) UNC_KT_CTR_DOMAIN :: unc_key_type_t where "UNC_KT_CTR_DOMAIN \<equiv> 517"
abbreviation (input) UNC_KT_BOUNDARY :: unc_key_type_t where "UNC_KT_BOUNDARY \<equiv> 520"
abbreviation (input) UNC_KT_DATAFLOW :: unc_key_type_t where "UNC_KT_DATAFLOW \<equiv> 521"
abbreviation (input) UNC_KT_CTR_DATAFLOW :: unc_key_type_t where "UNC_KT_CTR_DATAFLOW \<equiv> 522"
abbreviation (input) UNC_KT_DATAFLOW_V2 :: unc_key_type_t where "UNC_KT_DATAFLOW_V2 \<equiv> 523"


section \<open>Attributes\<close>

record KtAttrMap =
  attr_name :: string
  attr_index :: u32

record KtMap =
  kt_name :: string
  keytype :: unc_key_type_t
  attr_map :: "KtAttrMap list"

definition attr_row :: "string \<Rightarrow> u32 \<Rightarrow> KtAttrMap" where
  "attr_row n i = \<lparr>attr_name = n, attr_index = i\<rparr>"

definition kam_vtn :: "KtAttrMap list" where
  "kam_vtn = [attr_row ''description'' 0, attr_row ''operstatus'' 1, attr_row ''alarm_status'' 2,
    attr_row ''creation_time'' 3, attr_row ''last_update_time'' 4]"

definition kam_vbridge :: "KtAttrMap list" where
  "kam_vbridge = [attr_row ''domain_id'' 0, attr_row ''description'' 1, attr_row ''host_address'' 2,
    attr_row ''host_address_prefixlen'' 3, attr_row ''operstatus'' 4]"

definition kam_vbr_portmap :: "KtAttrMap list" where
  "kam_vbr_portmap = [attr_row ''domain_id'' 0, attr_row ''logical_port_id'' 1, attr_row ''label_type'' 2,
    attr_row ''label'' 3, attr_row ''operstatus'' 4]"

definition kam_vlan_map :: "KtAttrMap list" where
  "kam_vlan_map = [attr_row ''vlan_id'' 0]"

definition kam_vbr_if :: "KtAttrMap list" where
  "kam_vbr_if = [attr_row ''description'' 0, attr_row ''admin_status'' 1, attr_row ''logical_port_id'' 2,
    attr_row ''vlan_id'' 3, attr_row ''tagged'' 4, attr_row ''operstatus'' 5]"

definition kam_vrouter :: "KtAttrMap list" where
  "kam_vrouter = [attr_row ''domain_id'' 0, attr_row ''description'' 1,
    attr_row ''dhcp_relay_admin_status'' 2, attr_row ''operstatus'' 3]"

definition kam_dhcp_relay_server :: "KtAttrMap list" where
  "kam_dhcp_relay_server = []"

definition kam_dhcp_relay_interface :: "KtAttrMap list" where
  "kam_dhcp_relay_interface = []"

definition kam_static_ip_route :: "KtAttrMap list" where
  "kam_static_ip_route = [attr_row ''nwm_name'' 0, attr_row ''group_metric'' 1]"

definition kam_vrouter_interface :: "KtAttrMap list" where
  "kam_vrouter_interface = [attr_row ''description'' 0, attr_row ''ip_address'' 1, attr_row ''prefixlen'' 2,
    attr_row ''mac_address'' 3, attr_row ''admin_status'' 4, attr_row ''operstatus'' 5]"

definition kam_vterminal :: "KtAttrMap list" where
  "kam_vterminal = [attr_row ''domain_id'' 0, attr_row ''description'' 1, attr_row ''operstatus'' 2]"

definition kam_vterm_if :: "KtAttrMap list" where
  "kam_vterm_if = [attr_row ''description'' 0, attr_row ''admin_status'' 1, attr_row ''logical_port_id'' 2,
    attr_row ''vlan_id'' 3, attr_row ''tagged'' 4, attr_row ''operstatus'' 5]"

definition kam_vtep :: "KtAttrMap list" where
  "kam_vtep = [attr_row ''description'' 0, attr_row ''operstatus'' 1]"

definition kam_vtep_if :: "KtAttrMap list" where
  "kam_vtep_if = [attr_row ''description'' 0, attr_row ''admin_status'' 1, attr_row ''logical_port_id'' 2,
    attr_row ''vlan_id'' 3, attr_row ''tagged'' 4, attr_row ''operstatus'' 5]"

definition kam_vtep_grp :: "KtAttrMap list" where
  "kam_vtep_grp = [attr_row ''description'' 0]"

definition kam_vtep_grp_member :: "KtAttrMap list" where
  "kam_vtep_grp_member = []"

definition kam_vtunnel :: "KtAttrMap list" where
  "kam_vtunnel = [attr_row ''description'' 0, attr_row ''vtep_name'' 1, attr_row ''vtep_group_name'' 2,
    attr_row ''label'' 3, attr_row ''operstatus'' 4]"

definition kam_vtunnel_if :: "KtAttrMap list" where
  "kam_vtunnel_if = [attr_row ''description'' 0, attr_row ''admin_status'' 1, attr_row ''logical_port_id'' 2,
    attr_row ''vlan_id'' 3, attr_row ''tagged'' 4, attr_row ''operstatus'' 5]"

definition kam_vlink :: "KtAttrMap list" where
  "kam_vlink = [attr_row ''description'' 0, attr_row ''admin_status'' 1, attr_row ''vnode1_name'' 2,
    attr_row ''vnode1_interface_name'' 3, attr_row ''vnode2_name'' 4,
    attr_row ''vnode2_interface_name'' 5, attr_row ''boundary_name'' 6,
    attr_row ''label_type'' 7, attr_row ''label'' 8, attr_row ''operstatus'' 9]"

definition kam_nwm :: "KtAttrMap list" where
  "kam_nwm = [attr_row ''admin_status'' 0, attr_row ''status'' 1]"

definition kam_nwm_host :: "KtAttrMap list" where
  "kam_nwm_host = [attr_row ''health_interval'' 0, attr_row ''recovery_interval'' 1,
    attr_row ''failure_count'' 2, attr_row ''recovery_count'' 3, attr_row ''wait_time'' 4]"

definition kam_flow_list :: "KtAttrMap list" where
  "kam_flow_list = [attr_row ''ip_type'' 0]"

definition kam_flow_list_entry :: "KtAttrMap list" where
  "kam_flow_list_entry = [attr_row ''mac_destination'' 0, attr_row ''mac_source'' 1, attr_row ''mac_eth_type'' 2,
    attr_row ''destination_ip'' 3, attr_row ''destination_ip_prefix'' 4,
    attr_row ''source_ip'' 5, attr_row ''source_ip_prefix'' 6, attr_row ''vlan_priority'' 7,
    attr_row ''destination_ip_v6'' 8, attr_row ''destination_ip_v6_prefix'' 9,
    attr_row ''source_ip_v6'' 10, attr_row ''source_ip_v6_prefix'' 11,
    attr_row ''ip_protocol'' 12, attr_row ''ip_dscp'' 13, attr_row ''l4_destination_port'' 14,
    attr_row ''l4_destination_port_endpt'' 15, attr_row ''l4_source_port'' 16,
    attr_row ''l4_source_port_endpt'' 17, attr_row ''icmp_type'' 18, attr_row ''icmp_code'' 19,
    attr_row ''icmp_v6_type'' 20, attr_row ''icmp_v6_code'' 21]"

definition kam_policing_profile :: "KtAttrMap list" where
  "kam_policing_profile = [attr_row ''policer_name'' 0]"

definition kam_policing_profile_entry :: "KtAttrMap list" where
  "kam_policing_profile_entry = [attr_row ''flowlist'' 0, attr_row ''rate'' 1, attr_row ''cir'' 2, attr_row ''cbs'' 3,
    attr_row ''pir'' 4, attr_row ''pbs'' 5, attr_row ''green_action'' 6,
    attr_row ''green_priority'' 7, attr_row ''green_dscp'' 8, attr_row ''green_drop'' 9,
    attr_row ''yellow_action'' 10, attr_row ''yellow_priority'' 11,
    attr_row ''yellow_dscp'' 12, attr_row ''yellow_drop'' 13, attr_row ''red_action'' 14,
    attr_row ''red_priority'' 15, attr_row ''red_dscp'' 16, attr_row ''red_drop'' 17]"

definition kam_vtn_flow_filter :: "KtAttrMap list" where
  "kam_vtn_flow_filter = []"

definition kam_vtn_flow_filter_entry :: "KtAttrMap list" where
  "kam_vtn_flow_filter_entry = [attr_row ''flowlist_name'' 0, attr_row ''action'' 1, attr_row ''network_monitor'' 2,
    attr_row ''dscp'' 3, attr_row ''priority'' 4]"

definition kam_vtn_flow_filter_controller :: "KtAttrMap list" where
  "kam_vtn_flow_filter_controller = [attr_row ''direction'' 0, attr_row ''sequence_number'' 1]"

definition kam_vtn_policing_map :: "KtAttrMap list" where
  "kam_vtn_policing_map = [attr_row ''policer_name'' 0]"

definition kam_vtn_policing_map_controller :: "KtAttrMap list" where
  "kam_vtn_policing_map_controller = [attr_row ''sequence_number'' 0]"

definition kam_vbridge_flow_filter :: "KtAttrMap list" where
  "kam_vbridge_flow_filter = []"

definition kam_vbridge_flow_filter_entry :: "KtAttrMap list" where
  "kam_vbridge_flow_filter_entry = [attr_row ''flowlist_name'' 0, attr_row ''action'' 1, attr_row ''redirect_node'' 2,
    attr_row ''redirect_port'' 3, attr_row ''redirect_direction'' 4,
    attr_row ''modify_destination_mac'' 5, attr_row ''modify_source_mac'' 6,
    attr_row ''network_monitor'' 7, attr_row ''dscp'' 8, attr_row ''priority'' 9]"

definition kam_vbridge_policing_map :: "KtAttrMap list" where
  "kam_vbridge_policing_map = [attr_row ''policer_name'' 0]"

definition kam_vbridge_policing_map_entry :: "KtAttrMap list" where
  "kam_vbridge_policing_map_entry = []"

definition kam_vbridge_if_flow_filter :: "KtAttrMap list" where
  "kam_vbridge_if_flow_filter = []"

definition kam_vbridge_if_flow_filter_entry :: "KtAttrMap list" where
  "kam_vbridge_if_flow_filter_entry = [attr_row ''flowlist_name'' 0, attr_row ''action'' 1, attr_row ''redirect_node'' 2,
    attr_row ''redirect_port'' 3, attr_row ''redirect_direction'' 4,
    attr_row ''modify_destination_mac'' 5, attr_row ''modify_source_mac'' 6,
    attr_row ''network_monitor'' 7, attr_row ''dscp'' 8, attr_row ''priority'' 9]"

definition kam_vbridge_if_policing_map :: "KtAttrMap list" where
  "kam_vbridge_if_policing_map = [attr_row ''policer_name'' 0]"

definition kam_vbridge_if_policing_map_entry :: "KtAttrMap list" where
  "kam_vbridge_if_policing_map_entry = []"

definition kam_vrouter_if_flow_filter :: "KtAttrMap list" where
  "kam_vrouter_if_flow_filter = []"

definition kam_vrouter_if_flow_filter_entry :: "KtAttrMap list" where
  "kam_vrouter_if_flow_filter_entry = [attr_row ''flowlist_name'' 0, attr_row ''action'' 1, attr_row ''redirect_node'' 2,
    attr_row ''redirect_port'' 3, attr_row ''redirect_direction'' 4,
    attr_row ''modify_destination_mac'' 5, attr_row ''modify_source_mac'' 6,
    attr_row ''network_monitor'' 7, attr_row ''dscp'' 8, attr_row ''priority'' 9]"

definition kam_vterminal_if_flow_filter :: "KtAttrMap list" where
  "kam_vterminal_if_flow_filter = []"

definition kam_vterminal_if_flow_filter_entry :: "KtAttrMap list" where
  "kam_vterminal_if_flow_filter_entry = [attr_row ''flowlist_name'' 0, attr_row ''action'' 1, attr_row ''redirect_node'' 2,
    attr_row ''redirect_port'' 3, attr_row ''redirect_direction'' 4,
    attr_row ''modify_destination_mac'' 5, attr_row ''modify_source_mac'' 6,
    attr_row ''network_monitor'' 7, attr_row ''dscp'' 8, attr_row ''priority'' 9]"

definition kam_vterminal_if_policing_map :: "KtAttrMap list" where
  "kam_vterminal_if_policing_map = [attr_row ''policer_name'' 0]"

definition kam_vterminal_if_policing_map_entry :: "KtAttrMap list" where
  "kam_vterminal_if_policing_map_entry = []"

definition kam_controller :: "KtAttrMap list" where
  "kam_controller = [attr_row ''type'' 0, attr_row ''version'' 1, attr_row ''description'' 2,
    attr_row ''ip_address'' 3, attr_row ''user'' 4, attr_row ''password'' 5,
    attr_row ''enable_audit'' 6, attr_row ''port'' 7]"

definition kam_ctr_domain :: "KtAttrMap list" where
  "kam_ctr_domain = []"

definition kam_switch :: "KtAttrMap list" where
  "kam_switch = []"

definition kam_port :: "KtAttrMap list" where
  "kam_port = []"

definition kam_link :: "KtAttrMap list" where
  "kam_link = []"

definition kam_boundary :: "KtAttrMap list" where
  "kam_boundary = []"

definition kam_data_flow :: "KtAttrMap list" where
  "kam_data_flow = []"

definition kam_data_flow_v2 :: "KtAttrMap list" where
  "kam_data_flow_v2 = []"

definition kam_ctr_data_flow :: "KtAttrMap list" where
  "kam_ctr_data_flow = []"

definition kam_vtn_dataflow :: "KtAttrMap list" where
  "kam_vtn_dataflow = []"


section \<open>The table\<close>

text \<open>The number of attributes of a row is the size of its array; the row that ends the table is left out.\<close>

definition kt_row :: "string \<Rightarrow> unc_key_type_t \<Rightarrow> KtAttrMap list \<Rightarrow> KtMap" where
  "kt_row n k as = \<lparr>kt_name = n, keytype = k, attr_map = as\<rparr>"

definition kt_map :: "KtMap list" where
  "kt_map =
    [kt_row ''vtn'' UNC_KT_VTN kam_vtn,
     kt_row ''vbridge'' UNC_KT_VBRIDGE kam_vbridge,
     kt_row ''vbr_portmap'' UNC_KT_VBR_PORTMAP kam_vbr_portmap,
     kt_row ''vlan_map'' UNC_KT_VBR_VLANMAP kam_vlan_map,
     kt_row ''vbridge_interface'' UNC_KT_VBR_IF kam_vbr_if,
     kt_row ''vrouter'' UNC_KT_VROUTER kam_vrouter,
     kt_row ''dhcp_relay_server'' UNC_KT_DHCPRELAY_SERVER kam_dhcp_relay_server,
     kt_row ''dhcp_relay_interface'' UNC_KT_DHCPRELAY_IF kam_dhcp_relay_interface,
     kt_row ''static_ip_route'' UNC_KT_VRT_IPROUTE kam_static_ip_route,
     kt_row ''vrouter_interface'' UNC_KT_VRT_IF kam_vrouter_interface,
     kt_row ''vterminal'' UNC_KT_VTERMINAL kam_vterminal,
     kt_row ''vterminal_interface'' UNC_KT_VTERM_IF kam_vterm_if,
     kt_row ''vtep'' UNC_KT_VTEP kam_vtep,
     kt_row ''vtep_interface'' UNC_KT_VTEP_IF kam_vtep_if,
     kt_row ''vtep_group'' UNC_KT_VTEP_GRP kam_vtep_grp,
     kt_row ''vtep_group_member'' UNC_KT_VTEP_GRP_MEMBER kam_vtep_grp_member,
     kt_row ''vtunnel'' UNC_KT_VTUNNEL kam_vtunnel,
     kt_row ''vtunnel_interface'' UNC_KT_VTUNNEL_IF kam_vtunnel_if,
     kt_row ''vlink'' UNC_KT_VLINK kam_vlink,
     kt_row ''network_monitor_group'' UNC_KT_VBR_NWMONITOR kam_nwm,
     kt_row ''network_monitor_ip_host'' UNC_KT_VBR_NWMONITOR_HOST kam_nwm_host,
     kt_row ''flow_list'' UNC_KT_FLOWLIST kam_flow_list,
     kt_row ''flow_list_entry'' UNC_KT_FLOWLIST_ENTRY kam_flow_list_entry,
     kt_row ''policing_profile'' UNC_KT_POLICING_PROFILE kam_policing_profile,
     kt_row ''policing_profile_entry'' UNC_KT_POLICING_PROFILE_ENTRY kam_policing_profile_entry,
     kt_row ''vtn_flow_filter'' UNC_KT_VTN_FLOWFILTER kam_vtn_flow_filter,
     kt_row ''vtn_flow_filter_entry'' UNC_KT_VTN_FLOWFILTER_ENTRY kam_vtn_flow_filter_entry,
     kt_row ''vtn_flow_filter_controller'' UNC_KT_VTN_FLOWFILTER_CONTROLLER kam_vtn_flow_filter_controller,
     kt_row ''vtn_policing_map'' UNC_KT_VTN_POLICINGMAP kam_vtn_policing_map,
     kt_row ''vtn_policing_map_controller'' UNC_KT_VTN_POLICINGMAP_CONTROLLER kam_vtn_policing_map_controller,
     kt_row ''vbridge_flow_filter'' UNC_KT_VBR_FLOWFILTER kam_vbridge_flow_filter,
     kt_row ''vbridge_flow_filter_entry'' UNC_KT_VBR_FLOWFILTER_ENTRY kam_vbridge_flow_filter_entry,
     kt_row ''vbridge_policing_map'' UNC_KT_VBR_POLICINGMAP kam_vbridge_policing_map,
     kt_row ''vbridge_policing_map_entry'' UNC_KT_VBR_POLICINGMAP_ENTRY kam_vbridge_policing_map_entry,
     kt_row ''vbridge_interface_flow_filter'' UNC_KT_VBRIF_FLOWFILTER kam_vbridge_if_flow_filter,
     kt_row ''vbridge_interface_flow_filter_entry'' UNC_KT_VBRIF_FLOWFILTER_ENTRY kam_vbridge_if_flow_filter_entry,
     kt_row ''vbridge_interface_policing_map'' UNC_KT_VBRIF_POLICINGMAP kam_vbridge_if_policing_map,
     kt_row ''vbridge_interface_policing_map_entry'' UNC_KT_VBRIF_POLICINGMAP_ENTRY kam_vbridge_if_policing_map_entry,
     kt_row ''vrouter_interface_flow_filter'' UNC_KT_VRTIF_FLOWFILTER kam_vrouter_if_flow_filter,
     kt_row ''vrouter_interface_flow_filter_entry'' UNC_KT_VRTIF_FLOWFILTER_ENTRY kam_vrouter_if_flow_filter_entry,
     kt_row ''vterminal_interface_flow_filter'' UNC_KT_VTERMIF_FLOWFILTER kam_vterminal_if_flow_filter,
     kt_row ''vterminal_interface_flow_filter_entry'' UNC_KT_VTERMIF_FLOWFILTER_ENTRY kam_vterminal_if_flow_filter_entry,
     kt_row ''vterminal_interface_policing_map'' UNC_KT_VTERMIF_POLICINGMAP kam_vterminal_if_policing_map,
     kt_row ''vterminal_interface_policing_map_entry'' UNC_KT_VTERMIF_POLICINGMAP_ENTRY kam_vterminal_if_policing_map_entry,
     kt_row ''controller'' UNC_KT_CONTROLLER kam_controller,
     kt_row ''ctr_domain'' UNC_KT_CTR_DOMAIN kam_ctr_domain,
     kt_row ''switch'' UNC_KT_SWITCH kam_switch,
     kt_row ''port'' UNC_KT_PORT kam_port,
     kt_row ''link'' UNC_KT_LINK kam_link,
     kt_row ''boundary'' UNC_KT_BOUNDARY kam_boundary,
     kt_row ''dataflow'' UNC_KT_DATAFLOW kam_data_flow,
     kt_row ''dataflow_v2'' UNC_KT_DATAFLOW_V2 kam_data_flow_v2,
     kt_row ''ctr_dataflow'' UNC_KT_CTR_DATAFLOW kam_ctr_data_flow,
     kt_row ''vtn_dataflow'' UNC_KT_VTN_DATAFLOW kam_vtn_dataflow]"

end
