(* ===== verification/CapaModule.thy ===== *)
theory CapaModule
  imports CapaTables
begin

text \<open>
  The capability module (\<^verbatim>\<open>modules/capa/ctrlr_capability.cc\<close> and \<^verbatim>\<open>capa_module.cc\<close>): what each
  version of each controller type supports, loaded from one configuration file per controller type
  with inheritance from parent versions, and the validation of the actual version of a controller.
  The parsed files are a parameter; the readers/writer lock makes each method one step. A result
  \<open>None\<close> is a loop that does not end, an access outside an array or the use of an end iterator.
\<close>

section \<open>Configuration files\<close>

text \<open>
  The block of a key type in a version: the instance count and the arrays of four flags that are
  defined. The definition of a version: its parent and the numbers of its actual versions. A file:
  the list of versions, where a name may be missing, and the two kinds of blocks.
\<close>

record kt_block =
  kb_instance_count :: "u32 option"
  kb_attrs :: "string \<rightharpoonup> bool list"

record version_block =
  vb_parent :: "string option"
  vb_actual_version_count :: "u32 option"
  vb_actual_version :: "i32 list option"

record capa_file =
  cf_names :: "string option list option"
  cf_version :: "string \<rightharpoonup> version_block"
  cf_kt :: "string \<Rightarrow> string \<rightharpoonup> kt_block"

text \<open>What the environment decides: which files can be opened, and the contents of fresh memory.\<close>

record capa_env =
  conf_open :: "unc_keytype_ctrtype_t \<Rightarrow> capa_file option"
  fresh_bool :: "nat \<Rightarrow> bool"

definition kNumberOfAvailability :: nat where "kNumberOfAvailability = 4"

text \<open>A range of an array that is too short leaves the buffer as it is.\<close>

definition conf_array_bool_range :: "capa_env \<Rightarrow> bool list \<Rightarrow> nat \<Rightarrow> bool list" where
  "conf_array_bool_range E xs n = (if n \<le> length xs then take n xs else map (fresh_bool E) [0..<n])"


section \<open>Capabilities of the attributes of a key type\<close>

datatype CapaFileAttrOperation = kCapaConfCreate | kCapaConfUpdate | kCapaConfRead | kCapaConfStateRead

fun capa_op :: "CapaFileAttrOperation \<Rightarrow> nat" where
  "capa_op kCapaConfCreate = 0"
| "capa_op kCapaConfUpdate = 1"
| "capa_op kCapaConfRead = 2"
| "capa_op kCapaConfStateRead = 3"

text \<open>The four arrays, \<open>None\<close> for a null pointer.\<close>

record KtAttrCapability =
  ka_num_attrs :: u32
  ka_caps :: "CapaFileAttrOperation \<Rightarrow> u8 list option"

definition KtAttrCapability_new :: KtAttrCapability where
  "KtAttrCapability_new = \<lparr>ka_num_attrs = 0, ka_caps = \<lambda>_. None\<rparr>"

definition KtAttrCapability_Init :: "u32 \<Rightarrow> KtAttrCapability \<Rightarrow> KtAttrCapability" where
  "KtAttrCapability_Init n c =
     \<lparr>ka_num_attrs = n, ka_caps = \<lambda>_. Some (replicate (if n = 0 then 1 else unat n) 0)\<rparr>"

text \<open>The test lets the index equal to the number of attributes pass.\<close>

definition SetAttrCap :: "nat \<Rightarrow> u8 list \<Rightarrow> KtAttrCapability \<Rightarrow> (bool \<times> KtAttrCapability) option" where
  "SetAttrCap i capa_list c =
     (if unat (ka_num_attrs c) < i then Some (False, c)
      else if \<forall>op \<in> {kCapaConfCreate, kCapaConfUpdate, kCapaConfRead, kCapaConfStateRead}.
                case ka_caps c op of None \<Rightarrow> False | Some a \<Rightarrow> i < length a
      then Some (True, c\<lparr>ka_caps := \<lambda>op. map_option (\<lambda>a. a[i := capa_list ! capa_op op]) (ka_caps c op)\<rparr>)
      else None)"

text \<open>A getter stores the number of attributes before it looks at the pointer.\<close>

definition GetAttrCapability ::
  "CapaFileAttrOperation \<Rightarrow> KtAttrCapability \<Rightarrow> bool \<times> u32 option \<times> u8 list option" where
  "GetAttrCapability op c =
     (case ka_caps c op of
        None \<Rightarrow> (False, Some (ka_num_attrs c), None) | Some a \<Rightarrow> (True, Some (ka_num_attrs c), Some a))"


section \<open>Capabilities of a key type\<close>

record KtCapability =
  kc_instance_count :: u32
  kc_attr_cap :: "KtAttrCapability option"

definition KtCapability_new :: KtCapability where
  "KtCapability_new = \<lparr>kc_instance_count = 0, kc_attr_cap = None\<rparr>"

type_synonym parent_map = "string \<rightharpoonup> string"

definition GetCtrlrParentVersion :: "parent_map \<Rightarrow> string \<Rightarrow> string" where
  "GetCtrlrParentVersion pm v = (case pm v of None \<Rightarrow> '''' | Some p \<Rightarrow> p)"

text \<open>
  The loop that three methods share: the first version, from a version upwards, whose block
  satisfies a condition. It ends only when the chain of parents does.
\<close>

partial_function (option) find_up :: "parent_map \<Rightarrow> (string \<Rightarrow> bool) \<Rightarrow> string \<Rightarrow> string option option" where
  "find_up pm defined ver =
     (if ver = '''' then Some None
      else if defined ver then Some (Some ver)
      else find_up pm defined (GetCtrlrParentVersion pm ver))"

declare find_up.simps [code]

definition LoadAttrCapability ::
  "capa_env \<Rightarrow> capa_file \<Rightarrow> parent_map \<Rightarrow> string \<Rightarrow> string \<Rightarrow> nat \<Rightarrow> string \<Rightarrow> KtAttrCapability
     \<Rightarrow> (bool \<times> KtAttrCapability) option" where
  "LoadAttrCapability E f pm ktname attrname i version c =
     (let flags = (\<lambda>v. case cf_kt f ktname v of None \<Rightarrow> None | Some b \<Rightarrow> kb_attrs b attrname)
      in case find_up pm (\<lambda>v. flags v \<noteq> None) version of
           None \<Rightarrow> None
         | Some None \<Rightarrow> Some (False, c)
         | Some (Some v) \<Rightarrow>
             (let buffer = conf_array_bool_range E (the (flags v)) kNumberOfAvailability
              in case SetAttrCap i (map (\<lambda>b. if b then 1 else 0) buffer) c of
                   None \<Rightarrow> None | Some (_, c1) \<Rightarrow> Some (True, c1)))"

text \<open>The attributes are loaded in order; the first that no version defines ends the loop.\<close>

fun load_attrs ::
  "capa_env \<Rightarrow> capa_file \<Rightarrow> parent_map \<Rightarrow> string \<Rightarrow> string \<Rightarrow> nat \<Rightarrow> KtAttrMap list \<Rightarrow> KtAttrCapability
     \<Rightarrow> (bool \<times> KtAttrCapability) option" where
  "load_attrs E f pm ktname version i [] c = Some (True, c)"
| "load_attrs E f pm ktname version i (a # as) c =
     (case LoadAttrCapability E f pm ktname (attr_name a) i version c of
        None \<Rightarrow> None
      | Some (False, c1) \<Rightarrow> Some (False, c1)
      | Some (True, c1) \<Rightarrow> load_attrs E f pm ktname version (Suc i) as c1)"

definition LoadKtCapability ::
  "capa_env \<Rightarrow> capa_file \<Rightarrow> parent_map \<Rightarrow> KtMap \<Rightarrow> string \<Rightarrow> KtCapability \<Rightarrow> (bool \<times> KtCapability) option" where
  "LoadKtCapability E f pm k version c =
     (let a = KtAttrCapability_Init (word_of_nat (length (attr_map k))) KtAttrCapability_new
      in case load_attrs E f pm (kt_name k) version 0 (attr_map k) a of
           None \<Rightarrow> None | Some (r, a1) \<Rightarrow> Some (r, c\<lparr>kc_attr_cap := Some a1\<rparr>))"

text \<open>
  What a getter of the module stores for its caller: the instance count, the number of attributes
  and the array.
\<close>

record capa_out =
  co_instance_count :: "u32 option"
  co_num_attrs :: "u32 option"
  co_attrs :: "u8 list option"

definition capa_out_none :: capa_out where
  "capa_out_none = \<lparr>co_instance_count = None, co_num_attrs = None, co_attrs = None\<rparr>"

definition GetKtCapability :: "CapaFileAttrOperation \<Rightarrow> KtCapability \<Rightarrow> bool \<times> capa_out" where
  "GetKtCapability op c =
     (let out = capa_out_none\<lparr>co_instance_count :=
                  (if op = kCapaConfCreate then Some (kc_instance_count c) else None)\<rparr>
      in case kc_attr_cap c of
           None \<Rightarrow> (False, out)
         | Some a \<Rightarrow>
             (case GetAttrCapability op a of
                (r, n, xs) \<Rightarrow> (r, out\<lparr>co_num_attrs := n, co_attrs := xs\<rparr>)))"


section \<open>Capabilities of a version\<close>

type_synonym CtrlrCapability = "u32 \<rightharpoonup> KtCapability"

definition LoadInstanceCount :: "capa_file \<Rightarrow> parent_map \<Rightarrow> string \<Rightarrow> string \<Rightarrow> u32 option" where
  "LoadInstanceCount f pm ktname version =
     (let count = (\<lambda>v. case cf_kt f ktname v of None \<Rightarrow> None | Some b \<Rightarrow> kb_instance_count b)
      in case find_up pm (\<lambda>v. count v \<noteq> None) version of
           None \<Rightarrow> None
         | Some None \<Rightarrow> Some 0
         | Some (Some v) \<Rightarrow> count v)"

definition load_kt ::
  "capa_env \<Rightarrow> capa_file \<Rightarrow> parent_map \<Rightarrow> string \<Rightarrow> KtMap \<Rightarrow> CtrlrCapability \<Rightarrow> CtrlrCapability option" where
  "load_kt E f pm version k m =
     (case find_up pm (\<lambda>v. cf_kt f (kt_name k) v \<noteq> None) version of
        None \<Rightarrow> None
      | Some None \<Rightarrow> Some m
      | Some (Some v) \<Rightarrow>
          (case LoadInstanceCount f pm (kt_name k) v of
             None \<Rightarrow> None
           | Some n \<Rightarrow>
               (case LoadKtCapability E f pm k v (KtCapability_new\<lparr>kc_instance_count := n\<rparr>) of
                  None \<Rightarrow> None
                | Some (_, c) \<Rightarrow> Some (m(keytype k \<mapsto> c)))))"

fun load_kts ::
  "capa_env \<Rightarrow> capa_file \<Rightarrow> parent_map \<Rightarrow> string \<Rightarrow> KtMap list \<Rightarrow> CtrlrCapability \<Rightarrow> CtrlrCapability option" where
  "load_kts E f pm version [] m = Some m"
| "load_kts E f pm version (k # ks) m =
     (case load_kt E f pm version k m of
        None \<Rightarrow> None | Some m1 \<Rightarrow> load_kts E f pm version ks m1)"

definition LoadCtrlrCapability ::
  "capa_env \<Rightarrow> capa_file \<Rightarrow> parent_map \<Rightarrow> string \<Rightarrow> CtrlrCapability option" where
  "LoadCtrlrCapability E f pm version = load_kts E f pm version kt_map Map.empty"

definition Ctrlr_GetOpCapability ::
  "CapaFileAttrOperation \<Rightarrow> u32 \<Rightarrow> CtrlrCapability \<Rightarrow> bool \<times> capa_out" where
  "Ctrlr_GetOpCapability op k m =
     (case m k of None \<Rightarrow> (False, capa_out_none) | Some c \<Rightarrow> GetKtCapability op c)"

definition Ctrlr_GetCapability :: "u32 \<Rightarrow> CtrlrCapability \<Rightarrow> bool \<times> u32 option" where
  "Ctrlr_GetCapability k m =
     (case m k of None \<Rightarrow> (False, None) | Some c \<Rightarrow> (True, Some (kc_instance_count c)))"

section \<open>The module\<close>

record ActualVersion =
  major1 :: i32
  major2 :: i32
  minor :: i32
  update :: i32

record CapaCtrlrCommon =
  capa_map :: "string \<rightharpoonup> CtrlrCapability"
  actual_version_map :: "string \<rightharpoonup> ActualVersion list"

record CapaModule =
  parent_map :: parent_map
  ctrlr_common_map :: "unc_keytype_ctrtype_t \<rightharpoonup> CapaCtrlrCommon"

definition CapaCtrlrCommon_new :: CapaCtrlrCommon where
  "CapaCtrlrCommon_new = \<lparr>capa_map = Map.empty, actual_version_map = Map.empty\<rparr>"

definition LoadParentVersion :: "capa_file \<Rightarrow> string \<Rightarrow> parent_map \<Rightarrow> parent_map" where
  "LoadParentVersion f version pm =
     (case cf_version f version of
        None \<Rightarrow> pm(version \<mapsto> '''')
      | Some b \<Rightarrow> pm(version \<mapsto> (case vb_parent b of None \<Rightarrow> '''' | Some p \<Rightarrow> p)))"

text \<open>
  The actual versions of a version: four elements of an array each, which must have a size that is
  a multiple of four; elements beyond its end are 0 and the 32-bit index wraps. The size of an array that is not defined is
  -1, as an unsigned number not a multiple of four.
\<close>

definition int32at :: "i32 list \<Rightarrow> nat \<Rightarrow> i32" where
  "int32at xs n = (let i = n mod 2 ^ 32 in if i < length xs then xs ! i else 0)"

definition actual_at :: "i32 list \<Rightarrow> nat \<Rightarrow> ActualVersion" where
  "actual_at xs i = \<lparr>major1 = int32at xs (4 * i), major2 = int32at xs (4 * i + 1),
     minor = int32at xs (4 * i + 2), update = int32at xs (4 * i + 3)\<rparr>"

definition LoadActualVersion :: "capa_file \<Rightarrow> string \<Rightarrow> bool \<times> ActualVersion list" where
  "LoadActualVersion f version =
     (let b = cf_version f version;
          count = (case b of None \<Rightarrow> 0 | Some d \<Rightarrow> (case vb_actual_version_count d of None \<Rightarrow> 0 | Some n \<Rightarrow> n));
          xs = (case b of None \<Rightarrow> None | Some d \<Rightarrow> vb_actual_version d)
      in if count = 0 then (True, [])
         else case xs of
             None \<Rightarrow> (False, [])
           | Some ys \<Rightarrow>
               if length ys = 0 \<or> length ys mod 4 \<noteq> 0 then (False, [])
               else (True, map (actual_at ys) [0..<unat count]))"

text \<open>The versions of a file, one after the other; an actual version that cannot be read ends it.\<close>

fun load_versions ::
  "capa_env \<Rightarrow> capa_file \<Rightarrow> parent_map \<Rightarrow> string option list \<Rightarrow> CapaCtrlrCommon
     \<Rightarrow> (bool \<times> CapaCtrlrCommon) option" where
  "load_versions E f pm [] c = Some (True, c)"
| "load_versions E f pm (None # vs) c = load_versions E f pm vs c"
| "load_versions E f pm (Some v # vs) c =
     (case LoadCtrlrCapability E f pm v of
        None \<Rightarrow> None
      | Some m \<Rightarrow>
          (let c1 = c\<lparr>capa_map := (capa_map c)(v \<mapsto> m)\<rparr>
           in case LoadActualVersion f v of
                (False, _) \<Rightarrow> Some (False, c1)
              | (True, as) \<Rightarrow>
                  load_versions E f pm vs
                    (c1\<lparr>actual_version_map := (actual_version_map c1)(v \<mapsto> as)\<rparr>)))"

definition LoadCapabilityFile ::
  "capa_env \<Rightarrow> unc_keytype_ctrtype_t \<Rightarrow> CapaModule \<Rightarrow> (bool \<times> CapaModule) option" where
  "LoadCapabilityFile E t md =
     (if t \<noteq> UNC_CT_PFC \<and> t \<noteq> UNC_CT_VNP \<and> t \<noteq> UNC_CT_POLC \<and> t \<noteq> UNC_CT_ODC then Some (False, md)
      else case ctrlr_common_map md t of
          None \<Rightarrow> Some (False, md)
        | Some c \<Rightarrow>
            (let c1 = c\<lparr>capa_map := Map.empty\<rparr>;
                 md1 = md\<lparr>ctrlr_common_map := (ctrlr_common_map md)(t \<mapsto> c1)\<rparr>
             in case conf_open E t of
                  None \<Rightarrow> Some (False, md1)
                | Some f \<Rightarrow>
                    (case cf_names f of
                       None \<Rightarrow> Some (False, md1)
                     | Some names \<Rightarrow>
                         (let pm = fold (\<lambda>n pm. case n of None \<Rightarrow> pm | Some v \<Rightarrow> LoadParentVersion f v pm)
                                     names (parent_map md1)
                          in case load_versions E f pm names (c1\<lparr>actual_version_map := Map.empty\<rparr>) of
                               None \<Rightarrow> None
                             | Some (r, c2) \<Rightarrow>
                                 Some (r, md1\<lparr>parent_map := pm,
                                             ctrlr_common_map := (ctrlr_common_map md1)(t \<mapsto> c2)\<rparr>)))))"

fun load_files ::
  "capa_env \<Rightarrow> unc_keytype_ctrtype_t list \<Rightarrow> CapaModule \<Rightarrow> CapaModule option" where
  "load_files E [] md = Some md"
| "load_files E (t # ts) md =
     (case LoadCapabilityFile E t md of None \<Rightarrow> None | Some (_, md1) \<Rightarrow> load_files E ts md1)"

definition LoadCapabilityFiles :: "capa_env \<Rightarrow> CapaModule \<Rightarrow> CapaModule option" where
  "LoadCapabilityFiles E md = load_files E [UNC_CT_PFC, UNC_CT_VNP, UNC_CT_POLC, UNC_CT_ODC] md"

definition CapaModule_new :: CapaModule where
  "CapaModule_new = \<lparr>parent_map = Map.empty, ctrlr_common_map = Map.empty\<rparr>"

definition CapaModule_init :: "capa_env \<Rightarrow> CapaModule \<Rightarrow> (bool \<times> CapaModule) option" where
  "CapaModule_init E md =
     (let cm = (ctrlr_common_map md)(UNC_CT_PFC \<mapsto> CapaCtrlrCommon_new, UNC_CT_VNP \<mapsto> CapaCtrlrCommon_new,
                 UNC_CT_POLC \<mapsto> CapaCtrlrCommon_new, UNC_CT_ODC \<mapsto> CapaCtrlrCommon_new)
      in case LoadCapabilityFiles E (md\<lparr>ctrlr_common_map := cm\<rparr>) of
           None \<Rightarrow> None | Some md1 \<Rightarrow> Some (True, md1))"


section \<open>Queries\<close>

text \<open>The four getters differ in the array they return; only the one for creation has a count.\<close>

definition GetOpCapability ::
  "CapaFileAttrOperation \<Rightarrow> unc_keytype_ctrtype_t \<Rightarrow> string \<Rightarrow> unc_key_type_t \<Rightarrow> CapaModule \<Rightarrow> bool \<times> capa_out" where
  "GetOpCapability op t version k md =
     (case ctrlr_common_map md t of
        None \<Rightarrow> (False, capa_out_none)
      | Some c \<Rightarrow>
          (case capa_map c version of
             None \<Rightarrow> (False, capa_out_none) | Some m \<Rightarrow> Ctrlr_GetOpCapability op k m))"

definition GetInstanceCount ::
  "unc_keytype_ctrtype_t \<Rightarrow> string \<Rightarrow> unc_key_type_t \<Rightarrow> CapaModule \<Rightarrow> bool \<times> u32 option" where
  "GetInstanceCount t version k md =
     (case ctrlr_common_map md t of
        None \<Rightarrow> (False, None)
      | Some c \<Rightarrow>
          (case capa_map c version of None \<Rightarrow> (False, None) | Some m \<Rightarrow> Ctrlr_GetCapability k m))"

text \<open>The components of an actual version are compared as octets, unless they are -1.\<close>

definition u8_of :: "i32 \<Rightarrow> u8" where
  "u8_of i = word_of_int i"

definition accepts :: "ActualVersion \<Rightarrow> u8 \<Rightarrow> u8 \<Rightarrow> u8 \<Rightarrow> u8 \<Rightarrow> bool" where
  "accepts a v1 v2 v3 v4 \<longleftrightarrow>
     major1 a = - 1 \<or> u8_of (major1 a) < v1 \<or>
     u8_of (major1 a) = v1 \<and>
       (major2 a = - 1 \<or> u8_of (major2 a) < v2 \<or>
        u8_of (major2 a) = v2 \<and>
          (minor a = - 1 \<or> u8_of (minor a) < v3 \<or>
           u8_of (minor a) = v3 \<and> (update a = - 1 \<or> u8_of (update a) \<le> v4)))"

text \<open>An unknown controller type is the end of the map, whose contents are undefined.\<close>

definition ValidateVersion ::
  "unc_keytype_ctrtype_t \<Rightarrow> string \<Rightarrow> u8 \<Rightarrow> u8 \<Rightarrow> u8 \<Rightarrow> u8 \<Rightarrow> CapaModule \<Rightarrow> bool option" where
  "ValidateVersion t config_version v1 v2 v3 v4 md =
     (case ctrlr_common_map md t of
        None \<Rightarrow> None
      | Some c \<Rightarrow>
          (case actual_version_map c config_version of
             None \<Rightarrow> Some False
           | Some as \<Rightarrow> Some (list_ex (\<lambda>a. accepts a v1 v2 v3 v4) as)))"

definition GetSupportedVersion ::
  "unc_keytype_ctrtype_t \<Rightarrow> string \<Rightarrow> CapaModule \<Rightarrow> (bool \<times> (u8 \<times> u8 \<times> u8 \<times> u8) option) option" where
  "GetSupportedVersion t config_version md =
     (case ctrlr_common_map md t of
        None \<Rightarrow> None
      | Some c \<Rightarrow>
          (case actual_version_map c config_version of
             None \<Rightarrow> Some (False, None)
           | Some [] \<Rightarrow> None
           | Some (a # _) \<Rightarrow>
               Some (True, Some (u8_of (major1 a), u8_of (major2 a), u8_of (minor a), u8_of (update a)))))"

end
