(* ===== verification/CapaProps.thy ===== *)
theory CapaProps
  imports CapaModule
begin

text \<open>
  The properties of the capability module: what is loaded for a version is what a reference
  definition reads off the list of its ancestors, a cycle of parents hangs the load, and the
  validation of an actual version is a lexicographic comparison.
\<close>

section \<open>Versions and their ancestors\<close>

text \<open>The versions from a version upwards, up to the first that has no parent.\<close>

fun lineage :: "parent_map \<Rightarrow> string \<Rightarrow> string list \<Rightarrow> bool" where
  "lineage pm v [] \<longleftrightarrow> v = ''''"
| "lineage pm v (w # ws) \<longleftrightarrow> v \<noteq> '''' \<and> w = v \<and> lineage pm (GetCtrlrParentVersion pm v) ws"

lemma find_up_lineage: "lineage pm v vs \<Longrightarrow> find_up pm P v = Some (List.find P vs)"
  by (induction pm v vs rule: lineage.induct) (subst find_up.simps; simp)+

lemma lineage_from_found:
  assumes "lineage pm v vs" and "List.find P vs = Some u"
  shows "lineage pm u (dropWhile (\<lambda>w. \<not> P w) vs)"
  using assms by (induction pm v vs rule: lineage.induct) (auto split: if_splits)

lemma find_up_cycle:
  assumes "\<And>n. ((GetCtrlrParentVersion pm) ^^ n) v \<noteq> '''' \<and> \<not> P (((GetCtrlrParentVersion pm) ^^ n) v)"
  shows "find_up pm P v = None"
proof (rule ccontr)
  let ?up = "\<lambda>pm P v n. ((GetCtrlrParentVersion pm) ^^ n) v \<noteq> '''' \<and> \<not> P (((GetCtrlrParentVersion pm) ^^ n) v)"
  assume "find_up pm P v \<noteq> None"
  then obtain r where "find_up pm P v = Some r" by blast
  then have "\<not> (\<forall>n. ?up pm P v n)"
  proof (rule find_up.raw_induct [rotated, where P = "\<lambda>pm P v r. \<not> (\<forall>n. ?up pm P v n)"])
    fix f pm P v and r :: "string option"
    assume IH: "\<And>pm P v r. f pm P v = Some r \<Longrightarrow> \<not> (\<forall>n. ?up pm P v n)"
      and body: "(if v = '''' then Some None else if P v then Some (Some v)
        else f pm P (GetCtrlrParentVersion pm v)) = Some r"
    show "\<not> (\<forall>n. ?up pm P v n)"
    proof
      assume all: "\<forall>n. ?up pm P v n"
      then have "?up pm P v 0" by blast
      with body have "f pm P (GetCtrlrParentVersion pm v) = Some r" by simp
      from IH [OF this] obtain n where "\<not> ?up pm P (GetCtrlrParentVersion pm v) n" by blast
      then have "\<not> ?up pm P v (Suc n)" by (simp add: funpow_swap1)
      with all show False by blast
    qed
  qed
  with assms show False by blast
qed

text \<open>The reference: the definition in the nearest version that has one.\<close>

definition inherited :: "(string \<Rightarrow> 'a option) \<Rightarrow> string list \<Rightarrow> 'a option" where
  "inherited g vs = (case List.find (\<lambda>v. g v \<noteq> None) vs of None \<Rightarrow> None | Some v \<Rightarrow> g v)"


section \<open>Loading\<close>

definition caps_sized :: "nat \<Rightarrow> KtAttrCapability \<Rightarrow> bool" where
  "caps_sized n c \<longleftrightarrow> unat (ka_num_attrs c) = n \<and>
     (\<forall>op. \<exists>xs. ka_caps c op = Some xs \<and> length xs = max 1 n)"

definition cap_at :: "CapaFileAttrOperation \<Rightarrow> nat \<Rightarrow> KtAttrCapability \<Rightarrow> u8" where
  "cap_at op i c = the (ka_caps c op) ! i"

lemma init_sized:
  assumes "n < 2 ^ 32"
  shows "caps_sized n (KtAttrCapability_Init (word_of_nat n) c)"
    "i < n \<Longrightarrow> cap_at op i (KtAttrCapability_Init (word_of_nat n) c) = 0"
proof -
  have "unat (word_of_nat n :: u32) = n" using assms by (simp add: unat_of_nat)
  moreover from this have "(word_of_nat n :: u32) = 0 \<longleftrightarrow> n = 0" by (metis unat_eq_zero)
  ultimately show "caps_sized n (KtAttrCapability_Init (word_of_nat n) c)"
    "i < n \<Longrightarrow> cap_at op i (KtAttrCapability_Init (word_of_nat n) c) = 0"
    by (auto simp: caps_sized_def cap_at_def KtAttrCapability_Init_def)
qed

lemma set_attr_cap:
  assumes "caps_sized n c" and "i < n"
  shows "\<exists>c'. SetAttrCap i xs c = Some (True, c') \<and> caps_sized n c' \<and>
    (\<forall>op j. cap_at op j c' = (if j = i then xs ! capa_op op else cap_at op j c))"
proof -
  let ?c = "c\<lparr>ka_caps := \<lambda>op. map_option (\<lambda>a. a[i := xs ! capa_op op]) (ka_caps c op)\<rparr>"
  have sized: "\<exists>a. ka_caps c op = Some a \<and> length a = max 1 n" for op
    using assms(1) by (simp add: caps_sized_def)
  then have "case ka_caps c op of None \<Rightarrow> False | Some a \<Rightarrow> i < length a" for op
    using assms(2) by (metis (no_types, lifting) max.strict_coboundedI2 option.simps(5))
  moreover have "\<not> unat (ka_num_attrs c) < i" using assms by (simp add: caps_sized_def)
  ultimately have "SetAttrCap i xs c = Some (True, ?c)" by (simp add: SetAttrCap_def)
  moreover have "caps_sized n ?c" using assms sized by (fastforce simp: caps_sized_def)
  moreover have "cap_at op j ?c = (if j = i then xs ! capa_op op else cap_at op j c)" for op j
    using sized [of op] assms(2) by (auto simp: cap_at_def nth_list_update)
  ultimately show ?thesis by blast
qed

definition kt_flags :: "capa_file \<Rightarrow> string \<Rightarrow> string \<Rightarrow> string \<Rightarrow> bool list option" where
  "kt_flags f ktname a v = (case cf_kt f ktname v of None \<Rightarrow> None | Some b \<Rightarrow> kb_attrs b a)"

definition kt_count :: "capa_file \<Rightarrow> string \<Rightarrow> string \<Rightarrow> u32 option" where
  "kt_count f ktname v = (case cf_kt f ktname v of None \<Rightarrow> None | Some b \<Rightarrow> kb_instance_count b)"

definition flag :: "capa_env \<Rightarrow> bool list \<Rightarrow> CapaFileAttrOperation \<Rightarrow> u8" where
  "flag E xs op = (if conf_array_bool_range E xs 4 ! capa_op op then 1 else 0)"

lemma load_attr:
  assumes "lineage pm v vs" and "caps_sized n c" and "i < n"
  shows "\<exists>r c'. LoadAttrCapability E f pm ktname a i v c = Some (r, c') \<and> caps_sized n c' \<and>
    r = (inherited (kt_flags f ktname a) vs \<noteq> None) \<and>
    (\<forall>op j. cap_at op j c' =
       (if r \<and> j = i then flag E (the (inherited (kt_flags f ktname a) vs)) op else cap_at op j c))"
proof -
  let ?g = "kt_flags f ktname a"
  have load: "LoadAttrCapability E f pm ktname a i v c = (case List.find (\<lambda>v. ?g v \<noteq> None) vs of
      None \<Rightarrow> Some (False, c)
    | Some u \<Rightarrow> (case SetAttrCap i (map (\<lambda>b. if b then 1 else 0) (conf_array_bool_range E (the (?g u)) 4)) c of
        None \<Rightarrow> None | Some (_, c1) \<Rightarrow> Some (True, c1)))"
    using find_up_lineage [OF assms(1), of "\<lambda>v. ?g v \<noteq> None"]
    by (simp add: LoadAttrCapability_def kt_flags_def kNumberOfAvailability_def Let_def split: option.split)
  show ?thesis
  proof (cases "List.find (\<lambda>v. ?g v \<noteq> None) vs")
    case None
    then show ?thesis
      using assms(2) load by (intro exI [of _ False] exI [of _ c]) (simp add: inherited_def)
  next
    case (Some u)
    have len: "capa_op op < length (conf_array_bool_range E (the (?g u)) 4)" for op
      by (cases op) (auto simp: conf_array_bool_range_def)
    have "?g u \<noteq> None" using Some by (auto simp: find_Some_iff)
    with Some have i: "inherited ?g vs \<noteq> None" "inherited ?g vs = ?g u" by (auto simp: inherited_def)
    from set_attr_cap [OF assms(2,3)] obtain c' where
      "SetAttrCap i (map (\<lambda>b. if b then 1 else 0) (conf_array_bool_range E (the (?g u)) 4)) c = Some (True, c')"
      "caps_sized n c'" "\<forall>op j. cap_at op j c' = (if j = i then map (\<lambda>b. if b then 1 else 0)
        (conf_array_bool_range E (the (?g u)) 4) ! capa_op op else cap_at op j c)" by blast
    then show ?thesis
      using Some i len load by (intro exI [of _ True] exI [of _ c']) (simp add: flag_def)
  qed
qed

definition loaded_flag :: "capa_env \<Rightarrow> capa_file \<Rightarrow> string \<Rightarrow> string list \<Rightarrow> string list \<Rightarrow> nat \<Rightarrow> CapaFileAttrOperation \<Rightarrow> u8" where
  "loaded_flag E f ktname vs attrs i op =
     (if list_all (\<lambda>a. inherited (kt_flags f ktname a) vs \<noteq> None) (take (Suc i) attrs)
      then flag E (the (inherited (kt_flags f ktname (attrs ! i)) vs)) op else 0)"

lemma load_attrs_loaded:
  assumes "lineage pm v vs" and "caps_sized n c" and "i + length as \<le> n"
  shows "\<exists>r c'. load_attrs E f pm ktname v i as c = Some (r, c') \<and> caps_sized n c' \<and>
    (\<forall>op j. cap_at op j c' =
       (if i \<le> j \<and> j < i + length as \<and>
           list_all (\<lambda>a. inherited (kt_flags f ktname (attr_name a)) vs \<noteq> None) (take (Suc (j - i)) as)
        then flag E (the (inherited (kt_flags f ktname (attr_name (as ! (j - i)))) vs)) op
        else cap_at op j c))"
  using assms(2,3)
proof (induction as arbitrary: i c)
  case (Cons a as)
  let ?x = "inherited (kt_flags f ktname (attr_name a)) vs"
  obtain r c1 where one: "LoadAttrCapability E f pm ktname (attr_name a) i v c = Some (r, c1)"
      "caps_sized n c1" "r = (?x \<noteq> None)"
      "\<forall>op j. cap_at op j c1 = (if r \<and> j = i then flag E (the ?x) op else cap_at op j c)"
    using load_attr [OF assms(1) Cons.prems(1), of i E f ktname "attr_name a"] Cons.prems(2) by auto
  show ?case
  proof (cases r)
    case False
    with one show ?thesis by (auto simp: take_Suc_conv_app_nth)
  next
    case True
    then obtain r' c' where rest: "load_attrs E f pm ktname v (Suc i) as c1 = Some (r', c')"
        "caps_sized n c'"
        "\<forall>op j. cap_at op j c' =
          (if Suc i \<le> j \<and> j < Suc i + length as \<and>
              list_all (\<lambda>a. inherited (kt_flags f ktname (attr_name a)) vs \<noteq> None) (take (Suc (j - Suc i)) as)
           then flag E (the (inherited (kt_flags f ktname (attr_name (as ! (j - Suc i)))) vs)) op
           else cap_at op j c1)"
      using Cons.IH [OF one(2), of "Suc i"] Cons.prems(2) by auto
    have "cap_at op j c' =
       (if i \<le> j \<and> j < i + length (a # as) \<and>
           list_all (\<lambda>a. inherited (kt_flags f ktname (attr_name a)) vs \<noteq> None) (take (Suc (j - i)) (a # as))
        then flag E (the (inherited (kt_flags f ktname (attr_name ((a # as) ! (j - i)))) vs)) op
        else cap_at op j c)" for op j
    proof (cases "i < j")
      case True
      then have "j - i = Suc (j - Suc i)" by simp
      then show ?thesis using True \<open>r\<close> rest(3) one(3,4) by auto
    next
      case False
      then show ?thesis using \<open>r\<close> rest(3) one(3,4) by (cases "j = i") auto
    qed
    with True one(1) rest(1,2) show ?thesis by auto
  qed
qed auto

definition loaded :: "capa_env \<Rightarrow> capa_file \<Rightarrow> string list \<Rightarrow> KtMap \<Rightarrow> KtCapability option \<Rightarrow> bool" where
  "loaded E f vs k x \<longleftrightarrow>
     (let ws = dropWhile (\<lambda>w. cf_kt f (kt_name k) w = None) vs; n = length (attr_map k)
      in if ws = [] then x = None
         else \<exists>c a. x = Some c \<and> kc_attr_cap c = Some a \<and> caps_sized n a \<and>
           kc_instance_count c = (case inherited (kt_count f (kt_name k)) ws of None \<Rightarrow> 0 | Some m \<Rightarrow> m) \<and>
           (\<forall>op i. i < n \<longrightarrow> cap_at op i a = loaded_flag E f (kt_name k) ws (map attr_name (attr_map k)) i op))"

lemma load_instance_count:
  assumes "lineage pm v vs"
  shows "LoadInstanceCount f pm ktname v = Some (case inherited (kt_count f ktname) vs of None \<Rightarrow> 0 | Some m \<Rightarrow> m)"
proof -
  let ?g = "kt_count f ktname"
  have "LoadInstanceCount f pm ktname v = (case find_up pm (\<lambda>v. ?g v \<noteq> None) v of
      None \<Rightarrow> None | Some None \<Rightarrow> Some 0 | Some (Some v) \<Rightarrow> ?g v)"
    unfolding LoadInstanceCount_def kt_count_def Let_def by (rule refl)
  moreover have "List.find (\<lambda>v. ?g v \<noteq> None) vs = Some u \<Longrightarrow> ?g u \<noteq> None" for u
    by (auto simp: find_Some_iff)
  ultimately show ?thesis
    using find_up_lineage [OF assms, of "\<lambda>v. ?g v \<noteq> None"]
    by (auto simp: inherited_def split: option.splits)
qed

lemma load_kt_capability:
  assumes "lineage pm v vs" and "length (attr_map k) < 2 ^ 32"
  shows "\<exists>r a. LoadKtCapability E f pm k v c = Some (r, c\<lparr>kc_attr_cap := Some a\<rparr>) \<and>
    caps_sized (length (attr_map k)) a \<and>
    (\<forall>op i. i < length (attr_map k) \<longrightarrow>
       cap_at op i a = loaded_flag E f (kt_name k) vs (map attr_name (attr_map k)) i op)"
proof -
  let ?n = "length (attr_map k)" and ?a = "KtAttrCapability_Init (word_of_nat (length (attr_map k))) KtAttrCapability_new"
  obtain r a where l: "load_attrs E f pm (kt_name k) v 0 (attr_map k) ?a = Some (r, a)" "caps_sized ?n a"
      "\<forall>op j. cap_at op j a =
       (if 0 \<le> j \<and> j < 0 + ?n \<and>
           list_all (\<lambda>a. inherited (kt_flags f (kt_name k) (attr_name a)) vs \<noteq> None) (take (Suc (j - 0)) (attr_map k))
        then flag E (the (inherited (kt_flags f (kt_name k) (attr_name (attr_map k ! (j - 0)))) vs)) op
        else cap_at op j ?a)"
    using load_attrs_loaded [OF assms(1) init_sized(1) [OF assms(2)], of 0 "attr_map k" E f "kt_name k"] by fastforce
  have "cap_at op i a = loaded_flag E f (kt_name k) vs (map attr_name (attr_map k)) i op" if "i < ?n" for op i
    using l(3) [rule_format, of op i] that init_sized(2) [OF assms(2) that]
    by (auto simp: loaded_flag_def take_map list_all_iff cong: if_cong)
  with l(1,2) show ?thesis by (auto simp: LoadKtCapability_def Let_def)
qed

lemma load_kt_loaded:
  assumes "lineage pm v vs" and "length (attr_map k) < 2 ^ 32" and "m (keytype k) = None"
  shows "\<exists>m'. load_kt E f pm v k m = Some m' \<and> loaded E f vs k (m' (keytype k)) \<and>
    (\<forall>j. j \<noteq> keytype k \<longrightarrow> m' j = m j)"
proof -
  let ?P = "\<lambda>w. cf_kt f (kt_name k) w \<noteq> None" and ?ws = "dropWhile (\<lambda>w. cf_kt f (kt_name k) w = None) vs"
  note up = find_up_lineage [OF assms(1), of ?P]
  show ?thesis
  proof (cases "List.find ?P vs")
    case None
    then have "?ws = []" by (auto simp: find_None_iff)
    with None up assms(3) show ?thesis by (simp add: load_kt_def loaded_def)
  next
    case (Some u)
    then have "?ws \<noteq> []" by (auto simp: find_Some_iff)
    have l: "lineage pm u ?ws" using lineage_from_found [OF assms(1) Some] by simp
    let ?n = "case inherited (kt_count f (kt_name k)) ?ws of None \<Rightarrow> 0 | Some m \<Rightarrow> m"
    let ?c = "KtCapability_new\<lparr>kc_instance_count := ?n\<rparr>"
    obtain r a where c: "LoadKtCapability E f pm k u ?c = Some (r, ?c\<lparr>kc_attr_cap := Some a\<rparr>)"
        "caps_sized (length (attr_map k)) a" "\<forall>op i. i < length (attr_map k) \<longrightarrow>
          cap_at op i a = loaded_flag E f (kt_name k) ?ws (map attr_name (attr_map k)) i op"
      using load_kt_capability [OF l assms(2)] by blast
    have "load_kt E f pm v k m = Some (m(keytype k \<mapsto> ?c\<lparr>kc_attr_cap := Some a\<rparr>))"
      using Some up c(1) load_instance_count [OF l, of f "kt_name k"] by (simp add: load_kt_def)
    moreover have "loaded E f vs k (Some (?c\<lparr>kc_attr_cap := Some a\<rparr>))"
      unfolding loaded_def Let_def using \<open>?ws \<noteq> []\<close> c(2,3) by simp
    ultimately show ?thesis by simp
  qed
qed

lemma load_kts_loaded:
  assumes "lineage pm v vs" and "\<forall>k \<in> set ks. length (attr_map k) < 2 ^ 32 \<and> m (keytype k) = None"
    and "distinct (map keytype ks)"
  shows "\<exists>m'. load_kts E f pm v ks m = Some m' \<and> (\<forall>k \<in> set ks. loaded E f vs k (m' (keytype k))) \<and>
    (\<forall>j. j \<notin> keytype ` set ks \<longrightarrow> m' j = m j)"
  using assms(2,3)
proof (induction ks arbitrary: m)
  case (Cons k ks)
  obtain m1 where one: "load_kt E f pm v k m = Some m1" "loaded E f vs k (m1 (keytype k))"
      "\<forall>j. j \<noteq> keytype k \<longrightarrow> m1 j = m j"
    using load_kt_loaded [OF assms(1), of k m E f] Cons.prems(1) by auto
  have "\<forall>k \<in> set ks. length (attr_map k) < 2 ^ 32 \<and> m1 (keytype k) = None"
    using Cons.prems one(3) by (auto simp: image_iff)
  from Cons.IH [OF this] Cons.prems(2) obtain m' where
    "load_kts E f pm v ks m1 = Some m'" "\<forall>k \<in> set ks. loaded E f vs k (m' (keytype k))"
    "\<forall>j. j \<notin> keytype ` set ks \<longrightarrow> m' j = m1 j" by auto
  with one Cons.prems(2) show ?case by auto
qed simp

text \<open>The table: the indices are the positions, and no key type or name of a block occurs twice.\<close>

lemma kt_map_consistent:
  "list_all (\<lambda>k. map attr_index (attr_map k) = map word_of_nat [0..<length (attr_map k)]) kt_map"
  "distinct (map keytype kt_map)" "distinct (map kt_name kt_map)"
  "list_all (\<lambda>k. length (attr_map k) < 100) kt_map"
  by code_simp+

lemma load_ctrlr_loaded:
  assumes "lineage pm v vs"
  shows "\<exists>m. LoadCtrlrCapability E f pm v = Some m \<and> (\<forall>k \<in> set kt_map. loaded E f vs k (m (keytype k)))"
proof -
  have "\<forall>k \<in> set kt_map. length (attr_map k) < 2 ^ 32 \<and> Map.empty (keytype k) = (None :: KtCapability option)"
    using kt_map_consistent(4) by (force simp: list_all_iff)
  from load_kts_loaded [OF assms this kt_map_consistent(2)] show ?thesis
    unfolding LoadCtrlrCapability_def by blast
qed

section \<open>Comparing versions\<close>

lemma lex_step:
  assumes "x = - 1 \<or> 0 \<le> x \<and> x \<le> 255"
  shows "lexordp_eq (takeWhile (\<lambda>x. x \<noteq> - 1) (x # xs)) (uint (w :: u8) # ys) \<longleftrightarrow>
    x = - 1 \<or> u8_of x < w \<or> u8_of x = w \<and> lexordp_eq (takeWhile (\<lambda>x. x \<noteq> - 1) xs) ys"
proof (cases "x = - 1")
  case False
  with assms have "uint (u8_of x) = x" by (simp add: u8_of_def uint_word_of_int)
  then have "u8_of x < w \<longleftrightarrow> x < uint w" "u8_of x = w \<longleftrightarrow> x = uint w"
    by (auto simp: word_less_def word_uint_eq_iff)
  with False show ?thesis by auto
qed simp

section \<open>Properties\<close>

text \<open>
  C39. What is loaded is what the ancestors define. When the chain of parents of a version ends,
  loading ends without an access outside an array, and for every key type of the table the getters
  answer exactly by the versions from the nearest one with a block of the key type upwards: the
  instance count is that of the nearest version with one, or 0; there is an octet for every
  attribute; an attribute has the flag of the nearest version that defines it, provided that it
  and all attributes before it are defined somewhere, and 0 otherwise. Without a block the key type
  is not supported.
\<close>

theorem capability_inherited:
  assumes "lineage pm v vs" and "k \<in> set kt_map" and "ws = dropWhile (\<lambda>w. cf_kt f (kt_name k) w = None) vs"
  shows "\<exists>m. LoadCtrlrCapability E f pm v = Some m \<and>
    (if ws = [] then Ctrlr_GetOpCapability op (keytype k) m = (False, capa_out_none)
     else \<exists>xs. Ctrlr_GetOpCapability op (keytype k) m = (True,
         \<lparr>co_instance_count = (if op = kCapaConfCreate
            then Some (case inherited (kt_count f (kt_name k)) ws of None \<Rightarrow> 0 | Some n \<Rightarrow> n) else None),
          co_num_attrs = Some (word_of_nat (length (attr_map k))), co_attrs = Some xs\<rparr>) \<and>
       length xs = max 1 (length (attr_map k)) \<and>
       (\<forall>i < length (attr_map k).
          xs ! i = loaded_flag E f (kt_name k) ws (map attr_name (attr_map k)) i op))"
proof -
  obtain m where m: "LoadCtrlrCapability E f pm v = Some m" "loaded E f vs k (m (keytype k))"
    using load_ctrlr_loaded [OF assms(1)] assms(2) by blast
  show ?thesis
  proof (cases "ws = []")
    case True
    with m show ?thesis
      unfolding loaded_def Let_def assms(3) [symmetric] by (simp add: Ctrlr_GetOpCapability_def)
  next
    case False
    with m(2) obtain c a where c: "m (keytype k) = Some c" "kc_attr_cap c = Some a"
        "caps_sized (length (attr_map k)) a"
        "kc_instance_count c = (case inherited (kt_count f (kt_name k)) ws of None \<Rightarrow> 0 | Some m \<Rightarrow> m)"
        "\<forall>op i. i < length (attr_map k) \<longrightarrow>
          cap_at op i a = loaded_flag E f (kt_name k) ws (map attr_name (attr_map k)) i op"
      unfolding loaded_def Let_def assms(3) by (auto split: if_splits)
    have "word_of_nat (unat (ka_num_attrs a)) = ka_num_attrs a" by simp
    then have "ka_num_attrs a = word_of_nat (length (attr_map k))"
      using c(3) unfolding caps_sized_def by metis
    moreover obtain xs where "ka_caps a op = Some xs" "length xs = max 1 (length (attr_map k))"
      using c(3) unfolding caps_sized_def by blast
    moreover from this c(5) have "\<forall>i < length (attr_map k).
        xs ! i = loaded_flag E f (kt_name k) ws (map attr_name (attr_map k)) i op"
      by (metis cap_at_def option.sel)
    ultimately show ?thesis
      using m(1) c(1,2,4) False
      by (simp add: Ctrlr_GetOpCapability_def GetKtCapability_def GetAttrCapability_def capa_out_none_def)
  qed
qed

text \<open>A file with two versions, the second of which inherits the VLAN mappings of the first.\<close>

definition sample_parents :: parent_map where
  "sample_parents = [''v2'' \<mapsto> ''v1'', ''v1'' \<mapsto> '''']"

definition sample_capa :: capa_file where
  "sample_capa = \<lparr>cf_names = Some [Some ''v1'', Some ''v2''], cf_version = Map.empty,
     cf_kt = \<lambda>k v. if k = ''vlan_map'' \<and> v = ''v1''
       then Some \<lparr>kb_instance_count = Some 9, kb_attrs = [''vlan_id'' \<mapsto> [True, False, True, False]]\<rparr> else None\<rparr>"

definition no_capa_files :: capa_env where
  "no_capa_files = \<lparr>conf_open = \<lambda>_. None, fresh_bool = \<lambda>_. False\<rparr>"

theorem capability_inherited_witness:
  "\<exists>m. LoadCtrlrCapability no_capa_files sample_capa sample_parents ''v2'' = Some m \<and>
     Ctrlr_GetOpCapability kCapaConfRead UNC_KT_VBR_VLANMAP m =
       (True, \<lparr>co_instance_count = None, co_num_attrs = Some 1, co_attrs = Some [1]\<rparr>)"
proof -
  let ?k = "kt_row ''vlan_map'' UNC_KT_VBR_VLANMAP kam_vlan_map"
  let ?drop = "dropWhile (\<lambda>w. cf_kt sample_capa (kt_name ?k) w = None) [''v2'', ''v1'']"
  have l: "lineage sample_parents ''v2'' [''v2'', ''v1'']" by code_simp
  have k: "?k \<in> set kt_map" by (simp add: kt_map_def)
  have ws: "[''v1''] = ?drop" by code_simp
  have row: "kt_name ?k = ''vlan_map''" "keytype ?k = UNC_KT_VBR_VLANMAP" "length (attr_map ?k) = 1"
    by (simp_all add: kt_row_def kam_vlan_map_def)
  have flag: "loaded_flag no_capa_files sample_capa ''vlan_map'' [''v1''] (map attr_name (attr_map ?k)) 0 kCapaConfRead = 1"
    by code_simp
  have "\<exists>m. LoadCtrlrCapability no_capa_files sample_capa sample_parents ''v2'' = Some m \<and>
      (\<exists>xs. Ctrlr_GetOpCapability kCapaConfRead UNC_KT_VBR_VLANMAP m = (True,
        \<lparr>co_instance_count = None, co_num_attrs = Some (word_of_nat 1), co_attrs = Some xs\<rparr>) \<and>
       length xs = max 1 1 \<and> (\<forall>i < 1. xs ! i =
         loaded_flag no_capa_files sample_capa ''vlan_map'' [''v1''] (map attr_name (attr_map ?k)) i kCapaConfRead))"
    using capability_inherited [OF l k ws, of no_capa_files kCapaConfRead] unfolding row by simp
  then obtain m xs where "LoadCtrlrCapability no_capa_files sample_capa sample_parents ''v2'' = Some m"
      "Ctrlr_GetOpCapability kCapaConfRead UNC_KT_VBR_VLANMAP m = (True,
        \<lparr>co_instance_count = None, co_num_attrs = Some (word_of_nat 1), co_attrs = Some xs\<rparr>)"
      "length xs = 1" "xs ! 0 = 1"
    using flag by auto
  then show ?thesis by (auto simp: length_Suc_conv)
qed

text \<open>
  A cycle of parents hangs the module. When the chain of parents of a version never ends and
  none of its versions has a block of some key type of the table, loading the version never
  returns; it runs under the write lock of the module, so that every query waits for ever.
\<close>

theorem parent_cycle_hangs:
  assumes "k \<in> set kt_map" and "\<And>n. ((GetCtrlrParentVersion pm) ^^ n) v \<noteq> ''''"
    and "\<And>n. cf_kt f (kt_name k) (((GetCtrlrParentVersion pm) ^^ n) v) = None"
  shows "LoadCtrlrCapability E f pm v = None"
proof -
  have "find_up pm (\<lambda>v. cf_kt f (kt_name k) v \<noteq> None) v = None"
    using assms(2,3) by (intro find_up_cycle) simp
  then have hang: "load_kt E f pm v k m = None" for m by (simp add: load_kt_def)
  have "load_kts E f pm v ks m = None" if "k \<in> set ks" for ks m
    using that by (induction ks arbitrary: m) (auto simp: hang split: option.split)
  with assms(1) show ?thesis by (simp add: LoadCtrlrCapability_def)
qed

theorem parent_cycle_hangs_witness:
  "LoadCtrlrCapability no_capa_files sample_capa [''v1'' \<mapsto> ''v2'', ''v2'' \<mapsto> ''v1''] ''v2'' = None"
proof (rule parent_cycle_hangs)
  let ?pm = "[''v1'' \<mapsto> ''v2'', ''v2'' \<mapsto> ''v1'']"
  have chain: "((GetCtrlrParentVersion ?pm) ^^ n) ''v2'' \<in> {''v1'', ''v2''}" for n
    by (induction n) (auto simp: GetCtrlrParentVersion_def)
  show "((GetCtrlrParentVersion ?pm) ^^ n) ''v2'' \<noteq> ''''" for n using chain [of n] by auto
  show "kt_row ''vtn'' UNC_KT_VTN kam_vtn \<in> set kt_map" by (simp add: kt_map_def)
qed (simp add: sample_capa_def kt_row_def)

text \<open>
  C40. Validating a version is a lexicographic comparison. For components between 0 and 255, and -1
  for a component that does not matter, an actual version of a controller is accepted for a
  configured version exactly if one of the version numbers of the file, cut at its first -1, is
  lexicographically at most the actual one.
\<close>

theorem version_check_lexicographic:
  assumes "ctrlr_common_map md t = Some c" and "actual_version_map c config_version = Some as"
    and "\<forall>a \<in> set as. \<forall>x \<in> {major1 a, major2 a, minor a, update a}. - 1 \<le> x \<and> x \<le> 255"
  shows "ValidateVersion t config_version v1 v2 v3 v4 md =
    Some (\<exists>a \<in> set as. lexordp_eq (takeWhile (\<lambda>x. x \<noteq> - 1) [major1 a, major2 a, minor a, update a])
            [uint v1, uint v2, uint v3, uint v4])"
proof -
  have "accepts a v1 v2 v3 v4 \<longleftrightarrow>
      lexordp_eq (takeWhile (\<lambda>x. x \<noteq> - 1) [major1 a, major2 a, minor a, update a]) [uint v1, uint v2, uint v3, uint v4]"
    if "a \<in> set as" for a
  proof -
    have r: "x = - 1 \<or> 0 \<le> x \<and> x \<le> 255" if "x \<in> {major1 a, major2 a, minor a, update a}" for x
      using assms(3) \<open>a \<in> set as\<close> that by force
    have "u8_of (update a) \<le> v4 \<longleftrightarrow> u8_of (update a) < v4 \<or> u8_of (update a) = v4 \<and> lexordp_eq ([] :: int list) []"
      by (auto simp: le_less)
    then show ?thesis
      unfolding accepts_def using r by (simp add: lex_step del: takeWhile.simps)
  qed
  with assms(1,2) show ?thesis by (auto simp: ValidateVersion_def list_ex_iff)
qed

definition sample_checker :: CapaModule where
  "sample_checker = CapaModule_new\<lparr>ctrlr_common_map := [UNC_CT_ODC \<mapsto> CapaCtrlrCommon_new\<lparr>actual_version_map :=
     [''1.0'' \<mapsto> [\<lparr>major1 = 1, major2 = 2, minor = - 1, update = 0\<rparr>]]\<rparr>]\<rparr>"

theorem version_check_lexicographic_witness:
  "ValidateVersion UNC_CT_ODC ''1.0'' 1 3 0 0 sample_checker = Some True \<and>
   ValidateVersion UNC_CT_ODC ''1.0'' 1 1 9 9 sample_checker = Some False"
proof -
  have c: "ctrlr_common_map sample_checker UNC_CT_ODC = Some (CapaCtrlrCommon_new\<lparr>actual_version_map :=
      [''1.0'' \<mapsto> [\<lparr>major1 = 1, major2 = 2, minor = - 1, update = 0\<rparr>]]\<rparr>)"
    by (simp add: sample_checker_def)
  show ?thesis
    using version_check_lexicographic [OF c, of "''1.0''" _ 1 3 0 0] version_check_lexicographic [OF c, of "''1.0''" _ 1 1 9 9]
    by simp
qed

end
