(* ===== verification/Spec2Isabelle.thy ===== *)
theory Spec2Isabelle
  imports TcLockProps TcMsgProps TcDbProps TcLifeCycle TclibProps UsessProps CapaProps
begin

text \<open>
  Verification of the transaction coordinator, the user session manager and the capability module
  of the VTN coordinator.

  \<^bold>\<open>The program.\<close> The VTN coordinator configures virtual tenant networks on the controllers of
  a data centre. Its transaction coordinator (TC, \<^verbatim>\<open>src/coordinator/modules/tc\<close>) is a daemon module
  that serializes what clients do to the configuration. Clients ask it over IPC for configuration
  sessions, commits, aborts, audits of a controller, operations on the startup configuration, read
  sessions and settings. The TC decides by its lock manager who may proceed, drives a two phase
  commit over the logical layer (upll), the physical layer (uppl) and the drivers, and records the
  interrupted operation in a database so that a failover can resume. The daemons link the library
  \<^verbatim>\<open>src/coordinator/modules/tclib\<close>, which receives the messages of the TC, checks their order with
  an automaton and calls the handlers of the daemon. Both ends share the IPC helpers of
  \<^verbatim>\<open>src/coordinator/libs/libtc_common\<close>. The user session manager
  (\<^verbatim>\<open>src/coordinator/modules/usess\<close>) runs in the process of the TC: it checks users and passwords in
  the management database (\<^verbatim>\<open>src/coordinator/libs/mgmt/libuncmgmtdb\<close>), hands out the session
  identifiers that clients present to the TC, and tells the TC when a session ends. The capability
  module (\<^verbatim>\<open>src/coordinator/modules/capa\<close>) answers which attributes of which key types a version of a
  controller supports.

  \<^bold>\<open>The shape of the model.\<close> Integers keep their width (\<open>u8\<close>, \<open>u32\<close>, \<open>u64\<close> are words);
  \<^verbatim>\<open>std::map\<close> is an ordered association list, or a partial function where nothing iterates over it; classes are records, and a subclass extends the
  record of its base; virtual methods are records of functions; errors are values. What is outside
  the process (transport, peers, database, clock, launcher) is a parameter: an environment that
  answers each call as a function of the history of calls and answers, so that a theorem holds for
  every behaviour of the peers. A result \<open>None\<close> of a method is a process that was aborted (a
  failed \<^verbatim>\<open>PFC_VERIFY\<close>, a null pointer) or a call that does not return. Each method that runs
  under the mutex of its object is one function; interleavings are sequences of such steps.

  \<^bold>\<open>Foundations.\<close>
  \<^item> \<open>TcPrelude\<close>: machine integers, the ordered map with its contract (locale \<open>ordered_map\<close>,
    interpreted on the sorted association list), the collections of rewrite rules.
  \<^item> \<open>TcTypes\<close>: the enumerations and result codes, with their numbers on the wire.

  \<^bold>\<open>Locking.\<close>
  \<^item> \<open>TcRwLock\<close> (\<^verbatim>\<open>tc_module_data.hh\<close>): the readers/writer lock with its 32-bit owner word; the
    abstract lock \<open>rw_view\<close> and the contract \<open>rw_contract\<close> that the lock manager uses.
  \<^item> \<open>TcLockMgr\<close> (\<^verbatim>\<open>tc_lock.cc\<close>): every method of \<^verbatim>\<open>TcLock\<close>. \<open>TcLockInv\<close>, \<open>TcLockSys\<close>: its
    invariant, that every method keeps it, and the step relation under arbitrary interleavings of
    the callers. \<open>TcLockProps\<close>: exclusion of readers, writer and state transition; the
    configuration sessions; the protection of a running commit; the admission of operations in
    each state; the stop state; the configuration identifiers across the wrap-around.

  \<^bold>\<open>Messages to the daemons.\<close>
  \<^item> \<open>TcIpc\<close> (\<^verbatim>\<open>libtc_client_sess_utils.cc\<close>, \<^verbatim>\<open>libtc_server_sess_utils.cc\<close>): sessions, connections,
    output and input of values, and the history of calls.
  \<^item> \<open>TcMsg\<close>, \<open>TcMsgCommit\<close>, \<open>TcMsgAudit\<close>, \<open>TcMsgFactory\<close> (\<^verbatim>\<open>tcmsg.cc\<close>, \<^verbatim>\<open>tcmsg_commit.cc\<close>,
    \<^verbatim>\<open>tcmsg_audit.cc\<close>): the message classes, their \<^verbatim>\<open>Execute\<close> methods and the factory.
  \<^item> \<open>TcMsgTrace\<close>: what the peers see of a message. \<open>TcCommitProps\<close>, \<open>TcVoteProps\<close>: the start of a
    transaction is all or nothing, the end reaches everyone in reverse order, a phase succeeds only
    unanimously, an aborted vote is revoked at everyone who agreed, controller lists are merged
    without loss. \<open>TcMsgProps\<close>: the table of open sessions and the getters.

  \<^bold>\<open>Database.\<close> \<open>TcDb\<close> (\<^verbatim>\<open>tc_db_handler.cc\<close>): the statements and the protocol of handles.
  \<open>TcDbProps\<close>: the balance of statement handles, the handles of a connection, the numbers in the
  texts of the statements.

  \<^bold>\<open>Operations.\<close>
  \<^item> \<open>TcOper\<close> (\<^verbatim>\<open>tc_operations.cc\<close>): the state of the coordinator and the template method
    \<^verbatim>\<open>Dispatch\<close> over the virtual methods of a class.
  \<^item> \<open>TcConfigOps\<close>, \<open>TcWaitQueue\<close>, \<open>TcUserOps\<close>, \<open>TcCandidateOps\<close>, \<open>TcStartUpOps\<close>, \<open>TcAuditOps\<close>
    (\<^verbatim>\<open>tc_config_operations.cc\<close>, \<^verbatim>\<open>tc_db_operations.cc\<close>, \<^verbatim>\<open>tc_read_operations.cc\<close>,
    \<^verbatim>\<open>tc_read_status_operations.cc\<close>, \<^verbatim>\<open>tc_autosave_operations.cc\<close>, \<^verbatim>\<open>tc_candidate_operations.cc\<close>,
    \<^verbatim>\<open>tc_startup_operations.cc\<close>, \<^verbatim>\<open>tc_audit_operations.cc\<close>, \<^verbatim>\<open>tc_taskq.cc\<close>): the classes.
  \<^item> \<open>TcModule\<close> (\<^verbatim>\<open>tc_module.cc\<close>, \<^verbatim>\<open>tc_unc_states.cc\<close>, \<^verbatim>\<open>tc_lnc_event_handler.cc\<close>): the
    requests of clients, the calls of the session manager, the events and the channels.
  \<^item> \<open>TcFrame\<close>, \<open>TcExclusion\<close>, \<open>TcMoves\<close>: what the methods leave alone; the locale \<open>exclusion\<close>
    (what a class takes before its messages it gives back, on every path of \<^verbatim>\<open>Dispatch\<close>),
    interpreted on every class that locks while it runs; the locales \<open>preorder_rel\<close>, \<open>moving_ops\<close>
    and \<open>lock_rel\<close>, which lift a relation on the lock manager from its methods to all requests.
  \<^item> \<open>TcOperProps\<close>, \<open>TcReplyProps\<close>, \<open>TcAuditProps\<close>, \<open>TcLifeCycle\<close>: the exclusion is given back,
    waiters are woken by a stop, a driver audit that waits returns exactly when it is answered, a
    cancelled audit leaves no trace, the responses and the read status, and the invariant of the
    life cycle as a transition system over events, requests, timers and audits.

  \<^bold>\<open>The daemon side.\<close>
  \<^item> \<open>TclibMsg\<close> (\<^verbatim>\<open>tclib_msg_util.cc\<close>, \<^verbatim>\<open>tclib_struct_defs.hh\<close>): reading the messages.
  \<^item> \<open>TclibState\<close>, \<open>TclibResults\<close>, \<open>TclibModule\<close> (\<^verbatim>\<open>tclib_module.cc\<close>): the table of
    configuration sessions, the automata of the operation types, the results of the drivers, the
    services, the dispatcher and the request for an audit. The interface that a daemon registers is
    a parameter.
  \<^item> \<open>TclibWire\<close>: what the TC puts into a message is what the daemon reads. \<open>TclibFrame\<close>: what
    services and handlers cannot change (locales \<open>write_view\<close>, \<open>handler_view\<close>, \<open>service_view\<close>).
    \<open>TclibReports\<close>: the results of a driver reach the layer. \<open>TclibProps\<close>: sequences of requests:
    the session table as a refinement of a partial function, a whole commit, refusals, the
    cancellation of an audit, the count of requests.

  \<^bold>\<open>User sessions.\<close>
  \<^item> \<open>UsessDb\<close> (\<^verbatim>\<open>mgmt_database.cc\<close>): the connection of the management database with its one
    transaction; every call of ODBC is recorded.
  \<^item> \<open>UsessConf\<close> (\<^verbatim>\<open>usess_conf_*.cc\<close>): the settings. \<open>UsessTable\<close> (\<^verbatim>\<open>usess_sessions.cc\<close>,
    \<^verbatim>\<open>usess_session.cc\<close>): the table of sessions, identifiers, limits, privileges, and the calls of the
    coordinator. \<open>UsessAuth\<close> (\<^verbatim>\<open>usess_base_common.cc\<close>, \<^verbatim>\<open>usess_user.cc\<close>, \<^verbatim>\<open>usess_users.cc\<close>,
    \<^verbatim>\<open>usess_enable.cc\<close>): digests, users and the enable password, with \<^verbatim>\<open>crypt_r\<close> and the regular
    expressions of the C library as parameters. \<open>UsessModule\<close> (\<^verbatim>\<open>usess.cc\<close>): the ten services, start,
    stop and reload. What other requests do while a login waits for its password is a parameter.
  \<^item> \<open>UsessFrame\<close>: the locales \<open>core_rel\<close>, \<open>enable_rel\<close>, \<open>request_rel\<close> and \<open>usess_rel\<close>, which lift a
    relation between states from the operations on the table to all services. \<open>UsessIds\<close>: the
    searches for an identifier and the counts. \<open>UsessSound\<close>: the invariant of the table, kept by its
    operations. \<open>UsessServe\<close>: the process as a transition system whose requests interleave with each
    other and with the steps of the coordinator, and the interpretations of the locales.
    \<open>UsessPasswd\<close>: the calls that change a password. \<open>UsessProps\<close>: the table stays sound, the
    coordinator keeps to its life cycle, enable mode needs a password, passwords are committed, and
    what a reload and a transaction that cannot be ended lead to.

  \<^bold>\<open>Capabilities.\<close> \<open>CapaTables\<close> (\<^verbatim>\<open>ctrlr_capa_defines.cc\<close>): the table of key types and attributes.
  \<open>CapaModule\<close> (\<^verbatim>\<open>ctrlr_capability.cc\<close>, \<^verbatim>\<open>capa_module.cc\<close>): loading the files with inheritance from
  parent versions, the getters, and the validation of versions. \<open>CapaProps\<close>: the getters agree with a
  reference definition over the list of ancestors, a cycle of parents hangs the load, and the
  validation is a lexicographic comparison.

  \<^bold>\<open>Loops.\<close> Six loops may run for ever and are \<^verbatim>\<open>partial_function\<close>s: \<open>wait_loop\<close>, the wait of a
  driver audit, whose termination is characterized exactly; \<open>audit_until_done\<close>, which starts a
  cancelled driver audit again; \<open>search_up\<close>, the search for a free session identifier, which is
  shown to end; \<open>authenticate_user\<close> and \<open>enable_session\<close>, which repeat a wrong password as often as the
  settings say; the code always sets this number to 0; and \<open>find_up\<close>, the search through the parents of
  a version, which ends when the chain does and never on an endless chain without a definition. No function uses fuel; all others terminate.

  \<^bold>\<open>Not modelled.\<close> Texts of the log, thread creation and the primitives of the PFC core (mutexes,
  condition variables, timers, task queues and IPC), which are used through their documented
  behaviour; the layers and drivers themselves (upll, uppl, odcdriver and its libraries), which are
  peers of the protocol here; the alarm and launcher modules; the data access layer, of
  which the database handler of the TC makes no use; the Java API and the plugins. The services of
  the daemon side run one at a time, although the code lets a cancellation run beside another
  service. The invariant of the user sessions is stated for runs without a reload of the settings;
  what a reload can do to it is a theorem of its own.
\<close>

end
